(* ===== verification/Prelude.thy ===== *)
theory Prelude
  imports Main "HOL-Library.List_Lexorder" "HOL-Library.Char_ord" "HOL-Library.Product_Lexorder"
begin

text \<open>
  Shared vocabulary of the development: Python exceptions as values, the result type of code
  that may raise, optional values, stable sorting by a key, and the collections of rewrite
  rules that the component theories extend.

  A Python function that may raise returns \<open>py_error + 'a\<close>: \<open>Inl e\<close> is the raised
  exception, \<open>Inr v\<close> the returned value.  \<open>rbind\<close> runs one step after another and
  stops at the first exception; \<open>require\<close> is a guard that raises.
\<close>

section \<open>Exceptions and results\<close>

text \<open>
  The exception classes the code raises or lets through.  \<open>External\<close> is an exception that
  comes out of code outside the repository (the broker SDK, the database driver); it carries
  the class name, which is all that the code ever reads of it.
\<close>

datatype py_error =
    ValueError string
  | ValidationError string
  | InvalidOptionStructure string
  | DivisionByZero
  | InvalidOperation
  | IndexError
  | KeyError string
  | AssertionError
  | RuntimeError string
  | PermissionError string
  | DuplicateSubmission string
  | ExecutionBlocked string
  | HTTPException nat string
  | OverflowError
  | CredentialConfigurationError string
  | AuthenticationError string
  | SupabaseAdminError string
  | RegistrationUnavailable string
  | InvalidDemoSession string
  | StructuredOutputError string
  | External string

type_synonym 'a result = "py_error + 'a"

text \<open>\<open>type(error).__name__\<close>, which the code stores in failure reasons and error details.\<close>

fun error_name :: "py_error \<Rightarrow> string" where
  "error_name (ValueError _) = ''ValueError''"
| "error_name (ValidationError _) = ''ValidationError''"
| "error_name (InvalidOptionStructure _) = ''InvalidOptionStructure''"
| "error_name DivisionByZero = ''DivisionByZero''"
| "error_name InvalidOperation = ''InvalidOperation''"
| "error_name IndexError = ''IndexError''"
| "error_name (KeyError _) = ''KeyError''"
| "error_name AssertionError = ''AssertionError''"
| "error_name (RuntimeError _) = ''RuntimeError''"
| "error_name (PermissionError _) = ''PermissionError''"
| "error_name (DuplicateSubmission _) = ''DuplicateSubmission''"
| "error_name (ExecutionBlocked _) = ''ExecutionBlocked''"
| "error_name (HTTPException _ _) = ''HTTPException''"
| "error_name OverflowError = ''OverflowError''"
| "error_name (CredentialConfigurationError _) = ''CredentialConfigurationError''"
| "error_name (AuthenticationError _) = ''AuthenticationError''"
| "error_name (SupabaseAdminError _) = ''SupabaseAdminError''"
| "error_name (RegistrationUnavailable _) = ''RegistrationUnavailable''"
| "error_name (InvalidDemoSession _) = ''InvalidDemoSession''"
| "error_name (StructuredOutputError _) = ''StructuredOutputError''"
| "error_name (External n) = n"

named_theorems model_simps \<open>equations that run the model\<close>
named_theorems guard_simps \<open>what it means for a guard to pass\<close>

definition rbind :: "'a result \<Rightarrow> ('a \<Rightarrow> 'b result) \<Rightarrow> 'b result" where
  "rbind m f = (case m of Inl e \<Rightarrow> Inl e | Inr x \<Rightarrow> f x)"

definition require :: "bool \<Rightarrow> py_error \<Rightarrow> unit result" where
  "require c e = (if c then Inr () else Inl e)"

lemma rbind_Inl [simp]: "rbind (Inl e) f = Inl e"
  by (simp add: rbind_def)

lemma rbind_Inr [simp]: "rbind (Inr x) f = f x"
  by (simp add: rbind_def)

lemma rbind_eq_Inr [guard_simps]:
  "rbind m f = Inr y \<longleftrightarrow> (\<exists>x. m = Inr x \<and> f x = Inr y)"
  by (cases m) auto

lemma rbind_eq_Inl:
  "rbind m f = Inl e \<longleftrightarrow> m = Inl e \<or> (\<exists>x. m = Inr x \<and> f x = Inl e)"
  by (cases m) auto

lemma require_True [simp]: "require True e = Inr ()"
  by (simp add: require_def)

lemma require_False [simp]: "require False e = Inl e"
  by (simp add: require_def)

lemma require_eq_Inr [simp]: "require c e = Inr u \<longleftrightarrow> c"
  by (simp add: require_def)

lemma require_eq_Inl [simp]: "require c e = Inl e' \<longleftrightarrow> \<not> c \<and> e = e'"
  by (auto simp: require_def)

lemma rbind_require [guard_simps]:
  "rbind (require c e) f = Inr y \<longleftrightarrow> c \<and> f () = Inr y"
  by (auto simp: require_def)

lemma rbind_cong [fundef_cong]:
  assumes "m = m'" and "\<And>x. m' = Inr x \<Longrightarrow> f x = f' x"
  shows "rbind m f = rbind m' f'"
  using assms by (cases m') auto

definition is_ok :: "'a result \<Rightarrow> bool" where
  "is_ok r = (case r of Inl _ \<Rightarrow> False | Inr _ \<Rightarrow> True)"

lemma is_ok_Inr [simp]: "is_ok (Inr x)"
  by (simp add: is_ok_def)

lemma is_ok_Inl [simp]: "\<not> is_ok (Inl e)"
  by (simp add: is_ok_def)

lemma is_ok_iff: "is_ok r \<longleftrightarrow> (\<exists>x. r = Inr x)"
  by (cases r) auto

text \<open>A comprehension whose body may raise: left to right, the first exception wins.\<close>

fun rmap :: "('a \<Rightarrow> 'b result) \<Rightarrow> 'a list \<Rightarrow> 'b list result" where
  "rmap f [] = Inr []"
| "rmap f (x # xs) = rbind (f x) (\<lambda>y. rbind (rmap f xs) (\<lambda>ys. Inr (y # ys)))"

lemma rmap_Inr_iff:
  "rmap f xs = Inr ys \<longleftrightarrow> list_all2 (\<lambda>x y. f x = Inr y) xs ys"
proof (induction xs arbitrary: ys)
  case Nil
  then show ?case by auto
next
  case (Cons x xs)
  then show ?case by (cases ys) (auto simp: guard_simps list_all2_Cons1)
qed

lemma rmap_total: "(\<And>x. x \<in> set xs \<Longrightarrow> f x = Inr (g x)) \<Longrightarrow> rmap f xs = Inr (map g xs)"
  by (induction xs) auto

section \<open>Optional values\<close>

text \<open>\<open>value or default\<close> on an optional value, as Python's \<open>x if x is not None else d\<close>.\<close>

definition or_else :: "'a option \<Rightarrow> 'a \<Rightarrow> 'a" where
  "or_else v d = (case v of None \<Rightarrow> d | Some x \<Rightarrow> x)"

lemma or_else_simps [simp]: "or_else None d = d" "or_else (Some x) d = x"
  by (simp_all add: or_else_def)

section \<open>Accumulated reasons\<close>

text \<open>
  \<open>if cond: reasons.append(r)\<close>, repeated: the reasons whose condition holds, in order.
\<close>

definition reason_if :: "bool \<Rightarrow> 'a \<Rightarrow> 'a list" where
  "reason_if c r = (if c then [r] else [])"

lemma reason_if_simps [simp]: "reason_if True r = [r]" "reason_if False r = []"
  by (simp_all add: reason_if_def)

lemma reason_if_Nil [simp]: "reason_if c r = [] \<longleftrightarrow> \<not> c"
  by (simp add: reason_if_def)

lemma set_reason_if [simp]: "set (reason_if c r) = {x. c \<and> x = r}"
  by (auto simp: reason_if_def)

lemma reason_if_mono: "(c \<longrightarrow> c') \<Longrightarrow> set (reason_if c r) \<subseteq> set (reason_if c' r)"
  by auto

section \<open>Sorting by a key\<close>

text \<open>
  \<open>sorted(xs, key=...)\<close> is Isabelle's \<open>sort_key\<close>: stable and ascending.  Keys that are
  tuples compare lexicographically (\<open>Product_Lexorder\<close>), strings character by character
  (\<open>List_Lexorder\<close>).
\<close>

lemma sort_key_singleton [simp]: "sort_key f [x] = [x]"
  by (simp add: sort_key_def)

lemma map_insort_key:
  "\<forall>x \<in> insert a (set xs). k x = g (f x) \<Longrightarrow> map f (insort_key k a xs) = insort_key g (f a) (map f xs)"
  by (induction xs) simp_all

lemma map_sort_key: "\<forall>x \<in> set xs. k x = g (f x) \<Longrightarrow> map f (sort_key k xs) = sort_key g (map f xs)"
proof (induction xs)
  case (Cons a xs)
  then show ?case using map_insort_key [of a "sort_key k xs" k g f] by simp
qed simp

lemma sorted_map_hd_le:
  assumes "sorted (map f xs)" and "x \<in> set xs"
  shows "f (hd xs) \<le> f x"
  using assms by (cases xs) auto

text \<open>Removing rows of one owner and keeping those of the others, as a tenant-scoped
  \<open>DELETE\<close> or \<open>UPDATE\<close> does.\<close>

lemma filter_map_other:
  assumes "\<And>x. x \<in> set xs \<Longrightarrow> P (f x) \<longleftrightarrow> P x" and "\<And>x. x \<in> set xs \<Longrightarrow> P x \<Longrightarrow> f x = x"
  shows "filter P (map f xs) = filter P xs"
  using assms by (induction xs) auto

text \<open>The first row that satisfies a condition, in a table with some rows changed.\<close>

lemma find_map_same:
  assumes "\<And>x. P x \<Longrightarrow> P (f x)" and "\<And>x. \<not> P x \<Longrightarrow> f x = x"
  shows "List.find P (map f xs) = map_option f (List.find P xs)"
proof (induction xs)
  case (Cons x xs)
  then show ?case using assms [of x] by (cases "P x") simp_all
qed simp

lemma find_map_other:
  assumes "\<And>x. f x \<noteq> x \<Longrightarrow> \<not> P x \<and> \<not> P (f x)"
  shows "List.find P (map f xs) = List.find P xs"
proof (induction xs)
  case (Cons x xs)
  then show ?case using assms [of x] by (cases "f x = x") simp_all
qed simp

lemma find_append: "List.find P (xs @ ys) = (case List.find P xs of None \<Rightarrow> List.find P ys | Some x \<Rightarrow> Some x)"
  by (induction xs) auto

section \<open>Names of the model's primitive types\<close>

text \<open>
  UUIDs are represented by their canonical text (so \<open>str(u)\<close> is the identity and equality of
  UUIDs is equality of texts).  A timezone-aware datetime is the instant it denotes, in
  microseconds since the epoch in UTC; a date is a day number since the epoch.
\<close>

type_synonym uuid = string
type_synonym instant = int
type_synonym day = int

definition seconds :: "int \<Rightarrow> int" where
  "seconds n = n * 1000000"

definition date_of :: "instant \<Rightarrow> day" where
  "date_of t = t div 86400000000"

end
