(* ===== verification/Decimal_Arith.thy ===== *)
theory Decimal_Arith
  imports Prelude Complex_Main
begin

text \<open>
  Python's \<open>decimal.Decimal\<close> under the default context: precision 28, \<open>ROUND_HALF_EVEN\<close>.
  A finite \<open>Decimal\<close> is represented by its value, a rational; every arithmetic operation
  computes the exact result and rounds it to 28 significant digits (\<open>ctx\<close>), as the decimal
  specification says.  Comparisons, \<open>min\<close> and \<open>max\<close> are exact and do not round.
  Infinities and NaN cannot occur: pydantic refuses them as field values, and a division by
  zero raises.  Exponent overflow (beyond \<open>10 ^ 999999\<close>) is not modelled.
\<close>

type_synonym decimal = rat

section \<open>Rounding half to even\<close>

definition half_even :: "rat \<Rightarrow> int" where
  "half_even x = (let f = \<lfloor>x\<rfloor>; d = x - of_int f in
     if d < 1 / 2 then f else if d > 1 / 2 then f + 1 else if even f then f else f + 1)"

lemma half_even_cases:
  "(half_even x = \<lfloor>x\<rfloor> \<and> x - of_int \<lfloor>x\<rfloor> \<le> 1 / 2) \<or>
   (half_even x = \<lfloor>x\<rfloor> + 1 \<and> x - of_int \<lfloor>x\<rfloor> \<ge> 1 / 2)"
  by (auto simp: half_even_def Let_def)

lemma half_even_of_int [simp]: "half_even (of_int n) = n"
  by (simp add: half_even_def)

lemma half_even_err: "\<bar>of_int (half_even x) - x\<bar> \<le> 1 / 2"
proof -
  have "x < of_int \<lfloor>x\<rfloor> + 1" and "of_int \<lfloor>x\<rfloor> \<le> x"
    by (rule of_int_floor_le | linarith)+
  then show ?thesis using half_even_cases [of x] by (auto simp: abs_le_iff)
qed

lemma half_even_mono:
  assumes "x \<le> y"
  shows "half_even x \<le> half_even y"
proof (cases "\<lfloor>x\<rfloor> = \<lfloor>y\<rfloor>")
  case True
  with assms show ?thesis by (auto simp: half_even_def Let_def)
next
  case False
  with assms have "\<lfloor>x\<rfloor> + 1 \<le> \<lfloor>y\<rfloor>"
    by (metis floor_mono linorder_not_le order_antisym_conv zless_imp_add1_zle)
  with half_even_cases [of x] half_even_cases [of y] show ?thesis by auto
qed

lemma half_even_minus: "half_even (- x) = - half_even x"
proof (cases "x = of_int \<lfloor>x\<rfloor>")
  case True
  then show ?thesis by (metis half_even_of_int of_int_minus)
next
  case False
  have "\<lfloor>- x\<rfloor> = - \<lfloor>x\<rfloor> - 1"
  proof (rule floor_unique)
    have "x < of_int \<lfloor>x\<rfloor> + 1" by linarith
    then show "of_int (- \<lfloor>x\<rfloor> - 1) \<le> - x" by simp
    have "of_int \<lfloor>x\<rfloor> < x" using False of_int_floor_le [of x] by linarith
    then show "- x < of_int (- \<lfloor>x\<rfloor> - 1) + 1" by simp
  qed
  then show ?thesis by (auto simp: half_even_def Let_def)
qed

section \<open>The adjusted exponent\<close>

text \<open>The number of decimal digits of a non-negative integer.\<close>

function ndigits :: "int \<Rightarrow> nat" where
  "ndigits n = (if n < 10 then 1 else Suc (ndigits (n div 10)))"
  by pat_completeness auto
termination
  by (relation "measure nat") auto

declare ndigits.simps [simp del]

lemma ndigits_upper: "n < 10 ^ ndigits n"
proof (induction n rule: ndigits.induct)
  case (1 n)
  show ?case
  proof (cases "n < 10")
    case False
    with 1 have "n div 10 < 10 ^ ndigits (n div 10)" by simp
    then have "n < 10 * 10 ^ ndigits (n div 10)" by linarith
    with False show ?thesis by (subst ndigits.simps) simp
  qed (subst ndigits.simps, simp)
qed

lemma ndigits_lower: "0 < n \<Longrightarrow> 10 ^ ndigits n \<le> 10 * n"
proof (induction n rule: ndigits.induct)
  case (1 n)
  show ?case
  proof (cases "n < 10")
    case False
    with 1 have "10 ^ ndigits (n div 10) \<le> 10 * (n div 10)" by simp
    then have "10 * 10 ^ ndigits (n div 10) \<le> 10 * (10 * (n div 10))" by simp
    also have "\<dots> \<le> 10 * n" by linarith
    finally show ?thesis using False by (subst ndigits.simps) simp
  qed (use 1 in \<open>subst ndigits.simps, simp\<close>)
qed

definition pow10 :: "int \<Rightarrow> rat" where
  "pow10 k = (if 0 \<le> k then 10 ^ nat k else 1 / 10 ^ nat (- k))"

lemma pow10_pos [simp]: "0 < pow10 k"
  by (simp add: pow10_def)

lemma pow10_nonzero [simp]: "pow10 k \<noteq> 0"
  using pow10_pos [of k] by linarith

lemma abs_pow10 [simp]: "\<bar>pow10 k\<bar> = pow10 k"
  by (rule abs_of_pos) simp

lemma pow10_nat [simp]: "pow10 (int n) = 10 ^ n"
  by (simp add: pow10_def)

lemma pow10_0 [simp]: "pow10 0 = 1"
  by (simp add: pow10_def)

lemma pow10_powi: "pow10 k = 10 powi k"
  by (auto simp: pow10_def power_int_def field_simps)

lemma pow10_add: "pow10 (a + b) = pow10 a * pow10 b"
  by (simp add: pow10_powi power_int_add)

lemma pow10_minus: "pow10 (- a) = 1 / pow10 a"
  by (simp add: pow10_powi power_int_minus field_simps)

lemma pow10_mono: "a \<le> b \<Longrightarrow> pow10 a \<le> pow10 b"
  by (simp add: pow10_powi power_int_increasing)

lemma pow10_strict_mono: "a < b \<Longrightarrow> pow10 a < pow10 b"
  by (simp add: pow10_powi power_int_strict_increasing)

lemma pow10_less_iff: "pow10 a < pow10 b \<longleftrightarrow> a < b"
  using pow10_strict_mono [of a b] pow10_mono [of b a] by linarith

definition magnitude :: "rat \<Rightarrow> int" where
  "magnitude x = (case quotient_of \<bar>x\<bar> of (p, q) \<Rightarrow>
     let e = int (ndigits p) - int (ndigits q)
     in if pow10 e \<le> \<bar>x\<bar> then e else e - 1)"

lemma magnitude_bounds:
  assumes "x \<noteq> 0"
  shows "pow10 (magnitude x) \<le> \<bar>x\<bar>" and "\<bar>x\<bar> < pow10 (magnitude x + 1)"
proof -
  obtain p q where pq: "quotient_of \<bar>x\<bar> = (p, q)" by fastforce
  have q: "0 < q" using quotient_of_denom_pos [OF pq] .
  have x: "\<bar>x\<bar> = of_int p / of_int q" by (rule quotient_of_div [OF pq])
  have "0 < (of_int p / of_int q :: rat)" using assms x by simp
  with q have p: "0 < p" by (simp add: zero_less_divide_iff)
  let ?a = "int (ndigits p)" and ?b = "int (ndigits q)"
  have up: "(of_int k :: rat) < pow10 (int (ndigits k))" for k
    using ndigits_upper [of k] by (metis of_int_less_iff of_int_numeral of_int_power pow10_nat)
  have lo: "0 < k \<Longrightarrow> pow10 (int (ndigits k) - 1) \<le> of_int k" for k
  proof -
    assume "0 < k"
    then have "(of_int (10 ^ ndigits k) :: rat) \<le> of_int (10 * k)"
      using ndigits_lower by (simp only: of_int_le_iff)
    then show ?thesis
      using pow10_add [of "int (ndigits k) - 1" 1] by (simp add: pow10_def)
  qed
  have pr: "(of_int p :: rat) < pow10 ?a" "pow10 (?a - 1) \<le> of_int p"
    and qr: "(of_int q :: rat) < pow10 ?b" "pow10 (?b - 1) \<le> of_int q"
    using p q up [of p] lo [of p] up [of q] lo [of q] by simp_all
  have "\<bar>x\<bar> < pow10 (?a - ?b + 1)"
  proof -
    have "pow10 ?a = pow10 (?a - ?b + 1) * pow10 (?b - 1)" by (simp add: pow10_add [symmetric] del: pow10_nat)
    also have "\<dots> \<le> pow10 (?a - ?b + 1) * of_int q"
      using qr(2) by (intro mult_left_mono) (auto simp: less_imp_le)
    finally have "of_int p < pow10 (?a - ?b + 1) * of_int q" by (rule less_le_trans [OF pr(1)])
    then show ?thesis unfolding x using q by (subst pos_divide_less_eq) simp_all
  qed
  moreover have "pow10 (?a - ?b - 1) \<le> \<bar>x\<bar>"
  proof -
    have "pow10 (?a - ?b - 1) * of_int q \<le> pow10 (?a - ?b - 1) * pow10 ?b"
      using qr(1) by (intro mult_left_mono) (auto simp: less_imp_le)
    also have "\<dots> = pow10 (?a - 1)" by (simp add: pow10_add [symmetric] del: pow10_nat)
    finally have "pow10 (?a - ?b - 1) * of_int q \<le> of_int p" using pr(2) by (rule order_trans)
    then show ?thesis unfolding x using q by (subst pos_le_divide_eq) simp_all
  qed
  ultimately show "pow10 (magnitude x) \<le> \<bar>x\<bar>" and "\<bar>x\<bar> < pow10 (magnitude x + 1)"
    by (auto simp: magnitude_def pq Let_def)
qed

lemma magnitude_mono:
  assumes "x \<noteq> 0" and "\<bar>x\<bar> \<le> \<bar>y\<bar>"
  shows "magnitude x \<le> magnitude y"
proof -
  have "y \<noteq> 0" using assms by auto
  have "pow10 (magnitude x) < pow10 (magnitude y + 1)"
    using magnitude_bounds(1) [OF assms(1)] magnitude_bounds(2) [OF \<open>y \<noteq> 0\<close>] assms(2) by linarith
  then show ?thesis by (simp add: pow10_less_iff)
qed

lemma magnitude_minus [simp]: "magnitude (- x) = magnitude x"
  by (simp add: magnitude_def)


section \<open>What a rounding promises\<close>

text \<open>
  The contract the components rely on: rounding is monotone and odd.  It has two instances
  below: rounding to the context's precision and rounding to a number of decimal places
  (\<open>quantize\<close>).
\<close>

locale rounding =
  fixes rnd :: "rat \<Rightarrow> rat"
  assumes rnd_mono: "x \<le> y \<Longrightarrow> rnd x \<le> rnd y"
    and rnd_minus: "rnd (- x) = - rnd x"
begin

lemma rnd_zero: "rnd 0 = 0"
  using rnd_minus [of 0] by simp

lemma rnd_ge: "rnd a = a \<Longrightarrow> a \<le> x \<Longrightarrow> a \<le> rnd x"
  using rnd_mono [of a x] by simp

lemma rnd_le: "rnd a = a \<Longrightarrow> x \<le> a \<Longrightarrow> rnd x \<le> a"
  using rnd_mono [of x a] by simp

lemma rnd_nonneg: "0 \<le> x \<Longrightarrow> 0 \<le> rnd x"
  by (rule rnd_ge [OF rnd_zero])

lemma rnd_nonpos: "x \<le> 0 \<Longrightarrow> rnd x \<le> 0"
  by (rule rnd_le [OF rnd_zero])

lemma rnd_abs: "rnd \<bar>x\<bar> = \<bar>rnd x\<bar>"
  using rnd_nonneg [of x] rnd_nonpos [of x] by (auto simp: abs_if rnd_minus)

end

text \<open>A rounding with a relative error bound keeps strict signs too.\<close>

locale relative_rounding = rounding +
  fixes eps :: rat
  assumes eps_bounds: "0 \<le> eps" "eps < 1"
    and rnd_err: "\<bar>rnd x - x\<bar> \<le> eps * \<bar>x\<bar>"
begin

lemma rnd_lower: "0 \<le> x \<Longrightarrow> (1 - eps) * x \<le> rnd x"
  using rnd_err [of x] by (simp add: abs_le_iff algebra_simps)

lemma rnd_upper: "0 \<le> x \<Longrightarrow> rnd x \<le> (1 + eps) * x"
  using rnd_err [of x] by (simp add: abs_le_iff algebra_simps)

lemma rnd_pos: "0 < x \<Longrightarrow> 0 < rnd x"
  using rnd_lower [of x] eps_bounds mult_pos_pos [of "1 - eps" x] by linarith

lemma rnd_neg: "x < 0 \<Longrightarrow> rnd x < 0"
  using rnd_pos [of "- x"] by (simp add: rnd_minus)

lemma rnd_pos_iff: "0 < rnd x \<longleftrightarrow> 0 < x"
  using rnd_pos [of x] rnd_nonpos [of x] by linarith

lemma rnd_neg_iff: "rnd x < 0 \<longleftrightarrow> x < 0"
  using rnd_neg [of x] rnd_nonneg [of x] by linarith

lemma rnd_zero_iff: "rnd x = 0 \<longleftrightarrow> x = 0"
  using rnd_pos [of x] rnd_neg [of x] rnd_zero by (cases x "0::rat" rule: linorder_cases) auto

end

section \<open>The context: 28 significant digits\<close>

definition scaled :: "int \<Rightarrow> rat \<Rightarrow> rat" where
  "scaled k x = of_int (half_even (x * pow10 k)) / pow10 k"

lemma scaled_mono: "x \<le> y \<Longrightarrow> scaled k x \<le> scaled k y"
  by (simp add: scaled_def divide_right_mono half_even_mono mult_right_mono less_imp_le)

lemma scaled_minus: "scaled k (- x) = - scaled k x"
  by (simp add: scaled_def half_even_minus)

lemma scaled_exact: "x * pow10 k = of_int n \<Longrightarrow> scaled k x = x"
  by (simp add: scaled_def field_simps)

lemma scaled_err: "\<bar>scaled k x - x\<bar> \<le> 1 / (2 * pow10 k)"
proof -
  have "\<bar>scaled k x - x\<bar> * pow10 k = \<bar>(scaled k x - x) * pow10 k\<bar>"
    by (simp add: abs_mult)
  also have "(scaled k x - x) * pow10 k = of_int (half_even (x * pow10 k)) - x * pow10 k"
    by (simp add: scaled_def field_simps)
  also have "\<bar>\<dots>\<bar> \<le> 1 / 2" by (rule half_even_err)
  finally show ?thesis by (simp add: field_simps)
qed

definition ctx :: "rat \<Rightarrow> decimal" where
  "ctx x = (if x = 0 then 0 else scaled (27 - magnitude x) x)"

lemma scaled_pow10:
  assumes "0 \<le> k + m"
  shows "scaled k (pow10 m) = pow10 m"
proof (rule scaled_exact)
  have "pow10 m * pow10 k = pow10 (k + m)" by (simp add: pow10_add mult.commute)
  also have "\<dots> = of_int (10 ^ nat (k + m))" using assms by (simp add: pow10_def)
  finally show "pow10 m * pow10 k = of_int (10 ^ nat (k + m))" .
qed

lemma ctx_minus: "ctx (- x) = - ctx x"
  by (simp add: ctx_def scaled_minus)

lemma ctx_mono_pos:
  assumes "0 < x" and "x \<le> y"
  shows "ctx x \<le> ctx y"
proof (cases "magnitude x = magnitude y")
  case True
  with assms show ?thesis by (simp add: ctx_def scaled_mono)
next
  case False
  let ?m = "magnitude x" and ?n = "magnitude y"
  have less: "?m + 1 \<le> ?n" using assms False magnitude_mono [of x y] by auto
  have "scaled (27 - ?m) x \<le> scaled (27 - ?m) (pow10 (?m + 1))"
    using magnitude_bounds(2) [of x] assms by (intro scaled_mono) simp
  also have "\<dots> = pow10 (?m + 1)" by (rule scaled_pow10) simp
  also have "\<dots> \<le> pow10 ?n" using less by (rule pow10_mono)
  also have "\<dots> = scaled (27 - ?n) (pow10 ?n)" by (rule scaled_pow10 [symmetric]) simp
  also have "\<dots> \<le> scaled (27 - ?n) y"
    using magnitude_bounds(1) [of y] assms by (intro scaled_mono) simp
  finally show ?thesis using assms by (simp add: ctx_def)
qed

lemma ctx_nonneg_pos: "0 < x \<Longrightarrow> 0 \<le> ctx x"
  using scaled_mono [of 0 x "27 - magnitude x"] by (simp add: ctx_def scaled_exact [where n = 0])

lemma ctx_zero [simp]: "ctx 0 = 0"
  by (simp add: ctx_def)

lemma ctx_mono: "x \<le> y \<Longrightarrow> ctx x \<le> ctx y"
proof -
  assume le: "x \<le> y"
  consider "0 < x" | "y < 0" | "x \<le> 0" "0 \<le> y" by linarith
  then show ?thesis
  proof cases
    case 1
    then show ?thesis using le by (rule ctx_mono_pos)
  next
    case 2
    then have "ctx (- y) \<le> ctx (- x)" using le by (intro ctx_mono_pos) auto
    then show ?thesis by (simp add: ctx_minus)
  next
    case 3
    have "ctx x \<le> 0" using 3(1) ctx_nonneg_pos [of "- x"] ctx_minus [of x]
      by (cases "x = 0") auto
    also have "0 \<le> ctx y" using 3(2) ctx_nonneg_pos [of y] by (cases "y = 0") auto
    finally show ?thesis .
  qed
qed

lemma ctx_err: "\<bar>ctx x - x\<bar> \<le> 1 / 10 ^ 27 * \<bar>x\<bar>"
proof (cases "x = 0")
  case False
  have "\<bar>ctx x - x\<bar> \<le> 1 / (2 * pow10 (27 - magnitude x))"
    using False by (simp add: ctx_def scaled_err)
  also have "pow10 (27 - magnitude x) = 10 ^ 27 / pow10 (magnitude x)"
    using pow10_add [of 27 "- magnitude x"] pow10_nat [of 27] by (simp add: pow10_minus)
  also have "1 / (2 * (10 ^ 27 / pow10 (magnitude x))) \<le> 1 / 10 ^ 27 * pow10 (magnitude x)"
    by (simp add: field_simps)
  also have "\<dots> \<le> 1 / 10 ^ 27 * \<bar>x\<bar>"
    using magnitude_bounds(1) [OF False] by (intro mult_left_mono) auto
  finally show ?thesis .
qed simp

interpretation ctx: relative_rounding ctx "1 / 10 ^ 27"
proof unfold_locales
  show "\<bar>ctx x - x\<bar> \<le> 1 / 10 ^ 27 * \<bar>x\<bar>" for x by (rule ctx_err)
qed (simp_all add: ctx_mono ctx_minus)

text \<open>Numbers with at most 28 significant digits are kept as they are.\<close>

lemma ctx_exact:
  assumes "x * pow10 k = of_int n" and "\<bar>n\<bar> < 10 ^ 28"
  shows "ctx x = x"
proof (cases "x = 0")
  case False
  let ?m = "magnitude x"
  have x: "x = of_int n * pow10 (- k)" using assms(1) by (simp add: pow10_minus field_simps)
  have "(of_int \<bar>n\<bar> :: rat) < of_int (10 ^ 28)" using assms(2) by (simp only: of_int_less_iff)
  then have "\<bar>x\<bar> < 10 ^ 28 * pow10 (- k)"
    by (simp add: x abs_mult less_imp_le)
  then have "pow10 ?m < pow10 (28 - k)"
    using magnitude_bounds(1) [OF False] pow10_add [of 28 "- k"] pow10_nat [of 28] by simp
  then have "0 \<le> 27 - ?m - k" by (simp add: pow10_less_iff)
  then have "pow10 (27 - ?m) = pow10 k * of_int (10 ^ nat (27 - ?m - k))"
    using pow10_add [of k "27 - ?m - k"] by (simp add: pow10_def)
  then have "x * pow10 (27 - ?m) = of_int (n * 10 ^ nat (27 - ?m - k))"
    using assms(1) by (simp add: mult.assoc [symmetric])
  then have "scaled (27 - ?m) x = x" by (rule scaled_exact)
  then show ?thesis using False by (simp add: ctx_def)
qed simp

section \<open>The decimal grid\<close>

text \<open>\<open>on_grid k x\<close>: \<open>x\<close> has at most \<open>k\<close> decimal places.\<close>

definition on_grid :: "nat \<Rightarrow> rat \<Rightarrow> bool" where
  "on_grid k x \<longleftrightarrow> x * 10 ^ k \<in> \<int>"

lemma ctx_grid:
  assumes "on_grid k x" and "\<bar>x\<bar> * 10 ^ k < 10 ^ 28"
  shows "ctx x = x"
proof -
  obtain n where n: "x * 10 ^ k = of_int n" using assms(1) by (auto simp: on_grid_def Ints_def)
  have "(of_int \<bar>n\<bar> :: rat) < of_int (10 ^ 28)"
    using assms(2) by (simp add: n [symmetric] abs_mult)
  then have "\<bar>n\<bar> < 10 ^ 28" by (simp only: of_int_less_iff)
  with n show ?thesis by (intro ctx_exact [where k = "int k"]) simp
qed

text \<open>
  Evaluation.  Most numbers of a run are short decimals; they are recognised without computing
  their magnitude, by the code equation and by the rewrite rules in \<open>dec_eval\<close>.
\<close>

lemma ctx_short:
  assumes "q dvd 10 ^ 10" and "\<bar>p\<bar> < 10 ^ 18"
  shows "ctx (of_int p / of_int q) = of_int p / of_int q"
proof -
  obtain r where r: "10 ^ 10 = q * r" using assms(1) unfolding dvd_def ..
  then have q: "q \<noteq> 0" by auto
  have "(10 ^ 10 :: rat) = of_int q * of_int r" using arg_cong [OF r, of rat_of_int] by simp
  then have eq: "of_int p / of_int q * 10 ^ 10 = (of_int (p * r) :: rat)"
    using q by (simp add: field_simps)
  have "\<bar>r\<bar> \<le> 10 ^ 10"
  proof -
    have "\<bar>q\<bar> * \<bar>r\<bar> = 10 ^ 10" using r by (simp add: abs_mult [symmetric])
    moreover have "1 * \<bar>r\<bar> \<le> \<bar>q\<bar> * \<bar>r\<bar>" using q by (intro mult_right_mono) auto
    ultimately show ?thesis by simp
  qed
  then have "\<bar>p\<bar> * \<bar>r\<bar> \<le> \<bar>p\<bar> * 10 ^ 10" by (intro mult_left_mono) auto
  then have "\<bar>p * r\<bar> < 10 ^ 28" using assms(2) by (simp add: abs_mult)
  moreover have "of_int p / of_int q * pow10 10 = (of_int (p * r) :: rat)"
    using eq pow10_nat [of 10] by simp
  ultimately show ?thesis by (intro ctx_exact)
qed

lemma ctx_code [code]:
  "ctx x = (case quotient_of x of (p, q) \<Rightarrow>
     if 10000000000 mod q = 0 \<and> \<bar>p\<bar> < 1000000000000000000 then x
     else if x = 0 then 0 else scaled (27 - magnitude x) x)"
proof -
  obtain p q where pq: "quotient_of x = (p, q)" by fastforce
  have x: "x = of_int p / of_int q" by (rule quotient_of_div [OF pq])
  show ?thesis
  proof (cases "q dvd 10 ^ 10 \<and> \<bar>p\<bar> < 10 ^ 18")
    case True
    then have "ctx x = x" unfolding x by (intro ctx_short) auto
    with True show ?thesis by (simp add: pq mod_eq_0_iff_dvd)
  next
    case False
    then show ?thesis by (auto simp: pq ctx_def mod_eq_0_iff_dvd)
  qed
qed

named_theorems dec_eval \<open>decimal arithmetic on numerals\<close>

lemma ctx_eval_fraction [dec_eval]:
  assumes "(numeral b :: int) dvd 10 ^ 10" and "(numeral a :: int) < 10 ^ 18"
  shows "ctx (numeral a / numeral b) = numeral a / numeral b"
  using ctx_short [OF assms(1), of "numeral a"] assms(2) by simp

lemma ctx_eval_unit_fraction [dec_eval]:
  assumes "(numeral b :: int) dvd 10 ^ 10"
  shows "ctx (1 / numeral b) = 1 / numeral b"
  using ctx_short [OF assms, of 1] by simp

lemma ctx_eval_numeral [dec_eval]:
  assumes "(numeral a :: int) < 10 ^ 18"
  shows "ctx (numeral a) = numeral a"
  using ctx_short [of 1 "numeral a"] assms by simp

lemma ctx_eval_one [dec_eval]: "ctx 1 = 1"
  using ctx_short [of 1 1] by simp

declare ctx_minus [dec_eval]

named_theorems grid \<open>closure of the decimal grid\<close>

lemma on_grid_of_int [grid]: "on_grid k (of_int n)"
  by (simp add: on_grid_def)

lemma on_grid_of_nat [grid]: "on_grid k (of_nat n)"
  by (simp add: on_grid_def)

lemma on_grid_const [grid]: "on_grid k 0" "on_grid k 1" "on_grid k (numeral v)"
  by (simp_all add: on_grid_def)

lemma on_grid_add [grid]: "on_grid k x \<Longrightarrow> on_grid k y \<Longrightarrow> on_grid k (x + y)"
  by (simp add: on_grid_def distrib_right)

lemma on_grid_minus [grid]: "on_grid k x \<Longrightarrow> on_grid k (- x)"
  by (simp add: on_grid_def)

lemma on_grid_diff [grid]: "on_grid k x \<Longrightarrow> on_grid k y \<Longrightarrow> on_grid k (x - y)"
  by (simp add: on_grid_def left_diff_distrib)

lemma on_grid_mult:
  assumes "on_grid k x" and "on_grid j y"
  shows "on_grid (k + j) (x * y)"
proof -
  have eq: "x * y * 10 ^ (k + j) = (x * 10 ^ k) * (y * 10 ^ j)" by (simp add: power_add)
  show ?thesis using assms unfolding on_grid_def eq by (rule Ints_mult)
qed

lemma on_grid_mult_int [grid]: "on_grid k x \<Longrightarrow> on_grid k (x * of_int n)"
  using on_grid_mult [of k x 0 "of_int n"] by (simp add: on_grid_of_int)

lemma on_grid_int_mult [grid]: "on_grid k x \<Longrightarrow> on_grid k (of_int n * x)"
  using on_grid_mult_int [of k x n] by (simp add: mult.commute)

lemma on_grid_max [grid]: "on_grid k x \<Longrightarrow> on_grid k y \<Longrightarrow> on_grid k (max x y)"
  by (simp add: max_def)

lemma on_grid_min [grid]: "on_grid k x \<Longrightarrow> on_grid k y \<Longrightarrow> on_grid k (min x y)"
  by (simp add: min_def)

lemma on_grid_abs [grid]: "on_grid k x \<Longrightarrow> on_grid k \<bar>x\<bar>"
  by (simp add: abs_if on_grid_minus)

section \<open>The operations of \<open>decimal.Decimal\<close> that the code uses\<close>

definition dadd :: "decimal \<Rightarrow> decimal \<Rightarrow> decimal" where
  "dadd a b = ctx (a + b)"

definition dsub :: "decimal \<Rightarrow> decimal \<Rightarrow> decimal" where
  "dsub a b = ctx (a - b)"

definition dmul :: "decimal \<Rightarrow> decimal \<Rightarrow> decimal" where
  "dmul a b = ctx (a * b)"

definition dneg :: "decimal \<Rightarrow> decimal" where
  "dneg a = ctx (- a)"

definition dabs :: "decimal \<Rightarrow> decimal" where
  "dabs a = ctx \<bar>a\<bar>"

text \<open>Division by a number known not to be zero, and division that may raise.\<close>

definition dquo :: "decimal \<Rightarrow> decimal \<Rightarrow> decimal" where
  "dquo a b = ctx (a / b)"

definition ddiv :: "decimal \<Rightarrow> decimal \<Rightarrow> decimal result" where
  "ddiv a b = (if b \<noteq> 0 then Inr (dquo a b)
     else if a = 0 then Inl InvalidOperation else Inl DivisionByZero)"

text \<open>\<open>sum(xs, Decimal(0))\<close>\<close>

definition dsum :: "decimal list \<Rightarrow> decimal" where
  "dsum xs = foldl dadd 0 xs"

text \<open>
  \<open>x.quantize(Decimal(10) ** -k)\<close>: \<open>k\<close> decimal places, half to even; it raises when the
  result would need more than 28 digits.
\<close>

definition round_places :: "nat \<Rightarrow> rat \<Rightarrow> decimal" where
  "round_places k x = scaled (int k) x"

definition quantize :: "nat \<Rightarrow> decimal \<Rightarrow> decimal result" where
  "quantize k x = (if \<bar>half_even (x * 10 ^ k)\<bar> < 10 ^ 28 then Inr (round_places k x)
     else Inl InvalidOperation)"

interpretation places: rounding "round_places k" for k
  by unfold_locales (simp_all add: round_places_def scaled_mono scaled_minus)

lemma round_places_grid: "on_grid k x \<Longrightarrow> round_places k x = x"
  by (auto simp: round_places_def on_grid_def Ints_def intro: scaled_exact)

lemma on_grid_round_places: "on_grid k (round_places k x)"
  by (simp add: on_grid_def round_places_def scaled_def)

lemma round_places_err: "\<bar>round_places k x - x\<bar> \<le> 1 / (2 * 10 ^ k)"
  using scaled_err [of "int k" x] by (simp add: round_places_def)

lemma quantize_bounded:
  assumes "\<bar>x\<bar> * 10 ^ k < 10 ^ 27"
  shows "quantize k x = Inr (round_places k x)"
proof -
  have "\<bar>x * 10 ^ k\<bar> < 10 ^ 27" using assms by (simp add: abs_mult)
  then have "of_int \<bar>half_even (x * 10 ^ k)\<bar> < (of_int (10 ^ 28) :: rat)"
    using half_even_err [of "x * 10 ^ k"] by (simp add: abs_if split: if_splits)
  then have "\<bar>half_even (x * 10 ^ k)\<bar> < 10 ^ 28" by (simp only: of_int_less_iff)
  then show ?thesis by (simp add: quantize_def)
qed

lemmas dec_defs = dadd_def dsub_def dmul_def dneg_def dabs_def dquo_def

lemmas dec_ops [dec_eval] = dec_defs dsum_def

lemma ddiv_nonzero [simp]: "b \<noteq> 0 \<Longrightarrow> ddiv a b = Inr (dquo a b)"
  by (simp add: ddiv_def)

lemma ddiv_Inr [guard_simps]: "ddiv a b = Inr q \<longleftrightarrow> b \<noteq> 0 \<and> q = dquo a b"
  by (auto simp: ddiv_def)

lemma dquo_mono: "a \<le> a' \<Longrightarrow> 0 < b \<Longrightarrow> dquo a b \<le> dquo a' b"
  by (simp add: dquo_def ctx_mono divide_right_mono)

lemma dmul_mono: "a \<le> a' \<Longrightarrow> 0 \<le> b \<Longrightarrow> dmul a b \<le> dmul a' b"
  by (simp add: dmul_def ctx_mono mult_right_mono)

lemma dadd_mono: "a \<le> a' \<Longrightarrow> b \<le> b' \<Longrightarrow> dadd a b \<le> dadd a' b'"
  by (simp add: dadd_def ctx_mono add_mono)

lemma dsub_mono: "a \<le> a' \<Longrightarrow> b' \<le> b \<Longrightarrow> dsub a b \<le> dsub a' b'"
  by (simp add: dsub_def ctx_mono diff_mono)

end
