(* ===== verification/Options_Domain.thy ===== *)
theory Options_Domain
  imports Decimal_Arith
begin

text \<open>
  \<open>packages/domain/options.py\<close>: the data of option contracts and structures.  Every pydantic
  model is a record together with its validity predicate, which collects the field bounds and
  the model validators; constructing a model with invalid data raises \<open>ValidationError\<close>
  (\<open>validated\<close>).
\<close>

definition validated :: "('a \<Rightarrow> bool) \<Rightarrow> string \<Rightarrow> 'a \<Rightarrow> 'a result" where
  "validated valid name x = (if valid x then Inr x else Inl (ValidationError name))"

lemma validated_eq_Inr [guard_simps]: "validated v n x = Inr y \<longleftrightarrow> v x \<and> y = x"
  by (auto simp: validated_def)

lemma validated_valid [simp]: "v x \<Longrightarrow> validated v n x = Inr x"
  by (simp add: validated_def)

section \<open>Enumerations\<close>

datatype option_type = CALL | PUT

datatype leg_side = LONG | SHORT

fun sign :: "leg_side \<Rightarrow> decimal" where
  "sign LONG = 1"
| "sign SHORT = - 1"

datatype structure_type =
    LONG_CALL | LONG_PUT
  | BULL_CALL_DEBIT_SPREAD | BEAR_PUT_DEBIT_SPREAD
  | BULL_PUT_CREDIT_SPREAD | BEAR_CALL_CREDIT_SPREAD
  | PROTECTIVE_PUT | PROTECTIVE_PUT_SPREAD

section \<open>Quotes, contracts and legs\<close>

record greeks =
  g_delta :: decimal
  g_gamma :: decimal
  g_theta :: decimal
  g_vega :: decimal

text \<open>A \<open>datetime\<close> that comes from outside may lack a timezone.\<close>

datatype datetime = Aware instant | Naive instant

fun is_aware :: "datetime \<Rightarrow> bool" where
  "is_aware (Aware _) = True"
| "is_aware (Naive _) = False"

text \<open>
  \<open>d.astimezone(UTC)\<close>.  A naive time is read as local time, taken to be UTC; the code only
  converts times that it has checked to be aware.
\<close>

fun in_utc :: "datetime \<Rightarrow> instant" where
  "in_utc (Aware t) = t"
| "in_utc (Naive t) = t"

record option_quote =
  oq_bid :: decimal
  oq_ask :: decimal
  oq_bid_size :: decimal
  oq_ask_size :: decimal
  oq_quoted_at :: datetime
  oq_open_interest :: "int option"
  oq_volume :: "int option"
  oq_implied_volatility :: "decimal option"
  oq_greeks :: "greeks option"

text \<open>The field bounds of \<open>OptionQuote\<close> and its validator \<open>validate_market\<close>.\<close>

definition option_quote_valid :: "option_quote \<Rightarrow> bool" where
  "option_quote_valid q \<longleftrightarrow>
     0 \<le> oq_bid q \<and> 0 \<le> oq_ask q \<and> 0 \<le> oq_bid_size q \<and> 0 \<le> oq_ask_size q \<and>
     0 \<le> or_else (oq_open_interest q) 0 \<and> 0 \<le> or_else (oq_volume q) 0 \<and>
     0 \<le> or_else (oq_implied_volatility q) 0 \<and>
     is_aware (oq_quoted_at q) \<and>
     \<not> oq_ask q < oq_bid q"

definition midpoint :: "option_quote \<Rightarrow> decimal" where
  "midpoint q = dquo (dadd (oq_bid q) (oq_ask q)) 2"

definition spread_ratio :: "option_quote \<Rightarrow> decimal option" where
  "spread_ratio q = (let mid = midpoint q in
     if mid \<le> 0 then None else Some (dquo (dsub (oq_ask q) (oq_bid q)) mid))"

record option_contract =
  oc_contract_id :: string
  oc_symbol :: string
  oc_underlying_symbol :: string
  oc_expiration :: day
  oc_strike :: decimal
  oc_option_type :: option_type
  oc_multiplier :: int
  oc_tradable :: bool
  oc_quote :: option_quote

definition option_contract_valid :: "option_contract \<Rightarrow> bool" where
  "option_contract_valid c \<longleftrightarrow>
     0 < oc_strike c \<and> 0 < oc_multiplier c \<and> option_quote_valid (oc_quote c)"

record option_leg =
  ol_contract :: option_contract
  ol_side :: leg_side
  ol_ratio :: int
  ol_entry_price :: decimal

definition option_leg_valid :: "option_leg \<Rightarrow> bool" where
  "option_leg_valid l \<longleftrightarrow>
     option_contract_valid (ol_contract l) \<and> 1 \<le> ol_ratio l \<and> 0 \<le> ol_entry_price l"

record underlying_leg =
  ul_symbol :: string
  ul_shares :: int
  ul_entry_price :: decimal

definition underlying_leg_valid :: "underlying_leg \<Rightarrow> bool" where
  "underlying_leg_valid u \<longleftrightarrow> 0 < ul_shares u \<and> 0 < ul_entry_price u"

section \<open>Structures and policies\<close>

record option_structure =
  os_structure_type :: structure_type
  os_quantity :: int
  os_legs :: "option_leg list"
  os_underlying :: "underlying_leg option"
  os_net_premium_per_share :: decimal
  os_max_loss :: decimal
  os_max_profit :: "decimal option"
  os_break_evens :: "decimal list"
  os_greeks :: greeks

definition option_structure_valid :: "option_structure \<Rightarrow> bool" where
  "option_structure_valid s \<longleftrightarrow>
     1 \<le> os_quantity s \<and> 0 \<le> os_max_loss s \<and> 0 \<le> or_else (os_max_profit s) 0"

definition is_max_profit_unbounded :: "option_structure \<Rightarrow> bool" where
  "is_max_profit_unbounded s \<longleftrightarrow> os_max_profit s = None"

record liquidity_policy =
  lp_supported_underlyings :: "string list"
  lp_min_dte :: int
  lp_max_dte :: int
  lp_max_spread_ratio :: decimal
  lp_min_open_interest :: "int option"
  lp_min_quote_size :: decimal
  lp_max_strike_distance_ratio :: decimal
  lp_max_quote_age_seconds :: int
  lp_require_greeks :: bool

definition liquidity_policy_valid :: "liquidity_policy \<Rightarrow> bool" where
  "liquidity_policy_valid p \<longleftrightarrow>
     0 \<le> lp_min_dte p \<and> 0 \<le> lp_max_dte p \<and> 0 \<le> lp_max_spread_ratio p \<and>
     0 \<le> or_else (lp_min_open_interest p) 0 \<and> 0 \<le> lp_min_quote_size p \<and>
     0 \<le> lp_max_strike_distance_ratio p \<and> 0 \<le> lp_max_quote_age_seconds p \<and>
     \<not> lp_max_dte p < lp_min_dte p"

record eligibility_result =
  er_eligible :: bool
  er_reasons :: "string list"

section \<open>Facts about quotes\<close>

lemma spread_ratio_nonneg:
  assumes "option_quote_valid q" and "spread_ratio q = Some r"
  shows "0 \<le> r"
proof -
  have "0 \<le> dsub (oq_ask q) (oq_bid q)"
    using assms(1) by (simp add: dsub_def option_quote_valid_def ctx.rnd_nonneg)
  moreover have "0 < midpoint q" and "r = dquo (dsub (oq_ask q) (oq_bid q)) (midpoint q)"
    using assms(2) by (auto simp: spread_ratio_def Let_def split: if_splits)
  ultimately show ?thesis by (simp add: dquo_def ctx.rnd_nonneg)
qed

lemma midpoint_pos_iff:
  assumes "option_quote_valid q"
  shows "0 < midpoint q \<longleftrightarrow> 0 < oq_bid q \<or> 0 < oq_ask q"
proof -
  have "0 < midpoint q \<longleftrightarrow> 0 < oq_bid q + oq_ask q"
    by (simp add: midpoint_def dec_defs ctx.rnd_pos_iff)
  with assms show ?thesis by (auto simp: option_quote_valid_def)
qed

end
