(* ===== verification/Workflow_Domain.thy ===== *)
theory Workflow_Domain
  imports Options_Domain
begin

text \<open>
  \<open>packages/domain/workflow.py\<close>: the five stages of the pipeline (signal, trade idea, ranked
  candidate, risk decision, order intent) and the identity of an order,
  \<open>stable_client_order_id\<close>.  The random part of a default (\<open>uuid4()\<close>,
  \<open>datetime.now(UTC)\<close>) is an argument of the function that constructs the object.
  SHA-256 is the argument \<open>sha\<close>, from text to the hexadecimal digest.
\<close>

section \<open>Texts of numbers\<close>

text \<open>\<open>str(n)\<close> of an integer.\<close>

definition digit :: "int \<Rightarrow> char" where
  "digit d = char_of (48 + d)"

function digits_of :: "int \<Rightarrow> string" where
  "digits_of n = (if n < 10 then [digit n] else digits_of (n div 10) @ [digit (n mod 10)])"
  by pat_completeness auto
termination
  by (relation "measure nat") auto

declare digits_of.simps [simp del]

definition int_text :: "int \<Rightarrow> string" where
  "int_text n = (if n < 0 then ''-'' @ digits_of (- n) else digits_of n)"

text \<open>
  \<open>str(x.normalize())\<close>: the value rounded to the context, its coefficient without trailing
  zeros and its exponent, written in the decimal module's scientific notation.
\<close>

function strip_zeros :: "int \<Rightarrow> int \<Rightarrow> int \<times> int" where
  "strip_zeros c e = (if c \<noteq> 0 \<and> c mod 10 = 0 then strip_zeros (c div 10) (e + 1) else (c, e))"
  by pat_completeness auto
termination
  by (relation "measure (\<lambda>(c, e). nat \<bar>c\<bar>)") auto

declare strip_zeros.simps [simp del]

definition normalize_parts :: "decimal \<Rightarrow> int \<times> int" where
  "normalize_parts x = (if x = 0 then (0, 0)
     else let k = 27 - magnitude x in strip_zeros (half_even (x * pow10 k)) (- k))"

definition sci_text :: "int \<times> int \<Rightarrow> string" where
  "sci_text ce = (case ce of (c, e) \<Rightarrow>
     let ds = digits_of \<bar>c\<bar>; leftdigits = e + int (length ds);
         dotplace = (if e \<le> 0 \<and> leftdigits > - 6 then leftdigits else 1);
         body =
           (if dotplace \<le> 0 then ''0.'' @ replicate (nat (- dotplace)) (CHR ''0'') @ ds
            else if dotplace \<ge> int (length ds)
            then ds @ replicate (nat dotplace - length ds) (CHR ''0'')
            else take (nat dotplace) ds @ ''.'' @ drop (nat dotplace) ds);
         expo =
           (if leftdigits = dotplace then ''''
            else ''E'' @ (if leftdigits - dotplace < 0 then ''-'' else ''+'') @
              digits_of \<bar>leftdigits - dotplace\<bar>)
     in (if c < 0 then ''-'' else '''') @ body @ expo)"

definition normalized_text :: "decimal \<Rightarrow> string" where
  "normalized_text x = sci_text (normalize_parts x)"

section \<open>Features, signals and ideas\<close>

datatype direction = BULLISH | BEARISH

record catalyst_features =
  cf_catalyst_confidence :: decimal
  cf_sentiment :: decimal
  cf_relative_volume :: decimal
  cf_price_momentum :: decimal
  cf_gap_percent :: decimal
  cf_market_confirmation :: decimal
  cf_sector_confirmation :: decimal
  cf_liquidity_score :: decimal

definition unit_interval :: "decimal \<Rightarrow> bool" where
  "unit_interval x \<longleftrightarrow> 0 \<le> x \<and> x \<le> 1"

definition signed_interval :: "decimal \<Rightarrow> bool" where
  "signed_interval x \<longleftrightarrow> - 1 \<le> x \<and> x \<le> 1"

definition catalyst_features_valid :: "catalyst_features \<Rightarrow> bool" where
  "catalyst_features_valid f \<longleftrightarrow>
     unit_interval (cf_catalyst_confidence f) \<and> signed_interval (cf_sentiment f) \<and>
     0 \<le> cf_relative_volume f \<and> signed_interval (cf_price_momentum f) \<and>
     signed_interval (cf_market_confirmation f) \<and> signed_interval (cf_sector_confirmation f) \<and>
     unit_interval (cf_liquidity_score f)"

record signal =
  sg_signal_id :: uuid
  sg_symbol :: string
  sg_observed_at :: instant
  sg_features :: catalyst_features
  sg_score :: decimal
  sg_source_versions :: "(string \<times> string) list"

definition signal_valid :: "signal \<Rightarrow> bool" where
  "signal_valid s \<longleftrightarrow> catalyst_features_valid (sg_features s) \<and> 0 \<le> sg_score s \<and> sg_score s \<le> 100"

record trade_idea =
  ti_trade_idea_id :: uuid
  ti_signal_id :: uuid
  ti_symbol :: string
  ti_direction :: direction
  ti_thesis :: string
  ti_holding_horizon :: int
  ti_entry_window :: int
  ti_exit_logic :: string
  ti_confidence :: decimal

definition trade_idea_valid :: "trade_idea \<Rightarrow> bool" where
  "trade_idea_valid t \<longleftrightarrow> unit_interval (ti_confidence t)"

record no_trade =
  nt_signal_id :: uuid
  nt_reason_codes :: "string list"
  nt_created_at :: instant

record ranked_candidate =
  rc_structure_id :: uuid
  rc_trade_idea_id :: uuid
  rc_structure :: option_structure
  rc_rank_score :: decimal
  rc_rank_components :: "(string \<times> decimal) list"

section \<open>Risk decisions\<close>

text \<open>The text of a check; the planned-loss check quotes the two amounts.\<close>

datatype check_detail = Detail string | Planned_loss decimal decimal

record risk_check =
  ck_name :: string
  ck_passed :: bool
  ck_detail :: check_detail

datatype risk_decision_value = APPROVE | REJECT

record risk_decision =
  rd_risk_decision_id :: uuid
  rd_structure_id :: uuid
  rd_decision :: risk_decision_value
  rd_checks :: "risk_check list"
  rd_risk_budget_used :: decimal
  rd_calculated_max_loss :: decimal
  rd_created_at :: instant

definition risk_decision_valid :: "risk_decision \<Rightarrow> bool" where
  "risk_decision_valid d \<longleftrightarrow> 0 \<le> rd_risk_budget_used d \<and> 0 \<le> rd_calculated_max_loss d"

section \<open>Order intents\<close>

datatype order_side = Buy | Sell

fun side_text :: "order_side \<Rightarrow> string" where
  "side_text Buy = ''buy''"
| "side_text Sell = ''sell''"

record intent_leg =
  il_symbol :: string
  il_side :: order_side
  il_ratio :: int

definition intent_leg_valid :: "intent_leg \<Rightarrow> bool" where
  "intent_leg_valid l \<longleftrightarrow> 1 \<le> il_ratio l"

record order_intent =
  oi_order_intent_id :: uuid
  oi_client_order_id :: string
  oi_risk_decision_id :: uuid
  oi_legs :: "intent_leg list"
  oi_quantity :: int
  oi_limit_price :: decimal
  oi_time_in_force :: string
  oi_execution_policy :: string
  oi_created_at :: instant

text \<open>\<open>sep.join(texts)\<close>\<close>

fun join :: "string \<Rightarrow> string list \<Rightarrow> string" where
  "join sep [] = ''''"
| "join sep [x] = x"
| "join sep (x # y # ys) = x @ sep @ join sep (y # ys)"

definition leg_text :: "intent_leg \<Rightarrow> string" where
  "leg_text leg = il_symbol leg @ '':'' @ side_text (il_side leg) @ '':'' @ int_text (il_ratio leg)"

definition canonical_identity ::
  "uuid \<Rightarrow> intent_leg list \<Rightarrow> int \<Rightarrow> decimal \<Rightarrow> string \<Rightarrow> string \<Rightarrow> string" where
  "canonical_identity risk_decision_id legs quantity limit_price time_in_force execution_policy =
     join ''|'' [risk_decision_id, join '','' (map leg_text legs), int_text quantity,
       normalized_text limit_price, time_in_force, execution_policy]"

definition stable_client_order_id ::
  "(string \<Rightarrow> string) \<Rightarrow> uuid \<Rightarrow> intent_leg list \<Rightarrow> int \<Rightarrow> decimal \<Rightarrow> string \<Rightarrow> string \<Rightarrow> string"
where
  "stable_client_order_id sha risk_decision_id legs quantity limit_price time_in_force policy =
     ''ad-'' @ take 32 (sha (canonical_identity risk_decision_id legs quantity limit_price
       time_in_force policy))"

text \<open>The field bounds of \<open>OrderIntent\<close> and its validator \<open>validate_identifier\<close>.\<close>

definition order_intent_valid :: "(string \<Rightarrow> string) \<Rightarrow> order_intent \<Rightarrow> bool" where
  "order_intent_valid sha i \<longleftrightarrow>
     list_all intent_leg_valid (oi_legs i) \<and> 1 \<le> oi_quantity i \<and> oi_time_in_force i = ''day'' \<and>
     oi_client_order_id i = stable_client_order_id sha (oi_risk_decision_id i) (oi_legs i)
       (oi_quantity i) (oi_limit_price i) (oi_time_in_force i) (oi_execution_policy i)"

section \<open>The identity text determines the order\<close>

lemma append_sep_inj:
  assumes "c \<notin> set x" and "c \<notin> set y" and "x @ c # xs = y @ c # ys"
  shows "x = y \<and> xs = ys"
  using assms
proof (induction x arbitrary: y)
  case Nil
  then show ?case by (cases y) auto
next
  case (Cons a x)
  then show ?case by (cases y) auto
qed

lemma join_Cons: "ys \<noteq> [] \<Longrightarrow> join [c] (x # ys) = x @ c # join [c] ys"
  by (cases ys) auto

lemma join_sep_free_singleton: "c \<notin> set x \<Longrightarrow> ys \<noteq> [] \<Longrightarrow> x \<noteq> join [c] (y # ys)"
  by (auto simp: join_Cons)

lemma join_inj:
  assumes "\<forall>x \<in> set xs. c \<notin> set x" and "\<forall>y \<in> set ys. c \<notin> set y"
    and "join [c] xs = join [c] ys" and "xs \<noteq> []" and "ys \<noteq> []"
  shows "xs = ys"
  using assms
proof (induction xs arbitrary: ys)
  case Nil
  then show ?case by simp
next
  case (Cons x xs)
  obtain y ys' where ys: "ys = y # ys'" using Cons.prems(5) by (cases ys) auto
  show ?case
  proof (cases "xs = [] \<or> ys' = []")
    case True
    with Cons.prems ys join_sep_free_singleton [of c x ys' y] join_sep_free_singleton [of c y xs x]
    show ?thesis by (cases "xs = []"; cases "ys' = []") auto
  next
    case False
    with Cons.prems(1-3) ys have "x = y \<and> join [c] xs = join [c] ys'"
      by (intro append_sep_inj [of c]) (auto simp: join_Cons)
    with Cons.IH [of ys'] Cons.prems ys False show ?thesis by simp
  qed
qed

lemma digit_chars: "0 \<le> d \<Longrightarrow> d < 10 \<Longrightarrow> digit d \<in> set ''0123456789''"
proof -
  assume "0 \<le> d" "d < 10"
  then have "d = 0 \<or> d = 1 \<or> d = 2 \<or> d = 3 \<or> d = 4 \<or> d = 5 \<or> d = 6 \<or> d = 7 \<or> d = 8 \<or> d = 9"
    by presburger
  then show ?thesis by (elim disjE) (simp_all add: digit_def char_of_def bit_iff_odd)
qed

text \<open>Reading texts back.\<close>

definition char_digit :: "char \<Rightarrow> int" where
  "char_digit ch = of_char ch - 48"

definition digits_val :: "string \<Rightarrow> int" where
  "digits_val s = foldl (\<lambda>a ch. 10 * a + char_digit ch) 0 s"

lemma char_digit_digit: "0 \<le> d \<Longrightarrow> d < 10 \<Longrightarrow> char_digit (digit d) = d"
  by (simp add: char_digit_def digit_def take_bit_eq_mod)

lemma digits_val_snoc: "digits_val (s @ [ch]) = 10 * digits_val s + char_digit ch"
  by (simp add: digits_val_def)

lemma digits_val_of: "0 \<le> n \<Longrightarrow> digits_val (digits_of n) = n"
proof (induction n rule: digits_of.induct)
  case (1 n)
  show ?case
  proof (cases "n < 10")
    case True
    with 1 show ?thesis
      using digits_val_snoc [of "[]" "digit n"]
      by (subst digits_of.simps) (simp add: char_digit_digit digits_val_def)
  next
    case False
    with 1 have "digits_val (digits_of (n div 10)) = n div 10" by simp
    with False show ?thesis
      by (subst digits_of.simps) (simp add: digits_val_snoc char_digit_digit)
  qed
qed

lemma digits_of_chars: "0 \<le> n \<Longrightarrow> set (digits_of n) \<subseteq> set ''0123456789'' \<and> digits_of n \<noteq> []"
proof (induction n rule: digits_of.induct)
  case (1 n)
  show ?case
  proof (cases "n < 10")
    case True
    with 1 show ?thesis using digit_chars [of n] by (subst (1 2) digits_of.simps) simp
  next
    case False
    with 1 show ?thesis
      using digit_chars [of "n mod 10"] by (subst (1 2) digits_of.simps) simp
  qed
qed

lemma digits_no_sep:
  "0 \<le> n \<Longrightarrow> ch \<notin> set ''0123456789'' \<Longrightarrow> ch \<notin> set (digits_of n)"
  using digits_of_chars [of n] by blast

definition read_int :: "string \<Rightarrow> int" where
  "read_int s = (case s of [] \<Rightarrow> 0
     | ch # cs \<Rightarrow> if ch = CHR ''-'' then - digits_val cs
         else if ch = CHR ''+'' then digits_val cs else digits_val s)"

lemma read_int_digits: "0 \<le> n \<Longrightarrow> read_int (digits_of n) = n"
  using digits_no_sep [of n "CHR ''-''"] digits_no_sep [of n "CHR ''+''"] digits_of_chars [of n]
    digits_val_of [of n]
  by (cases "digits_of n") (auto simp: read_int_def)

lemma read_int_text: "read_int (int_text n) = n"
  by (simp add: int_text_def read_int_digits) (simp add: read_int_def digits_val_of)

lemma int_text_inj: "int_text m = int_text n \<longleftrightarrow> m = n"
  by (metis read_int_text)

section \<open>Reading a decimal text\<close>

definition read_sci :: "string \<Rightarrow> rat" where
  "read_sci t = (let neg = (t \<noteq> [] \<and> hd t = CHR ''-''); u = (if neg then tl t else t);
     m = takeWhile (\<lambda>ch. ch \<noteq> CHR ''E'') u; x = read_int (drop (Suc (length m)) u);
     ip = takeWhile (\<lambda>ch. ch \<noteq> CHR ''.'') m; fp = drop (Suc (length ip)) m;
     v = of_int (digits_val (ip @ fp)) * pow10 (x - int (length fp))
     in if neg then - v else v)"

lemma takeWhile_sep: "c \<notin> set xs \<Longrightarrow> takeWhile (\<lambda>ch. ch \<noteq> c) (xs @ c # ys) = xs"
  by (simp add: takeWhile_append)

lemma takeWhile_free: "c \<notin> set xs \<Longrightarrow> takeWhile (\<lambda>ch. ch \<noteq> c) xs = xs"
  by (auto simp: takeWhile_eq_all_conv)

lemma digits_val_zero_Cons: "digits_val (CHR ''0'' # s) = digits_val s"
  by (simp add: digits_val_def char_digit_def)

lemma digits_val_zeros: "digits_val (replicate n (CHR ''0'') @ s) = digits_val s"
  by (induction n) (simp_all add: digits_val_zero_Cons)

text \<open>A mantissa \<open>ip\<close>, optionally followed by a point and \<open>fp\<close>, and an optional exponent.\<close>

definition point_text :: "string \<Rightarrow> string \<Rightarrow> string" where
  "point_text ip fp = (if fp = [] then ip else ip @ ''.'' @ fp)"

definition expo_text :: "int \<Rightarrow> string" where
  "expo_text x = (if x = 0 then ''''
     else ''E'' @ (if x < 0 then ''-'' else ''+'') @ digits_of \<bar>x\<bar>)"

lemma read_expo: "read_int (drop (Suc (length m)) (m @ expo_text x)) = x"
proof (cases "x = 0")
  case True
  then show ?thesis by (simp add: expo_text_def read_int_def)
next
  case False
  then show ?thesis by (simp add: expo_text_def read_int_def digits_val_of)
qed

lemma read_sci_parts:
  assumes "set ip \<subseteq> set ''0123456789''" "ip \<noteq> []" and "set fp \<subseteq> set ''0123456789''"
  shows "read_sci ((if neg then ''-'' else '''') @ point_text ip fp @ expo_text x) =
    (if neg then - 1 else 1) * (of_int (digits_val (ip @ fp)) * pow10 (x - int (length fp)))"
proof -
  let ?m = "point_text ip fp"
  have E: "CHR ''E'' \<notin> set ?m" using assms(1,3) by (auto simp: point_text_def)
  have ne: "?m @ expo_text x \<noteq> []" and hd: "hd (?m @ expo_text x) \<noteq> CHR ''-''"
    using assms(1,2) by (cases ip; auto simp: point_text_def)+
  have m: "takeWhile (\<lambda>ch. ch \<noteq> CHR ''E'') (?m @ expo_text x) = ?m"
    using takeWhile_sep [OF E] takeWhile_free [OF E] by (simp add: expo_text_def)
  have P: "CHR ''.'' \<notin> set ip" using assms(1) by auto
  have ip: "takeWhile (\<lambda>ch. ch \<noteq> CHR ''.'') ?m = ip"
    using takeWhile_sep [OF P] takeWhile_free [OF P] by (simp add: point_text_def)
  have fp: "drop (Suc (length ip)) ?m = fp" by (simp add: point_text_def)
  show ?thesis
    using hd read_expo [of "[]" x]
    by (cases neg) (simp_all add: read_sci_def Let_def m ip fp)
qed

lemma sci_text_shape:
  assumes "ds = digits_of \<bar>c\<bar>"
  obtains ip fp x where "sci_text (c, e) = (if c < 0 then ''-'' else '''') @ point_text ip fp @ expo_text x"
    "set ip \<subseteq> set ''0123456789''" "ip \<noteq> []" "set fp \<subseteq> set ''0123456789''"
    "digits_val (ip @ fp) = digits_val ds" "x - int (length fp) = e"
proof -
  let ?left = "e + int (length ds)"
  let ?dot = "if e \<le> 0 \<and> ?left > - 6 then ?left else 1"
  have ds: "set ds \<subseteq> set ''0123456789''" "ds \<noteq> []" using digits_of_chars [of "\<bar>c\<bar>"] assms by auto
  then have len: "0 < length ds" by simp
  have expo: "(if ?left = ?dot then '''' else ''E'' @ (if ?left - ?dot < 0 then ''-'' else ''+'') @
      digits_of \<bar>?left - ?dot\<bar>) = expo_text (?left - ?dot)"
    by (simp add: expo_text_def)
  consider "?dot \<le> 0" | "0 < ?dot" "?dot \<ge> int (length ds)" | "0 < ?dot" "?dot < int (length ds)"
    by linarith
  then show thesis
  proof cases
    case 1
    let ?fp = "replicate (nat (- ?dot)) (CHR ''0'') @ ds"
    have "sci_text (c, e) = (if c < 0 then ''-'' else '''') @ point_text ''0'' ?fp @ expo_text (?left - ?dot)"
      using 1 ds(2) unfolding sci_text_def prod.case Let_def assms [symmetric] expo
      by (simp add: point_text_def)
    moreover have "set ?fp \<subseteq> set ''0123456789''" using ds(1) by auto
    moreover have "(?left - ?dot) - int (length ?fp) = e" using 1 by (auto split: if_splits)
    moreover have "digits_val (''0'' @ ?fp) = digits_val ds"
      using digits_val_zero_Cons digits_val_zeros by simp
    ultimately show thesis by (intro that [of "''0''" ?fp "?left - ?dot"]) simp_all
  next
    case 2
    have "e \<le> 0 \<longrightarrow> ?left \<le> int (length ds)" by simp
    moreover have "1 \<le> int (length ds)" using len by linarith
    ultimately have n0: "nat ?dot - length ds = 0" by simp linarith
    have "sci_text (c, e) = (if c < 0 then ''-'' else '''') @ point_text ds '''' @ expo_text (?left - ?dot)"
      using 2 n0 unfolding sci_text_def prod.case Let_def assms [symmetric] expo
      by (simp add: point_text_def)
    moreover have "?left - ?dot = e"
    proof (cases "e \<le> 0 \<and> ?left > - 6")
      case True
      then show ?thesis using 2 by simp
    next
      case False
      then have "?dot = 1" by argo
      with 2 len have "length ds = 1" by linarith
      with \<open>?dot = 1\<close> show ?thesis by linarith
    qed
    ultimately show thesis using ds by (intro that [of ds "''''" "?left - ?dot"]) simp_all
  next
    case 3
    let ?k = "nat ?dot"
    have k: "0 < ?k" "?k < length ds" using 3 by linarith+
    have "sci_text (c, e) = (if c < 0 then ''-'' else '''') @
        point_text (take ?k ds) (drop ?k ds) @ expo_text (?left - ?dot)"
      using 3 k unfolding sci_text_def prod.case Let_def assms [symmetric] expo
      by (simp add: point_text_def)
    moreover have "(?left - ?dot) - int (length (drop ?k ds)) = e" using 3 by (simp add: algebra_simps)
    moreover have "set (take ?k ds) \<subseteq> set ''0123456789''" "set (drop ?k ds) \<subseteq> set ''0123456789''"
      using ds(1) by (meson set_take_subset set_drop_subset subset_trans)+
    moreover have "take ?k ds \<noteq> []" using k ds(2) by simp
    ultimately show thesis
      by (intro that [of "take ?k ds" "drop ?k ds" "?left - ?dot"]) simp_all
  qed
qed

lemma read_sci_text: "read_sci (sci_text (c, e)) = of_int c * pow10 e"
proof -
  obtain ip fp x where "sci_text (c, e) = (if c < 0 then ''-'' else '''') @ point_text ip fp @ expo_text x"
    "set ip \<subseteq> set ''0123456789''" "ip \<noteq> []" "set fp \<subseteq> set ''0123456789''"
    "digits_val (ip @ fp) = digits_val (digits_of \<bar>c\<bar>)" "x - int (length fp) = e"
    by (rule sci_text_shape [OF refl])
  then show ?thesis
    using read_sci_parts [of ip fp "c < 0" x] digits_val_of [of "\<bar>c\<bar>"] by (simp add: abs_if)
qed

lemma strip_zeros_value:
  "strip_zeros c e = (c', e') \<Longrightarrow> of_int c' * pow10 e' = (of_int c * pow10 e :: rat)"
proof (induction c e arbitrary: c' e' rule: strip_zeros.induct)
  case (1 c e)
  show ?case
  proof (cases "c \<noteq> 0 \<and> c mod 10 = 0")
    case True
    then have "strip_zeros (c div 10) (e + 1) = (c', e')"
      using 1(2) by (subst (asm) strip_zeros.simps) simp
    from 1(1) [OF True this] have "of_int c' * pow10 e' = (of_int (c div 10) * pow10 (e + 1) :: rat)" .
    also have "\<dots> = of_int (c div 10 * 10) * pow10 e"
      using pow10_add [of e 1] by (simp add: pow10_def [of 1])
    also have "c div 10 * 10 = c" using True by auto
    finally show ?thesis .
  next
    case False
    with 1(2) show ?thesis by (subst (asm) strip_zeros.simps) (auto split: if_splits)
  qed
qed

lemma read_normalized_text: "read_sci (normalized_text x) = ctx x"
proof (cases "x = 0")
  case True
  then show ?thesis by (simp add: normalized_text_def normalize_parts_def read_sci_text)
next
  case False
  let ?k = "27 - magnitude x"
  obtain c e where ce: "strip_zeros (half_even (x * pow10 ?k)) (- ?k) = (c, e)" by fastforce
  have "read_sci (normalized_text x) = of_int c * pow10 e"
    using False ce by (simp add: normalized_text_def normalize_parts_def Let_def read_sci_text)
  also have "\<dots> = of_int (half_even (x * pow10 ?k)) * pow10 (- ?k)"
    by (rule strip_zeros_value [OF ce])
  also have "\<dots> = ctx x" using False pow10_minus [of ?k] by (simp add: ctx_def scaled_def)
  finally show ?thesis .
qed

end
