(* ===== verification/Broker_Domain.thy ===== *)
theory Broker_Domain
  imports Workflow_Domain
begin

text \<open>
  \<open>packages/domain/broker.py\<close> and \<open>packages/domain/system.py\<close>: what the desk knows of the broker.
  Alpaca's own types never cross this boundary.
\<close>

datatype broker_state = NOT_CONFIGURED | UNKNOWN | RECONCILING | RECONCILED | DIVERGENT

fun broker_state_text :: "broker_state \<Rightarrow> string" where
  "broker_state_text NOT_CONFIGURED = ''NOT_CONFIGURED''"
| "broker_state_text UNKNOWN = ''UNKNOWN''"
| "broker_state_text RECONCILING = ''RECONCILING''"
| "broker_state_text RECONCILED = ''RECONCILED''"
| "broker_state_text DIVERGENT = ''DIVERGENT''"

record broker_account =
  ba_account_id :: string
  ba_account_number :: string
  ba_status :: string
  ba_currency :: string
  ba_equity :: decimal
  ba_cash :: decimal
  ba_buying_power :: decimal
  ba_options_buying_power :: "decimal option"
  ba_last_equity :: decimal
  ba_trading_blocked :: bool
  ba_account_blocked :: bool
  ba_trade_suspended_by_user :: bool
  ba_as_of :: instant

record broker_position =
  bp_asset_id :: string
  bp_symbol :: string
  bp_asset_class :: string
  bp_side :: string
  bp_quantity :: decimal
  bp_quantity_available :: "decimal option"
  bp_average_entry_price :: decimal
  bp_market_value :: "decimal option"
  bp_cost_basis :: decimal
  bp_unrealized_pl :: decimal
  bp_current_price :: "decimal option"
  bp_as_of :: instant

record broker_order_leg =
  bl_broker_order_id :: string
  bl_symbol :: string
  bl_side :: string
  bl_quantity :: "decimal option"
  bl_filled_quantity :: decimal
  bl_status :: string

record broker_order =
  bo_broker_order_id :: string
  bo_client_order_id :: string
  bo_status :: string
  bo_asset_class :: string
  bo_symbol :: "string option"
  bo_side :: "string option"
  bo_order_type :: string
  bo_order_class :: string
  bo_time_in_force :: string
  bo_quantity :: "decimal option"
  bo_filled_quantity :: decimal
  bo_filled_average_price :: "decimal option"
  bo_limit_price :: "decimal option"
  bo_submitted_at :: "instant option"
  bo_created_at :: instant
  bo_updated_at :: "instant option"
  bo_legs :: "broker_order_leg list"

record broker_trade_update =
  tu_event :: string
  tu_order :: broker_order
  tu_execution_id :: "string option"
  tu_price :: "decimal option"
  tu_quantity :: "decimal option"
  tu_position_quantity :: "decimal option"
  tu_occurred_at :: instant

record reconciliation_snapshot =
  rs_account :: broker_account
  rs_positions :: "broker_position list"
  rs_open_orders :: "broker_order list"
  rs_reconciled_at :: instant

record broker_sync_status =
  ss_state :: broker_state
  ss_last_reconciled_at :: "instant option"
  ss_last_stream_event_at :: "instant option"
  ss_stream_connected :: bool
  ss_generation :: int
  ss_divergence_count :: int
  ss_failure_reason :: "string option"

definition new_sync_status :: "broker_state \<Rightarrow> broker_sync_status" where
  "new_sync_status state = \<lparr> ss_state = state, ss_last_reconciled_at = None,
     ss_last_stream_event_at = None, ss_stream_connected = False, ss_generation = 0,
     ss_divergence_count = 0, ss_failure_reason = None \<rparr>"

record submission_leg =
  sl_symbol :: string
  sl_side :: order_side
  sl_ratio :: int

definition submission_leg_valid :: "submission_leg \<Rightarrow> bool" where
  "submission_leg_valid l \<longleftrightarrow> 1 \<le> sl_ratio l"

record order_submission =
  su_client_order_id :: string
  su_quantity :: int
  su_limit_price :: decimal
  su_time_in_force :: string
  su_legs :: "submission_leg list"

definition order_submission_valid :: "order_submission \<Rightarrow> bool" where
  "order_submission_valid o' \<longleftrightarrow> 1 \<le> su_quantity o' \<and> su_time_in_force o' = ''day'' \<and>
     list_all submission_leg_valid (su_legs o')"

end
