(* ===== verification/Guardian.thy ===== *)
theory Guardian
  imports Broker_Domain
begin

text \<open>
  \<open>packages/domain/guardian.py\<close> and \<open>packages/guardian/\<close>: the evaluation of an observation, the two
  stores of incidents and the gate that the execution service asks before it submits.
\<close>

section \<open>Observations, policy and evaluation\<close>

datatype guardian_trigger = MANUAL_KILL_SWITCH | STALE_MARKET_DATA | STREAM_DISCONNECTED
  | STATE_DIVERGENCE | DUPLICATE_ORDER_PATTERN | RISK_POLICY_BREACH | REPEATED_ORDER_REJECTIONS
  | ABNORMAL_ORDER_RATE | UNCOVERED_OPTION_EXPOSURE

datatype guardian_state = NORMAL | HALTED | RECOVERY_PENDING

record guardian_observation =
  go_observed_at :: instant
  go_latest_market_data_at :: "instant option"
  go_broker_stream_connected :: bool
  go_broker_reconciled :: bool
  go_divergence_count :: int
  go_duplicate_order_patterns :: int
  go_risk_policy_breach :: bool
  go_recent_order_rejections :: int
  go_orders_last_minute :: int
  go_uncovered_short_option_legs :: int

definition guardian_observation_valid :: "guardian_observation \<Rightarrow> bool" where
  "guardian_observation_valid ob \<longleftrightarrow> 0 \<le> go_divergence_count ob \<and> 0 \<le> go_duplicate_order_patterns ob \<and>
     0 \<le> go_recent_order_rejections ob \<and> 0 \<le> go_orders_last_minute ob \<and>
     0 \<le> go_uncovered_short_option_legs ob"

record guardian_policy =
  gp_max_market_data_age_seconds :: int
  gp_max_recent_order_rejections :: int
  gp_max_orders_per_minute :: int

definition default_guardian_policy :: guardian_policy where
  "default_guardian_policy = \<lparr> gp_max_market_data_age_seconds = 15,
     gp_max_recent_order_rejections = 3, gp_max_orders_per_minute = 5 \<rparr>"

record guardian_evaluation =
  ge_halted :: bool
  ge_triggers :: "guardian_trigger list"
  ge_pause_new_intents :: bool
  ge_cancel_eligible_open_orders :: bool
  ge_require_reconciliation :: bool

text \<open>
  \<open>(observed - latest).total_seconds()\<close> against whole seconds: the comparison of microseconds is
  exact (the division into a float is exact at whole seconds and monotone).
\<close>

definition stale_data :: "guardian_policy \<Rightarrow> guardian_observation \<Rightarrow> bool" where
  "stale_data policy ob = (case go_latest_market_data_at ob of
      None \<Rightarrow> True
    | Some t \<Rightarrow> let age = go_observed_at ob - t in
        age < 0 \<or> age > seconds (gp_max_market_data_age_seconds policy))"

definition guardian_triggers :: "guardian_policy \<Rightarrow> guardian_observation \<Rightarrow> guardian_trigger list" where
  "guardian_triggers policy ob =
     reason_if (stale_data policy ob) STALE_MARKET_DATA @
     reason_if (\<not> go_broker_stream_connected ob) STREAM_DISCONNECTED @
     reason_if (\<not> go_broker_reconciled ob \<or> go_divergence_count ob > 0) STATE_DIVERGENCE @
     reason_if (go_duplicate_order_patterns ob > 0) DUPLICATE_ORDER_PATTERN @
     reason_if (go_risk_policy_breach ob) RISK_POLICY_BREACH @
     reason_if (go_recent_order_rejections ob \<ge> gp_max_recent_order_rejections policy)
       REPEATED_ORDER_REJECTIONS @
     reason_if (go_orders_last_minute ob > gp_max_orders_per_minute policy) ABNORMAL_ORDER_RATE @
     reason_if (go_uncovered_short_option_legs ob > 0) UNCOVERED_OPTION_EXPOSURE"

definition guardian_evaluate :: "guardian_policy \<Rightarrow> guardian_observation \<Rightarrow> guardian_evaluation" where
  "guardian_evaluate policy ob =
     (let triggers = guardian_triggers policy ob; halted = (triggers \<noteq> []) in
      \<lparr> ge_halted = halted, ge_triggers = triggers, ge_pause_new_intents = halted,
        ge_cancel_eligible_open_orders = halted, ge_require_reconciliation = halted \<rparr>)"

section \<open>Incidents and their stores\<close>

record guardian_incident =
  gi_incident_id :: uuid
  gi_state :: guardian_state
  gi_triggers :: "guardian_trigger list"
  gi_reason :: string
  gi_activated_at :: instant
  gi_cleared_at :: "instant option"

record guardian_status =
  gs_state :: guardian_state
  gs_active_incident :: "guardian_incident option"
  gs_execution_allowed :: bool

definition new_incident ::
  "uuid \<Rightarrow> instant \<Rightarrow> guardian_trigger list \<Rightarrow> string \<Rightarrow> guardian_incident" where
  "new_incident fresh now triggers reason = \<lparr> gi_incident_id = fresh, gi_state = HALTED,
     gi_triggers = triggers, gi_reason = reason, gi_activated_at = now, gi_cleared_at = None \<rparr>"

definition status_of :: "guardian_incident option \<Rightarrow> guardian_status" where
  "status_of incident = \<lparr> gs_state = (case incident of None \<Rightarrow> NORMAL | Some i \<Rightarrow> gi_state i),
     gs_active_incident = incident, gs_execution_allowed = (incident = None) \<rparr>"

definition recovery_refused :: py_error where
  "recovery_refused = RuntimeError ''Guardian recovery requires known reconciled broker state''"

text \<open>\<open>MemoryGuardianStore\<close>: the one active incident.\<close>

definition mem_status :: "guardian_incident option \<Rightarrow> guardian_status" where
  "mem_status incident = status_of incident"

definition mem_halt ::
  "uuid \<Rightarrow> instant \<Rightarrow> guardian_trigger list \<Rightarrow> string \<Rightarrow> guardian_incident option \<Rightarrow>
   guardian_incident \<times> guardian_incident option"
where
  "mem_halt fresh now triggers reason incident =
     (case incident of
       Some i \<Rightarrow> (i, incident)
     | None \<Rightarrow> (new_incident fresh now triggers reason, Some (new_incident fresh now triggers reason)))"

definition mem_recover ::
  "instant \<Rightarrow> bool \<Rightarrow> guardian_incident option \<Rightarrow> (guardian_status \<times> guardian_incident option) result"
where
  "mem_recover now broker_state_known incident =
     (if \<not> broker_state_known then Inl recovery_refused else Inr (mem_status None, None))"

text \<open>
  \<open>PostgresGuardianStore\<close>: rows of \<open>guardian_incidents\<close>, shared by all workspaces.  Nothing in the
  table forbids several active incidents of a workspace; the newest is the active one (rows that
  were activated at the same instant: the first of the table).
\<close>

record incident_row =
  gr_incident_id :: uuid
  gr_workspace_id :: uuid
  gr_state :: guardian_state
  gr_triggers :: "guardian_trigger list"
  gr_reason :: string
  gr_activated_at :: instant
  gr_cleared_at :: "instant option"

definition active_row :: "uuid \<Rightarrow> incident_row \<Rightarrow> bool" where
  "active_row ws r \<longleftrightarrow> gr_workspace_id r = ws \<and> gr_cleared_at r = None"

definition pg_active :: "uuid \<Rightarrow> incident_row list \<Rightarrow> incident_row option" where
  "pg_active ws rows = (case sort_key (\<lambda>r. - gr_activated_at r) (filter (active_row ws) rows) of
      [] \<Rightarrow> None | r # _ \<Rightarrow> Some r)"

definition incident_of_row :: "incident_row \<Rightarrow> guardian_incident" where
  "incident_of_row r = \<lparr> gi_incident_id = gr_incident_id r, gi_state = gr_state r,
     gi_triggers = gr_triggers r, gi_reason = gr_reason r, gi_activated_at = gr_activated_at r,
     gi_cleared_at = gr_cleared_at r \<rparr>"

definition pg_status :: "uuid \<Rightarrow> incident_row list \<Rightarrow> guardian_status" where
  "pg_status ws rows = status_of (map_option incident_of_row (pg_active ws rows))"

definition row_of_incident :: "uuid \<Rightarrow> guardian_incident \<Rightarrow> incident_row" where
  "row_of_incident ws i = \<lparr> gr_incident_id = gi_incident_id i, gr_workspace_id = ws,
     gr_state = gi_state i, gr_triggers = gi_triggers i, gr_reason = gi_reason i,
     gr_activated_at = gi_activated_at i, gr_cleared_at = None \<rparr>"

definition pg_halt ::
  "uuid \<Rightarrow> uuid \<Rightarrow> instant \<Rightarrow> guardian_trigger list \<Rightarrow> string \<Rightarrow> incident_row list \<Rightarrow>
   guardian_incident \<times> incident_row list"
where
  "pg_halt ws fresh now triggers reason rows =
     (case pg_active ws rows of
       Some r \<Rightarrow> (incident_of_row r, rows)
     | None \<Rightarrow> let i = new_incident fresh now triggers reason in (i, rows @ [row_of_incident ws i]))"

definition pg_recover ::
  "uuid \<Rightarrow> instant \<Rightarrow> bool \<Rightarrow> incident_row list \<Rightarrow> (guardian_status \<times> incident_row list) result"
where
  "pg_recover ws now broker_state_known rows =
     (if \<not> broker_state_known then Inl recovery_refused
      else let rows' = map (\<lambda>r. if active_row ws r
          then r\<lparr>gr_state := NORMAL, gr_cleared_at := Some now\<rparr> else r) rows
        in Inr (pg_status ws rows', rows'))"

section \<open>The execution gate\<close>

definition gate_execution_allowed :: "guardian_status \<Rightarrow> bool \<times> string" where
  "gate_execution_allowed status =
     (if \<not> gs_execution_allowed status
      then (False, case gs_active_incident status of Some i \<Rightarrow> gi_reason i | None \<Rightarrow> ''Guardian is halted'')
      else (True, ''Guardian is normal''))"

section \<open>What a store of incidents promises\<close>

locale guardian_store =
  fixes status :: "'s \<Rightarrow> guardian_status"
    and halt :: "uuid \<Rightarrow> instant \<Rightarrow> guardian_trigger list \<Rightarrow> string \<Rightarrow> 's \<Rightarrow> guardian_incident \<times> 's"
    and recover :: "instant \<Rightarrow> bool \<Rightarrow> 's \<Rightarrow> (guardian_status \<times> 's) result"
  assumes status_form: "status s = status_of (gs_active_incident (status s))"
    and halt_new: "gs_active_incident (status s) = None \<Longrightarrow> halt fresh now ts reason s = (i, s') \<Longrightarrow>
      i = new_incident fresh now ts reason \<and> gs_active_incident (status s') = Some i"
    and halt_again: "gs_active_incident (status s) = Some i \<Longrightarrow> halt fresh now ts reason s = (i, s)"
    and recover_unknown: "recover now False s = Inl recovery_refused"
    and recover_known: "\<exists>s'. recover now True s = Inr (status s', s') \<and> gs_active_incident (status s') = None"
begin

lemma allowed_iff: "gs_execution_allowed (status s) \<longleftrightarrow> gs_active_incident (status s) = None"
  using status_form [of s] by (metis guardian_status.select_convs(3) status_of_def)

lemma gate_blocked: "gs_active_incident (status s) = Some i \<Longrightarrow>
    gate_execution_allowed (status s) = (False, gi_reason i)"
  using allowed_iff [of s] by (simp add: gate_execution_allowed_def)

lemma gate_open: "gs_active_incident (status s) = None \<Longrightarrow>
    gate_execution_allowed (status s) = (True, ''Guardian is normal'')"
  using allowed_iff [of s] by (simp add: gate_execution_allowed_def)

end

interpretation mem_guardian: guardian_store mem_status mem_halt mem_recover
  by unfold_locales (auto simp: mem_status_def mem_halt_def mem_recover_def status_of_def)

lemma pg_active_None: "pg_active ws rows = None \<longleftrightarrow> filter (active_row ws) rows = []"
proof -
  have "sort_key (\<lambda>r. - gr_activated_at r) (filter (active_row ws) rows) = [] \<longleftrightarrow>
      filter (active_row ws) rows = []"
    by (metis length_0_conv length_sort)
  then show ?thesis by (auto simp: pg_active_def split: list.splits)
qed

lemma pg_active_in: "pg_active ws rows = Some r \<Longrightarrow> r \<in> set rows \<and> active_row ws r"
proof -
  assume "pg_active ws rows = Some r"
  then obtain rest where "sort_key (\<lambda>r. - gr_activated_at r) (filter (active_row ws) rows) = r # rest"
    by (auto simp: pg_active_def split: list.splits)
  then have "r \<in> set (sort_key (\<lambda>r. - gr_activated_at r) (filter (active_row ws) rows))" by simp
  then show ?thesis by simp
qed

lemma pg_active_new:
  "pg_active ws rows = None \<Longrightarrow> pg_active ws (rows @ [row_of_incident ws i]) = Some (row_of_incident ws i)"
proof -
  assume "pg_active ws rows = None"
  then have "filter (active_row ws) (rows @ [row_of_incident ws i]) = [row_of_incident ws i]"
    by (simp only: pg_active_None filter_append) (simp add: active_row_def row_of_incident_def)
  then show ?thesis by (simp add: pg_active_def)
qed

lemma recovered_rows:
  "filter (active_row ws) (map (\<lambda>r. if active_row ws r
    then r\<lparr>gr_state := NORMAL, gr_cleared_at := Some now\<rparr> else r) rows) = []"
  by (induction rows) (simp_all add: active_row_def)

interpretation pg_guardian: guardian_store "pg_status ws" "pg_halt ws" "pg_recover ws" for ws
proof unfold_locales
  fix s fresh now ts reason i s'
  have active: "gs_active_incident (pg_status ws s) = map_option incident_of_row (pg_active ws s)" for s
    by (simp add: pg_status_def status_of_def)
  show "pg_status ws s = status_of (gs_active_incident (pg_status ws s))"
    unfolding active by (rule pg_status_def)
  show "i = new_incident fresh now ts reason \<and> gs_active_incident (pg_status ws s') = Some i"
    if "gs_active_incident (pg_status ws s) = None" "pg_halt ws fresh now ts reason s = (i, s')"
  proof -
    have none: "pg_active ws s = None" using that(1) by (simp add: active)
    have i: "i = new_incident fresh now ts reason" and s': "s' = s @ [row_of_incident ws i]"
      using that(2) none by (auto simp: pg_halt_def Let_def)
    have "incident_of_row (row_of_incident ws i) = i"
      by (simp add: incident_of_row_def row_of_incident_def i new_incident_def)
    then show ?thesis using i pg_active_new [OF none, of i] s' by (simp add: active)
  qed
  show "gs_active_incident (pg_status ws s) = Some i \<Longrightarrow> pg_halt ws fresh now ts reason s = (i, s)"
    by (auto simp: active pg_halt_def)
  show "pg_recover ws now False s = Inl recovery_refused" by (simp add: pg_recover_def)
  show "\<exists>s'. pg_recover ws now True s = Inr (pg_status ws s', s') \<and>
      gs_active_incident (pg_status ws s') = None"
  proof -
    let ?s = "map (\<lambda>r. if active_row ws r then r\<lparr>gr_state := NORMAL, gr_cleared_at := Some now\<rparr> else r) s"
    have "filter (active_row ws) ?s = []" by (rule recovered_rows)
    then have "pg_active ws ?s = None" by (simp only: pg_active_None)
    then show ?thesis by (intro exI [of _ ?s]) (simp add: pg_recover_def Let_def active)
  qed
qed

end
