(* ===== verification/Risk_Engine.thy ===== *)
theory Risk_Engine
  imports Workflow_Domain
begin

text \<open>
  \<open>packages/risk/engine.py\<close>: the nine checks of \<open>RiskEngine.evaluate\<close>.  The percentages are
  computed in decimal arithmetic (28 digits), so the theorems below say what the code promises
  about the exact numbers, with the rounding error made explicit.
\<close>

section \<open>Policy, context and evaluation\<close>

record risk_policy =
  rp_version :: string
  rp_max_planned_loss_per_trade_pct_equity :: decimal
  rp_max_total_open_planned_loss_pct_equity :: decimal
  rp_max_underlying_risk_concentration_pct :: decimal
  rp_daily_loss_halt_pct_equity :: decimal
  rp_portfolio_drawdown_halt_pct :: decimal
  rp_max_concurrent_option_structures :: int
  rp_max_abs_portfolio_delta :: decimal
  rp_max_abs_portfolio_gamma :: decimal
  rp_max_abs_portfolio_theta :: decimal
  rp_max_abs_portfolio_vega :: decimal

definition default_risk_policy :: risk_policy where
  "default_risk_policy = \<lparr> rp_version = ''1'', rp_max_planned_loss_per_trade_pct_equity = 1 / 2,
     rp_max_total_open_planned_loss_pct_equity = 4, rp_max_underlying_risk_concentration_pct = 10,
     rp_daily_loss_halt_pct_equity = 2, rp_portfolio_drawdown_halt_pct = 10,
     rp_max_concurrent_option_structures = 8, rp_max_abs_portfolio_delta = 5000,
     rp_max_abs_portfolio_gamma = 1000, rp_max_abs_portfolio_theta = 1000,
     rp_max_abs_portfolio_vega = 5000 \<rparr>"

definition risk_policy_valid :: "risk_policy \<Rightarrow> bool" where
  "risk_policy_valid p \<longleftrightarrow>
     0 < rp_max_planned_loss_per_trade_pct_equity p \<and> 0 < rp_max_total_open_planned_loss_pct_equity p \<and>
     0 < rp_max_underlying_risk_concentration_pct p \<and> 0 < rp_daily_loss_halt_pct_equity p \<and>
     0 < rp_portfolio_drawdown_halt_pct p \<and> 1 \<le> rp_max_concurrent_option_structures p \<and>
     0 < rp_max_abs_portfolio_delta p \<and> 0 < rp_max_abs_portfolio_gamma p \<and>
     0 < rp_max_abs_portfolio_theta p \<and> 0 < rp_max_abs_portfolio_vega p"

record risk_context =
  rk_paper_equity :: decimal
  rk_open_planned_loss :: decimal
  rk_underlying_open_risk :: decimal
  rk_daily_loss :: decimal
  rk_drawdown_percent :: decimal
  rk_concurrent_option_structures :: int
  rk_portfolio_delta :: decimal
  rk_portfolio_gamma :: decimal
  rk_portfolio_theta :: decimal
  rk_portfolio_vega :: decimal
  rk_broker_execution_allowed :: bool
  rk_duplicate_logical_order :: bool

definition risk_context_valid :: "risk_context \<Rightarrow> bool" where
  "risk_context_valid c \<longleftrightarrow> 0 < rk_paper_equity c \<and> 0 \<le> rk_open_planned_loss c \<and>
     0 \<le> rk_underlying_open_risk c \<and> 0 \<le> rk_daily_loss c \<and> 0 \<le> rk_drawdown_percent c \<and>
     0 \<le> rk_concurrent_option_structures c"

text \<open>\<open>amount / equity * 100\<close>\<close>

definition pct_of :: "decimal \<Rightarrow> decimal \<Rightarrow> decimal" where
  "pct_of amount equity = dmul (dquo amount equity) 100"

definition risk_checks :: "risk_policy \<Rightarrow> option_structure \<Rightarrow> risk_context \<Rightarrow> risk_check list" where
  "risk_checks policy s c =
     (let loss = os_max_loss s; equity = rk_paper_equity c; impact = os_greeks s in
      [\<lparr> ck_name = ''broker_state'', ck_passed = rk_broker_execution_allowed c,
         ck_detail = Detail ''Broker state must be fresh, reconciled, connected, and unblocked.'' \<rparr>,
       \<lparr> ck_name = ''duplicate_logical_order'', ck_passed = (\<not> rk_duplicate_logical_order c),
         ck_detail = Detail ''An immutable logical order may be submitted only once.'' \<rparr>,
       \<lparr> ck_name = ''per_trade_loss'',
         ck_passed = (pct_of loss equity \<le> rp_max_planned_loss_per_trade_pct_equity policy),
         ck_detail = Planned_loss loss equity \<rparr>,
       \<lparr> ck_name = ''total_open_loss'',
         ck_passed = (pct_of (dadd (rk_open_planned_loss c) loss) equity
           \<le> rp_max_total_open_planned_loss_pct_equity policy),
         ck_detail = Detail ''Aggregate planned loss after entry.'' \<rparr>,
       \<lparr> ck_name = ''underlying_concentration'',
         ck_passed = (pct_of (dadd (rk_underlying_open_risk c) loss) equity
           \<le> rp_max_underlying_risk_concentration_pct policy),
         ck_detail = Detail ''Underlying risk after entry.'' \<rparr>,
       \<lparr> ck_name = ''daily_loss_halt'',
         ck_passed = (pct_of (rk_daily_loss c) equity < rp_daily_loss_halt_pct_equity policy),
         ck_detail = Detail ''Daily loss must remain below the hard halt.'' \<rparr>,
       \<lparr> ck_name = ''drawdown_halt'',
         ck_passed = (rk_drawdown_percent c < rp_portfolio_drawdown_halt_pct policy),
         ck_detail = Detail ''Portfolio drawdown must remain below the hard halt.'' \<rparr>,
       \<lparr> ck_name = ''position_count'',
         ck_passed = (rk_concurrent_option_structures c < rp_max_concurrent_option_structures policy),
         ck_detail = Detail ''Concurrent option structure cap.'' \<rparr>,
       \<lparr> ck_name = ''greeks'',
         ck_passed = (dabs (dadd (rk_portfolio_delta c) (g_delta impact)) \<le> rp_max_abs_portfolio_delta policy \<and>
           dabs (dadd (rk_portfolio_gamma c) (g_gamma impact)) \<le> rp_max_abs_portfolio_gamma policy \<and>
           dabs (dadd (rk_portfolio_theta c) (g_theta impact)) \<le> rp_max_abs_portfolio_theta policy \<and>
           dabs (dadd (rk_portfolio_vega c) (g_vega impact)) \<le> rp_max_abs_portfolio_vega policy),
         ck_detail = Detail ''Post-trade portfolio Greeks must remain within caps.'' \<rparr>])"

definition risk_evaluate ::
  "risk_policy \<Rightarrow> uuid \<Rightarrow> instant \<Rightarrow> ranked_candidate \<Rightarrow> risk_context \<Rightarrow> risk_decision result" where
  "risk_evaluate policy fresh now candidate c =
     (let s = rc_structure candidate; checks = risk_checks policy s c in
      rbind (ddiv (os_max_loss s) (rk_paper_equity c)) (\<lambda>used.
      validated risk_decision_valid ''RiskDecision''
        \<lparr> rd_risk_decision_id = fresh, rd_structure_id = rc_structure_id candidate,
          rd_decision = (if list_all ck_passed checks then APPROVE else REJECT),
          rd_checks = checks, rd_risk_budget_used = used, rd_calculated_max_loss = os_max_loss s,
          rd_created_at = now \<rparr>))"

section \<open>Percentages\<close>

lemma pct_mono: "a \<le> b \<Longrightarrow> 0 < e \<Longrightarrow> pct_of a e \<le> pct_of b e"
  unfolding pct_of_def by (intro dmul_mono dquo_mono) simp_all

lemma pct_nonneg: "0 \<le> a \<Longrightarrow> 0 < e \<Longrightarrow> 0 \<le> pct_of a e"
  by (simp add: pct_of_def dmul_def dquo_def ctx.rnd_nonneg)

text \<open>Rounding changes a value by at most one part in \<open>10 ^ 27\<close> per operation.\<close>

definition eps :: rat where
  "eps = 1 / 10 ^ 27"

definition slack :: rat where
  "slack = 1 / 10 ^ 25"

lemma eps_pos: "0 < 1 - eps" "0 < 1 + eps"
  by (simp_all add: eps_def)

lemma slack_eps: "1 - slack \<le> (1 - eps) * ((1 - eps) * (1 - eps))"
    "(1 + eps) * ((1 + eps) * (1 + eps)) \<le> 1 + slack"
    "1 - slack \<le> (1 - eps) * (1 - eps)" "(1 + eps) * (1 + eps) \<le> 1 + slack"
  by (simp_all add: eps_def slack_def)

lemma round_lower: "0 \<le> x \<Longrightarrow> (1 - eps) * x \<le> ctx x"
  using ctx.rnd_lower by (simp only: eps_def)

lemma round_upper: "0 \<le> x \<Longrightarrow> ctx x \<le> (1 + eps) * x"
  using ctx.rnd_upper by (simp only: eps_def)

lemma pct_sandwich:
  assumes "0 \<le> a" and "0 < e"
  shows "(1 - eps) * ((1 - eps) * (a * 100)) \<le> pct_of a e * e"
    and "pct_of a e * e \<le> (1 + eps) * ((1 + eps) * (a * 100))"
proof -
  have q: "0 \<le> a / e" using assms by simp
  then have d: "0 \<le> dquo a e" by (simp add: dquo_def ctx.rnd_nonneg)
  have "(1 - eps) * ((1 - eps) * (a / e) * 100) \<le> (1 - eps) * (dquo a e * 100)"
    using round_lower [OF q] eps_pos(1) by (intro mult_left_mono mult_right_mono) (simp_all add: dquo_def)
  also have "\<dots> \<le> pct_of a e" using round_lower [of "dquo a e * 100"] d by (simp add: pct_of_def dmul_def)
  finally have "(1 - eps) * ((1 - eps) * (a / e) * 100) * e \<le> pct_of a e * e"
    using assms(2) by (intro mult_right_mono) simp_all
  then show "(1 - eps) * ((1 - eps) * (a * 100)) \<le> pct_of a e * e" using assms(2) by simp
  have "pct_of a e \<le> (1 + eps) * (dquo a e * 100)"
    using round_upper [of "dquo a e * 100"] d by (simp add: pct_of_def dmul_def)
  also have "\<dots> \<le> (1 + eps) * ((1 + eps) * (a / e) * 100)"
    using round_upper [OF q] eps_pos(2) by (intro mult_left_mono mult_right_mono) (simp_all add: dquo_def)
  finally have "pct_of a e * e \<le> (1 + eps) * ((1 + eps) * (a / e) * 100) * e"
    using assms(2) by (intro mult_right_mono) simp_all
  then show "pct_of a e * e \<le> (1 + eps) * ((1 + eps) * (a * 100))" using assms(2) by simp
qed

text \<open>A percentage within a cap, against the exact ratio.\<close>

lemma slack_lower2: "0 \<le> x \<Longrightarrow> (1 - slack) * x \<le> (1 - eps) * ((1 - eps) * x)"
  using mult_right_mono [OF slack_eps(3), of x] by (simp only: mult.assoc)

lemma slack_lower3: "0 \<le> x \<Longrightarrow> (1 - slack) * x \<le> (1 - eps) * ((1 - eps) * ((1 - eps) * x))"
  using mult_right_mono [OF slack_eps(1), of x] by (simp only: mult.assoc)

lemma slack_upper2: "0 \<le> x \<Longrightarrow> (1 + eps) * ((1 + eps) * x) \<le> (1 + slack) * x"
  using mult_right_mono [OF slack_eps(4), of x] by (simp only: mult.assoc)

lemma slack_upper3: "0 \<le> x \<Longrightarrow> (1 + eps) * ((1 + eps) * ((1 + eps) * x)) \<le> (1 + slack) * x"
  using mult_right_mono [OF slack_eps(2), of x] by (simp only: mult.assoc)

lemma pct_within:
  assumes "0 \<le> a" and "0 < e"
  shows "pct_of a e \<le> cap \<Longrightarrow> (1 - slack) * (a * 100) \<le> cap * e"
    and "pct_of a e < cap \<Longrightarrow> (1 - slack) * (a * 100) < cap * e"
    and "(1 + slack) * (a * 100) \<le> cap * e \<Longrightarrow> pct_of a e \<le> cap"
    and "(1 + slack) * (a * 100) < cap * e \<Longrightarrow> pct_of a e < cap"
proof -
  have lo: "(1 - slack) * (a * 100) \<le> pct_of a e * e"
    using pct_sandwich(1) [OF assms] slack_lower2 [of "a * 100"] assms(1) by linarith
  have hi: "pct_of a e * e \<le> (1 + slack) * (a * 100)"
    using pct_sandwich(2) [OF assms] slack_upper2 [of "a * 100"] assms(1) by linarith
  have le: "pct_of a e \<le> cap \<longleftrightarrow> pct_of a e * e \<le> cap * e" for cap using assms(2) by simp
  have less: "pct_of a e < cap \<longleftrightarrow> pct_of a e * e < cap * e" for cap using assms(2) by simp
  show "pct_of a e \<le> cap \<Longrightarrow> (1 - slack) * (a * 100) \<le> cap * e" using lo le by auto
  show "pct_of a e < cap \<Longrightarrow> (1 - slack) * (a * 100) < cap * e" using lo less by auto
  show "(1 + slack) * (a * 100) \<le> cap * e \<Longrightarrow> pct_of a e \<le> cap" using hi le by auto
  show "(1 + slack) * (a * 100) < cap * e \<Longrightarrow> pct_of a e < cap" using hi less by auto
qed

lemma pct_sum_within:
  assumes "0 \<le> a" and "0 \<le> b" and "0 < e"
  shows "pct_of (dadd a b) e \<le> cap \<Longrightarrow> (1 - slack) * ((a + b) * 100) \<le> cap * e"
    and "(1 + slack) * ((a + b) * 100) \<le> cap * e \<Longrightarrow> pct_of (dadd a b) e \<le> cap"
proof -
  have s: "0 \<le> a + b" and d: "0 \<le> dadd a b" using assms(1,2) by (simp_all add: dadd_def ctx.rnd_nonneg)
  note p = pct_sandwich [OF d assms(3)]
  have x: "0 \<le> (a + b) * 100" using s by simp
  have "(1 - eps) * ((a + b) * 100) \<le> dadd a b * 100"
    using mult_right_mono [OF round_lower [OF s], of 100] unfolding dadd_def mult.assoc by simp
  then have "(1 - eps) * ((1 - eps) * ((1 - eps) * ((a + b) * 100))) \<le> (1 - eps) * ((1 - eps) * (dadd a b * 100))"
    using eps_pos(1) by (intro mult_left_mono) simp_all
  then have lo: "(1 - slack) * ((a + b) * 100) \<le> pct_of (dadd a b) e * e"
    using p(1) slack_lower3 [OF x] by linarith
  have "dadd a b * 100 \<le> (1 + eps) * ((a + b) * 100)"
    using mult_right_mono [OF round_upper [OF s], of 100] unfolding dadd_def mult.assoc by simp
  then have "(1 + eps) * ((1 + eps) * (dadd a b * 100)) \<le> (1 + eps) * ((1 + eps) * ((1 + eps) * ((a + b) * 100)))"
    using eps_pos(2) by (intro mult_left_mono) simp_all
  then have hi: "pct_of (dadd a b) e * e \<le> (1 + slack) * ((a + b) * 100)"
    using p(2) slack_upper3 [OF x] by linarith
  have le: "pct_of (dadd a b) e \<le> cap \<longleftrightarrow> pct_of (dadd a b) e * e \<le> cap * e" using assms(3) by simp
  show "pct_of (dadd a b) e \<le> cap \<Longrightarrow> (1 - slack) * ((a + b) * 100) \<le> cap * e" using lo le by auto
  show "(1 + slack) * ((a + b) * 100) \<le> cap * e \<Longrightarrow> pct_of (dadd a b) e \<le> cap" using hi le by auto
qed

lemma greek_within:
  shows "dabs (dadd p g) \<le> m \<Longrightarrow> (1 - slack) * \<bar>p + g\<bar> \<le> m"
    and "(1 + slack) * \<bar>p + g\<bar> \<le> m \<Longrightarrow> dabs (dadd p g) \<le> m"
proof -
  let ?x = "\<bar>p + g\<bar>"
  have d: "dabs (dadd p g) = ctx (ctx ?x)" by (simp add: dabs_def dadd_def ctx.rnd_abs)
  have c: "0 \<le> ctx ?x" by (simp add: ctx.rnd_nonneg)
  have "(1 - eps) * ((1 - eps) * ?x) \<le> (1 - eps) * ctx ?x"
    using round_lower [of ?x] eps_pos(1) by (intro mult_left_mono) simp_all
  then have lo: "(1 - slack) * ?x \<le> ctx (ctx ?x)"
    using round_lower [OF c] slack_lower2 [of ?x] by linarith
  have "(1 + eps) * ctx ?x \<le> (1 + eps) * ((1 + eps) * ?x)"
    using round_upper [of ?x] eps_pos(2) by (intro mult_left_mono) simp_all
  then have hi: "ctx (ctx ?x) \<le> (1 + slack) * ?x"
    using round_upper [OF c] slack_upper2 [of ?x] by linarith
  show "dabs (dadd p g) \<le> m \<Longrightarrow> (1 - slack) * ?x \<le> m" using lo d by simp
  show "(1 + slack) * ?x \<le> m \<Longrightarrow> dabs (dadd p g) \<le> m" using hi d by simp
qed

section \<open>What approval means\<close>

text \<open>The conditions of the policy, over the numbers of the context.\<close>

definition within_policy :: "risk_policy \<Rightarrow> option_structure \<Rightarrow> risk_context \<Rightarrow> bool" where
  "within_policy policy s c \<longleftrightarrow>
     rk_broker_execution_allowed c \<and> \<not> rk_duplicate_logical_order c \<and>
     pct_of (os_max_loss s) (rk_paper_equity c) \<le> rp_max_planned_loss_per_trade_pct_equity policy \<and>
     pct_of (dadd (rk_open_planned_loss c) (os_max_loss s)) (rk_paper_equity c)
       \<le> rp_max_total_open_planned_loss_pct_equity policy \<and>
     pct_of (dadd (rk_underlying_open_risk c) (os_max_loss s)) (rk_paper_equity c)
       \<le> rp_max_underlying_risk_concentration_pct policy \<and>
     pct_of (rk_daily_loss c) (rk_paper_equity c) < rp_daily_loss_halt_pct_equity policy \<and>
     rk_drawdown_percent c < rp_portfolio_drawdown_halt_pct policy \<and>
     rk_concurrent_option_structures c < rp_max_concurrent_option_structures policy \<and>
     dabs (dadd (rk_portfolio_delta c) (g_delta (os_greeks s))) \<le> rp_max_abs_portfolio_delta policy \<and>
     dabs (dadd (rk_portfolio_gamma c) (g_gamma (os_greeks s))) \<le> rp_max_abs_portfolio_gamma policy \<and>
     dabs (dadd (rk_portfolio_theta c) (g_theta (os_greeks s))) \<le> rp_max_abs_portfolio_theta policy \<and>
     dabs (dadd (rk_portfolio_vega c) (g_vega (os_greeks s))) \<le> rp_max_abs_portfolio_vega policy"

lemma risk_checks_pass: "list_all ck_passed (risk_checks policy s c) \<longleftrightarrow> within_policy policy s c"
  by (simp add: risk_checks_def within_policy_def Let_def)

lemma risk_evaluate_Inr:
  assumes "risk_context_valid c" and "0 \<le> os_max_loss (rc_structure candidate)"
  shows "\<exists>d. risk_evaluate policy fresh now candidate c = Inr d \<and>
    rd_structure_id d = rc_structure_id candidate \<and>
    rd_calculated_max_loss d = os_max_loss (rc_structure candidate) \<and>
    rd_checks d = risk_checks policy (rc_structure candidate) c \<and>
    (rd_decision d = APPROVE \<longleftrightarrow> within_policy policy (rc_structure candidate) c)"
  using assms by (auto simp: risk_evaluate_def Let_def risk_context_valid_def risk_decision_valid_def
      dquo_def ctx.rnd_nonneg risk_checks_pass)

text \<open>The same conditions over exact numbers, each amount weighted by a factor \<open>k\<close>.\<close>

definition exact_limits :: "rat \<Rightarrow> risk_policy \<Rightarrow> option_structure \<Rightarrow> risk_context \<Rightarrow> bool" where
  "exact_limits k policy s c \<longleftrightarrow>
     rk_broker_execution_allowed c \<and> \<not> rk_duplicate_logical_order c \<and>
     k * (os_max_loss s * 100) \<le> rp_max_planned_loss_per_trade_pct_equity policy * rk_paper_equity c \<and>
     k * ((rk_open_planned_loss c + os_max_loss s) * 100)
       \<le> rp_max_total_open_planned_loss_pct_equity policy * rk_paper_equity c \<and>
     k * ((rk_underlying_open_risk c + os_max_loss s) * 100)
       \<le> rp_max_underlying_risk_concentration_pct policy * rk_paper_equity c \<and>
     k * (rk_daily_loss c * 100) < rp_daily_loss_halt_pct_equity policy * rk_paper_equity c \<and>
     rk_drawdown_percent c < rp_portfolio_drawdown_halt_pct policy \<and>
     rk_concurrent_option_structures c < rp_max_concurrent_option_structures policy \<and>
     k * \<bar>rk_portfolio_delta c + g_delta (os_greeks s)\<bar> \<le> rp_max_abs_portfolio_delta policy \<and>
     k * \<bar>rk_portfolio_gamma c + g_gamma (os_greeks s)\<bar> \<le> rp_max_abs_portfolio_gamma policy \<and>
     k * \<bar>rk_portfolio_theta c + g_theta (os_greeks s)\<bar> \<le> rp_max_abs_portfolio_theta policy \<and>
     k * \<bar>rk_portfolio_vega c + g_vega (os_greeks s)\<bar> \<le> rp_max_abs_portfolio_vega policy"

lemma within_policy_exact:
  assumes "risk_context_valid c" and "0 \<le> os_max_loss s"
  shows "within_policy policy s c \<Longrightarrow> exact_limits (1 - slack) policy s c"
    and "exact_limits (1 + slack) policy s c \<Longrightarrow> within_policy policy s c"
proof -
  have v: "0 < rk_paper_equity c" "0 \<le> rk_open_planned_loss c" "0 \<le> rk_underlying_open_risk c"
    "0 \<le> rk_daily_loss c"
    using assms(1) by (simp_all add: risk_context_valid_def)
  note loss = pct_within [OF assms(2) v(1)] and daily = pct_within [OF v(4) v(1)]
  note open_loss = pct_sum_within [OF v(2) assms(2) v(1)] and und = pct_sum_within [OF v(3) assms(2) v(1)]
  show "within_policy policy s c \<Longrightarrow> exact_limits (1 - slack) policy s c"
    unfolding within_policy_def exact_limits_def
    by (elim conjE, intro conjI loss(1) open_loss(1) und(1) daily(2) greek_within(1))
  show "exact_limits (1 + slack) policy s c \<Longrightarrow> within_policy policy s c"
    unfolding within_policy_def exact_limits_def
    by (elim conjE, intro conjI loss(3) open_loss(2) und(2) daily(4) greek_within(2))
qed

text \<open>Fewer losses keep a context within the policy.\<close>

definition no_riskier :: "risk_context \<Rightarrow> risk_context \<Rightarrow> bool" where
  "no_riskier c d \<longleftrightarrow>
     rk_paper_equity c = rk_paper_equity d \<and> rk_open_planned_loss c \<le> rk_open_planned_loss d \<and>
     rk_underlying_open_risk c \<le> rk_underlying_open_risk d \<and> rk_daily_loss c \<le> rk_daily_loss d \<and>
     rk_drawdown_percent c \<le> rk_drawdown_percent d \<and>
     rk_concurrent_option_structures c \<le> rk_concurrent_option_structures d \<and>
     rk_portfolio_delta c = rk_portfolio_delta d \<and> rk_portfolio_gamma c = rk_portfolio_gamma d \<and>
     rk_portfolio_theta c = rk_portfolio_theta d \<and> rk_portfolio_vega c = rk_portfolio_vega d \<and>
     rk_broker_execution_allowed c = rk_broker_execution_allowed d \<and>
     rk_duplicate_logical_order c = rk_duplicate_logical_order d"

lemma within_policy_antitone:
  assumes "within_policy policy t d" and "no_riskier c d" and "0 < rk_paper_equity d"
    and "os_max_loss s \<le> os_max_loss t" and "os_greeks s = os_greeks t"
  shows "within_policy policy s c"
proof -
  let ?e = "rk_paper_equity d"
  have "pct_of (os_max_loss s) ?e \<le> pct_of (os_max_loss t) ?e"
    "pct_of (rk_daily_loss c) ?e \<le> pct_of (rk_daily_loss d) ?e"
    "pct_of (dadd (rk_open_planned_loss c) (os_max_loss s)) ?e
      \<le> pct_of (dadd (rk_open_planned_loss d) (os_max_loss t)) ?e"
    "pct_of (dadd (rk_underlying_open_risk c) (os_max_loss s)) ?e
      \<le> pct_of (dadd (rk_underlying_open_risk d) (os_max_loss t)) ?e"
    using assms(2,4) by (intro pct_mono dadd_mono assms(3); simp add: no_riskier_def)+
  with assms show ?thesis
    unfolding within_policy_def no_riskier_def by (auto intro: order_trans le_less_trans)
qed

end
