(* ===== verification/Strategy.thy ===== *)
theory Strategy
  imports Workflow_Domain "HOL-Library.Multiset"
begin

text \<open>
  \<open>packages/strategy/\<close>: the catalyst-momentum strategy (scoring a signal, turning it into a
  trade idea, ranking structures), the volatility-premium strategy and the portfolio-protection
  strategy.  Fresh UUIDs and the current time are arguments.
\<close>

section \<open>Scoring a signal\<close>

definition clamp :: "decimal \<Rightarrow> decimal \<Rightarrow> decimal \<Rightarrow> decimal" where
  "clamp value low high = min (max value low) high"

definition directional :: "decimal \<Rightarrow> decimal \<Rightarrow> decimal" where
  "directional x direction = clamp (dmul x direction) (- 1) 1"

definition normalized_score :: "catalyst_features \<Rightarrow> decimal" where
  "normalized_score f =
     (let direction = (if cf_sentiment f \<ge> 0 then 1 else - 1);
          momentum = directional (cf_price_momentum f) direction;
          market = directional (cf_market_confirmation f) direction;
          sector = directional (cf_sector_confirmation f) direction;
          volume = clamp (dquo (dsub (cf_relative_volume f) 1) 2) 0 1
      in dadd (dadd (dadd (dadd (dadd (dadd
           (dmul (cf_catalyst_confidence f) (3 / 10))
           (dmul (dabs (cf_sentiment f)) (3 / 20)))
           (dmul (dquo (dadd momentum 1) 2) (1 / 5)))
           (dmul volume (1 / 10)))
           (dmul (dquo (dadd market 1) 2) (3 / 40)))
           (dmul (dquo (dadd sector 1) 2) (3 / 40)))
           (dmul (cf_liquidity_score f) (1 / 10)))"

definition score_signal :: "catalyst_features \<Rightarrow> decimal result" where
  "score_signal f = quantize 2 (dmul (normalized_score f) 100)"

section \<open>Catalyst momentum\<close>

record catalyst_momentum_strategy =
  cm_minimum_score :: decimal
  cm_maximum_gap :: decimal

definition default_catalyst_strategy :: catalyst_momentum_strategy where
  "default_catalyst_strategy = \<lparr> cm_minimum_score = 65, cm_maximum_gap = 12 \<rparr>"

datatype signal_outcome = No_trade no_trade | Idea trade_idea

definition days :: "int \<Rightarrow> int" where
  "days n = seconds (86400 * n)"

definition hours :: "int \<Rightarrow> int" where
  "hours n = seconds (3600 * n)"

definition idea_direction :: "catalyst_features \<Rightarrow> direction" where
  "idea_direction f = (if cf_sentiment f > 0 then BULLISH else BEARISH)"

definition signal_reasons :: "catalyst_momentum_strategy \<Rightarrow> signal \<Rightarrow> string list" where
  "signal_reasons strategy s =
     (let f = sg_features s; direction = idea_direction f;
          directional_momentum = dmul (cf_price_momentum f) (if direction = BULLISH then 1 else - 1)
      in reason_if (sg_score s < cm_minimum_score strategy) ''score_below_threshold'' @
         reason_if (dabs (cf_gap_percent f) > cm_maximum_gap strategy) ''move_excessively_extended'' @
         reason_if (directional_momentum \<le> 0) ''price_action_not_confirming'' @
         reason_if (cf_catalyst_confidence f < 3 / 5) ''weak_catalyst_confidence'')"

definition evaluate_signal ::
  "catalyst_momentum_strategy \<Rightarrow> uuid \<Rightarrow> instant \<Rightarrow> signal \<Rightarrow> signal_outcome result" where
  "evaluate_signal strategy fresh now s =
     (let reasons = signal_reasons strategy s in
      if reasons \<noteq> [] then
        Inr (No_trade \<lparr> nt_signal_id = sg_signal_id s, nt_reason_codes = reasons, nt_created_at = now \<rparr>)
      else
        rbind (validated trade_idea_valid ''TradeIdea''
          \<lparr> ti_trade_idea_id = fresh, ti_signal_id = sg_signal_id s, ti_symbol = sg_symbol s,
            ti_direction = idea_direction (sg_features s),
            ti_thesis = ''High-confidence catalyst with confirming abnormal volume and price momentum.'',
            ti_holding_horizon = days 10, ti_entry_window = hours 4,
            ti_exit_logic = ''Exit at target, stop, catalyst invalidation, or two DTE.'',
            ti_confidence = dquo (sg_score s) 100 \<rparr>)
          (\<lambda>idea. Inr (Idea idea)))"

text \<open>\<open>quote.spread_ratio or Decimal("1")\<close>: both \<open>None\<close> and zero are falsy.\<close>

definition leg_spread_cost :: "option_leg \<Rightarrow> decimal" where
  "leg_spread_cost leg = (case spread_ratio (oc_quote (ol_contract leg)) of
      None \<Rightarrow> 1 | Some r \<Rightarrow> if r = 0 then 1 else r)"

definition rank_structure ::
  "uuid \<Rightarrow> trade_idea \<Rightarrow> option_structure \<Rightarrow> decimal \<Rightarrow> ranked_candidate result" where
  "rank_structure structure_id idea s max_profit =
     rbind (ddiv max_profit (os_max_loss s)) (\<lambda>reward_risk.
     rbind (ddiv (dsum (map leg_spread_cost (os_legs s))) (of_nat (length (os_legs s)))) (\<lambda>spread_cost.
     rbind (quantize 4 (dsub (dmul reward_risk 50) (dmul spread_cost 100))) (\<lambda>score.
     Inr \<lparr> rc_structure_id = structure_id, rc_trade_idea_id = ti_trade_idea_id idea,
       rc_structure = s, rc_rank_score = score,
       rc_rank_components = [(''reward_risk'', reward_risk), (''spread_cost'', spread_cost)] \<rparr>)))"

text \<open>The loop of \<open>rank_candidates\<close>; \<open>fresh n\<close> is the UUID made for the \<open>n\<close>-th structure.\<close>

fun rank_loop ::
  "(nat \<Rightarrow> uuid) \<Rightarrow> structure_type \<Rightarrow> trade_idea \<Rightarrow> nat \<Rightarrow> option_structure list \<Rightarrow>
   ranked_candidate list result"
where
  "rank_loop fresh wanted idea n [] = Inr []"
| "rank_loop fresh wanted idea n (s # ss) =
     (if os_structure_type s \<noteq> wanted then rank_loop fresh wanted idea (Suc n) ss
      else case os_max_profit s of
          None \<Rightarrow> rank_loop fresh wanted idea (Suc n) ss
        | Some max_profit \<Rightarrow>
            rbind (rank_structure (fresh n) idea s max_profit) (\<lambda>c.
            rbind (rank_loop fresh wanted idea (Suc n) ss) (\<lambda>cs. Inr (c # cs))))"

definition wanted_structure :: "trade_idea \<Rightarrow> structure_type" where
  "wanted_structure idea =
     (if ti_direction idea = BULLISH then BULL_CALL_DEBIT_SPREAD else BEAR_PUT_DEBIT_SPREAD)"

definition rank_key :: "ranked_candidate \<Rightarrow> decimal \<times> string" where
  "rank_key c = (dneg (rc_rank_score c), rc_structure_id c)"

definition rank_candidates ::
  "(nat \<Rightarrow> uuid) \<Rightarrow> trade_idea \<Rightarrow> option_structure list \<Rightarrow> ranked_candidate list result" where
  "rank_candidates fresh idea structures =
     rbind (rank_loop fresh (wanted_structure idea) idea 0 structures) (\<lambda>ranked.
     Inr (sort_key rank_key ranked))"

section \<open>Volatility premium\<close>

record volatility_premium_context =
  vc_iv_percentile :: decimal
  vc_realized_volatility_percentile :: decimal
  vc_event_risk :: bool
  vc_tail_risk_score :: decimal
  vc_trend_score :: decimal

definition volatility_premium_context_valid :: "volatility_premium_context \<Rightarrow> bool" where
  "volatility_premium_context_valid c \<longleftrightarrow>
     unit_interval (vc_iv_percentile c) \<and> unit_interval (vc_realized_volatility_percentile c) \<and>
     unit_interval (vc_tail_risk_score c) \<and> signed_interval (vc_trend_score c)"

record volatility_assessment =
  va_eligible :: bool
  va_premium_edge :: decimal
  va_reason_codes :: "string list"
  va_preferred_structure :: "structure_type option"

definition evaluate_volatility :: "volatility_premium_context \<Rightarrow> volatility_assessment" where
  "evaluate_volatility c =
     (let edge = dsub (vc_iv_percentile c) (vc_realized_volatility_percentile c);
          reasons =
            reason_if (edge < 1 / 5) ''insufficient_volatility_premium'' @
            reason_if (vc_event_risk c) ''event_risk'' @
            reason_if (vc_tail_risk_score c > 7 / 10) ''tail_risk_elevated'';
          eligible = (reasons = []);
          preferred = (if eligible then
            Some (if vc_trend_score c \<ge> 0 then BULL_PUT_CREDIT_SPREAD else BEAR_CALL_CREDIT_SPREAD)
            else None)
      in \<lparr> va_eligible = eligible, va_premium_edge = edge, va_reason_codes = reasons,
           va_preferred_structure = preferred \<rparr>)"

text \<open>The sort key divides by the maximum loss, so sorting may raise.\<close>

definition volatility_key :: "option_structure \<Rightarrow> (decimal \<times> decimal) result" where
  "volatility_key s =
     rbind (ddiv (dneg (or_else (os_max_profit s) 0)) (os_max_loss s)) (\<lambda>q. Inr (q, os_max_loss s))"

definition sort_by_result :: "('a \<Rightarrow> ('k::linorder) result) \<Rightarrow> 'a list \<Rightarrow> 'a list result" where
  "sort_by_result key xs =
     rbind (rmap key xs) (\<lambda>keys. Inr (map snd (sort_key fst (zip keys xs))))"

definition rank_volatility ::
  "volatility_assessment \<Rightarrow> option_structure list \<Rightarrow> option_structure list result" where
  "rank_volatility a candidates =
     (if \<not> va_eligible a \<or> va_preferred_structure a = None then Inr []
      else sort_by_result volatility_key
        (filter (\<lambda>s. Some (os_structure_type s) = va_preferred_structure a) candidates))"

section \<open>Portfolio protection\<close>

record protection_context =
  pc_portfolio_delta :: decimal
  pc_drawdown_percent :: decimal
  pc_volatility_percentile :: decimal
  pc_trend_score :: decimal
  pc_concentration_percent :: decimal
  pc_correlation_score :: decimal

definition protection_context_valid :: "protection_context \<Rightarrow> bool" where
  "protection_context_valid c \<longleftrightarrow>
     0 \<le> pc_drawdown_percent c \<and> unit_interval (pc_volatility_percentile c) \<and>
     signed_interval (pc_trend_score c) \<and> 0 \<le> pc_concentration_percent c \<and>
     unit_interval (pc_correlation_score c)"

record protection_assessment =
  pa_activated :: bool
  pa_score :: decimal
  pa_reasons :: "string list"
  pa_preferred_structures :: "structure_type list"

definition protection_raw_score :: "protection_context \<Rightarrow> decimal" where
  "protection_raw_score c =
     (let deterioration = max (dneg (pc_trend_score c)) 0
      in dadd (dadd (dadd (dadd
           (dmul (min (dquo (pc_drawdown_percent c) 10) 1) 30)
           (dmul (pc_volatility_percentile c) 20))
           (dmul deterioration 20))
           (dmul (min (dquo (pc_concentration_percent c) 20) 1) 15))
           (dmul (pc_correlation_score c) 15))"

definition evaluate_protection :: "protection_context \<Rightarrow> protection_assessment result" where
  "evaluate_protection c =
     rbind (quantize 2 (protection_raw_score c)) (\<lambda>score.
     Inr \<lparr> pa_activated = (score \<ge> 55), pa_score = score,
       pa_reasons =
         reason_if (pc_drawdown_percent c \<ge> 5) ''portfolio_drawdown'' @
         reason_if (pc_trend_score c \<le> - (2 / 5)) ''trend_deterioration'' @
         reason_if (pc_concentration_percent c \<ge> 15) ''concentration'',
       pa_preferred_structures = [PROTECTIVE_PUT_SPREAD, PROTECTIVE_PUT] \<rparr>)"

definition rank_protection :: "option_structure list \<Rightarrow> option_structure list" where
  "rank_protection candidates =
     sort_key (\<lambda>s. (os_max_loss s, os_net_premium_per_share s))
       (filter (\<lambda>s. os_structure_type s \<in> {PROTECTIVE_PUT, PROTECTIVE_PUT_SPREAD}) candidates)"

section \<open>Bounds of the scores\<close>

lemma dadd_between:
  assumes "0 \<le> a \<and> a \<le> x" "0 \<le> b \<and> b \<le> y" and "ctx (x + y) = x + y"
  shows "0 \<le> dadd a b \<and> dadd a b \<le> x + y"
  using assms by (auto simp: dadd_def intro: ctx.rnd_nonneg ctx.rnd_le)

lemma dmul_between:
  assumes "0 \<le> a \<and> a \<le> 1" "0 \<le> w" and "ctx w = w"
  shows "0 \<le> dmul a w \<and> dmul a w \<le> w"
  using assms mult_left_le_one_le [of w a]
  by (auto simp: dmul_def intro: ctx.rnd_nonneg ctx.rnd_le)

lemma clamp_between: "low \<le> high \<Longrightarrow> low \<le> clamp x low high \<and> clamp x low high \<le> high"
  by (auto simp: clamp_def)

lemma half_between:
  assumes "- 1 \<le> x \<and> x \<le> 1"
  shows "0 \<le> dquo (dadd x 1) 2 \<and> dquo (dadd x 1) 2 \<le> 1"
proof -
  have "0 \<le> dadd x 1 \<and> dadd x 1 \<le> 2"
    using assms by (auto simp: dadd_def dec_eval intro: ctx.rnd_nonneg ctx.rnd_le)
  then show ?thesis
    by (auto simp: dquo_def dec_eval intro: ctx.rnd_nonneg ctx.rnd_le)
qed

lemma directional_between: "- 1 \<le> directional x d \<and> directional x d \<le> 1"
  unfolding directional_def by (rule clamp_between) simp

lemma dabs_between:
  assumes "- 1 \<le> x \<and> x \<le> 1"
  shows "0 \<le> dabs x \<and> dabs x \<le> 1"
  using assms by (auto simp: dabs_def dec_eval intro: ctx.rnd_nonneg ctx.rnd_le)

text \<open>The weights of the score and their partial sums are exact decimals.\<close>

lemma score_weights:
  "ctx (3 / 10) = 3 / 10" "ctx (3 / 20) = 3 / 20" "ctx (1 / 5) = 1 / 5" "ctx (1 / 10) = 1 / 10"
  "ctx (3 / 40) = 3 / 40" "ctx (9 / 20) = 9 / 20" "ctx (13 / 20) = 13 / 20" "ctx (3 / 4) = 3 / 4"
  "ctx (33 / 40) = 33 / 40" "ctx (9 / 10) = 9 / 10" "ctx 1 = 1" "ctx 100 = 100"
  by (simp_all add: dec_eval)

lemma weighted_sum_between:
  assumes "0 \<le> a \<and> a \<le> 1" "0 \<le> b \<and> b \<le> 1" "0 \<le> c \<and> c \<le> 1" "0 \<le> d \<and> d \<le> 1"
    and "0 \<le> e \<and> e \<le> 1" "0 \<le> g \<and> g \<le> 1" "0 \<le> h \<and> h \<le> (1 :: rat)"
  shows "let s = dadd (dadd (dadd (dadd (dadd (dadd (dmul a (3 / 10)) (dmul b (3 / 20)))
      (dmul c (1 / 5))) (dmul d (1 / 10))) (dmul e (3 / 40))) (dmul g (3 / 40))) (dmul h (1 / 10))
    in 0 \<le> s \<and> s \<le> 1"
proof -
  let ?s1 = "dadd (dmul a (3 / 10)) (dmul b (3 / 20))"
  let ?s2 = "dadd ?s1 (dmul c (1 / 5))"
  let ?s3 = "dadd ?s2 (dmul d (1 / 10))"
  let ?s4 = "dadd ?s3 (dmul e (3 / 40))"
  let ?s5 = "dadd ?s4 (dmul g (3 / 40))"
  note w = dmul_between [OF _ _ score_weights(1)] dmul_between [OF _ _ score_weights(2)]
    dmul_between [OF _ _ score_weights(3)] dmul_between [OF _ _ score_weights(4)]
    dmul_between [OF _ _ score_weights(5)]
  have s1: "0 \<le> ?s1 \<and> ?s1 \<le> 9 / 20"
    using dadd_between [OF w(1) [OF assms(1)] w(2) [OF assms(2)]] score_weights by simp
  have s2: "0 \<le> ?s2 \<and> ?s2 \<le> 13 / 20"
    using dadd_between [OF s1 w(3) [OF assms(3)]] score_weights by simp
  have s3: "0 \<le> ?s3 \<and> ?s3 \<le> 3 / 4"
    using dadd_between [OF s2 w(4) [OF assms(4)]] score_weights by simp
  have s4: "0 \<le> ?s4 \<and> ?s4 \<le> 33 / 40"
    using dadd_between [OF s3 w(5) [OF assms(5)]] score_weights by simp
  have s5: "0 \<le> ?s5 \<and> ?s5 \<le> 9 / 10"
    using dadd_between [OF s4 w(5) [OF assms(6)]] score_weights by simp
  show ?thesis
    using dadd_between [OF s5 w(4) [OF assms(7)]] score_weights by (simp add: Let_def)
qed

lemma normalized_score_between:
  assumes "catalyst_features_valid f"
  shows "0 \<le> normalized_score f \<and> normalized_score f \<le> 1"
proof -
  have u: "0 \<le> cf_catalyst_confidence f \<and> cf_catalyst_confidence f \<le> 1"
    "0 \<le> cf_liquidity_score f \<and> cf_liquidity_score f \<le> 1"
    "- 1 \<le> cf_sentiment f \<and> cf_sentiment f \<le> 1"
    using assms by (auto simp: catalyst_features_valid_def unit_interval_def signed_interval_def)
  show ?thesis
    unfolding normalized_score_def Let_def
    by (rule weighted_sum_between [unfolded Let_def]; intro u half_between directional_between
        dabs_between clamp_between zero_le_one)
qed

lemma score_exact:
  assumes "catalyst_features_valid f"
  shows "score_signal f = Inr (round_places 2 (dmul (normalized_score f) 100))"
    and "0 \<le> round_places 2 (dmul (normalized_score f) 100)"
    and "round_places 2 (dmul (normalized_score f) 100) \<le> 100"
proof -
  have m: "0 \<le> dmul (normalized_score f) 100" "dmul (normalized_score f) 100 \<le> 100"
    using dmul_between [OF normalized_score_between [OF assms] _ score_weights(12)] by simp_all
  then show "score_signal f = Inr (round_places 2 (dmul (normalized_score f) 100))"
    by (simp add: score_signal_def quantize_bounded)
  show "0 \<le> round_places 2 (dmul (normalized_score f) 100)"
    using m(1) by (rule places.rnd_nonneg)
  show "round_places 2 (dmul (normalized_score f) 100) \<le> 100"
    by (rule places.rnd_le [OF round_places_grid m(2)]) (simp add: grid)
qed

end
