(* ===== verification/Options_Engine.thy ===== *)
theory Options_Engine
  imports Options_Domain
begin

text \<open>
  \<open>packages/options/engine.py\<close>: validation and pricing of defined-risk option structures
  (\<open>build_structure\<close>), aggregation of greeks and the payoff at expiration.
\<close>

section \<open>The engine\<close>

definition invalid :: "string \<Rightarrow> py_error" where
  "invalid m = InvalidOptionStructure m"

definition engine_require :: "bool \<Rightarrow> string \<Rightarrow> unit result" where
  "engine_require condition message = require condition (invalid message)"

text \<open>The loop of \<open>_validate_common\<close> over the legs.\<close>

fun check_legs :: "option_contract \<Rightarrow> option_leg list \<Rightarrow> unit result" where
  "check_legs first [] = Inr ()"
| "check_legs first (leg # legs) =
     rbind (engine_require (ol_ratio leg = 1) ''ratio structures are not supported'') (\<lambda>_.
     rbind (engine_require (oc_underlying_symbol (ol_contract leg) = oc_underlying_symbol first)
       ''underlying mismatch'') (\<lambda>_.
     rbind (engine_require (oc_expiration (ol_contract leg) = oc_expiration first)
       ''expiration mismatch'') (\<lambda>_.
     rbind (engine_require (oc_multiplier (ol_contract leg) = oc_multiplier first)
       ''multiplier mismatch'') (\<lambda>_.
     check_legs first legs))))"

definition validate_common :: "option_leg list \<Rightarrow> (string \<times> decimal) result" where
  "validate_common legs = (case legs of
      [] \<Rightarrow> Inl (invalid ''at least one option leg is required'')
    | l # _ \<Rightarrow>
        let first = ol_contract l in
        rbind (check_legs first legs) (\<lambda>_.
        Inr (oc_underlying_symbol first, of_int (oc_multiplier first))))"

text \<open>\<open>sum((sign * entry_price * ratio for leg in legs), ZERO)\<close>\<close>

definition premium_of :: "option_leg list \<Rightarrow> decimal" where
  "premium_of legs =
     dsum (map (\<lambda>leg. dmul (dmul (sign (ol_side leg)) (ol_entry_price leg)) (of_int (ol_ratio leg)))
       legs)"

definition scale_greeks :: "greeks \<Rightarrow> decimal \<Rightarrow> greeks" where
  "scale_greeks g scale = \<lparr> g_delta = dmul (g_delta g) scale, g_gamma = dmul (g_gamma g) scale,
     g_theta = dmul (g_theta g) scale, g_vega = dmul (g_vega g) scale \<rparr>"

definition add_greeks :: "greeks \<Rightarrow> greeks \<Rightarrow> greeks" where
  "add_greeks a b = \<lparr> g_delta = dadd (g_delta a) (g_delta b), g_gamma = dadd (g_gamma a) (g_gamma b),
     g_theta = dadd (g_theta a) (g_theta b), g_vega = dadd (g_vega a) (g_vega b) \<rparr>"

definition zero_greeks :: greeks where
  "zero_greeks = \<lparr> g_delta = 0, g_gamma = 0, g_theta = 0, g_vega = 0 \<rparr>"

definition leg_scale :: "option_leg \<Rightarrow> int \<Rightarrow> decimal" where
  "leg_scale leg quantity =
     dmul (dmul (dmul (sign (ol_side leg)) (of_int (ol_ratio leg))) (of_int quantity))
       (of_int (oc_multiplier (ol_contract leg)))"

fun greeks_loop :: "greeks \<Rightarrow> option_leg list \<Rightarrow> int \<Rightarrow> greeks result" where
  "greeks_loop totals [] quantity = Inr totals"
| "greeks_loop totals (leg # legs) quantity = (case oq_greeks (oc_quote (ol_contract leg)) of
      None \<Rightarrow> Inl (invalid (''Greeks unavailable for '' @ oc_symbol (ol_contract leg)))
    | Some g \<Rightarrow>
        greeks_loop (add_greeks totals (scale_greeks g (leg_scale leg quantity))) legs quantity)"

definition aggregate_greeks ::
  "option_leg list \<Rightarrow> int \<Rightarrow> underlying_leg option \<Rightarrow> greeks result" where
  "aggregate_greeks legs quantity underlying =
     rbind (greeks_loop zero_greeks legs quantity) (\<lambda>totals.
     Inr (case underlying of
         None \<Rightarrow> totals
       | Some u \<Rightarrow> totals\<lparr>g_delta := dadd (g_delta totals) (of_int (ul_shares u))\<rparr>))"

text \<open>\<open>next(leg for leg in legs if leg.side is s)\<close>, where the code has checked there is one.\<close>

definition leg_of_side :: "leg_side \<Rightarrow> option_leg list \<Rightarrow> option_leg" where
  "leg_of_side s legs = hd (filter (\<lambda>l. ol_side l = s) legs)"

definition strike_of :: "option_leg \<Rightarrow> decimal" where
  "strike_of l = oc_strike (ol_contract l)"

definition all_of_type :: "option_type \<Rightarrow> option_leg list \<Rightarrow> bool" where
  "all_of_type t legs \<longleftrightarrow> list_all (\<lambda>l. oc_option_type (ol_contract l) = t) legs"

text \<open>
  The branches of \<open>build_structure\<close>.  Each returns
  \<open>(max_loss, max_profit, break_evens)\<close>.
\<close>

type_synonym bounds = "decimal \<times> decimal option \<times> decimal list"

definition single_leg_bounds ::
  "structure_type \<Rightarrow> option_leg list \<Rightarrow> underlying_leg option \<Rightarrow> decimal \<Rightarrow> decimal \<Rightarrow> bounds result"
where
  "single_leg_bounds st legs underlying premium scale =
     (let wanted = (if st = LONG_CALL then CALL else PUT); strike = strike_of (hd legs) in
      rbind (engine_require (length legs = 1 \<and> ol_side (hd legs) = LONG) ''requires one long leg'') (\<lambda>_.
      rbind (engine_require (oc_option_type (ol_contract (hd legs)) = wanted)
        (if wanted = CALL then ''requires one long call'' else ''requires one long put'')) (\<lambda>_.
      rbind (engine_require (underlying = None) ''underlying leg is not allowed'') (\<lambda>_.
      rbind (engine_require (premium > 0) ''long option must be a debit'') (\<lambda>_.
      let max_loss = dmul premium scale in
      Inr (if wanted = CALL then (max_loss, None, [dadd strike premium])
           else (max_loss, Some (max (dmul (dsub strike premium) scale) 0), [dsub strike premium])))))))"

definition vertical_bounds ::
  "structure_type \<Rightarrow> option_leg list \<Rightarrow> underlying_leg option \<Rightarrow> decimal \<Rightarrow> decimal \<Rightarrow> bounds result"
where
  "vertical_bounds st legs underlying premium scale =
     rbind (engine_require (length legs = 2) ''vertical spread requires exactly two legs'') (\<lambda>_.
     rbind (engine_require (set (map ol_side legs) = {LONG, SHORT}) ''requires long and short legs'') (\<lambda>_.
     rbind (engine_require (underlying = None) ''underlying leg is not allowed'') (\<lambda>_.
     let wanted = (if st \<in> {BULL_CALL_DEBIT_SPREAD, BEAR_CALL_CREDIT_SPREAD} then CALL else PUT) in
     rbind (engine_require (all_of_type wanted legs) ''option type mismatch'') (\<lambda>_.
     let long_strike = strike_of (leg_of_side LONG legs);
         short_strike = strike_of (leg_of_side SHORT legs);
         width = dabs (dsub long_strike short_strike) in
     rbind (engine_require (width > 0) ''spread width must be positive'') (\<lambda>_.
     if st \<in> {BULL_CALL_DEBIT_SPREAD, BEAR_PUT_DEBIT_SPREAD} then
       rbind (engine_require (premium > 0 \<and> premium < width)
         ''debit must be positive and below width'') (\<lambda>_.
       rbind (if st = BULL_CALL_DEBIT_SPREAD then
           rbind (engine_require (long_strike < short_strike) ''bull call strikes invalid'')
             (\<lambda>_. Inr [dadd long_strike premium])
         else
           rbind (engine_require (long_strike > short_strike) ''bear put strikes invalid'')
             (\<lambda>_. Inr [dsub long_strike premium])) (\<lambda>break_evens.
       Inr (dmul premium scale, Some (dmul (dsub width premium) scale), break_evens)))
     else
       let credit = dneg premium in
       rbind (engine_require (credit > 0 \<and> credit < width)
         ''credit must be positive and below width'') (\<lambda>_.
       rbind (if st = BULL_PUT_CREDIT_SPREAD then
           rbind (engine_require (short_strike > long_strike) ''bull put strikes invalid'')
             (\<lambda>_. Inr [dsub short_strike credit])
         else
           rbind (engine_require (short_strike < long_strike) ''bear call strikes invalid'')
             (\<lambda>_. Inr [dadd short_strike credit])) (\<lambda>break_evens.
       Inr (dmul (dsub width credit) scale, Some (dmul credit scale), break_evens))))))))"

definition protective_bounds ::
  "structure_type \<Rightarrow> option_leg list \<Rightarrow> underlying_leg option \<Rightarrow> decimal \<Rightarrow> decimal \<Rightarrow>
   string \<Rightarrow> decimal \<Rightarrow> int \<Rightarrow> bounds result"
where
  "protective_bounds st legs underlying premium scale symbol multiplier quantity =
     (case underlying of
        None \<Rightarrow> Inl (invalid ''protective structure requires an underlying leg'')
      | Some u \<Rightarrow>
          rbind (engine_require (ul_symbol u = symbol) ''underlying symbol mismatch'') (\<lambda>_.
          rbind (engine_require (ul_shares u = \<lfloor>multiplier\<rfloor> * quantity)
            ''protective shares must match contracts'') (\<lambda>_.
          rbind (engine_require (all_of_type PUT legs) ''requires put legs'') (\<lambda>_.
          rbind (engine_require (premium > 0) ''protective structure must be a net debit'') (\<lambda>_.
          rbind (if st = PROTECTIVE_PUT then
              rbind (engine_require (length legs = 1 \<and> ol_side (hd legs) = LONG)
                ''requires one long put'') (\<lambda>_. Inr (strike_of (hd legs)))
            else
              rbind (engine_require (length legs = 2) ''protective put spread requires two legs'') (\<lambda>_.
              rbind (engine_require (set (map ol_side legs) = {LONG, SHORT})
                ''requires long and short puts'') (\<lambda>_.
              let long_strike = strike_of (leg_of_side LONG legs);
                  short_strike = strike_of (leg_of_side SHORT legs) in
              rbind (engine_require (long_strike > short_strike)
                ''protective put spread strikes invalid'') (\<lambda>_.
              Inr (dsub long_strike short_strike))))) (\<lambda>floor.
          Inr (max (dmul (dsub (dadd (ul_entry_price u) premium) floor) scale) 0, None,
            [dadd (ul_entry_price u) premium])))))))"

definition structure_bounds ::
  "structure_type \<Rightarrow> option_leg list \<Rightarrow> underlying_leg option \<Rightarrow> decimal \<Rightarrow> decimal \<Rightarrow>
   string \<Rightarrow> decimal \<Rightarrow> int \<Rightarrow> bounds result"
where
  "structure_bounds st legs underlying premium scale symbol multiplier quantity =
     (if st \<in> {LONG_CALL, LONG_PUT} then single_leg_bounds st legs underlying premium scale
      else if st \<in> {BULL_CALL_DEBIT_SPREAD, BEAR_PUT_DEBIT_SPREAD,
        BULL_PUT_CREDIT_SPREAD, BEAR_CALL_CREDIT_SPREAD}
      then vertical_bounds st legs underlying premium scale
      else protective_bounds st legs underlying premium scale symbol multiplier quantity)"

definition build_structure ::
  "structure_type \<Rightarrow> option_leg list \<Rightarrow> int \<Rightarrow> underlying_leg option \<Rightarrow> option_structure result"
where
  "build_structure st legs quantity underlying =
     rbind (validate_common legs) (\<lambda>(symbol, multiplier).
     rbind (engine_require (quantity \<ge> 1) ''quantity must be positive'') (\<lambda>_.
     let premium = premium_of legs; scale = dmul multiplier (of_int quantity) in
     rbind (structure_bounds st legs underlying premium scale symbol multiplier quantity)
       (\<lambda>(max_loss, max_profit, break_evens).
     rbind (engine_require (max_loss \<ge> 0) ''worst-case loss must be bounded'') (\<lambda>_.
     rbind (aggregate_greeks legs quantity underlying) (\<lambda>g.
     validated option_structure_valid ''OptionStructure''
       \<lparr> os_structure_type = st, os_quantity = quantity, os_legs = legs, os_underlying = underlying,
         os_net_premium_per_share = premium, os_max_loss = max_loss, os_max_profit = max_profit,
         os_break_evens = break_evens, os_greeks = g \<rparr>)))))"

text \<open>The payoff of a structure at expiration, for a price of the underlying.\<close>

definition intrinsic :: "option_leg \<Rightarrow> decimal \<Rightarrow> decimal" where
  "intrinsic leg price = (if oc_option_type (ol_contract leg) = CALL
     then max (dsub price (strike_of leg)) 0 else max (dsub (strike_of leg) price) 0)"

definition leg_amount :: "option_leg \<Rightarrow> decimal \<Rightarrow> int \<Rightarrow> decimal" where
  "leg_amount leg amount quantity =
     dmul (dmul (dmul (dmul (sign (ol_side leg)) amount) (of_int (ol_ratio leg)))
       (of_int (oc_multiplier (ol_contract leg)))) (of_int quantity)"

definition payoff_step :: "decimal \<Rightarrow> int \<Rightarrow> decimal \<Rightarrow> option_leg \<Rightarrow> decimal" where
  "payoff_step price quantity payoff leg =
     dsub (dadd payoff (leg_amount leg (intrinsic leg price) quantity))
       (leg_amount leg (ol_entry_price leg) quantity)"

definition expiration_payoff :: "option_structure \<Rightarrow> decimal \<Rightarrow> decimal result" where
  "expiration_payoff s price =
     rbind (engine_require (price \<ge> 0) ''underlying price cannot be negative'') (\<lambda>_.
     let payoff = foldl (payoff_step price (os_quantity s)) 0 (os_legs s) in
     Inr (case os_underlying s of
         None \<Rightarrow> payoff
       | Some u \<Rightarrow>
           dadd payoff (dmul (dsub price (ul_entry_price u)) (of_int (ul_shares u)))))"

end
