(* ===== verification/Options_Payoff.thy ===== *)
theory Options_Payoff
  imports Options_Engine
begin

text \<open>
  What \<open>build_structure\<close> promises about the money at risk.  The abstract specification is
  \<open>exact_payoff\<close>, the payoff in exact rational arithmetic; on prices with at most four
  decimal places and realistic size the engine's decimal arithmetic refines it without any
  rounding (\<open>payoff_exact\<close>), and the bounds the engine reports are then
  exactly the worst and best case of that function.
\<close>

section \<open>Numbers the context does not round\<close>

definition small :: "rat \<Rightarrow> rat \<Rightarrow> bool" where
  "small b x \<longleftrightarrow> on_grid 4 x \<and> \<bar>x\<bar> \<le> b"

lemma small_ctx: "small b x \<Longrightarrow> b \<le> 10 ^ 23 \<Longrightarrow> ctx x = x"
  by (rule ctx_grid [where k = 4]) (auto simp: small_def)

lemma small_weaken: "small a x \<Longrightarrow> a \<le> b \<Longrightarrow> small b x"
  by (auto simp: small_def)

lemma small_0 [simp]: "0 \<le> b \<Longrightarrow> small b 0"
  by (simp add: small_def grid)

lemma small_add: "small a x \<Longrightarrow> small b y \<Longrightarrow> small (a + b) (x + y)"
  by (auto simp: small_def intro: grid)

lemma small_minus: "small a x \<Longrightarrow> small a (- x)"
  by (auto simp: small_def intro: grid)

lemma small_diff: "small a x \<Longrightarrow> small b y \<Longrightarrow> small (a + b) (x - y)"
  using small_add [OF _ small_minus] by fastforce

lemma small_max: "small a x \<Longrightarrow> small a y \<Longrightarrow> small a (max x y)"
  by (simp add: max_def)

lemma small_mult_int:
  assumes "small a x" and "\<bar>i\<bar> \<le> n"
  shows "small (a * of_int n) (x * of_int i)"
proof -
  have "\<bar>x\<bar> * \<bar>of_int i\<bar> \<le> a * (of_int n :: rat)"
    using assms by (intro mult_mono) (auto simp: small_def simp flip: of_int_abs)
  with assms(1) show ?thesis by (auto simp: small_def abs_mult intro: grid)
qed

lemma small_sign: "small a x \<Longrightarrow> small a (sign s * x)"
  by (cases s) (auto intro: small_minus)

lemma small_nonneg_bound: "small a x \<Longrightarrow> 0 \<le> a"
  unfolding small_def by (meson abs_ge_zero order_trans)

lemmas small_intros = small_add small_diff small_minus small_max small_mult_int small_sign

section \<open>The exact payoff\<close>

definition exact_intrinsic :: "option_leg \<Rightarrow> rat \<Rightarrow> rat" where
  "exact_intrinsic leg price = (if oc_option_type (ol_contract leg) = CALL
     then max (price - strike_of leg) 0 else max (strike_of leg - price) 0)"

definition exact_leg :: "int \<Rightarrow> rat \<Rightarrow> option_leg \<Rightarrow> rat" where
  "exact_leg quantity price leg =
     sign (ol_side leg) * (exact_intrinsic leg price - ol_entry_price leg) *
       of_int (ol_ratio leg * oc_multiplier (ol_contract leg) * quantity)"

definition exact_underlying :: "underlying_leg option \<Rightarrow> rat \<Rightarrow> rat" where
  "exact_underlying u price = (case u of None \<Rightarrow> 0
     | Some ul \<Rightarrow> (price - ul_entry_price ul) * of_int (ul_shares ul))"

definition exact_payoff :: "option_structure \<Rightarrow> rat \<Rightarrow> rat" where
  "exact_payoff s price =
     sum_list (map (exact_leg (os_quantity s) price) (os_legs s)) +
     exact_underlying (os_underlying s) price"

text \<open>
  Realistic data: strikes and prices of at most four decimal places, strikes and entry prices up
  to a million dollars, contract multipliers and quantities up to a million, up to a trillion shares, at most a
  thousand legs, each of ratio one (\<open>build_structure\<close> refuses other ratios).
\<close>

definition priced_leg :: "option_leg \<Rightarrow> bool" where
  "priced_leg l \<longleftrightarrow> small 1000000 (strike_of l) \<and> small 1000000 (ol_entry_price l) \<and>
     ol_ratio l = 1 \<and>
     0 < oc_multiplier (ol_contract l) \<and> oc_multiplier (ol_contract l) \<le> 1000000"

definition priced :: "option_leg list \<Rightarrow> int \<Rightarrow> underlying_leg option \<Rightarrow> bool" where
  "priced legs quantity u \<longleftrightarrow> list_all priced_leg legs \<and> length legs \<le> 1000 \<and>
     1 \<le> quantity \<and> quantity \<le> 1000000 \<and>
     (case u of None \<Rightarrow> True | Some ul \<Rightarrow> small 1000000 (ul_entry_price ul) \<and>
        0 < ul_shares ul \<and> ul_shares ul \<le> 1000000000000)"

definition market_price :: "rat \<Rightarrow> bool" where
  "market_price p \<longleftrightarrow> 0 \<le> p \<and> small 10000000 p"

section \<open>The engine computes the exact payoff\<close>

lemma leg_amount_exact:
  assumes "priced_leg leg" and "small 11000000 a" and "1 \<le> q" "q \<le> 1000000"
  shows "leg_amount leg a q = sign (ol_side leg) * a * of_int (oc_multiplier (ol_contract leg) * q)"
    and "small 11000000000000000000 (leg_amount leg a q)"
proof -
  let ?m = "oc_multiplier (ol_contract leg)" and ?s = "sign (ol_side leg)"
  have ratio: "ol_ratio leg = 1" and m: "\<bar>?m\<bar> \<le> 1000000" and q: "\<bar>q\<bar> \<le> 1000000"
    using assms by (auto simp: priced_leg_def)
  have 1: "small 11000000 (?s * a)" using assms(2) by (rule small_sign)
  have 2: "small (11000000 * of_int 1000000) (?s * a * of_int ?m)" by (rule small_mult_int [OF 1 m])
  have 3: "small (11000000 * of_int 1000000 * of_int 1000000) (?s * a * of_int ?m * of_int q)"
    by (rule small_mult_int [OF 2 q])
  have eq: "leg_amount leg a q = ?s * a * of_int ?m * of_int q"
    using small_ctx [OF 1] small_ctx [OF 2] small_ctx [OF 3]
    by (simp add: leg_amount_def dmul_def ratio)
  then show "leg_amount leg a q = ?s * a * of_int (?m * q)" by simp
  show "small 11000000000000000000 (leg_amount leg a q)" using 3 unfolding eq by simp
qed

lemma intrinsic_exact:
  assumes "priced_leg leg" and "market_price p"
  shows "intrinsic leg p = exact_intrinsic leg p" and "small 11000000 (exact_intrinsic leg p)"
proof -
  have s: "small 1000000 (strike_of leg)" "small 10000000 p"
    using assms by (auto simp: priced_leg_def market_price_def)
  have "small 11000000 (p - strike_of leg)" "small 11000000 (strike_of leg - p)"
    using small_diff [OF s(2) s(1)] small_diff [OF s] by simp_all
  then show "intrinsic leg p = exact_intrinsic leg p" and "small 11000000 (exact_intrinsic leg p)"
    by (simp_all add: intrinsic_def exact_intrinsic_def dsub_def small_ctx small_max)
qed

lemma payoff_step_exact:
  assumes leg: "priced_leg leg" and p: "market_price p" and q: "1 \<le> q" "q \<le> 1000000"
    and acc: "small b acc" "b + 22000000000000000000 \<le> 10 ^ 23"
  shows "payoff_step p q acc leg = acc + exact_leg q p leg"
    and "small (b + 22000000000000000000) (acc + exact_leg q p leg)"
proof -
  let ?i = "leg_amount leg (exact_intrinsic leg p) q" and ?e = "leg_amount leg (ol_entry_price leg) q"
  have e: "small 11000000 (ol_entry_price leg)"
    using leg by (auto simp: priced_leg_def intro: small_weaken)
  note i = intrinsic_exact [OF leg p]
  note li = leg_amount_exact [OF leg i(2) q] and le = leg_amount_exact [OF leg e q]
  have 1: "small (b + 11000000000000000000) (acc + ?i)" by (rule small_add [OF acc(1) li(2)])
  have 2: "small (b + 22000000000000000000) (acc + ?i - ?e)"
    using small_diff [OF 1 le(2)] by (simp add: add.assoc)
  have r: "ol_ratio leg = 1" using leg by (simp add: priced_leg_def)
  have x: "?i - ?e = exact_leg q p leg"
    by (simp add: li(1) le(1) exact_leg_def r algebra_simps)
  then have eq: "acc + ?i - ?e = acc + exact_leg q p leg" by simp
  have "payoff_step p q acc leg = ctx (ctx (acc + ?i) - ?e)"
    by (simp add: payoff_step_def dadd_def dsub_def i(1))
  also have "\<dots> = acc + ?i - ?e"
    using small_ctx [OF 1] small_ctx [OF 2] acc(2) by simp
  finally show "payoff_step p q acc leg = acc + exact_leg q p leg" by (simp only: eq)
  show "small (b + 22000000000000000000) (acc + exact_leg q p leg)" using 2 by (simp only: eq)
qed

lemma payoff_legs_exact:
  assumes "list_all priced_leg legs" and "market_price p" and "1 \<le> q" "q \<le> 1000000"
    and "small b acc" and "b + 22000000000000000000 * of_nat (length legs) \<le> 10 ^ 23"
  shows "foldl (payoff_step p q) acc legs = acc + sum_list (map (exact_leg q p) legs) \<and>
    small (b + 22000000000000000000 * of_nat (length legs))
      (acc + sum_list (map (exact_leg q p) legs))"
  using assms
proof (induction legs arbitrary: acc b)
  case Nil
  then show ?case by simp
next
  case (Cons leg legs)
  have leg: "priced_leg leg" and b: "b + 22000000000000000000 \<le> 10 ^ 23"
    using Cons.prems by (auto simp: algebra_simps)
  note step = payoff_step_exact [OF leg Cons.prems(2-4) Cons.prems(5) b]
  have "list_all priced_leg legs"
    and "b + 22000000000000000000 + 22000000000000000000 * of_nat (length legs) \<le> (10::rat) ^ 23"
    using Cons.prems by (auto simp: algebra_simps)
  from Cons.IH [OF this(1) Cons.prems(2-4) step(2) this(2)] step(1)
  show ?case by (simp add: algebra_simps)
qed

lemma payoff_exact:
  assumes "priced (os_legs s) (os_quantity s) (os_underlying s)" and "market_price p"
  shows "expiration_payoff s p = Inr (exact_payoff s p)"
proof -
  let ?sum = "sum_list (map (exact_leg (os_quantity s) p) (os_legs s))"
  have len: "(22000000000000000000 * of_nat (length (os_legs s)) :: rat) \<le> 22000000000000000000000"
  proof -
    have "(of_nat (length (os_legs s)) :: rat) \<le> of_nat 1000"
      using assms(1) by (intro of_nat_mono) (simp add: priced_def)
    then show ?thesis by simp
  qed
  from payoff_legs_exact [of "os_legs s" p "os_quantity s" 0 0] assms len
  have legs: "foldl (payoff_step p (os_quantity s)) 0 (os_legs s) = ?sum"
    and small: "small 22000000000000000000000 ?sum"
    by (auto simp: priced_def intro: small_weaken)
  have price: "0 \<le> p" "small 10000000 p" using assms(2) by (auto simp: market_price_def)
  show ?thesis
  proof (cases "os_underlying s")
    case None
    with legs price show ?thesis
      by (simp add: expiration_payoff_def engine_require_def exact_payoff_def exact_underlying_def)
  next
    case (Some u)
    then have u: "small 1000000 (ul_entry_price u)" "\<bar>ul_shares u\<bar> \<le> 1000000000000"
      using assms(1) by (auto simp: priced_def)
    have 1: "small 11000000 (p - ul_entry_price u)" using small_diff [OF price(2) u(1)] by simp
    have 2: "small 11000000000000000000 ((p - ul_entry_price u) * of_int (ul_shares u))"
      using small_mult_int [OF 1 u(2)] by simp
    have 3: "small 22011000000000000000000 (?sum + (p - ul_entry_price u) * of_int (ul_shares u))"
      using small_add [OF small 2] by simp
    from Some legs price show ?thesis
      using small_ctx [OF 1] small_ctx [OF 2] small_ctx [OF 3]
      by (simp add: expiration_payoff_def engine_require_def exact_payoff_def exact_underlying_def
          dadd_def dmul_def dsub_def)
  qed
qed

end
