(* ===== verification/Options_Bounds.thy ===== *)
theory Options_Bounds
  imports Options_Payoff
begin

text \<open>
  The bounds that \<open>build_structure\<close> reports are the true worst and best case of the payoff
  at expiration, and its break-evens are zeros of the payoff.  One lemma per family of
  structures (\<open>single_leg_profile\<close>, \<open>vertical_profile\<close>, \<open>protective_profile\<close>) over
  the exact payoff; the properties transfer them to the engine's decimal arithmetic.
\<close>

section \<open>Inverting the engine\<close>

lemma engine_require_Inr [guard_simps]:
  "rbind (engine_require c m) f = Inr y \<longleftrightarrow> c \<and> f () = Inr y"
  by (simp add: engine_require_def guard_simps)

lemma engine_require_ok [simp]: "engine_require c m = Inr v \<longleftrightarrow> c"
  by (simp add: engine_require_def)

lemma check_legs_Inr:
  "check_legs first legs = Inr u \<longleftrightarrow> (\<forall>leg \<in> set legs. ol_ratio leg = 1 \<and>
     oc_underlying_symbol (ol_contract leg) = oc_underlying_symbol first \<and>
     oc_expiration (ol_contract leg) = oc_expiration first \<and>
     oc_multiplier (ol_contract leg) = oc_multiplier first)"
  by (induction legs) (auto simp: guard_simps)

lemma validate_common_Inr:
  "validate_common legs = Inr (symbol, multiplier) \<longleftrightarrow>
     (\<exists>l ls. legs = l # ls \<and> symbol = oc_underlying_symbol (ol_contract l) \<and>
        multiplier = of_int (oc_multiplier (ol_contract l)) \<and>
        check_legs (ol_contract l) legs = Inr ())"
  by (auto simp: validate_common_def Let_def rbind_eq_Inr simp del: check_legs.simps
      split: list.splits)

lemma build_structure_Inr:
  assumes "build_structure st legs q u = Inr s"
  obtains l g max_loss max_profit break_evens where
    "l \<in> set legs" "check_legs (ol_contract l) legs = Inr ()" "1 \<le> q"
    "structure_bounds st legs u (premium_of legs)
       (dmul (of_int (oc_multiplier (ol_contract l))) (of_int q))
       (oc_underlying_symbol (ol_contract l)) (of_int (oc_multiplier (ol_contract l))) q
     = Inr (max_loss, max_profit, break_evens)"
    "0 \<le> max_loss" "aggregate_greeks legs q u = Inr g" "option_structure_valid s"
    "s = \<lparr> os_structure_type = st, os_quantity = q, os_legs = legs, os_underlying = u,
         os_net_premium_per_share = premium_of legs, os_max_loss = max_loss,
         os_max_profit = max_profit, os_break_evens = break_evens, os_greeks = g \<rparr>"
  using assms
proof -
  from assms obtain l ls ml mp be g where
    "legs = l # ls" "check_legs (ol_contract l) legs = Inr ()" "1 \<le> q"
    "structure_bounds st legs u (premium_of legs)
       (dmul (of_int (oc_multiplier (ol_contract l))) (of_int q))
       (oc_underlying_symbol (ol_contract l)) (of_int (oc_multiplier (ol_contract l))) q
     = Inr (ml, mp, be)"
    "0 \<le> ml" "aggregate_greeks legs q u = Inr g"
    "validated option_structure_valid ''OptionStructure''
       \<lparr> os_structure_type = st, os_quantity = q, os_legs = legs, os_underlying = u,
         os_net_premium_per_share = premium_of legs, os_max_loss = ml,
         os_max_profit = mp, os_break_evens = be, os_greeks = g \<rparr> = Inr s"
    by (auto simp: build_structure_def Let_def rbind_eq_Inr validate_common_Inr
        simp del: check_legs.simps)
  then show thesis
    by (intro that [of l ml mp be g])
      (simp_all only: validated_eq_Inr list.set_intros insertI1)
qed

section \<open>Exact arithmetic on priced legs\<close>

lemma scale_exact:
  assumes "0 < m" "m \<le> 1000000" "1 \<le> q" "q \<le> 1000000"
  shows "dmul (of_int m) (of_int q) = (of_int (m * q) :: rat)"
proof -
  have "small (1000000 * of_int 1000000) (of_int m * of_int q)"
    by (rule small_mult_int) (use assms in \<open>auto simp: small_def on_grid_of_int\<close>)
  then show ?thesis using small_ctx by (simp add: dmul_def)
qed

lemma premium_single:
  assumes "priced_leg l"
  shows "premium_of [l] = sign (ol_side l) * ol_entry_price l"
    and "small 1000000 (premium_of [l])"
proof -
  have e: "small 1000000 (sign (ol_side l) * ol_entry_price l)"
    using assms by (auto simp: priced_leg_def intro: small_sign)
  with assms show *: "premium_of [l] = sign (ol_side l) * ol_entry_price l"
    by (simp add: premium_of_def dsum_def dadd_def dmul_def priced_leg_def small_ctx)
  show "small 1000000 (premium_of [l])" unfolding * by (rule e)
qed

lemma premium_pair:
  assumes "priced_leg a" and "priced_leg b"
  shows "premium_of [a, b] = sign (ol_side a) * ol_entry_price a + sign (ol_side b) * ol_entry_price b"
    and "small 2000000 (premium_of [a, b])"
proof -
  have e: "small 1000000 (sign (ol_side a) * ol_entry_price a)"
    "small 1000000 (sign (ol_side b) * ol_entry_price b)"
    using assms by (auto simp: priced_leg_def intro: small_sign)
  have s: "small 2000000 (sign (ol_side a) * ol_entry_price a + sign (ol_side b) * ol_entry_price b)"
    using small_add [OF e] by simp
  with assms e show *: "premium_of [a, b] =
      sign (ol_side a) * ol_entry_price a + sign (ol_side b) * ol_entry_price b"
    by (simp add: premium_of_def dsum_def dadd_def dmul_def priced_leg_def small_ctx)
  show "small 2000000 (premium_of [a, b])" unfolding * by (rule s)
qed

text \<open>A per-share amount times the number of shares.\<close>

lemma amount_exact:
  assumes "small 20000000 x" and "0 < n" "n \<le> 1000000000000"
  shows "dmul x (of_int n) = x * of_int n"
proof -
  have "small (20000000 * of_int 1000000000000) (x * of_int n)"
    by (rule small_mult_int [OF assms(1)]) (use assms in auto)
  then show ?thesis using small_ctx by (simp add: dmul_def)
qed

lemma shares_bounds:
  fixes m q :: int
  assumes "0 < m" "m \<le> 1000000" "1 \<le> q" "q \<le> 1000000"
  shows "0 < m * q" and "m * q \<le> 1000000000000"
proof -
  show "0 < m * q" using assms by simp
  have "m * q \<le> 1000000 * 1000000" using assms by (intro mult_mono) auto
  then show "m * q \<le> 1000000000000" by simp
qed

section \<open>Risk profiles\<close>

text \<open>
  \<open>risk_profile ep max_loss max_profit\<close>: the payoff \<open>ep\<close> never falls below
  \<open>- max_loss\<close> and never exceeds the profit bound, and a positive loss is really reached at
  some market price.
\<close>

definition risk_profile :: "(rat \<Rightarrow> rat) \<Rightarrow> rat \<Rightarrow> rat option \<Rightarrow> bool" where
  "risk_profile ep max_loss max_profit \<longleftrightarrow>
     (\<forall>p \<ge> 0. - max_loss \<le> ep p \<and> (case max_profit of None \<Rightarrow> True | Some b \<Rightarrow> ep p \<le> b)) \<and>
     (0 < max_loss \<longrightarrow> (\<exists>p. market_price p \<and> ep p = - max_loss))"

lemma scaled_bound: "0 < n \<Longrightarrow> a \<le> x \<Longrightarrow> b = a * of_int n \<Longrightarrow> b \<le> x * (of_int n :: rat)"
  by (simp add: mult_right_mono)

lemma market_strike: "priced_leg l \<Longrightarrow> 0 \<le> strike_of l \<Longrightarrow> market_price (strike_of l)"
  by (auto simp: market_price_def priced_leg_def intro: small_weaken)

lemma market_0: "market_price 0"
  by (simp add: market_price_def)

lemma single_leg_profile:
  assumes b: "single_leg_bounds st legs u (premium_of legs) (of_int n) = Inr (ml, mp, be)"
    and st: "st \<in> {LONG_CALL, LONG_PUT}"
    and l: "legs = [l]" "priced_leg l" "0 < strike_of l"
    and n: "n = oc_multiplier (ol_contract l) * q" "0 < n" "n \<le> 1000000000000"
  shows "risk_profile (\<lambda>p. sum_list (map (exact_leg q p) legs) + exact_underlying u p) ml mp \<and>
    (\<forall>b \<in> set be. 0 \<le> b \<longrightarrow> market_price b \<and>
       sum_list (map (exact_leg q b) legs) + exact_underlying u b = 0)"
proof -
  let ?K = "strike_of l" and ?e = "ol_entry_price l"
  have side: "ol_side l = LONG" and u: "u = None" and prem: "0 < premium_of legs"
    and ty: "oc_option_type (ol_contract l) = (if st = LONG_CALL then CALL else PUT)"
    using b l(1) by (auto simp: single_leg_bounds_def Let_def guard_simps split: if_splits)
  have pe: "premium_of legs = ?e" using premium_single(1) [OF l(2)] side l(1) by simp
  have sm: "small 1000000 ?K" "small 1000000 ?e" using l(2) by (auto simp: priced_leg_def)
  have sums: "small 2000000 (?K + ?e)" "small 2000000 (?K - ?e)"
    using small_add [OF sm] small_diff [OF sm] by simp_all
  have d: "dadd ?K ?e = ?K + ?e" "dsub ?K ?e = ?K - ?e"
    using sums by (simp_all add: dadd_def dsub_def small_ctx)
  have m: "dmul ?e (of_int n) = ?e * of_int n" "dmul (?K - ?e) (of_int n) = (?K - ?e) * of_int n"
    by (rule amount_exact [OF small_weaken n(2,3)], rule sm sums, simp)+
  have ep: "exact_leg q p l = (exact_intrinsic l p - ?e) * of_int n" for p
    using l(2) side by (simp add: exact_leg_def n priced_leg_def)
  have mk: "market_price 0" "market_price ?K" using market_0 market_strike [OF l(2)] l(3) by auto
  show ?thesis
  proof (cases "st = LONG_CALL")
    case True
    have be: "ml = ?e * of_int n" "mp = None" "be = [?K + ?e]"
      using b True l(1) by (auto simp: single_leg_bounds_def Let_def guard_simps pe [unfolded l(1)] d m)
    have i: "exact_intrinsic l p = max (p - ?K) 0" for p
      using ty True by (simp add: exact_intrinsic_def)
    have "exact_leg q 0 l = - ml" using l(3) by (simp add: ep be i)
    moreover have "- ml \<le> exact_leg q p l" for p
      unfolding ep be i by (rule scaled_bound [OF n(2), where a = "- ?e"]) simp_all
    moreover have "exact_leg q (?K + ?e) l = 0" using prem by (simp add: ep i pe)
    moreover have "0 \<le> ?K + ?e \<Longrightarrow> market_price (?K + ?e)"
      using sums by (auto simp: market_price_def intro: small_weaken)
    ultimately show ?thesis
      using mk by (auto simp: risk_profile_def l(1) u exact_underlying_def be)
  next
    case False
    have be: "ml = ?e * of_int n" "mp = Some (max ((?K - ?e) * of_int n) 0)" "be = [?K - ?e]"
      using b False l(1) by (auto simp: single_leg_bounds_def Let_def guard_simps pe [unfolded l(1)] d m)
    have i: "exact_intrinsic l p = max (?K - p) 0" for p
      using ty False by (simp add: exact_intrinsic_def)
    have "exact_leg q ?K l = - ml" using l(3) by (simp add: ep be i)
    moreover have "- ml \<le> exact_leg q p l" for p
      unfolding ep be i by (rule scaled_bound [OF n(2), where a = "- ?e"]) simp_all
    moreover have "exact_leg q p l \<le> max ((?K - ?e) * of_int n) 0" if "0 \<le> p" for p
    proof -
      have "exact_intrinsic l p - ?e \<le> ?K - ?e" using that l(3) by (simp add: i)
      then have "exact_leg q p l \<le> (?K - ?e) * of_int n"
        unfolding ep using n(2) by (intro mult_right_mono) auto
      then show ?thesis by simp
    qed
    moreover have "exact_leg q (?K - ?e) l = 0" using prem by (simp add: ep i pe)
    moreover have "0 \<le> ?K - ?e \<Longrightarrow> market_price (?K - ?e)"
      using sums by (auto simp: market_price_def intro: small_weaken)
    ultimately show ?thesis
      using mk by (auto simp: risk_profile_def l(1) u exact_underlying_def be)
  qed
qed

section \<open>Vertical spreads\<close>

lemma two_legs:
  assumes "length legs = 2" and "set (map ol_side legs) = {LONG, SHORT}"
  shows "legs = [leg_of_side LONG legs, leg_of_side SHORT legs] \<or>
    legs = [leg_of_side SHORT legs, leg_of_side LONG legs]"
    and "ol_side (leg_of_side sd legs) = sd" and "leg_of_side sd legs \<in> set legs"
proof -
  obtain a b where ab: "legs = [a, b]"
    using assms(1) by (metis One_nat_def Suc_1 length_0_conv length_Suc_conv)
  then have "ol_side a = LONG \<and> ol_side b = SHORT \<or> ol_side a = SHORT \<and> ol_side b = LONG"
    using assms(2) by (cases "ol_side a"; cases "ol_side b") auto
  then show "legs = [leg_of_side LONG legs, leg_of_side SHORT legs] \<or>
      legs = [leg_of_side SHORT legs, leg_of_side LONG legs]"
    and "ol_side (leg_of_side sd legs) = sd" and "leg_of_side sd legs \<in> set legs"
    by (cases sd; auto simp: leg_of_side_def ab)+
qed

lemma spread_profile:
  fixes D :: "rat \<Rightarrow> rat"
  assumes n: "0 < n"
    and D: "\<And>p. 0 \<le> p \<Longrightarrow> lo \<le> D p \<and> D p \<le> hi"
    and ep: "\<And>p. ep p = (D p - prem) * of_int n"
    and ml: "ml = (prem - lo) * of_int n" and mp: "mp = (hi - prem) * of_int n"
    and low: "market_price p0" "D p0 = lo"
  shows "risk_profile ep ml (Some mp)"
proof -
  have "- ml \<le> ep p \<and> ep p \<le> mp" if "0 \<le> p" for p
  proof -
    have "- ml = (lo - prem) * of_int n" by (simp add: ml algebra_simps)
    also have "\<dots> \<le> ep p" unfolding ep using D [OF that] n by (intro mult_right_mono) auto
    finally have "- ml \<le> ep p" .
    moreover have "ep p \<le> mp" unfolding ep mp using D [OF that] n by (intro mult_right_mono) auto
    ultimately show ?thesis ..
  qed
  moreover have "ep p0 = - ml" by (simp add: ep ml low algebra_simps)
  ultimately show ?thesis using low(1) by (auto simp: risk_profile_def)
qed

text \<open>The long and the short leg of a spread on priced legs, in exact arithmetic.\<close>

lemma spread_sum:
  assumes legs: "legs = [a, b] \<or> legs = [b, a]" and side: "ol_side a = LONG" "ol_side b = SHORT"
    and pr: "priced_leg a" "priced_leg b"
    and m: "oc_multiplier (ol_contract a) = m" "oc_multiplier (ol_contract b) = m"
  shows "premium_of legs = ol_entry_price a - ol_entry_price b"
    and "small 2000000 (premium_of legs)"
    and "sum_list (map (exact_leg q p) legs) =
      ((exact_intrinsic a p - exact_intrinsic b p) - (ol_entry_price a - ol_entry_price b)) *
        of_int (m * q)"
proof -
  show "premium_of legs = ol_entry_price a - ol_entry_price b" "small 2000000 (premium_of legs)"
    using legs premium_pair [OF pr] premium_pair [OF pr(2) pr(1)] side by auto
  show "sum_list (map (exact_leg q p) legs) =
      ((exact_intrinsic a p - exact_intrinsic b p) - (ol_entry_price a - ol_entry_price b)) *
        of_int (m * q)"
    using legs side pr m by (auto simp: exact_leg_def priced_leg_def algebra_simps)
qed

lemma vertical_profile:
  assumes b: "vertical_bounds st legs u (premium_of legs) (of_int n) = Inr (ml, mp, be)"
    and st: "st \<in> {BULL_CALL_DEBIT_SPREAD, BEAR_PUT_DEBIT_SPREAD,
      BULL_PUT_CREDIT_SPREAD, BEAR_CALL_CREDIT_SPREAD}"
    and pr: "list_all priced_leg legs" and strikes: "\<forall>l \<in> set legs. 0 < strike_of l"
    and m: "\<forall>l \<in> set legs. oc_multiplier (ol_contract l) = m"
    and n: "n = m * q" "0 < n" "n \<le> 1000000000000"
  shows "risk_profile (\<lambda>p. sum_list (map (exact_leg q p) legs) + exact_underlying u p) ml mp \<and>
    (\<forall>b \<in> set be. market_price b \<and>
       sum_list (map (exact_leg q b) legs) + exact_underlying u b = 0)"
proof -
  define a c where "a = leg_of_side LONG legs" and "c = leg_of_side SHORT legs"
  let ?t = "if st \<in> {BULL_CALL_DEBIT_SPREAD, BEAR_CALL_CREDIT_SPREAD} then CALL else PUT"
  define prem where "prem = ol_entry_price a - ol_entry_price c"
  let ?D = "\<lambda>p. exact_intrinsic a p - exact_intrinsic c p"
  have len: "length legs = 2" and sides: "set (map ol_side legs) = {LONG, SHORT}" and u: "u = None"
    and ty: "all_of_type ?t legs"
    using b by (simp_all add: vertical_bounds_def rbind_eq_Inr)
  note two = two_legs [OF len sides, folded a_def c_def]
  have side: "ol_side a = LONG" "ol_side c = SHORT" using two(2) by (auto simp: a_def c_def)
  have sub: "a \<in> set legs" "c \<in> set legs" using two(3) by (auto simp: a_def c_def)
  have prs: "priced_leg a" "priced_leg c" and K0: "0 < strike_of a" "0 < strike_of c"
    and tys: "oc_option_type (ol_contract a) = ?t" "oc_option_type (ol_contract c) = ?t"
    and mm: "oc_multiplier (ol_contract a) = m" "oc_multiplier (ol_contract c) = m"
    using sub pr strikes ty m by (auto simp: list_all_iff all_of_type_def)
  note sum = spread_sum [OF two(1) side prs mm]
  have prem: "premium_of legs = prem" "small 2000000 prem"
    using sum(1,2) by (simp_all add: prem_def)
  have sm: "small 1000000 (strike_of a)" "small 1000000 (strike_of c)"
    using prs by (auto simp: priced_leg_def)
  have sd: "small 2000000 (strike_of a - strike_of c)" "small 2000000 (strike_of c - strike_of a)"
    using small_diff [OF sm] small_diff [OF sm(2) sm(1)] by simp_all
  let ?w = "\<bar>strike_of a - strike_of c\<bar>"
  have w: "small 2000000 ?w" using sd by (simp add: abs_if)
  have width: "dabs (dsub (strike_of a) (strike_of c)) = ?w"
    using sd(1) w by (simp add: dabs_def dsub_def small_ctx)
  have credit: "dneg prem = - prem" using small_minus [OF prem(2)] by (simp add: dneg_def small_ctx)
  have big: "small 4000000 (?w - prem)" "small 4000000 (?w - (- prem))"
    using small_diff [OF w prem(2)] small_diff [OF w small_minus [OF prem(2)]] by simp_all
  have pls: "small 3000000 (strike_of l + prem)" "small 3000000 (strike_of l - prem)"
    if "l = a \<or> l = c" for l
    using that small_add [OF _ prem(2)] small_diff [OF _ prem(2)] sm by fastforce+
  have ops: "dsub ?w prem = ?w - prem" "dsub ?w (- prem) = ?w - (- prem)"
    "dadd (strike_of a) prem = strike_of a + prem" "dsub (strike_of a) prem = strike_of a - prem"
    "dadd (strike_of c) (- prem) = strike_of c - prem" "dsub (strike_of c) (- prem) = strike_of c + prem"
    using big pls [of a] pls [of c] by (simp_all add: dadd_def dsub_def small_ctx)
  have am: "dmul x (of_int n) = x * of_int n" if "small 4000000 x" for x
    by (rule amount_exact [OF small_weaken [OF that] n(2,3)]) simp
  have sm4: "small 4000000 prem" "small 4000000 (- prem)"
    using small_weaken [OF prem(2)] small_weaken [OF small_minus [OF prem(2)]] by simp_all
  have wide: "small 4000000 (strike_of c - strike_of a + prem)" "small 4000000 (strike_of a - strike_of c + prem)"
    using small_add [OF sd(2) prem(2)] small_add [OF sd(1) prem(2)] by simp_all
  note ams = am [OF wide(1)] am [OF wide(2)] am [OF sm4(1)] am [OF big(1)] am [OF sm4(2)] am [OF big(2)]
  have ep: "sum_list (map (exact_leg q p) legs) + exact_underlying u p = (?D p - prem) * of_int n" for p
    using sum(3) by (simp add: u exact_underlying_def n prem_def)
  have mk: "market_price (strike_of a)" "market_price 0"
    using market_strike [OF prs(1)] K0 market_0 by auto
  have mkb: "market_price (strike_of l + prem)" if "l = a \<or> l = c" "0 \<le> strike_of l + prem" for l
    using pls(1) [OF that(1)] that(2) by (auto simp: market_price_def intro: small_weaken)
  have mkc: "market_price (strike_of l - prem)" if "l = a \<or> l = c" "0 \<le> strike_of l - prem" for l
    using pls(2) [OF that(1)] that(2) by (auto simp: market_price_def intro: small_weaken)
  have b': "vertical_bounds st legs u prem (of_int n) = Inr (ml, mp, be)"
    using b by (simp add: prem(1))
  note unfold = vertical_bounds_def Let_def rbind_eq_Inr a_def [symmetric] c_def [symmetric]
    width credit ops ams
  note intr = exact_intrinsic_def tys
  from st consider "st = BULL_CALL_DEBIT_SPREAD" | "st = BEAR_PUT_DEBIT_SPREAD" |
    "st = BULL_PUT_CREDIT_SPREAD" | "st = BEAR_CALL_CREDIT_SPREAD" by blast
  then show ?thesis
  proof cases
    case 1
    have s: "0 < prem" "prem < ?w" "strike_of a < strike_of c" "ml = prem * of_int n"
      "mp = Some ((?w - prem) * of_int n)" "be = [strike_of a + prem]"
      using b' 1 by (auto simp: unfold)
    have "risk_profile (\<lambda>p. sum_list (map (exact_leg q p) legs) + exact_underlying u p) ml mp"
      unfolding s(5) by (rule spread_profile [OF n(2) _ ep, where lo = 0 and hi = ?w and ?p0.0 = 0])
        (use s K0 mk 1 in \<open>auto simp: intr\<close>)
    moreover have "?D (strike_of a + prem) = prem" using s 1 by (simp add: intr)
    moreover have "market_price (strike_of a + prem)" using s K0 by (intro mkb) auto
    ultimately show ?thesis by (simp add: s(6) ep)
  next
    case 2
    have s: "0 < prem" "prem < ?w" "strike_of a > strike_of c" "ml = prem * of_int n"
      "mp = Some ((?w - prem) * of_int n)" "be = [strike_of a - prem]"
      using b' 2 by (auto simp: unfold)
    have "risk_profile (\<lambda>p. sum_list (map (exact_leg q p) legs) + exact_underlying u p) ml mp"
      unfolding s(5) by (rule spread_profile [OF n(2) _ ep, where lo = 0 and hi = ?w and ?p0.0 = "strike_of a"])
        (use s K0 mk 2 in \<open>auto simp: intr\<close>)
    moreover have "?D (strike_of a - prem) = prem" using s 2 by (simp add: intr)
    moreover have "market_price (strike_of a - prem)" using s K0 by (intro mkc) auto
    ultimately show ?thesis by (simp add: s(6) ep)
  next
    case 3
    have s: "0 < - prem" "- prem < ?w" "strike_of c > strike_of a" "ml = (?w - (- prem)) * of_int n"
      "mp = Some (- prem * of_int n)" "be = [strike_of c + prem]"
      using b' 3 by (auto simp: unfold)
    have "risk_profile (\<lambda>p. sum_list (map (exact_leg q p) legs) + exact_underlying u p) ml mp"
      unfolding s(5) by (rule spread_profile [OF n(2) _ ep, where lo = "- ?w" and hi = 0 and ?p0.0 = 0])
        (use s K0 mk 3 in \<open>auto simp: intr algebra_simps\<close>)
    moreover have "?D (strike_of c + prem) = prem" using s 3 by (simp add: intr)
    moreover have "market_price (strike_of c + prem)" using s K0 by (intro mkb) auto
    ultimately show ?thesis by (simp add: s(6) ep)
  next
    case 4
    have s: "0 < - prem" "- prem < ?w" "strike_of c < strike_of a" "ml = (?w - (- prem)) * of_int n"
      "mp = Some (- prem * of_int n)" "be = [strike_of c - prem]"
      using b' 4 by (auto simp: unfold)
    have "risk_profile (\<lambda>p. sum_list (map (exact_leg q p) legs) + exact_underlying u p) ml mp"
      unfolding s(5) by (rule spread_profile [OF n(2) _ ep, where lo = "- ?w" and hi = 0 and ?p0.0 = "strike_of a"])
        (use s K0 mk 4 in \<open>auto simp: intr algebra_simps\<close>)
    moreover have "?D (strike_of c - prem) = prem" using s 4 by (simp add: intr)
    moreover have "market_price (strike_of c - prem)" using s K0 by (intro mkc) auto
    ultimately show ?thesis by (simp add: s(6) ep)
  qed
qed

section \<open>Protective structures\<close>

lemma floor_profile:
  fixes F :: "rat \<Rightarrow> rat"
  assumes n: "0 < n" and F: "\<And>p. 0 \<le> p \<Longrightarrow> flr \<le> F p" "F 0 = flr"
    and ep: "\<And>p. ep p = (F p - cost) * of_int n" and ml: "ml = max ((cost - flr) * of_int n) 0"
  shows "risk_profile ep ml None"
proof -
  have "- ml \<le> ep p" if "0 \<le> p" for p
  proof -
    have "(flr - cost) * of_int n \<le> ep p"
      unfolding ep using F(1) [OF that] n by (intro mult_right_mono) auto
    moreover have "- ml \<le> (flr - cost) * of_int n" by (simp add: ml algebra_simps max_def)
    ultimately show ?thesis by linarith
  qed
  moreover have "ep 0 = - ml" if "0 < ml"
    using that by (auto simp: ep F(2) ml algebra_simps max_def split: if_splits)
  ultimately show ?thesis using market_0 by (auto simp: risk_profile_def)
qed

lemma protective_profile:
  assumes b: "protective_bounds st legs u (premium_of legs) (of_int n) symbol (of_int m) q
      = Inr (ml, mp, be)"
    and pr: "priced legs q u" and strikes: "\<forall>l \<in> set legs. 0 < strike_of l"
    and m: "\<forall>l \<in> set legs. oc_multiplier (ol_contract l) = m"
    and n: "n = m * q" "0 < n" "n \<le> 1000000000000"
  shows "risk_profile (\<lambda>p. sum_list (map (exact_leg q p) legs) + exact_underlying u p) ml mp \<and>
    (\<forall>b \<in> set be. 0 \<le> b \<longrightarrow> market_price b \<and>
       (strike_of (leg_of_side LONG legs) \<le> b \<longrightarrow>
        sum_list (map (exact_leg q b) legs) + exact_underlying u b = 0))"
proof -
  obtain ul where u: "u = Some ul" and shares: "ul_shares ul = n"
    and puts: "all_of_type PUT legs"
    using b n(1) by (cases u) (auto simp: protective_bounds_def rbind_eq_Inr)
  let ?E = "ul_entry_price ul" and ?a = "leg_of_side LONG legs" and ?c = "leg_of_side SHORT legs"
  have E: "small 1000000 ?E" and prl: "list_all priced_leg legs"
    using pr by (auto simp: priced_def u)
  have put: "exact_intrinsic l p = max (strike_of l - p) 0" if "l \<in> set legs" for l p
    using puts that by (simp add: exact_intrinsic_def all_of_type_def list_all_iff)
  have main: "risk_profile (\<lambda>p. sum_list (map (exact_leg q p) legs) + exact_underlying u p) ml mp \<and>
      (\<forall>b \<in> set be. 0 \<le> b \<longrightarrow> market_price b \<and> (strike_of ?a \<le> b \<longrightarrow>
        sum_list (map (exact_leg q b) legs) + exact_underlying u b = 0))"
    if prem: "small 2000000 (premium_of legs)" and flr: "small 2000000 flr"
      and sum: "\<And>p. sum_list (map (exact_leg q p) legs) = (D p - premium_of legs) * of_int n"
      and D: "\<And>p. 0 \<le> p \<Longrightarrow> flr \<le> D p + p" "D 0 = flr" "\<And>p. strike_of ?a \<le> p \<Longrightarrow> D p = 0"
      and res: "(ml, mp, be) = (max (dmul (dsub (dadd ?E (premium_of legs)) flr) (of_int n)) 0, None,
         [dadd ?E (premium_of legs)])"
    for flr D
  proof -
    let ?cost = "?E + premium_of legs"
    have c: "small 3000000 ?cost" using small_add [OF E prem] by simp
    have d: "small 5000000 (?cost - flr)" using small_diff [OF c flr] by simp
    have ops: "dadd ?E (premium_of legs) = ?cost" "dsub ?cost flr = ?cost - flr"
      using c d by (simp_all add: dadd_def dsub_def small_ctx)
    have am: "dmul (?cost - flr) (of_int n) = (?cost - flr) * of_int n"
      by (rule amount_exact [OF small_weaken [OF d] n(2,3)]) simp
    have eqs: "ml = max ((?cost - flr) * of_int n) 0" "mp = None" "be = [?cost]"
      using res by (simp_all add: ops am)
    have ep: "sum_list (map (exact_leg q p) legs) + exact_underlying u p =
        ((D p + p) - ?cost) * of_int n" for p
      by (simp add: sum u exact_underlying_def shares algebra_simps)
    have "risk_profile (\<lambda>p. sum_list (map (exact_leg q p) legs) + exact_underlying u p) ml mp"
      unfolding eqs(2) by (rule floor_profile [OF n(2) _ _ ep eqs(1)]) (use D in auto)
    moreover have "0 \<le> ?cost \<Longrightarrow> market_price ?cost"
      using c by (auto simp: market_price_def intro: small_weaken)
    ultimately show ?thesis using D(3) by (auto simp: eqs(3) ep)
  qed
  show ?thesis
  proof (cases "st = PROTECTIVE_PUT")
    case True
    obtain l where l: "legs = [l]" "ol_side l = LONG"
      using b True by (auto simp: protective_bounds_def rbind_eq_Inr u length_Suc_conv)
    have a: "?a = l" by (simp add: l leg_of_side_def)
    have prp: "priced_leg l" using prl by (simp add: l)
    have res: "(ml, mp, be) = (max (dmul (dsub (dadd ?E (premium_of legs)) (strike_of l)) (of_int n)) 0,
        None, [dadd ?E (premium_of legs)])"
      using b True by (auto simp: protective_bounds_def rbind_eq_Inr u l)
    have p1: "premium_of legs = ol_entry_price l" "small 2000000 (premium_of legs)"
      using premium_single [OF prp] l by (auto intro: small_weaken)
    have s: "small 2000000 (strike_of l)" using prp by (auto simp: priced_leg_def intro: small_weaken)
    have pay: "sum_list (map (exact_leg q p) legs) =
        (max (strike_of l - p) 0 - premium_of legs) * of_int n" for p
      using prp m put [of l p] l(2) by (simp add: l exact_leg_def priced_leg_def n p1(1) [unfolded l])
    have "0 < strike_of l" using strikes by (simp add: l)
    then show ?thesis
      by (intro main [OF p1(2) s pay _ _ _ res]) (auto simp: a)
  next
    case False
    have len: "length legs = 2" and sides: "set (map ol_side legs) = {LONG, SHORT}"
      and K: "strike_of ?c < strike_of ?a"
      using b False by (auto simp: protective_bounds_def rbind_eq_Inr u Let_def)
    note two = two_legs [OF len sides]
    note sub = two(3) [of LONG] two(3) [of SHORT]
    have prs: "priced_leg ?a" "priced_leg ?c" and K0: "0 < strike_of ?c"
      and mm: "oc_multiplier (ol_contract ?a) = m" "oc_multiplier (ol_contract ?c) = m"
      using sub prl strikes m by (auto simp: list_all_iff)
    note sum = spread_sum [OF two(1) two(2) two(2) prs mm]
    have s: "small 2000000 (strike_of ?a - strike_of ?c)"
      using prs small_diff [of 1000000 "strike_of ?a" 1000000 "strike_of ?c"]
      by (simp add: priced_leg_def)
    have dk: "dsub (strike_of ?a) (strike_of ?c) = strike_of ?a - strike_of ?c"
      using s by (simp add: dsub_def small_ctx)
    have res: "(ml, mp, be) = (max (dmul (dsub (dadd ?E (premium_of legs))
        (strike_of ?a - strike_of ?c)) (of_int n)) 0, None, [dadd ?E (premium_of legs)])"
      using b False by (auto simp: protective_bounds_def rbind_eq_Inr u Let_def dk)
    have pay: "sum_list (map (exact_leg q p) legs) =
        ((max (strike_of ?a - p) 0 - max (strike_of ?c - p) 0) - premium_of legs) * of_int n" for p
      using sum(3) [of q p] put [OF sub(1)] put [OF sub(2)] by (simp add: sum(1) n)
    show ?thesis
      by (rule main [OF sum(2) s pay _ _ _ res]) (use K K0 in auto)
  qed
qed

section \<open>All structures\<close>

lemma built_profile:
  assumes b: "build_structure st legs q u = Inr s" and pr: "priced legs q u"
    and strikes: "\<forall>l \<in> set legs. 0 < strike_of l"
  shows "risk_profile (exact_payoff s) (os_max_loss s) (os_max_profit s) \<and>
    (\<forall>b \<in> set (os_break_evens s). 0 \<le> b \<longrightarrow> market_price b \<and>
       (st \<notin> {PROTECTIVE_PUT, PROTECTIVE_PUT_SPREAD} \<or> strike_of (leg_of_side LONG legs) \<le> b \<longrightarrow>
        exact_payoff s b = 0))"
    and "priced (os_legs s) (os_quantity s) (os_underlying s)"
proof -
  obtain l g ml mp be where
    l: "l \<in> set legs" "check_legs (ol_contract l) legs = Inr ()" "1 \<le> q" and
    sb: "structure_bounds st legs u (premium_of legs)
       (dmul (of_int (oc_multiplier (ol_contract l))) (of_int q))
       (oc_underlying_symbol (ol_contract l)) (of_int (oc_multiplier (ol_contract l))) q
     = Inr (ml, mp, be)" and "0 \<le> ml" "aggregate_greeks legs q u = Inr g" "option_structure_valid s" and
    s0: "s = \<lparr> os_structure_type = st, os_quantity = q, os_legs = legs, os_underlying = u,
         os_net_premium_per_share = premium_of legs, os_max_loss = ml,
         os_max_profit = mp, os_break_evens = be, os_greeks = g \<rparr>"
    using build_structure_Inr [OF b] .
  have s: "os_legs s = legs" "os_quantity s = q" "os_underlying s = u" "os_max_loss s = ml"
      "os_max_profit s = mp" "os_break_evens s = be"
    by (simp_all add: s0)
  show "priced (os_legs s) (os_quantity s) (os_underlying s)" using pr by (simp add: s)
  let ?m = "oc_multiplier (ol_contract l)"
  have prl: "list_all priced_leg legs" and q: "1 \<le> q" "q \<le> 1000000"
    using pr by (auto simp: priced_def)
  have m: "0 < ?m" "?m \<le> 1000000"
    using prl l(1) by (auto simp: list_all_iff priced_leg_def)
  have same: "\<forall>k \<in> set legs. oc_multiplier (ol_contract k) = ?m"
    using l(2) unfolding check_legs_Inr by blast
  note n = shares_bounds [OF m q]
  note sb = sb [unfolded scale_exact [OF m q]]
  have ep: "exact_payoff s = (\<lambda>p. sum_list (map (exact_leg q p) legs) + exact_underlying u p)"
    by (simp add: exact_payoff_def s fun_eq_iff)
  consider "st \<in> {LONG_CALL, LONG_PUT}"
    | "st \<in> {BULL_CALL_DEBIT_SPREAD, BEAR_PUT_DEBIT_SPREAD, BULL_PUT_CREDIT_SPREAD, BEAR_CALL_CREDIT_SPREAD}"
    | "st \<in> {PROTECTIVE_PUT, PROTECTIVE_PUT_SPREAD}"
    by (cases st) auto
  then show "risk_profile (exact_payoff s) (os_max_loss s) (os_max_profit s) \<and>
    (\<forall>b \<in> set (os_break_evens s). 0 \<le> b \<longrightarrow> market_price b \<and>
       (st \<notin> {PROTECTIVE_PUT, PROTECTIVE_PUT_SPREAD} \<or> strike_of (leg_of_side LONG legs) \<le> b \<longrightarrow>
        exact_payoff s b = 0))"
  proof cases
    case 1
    then have sl: "single_leg_bounds st legs u (premium_of legs) (of_int (?m * q)) = Inr (ml, mp, be)"
      using sb by (simp add: structure_bounds_def)
    then have "length legs = 1" by (simp add: single_leg_bounds_def Let_def rbind_eq_Inr)
    then have legs: "legs = [l]" using l(1) by (auto simp: length_Suc_conv)
    have "priced_leg l" "0 < strike_of l" using prl strikes legs by auto
    from single_leg_profile [OF sl 1 legs this refl n] show ?thesis
      using 1 by (auto simp: ep s)
  next
    case 2
    then have "vertical_bounds st legs u (premium_of legs) (of_int (?m * q)) = Inr (ml, mp, be)"
      using sb by (auto simp: structure_bounds_def)
    from vertical_profile [OF this 2 prl strikes same refl n] show ?thesis
      using 2 by (auto simp: ep s)
  next
    case 3
    then have "protective_bounds st legs u (premium_of legs) (of_int (?m * q))
        (oc_underlying_symbol (ol_contract l)) (of_int ?m) q = Inr (ml, mp, be)"
      using sb by (auto simp: structure_bounds_def)
    from protective_profile [OF this pr strikes same refl n] show ?thesis
      using 3 by (auto simp: ep s)
  qed
qed

section \<open>Sample data\<close>

definition sample_greeks :: greeks where
  "sample_greeks = \<lparr> g_delta = 1 / 2, g_gamma = 3 / 100, g_theta = - 4 / 100, g_vega = 12 / 100 \<rparr>"

definition sample_quote :: "decimal \<Rightarrow> decimal \<Rightarrow> option_quote" where
  "sample_quote bid ask = \<lparr> oq_bid = bid, oq_ask = ask, oq_bid_size = 40, oq_ask_size = 38,
     oq_quoted_at = Aware 0, oq_open_interest = Some 2400, oq_volume = Some 850,
     oq_implied_volatility = Some (38 / 100), oq_greeks = Some sample_greeks \<rparr>"

definition sample_leg :: "leg_side \<Rightarrow> option_type \<Rightarrow> decimal \<Rightarrow> decimal \<Rightarrow> option_leg" where
  "sample_leg side ty strike entry = \<lparr> ol_contract = \<lparr> oc_contract_id = ''c'', oc_symbol = ''NVDA'',
     oc_underlying_symbol = ''NVDA'', oc_expiration = 100, oc_strike = strike, oc_option_type = ty,
     oc_multiplier = 100, oc_tradable = True,
     oc_quote = sample_quote (entry - 5 / 100) (entry + 5 / 100) \<rparr>,
     ol_side = side, ol_ratio = 1, ol_entry_price = entry \<rparr>"

definition sample_stock :: "decimal \<Rightarrow> underlying_leg" where
  "sample_stock entry = \<lparr> ul_symbol = ''NVDA'', ul_shares = 100, ul_entry_price = entry \<rparr>"

definition bull_call_legs :: "option_leg list" where
  "bull_call_legs = [sample_leg LONG CALL 120 (42 / 10), sample_leg SHORT CALL 125 (21 / 10)]"

definition bull_call :: option_structure where
  "bull_call = \<lparr> os_structure_type = BULL_CALL_DEBIT_SPREAD, os_quantity = 1, os_legs = bull_call_legs,
     os_underlying = None, os_net_premium_per_share = 21 / 10, os_max_loss = 210,
     os_max_profit = Some 290, os_break_evens = [1221 / 10],
     os_greeks = \<lparr> g_delta = 0, g_gamma = 0, g_theta = 0, g_vega = 0 \<rparr> \<rparr>"

lemma build_bull_call: "build_structure BULL_CALL_DEBIT_SPREAD bull_call_legs 1 None = Inr bull_call"
  by code_simp

lemma small_code: "small b x \<longleftrightarrow> x * 10000 \<in> \<int> \<and> \<bar>x\<bar> \<le> b"
  by (simp add: small_def on_grid_def)

lemma priced_bull_call: "priced bull_call_legs 1 None" "\<forall>l \<in> set bull_call_legs. 0 < strike_of l"
  by (simp_all add: priced_def priced_leg_def bull_call_legs_def sample_leg_def strike_of_def small_code)

text \<open>A put spread that protects stock with an in-the-money long put.\<close>

definition itm_put_spread_legs :: "option_leg list" where
  "itm_put_spread_legs = [sample_leg LONG PUT 105 7, sample_leg SHORT PUT 100 3]"

section \<open>Properties\<close>

text \<open>C2. For realistic legs, with positive strikes, strikes and entry prices of at most four decimal places and at
  most a million, at most a thousand legs of ratio one, a quantity and contract multipliers of at most a million and
  at most a trillion shares (\<open>priced\<close>): whatever structure \<open>build_structure\<close> makes of them, the payoff at
  expiration that \<open>expiration_payoff\<close> computes is never below the reported maximum loss and never above the
  reported maximum profit, at every price of the underlying of at most four decimal places up to ten million.
  Beyond these bounds the 28 digits of the decimal context may round, and nothing is claimed.\<close>

theorem max_loss_bounds_payoff:
  assumes "build_structure st legs q u = Inr s" and "priced legs q u"
    and "\<forall>l \<in> set legs. 0 < strike_of l" and "market_price p"
  shows "\<exists>x. expiration_payoff s p = Inr x \<and> - os_max_loss s \<le> x \<and>
    (case os_max_profit s of None \<Rightarrow> True | Some b \<Rightarrow> x \<le> b)"
  using built_profile [OF assms(1-3)] payoff_exact [OF _ assms(4)] assms(4)
  by (auto simp: risk_profile_def market_price_def)

theorem max_loss_bounds_payoff_witness:
  "\<exists>x. expiration_payoff bull_call 123 = Inr x \<and> - os_max_loss bull_call \<le> x \<and>
    (case os_max_profit bull_call of None \<Rightarrow> True | Some b \<Rightarrow> x \<le> b)"
  by (rule max_loss_bounds_payoff [OF build_bull_call priced_bull_call])
    (simp add: market_price_def small_code)

text \<open>C5. The reported maximum loss of a structure that \<open>build_structure\<close> makes of realistic legs is not
  pessimistic: when it is positive, some price of the underlying of at most four decimal places makes the position lose
  exactly that much.  Realistic legs are those with positive strikes, ratio one, strikes and entry prices of at most
  four decimal places and at most a million, at most a thousand of them, with a quantity and contract multipliers of
  at most a million and at most a trillion shares (\<open>priced\<close>); with longer decimals the rounded maximum loss need not
  be attained exactly.\<close>

theorem max_loss_is_reached:
  assumes "build_structure st legs q u = Inr s" and "priced legs q u"
    and "\<forall>l \<in> set legs. 0 < strike_of l" and "0 < os_max_loss s"
  shows "\<exists>p. market_price p \<and> expiration_payoff s p = Inr (- os_max_loss s)"
  using built_profile [OF assms(1-3)] payoff_exact assms(4)
  by (fastforce simp: risk_profile_def)

theorem max_loss_is_reached_witness:
  "\<exists>p. market_price p \<and> expiration_payoff bull_call p = Inr (- os_max_loss bull_call)"
  by (rule max_loss_is_reached [OF build_bull_call priced_bull_call]) (simp add: bull_call_def)

text \<open>C6. Every reported break-even of a structure that \<open>build_structure\<close> makes of realistic legs is a zero of the
  payoff, if it is not negative; for the two protective structures this needs the long put not to be in the money
  there.  Realistic legs are those with positive strikes, ratio one, strikes and entry prices of at most four decimal
  places and at most a million, at most a thousand of them, with a quantity and contract multipliers of at most a
  million and at most a trillion shares (\<open>priced\<close>); with longer decimals the break-even itself is rounded.\<close>

theorem break_even_is_zero:
  assumes "build_structure st legs q u = Inr s" and "priced legs q u"
    and "\<forall>l \<in> set legs. 0 < strike_of l"
    and "b \<in> set (os_break_evens s)" and "0 \<le> b"
    and "st \<notin> {PROTECTIVE_PUT, PROTECTIVE_PUT_SPREAD} \<or> strike_of (leg_of_side LONG legs) \<le> b"
  shows "expiration_payoff s b = Inr 0"
  using built_profile [OF assms(1-3)] payoff_exact assms(4-6) by fastforce

theorem break_even_is_zero_witness: "expiration_payoff bull_call (1221 / 10) = Inr 0"
  by (rule break_even_is_zero [OF build_bull_call priced_bull_call]) (simp_all add: bull_call_def)

text \<open>The exemption is needed: for stock bought at 100 and protected by a 105/100 put spread
  for 4, the engine reports the break-even 104, where the position still earns 100; the payoff is
  zero at 99 instead.\<close>

theorem protective_break_even_misses_zero:
  "\<exists>s. build_structure PROTECTIVE_PUT_SPREAD itm_put_spread_legs 1 (Some (sample_stock 100)) = Inr s \<and>
     os_break_evens s = [104] \<and> expiration_payoff s 104 = Inr 100 \<and> expiration_payoff s 99 = Inr 0"
proof -
  have "(case build_structure PROTECTIVE_PUT_SPREAD itm_put_spread_legs 1 (Some (sample_stock 100)) of
      Inl _ \<Rightarrow> False | Inr s \<Rightarrow> os_break_evens s = [104] \<and> expiration_payoff s 104 = Inr 100 \<and>
        expiration_payoff s 99 = Inr 0)"
    by code_simp
  then show ?thesis by (auto split: sum.splits)
qed

end
