(* ===== verification/Strategy_Properties.thy ===== *)
theory Strategy_Properties
  imports Strategy Options_Bounds
begin

text \<open>
  What the three strategies of \<open>packages/strategy/\<close> promise: the bounds and the monotonicity of the
  scores, the exact conditions of a trade idea, and the order and completeness of the rankings.
\<close>

section \<open>Properties of the scores\<close>

text \<open>Every valid feature vector gets a score, the score lies between 0 and 100 with two
  decimal places, so the \<open>Signal\<close> built from it is always accepted.\<close>

theorem score_fits_signal:
  assumes "catalyst_features_valid f"
  shows "\<exists>score. score_signal f = Inr score \<and> on_grid 2 score \<and>
    signal_valid \<lparr> sg_signal_id = i, sg_symbol = symbol, sg_observed_at = t, sg_features = f,
      sg_score = score, sg_source_versions = vs \<rparr>"
  using assms score_exact [OF assms] by (auto simp: signal_valid_def on_grid_round_places)

definition sample_features :: catalyst_features where
  "sample_features = \<lparr> cf_catalyst_confidence = 4 / 5, cf_sentiment = 7 / 10, cf_relative_volume = 2,
     cf_price_momentum = 3 / 5, cf_gap_percent = 3, cf_market_confirmation = 1 / 2,
     cf_sector_confirmation = 1 / 2, cf_liquidity_score = 1 \<rparr>"

lemma sample_features_valid: "catalyst_features_valid sample_features"
  by code_simp

theorem score_fits_signal_witness:
  "\<exists>score. score_signal sample_features = Inr score \<and> on_grid 2 score \<and>
    signal_valid \<lparr> sg_signal_id = ''s'', sg_symbol = ''AAPL'', sg_observed_at = 0,
      sg_features = sample_features, sg_score = score, sg_source_versions = [] \<rparr>"
  by (rule score_fits_signal [OF sample_features_valid])

lemma directional_mono: "x * d \<le> y * d \<Longrightarrow> directional x d \<le> directional y d"
  using ctx_mono [of "x * d" "y * d"] by (auto simp: directional_def clamp_def dmul_def)

lemma half_mono: "x \<le> y \<Longrightarrow> dquo (dadd x 1) 2 \<le> dquo (dadd y 1) 2"
  by (intro dquo_mono dadd_mono) auto

lemma volume_mono:
  "x \<le> y \<Longrightarrow> clamp (dquo (dsub x 1) 2) 0 1 \<le> clamp (dquo (dsub y 1) 2) 0 1"
  using dquo_mono [OF dsub_mono [of x y 1 1], of 2] by (auto simp: clamp_def)

text \<open>The score never falls when a signal gets stronger: with the same direction of
  sentiment, more confidence, stronger sentiment, more volume, more momentum and confirmation
  in the direction of the sentiment and more liquidity never lower it.\<close>

theorem score_monotone:
  assumes "catalyst_features_valid f" and "catalyst_features_valid g"
    and "d = (if 0 \<le> cf_sentiment f then 1 else - 1)" and "d = (if 0 \<le> cf_sentiment g then 1 else - 1)"
    and "cf_catalyst_confidence f \<le> cf_catalyst_confidence g"
    and "\<bar>cf_sentiment f\<bar> \<le> \<bar>cf_sentiment g\<bar>" and "cf_relative_volume f \<le> cf_relative_volume g"
    and "cf_price_momentum f * d \<le> cf_price_momentum g * d"
    and "cf_market_confirmation f * d \<le> cf_market_confirmation g * d"
    and "cf_sector_confirmation f * d \<le> cf_sector_confirmation g * d"
    and "cf_liquidity_score f \<le> cf_liquidity_score g"
    and "score_signal f = Inr s" and "score_signal g = Inr t"
  shows "s \<le> t"
proof -
  have abs: "dabs (cf_sentiment f) \<le> dabs (cf_sentiment g)"
    using assms(6) by (simp add: dabs_def ctx_mono)
  have "normalized_score f \<le> normalized_score g"
    unfolding normalized_score_def Let_def assms(3) [symmetric] assms(4) [symmetric]
    by (intro dadd_mono dmul_mono half_mono directional_mono volume_mono abs assms) simp_all
  then have "dmul (normalized_score f) 100 \<le> dmul (normalized_score g) 100"
    by (intro dmul_mono) simp_all
  then show ?thesis
    using assms(12,13) score_exact(1) [OF assms(1)] score_exact(1) [OF assms(2)]
    by (auto intro: places.rnd_mono)
qed

theorem score_monotone_witness:
  "\<exists>s t. score_signal (sample_features\<lparr>cf_price_momentum := 1 / 10\<rparr>) = Inr s \<and>
    score_signal sample_features = Inr t \<and> s \<le> t"
proof -
  let ?f = "sample_features\<lparr>cf_price_momentum := 1 / 10\<rparr>"
  have v: "catalyst_features_valid ?f" by code_simp
  show ?thesis
    using score_exact(1) [OF v] score_exact(1) [OF sample_features_valid]
      score_monotone [OF v sample_features_valid refl, of _ _]
    by (auto simp: sample_features_def)
qed

section \<open>Properties of the catalyst strategy\<close>

definition trade_conditions :: "catalyst_momentum_strategy \<Rightarrow> signal \<Rightarrow> bool" where
  "trade_conditions strategy s \<longleftrightarrow>
     cm_minimum_score strategy \<le> sg_score s \<and>
     \<bar>cf_gap_percent (sg_features s)\<bar> \<le> cm_maximum_gap strategy \<and>
     (if 0 < cf_sentiment (sg_features s) then 0 < cf_price_momentum (sg_features s)
      else cf_price_momentum (sg_features s) < 0) \<and>
     3 / 5 \<le> cf_catalyst_confidence (sg_features s)"

lemma signal_reasons_empty:
  assumes "ctx (cf_gap_percent (sg_features s)) = cf_gap_percent (sg_features s)"
  shows "signal_reasons strategy s = [] \<longleftrightarrow> trade_conditions strategy s"
proof -
  have "dabs (cf_gap_percent (sg_features s)) = \<bar>cf_gap_percent (sg_features s)\<bar>"
    using assms by (simp add: dabs_def ctx.rnd_abs)
  moreover have "dmul m (- 1) \<le> 0 \<longleftrightarrow> 0 \<le> m" "dmul m 1 \<le> 0 \<longleftrightarrow> m \<le> 0" for m
    using ctx.rnd_pos_iff [of "- m"] ctx.rnd_pos_iff [of m] by (auto simp: dmul_def not_less [symmetric])
  ultimately show ?thesis
    by (auto simp: signal_reasons_def idea_direction_def Let_def reason_if_def trade_conditions_def)
qed

text \<open>The catalyst strategy never raises on a valid signal, and it proposes a trade exactly
  when the score reaches the threshold, the gap is within the maximum, the price has moved the
  way the idea bets and the catalyst confidence is at least 0.60 (\<open>trade_conditions\<close>); otherwise
  it returns a \<open>NoTrade\<close> with at least one reason.  The idea names the signal and its symbol,
  bets on the side of the sentiment and is a valid \<open>TradeIdea\<close>.\<close>

theorem evaluate_signal_decides:
  assumes "signal_valid s"
    and "ctx (cf_gap_percent (sg_features s)) = cf_gap_percent (sg_features s)"
  shows "\<exists>outcome. evaluate_signal strategy fresh now s = Inr outcome \<and>
    (case outcome of
       Idea t \<Rightarrow> trade_conditions strategy s \<and> ti_signal_id t = sg_signal_id s \<and>
         ti_symbol t = sg_symbol s \<and> trade_idea_valid t \<and>
         (ti_direction t = BULLISH \<longleftrightarrow> 0 < cf_sentiment (sg_features s))
     | No_trade n \<Rightarrow> \<not> trade_conditions strategy s \<and> nt_signal_id n = sg_signal_id s \<and>
         nt_reason_codes n \<noteq> [])"
proof (cases "signal_reasons strategy s = []")
  case True
  have "0 \<le> dquo (sg_score s) 100 \<and> dquo (sg_score s) 100 \<le> 1"
    using assms(1) by (auto simp: signal_valid_def dquo_def score_weights
        intro!: ctx.rnd_nonneg ctx.rnd_le)
  then show ?thesis
    using True signal_reasons_empty [OF assms(2), of strategy]
    by (auto simp: evaluate_signal_def validated_def trade_idea_valid_def unit_interval_def
        idea_direction_def)
next
  case False
  then show ?thesis
    using signal_reasons_empty [OF assms(2), of strategy] by (auto simp: evaluate_signal_def)
qed

definition sample_signal :: signal where
  "sample_signal = \<lparr> sg_signal_id = ''s'', sg_symbol = ''AAPL'', sg_observed_at = 0,
     sg_features = sample_features, sg_score = 70, sg_source_versions = [] \<rparr>"

theorem evaluate_signal_decides_witness:
  "\<exists>t. evaluate_signal default_catalyst_strategy ''u'' 0 sample_signal = Inr (Idea t) \<and>
    ti_direction t = BULLISH \<and> trade_idea_valid t"
proof -
  have v: "signal_valid sample_signal" by code_simp
  have g: "ctx (cf_gap_percent (sg_features sample_signal)) = cf_gap_percent (sg_features sample_signal)"
    by code_simp
  have c: "trade_conditions default_catalyst_strategy sample_signal" by code_simp
  have p: "0 < cf_sentiment (sg_features sample_signal)" by code_simp
  from evaluate_signal_decides [OF v g, of default_catalyst_strategy "''u''" 0] c p
  show ?thesis by (elim exE) (simp split: signal_outcome.splits)
qed

text \<open>A signal with neutral sentiment (exactly 0) is scored as if it were bullish but traded
  as bearish: an idea it gives is \<open>BEARISH\<close>, and the falling price that the idea needs lowers the
  score, which would be at least as high with the price moving the other way.\<close>

theorem neutral_sentiment_scored_against_its_trade:
  assumes "catalyst_features_valid (sg_features s)" and "cf_sentiment (sg_features s) = 0"
    and "evaluate_signal strategy fresh now s = Inr (Idea t)"
  shows "ti_direction t = BEARISH \<and> cf_price_momentum (sg_features s) < 0 \<and>
    (\<exists>a b. score_signal (sg_features s) = Inr a \<and>
      score_signal ((sg_features s)\<lparr>cf_price_momentum := - cf_price_momentum (sg_features s)\<rparr>) = Inr b \<and>
      a \<le> b)"
proof -
  let ?f = "sg_features s"
  let ?g = "?f\<lparr>cf_price_momentum := - cf_price_momentum ?f\<rparr>"
  have reasons: "signal_reasons strategy s = []" and dir: "ti_direction t = BEARISH"
    using assms(2,3)
    by (auto simp: evaluate_signal_def guard_simps idea_direction_def Let_def split: if_splits)
  have mom: "cf_price_momentum ?f < 0"
    using reasons assms(2) ctx.rnd_pos_iff [of "- cf_price_momentum ?f"]
    by (auto simp: signal_reasons_def idea_direction_def Let_def dmul_def)
  have vg: "catalyst_features_valid ?g"
    using assms(1) by (auto simp: catalyst_features_valid_def signed_interval_def)
  have "normalized_score ?f \<le> normalized_score ?g"
    unfolding normalized_score_def Let_def using mom assms(2)
    by (intro dadd_mono dmul_mono half_mono) (auto intro!: directional_mono)
  then have "dmul (normalized_score ?f) 100 \<le> dmul (normalized_score ?g) 100"
    by (intro dmul_mono) simp_all
  then show ?thesis
    using dir mom score_exact(1) [OF assms(1)] score_exact(1) [OF vg]
    by (auto intro: places.rnd_mono)
qed

definition neutral_signal :: signal where
  "neutral_signal = sample_signal\<lparr>sg_features := sample_features\<lparr>cf_sentiment := 0,
     cf_price_momentum := - (3 / 5)\<rparr>\<rparr>"

theorem neutral_sentiment_scored_against_its_trade_witness:
  "\<exists>t. evaluate_signal default_catalyst_strategy ''u'' 0 neutral_signal = Inr (Idea t) \<and>
    ti_direction t = BEARISH"
proof -
  have "is_ok (evaluate_signal default_catalyst_strategy ''u'' 0 neutral_signal)"
    and "case evaluate_signal default_catalyst_strategy ''u'' 0 neutral_signal of
      Inr (Idea t) \<Rightarrow> True | _ \<Rightarrow> False"
    by code_simp+
  then obtain t where t: "evaluate_signal default_catalyst_strategy ''u'' 0 neutral_signal = Inr (Idea t)"
    by (auto split: sum.splits signal_outcome.splits)
  have "catalyst_features_valid (sg_features neutral_signal)"
    and "cf_sentiment (sg_features neutral_signal) = 0"
    by code_simp+
  from neutral_sentiment_scored_against_its_trade [OF this t] t show ?thesis by auto
qed

section \<open>Properties of the rankings\<close>

lemma quantize_ctx: "quantize k x = Inr y \<Longrightarrow> ctx y = y"
  by (rule ctx_exact [where k = "int k" and n = "half_even (x * 10 ^ k)"])
    (auto simp: quantize_def round_places_def scaled_def split: if_splits)

lemma rank_loop_spec:
  "rank_loop fresh wanted idea n ss = Inr cs \<Longrightarrow>
   map rc_structure cs = filter (\<lambda>s. os_structure_type s = wanted \<and> os_max_profit s \<noteq> None) ss \<and>
   (\<forall>c \<in> set cs. rc_trade_idea_id c = ti_trade_idea_id idea \<and> ctx (rc_rank_score c) = rc_rank_score c)"
proof (induction ss arbitrary: n cs)
  case Nil
  then show ?case by simp
next
  case (Cons s ss)
  have step: "rc_structure c = s \<and> rc_trade_idea_id c = ti_trade_idea_id idea \<and>
      ctx (rc_rank_score c) = rc_rank_score c"
    if "rank_structure i idea s p = Inr c" for i p c
    using that by (auto simp: rank_structure_def guard_simps quantize_ctx)
  show ?case
    using Cons.prems Cons.IH
    by (auto simp: guard_simps dest!: step split: if_splits option.splits)
qed

text \<open>C15. \<open>rank_candidates\<close> keeps exactly the structures of the idea's type whose profit is
  bounded, loses and duplicates none, ties each to the idea, and returns them best score first;
  candidates with the same score are in the order of their identifiers.\<close>

theorem rank_candidates_sorts:
  assumes "rank_candidates fresh idea ss = Inr cs"
  shows "mset (map rc_structure cs) =
      mset (filter (\<lambda>s. os_structure_type s = wanted_structure idea \<and> os_max_profit s \<noteq> None) ss) \<and>
    (\<forall>c \<in> set cs. rc_trade_idea_id c = ti_trade_idea_id idea) \<and>
    sorted_wrt (\<lambda>a b. rc_rank_score b < rc_rank_score a \<or>
      rc_rank_score a = rc_rank_score b \<and> rc_structure_id a \<le> rc_structure_id b) cs"
proof -
  obtain ranked where r: "rank_loop fresh (wanted_structure idea) idea 0 ss = Inr ranked"
    and cs: "cs = sort_key rank_key ranked"
    using assms by (auto simp: rank_candidates_def guard_simps)
  note spec = rank_loop_spec [OF r]
  have order: "rc_rank_score b < rc_rank_score a \<or>
      rc_rank_score a = rc_rank_score b \<and> rc_structure_id a \<le> rc_structure_id b"
    if "a \<in> set cs" "b \<in> set cs" "rank_key a \<le> rank_key b" for a b
  proof -
    have "dneg (rc_rank_score a) = - rc_rank_score a" "dneg (rc_rank_score b) = - rc_rank_score b"
      using that spec by (auto simp: cs dneg_def ctx_minus)
    with that(3) show ?thesis by (auto simp: rank_key_def less_eq_prod_def)
  qed
  have "sorted_wrt (\<lambda>a b. rank_key a \<le> rank_key b) cs"
    using sorted_sort_key [of rank_key ranked] by (simp add: cs sorted_map)
  then have "sorted_wrt (\<lambda>a b. rc_rank_score b < rc_rank_score a \<or>
      rc_rank_score a = rc_rank_score b \<and> rc_structure_id a \<le> rc_structure_id b) cs"
    by (rule sorted_wrt_mono_rel [rotated]) (rule order)
  moreover have "mset (map rc_structure cs) = mset (map rc_structure ranked)"
    by (simp add: cs)
  ultimately show ?thesis using spec by (auto simp: cs)
qed

definition sample_idea :: trade_idea where
  "sample_idea = \<lparr> ti_trade_idea_id = ''i'', ti_signal_id = ''s'', ti_symbol = ''AAPL'',
     ti_direction = BULLISH, ti_thesis = ''t'', ti_holding_horizon = days 10, ti_entry_window = hours 4,
     ti_exit_logic = ''x'', ti_confidence = 7 / 10 \<rparr>"

definition locked_bull_call :: option_structure where
  "locked_bull_call = bull_call\<lparr>os_max_profit := Some 420, os_legs := map (\<lambda>l. l\<lparr>ol_contract := (ol_contract l)\<lparr>oc_quote :=
     (sample_quote 2 2)\<rparr>\<rparr>) bull_call_legs\<rparr>"

definition wide_bull_call :: option_structure where
  "wide_bull_call = bull_call\<lparr>os_max_profit := Some 420, os_legs := map (\<lambda>l. l\<lparr>ol_contract := (ol_contract l)\<lparr>oc_quote :=
     (sample_quote (3 / 2) (5 / 2))\<rparr>\<rparr>) bull_call_legs\<rparr>"

lemma rank_samples:
  "is_ok (rank_structure i sample_idea locked_bull_call 420)"
  "is_ok (rank_structure i sample_idea wide_bull_call 420)"
proof -
  have "os_max_loss locked_bull_call = 210" "os_max_loss wide_bull_call = 210"
    "map leg_spread_cost (os_legs locked_bull_call) = [1, 1]"
    "map leg_spread_cost (os_legs wide_bull_call) = [1 / 2, 1 / 2]"
    "length (os_legs locked_bull_call) = 2" "length (os_legs wide_bull_call) = 2"
    "dsum [1, 1] = 2" "dsum [1 / 2, 1 / 2] = 1" "ddiv 420 210 = Inr 2" "ddiv 2 2 = Inr 1"
    "ddiv 1 2 = Inr (1 / 2)" "quantize 4 (dsub (dmul 2 50) (dmul 1 100)) = Inr 0"
    "quantize 4 (dsub (dmul 2 50) (dmul (1 / 2) 100)) = Inr 50"
    by code_simp+
  then show "is_ok (rank_structure i sample_idea locked_bull_call 420)"
    and "is_ok (rank_structure i sample_idea wide_bull_call 420)"
    by (simp_all add: rank_structure_def del: ddiv_nonzero)
qed

lemma samples_wanted:
  "os_structure_type locked_bull_call = wanted_structure sample_idea"
  "os_structure_type wide_bull_call = wanted_structure sample_idea"
  "os_max_profit locked_bull_call = Some 420" "os_max_profit wide_bull_call = Some 420"
  by (simp_all add: locked_bull_call_def wide_bull_call_def bull_call_def wanted_structure_def
      sample_idea_def)

theorem rank_candidates_sorts_witness:
  "\<exists>cs. rank_candidates (\<lambda>n. int_text (int n)) sample_idea [locked_bull_call, wide_bull_call] = Inr cs \<and> length cs = 2 \<and>
    sorted_wrt (\<lambda>a b. rc_rank_score b < rc_rank_score a \<or>
      rc_rank_score a = rc_rank_score b \<and> rc_structure_id a \<le> rc_structure_id b) cs"
proof -
  let ?ss = "[locked_bull_call, wide_bull_call]"
  define fresh where "fresh = (\<lambda>n. int_text (int n))"
  obtain c d where "rank_structure (fresh 0) sample_idea locked_bull_call 420 = Inr c"
    "rank_structure (fresh (Suc 0)) sample_idea wide_bull_call 420 = Inr d"
    using rank_samples(1) [of "fresh 0"] rank_samples(2) [of "fresh (Suc 0)"] by (auto simp: is_ok_iff)
  then have loop: "rank_candidates fresh sample_idea ?ss = Inr (sort_key rank_key [c, d])"
    by (simp add: rank_candidates_def samples_wanted)
  show ?thesis
    using loop rank_candidates_sorts [OF loop]
    unfolding fresh_def by (intro exI conjI) auto
qed

section \<open>Locked quotes\<close>

lemma foldl_dadd_le:
  assumes "\<forall>x \<in> set xs. x \<le> 1" and "acc \<le> of_nat m" and "m + length xs \<le> 4"
  shows "foldl dadd acc xs \<le> of_nat (m + length xs)"
  using assms
proof (induction xs arbitrary: acc m)
  case Nil
  then show ?case by simp
next
  case (Cons x xs)
  have "ctx (of_nat (Suc m)) = of_nat (Suc m)"
    using Cons.prems(3) by (intro ctx_grid [of 0] grid) simp
  then have "dadd acc x \<le> of_nat (Suc m)"
    using Cons.prems(1,2) unfolding dadd_def by (intro ctx.rnd_le) auto
  then show ?case using Cons.IH [of "dadd acc x" "Suc m"] Cons.prems by simp
qed

lemma foldl_dadd_ones:
  assumes "\<forall>x \<in> set xs. x = 1" and "m + length xs \<le> 4"
  shows "foldl dadd (of_nat m) xs = of_nat (m + length xs)"
  using assms
proof (induction xs arbitrary: m)
  case Nil
  then show ?case by simp
next
  case (Cons x xs)
  have "ctx (of_nat (Suc m)) = of_nat (Suc m)"
    using Cons.prems(2) by (intro ctx_grid [of 0] grid) simp
  then have "dadd (of_nat m) x = of_nat (Suc m)"
    using Cons.prems(1) by (simp add: dadd_def add.commute)
  then show ?case using Cons.IH [of "Suc m"] Cons.prems by simp
qed

text \<open>A locked quote (bid equal to ask, a relative spread of zero) is treated as if its
  relative spread were 100 per cent: among structures of up to four legs with the same profit and
  loss, one whose quotes are all locked never ranks above one with any spreads between 0 and 1.\<close>

theorem locked_quotes_rank_last:
  assumes "rank_structure i idea s profit = Inr c" and "rank_structure j idea t profit = Inr d"
    and "os_max_loss s = os_max_loss t" and "length (os_legs s) \<le> 4" and "length (os_legs t) \<le> 4"
    and "\<forall>l \<in> set (os_legs s). spread_ratio (oc_quote (ol_contract l)) = Some 0"
    and "\<forall>l \<in> set (os_legs t). \<exists>r. spread_ratio (oc_quote (ol_contract l)) = Some r \<and> 0 \<le> r \<and> r \<le> 1"
  shows "rc_rank_score c \<le> rc_rank_score d"
proof -
  let ?cost = "\<lambda>u. dquo (dsum (map leg_spread_cost (os_legs u))) (of_nat (length (os_legs u)))"
  have ne: "os_legs s \<noteq> []" "os_legs t \<noteq> []"
    using assms(1,2) by (auto simp: rank_structure_def guard_simps)
  have "dsum (map leg_spread_cost (os_legs s)) = of_nat (length (os_legs s))"
    using foldl_dadd_ones [of "map leg_spread_cost (os_legs s)" 0] assms(4,6)
    by (simp add: dsum_def leg_spread_cost_def)
  then have s: "?cost s = 1" using ne(1) by (simp add: dquo_def dec_eval)
  have "dsum (map leg_spread_cost (os_legs t)) \<le> of_nat (length (os_legs t))"
    using foldl_dadd_le [of "map leg_spread_cost (os_legs t)" 0 0] assms(5,7)
    by (force simp: dsum_def leg_spread_cost_def)
  then have t: "?cost t \<le> 1"
    using ne(2) by (auto simp: dquo_def dec_eval divide_le_eq intro!: ctx.rnd_le)
  have "dsub (dmul (dquo profit (os_max_loss s)) 50) (dmul (?cost s) 100)
      \<le> dsub (dmul (dquo profit (os_max_loss t)) 50) (dmul (?cost t) 100)"
    using s t assms(3) by (intro dsub_mono dmul_mono) simp_all
  then show ?thesis
    using assms(1,2) by (auto simp: rank_structure_def guard_simps quantize_def
        intro: places.rnd_mono split: if_splits)
qed

theorem locked_quotes_rank_last_witness:
  "\<exists>c d. rank_structure ''a'' sample_idea locked_bull_call 420 = Inr c \<and>
    rank_structure ''b'' sample_idea wide_bull_call 420 = Inr d \<and> rc_rank_score c \<le> rc_rank_score d"
proof -
  obtain c d where c: "rank_structure ''a'' sample_idea locked_bull_call 420 = Inr c"
    and d: "rank_structure ''b'' sample_idea wide_bull_call 420 = Inr d"
    using rank_samples(1) [of "''a''"] rank_samples(2) [of "''b''"] by (auto simp: is_ok_iff)
  have "rc_rank_score c \<le> rc_rank_score d"
    by (rule locked_quotes_rank_last [OF c d])
      (simp_all add: locked_bull_call_def wide_bull_call_def bull_call_def bull_call_legs_def
        sample_leg_def sample_quote_def spread_ratio_def midpoint_def dec_eval exI [of _ "1 / 2"])
  with c d show ?thesis by blast
qed

section \<open>Protection\<close>

lemma protection_score_between:
  assumes "protection_context_valid c"
  shows "0 \<le> protection_raw_score c \<and> protection_raw_score c \<le> 100"
proof -
  have ctxs: "ctx 10 = 10" "ctx 30 = 30" "ctx 20 = 20" "ctx 15 = 15" "ctx 50 = 50" "ctx 70 = 70"
    "ctx 85 = 85" "ctx 100 = 100"
    by (simp_all add: dec_eval)
  have q: "0 \<le> min (dquo x y) 1 \<and> min (dquo x y) 1 \<le> 1" if "0 \<le> x" "0 < y" for x y
    using that by (auto simp: dquo_def min_def intro: ctx.rnd_nonneg)
  have t: "0 \<le> max (dneg x) 0 \<and> max (dneg x) 0 \<le> 1" if "- 1 \<le> x" for x
    using that by (auto simp: dneg_def score_weights max_def intro: ctx.rnd_le)
  have v: "0 \<le> pc_drawdown_percent c" "0 \<le> pc_concentration_percent c"
    "0 \<le> pc_volatility_percentile c \<and> pc_volatility_percentile c \<le> 1" "- 1 \<le> pc_trend_score c"
    "0 \<le> pc_correlation_score c \<and> pc_correlation_score c \<le> 1"
    using assms by (auto simp: protection_context_valid_def unit_interval_def signed_interval_def)
  let ?a = "dmul (min (dquo (pc_drawdown_percent c) 10) 1) 30"
  let ?b = "dmul (pc_volatility_percentile c) 20"
  let ?d = "dmul (max (dneg (pc_trend_score c)) 0) 20"
  let ?e = "dmul (min (dquo (pc_concentration_percent c) 20) 1) 15"
  let ?g = "dmul (pc_correlation_score c) 15"
  have w: "0 \<le> ?a \<and> ?a \<le> 30" "0 \<le> ?b \<and> ?b \<le> 20" "0 \<le> ?d \<and> ?d \<le> 20" "0 \<le> ?e \<and> ?e \<le> 15"
    "0 \<le> ?g \<and> ?g \<le> 15"
    using v by (intro dmul_between q t ctxs; simp)+
  have "0 \<le> dadd ?a ?b \<and> dadd ?a ?b \<le> 50"
    using dadd_between [OF w(1,2)] ctxs by simp
  from dadd_between [OF this w(3)] have "0 \<le> dadd (dadd ?a ?b) ?d \<and> dadd (dadd ?a ?b) ?d \<le> 70"
    using ctxs by simp
  from dadd_between [OF this w(4)]
  have "0 \<le> dadd (dadd (dadd ?a ?b) ?d) ?e \<and> dadd (dadd (dadd ?a ?b) ?d) ?e \<le> 85"
    using ctxs by simp
  from dadd_between [OF this w(5)] show ?thesis
    using ctxs by (simp add: protection_raw_score_def Let_def)
qed

lemma protection_exact:
  assumes "protection_context_valid c"
  shows "quantize 2 (protection_raw_score c) = Inr (round_places 2 (protection_raw_score c))"
    and "0 \<le> round_places 2 (protection_raw_score c)"
    and "round_places 2 (protection_raw_score c) \<le> 100"
  using protection_score_between [OF assms] quantize_bounded [of "protection_raw_score c" 2]
    places.rnd_nonneg [of "protection_raw_score c" 2]
    places.rnd_le [OF round_places_grid [of 2 100], of "protection_raw_score c"]
  by (simp_all add: grid)

lemma protection_raw_mono:
  assumes "pc_drawdown_percent c \<le> pc_drawdown_percent d"
    and "pc_volatility_percentile c \<le> pc_volatility_percentile d"
    and "pc_trend_score d \<le> pc_trend_score c"
    and "pc_concentration_percent c \<le> pc_concentration_percent d"
    and "pc_correlation_score c \<le> pc_correlation_score d"
  shows "protection_raw_score c \<le> protection_raw_score d"
proof -
  have q: "min (dquo x b) 1 \<le> min (dquo y b) 1" if "x \<le> y" "0 < b" for x y b :: rat
    using dquo_mono [OF that] by (auto simp: min_def)
  have t: "max (dneg x) 0 \<le> max (dneg y) 0" if "y \<le> x" for x y
    using ctx_mono [of "- x" "- y"] that by (auto simp: dneg_def max_def)
  show ?thesis unfolding protection_raw_score_def Let_def
    by (intro dadd_mono dmul_mono q t assms) simp_all
qed

text \<open>The protection strategy gives every valid portfolio context a score between 0 and 100,
  activates exactly from 55 upwards, and is monotone: when drawdown, volatility, concentration and
  correlation rise and the trend falls, the score does not fall and an activated protection stays
  activated.\<close>

theorem protection_monotone:
  assumes "protection_context_valid c" and "protection_context_valid d"
    and "pc_drawdown_percent c \<le> pc_drawdown_percent d"
    and "pc_volatility_percentile c \<le> pc_volatility_percentile d"
    and "pc_trend_score d \<le> pc_trend_score c"
    and "pc_concentration_percent c \<le> pc_concentration_percent d"
    and "pc_correlation_score c \<le> pc_correlation_score d"
  shows "\<exists>a b. evaluate_protection c = Inr a \<and> evaluate_protection d = Inr b \<and>
    0 \<le> pa_score a \<and> pa_score a \<le> pa_score b \<and> pa_score b \<le> 100 \<and>
    (pa_activated a \<longleftrightarrow> 55 \<le> pa_score a) \<and> (pa_activated a \<longrightarrow> pa_activated b)"
  using protection_exact [OF assms(1)] protection_exact [OF assms(2)]
    places.rnd_mono [OF protection_raw_mono [OF assms(3-7)], of 2]
  by (auto simp: evaluate_protection_def)

definition calm_portfolio :: protection_context where
  "calm_portfolio = \<lparr> pc_portfolio_delta = 100, pc_drawdown_percent = 1,
     pc_volatility_percentile = 1 / 5, pc_trend_score = 1 / 2, pc_concentration_percent = 4,
     pc_correlation_score = 3 / 10 \<rparr>"

definition stressed_portfolio :: protection_context where
  "stressed_portfolio = \<lparr> pc_portfolio_delta = 100, pc_drawdown_percent = 8,
     pc_volatility_percentile = 4 / 5, pc_trend_score = - (3 / 5), pc_concentration_percent = 18,
     pc_correlation_score = 7 / 10 \<rparr>"

theorem protection_monotone_witness:
  "\<exists>a b. evaluate_protection calm_portfolio = Inr a \<and> evaluate_protection stressed_portfolio = Inr b \<and>
    0 \<le> pa_score a \<and> pa_score a \<le> pa_score b \<and> pa_score b \<le> 100 \<and>
    (pa_activated a \<longleftrightarrow> 55 \<le> pa_score a) \<and> (pa_activated a \<longrightarrow> pa_activated b)"
  by (rule protection_monotone) code_simp+

section \<open>Volatility premium\<close>

lemma sort_by_result_spec:
  assumes "sort_by_result key xs = Inr ys"
  shows "mset ys = mset xs \<and> (\<exists>f. (\<forall>x \<in> set xs. key x = Inr (f x)) \<and> sorted (map f ys))"
proof -
  obtain keys where k: "rmap key xs = Inr keys" and ys: "ys = map snd (sort_key fst (zip keys xs))"
    using assms by (auto simp: sort_by_result_def guard_simps)
  have all2: "list_all2 (\<lambda>x y. key x = Inr y) xs keys" using k by (simp add: rmap_Inr_iff)
  then have len: "length xs = length keys" by (rule list_all2_lengthD)
  define f where "f x = (case key x of Inr v \<Rightarrow> v | Inl _ \<Rightarrow> undefined)" for x
  have fst: "fst p = f (snd p) \<and> key (snd p) = Inr (f (snd p))" if "p \<in> set (zip keys xs)" for p
    using that all2 by (auto simp: f_def set_zip list_all2_conv_all_nth)
  have key: "\<forall>x \<in> set xs. key x = Inr (f x)"
    using fst len by (metis in_set_zipE in_set_impl_in_set_zip2 snd_conv)
  have "sorted (map fst (sort_key fst (zip keys xs)))" by (rule sorted_sort_key)
  moreover have "map fst (sort_key fst (zip keys xs)) = map f ys"
    using fst by (auto simp: ys)
  moreover have "mset ys = mset xs"
    using len by (simp add: ys) (metis map_snd_zip mset_map)
  ultimately show ?thesis using key by auto
qed

text \<open>The volatility-premium strategy is eligible exactly when the premium of implied over
  realised volatility is at least 0.20, no event is pending and the tail risk is at most 0.70; then
  it sells puts in a rising or flat trend and calls in a falling one, and its ranking returns exactly
  the candidates of that structure, ordered by profit per unit of loss (highest first) and then by
  loss; an ineligible assessment ranks nothing.\<close>

theorem volatility_decides:
  assumes "ctx (vc_iv_percentile c - vc_realized_volatility_percentile c) =
      vc_iv_percentile c - vc_realized_volatility_percentile c"
    and "rank_volatility (evaluate_volatility c) candidates = Inr ranked"
  shows "if vc_realized_volatility_percentile c + 1 / 5 \<le> vc_iv_percentile c \<and> \<not> vc_event_risk c \<and>
        vc_tail_risk_score c \<le> 7 / 10
    then mset ranked = mset (filter (\<lambda>s. os_structure_type s =
        (if 0 \<le> vc_trend_score c then BULL_PUT_CREDIT_SPREAD else BEAR_CALL_CREDIT_SPREAD)) candidates) \<and>
      sorted (map (\<lambda>s. (dquo (dneg (or_else (os_max_profit s) 0)) (os_max_loss s), os_max_loss s)) ranked)
    else ranked = []"
proof -
  have el: "va_eligible (evaluate_volatility c) \<longleftrightarrow>
      vc_realized_volatility_percentile c + 1 / 5 \<le> vc_iv_percentile c \<and> \<not> vc_event_risk c \<and>
      vc_tail_risk_score c \<le> 7 / 10"
    using assms(1) by (auto simp: evaluate_volatility_def Let_def dsub_def)
  show ?thesis
  proof (cases "va_eligible (evaluate_volatility c)")
    case False
    then show ?thesis using assms(2) unfolding el [symmetric] by (simp add: rank_volatility_def)
  next
    case True
    let ?w = "if 0 \<le> vc_trend_score c then BULL_PUT_CREDIT_SPREAD else BEAR_CALL_CREDIT_SPREAD"
    have pref: "va_preferred_structure (evaluate_volatility c) = Some ?w"
      using True by (auto simp: evaluate_volatility_def Let_def)
    have sort: "sort_by_result volatility_key (filter (\<lambda>s. os_structure_type s = ?w) candidates) = Inr ranked"
      using assms(2) True pref by (simp add: rank_volatility_def)
    obtain f where perm: "mset ranked = mset (filter (\<lambda>s. os_structure_type s = ?w) candidates)"
      and f: "\<forall>x \<in> set (filter (\<lambda>s. os_structure_type s = ?w) candidates). volatility_key x = Inr (f x)"
      and sorted: "sorted (map f ranked)"
      using sort_by_result_spec [OF sort] by blast
    have "set ranked = set (filter (\<lambda>s. os_structure_type s = ?w) candidates)"
      using perm by (rule mset_eq_setD)
    with f have "map f ranked =
        map (\<lambda>s. (dquo (dneg (or_else (os_max_profit s) 0)) (os_max_loss s), os_max_loss s)) ranked"
      by (auto simp: volatility_key_def guard_simps)
    with sorted perm True show ?thesis unfolding el [symmetric] by simp
  qed
qed

definition rich_volatility :: volatility_premium_context where
  "rich_volatility = \<lparr> vc_iv_percentile = 4 / 5, vc_realized_volatility_percentile = 2 / 5,
     vc_event_risk = False, vc_tail_risk_score = 1 / 5, vc_trend_score = 1 / 10 \<rparr>"

theorem volatility_decides_witness:
  "\<exists>ranked. rank_volatility (evaluate_volatility rich_volatility)
      [bull_call\<lparr>os_structure_type := BULL_PUT_CREDIT_SPREAD\<rparr>, bull_call] = Inr ranked \<and> length ranked = 1"
proof -
  let ?ss = "[bull_call\<lparr>os_structure_type := BULL_PUT_CREDIT_SPREAD\<rparr>, bull_call]"
  have "is_ok (rank_volatility (evaluate_volatility rich_volatility) ?ss)" by code_simp
  then obtain ranked where r: "rank_volatility (evaluate_volatility rich_volatility) ?ss = Inr ranked"
    by (auto simp: is_ok_iff)
  have g: "ctx (vc_iv_percentile rich_volatility - vc_realized_volatility_percentile rich_volatility) =
      vc_iv_percentile rich_volatility - vc_realized_volatility_percentile rich_volatility"
    by code_simp
  have "size (mset ranked) = 1"
    using volatility_decides [OF g r] by (simp add: rich_volatility_def bull_call_def)
  with r show ?thesis by auto
qed

end
