(* ===== verification/Risk_Properties.thy ===== *)
theory Risk_Properties
  imports Risk_Engine Strategy_Properties
begin

text \<open>
  What an approval of \<open>RiskEngine.evaluate\<close> guarantees, over exact numbers, and how it depends on
  the context.
\<close>

definition sample_candidate :: ranked_candidate where
  "sample_candidate = \<lparr> rc_structure_id = ''structure'', rc_trade_idea_id = ''idea'',
     rc_structure = bull_call, rc_rank_score = 50, rc_rank_components = [] \<rparr>"

definition sample_risk_context :: risk_context where
  "sample_risk_context = \<lparr> rk_paper_equity = 100000, rk_open_planned_loss = 500,
     rk_underlying_open_risk = 200, rk_daily_loss = 100, rk_drawdown_percent = 1,
     rk_concurrent_option_structures = 2, rk_portfolio_delta = 100, rk_portfolio_gamma = 5,
     rk_portfolio_theta = - 10, rk_portfolio_vega = 40, rk_broker_execution_allowed = True,
     rk_duplicate_logical_order = False \<rparr>"

lemma sample_risk_valid:
  "risk_context_valid sample_risk_context" "0 \<le> os_max_loss (rc_structure sample_candidate)"
  by code_simp+

text \<open>C1. The risk engine never raises on a valid context, and its verdict is the policy's over
  exact numbers up to a relative error of \<open>10 ^ -25\<close>: whatever it approves meets every limit of the
  policy with its amounts lowered by that factor, and whatever meets every limit with its amounts
  raised by it is approved.  The verdict carries the nine checks, and approves exactly when all of
  them passed.\<close>

theorem risk_verdict_exact:
  assumes "risk_context_valid c" and "0 \<le> os_max_loss (rc_structure candidate)"
  shows "\<exists>d. risk_evaluate policy fresh now candidate c = Inr d \<and>
    rd_structure_id d = rc_structure_id candidate \<and>
    rd_calculated_max_loss d = os_max_loss (rc_structure candidate) \<and>
    length (rd_checks d) = 9 \<and> (rd_decision d = APPROVE \<longleftrightarrow> list_all ck_passed (rd_checks d)) \<and>
    (rd_decision d = APPROVE \<longrightarrow> exact_limits (1 - 1 / 10 ^ 25) policy (rc_structure candidate) c) \<and>
    (exact_limits (1 + 1 / 10 ^ 25) policy (rc_structure candidate) c \<longrightarrow> rd_decision d = APPROVE)"
proof -
  obtain d where d: "risk_evaluate policy fresh now candidate c = Inr d"
    "rd_structure_id d = rc_structure_id candidate"
    "rd_calculated_max_loss d = os_max_loss (rc_structure candidate)"
    "rd_checks d = risk_checks policy (rc_structure candidate) c"
    "rd_decision d = APPROVE \<longleftrightarrow> within_policy policy (rc_structure candidate) c"
    using risk_evaluate_Inr [OF assms] by blast
  moreover have "length (risk_checks policy (rc_structure candidate) c) = 9"
    by (simp add: risk_checks_def Let_def)
  ultimately show ?thesis
    using within_policy_exact [OF assms, unfolded slack_def]
    by (intro exI [of _ d]) (simp add: risk_checks_pass)
qed

theorem risk_verdict_exact_witness:
  "\<exists>d. risk_evaluate default_risk_policy ''r'' 0 sample_candidate sample_risk_context = Inr d \<and>
    rd_decision d = APPROVE"
proof -
  have "exact_limits (1 + 1 / 10 ^ 25) default_risk_policy (rc_structure sample_candidate) sample_risk_context"
    by (simp add: exact_limits_def default_risk_policy_def sample_candidate_def bull_call_def
        sample_risk_context_def)
  with risk_verdict_exact [OF sample_risk_valid, of default_risk_policy "''r''" 0] show ?thesis by blast
qed

text \<open>A blocked broker or a duplicate of an order is rejected whatever the numbers are.\<close>

theorem blocked_or_duplicate_rejected:
  assumes "risk_evaluate policy fresh now candidate c = Inr d"
    and "\<not> rk_broker_execution_allowed c \<or> rk_duplicate_logical_order c"
  shows "rd_decision d = REJECT \<and> (\<exists>k \<in> set (rd_checks d). \<not> ck_passed k \<and>
    ck_name k \<in> {''broker_state'', ''duplicate_logical_order''})"
  using assms by (auto simp: risk_evaluate_def Let_def guard_simps risk_checks_pass within_policy_def)
    (auto simp: risk_checks_def Let_def)

theorem blocked_or_duplicate_rejected_witness:
  "\<exists>d. risk_evaluate default_risk_policy ''r'' 0 sample_candidate
      (sample_risk_context\<lparr>rk_broker_execution_allowed := False\<rparr>) = Inr d \<and> rd_decision d = REJECT"
proof -
  let ?c = "sample_risk_context\<lparr>rk_broker_execution_allowed := False\<rparr>"
  have "is_ok (risk_evaluate default_risk_policy ''r'' 0 sample_candidate ?c)" by code_simp
  then obtain d where d: "risk_evaluate default_risk_policy ''r'' 0 sample_candidate ?c = Inr d"
    by (auto simp: is_ok_iff)
  from blocked_or_duplicate_rejected [OF d] d show ?thesis by simp
qed

text \<open>Risk limits are monotone: if a structure is approved, one with the same Greeks and no
  larger maximum loss is approved too, in any context with the same equity and Greeks and no more
  open risk, losses, drawdown or positions.\<close>

theorem approval_monotone:
  assumes "risk_evaluate policy i t cand d = Inr a" and "rd_decision a = APPROVE"
    and "risk_context_valid c" and "risk_context_valid d" and "no_riskier c d"
    and "0 \<le> os_max_loss (rc_structure cand')"
    and "os_max_loss (rc_structure cand') \<le> os_max_loss (rc_structure cand)"
    and "os_greeks (rc_structure cand') = os_greeks (rc_structure cand)"
  shows "\<exists>b. risk_evaluate policy j u cand' c = Inr b \<and> rd_decision b = APPROVE"
proof -
  have "0 < rk_paper_equity d" using assms(4) by (simp add: risk_context_valid_def)
  moreover have "within_policy policy (rc_structure cand) d"
    using assms(1,2) by (auto simp: risk_evaluate_def Let_def guard_simps risk_checks_pass split: if_splits)
  ultimately have "within_policy policy (rc_structure cand') c"
    using within_policy_antitone assms(5,7,8) by blast
  then show ?thesis using risk_evaluate_Inr [OF assms(3,6), of policy j u] by blast
qed

theorem approval_monotone_witness:
  "\<exists>b. risk_evaluate default_risk_policy ''j'' 1 sample_candidate
      (sample_risk_context\<lparr>rk_daily_loss := 0\<rparr>) = Inr b \<and> rd_decision b = APPROVE"
proof -
  have "is_ok (risk_evaluate default_risk_policy ''r'' 0 sample_candidate sample_risk_context)"
    "case risk_evaluate default_risk_policy ''r'' 0 sample_candidate sample_risk_context of
      Inr d \<Rightarrow> rd_decision d = APPROVE | Inl e \<Rightarrow> False" by code_simp+
  then obtain a where a: "risk_evaluate default_risk_policy ''r'' 0 sample_candidate sample_risk_context = Inr a"
    "rd_decision a = APPROVE"
    by (auto simp: is_ok_iff)
  show ?thesis
    by (rule approval_monotone [OF a _ sample_risk_valid(1) _ sample_risk_valid(2)])
      (simp_all add: no_riskier_def risk_context_valid_def sample_risk_context_def)
qed

end
