(* ===== verification/Order_Intents.thy ===== *)
theory Order_Intents
  imports Risk_Properties
begin

text \<open>
  \<open>packages/execution/intents.py\<close>: from an approved risk decision to an immutable order intent,
  and what its \<open>client_order_id\<close> identifies.
\<close>

section \<open>Creating an order intent\<close>

definition leg_of :: "option_leg \<Rightarrow> intent_leg" where
  "leg_of leg = \<lparr> il_symbol = oc_symbol (ol_contract leg),
     il_side = (if ol_side leg = LONG then Buy else Sell), il_ratio = ol_ratio leg \<rparr>"

definition create_order_intent ::
  "(string \<Rightarrow> string) \<Rightarrow> uuid \<Rightarrow> instant \<Rightarrow> risk_decision \<Rightarrow> ranked_candidate \<Rightarrow> int \<Rightarrow> decimal option \<Rightarrow>
   string \<Rightarrow> instant option \<Rightarrow> order_intent result"
where
  "create_order_intent sha fresh now decision candidate quantity limit_price execution_policy created_at =
     rbind (require (rd_structure_id decision = rc_structure_id candidate)
       (ValueError ''Risk decision does not belong to candidate'')) (\<lambda>_.
     rbind (require (rd_decision decision = APPROVE)
       (ValueError ''Rejected risk decision cannot produce OrderIntent'')) (\<lambda>_.
     rbind (require (quantity = os_quantity (rc_structure candidate))
       (ValueError ''Intent quantity must match risk-evaluated structure quantity'')) (\<lambda>_.
     let price = or_else limit_price (os_net_premium_per_share (rc_structure candidate)) in
     rbind (rmap (\<lambda>leg. validated intent_leg_valid ''IntentLeg'' (leg_of leg))
       (os_legs (rc_structure candidate))) (\<lambda>legs.
     validated (order_intent_valid sha) ''OrderIntent''
       \<lparr> oi_order_intent_id = fresh,
         oi_client_order_id = stable_client_order_id sha (rd_risk_decision_id decision) legs quantity
           price ''day'' execution_policy,
         oi_risk_decision_id = rd_risk_decision_id decision, oi_legs = legs, oi_quantity = quantity,
         oi_limit_price = price, oi_time_in_force = ''day'', oi_execution_policy = execution_policy,
         oi_created_at = or_else created_at now \<rparr>))))"

definition limit_at_calculated_net :: string where
  "limit_at_calculated_net = ''LIMIT_AT_CALCULATED_NET_V1''"

lemma legs_total:
  assumes "list_all (\<lambda>l. 1 \<le> ol_ratio l) legs"
  shows "rmap (\<lambda>leg. validated intent_leg_valid ''IntentLeg'' (leg_of leg)) legs = Inr (map leg_of legs)"
  using assms by (intro rmap_total) (auto simp: list_all_iff intent_leg_valid_def leg_of_def)

lemma legs_Inr:
  assumes "rmap (\<lambda>leg. validated intent_leg_valid ''IntentLeg'' (leg_of leg)) legs = Inr ls"
  shows "ls = map leg_of legs \<and> list_all intent_leg_valid ls"
  using assms unfolding rmap_Inr_iff
  by (induction rule: list_all2_induct) (auto simp: guard_simps)

lemma create_order_intent_Inr:
  assumes "create_order_intent sha fresh now d cand q price policy made = Inr i"
  shows "rd_structure_id d = rc_structure_id cand \<and> rd_decision d = APPROVE \<and>
    q = os_quantity (rc_structure cand) \<and> order_intent_valid sha i \<and>
    oi_legs i = map leg_of (os_legs (rc_structure cand)) \<and> oi_quantity i = q \<and>
    oi_limit_price i = or_else price (os_net_premium_per_share (rc_structure cand)) \<and>
    oi_risk_decision_id i = rd_risk_decision_id d \<and> oi_order_intent_id i = fresh \<and>
    oi_execution_policy i = policy \<and> oi_created_at i = or_else made now"
  using assms by (auto simp: create_order_intent_def guard_simps Let_def dest!: legs_Inr)

section \<open>What the client order id identifies\<close>

definition plain :: "string \<Rightarrow> bool" where
  "plain s \<longleftrightarrow> CHR ''|'' \<notin> set s \<and> CHR '','' \<notin> set s \<and> CHR '':'' \<notin> set s"

lemma plain_side: "plain (side_text side)"
  by (cases side) (simp_all add: plain_def)

lemma side_text_inj: "side_text a = side_text b \<longleftrightarrow> a = b"
  by (cases a; cases b) simp_all

lemma plain_int: "plain (int_text n)"
  using digits_no_sep [of n] digits_no_sep [of "- n"] by (auto simp: plain_def int_text_def)

lemma leg_text_join: "leg_text l = join '':'' [il_symbol l, side_text (il_side l), int_text (il_ratio l)]"
  by (simp add: leg_text_def)

lemma leg_text_inj:
  assumes "plain (il_symbol a)" and "plain (il_symbol b)" and "leg_text a = leg_text b"
  shows "a = b"
proof -
  have "[il_symbol a, side_text (il_side a), int_text (il_ratio a)] =
      [il_symbol b, side_text (il_side b), int_text (il_ratio b)]"
    using assms plain_side plain_int
    by (intro join_inj [of _ "CHR '':''"]) (auto simp: leg_text_join plain_def)
  then show ?thesis by (simp add: side_text_inj int_text_inj)
qed

lemma leg_text_no_comma: "plain (il_symbol l) \<Longrightarrow> CHR '','' \<notin> set (leg_text l)"
  using plain_side [of "il_side l"] plain_int [of "il_ratio l"] by (auto simp: leg_text_def plain_def)

lemma leg_text_no_bar: "plain (il_symbol l) \<Longrightarrow> CHR ''|'' \<notin> set (leg_text l)"
  using plain_side [of "il_side l"] plain_int [of "il_ratio l"] by (auto simp: leg_text_def plain_def)

lemma leg_text_nonempty: "leg_text l \<noteq> []"
  by (simp add: leg_text_def)

lemma join_set: "set (join sep xs) \<subseteq> set sep \<union> (\<Union>x \<in> set xs. set x)"
  by (induction sep xs rule: join.induct) auto

lemma join_empty: "join sep (x # xs) = [] \<Longrightarrow> x = []"
  by (cases xs) auto

lemma legs_text_inj:
  assumes "\<forall>l \<in> set xs. plain (il_symbol l)" and "\<forall>l \<in> set ys. plain (il_symbol l)"
    and "join '','' (map leg_text xs) = join '','' (map leg_text ys)"
  shows "xs = ys"
proof -
  have nonempty: "join '','' (map leg_text zs) = [] \<Longrightarrow> zs = []" for zs
    using leg_text_nonempty join_empty [of "'',''" "leg_text (hd zs)" "map leg_text (tl zs)"]
    by (cases zs) auto
  show ?thesis
  proof (cases "xs = [] \<or> ys = []")
    case True
    then show ?thesis using nonempty [of xs] nonempty [of ys] assms(3) by auto
  next
    case False
    then have "map leg_text xs = map leg_text ys"
      using assms leg_text_no_comma by (intro join_inj [of _ "CHR '',''"]) auto
    then show ?thesis
      using assms(1,2) leg_text_inj by (auto simp: list_eq_iff_nth_eq map_equality_iff)
  qed
qed

lemma normalized_text_no_bar: "CHR ''|'' \<notin> set (normalized_text x)"
proof -
  obtain c e where ce: "normalize_parts x = (c, e)" by fastforce
  obtain ip fp y where "sci_text (c, e) = (if c < 0 then ''-'' else '''') @ point_text ip fp @ expo_text y"
    "set ip \<subseteq> set ''0123456789''" "set fp \<subseteq> set ''0123456789''"
    by (rule sci_text_shape [OF refl])
  moreover have "CHR ''|'' \<notin> set (expo_text y)"
    using digits_no_sep [of "\<bar>y\<bar>" "CHR ''|''"] by (auto simp: expo_text_def)
  ultimately show ?thesis
    unfolding normalized_text_def ce by (auto simp: point_text_def)
qed

lemma canonical_identity_inj:
  assumes "canonical_identity r ls q p t pol = canonical_identity r' ls' q' p' t' pol'"
    and "plain r" "plain r'" "plain t" "plain t'" "plain pol" "plain pol'"
    and "\<forall>l \<in> set ls. plain (il_symbol l)" and "\<forall>l \<in> set ls'. plain (il_symbol l)"
  shows "r = r' \<and> ls = ls' \<and> q = q' \<and> ctx p = ctx p' \<and> t = t' \<and> pol = pol'"
proof -
  have bar: "CHR ''|'' \<notin> set (join '','' (map leg_text xs))" if "\<forall>l \<in> set xs. plain (il_symbol l)" for xs
    using join_set [of "'',''" "map leg_text xs"] leg_text_no_bar that by fastforce
  have "[r, join '','' (map leg_text ls), int_text q, normalized_text p, t, pol] =
      [r', join '','' (map leg_text ls'), int_text q', normalized_text p', t', pol']"
    using assms(1) bar [OF assms(8)] bar [OF assms(9)] assms(2-7) plain_int normalized_text_no_bar
    unfolding canonical_identity_def
    by (intro join_inj [of _ "CHR ''|''"]) (simp_all add: plain_def)
  then show ?thesis
    using legs_text_inj [OF assms(8,9)] int_text_inj read_normalized_text [of p] read_normalized_text [of p']
    by simp
qed

section \<open>Properties\<close>

text \<open>C11. An order intent exists only for an approved decision about that very candidate and for
  the quantity the decision was made for; every other call raises \<open>ValueError\<close>.  The intent has one leg for
  each leg of the structure, in the same order, with the symbol of its contract, bought where the structure is long
  and sold where it is short, and with the same ratio; it carries the given identifier, the limit price or the
  calculated net premium, and satisfies the validator of its own identity.  Ratios and quantity of the structure are
  at least one, as its model demands.\<close>

theorem order_intent_needs_approval:
  assumes "list_all (\<lambda>l. 1 \<le> ol_ratio l) (os_legs (rc_structure cand))"
    and "1 \<le> os_quantity (rc_structure cand)"
  shows "if rd_structure_id d = rc_structure_id cand \<and> rd_decision d = APPROVE \<and>
      q = os_quantity (rc_structure cand)
    then \<exists>i. create_order_intent sha fresh now d cand q price policy made = Inr i \<and>
      order_intent_valid sha i \<and>
      oi_legs i = map (\<lambda>l. \<lparr> il_symbol = oc_symbol (ol_contract l),
        il_side = (case ol_side l of LONG \<Rightarrow> Buy | SHORT \<Rightarrow> Sell), il_ratio = ol_ratio l \<rparr>)
        (os_legs (rc_structure cand)) \<and>
      oi_order_intent_id i = fresh \<and> oi_quantity i = q \<and> oi_risk_decision_id i = rd_risk_decision_id d \<and>
      oi_limit_price i = (case price of None \<Rightarrow> os_net_premium_per_share (rc_structure cand) | Some x \<Rightarrow> x)
    else \<exists>m. create_order_intent sha fresh now d cand q price policy made = Inl (ValueError m)"
proof (cases "rd_structure_id d = rc_structure_id cand \<and> rd_decision d = APPROVE \<and>
      q = os_quantity (rc_structure cand)")
  case True
  have "list_all intent_leg_valid (map leg_of (os_legs (rc_structure cand)))"
    using assms(1) by (simp add: list_all_iff intent_leg_valid_def leg_of_def)
  moreover have "leg_of = (\<lambda>l. \<lparr> il_symbol = oc_symbol (ol_contract l),
      il_side = (case ol_side l of LONG \<Rightarrow> Buy | SHORT \<Rightarrow> Sell), il_ratio = ol_ratio l \<rparr>)"
    by (intro ext) (simp add: leg_of_def split: leg_side.split)
  ultimately show ?thesis using True assms
    by (simp add: create_order_intent_def legs_total [OF assms(1)] order_intent_valid_def Let_def or_else_def)
next
  case False
  then show ?thesis by (auto simp: create_order_intent_def require_def)
qed

definition sample_decision :: risk_decision where
  "sample_decision = \<lparr> rd_risk_decision_id = ''decision'', rd_structure_id = ''structure'',
     rd_decision = APPROVE, rd_checks = [], rd_risk_budget_used = 21 / 10000,
     rd_calculated_max_loss = 210, rd_created_at = 0 \<rparr>"

lemma sample_candidate_legs:
  "list_all (\<lambda>l. 1 \<le> ol_ratio l) (os_legs (rc_structure sample_candidate))"
  "1 \<le> os_quantity (rc_structure sample_candidate)"
  by (simp_all add: sample_candidate_def bull_call_def bull_call_legs_def sample_leg_def)

theorem order_intent_needs_approval_witness:
  "\<exists>i. create_order_intent rev ''f'' 0 sample_decision sample_candidate 1 None limit_at_calculated_net None
      = Inr i \<and> order_intent_valid rev i \<and> map il_side (oi_legs i) = [Buy, Sell]"
proof -
  have "rd_structure_id sample_decision = rc_structure_id sample_candidate \<and>
      rd_decision sample_decision = APPROVE \<and> 1 = os_quantity (rc_structure sample_candidate)"
    by (simp add: sample_decision_def sample_candidate_def bull_call_def)
  with order_intent_needs_approval [OF sample_candidate_legs, of sample_decision 1 rev "''f''" 0 None
      limit_at_calculated_net None]
  show ?thesis by (auto simp: sample_candidate_def bull_call_def bull_call_legs_def sample_leg_def)
qed

text \<open>C12. The client order id identifies the logical order: two valid intents whose texts contain
  no separator, whose prices have at most 28 digits and whose digests do not collide have the same id
  exactly when they agree on the risk decision, the legs, the quantity, the limit price, the time in
  force and the execution policy.  The identifier and the creation time of the intent play no part.\<close>

theorem client_order_id_identifies:
  assumes "order_intent_valid sha i" and "order_intent_valid sha j"
    and "plain (oi_risk_decision_id i)" and "plain (oi_risk_decision_id j)"
    and "plain (oi_execution_policy i)" and "plain (oi_execution_policy j)"
    and "\<forall>l \<in> set (oi_legs i). plain (il_symbol l)" and "\<forall>l \<in> set (oi_legs j). plain (il_symbol l)"
    and "ctx (oi_limit_price i) = oi_limit_price i" and "ctx (oi_limit_price j) = oi_limit_price j"
    and collision_free: "\<And>x y. take 32 (sha x) = take 32 (sha y) \<Longrightarrow>
      x = canonical_identity (oi_risk_decision_id i) (oi_legs i) (oi_quantity i) (oi_limit_price i)
        (oi_time_in_force i) (oi_execution_policy i) \<Longrightarrow>
      y = canonical_identity (oi_risk_decision_id j) (oi_legs j) (oi_quantity j) (oi_limit_price j)
        (oi_time_in_force j) (oi_execution_policy j) \<Longrightarrow> x = y"
  shows "oi_client_order_id i = oi_client_order_id j \<longleftrightarrow>
    oi_risk_decision_id i = oi_risk_decision_id j \<and> oi_legs i = oi_legs j \<and>
    oi_quantity i = oi_quantity j \<and> oi_limit_price i = oi_limit_price j \<and>
    oi_execution_policy i = oi_execution_policy j"
proof
  have tif: "oi_time_in_force i = ''day''" "oi_time_in_force j = ''day''"
    using assms(1,2) by (simp_all add: order_intent_valid_def)
  assume "oi_client_order_id i = oi_client_order_id j"
  then have same: "canonical_identity (oi_risk_decision_id i) (oi_legs i) (oi_quantity i) (oi_limit_price i)
        (oi_time_in_force i) (oi_execution_policy i) =
      canonical_identity (oi_risk_decision_id j) (oi_legs j) (oi_quantity j) (oi_limit_price j)
        (oi_time_in_force j) (oi_execution_policy j)"
    using assms(1,2) by (intro collision_free [OF _ refl refl]) (simp add: order_intent_valid_def stable_client_order_id_def)
  have "plain (oi_time_in_force i)" "plain (oi_time_in_force j)" by (simp_all add: tif plain_def)
  from canonical_identity_inj [OF same assms(3,4) this assms(5-8)] show "oi_risk_decision_id i = oi_risk_decision_id j \<and> oi_legs i = oi_legs j \<and>
    oi_quantity i = oi_quantity j \<and> oi_limit_price i = oi_limit_price j \<and>
    oi_execution_policy i = oi_execution_policy j"
    by (simp add: assms(9,10))
next
  assume "oi_risk_decision_id i = oi_risk_decision_id j \<and> oi_legs i = oi_legs j \<and>
    oi_quantity i = oi_quantity j \<and> oi_limit_price i = oi_limit_price j \<and>
    oi_execution_policy i = oi_execution_policy j"
  then show "oi_client_order_id i = oi_client_order_id j"
    using assms(1,2) by (simp add: order_intent_valid_def)
qed

definition sample_intent :: "uuid \<Rightarrow> int \<Rightarrow> order_intent" where
  "sample_intent fresh q = (let legs = [\<lparr> il_symbol = ''NVDA'', il_side = Buy, il_ratio = 1 \<rparr>] in
     \<lparr> oi_order_intent_id = fresh, oi_client_order_id = stable_client_order_id id ''r'' legs q 2 ''day'' ''P'',
       oi_risk_decision_id = ''r'', oi_legs = legs, oi_quantity = q, oi_limit_price = 2,
       oi_time_in_force = ''day'', oi_execution_policy = ''P'', oi_created_at = 0 \<rparr>)"

lemma sample_intent_valid: "1 \<le> q \<Longrightarrow> order_intent_valid id (sample_intent fresh q)"
  by (simp add: sample_intent_def order_intent_valid_def intent_leg_valid_def Let_def)

lemma sample_identities_differ:
  "take 32 (canonical_identity ''r'' [\<lparr> il_symbol = ''NVDA'', il_side = Buy, il_ratio = 1 \<rparr>] 1 2 ''day'' ''P'')
    \<noteq> take 32 (canonical_identity ''r'' [\<lparr> il_symbol = ''NVDA'', il_side = Buy, il_ratio = 1 \<rparr>] 2 2 ''day'' ''P'')"
proof -
  have "int_text 1 = ''1''" "int_text 2 = ''2''" by code_simp+
  then show ?thesis by (simp add: canonical_identity_def leg_text_def)
qed

theorem client_order_id_identifies_witness:
  "oi_client_order_id (sample_intent ''a'' 1) = oi_client_order_id (sample_intent ''b'' 1) \<and>
   oi_client_order_id (sample_intent ''a'' 1) \<noteq> oi_client_order_id (sample_intent ''b'' 2)"
proof -
  have c: "ctx 2 = 2" by (simp add: dec_eval)
  have "oi_client_order_id (sample_intent ''a'' 1) = oi_client_order_id (sample_intent ''b'' q) \<longleftrightarrow> q = 1"
    if "q = 1 \<or> q = 2" for q
    using client_order_id_identifies [of id "sample_intent ''a'' 1" "sample_intent ''b'' q"]
      sample_intent_valid c that sample_identities_differ
    by (auto simp: sample_intent_def Let_def plain_def)
  from this [of 1] this [of 2] show ?thesis by simp
qed

end
