(* ===== verification/Execution.thy ===== *)
theory Execution
  imports Broker_Domain Order_Intents
begin

text \<open>
  \<open>packages/execution/engine.py\<close> and \<open>packages/execution/store.py\<close>: the only service that may
  submit an order, and the two stores of submission states it can be given.

  The world of the engine is the store and the list of submissions the broker has received.  The
  broker itself is code outside the repository: its reply to a submission is an argument.
\<close>

section \<open>The intent stores\<close>

datatype execution_state = CREATED | RISK_APPROVED | SUBMISSION_STARTED | SUBMISSION_UNCERTAIN
  | ACCEPTED | REJECTED | CANCELED | PARTIALLY_FILLED | FILLED

text \<open>\<open>InMemoryIntentStore\<close>: a dictionary from client order id to state.  The lock makes
  \<open>reserve_submission\<close> one step.\<close>

type_synonym memory_intents = "string \<rightharpoonup> execution_state"

definition mem_reserve :: "instant \<Rightarrow> order_intent \<Rightarrow> memory_intents \<Rightarrow> (bool \<times> memory_intents) result" where
  "mem_reserve now intent states =
     (if states (oi_client_order_id intent) \<noteq> None then Inr (False, states)
      else Inr (True, states(oi_client_order_id intent \<mapsto> SUBMISSION_STARTED)))"

definition mem_set_state ::
  "instant \<Rightarrow> string \<Rightarrow> execution_state \<Rightarrow> memory_intents \<Rightarrow> memory_intents result" where
  "mem_set_state now client_order_id state states = Inr (states(client_order_id \<mapsto> state))"

definition mem_get_state :: "string \<Rightarrow> memory_intents \<Rightarrow> execution_state option" where
  "mem_get_state client_order_id states = states client_order_id"

text \<open>
  \<open>PostgresIntentStore\<close>: rows of the table \<open>order_intents\<close>, shared by all workspaces.  The insert
  does nothing on a conflict with the unique pair of workspace and client order id, and raises on a
  conflict with the primary key; the payload is the dumped intent.
\<close>

record order_intent_row =
  ir_order_intent_id :: uuid
  ir_workspace_id :: uuid
  ir_client_order_id :: string
  ir_risk_decision_id :: uuid
  ir_state :: execution_state
  ir_payload :: order_intent
  ir_created_at :: instant
  ir_updated_at :: instant

definition owns :: "uuid \<Rightarrow> string \<Rightarrow> order_intent_row \<Rightarrow> bool" where
  "owns ws client_order_id r \<longleftrightarrow> ir_workspace_id r = ws \<and> ir_client_order_id r = client_order_id"

definition pg_reserve ::
  "uuid \<Rightarrow> instant \<Rightarrow> order_intent \<Rightarrow> order_intent_row list \<Rightarrow> (bool \<times> order_intent_row list) result" where
  "pg_reserve ws now intent rows =
     (if list_ex (owns ws (oi_client_order_id intent)) rows then Inr (False, rows)
      else if list_ex (\<lambda>r. ir_order_intent_id r = oi_order_intent_id intent) rows
      then Inl (External ''IntegrityError'')
      else Inr (True, rows @ [\<lparr> ir_order_intent_id = oi_order_intent_id intent, ir_workspace_id = ws,
        ir_client_order_id = oi_client_order_id intent, ir_risk_decision_id = oi_risk_decision_id intent,
        ir_state = SUBMISSION_STARTED, ir_payload = intent, ir_created_at = oi_created_at intent,
        ir_updated_at = now \<rparr>]))"

definition pg_set_state ::
  "uuid \<Rightarrow> instant \<Rightarrow> string \<Rightarrow> execution_state \<Rightarrow> order_intent_row list \<Rightarrow> order_intent_row list result"
where
  "pg_set_state ws now client_order_id state rows =
     (if list_ex (owns ws client_order_id) rows
      then Inr (map (\<lambda>r. if owns ws client_order_id r then r\<lparr>ir_state := state, ir_updated_at := now\<rparr>
        else r) rows)
      else Inl (KeyError client_order_id))"

definition pg_get_state :: "uuid \<Rightarrow> string \<Rightarrow> order_intent_row list \<Rightarrow> execution_state option" where
  "pg_get_state ws client_order_id rows =
     map_option ir_state (List.find (owns ws client_order_id) rows)"

section \<open>The engine\<close>

definition submission_of :: "order_intent \<Rightarrow> order_submission" where
  "submission_of intent = \<lparr> su_client_order_id = oi_client_order_id intent,
     su_quantity = oi_quantity intent, su_limit_price = oi_limit_price intent,
     su_time_in_force = oi_time_in_force intent,
     su_legs = map (\<lambda>l. \<lparr> sl_symbol = il_symbol l, sl_side = il_side l, sl_ratio = il_ratio l \<rparr>)
       (oi_legs intent) \<rparr>"

definition submission_dto :: "order_intent \<Rightarrow> order_submission result" where
  "submission_dto intent =
     rbind (rmap (\<lambda>l. validated submission_leg_valid ''SubmissionLeg''
       \<lparr> sl_symbol = il_symbol l, sl_side = il_side l, sl_ratio = il_ratio l \<rparr>) (oi_legs intent)) (\<lambda>_.
     validated order_submission_valid ''OrderSubmission'' (submission_of intent))"

record 's exec_world =
  xw_store :: 's
  xw_submissions :: "order_submission list"

definition duplicate_of :: "order_intent \<Rightarrow> py_error" where
  "duplicate_of intent =
     DuplicateSubmission (''Intent '' @ oi_client_order_id intent @ '' was already submitted'')"

text \<open>\<open>except Exception: set SUBMISSION_UNCERTAIN; raise\<close>, or \<open>ACCEPTED\<close> and the order.\<close>

definition settle ::
  "(string \<Rightarrow> execution_state \<Rightarrow> 's \<Rightarrow> 's result) \<Rightarrow> order_intent \<Rightarrow> broker_order result \<Rightarrow> 's exec_world \<Rightarrow>
   broker_order result \<times> 's exec_world"
where
  "settle set_state intent reply w =
     (case set_state (oi_client_order_id intent)
         (case reply of Inl e \<Rightarrow> SUBMISSION_UNCERTAIN | Inr order \<Rightarrow> ACCEPTED) (xw_store w) of
       Inl e \<Rightarrow> (Inl e, w)
     | Inr s \<Rightarrow> (reply, w\<lparr>xw_store := s\<rparr>))"

definition execute ::
  "(order_intent \<Rightarrow> 's \<Rightarrow> (bool \<times> 's) result) \<Rightarrow> (string \<Rightarrow> execution_state \<Rightarrow> 's \<Rightarrow> 's result) \<Rightarrow>
   (bool \<times> string) option \<Rightarrow> (order_submission \<Rightarrow> broker_order result) \<Rightarrow> order_intent \<Rightarrow> 's exec_world \<Rightarrow>
   broker_order result \<times> 's exec_world"
where
  "execute reserve set_state preflight submit intent w =
     (case preflight of
       Some (False, reason) \<Rightarrow> (Inl (ExecutionBlocked reason), w)
     | _ \<Rightarrow>
       (case reserve intent (xw_store w) of
         Inl e \<Rightarrow> (Inl e, w)
       | Inr (False, s) \<Rightarrow> (Inl (duplicate_of intent), w\<lparr>xw_store := s\<rparr>)
       | Inr (True, s) \<Rightarrow>
         (case submission_dto intent of
           Inl e \<Rightarrow> (Inl e, w\<lparr>xw_store := s\<rparr>)
         | Inr submission \<Rightarrow> settle set_state intent (submit submission)
             (w\<lparr>xw_store := s, xw_submissions := xw_submissions w @ [submission]\<rparr>))))"

definition reconcile_uncertain ::
  "(string \<Rightarrow> 's \<Rightarrow> execution_state option) \<Rightarrow> (string \<Rightarrow> execution_state \<Rightarrow> 's \<Rightarrow> 's result) \<Rightarrow>
   (string \<Rightarrow> broker_order option result) \<Rightarrow> order_intent \<Rightarrow> 's exec_world \<Rightarrow>
   broker_order option result \<times> 's exec_world"
where
  "reconcile_uncertain get_state set_state get_order intent w =
     (if get_state (oi_client_order_id intent) (xw_store w) \<noteq> Some SUBMISSION_UNCERTAIN
      then (Inl (ValueError ''Only uncertain submissions may be reconciled''), w)
      else case get_order (oi_client_order_id intent) of
          Inl e \<Rightarrow> (Inl e, w)
        | Inr None \<Rightarrow> (Inr None, w)
        | Inr (Some order) \<Rightarrow>
            (case set_state (oi_client_order_id intent) ACCEPTED (xw_store w) of
              Inl e \<Rightarrow> (Inl e, w)
            | Inr s \<Rightarrow> (Inr (Some order), w\<lparr>xw_store := s\<rparr>)))"

lemma submission_dto_valid:
  assumes "order_intent_valid sha i"
  shows "submission_dto i = Inr (submission_of i)"
proof -
  have "rmap (\<lambda>l. validated submission_leg_valid ''SubmissionLeg''
      \<lparr> sl_symbol = il_symbol l, sl_side = il_side l, sl_ratio = il_ratio l \<rparr>) (oi_legs i) =
    Inr (map (\<lambda>l. \<lparr> sl_symbol = il_symbol l, sl_side = il_side l, sl_ratio = il_ratio l \<rparr>) (oi_legs i))"
    using assms by (intro rmap_total)
      (auto simp: order_intent_valid_def intent_leg_valid_def submission_leg_valid_def list_all_iff)
  with assms show ?thesis
    by (simp add: submission_dto_def submission_of_def order_submission_valid_def order_intent_valid_def
        list_all_iff submission_leg_valid_def intent_leg_valid_def)
qed

lemma submission_dto_Inr: "submission_dto i = Inr s \<Longrightarrow> s = submission_of i"
  by (auto simp: submission_dto_def guard_simps)

lemma submission_of_id [simp]: "su_client_order_id (submission_of i) = oi_client_order_id i"
  by (simp add: submission_of_def)

section \<open>What a store of intents promises\<close>

text \<open>
  The contract behind the protocol \<open>IntentStore\<close>: reserving succeeds exactly for an unknown client
  order id and makes it known, a known id can be updated, each operation touches one id only, and
  the representation invariant is kept.
\<close>

locale intent_store =
  fixes reserve :: "instant \<Rightarrow> order_intent \<Rightarrow> 's \<Rightarrow> (bool \<times> 's) result"
    and set_state :: "instant \<Rightarrow> string \<Rightarrow> execution_state \<Rightarrow> 's \<Rightarrow> 's result"
    and get_state :: "string \<Rightarrow> 's \<Rightarrow> execution_state option"
    and inv :: "'s \<Rightarrow> bool"
  assumes reserve_known: "inv s \<Longrightarrow> get_state (oi_client_order_id i) s \<noteq> None \<Longrightarrow>
      reserve now i s = Inr (False, s)"
    and reserve_new: "inv s \<Longrightarrow> get_state (oi_client_order_id i) s = None \<Longrightarrow>
      reserve now i s = Inr (b, s') \<Longrightarrow>
      b \<and> inv s' \<and> get_state k s' =
        (if k = oi_client_order_id i then Some SUBMISSION_STARTED else get_state k s)"
    and set_known: "inv s \<Longrightarrow> get_state k s \<noteq> None \<Longrightarrow> \<exists>s'. set_state now k st s = Inr s'"
    and set_effect: "inv s \<Longrightarrow> get_state k s \<noteq> None \<Longrightarrow> set_state now k st s = Inr s' \<Longrightarrow>
      inv s' \<and> get_state j s' = (if j = k then Some st else get_state j s)"
begin

lemma reserve_Inr:
  assumes "inv s" and "reserve now i s = Inr (b, s')"
  shows "inv s' \<and> (b \<longleftrightarrow> get_state (oi_client_order_id i) s = None) \<and>
    (b \<longrightarrow> get_state (oi_client_order_id i) s' = Some SUBMISSION_STARTED) \<and> (\<not> b \<longrightarrow> s' = s) \<and>
    (\<forall>k. k \<noteq> oi_client_order_id i \<longrightarrow> get_state k s' = get_state k s)"
proof (cases "get_state (oi_client_order_id i) s = None")
  case True
  then show ?thesis using reserve_new [OF assms(1) True assms(2)] by simp
next
  case False
  then show ?thesis using reserve_known [OF assms(1)] assms by simp
qed

lemma reserve_mono: "inv s \<Longrightarrow> reserve now i s = Inr (b, s') \<Longrightarrow> get_state k s \<noteq> None \<Longrightarrow> get_state k s' \<noteq> None"
  using reserve_Inr [of s now i b s'] by (cases "k = oi_client_order_id i") auto

lemma settle_effect:
  assumes "inv (xw_store w)" and "get_state (oi_client_order_id i) (xw_store w) \<noteq> None"
  shows "\<exists>s. settle (set_state now) i reply w = (reply, w\<lparr>xw_store := s\<rparr>) \<and> inv s \<and>
    get_state k s = (if k = oi_client_order_id i then
      Some (case reply of Inl e \<Rightarrow> SUBMISSION_UNCERTAIN | Inr order \<Rightarrow> ACCEPTED)
      else get_state k (xw_store w))"
proof -
  let ?st = "case reply of Inl e \<Rightarrow> SUBMISSION_UNCERTAIN | Inr order \<Rightarrow> ACCEPTED"
  obtain s where s: "set_state now (oi_client_order_id i) ?st (xw_store w) = Inr s"
    using set_known [OF assms] by blast
  then show ?thesis using set_effect [OF assms s] by (auto simp: settle_def)
qed

end

interpretation mem: intent_store mem_reserve mem_set_state mem_get_state "\<lambda>_. True"
  by unfold_locales (auto simp: mem_reserve_def mem_set_state_def mem_get_state_def split: if_splits)

text \<open>The unique constraint of the table, and the lookup as the map from client order id to state.\<close>

definition intents_unique :: "order_intent_row list \<Rightarrow> bool" where
  "intents_unique rows \<longleftrightarrow> distinct (map (\<lambda>r. (ir_workspace_id r, ir_client_order_id r)) rows)"

lemma owns_update [simp]:
  "owns ws k (r\<lparr>ir_state := st, ir_updated_at := now\<rparr>) = owns ws k r"
  by (simp add: owns_def)

lemma pg_get_None: "pg_get_state ws k rows = None \<longleftrightarrow> \<not> list_ex (owns ws k) rows"
  by (auto simp: pg_get_state_def find_None_iff list_ex_iff)

lemma pg_get_append:
  "pg_get_state ws k (rows @ [r]) = (if list_ex (owns ws k) rows then pg_get_state ws k rows
     else if owns ws k r then Some (ir_state r) else None)"
  by (induction rows) (auto simp: pg_get_state_def)

lemma pg_get_set_other:
  assumes "j \<noteq> k"
  shows "pg_get_state ws j (map (\<lambda>r. if owns ws k r then r\<lparr>ir_state := st, ir_updated_at := now\<rparr> else r) rows)
    = pg_get_state ws j rows"
proof -
  have "owns ws k r \<Longrightarrow> \<not> owns ws j r" for r using assms by (simp add: owns_def)
  then show ?thesis by (induction rows) (simp_all add: pg_get_state_def)
qed

lemma pg_get_set_same:
  assumes "list_ex (owns ws k) rows"
  shows "pg_get_state ws k (map (\<lambda>r. if owns ws k r then r\<lparr>ir_state := st, ir_updated_at := now\<rparr> else r) rows)
    = Some st"
  using assms by (induction rows) (auto simp: pg_get_state_def)

lemma intents_unique_snoc:
  assumes "intents_unique rows" and "\<not> list_ex (owns (ir_workspace_id r) (ir_client_order_id r)) rows"
  shows "intents_unique (rows @ [r])"
  using assms by (auto simp: intents_unique_def owns_def list_ex_iff)

lemma intents_unique_set:
  "intents_unique (map (\<lambda>r. if P r then r\<lparr>ir_state := st, ir_updated_at := now\<rparr> else r) rows)
    = intents_unique rows"
proof -
  have "(\<lambda>r. (ir_workspace_id r, ir_client_order_id r)) \<circ>
      (\<lambda>r. if P r then r\<lparr>ir_state := st, ir_updated_at := now\<rparr> else r) =
      (\<lambda>r. (ir_workspace_id r, ir_client_order_id r))"
    by auto
  then show ?thesis by (simp add: intents_unique_def)
qed

interpretation pg: intent_store "pg_reserve ws" "pg_set_state ws" "pg_get_state ws" intents_unique for ws
proof unfold_locales
  fix s i now b s' k st j
  show "intents_unique s \<Longrightarrow> pg_get_state ws (oi_client_order_id i) s \<noteq> None \<Longrightarrow>
      pg_reserve ws now i s = Inr (False, s)"
    by (simp add: pg_get_None pg_reserve_def)
  show "b \<and> intents_unique s' \<and> pg_get_state ws k s' =
      (if k = oi_client_order_id i then Some SUBMISSION_STARTED else pg_get_state ws k s)"
    if uniq: "intents_unique s" and new: "pg_get_state ws (oi_client_order_id i) s = None"
      and res: "pg_reserve ws now i s = Inr (b, s')"
  proof -
    have fresh: "\<not> list_ex (owns ws (oi_client_order_id i)) s" using new by (simp add: pg_get_None)
    obtain r where s': "s' = s @ [r]" "b" and r: "ir_workspace_id r = ws"
      "ir_client_order_id r = oi_client_order_id i" "ir_state r = SUBMISSION_STARTED"
      using res fresh by (auto simp: pg_reserve_def split: if_splits)
    have "owns ws k r \<longleftrightarrow> k = oi_client_order_id i" using r by (auto simp: owns_def)
    then show ?thesis
      using s' r fresh uniq intents_unique_snoc [of s r] pg_get_None [of ws k s]
      by (auto simp: pg_get_append)
  qed
  show "\<exists>s'. pg_set_state ws now k st s = Inr s'" if "pg_get_state ws k s \<noteq> None"
    using that by (simp add: pg_get_None pg_set_state_def)
  show "intents_unique s' \<and> pg_get_state ws j s' = (if j = k then Some st else pg_get_state ws j s)"
    if "intents_unique s" "pg_get_state ws k s \<noteq> None" "pg_set_state ws now k st s = Inr s'"
    using that by (auto simp: pg_get_None pg_set_state_def pg_get_set_same pg_get_set_other
        intents_unique_set)
qed

end
