(* ===== verification/Execution_Steps.thy ===== *)
theory Execution_Steps
  imports Execution
begin

text \<open>
  Concurrent runs of the engine.  Each call of \<open>execute\<close> or \<open>reconcile_uncertain\<close> is a task; tasks
  interleave at every \<open>await\<close>, that is between the check of the guardian, the reservation, the
  submission, the broker's reply and the update of the state, and a task may be cancelled (or its
  process may stop) between any two of its steps.  The broker's replies are arbitrary.
\<close>

section \<open>Tasks and steps\<close>

datatype task =
    Begin order_intent
  | Checked order_intent
  | Reserved order_intent order_submission
  | Replied order_intent "broker_order result"
  | Finished order_intent "broker_order result"
  | Looking order_intent
  | Found order_intent broker_order
  | Stopped order_intent

fun intent_of :: "task \<Rightarrow> order_intent" where
  "intent_of (Begin i) = i"
| "intent_of (Checked i) = i"
| "intent_of (Reserved i _) = i"
| "intent_of (Replied i _) = i"
| "intent_of (Finished i _) = i"
| "intent_of (Looking i) = i"
| "intent_of (Found i _) = i"
| "intent_of (Stopped i) = i"

record 's exec_system =
  xs_store :: 's
  xs_submissions :: "order_submission list"
  xs_tasks :: "task list"

text \<open>
  One step of a task against the store and the broker.  \<open>now\<close> is the time of the step.
\<close>

inductive task_step ::
  "(instant \<Rightarrow> order_intent \<Rightarrow> 's \<Rightarrow> (bool \<times> 's) result) \<Rightarrow>
   (instant \<Rightarrow> string \<Rightarrow> execution_state \<Rightarrow> 's \<Rightarrow> 's result) \<Rightarrow>
   (string \<Rightarrow> 's \<Rightarrow> execution_state option) \<Rightarrow>
   task \<times> 's \<times> order_submission list \<Rightarrow> task \<times> 's \<times> order_submission list \<Rightarrow> bool"
  for reserve set_state get_state
where
  check_passed: "task_step reserve set_state get_state (Begin i, s, l) (Checked i, s, l)"
| check_blocked: "task_step reserve set_state get_state (Begin i, s, l)
    (Finished i (Inl (ExecutionBlocked reason)), s, l)"
| reserve_raises: "reserve now i s = Inl e \<Longrightarrow>
    task_step reserve set_state get_state (Checked i, s, l) (Finished i (Inl e), s, l)"
| reserve_duplicate: "reserve now i s = Inr (False, s') \<Longrightarrow>
    task_step reserve set_state get_state (Checked i, s, l) (Finished i (Inl (duplicate_of i)), s', l)"
| reserve_rejected: "reserve now i s = Inr (True, s') \<Longrightarrow> submission_dto i = Inl e \<Longrightarrow>
    task_step reserve set_state get_state (Checked i, s, l) (Finished i (Inl e), s', l)"
| reserve_new: "reserve now i s = Inr (True, s') \<Longrightarrow> submission_dto i = Inr sub \<Longrightarrow>
    task_step reserve set_state get_state (Checked i, s, l) (Reserved i sub, s', l)"
| submit: "task_step reserve set_state get_state (Reserved i sub, s, l) (Replied i reply, s, l @ [sub])"
| settle_raises: "set_state now (oi_client_order_id i)
      (case reply of Inl e \<Rightarrow> SUBMISSION_UNCERTAIN | Inr order \<Rightarrow> ACCEPTED) s = Inl e \<Longrightarrow>
    task_step reserve set_state get_state (Replied i reply, s, l) (Finished i (Inl e), s, l)"
| settle: "set_state now (oi_client_order_id i)
      (case reply of Inl e \<Rightarrow> SUBMISSION_UNCERTAIN | Inr order \<Rightarrow> ACCEPTED) s = Inr s' \<Longrightarrow>
    task_step reserve set_state get_state (Replied i reply, s, l) (Finished i reply, s', l)"
| look: "get_state (oi_client_order_id i) s = Some SUBMISSION_UNCERTAIN \<Longrightarrow>
    task_step reserve set_state get_state (Looking i, s, l) (Found i order, s, l)"
| look_nothing: "task_step reserve set_state get_state (Looking i, s, l) (Stopped i, s, l)"
| accept: "set_state now (oi_client_order_id i) ACCEPTED s = Inr s' \<Longrightarrow>
    task_step reserve set_state get_state (Found i order, s, l) (Finished i (Inr order), s', l)"
| cancel: "task_step reserve set_state get_state (t, s, l) (Stopped (intent_of t), s, l)"

inductive system_step ::
  "(instant \<Rightarrow> order_intent \<Rightarrow> 's \<Rightarrow> (bool \<times> 's) result) \<Rightarrow>
   (instant \<Rightarrow> string \<Rightarrow> execution_state \<Rightarrow> 's \<Rightarrow> 's result) \<Rightarrow>
   (string \<Rightarrow> 's \<Rightarrow> execution_state option) \<Rightarrow> 's exec_system \<Rightarrow> 's exec_system \<Rightarrow> bool"
  for reserve set_state get_state
where
  run: "k < length (xs_tasks \<sigma>) \<Longrightarrow>
    task_step reserve set_state get_state (xs_tasks \<sigma> ! k, xs_store \<sigma>, xs_submissions \<sigma>) (t', s', l') \<Longrightarrow>
    system_step reserve set_state get_state \<sigma>
      \<lparr> xs_store = s', xs_submissions = l', xs_tasks = (xs_tasks \<sigma>)[k := t'] \<rparr>"
| start: "t = Begin i \<or> t = Looking i \<Longrightarrow>
    system_step reserve set_state get_state \<sigma> (\<sigma>\<lparr>xs_tasks := xs_tasks \<sigma> @ [t]\<rparr>)"


section \<open>At most once\<close>

text \<open>
  Tickets for the client order id \<open>c\<close>: the submissions the broker received and the reservations
  that have not been submitted yet.
\<close>

definition holds :: "string \<Rightarrow> task \<Rightarrow> bool" where
  "holds c t \<longleftrightarrow> (case t of Reserved i sub \<Rightarrow> oi_client_order_id i = c | _ \<Rightarrow> False)"

definition sent :: "string \<Rightarrow> order_submission list \<Rightarrow> nat" where
  "sent c l = length (filter (\<lambda>s. su_client_order_id s = c) l)"

definition tickets :: "string \<Rightarrow> 's exec_system \<Rightarrow> nat" where
  "tickets c \<sigma> = sent c (xs_submissions \<sigma>) + length (filter (holds c) (xs_tasks \<sigma>))"

text \<open>A task that has reserved, or looks after an uncertain order, acts on a known id.\<close>

definition task_ok :: "(string \<Rightarrow> 's \<Rightarrow> execution_state option) \<Rightarrow> 's \<Rightarrow> task \<Rightarrow> bool" where
  "task_ok get_state s t = (case t of
      Reserved i sub \<Rightarrow> sub = submission_of i \<and> get_state (oi_client_order_id i) s \<noteq> None
    | Replied i r \<Rightarrow> get_state (oi_client_order_id i) s \<noteq> None
    | Found i order \<Rightarrow> get_state (oi_client_order_id i) s \<noteq> None
    | _ \<Rightarrow> True)"

text \<open>\<open>s0\<close> is the store at the start: an id known there has used its ticket.\<close>

definition known :: "(string \<Rightarrow> 's \<Rightarrow> execution_state option) \<Rightarrow> string \<Rightarrow> 's \<Rightarrow> nat" where
  "known get_state c s = (if get_state c s = None then 0 else 1)"

definition safe ::
  "(string \<Rightarrow> 's \<Rightarrow> execution_state option) \<Rightarrow> ('s \<Rightarrow> bool) \<Rightarrow> 's \<Rightarrow> 's exec_system \<Rightarrow> bool" where
  "safe get_state wf_store s0 \<sigma> \<longleftrightarrow>
     wf_store (xs_store \<sigma>) \<and> list_all (task_ok get_state (xs_store \<sigma>)) (xs_tasks \<sigma>) \<and>
     (\<forall>c. tickets c \<sigma> + known get_state c s0 \<le> known get_state c (xs_store \<sigma>))"

lemma filter_update:
  assumes "k < length xs"
  shows "length (filter P (xs[k := x])) + (if P (xs ! k) then 1 else 0) =
    length (filter P xs) + (if P x then 1 else 0)"
  using assms
proof (induction xs arbitrary: k)
  case Nil
  then show ?case by simp
next
  case (Cons y ys)
  then show ?case by (cases k) auto
qed

lemma tickets_update:
  assumes "k < length (xs_tasks \<sigma>)"
  shows "tickets c \<lparr> xs_store = s, xs_submissions = l, xs_tasks = (xs_tasks \<sigma>)[k := t] \<rparr>
      + sent c (xs_submissions \<sigma>) + (if holds c (xs_tasks \<sigma> ! k) then 1 else 0) =
    tickets c \<sigma> + sent c l + (if holds c t then 1 else 0)"
  using filter_update [OF assms, of "holds c" t] by (simp add: tickets_def)

lemma sent_snoc: "sent c (l @ [s]) = sent c l + (if su_client_order_id s = c then 1 else 0)"
  by (simp add: sent_def)

lemma holds_simps [simp]:
  "holds c (Begin i) = False" "holds c (Checked i) = False" "holds c (Replied i r) = False"
  "holds c (Finished i r) = False" "holds c (Looking i) = False" "holds c (Found i b) = False"
  "holds c (Stopped i) = False" "holds c (Reserved i sub) \<longleftrightarrow> oi_client_order_id i = c"
  by (simp_all add: holds_def)

context intent_store
begin

lemma task_ok_mono:
  assumes "task_ok get_state s t" and "\<And>k. get_state k s \<noteq> None \<Longrightarrow> get_state k s' \<noteq> None"
  shows "task_ok get_state s' t"
  using assms by (cases t) (auto simp: task_ok_def known_def)

text \<open>What one step of a task does to the store, the submissions and its own tickets.\<close>

lemma task_step_effect:
  assumes "task_step reserve set_state get_state (t, s, l) (t', s', l')"
    and "inv s" and "task_ok get_state s t"
  shows "inv s' \<and> task_ok get_state s' t' \<and> (\<forall>k. get_state k s \<noteq> None \<longrightarrow> get_state k s' \<noteq> None) \<and>
    (\<forall>c. sent c l' + (if holds c t' then 1 else 0) + known get_state c s \<le>
         sent c l + (if holds c t then 1 else 0) + known get_state c s')"
  using assms
proof cases
  case (reserve_duplicate now i)
  with assms(2) show ?thesis using reserve_Inr [OF assms(2) reserve_duplicate(4)] by (simp add: task_ok_def known_def)
next
  case (reserve_rejected now i e)
  with assms(2) show ?thesis
    using reserve_Inr [OF assms(2) reserve_rejected(4)] reserve_mono [OF assms(2) reserve_rejected(4)]
    by (auto simp: task_ok_def known_def known_def)
next
  case (reserve_new now i sub)
  then show ?thesis
    using reserve_Inr [OF assms(2) reserve_new(4)] reserve_mono [OF assms(2) reserve_new(4)] submission_dto_Inr
    by (auto simp: task_ok_def known_def known_def)
next
  case (submit i sub reply)
  with assms(2,3) show ?thesis by (auto simp: task_ok_def known_def known_def sent_snoc)
next
  case (settle now i reply)
  have k: "get_state (oi_client_order_id i) s \<noteq> None" using assms(3) settle(1) by (simp add: task_ok_def)
  show ?thesis using set_effect [OF assms(2) k settle(4)] settle k by (auto simp: task_ok_def known_def known_def)
next
  case (accept now i order)
  have k: "get_state (oi_client_order_id i) s \<noteq> None" using assms(3) accept(1) by (simp add: task_ok_def)
  show ?thesis using set_effect [OF assms(2) k accept(4)] accept k by (auto simp: task_ok_def known_def known_def)
qed (auto simp: task_ok_def known_def)

lemma safe_step:
  assumes "system_step reserve set_state get_state \<sigma> \<tau>" and "safe get_state inv s0 \<sigma>"
  shows "safe get_state inv s0 \<tau>"
  using assms(1)
proof cases
  case (start t i)
  then have "\<not> holds c t" for c by auto
  with start assms(2) show ?thesis by (auto simp: safe_def tickets_def task_ok_def)
next
  case (run k t' s' l')
  have ok: "inv (xs_store \<sigma>)" "task_ok get_state (xs_store \<sigma>) (xs_tasks \<sigma> ! k)"
    using assms(2) run(2) by (auto simp: safe_def list_all_length)
  note eff = task_step_effect [OF run(3) ok]
  have "list_all (task_ok get_state s') (xs_tasks \<sigma>)"
    using assms(2) eff task_ok_mono by (fastforce simp: safe_def list_all_iff)
  then have tasks: "list_all (task_ok get_state s') ((xs_tasks \<sigma>)[k := t'])"
    using eff set_update_subset_insert [of "xs_tasks \<sigma>" k t'] by (auto simp: list_all_iff)
  have "tickets c \<tau> + known get_state c s0 \<le> known get_state c s'" for c
  proof -
    have "tickets c \<sigma> + known get_state c s0 \<le> known get_state c (xs_store \<sigma>)"
      using assms(2) by (simp add: safe_def)
    moreover have "sent c l' + (if holds c t' then 1 else 0) + known get_state c (xs_store \<sigma>) \<le>
        sent c (xs_submissions \<sigma>) + (if holds c (xs_tasks \<sigma> ! k) then 1 else 0) +
        known get_state c s'"
      using eff by blast
    moreover note tickets_update [OF run(2), of c s' l' t']
    ultimately show ?thesis unfolding run(1) by linarith
  qed
  with eff tasks show ?thesis by (simp add: safe_def run(1))
qed

lemma safe_reachable:
  assumes "(system_step reserve set_state get_state)\<^sup>*\<^sup>* \<sigma> \<tau>" and "safe get_state inv s0 \<sigma>"
  shows "safe get_state inv s0 \<tau>"
  using assms by (induction rule: rtranclp_induct) (auto intro: safe_step)

lemma safe_start:
  assumes "inv s0"
  shows "safe get_state inv s0 \<lparr> xs_store = s0, xs_submissions = [], xs_tasks = [] \<rparr>"
  using assms by (simp add: safe_def tickets_def sent_def)

lemma at_most_once:
  assumes "(system_step reserve set_state get_state)\<^sup>*\<^sup>*
      \<lparr> xs_store = s0, xs_submissions = [], xs_tasks = [] \<rparr> \<tau>"
    and "inv s0"
  shows "sent c (xs_submissions \<tau>) \<le> 1 \<and>
    (0 < sent c (xs_submissions \<tau>) \<longrightarrow> get_state c s0 = None \<and> get_state c (xs_store \<tau>) \<noteq> None)"
proof -
  have "tickets c \<tau> + known get_state c s0 \<le> known get_state c (xs_store \<tau>)"
    using safe_reachable [OF assms(1) safe_start [OF assms(2)]] by (simp add: safe_def)
  then show ?thesis by (auto simp: tickets_def known_def split: if_splits)
qed

end

end
