(* ===== verification/Execution_Properties.thy ===== *)
theory Execution_Properties
  imports Execution_Steps
begin

text \<open>
  What the execution service promises: the outcome of every call, at most one submission per
  client order id under any interleaving, the recovery of uncertain submissions, and the agreement
  of the database-backed store with the in-memory one inside one workspace.
\<close>

section \<open>Facts about one call\<close>

context intent_store
begin

lemma execute_known:
  assumes "inv (xw_store w)" and "get_state (oi_client_order_id i) (xw_store w) \<noteq> None"
    and "\<forall>reason. pre \<noteq> Some (False, reason)"
  shows "execute (reserve now) (set_state now) pre submit i w = (Inl (duplicate_of i), w)"
  using assms(3) reserve_known [OF assms(1,2), of now]
  by (auto simp: execute_def split: option.splits prod.splits bool.splits)

lemma execute_new:
  assumes "inv (xw_store w)" and "get_state (oi_client_order_id i) (xw_store w) = None"
    and "\<forall>reason. pre \<noteq> Some (False, reason)" and "order_intent_valid sha i"
    and "is_ok (reserve now i (xw_store w))"
  shows "\<exists>s. execute (reserve now) (set_state now) pre submit i w =
      (submit (submission_of i), \<lparr> xw_store = s, xw_submissions = xw_submissions w @ [submission_of i] \<rparr>) \<and>
    inv s \<and> (\<forall>k. get_state k s = (if k = oi_client_order_id i
      then Some (case submit (submission_of i) of Inl e \<Rightarrow> SUBMISSION_UNCERTAIN | Inr order \<Rightarrow> ACCEPTED)
      else get_state k (xw_store w)))"
proof -
  obtain s1 where r: "reserve now i (xw_store w) = Inr (True, s1)"
  proof -
    obtain b s1 where r: "reserve now i (xw_store w) = Inr (b, s1)" using assms(5) by (auto simp: is_ok_iff)
    with reserve_new [OF assms(1,2) r] show thesis by (intro that [of s1]) simp
  qed
  have s1: "inv s1" "\<And>k. get_state k s1 =
      (if k = oi_client_order_id i then Some SUBMISSION_STARTED else get_state k (xw_store w))"
    using reserve_new [OF assms(1,2) r] by auto
  let ?w = "w\<lparr>xw_store := s1, xw_submissions := xw_submissions w @ [submission_of i]\<rparr>"
  have run: "execute (reserve now) (set_state now) pre submit i w =
      settle (set_state now) i (submit (submission_of i)) ?w"
    using assms(3) r submission_dto_valid [OF assms(4)]
    by (auto simp: execute_def split: option.splits prod.splits bool.splits)
  have "inv (xw_store ?w)" "get_state (oi_client_order_id i) (xw_store ?w) \<noteq> None" using s1 by auto
  note k = set_known [OF this] and e = set_effect [OF this]
  let ?st = "case submit (submission_of i) of Inl e \<Rightarrow> SUBMISSION_UNCERTAIN | Inr order \<Rightarrow> ACCEPTED"
  obtain s where s: "set_state now (oi_client_order_id i) ?st s1 = Inr s"
    using k by fastforce
  have "settle (set_state now) i (submit (submission_of i)) ?w = (submit (submission_of i), ?w\<lparr>xw_store := s\<rparr>)"
    using s by (simp add: settle_def)
  moreover have "inv s \<and> get_state j s = (if j = oi_client_order_id i then Some ?st else get_state j s1)" for j
    using e s by simp
  moreover have "?w\<lparr>xw_store := s\<rparr> = \<lparr> xw_store = s, xw_submissions = xw_submissions w @ [submission_of i] \<rparr>"
    by (cases w) simp
  ultimately show ?thesis unfolding run using s1(2) by auto
qed

end

lemma execute_blocked:
  "execute reserve set_state (Some (False, reason)) submit i w = (Inl (ExecutionBlocked reason), w)"
  by (simp add: execute_def)

lemma settle_step:
  assumes "settle (set_state now) i reply w = (r, w')"
  shows "task_step reserve set_state get_state (Replied i reply, xw_store w, xw_submissions w)
    (Finished i r, xw_store w', xw_submissions w')"
proof (cases "set_state now (oi_client_order_id i)
    (case reply of Inl e \<Rightarrow> SUBMISSION_UNCERTAIN | Inr order \<Rightarrow> ACCEPTED) (xw_store w)")
  case (Inl e)
  with assms have "r = Inl e" "w' = w" by (simp_all add: settle_def)
  with Inl show ?thesis by (auto intro: settle_raises)
next
  case (Inr s)
  with assms have "r = reply" "w' = w\<lparr>xw_store := s\<rparr>" by (simp_all add: settle_def)
  with Inr show ?thesis by (auto intro: task_step.settle)
qed

text \<open>A call of \<open>execute\<close> on its own is a run of the steps of its task.\<close>

lemma execute_steps:
  assumes "execute (reserve now) (set_state now) pre submit i w = (r, w')"
  shows "(task_step reserve set_state get_state)\<^sup>*\<^sup>*
    (Begin i, xw_store w, xw_submissions w) (Finished i r, xw_store w', xw_submissions w')"
proof (cases "\<exists>reason. pre = Some (False, reason)")
  case True
  then obtain reason where "r = Inl (ExecutionBlocked reason)" "w' = w"
    using assms by (auto simp: execute_def)
  then show ?thesis by (auto intro: converse_rtranclp_into_rtranclp check_blocked)
next
  case False
  let ?s = "xw_store w" and ?l = "xw_submissions w"
  let ?go = "\<lambda>a b. (task_step reserve set_state get_state)\<^sup>*\<^sup>* a b"
  have checked: "?go (Begin i, ?s, ?l) (Checked i, ?s, ?l)" by (rule r_into_rtranclp) (rule check_passed)
  note step = rtranclp.rtrancl_into_rtrancl [OF checked]
  have run: "execute (reserve now) (set_state now) None submit i w = (r, w')"
    using assms False by (auto simp: execute_def split: option.splits prod.splits bool.splits)
  show ?thesis
  proof (cases "reserve now i ?s")
    case (Inl e)
    with run have "r = Inl e" "w' = w" by (simp_all add: execute_def)
    with Inl show ?thesis by (auto intro: step reserve_raises)
  next
    case (Inr p)
    obtain b s where p: "p = (b, s)" by fastforce
    show ?thesis
    proof (cases b)
      case False
      have dup: "reserve now i ?s = Inr (False, s)" using Inr p False by simp
      with run have "r = Inl (duplicate_of i)" "w' = w\<lparr>xw_store := s\<rparr>" by (simp_all add: execute_def)
      with dup show ?thesis by (auto intro: step reserve_duplicate)
    next
      case True
      have new: "reserve now i ?s = Inr (True, s)" using Inr p True by simp
      show ?thesis
      proof (cases "submission_dto i")
        case (Inl e)
        with run new have "r = Inl e" "w' = w\<lparr>xw_store := s\<rparr>" by (simp_all add: execute_def)
        with new Inl show ?thesis by (auto intro: step reserve_rejected)
      next
        case (Inr sub)
        let ?w = "w\<lparr>xw_store := s, xw_submissions := ?l @ [sub]\<rparr>"
        have replied: "?go (Begin i, ?s, ?l) (Replied i (submit sub), s, ?l @ [sub])"
          by (rule rtranclp.rtrancl_into_rtrancl [OF step])
            (auto intro: reserve_new [where reserve = reserve, OF new Inr] task_step.submit)
        have "settle (set_state now) i (submit sub) ?w = (r, w')"
          using run new Inr by (simp add: execute_def)
        then have "task_step reserve set_state get_state (Replied i (submit sub), xw_store ?w, xw_submissions ?w)
            (Finished i r, xw_store w', xw_submissions w')"
          by (rule settle_step)
        then have "task_step reserve set_state get_state (Replied i (submit sub), s, ?l @ [sub])
            (Finished i r, xw_store w', xw_submissions w')" by simp
        with replied show ?thesis by (rule rtranclp.rtrancl_into_rtrancl)
      qed
    qed
  qed
qed

lemma task_steps_system:
  assumes "(task_step reserve set_state get_state)\<^sup>*\<^sup>* (t, s, l) (t', s', l')"
    and "k < length ts" and "ts ! k = t"
  shows "(system_step reserve set_state get_state)\<^sup>*\<^sup>*
    \<lparr> xs_store = s, xs_submissions = l, xs_tasks = ts \<rparr>
    \<lparr> xs_store = s', xs_submissions = l', xs_tasks = ts[k := t'] \<rparr>"
  using assms(1)
proof (induction "(t', s', l')" arbitrary: t' s' l' rule: rtranclp_induct)
  case base
  then show ?case using assms(2,3) by (metis list_update_id rtranclp.rtrancl_refl prod.inject)
next
  case (step y)
  obtain u s1 l1 where y: "y = (u, s1, l1)" by (cases y)
  let ?a = "\<lparr> xs_store = s1, xs_submissions = l1, xs_tasks = ts[k := u] \<rparr>"
  have "system_step reserve set_state get_state ?a
      \<lparr> xs_store = s', xs_submissions = l', xs_tasks = (xs_tasks ?a)[k := t'] \<rparr>"
    using step.hyps(2) assms(2) y by (intro system_step.run) auto
  with step.hyps(3) [OF y] show ?case by (simp add: rtranclp.rtrancl_into_rtrancl)
qed

section \<open>Other workspaces\<close>

definition rows_of_others :: "uuid \<Rightarrow> order_intent_row list \<Rightarrow> order_intent_row list" where
  "rows_of_others ws rows = filter (\<lambda>r. ir_workspace_id r \<noteq> ws) rows"

lemma pg_reserve_others: "pg_reserve ws now i rows = Inr (b, rows') \<Longrightarrow>
    rows_of_others ws rows' = rows_of_others ws rows"
  by (auto simp: pg_reserve_def rows_of_others_def split: if_splits)

lemma pg_set_others: "pg_set_state ws now k st rows = Inr rows' \<Longrightarrow>
    rows_of_others ws rows' = rows_of_others ws rows"
  by (auto simp: pg_set_state_def rows_of_others_def owns_def intro!: filter_map_other split: if_splits)

lemma execute_others:
  assumes "execute (pg_reserve ws now) (pg_set_state ws now) pre submit i w = (r, w')"
  shows "rows_of_others ws (xw_store w') = rows_of_others ws (xw_store w)"
  using assms
  by (auto simp: execute_def settle_def pg_reserve_others pg_set_others
      split: option.splits sum.splits prod.splits bool.splits)

definition states_of :: "uuid \<Rightarrow> order_intent_row list \<Rightarrow> memory_intents" where
  "states_of ws rows = (\<lambda>k. pg_get_state ws k rows)"

lemma pg_reserve_ok: "\<forall>r \<in> set rows. ir_order_intent_id r \<noteq> oi_order_intent_id i \<Longrightarrow>
    is_ok (pg_reserve ws now i rows)"
  by (auto simp: pg_reserve_def list_ex_iff)

lemma new_run:
  assumes "intents_unique rows" and "order_intent_valid sha i"
    and "\<forall>r \<in> set rows. ir_order_intent_id r \<noteq> oi_order_intent_id i"
    and "\<forall>reason. pre \<noteq> Some (False, reason)" and "pg_get_state ws (oi_client_order_id i) rows = None"
    and "execute (pg_reserve ws now) (pg_set_state ws now) pre submit i
      \<lparr> xw_store = rows, xw_submissions = l \<rparr> = (r, w)"
  shows "r = submit (submission_of i) \<and> xw_submissions w = l @ [submission_of i] \<and>
    (\<forall>k. pg_get_state ws k (xw_store w) = (if k = oi_client_order_id i
      then Some (case r of Inl e \<Rightarrow> SUBMISSION_UNCERTAIN | Inr order \<Rightarrow> ACCEPTED)
      else pg_get_state ws k rows))"
proof -
  have "\<exists>s. execute (pg_reserve ws now) (pg_set_state ws now) pre submit i
      \<lparr> xw_store = rows, xw_submissions = l \<rparr> =
      (submit (submission_of i), \<lparr> xw_store = s, xw_submissions =
        xw_submissions \<lparr> xw_store = rows, xw_submissions = l \<rparr> @ [submission_of i] \<rparr>) \<and>
    intents_unique s \<and> (\<forall>k. pg_get_state ws k s = (if k = oi_client_order_id i
      then Some (case submit (submission_of i) of Inl e \<Rightarrow> SUBMISSION_UNCERTAIN | Inr order \<Rightarrow> ACCEPTED)
      else pg_get_state ws k (xw_store \<lparr> xw_store = rows, xw_submissions = l \<rparr>)))"
    by (rule pg.execute_new) (use assms pg_reserve_ok in simp_all)
  with assms(6) show ?thesis by auto
qed

section \<open>Properties\<close>

text \<open>C7. The outcome of a call of \<open>execute\<close> for a valid intent, with the database-backed store, whose table keeps
  its unique keys: when the guardian blocks, nothing happens but the exception; when the client order id is known in
  the workspace, the call raises \<open>DuplicateSubmission\<close> and neither the store nor the broker sees anything (so it
  is when the same stored intent is confirmed twice); when the id is new but the intent's own identifier is the key of
  another row, the insert raises \<open>IntegrityError\<close>, and again neither sees anything; otherwise the broker receives exactly the intent's order once, the caller gets the broker's reply, and the id is
  \<open>ACCEPTED\<close> or, after an exception, \<open>SUBMISSION_UNCERTAIN\<close>, with all other ids unchanged.\<close>

theorem execute_outcomes:
  assumes "intents_unique rows" and "order_intent_valid sha i"
    and "execute (pg_reserve ws now) (pg_set_state ws now) pre submit i
      \<lparr> xw_store = rows, xw_submissions = l \<rparr> = (r, w)"
  shows "(case pre of
      Some (False, reason) \<Rightarrow> r = Inl (ExecutionBlocked reason) \<and> xw_store w = rows \<and> xw_submissions w = l
    | _ \<Rightarrow>
      if pg_get_state ws (oi_client_order_id i) rows \<noteq> None
      then r = Inl (duplicate_of i) \<and> xw_store w = rows \<and> xw_submissions w = l
      else if oi_order_intent_id i \<in> ir_order_intent_id ` set rows
      then r = Inl (External ''IntegrityError'') \<and> xw_store w = rows \<and> xw_submissions w = l
      else r = submit (submission_of i) \<and> xw_submissions w = l @ [submission_of i] \<and>
        (\<forall>k. pg_get_state ws k (xw_store w) = (if k = oi_client_order_id i
          then Some (case r of Inl e \<Rightarrow> SUBMISSION_UNCERTAIN | Inr order \<Rightarrow> ACCEPTED)
          else pg_get_state ws k rows)))"
proof (cases "\<exists>reason. pre = Some (False, reason)")
  case True
  then show ?thesis using assms(3) by (auto simp: execute_blocked)
next
  case False
  let ?w = "\<lparr> xw_store = rows, xw_submissions = l \<rparr>"
  have free: "\<forall>reason. pre \<noteq> Some (False, reason)" using False by blast
  have "if pg_get_state ws (oi_client_order_id i) rows \<noteq> None
      then r = Inl (duplicate_of i) \<and> xw_store w = rows \<and> xw_submissions w = l
      else if oi_order_intent_id i \<in> ir_order_intent_id ` set rows
      then r = Inl (External ''IntegrityError'') \<and> xw_store w = rows \<and> xw_submissions w = l
      else r = submit (submission_of i) \<and> xw_submissions w = l @ [submission_of i] \<and>
        (\<forall>k. pg_get_state ws k (xw_store w) = (if k = oi_client_order_id i
          then Some (case r of Inl e \<Rightarrow> SUBMISSION_UNCERTAIN | Inr order \<Rightarrow> ACCEPTED)
          else pg_get_state ws k rows))"
  proof (cases "pg_get_state ws (oi_client_order_id i) rows = None")
    case False
    have "execute (pg_reserve ws now) (pg_set_state ws now) pre submit i ?w = (Inl (duplicate_of i), ?w)"
      by (rule pg.execute_known) (use assms(1) False free in simp_all)
    with assms(3) False show ?thesis by auto
  next
    case new: True
    show ?thesis
    proof (cases "oi_order_intent_id i \<in> ir_order_intent_id ` set rows")
      case True
      then have "pg_reserve ws now i rows = Inl (External ''IntegrityError'')"
        using new by (auto simp: pg_reserve_def pg_get_None list_ex_iff)
      then have "execute (pg_reserve ws now) (pg_set_state ws now) pre submit i ?w = (Inl (External ''IntegrityError''), ?w)"
        using free by (auto simp: execute_def split: option.splits prod.splits bool.splits)
      with assms(3) new True show ?thesis by auto
    next
      case False
      then have "\<forall>r \<in> set rows. ir_order_intent_id r \<noteq> oi_order_intent_id i" by force
      then show ?thesis using new_run [OF assms(1,2) _ free new assms(3)] new False by simp
    qed
  qed
  then show ?thesis using free by (auto split: option.splits prod.splits bool.splits)
qed

text \<open>C3. However the calls of \<open>execute\<close> and \<open>reconcile_uncertain\<close> of a workspace interleave, whatever
  the broker answers and wherever tasks are cancelled, the broker receives at most one submission for
  each client order id, none for an id that was in the table before, and every submitted id is in the
  table.\<close>

theorem broker_receives_at_most_once:
  assumes "(system_step (pg_reserve ws) (pg_set_state ws) (pg_get_state ws))\<^sup>*\<^sup>*
      \<lparr> xs_store = rows, xs_submissions = [], xs_tasks = [] \<rparr> \<sigma>"
    and "intents_unique rows"
  shows "sent c (xs_submissions \<sigma>) \<le> 1 \<and>
    (0 < sent c (xs_submissions \<sigma>) \<longrightarrow>
      pg_get_state ws c rows = None \<and> pg_get_state ws c (xs_store \<sigma>) \<noteq> None)"
  using assms by (rule pg.at_most_once)

text \<open>A call of \<open>execute\<close> on its own is one of the interleavings: its effect on the store, the
  broker and the caller is that of a run of the steps of its task.\<close>

theorem execute_is_a_run:
  assumes "execute (pg_reserve ws now) (pg_set_state ws now) pre submit i
      \<lparr> xw_store = rows, xw_submissions = l \<rparr> = (r, w)"
  shows "(system_step (pg_reserve ws) (pg_set_state ws) (pg_get_state ws))\<^sup>*\<^sup>*
    \<lparr> xs_store = rows, xs_submissions = l, xs_tasks = [Begin i] \<rparr>
    \<lparr> xs_store = xw_store w, xs_submissions = xw_submissions w, xs_tasks = [Finished i r] \<rparr>"
  using task_steps_system [OF execute_steps [where reserve = "pg_reserve ws" and set_state = "pg_set_state ws"
      and get_state = "pg_get_state ws", OF assms], of 0 "[Begin i]"] by simp

text \<open>C16. Inside one workspace the table behaves like the in-memory store: from a table with unique
  keys and a fresh intent identifier, \<open>execute\<close> gives the same result and the same submissions, and
  the states of the workspace change in the same way; the rows of all other workspaces stay as they
  are.\<close>

theorem table_refines_memory_store:
  assumes "intents_unique rows" and "order_intent_valid sha i"
    and "\<forall>r \<in> set rows. ir_order_intent_id r \<noteq> oi_order_intent_id i"
    and "execute (pg_reserve ws now) (pg_set_state ws now) pre submit i
      \<lparr> xw_store = rows, xw_submissions = l \<rparr> = (r, w)"
  shows "execute (mem_reserve now) (mem_set_state now) pre submit i
      \<lparr> xw_store = states_of ws rows, xw_submissions = l \<rparr> =
        (r, \<lparr> xw_store = states_of ws (xw_store w), xw_submissions = xw_submissions w \<rparr>) \<and>
    rows_of_others ws (xw_store w) = rows_of_others ws rows"
proof -
  let ?w = "\<lparr> xw_store = rows, xw_submissions = l \<rparr>"
  let ?m = "\<lparr> xw_store = states_of ws rows, xw_submissions = l \<rparr>"
  have get: "mem_get_state k (states_of ws rows) = pg_get_state ws k rows" for k
    by (simp add: mem_get_state_def states_of_def)
  have "execute (mem_reserve now) (mem_set_state now) pre submit i ?m =
      (r, \<lparr> xw_store = states_of ws (xw_store w), xw_submissions = xw_submissions w \<rparr>)"
  proof (cases "\<exists>reason. pre = Some (False, reason)")
    case True
    then show ?thesis using assms(4) by (auto simp: execute_blocked)
  next
    case False
    then have free: "\<forall>reason. pre \<noteq> Some (False, reason)" by blast
    show ?thesis
    proof (cases "pg_get_state ws (oi_client_order_id i) rows = None")
      case known: False
      have "execute (pg_reserve ws now) (pg_set_state ws now) pre submit i ?w = (Inl (duplicate_of i), ?w)"
        by (rule pg.execute_known) (use assms(1) known free in simp_all)
      moreover have "execute (mem_reserve now) (mem_set_state now) pre submit i ?m = (Inl (duplicate_of i), ?m)"
        by (rule mem.execute_known) (use known free get in simp_all)
      ultimately show ?thesis using assms(4) by auto
    next
      case True
      note pg_run = new_run [OF assms(1-3) free True assms(4)]
      have "\<exists>s. execute (mem_reserve now) (mem_set_state now) pre submit i ?m =
          (submit (submission_of i), \<lparr> xw_store = s, xw_submissions = xw_submissions ?m @ [submission_of i] \<rparr>) \<and>
        True \<and> (\<forall>k. mem_get_state k s = (if k = oi_client_order_id i
          then Some (case submit (submission_of i) of Inl e \<Rightarrow> SUBMISSION_UNCERTAIN | Inr order \<Rightarrow> ACCEPTED)
          else mem_get_state k (xw_store ?m)))"
        by (rule mem.execute_new) (use assms(2) free True get in \<open>simp_all add: mem_reserve_def states_of_def\<close>)
      then obtain m where m: "execute (mem_reserve now) (mem_set_state now) pre submit i ?m =
          (submit (submission_of i), \<lparr> xw_store = m, xw_submissions = l @ [submission_of i] \<rparr>)"
        "\<forall>k. mem_get_state k m = (if k = oi_client_order_id i
          then Some (case submit (submission_of i) of Inl e \<Rightarrow> SUBMISSION_UNCERTAIN | Inr order \<Rightarrow> ACCEPTED)
          else mem_get_state k (states_of ws rows))"
        by auto
      have "m k = states_of ws (xw_store w) k" for k
        using pg_run m(2) [rule_format, of k] get by (simp add: mem_get_state_def states_of_def)
      then have "m = states_of ws (xw_store w)" ..
      with m(1) pg_run show ?thesis by simp
    qed
  qed
  with execute_others [OF assms(4)] show ?thesis by simp
qed

text \<open>C17. An uncertain submission is settled only by the broker's own record of the order:
  \<open>reconcile_uncertain\<close> refuses any other state, never submits, and marks the id \<open>ACCEPTED\<close> exactly when
  the broker knows the order.  In particular an id that stays in \<open>SUBMISSION_STARTED\<close>, because the
  process stopped between the reservation and the reply, can be neither resubmitted nor
  reconciled.\<close>

theorem uncertain_submissions_reconcile:
  assumes "intents_unique rows"
    and "reconcile_uncertain (pg_get_state ws) (pg_set_state ws now) get_order i
      \<lparr> xw_store = rows, xw_submissions = l \<rparr> = (r, w)"
  shows "xw_submissions w = l \<and>
    (if pg_get_state ws (oi_client_order_id i) rows = Some SUBMISSION_UNCERTAIN
     then r = get_order (oi_client_order_id i) \<and>
       pg_get_state ws (oi_client_order_id i) (xw_store w) =
         (case r of Inr (Some order) \<Rightarrow> Some ACCEPTED | _ \<Rightarrow> Some SUBMISSION_UNCERTAIN)
     else is_ok r = False \<and> xw_store w = rows \<and>
       (pg_get_state ws (oi_client_order_id i) rows = Some SUBMISSION_STARTED \<longrightarrow>
         execute (pg_reserve ws now) (pg_set_state ws now) None submit i
           \<lparr> xw_store = rows, xw_submissions = l \<rparr> =
         (Inl (duplicate_of i), \<lparr> xw_store = rows, xw_submissions = l \<rparr>)))"
proof (cases "pg_get_state ws (oi_client_order_id i) rows = Some SUBMISSION_UNCERTAIN")
  case False
  then show ?thesis
    using assms pg.execute_known [of "\<lparr> xw_store = rows, xw_submissions = l \<rparr>" ws i None now submit]
    by (auto simp: reconcile_uncertain_def)
next
  case True
  then have known: "pg_get_state ws (oi_client_order_id i) rows \<noteq> None" by simp
  obtain s where s: "pg_set_state ws now (oi_client_order_id i) ACCEPTED rows = Inr s"
    using pg.set_known [OF assms(1) known] by blast
  show ?thesis
    using assms(2) True s pg.set_effect [OF assms(1) known s]
    by (auto simp: reconcile_uncertain_def split: sum.splits option.splits)
qed

section \<open>Witnesses\<close>

definition sample_order :: broker_order where
  "sample_order = \<lparr> bo_broker_order_id = ''b'', bo_client_order_id = ''c'', bo_status = ''accepted'',
     bo_asset_class = ''us_option'', bo_symbol = None, bo_side = None, bo_order_type = ''limit'',
     bo_order_class = ''mleg'', bo_time_in_force = ''day'', bo_quantity = Some 1, bo_filled_quantity = 0,
     bo_filled_average_price = None, bo_limit_price = Some 2, bo_submitted_at = None, bo_created_at = 0,
     bo_updated_at = None, bo_legs = [] \<rparr>"

definition sample_run :: "broker_order result \<times> order_intent_row list exec_world" where
  "sample_run = execute (pg_reserve ''ws'' 5) (pg_set_state ''ws'' 5) None (\<lambda>_. Inr sample_order)
     (sample_intent ''f'' 1) \<lparr> xw_store = [], xw_submissions = [] \<rparr>"

lemma sample_run_eq:
  "execute (pg_reserve ''ws'' 5) (pg_set_state ''ws'' 5) None (\<lambda>_. Inr sample_order)
     (sample_intent ''f'' 1) \<lparr> xw_store = [], xw_submissions = [] \<rparr> = (fst sample_run, snd sample_run)"
  by (simp add: sample_run_def)

lemma no_rows: "intents_unique []" "\<forall>r \<in> set []. ir_order_intent_id r \<noteq> oi_order_intent_id (sample_intent ''f'' 1)"
  by (simp_all add: intents_unique_def)

lemma no_state: "pg_get_state ws k [] = None"
  by (simp add: pg_get_state_def)

theorem execute_outcomes_witness:
  "fst sample_run = Inr sample_order \<and> length (xw_submissions (snd sample_run)) = 1 \<and>
   pg_get_state ''ws'' (oi_client_order_id (sample_intent ''f'' 1)) (xw_store (snd sample_run)) = Some ACCEPTED"
  using execute_outcomes [OF no_rows(1) sample_intent_valid sample_run_eq]
  by (simp add: no_state)

lemma sample_run_submits: "0 < sent (oi_client_order_id (sample_intent ''f'' 1)) (xw_submissions (snd sample_run))"
proof -
  have "xw_submissions (snd sample_run) = [submission_of (sample_intent ''f'' 1)]"
    using submission_dto_valid [OF sample_intent_valid [of 1 "''f''"]]
    by (simp add: sample_run_def execute_def settle_def pg_reserve_def pg_set_state_def owns_def)
  then show ?thesis by (simp add: sent_def)
qed

lemma sample_run_reachable:
  "(system_step (pg_reserve ''ws'') (pg_set_state ''ws'') (pg_get_state ''ws''))\<^sup>*\<^sup>*
    \<lparr> xs_store = [], xs_submissions = [], xs_tasks = [] \<rparr>
    \<lparr> xs_store = xw_store (snd sample_run), xs_submissions = xw_submissions (snd sample_run),
      xs_tasks = [Finished (sample_intent ''f'' 1) (fst sample_run)] \<rparr>"
proof -
  let ?\<sigma> = "\<lparr> xs_store = [], xs_submissions = [], xs_tasks = [] \<rparr> :: order_intent_row list exec_system"
  have "system_step (pg_reserve ''ws'') (pg_set_state ''ws'') (pg_get_state ''ws'') ?\<sigma>
      (?\<sigma>\<lparr>xs_tasks := xs_tasks ?\<sigma> @ [Begin (sample_intent ''f'' 1)]\<rparr>)"
    by (rule system_step.start) simp
  moreover note task_steps_system [OF execute_steps [where reserve = "pg_reserve ''ws''"
      and set_state = "pg_set_state ''ws''" and get_state = "pg_get_state ''ws''", OF sample_run_eq],
      of 0 "[Begin (sample_intent ''f'' 1)]"]
  ultimately show ?thesis by (simp add: converse_rtranclp_into_rtranclp)
qed

theorem broker_receives_at_most_once_witness:
  "sent (oi_client_order_id (sample_intent ''f'' 1)) (xw_submissions (snd sample_run)) = 1"
  using broker_receives_at_most_once [OF sample_run_reachable no_rows(1),
      of "oi_client_order_id (sample_intent ''f'' 1)"] sample_run_submits
  by simp

theorem execute_is_a_run_witness:
  "(system_step (pg_reserve ''ws'') (pg_set_state ''ws'') (pg_get_state ''ws''))\<^sup>*\<^sup>*
    \<lparr> xs_store = [], xs_submissions = [], xs_tasks = [Begin (sample_intent ''f'' 1)] \<rparr>
    \<lparr> xs_store = xw_store (snd sample_run), xs_submissions = xw_submissions (snd sample_run),
      xs_tasks = [Finished (sample_intent ''f'' 1) (fst sample_run)] \<rparr>"
  by (rule execute_is_a_run [OF sample_run_eq])

theorem table_refines_memory_store_witness:
  "execute (mem_reserve 5) (mem_set_state 5) None (\<lambda>_. Inr sample_order) (sample_intent ''f'' 1)
      \<lparr> xw_store = states_of ''ws'' [], xw_submissions = [] \<rparr> =
    (fst sample_run, \<lparr> xw_store = states_of ''ws'' (xw_store (snd sample_run)),
      xw_submissions = xw_submissions (snd sample_run) \<rparr>)"
  using table_refines_memory_store [OF no_rows(1) sample_intent_valid no_rows(2) sample_run_eq] by simp

definition uncertain_row :: order_intent_row where
  "uncertain_row = \<lparr> ir_order_intent_id = ''f'', ir_workspace_id = ''ws'',
     ir_client_order_id = oi_client_order_id (sample_intent ''f'' 1), ir_risk_decision_id = ''r'',
     ir_state = SUBMISSION_UNCERTAIN, ir_payload = sample_intent ''f'' 1, ir_created_at = 0,
     ir_updated_at = 0 \<rparr>"

theorem uncertain_submissions_reconcile_witness:
  "\<exists>w. reconcile_uncertain (pg_get_state ''ws'') (pg_set_state ''ws'' 5) (\<lambda>_. Inr (Some sample_order))
      (sample_intent ''f'' 1) \<lparr> xw_store = [uncertain_row], xw_submissions = [] \<rparr> = (Inr (Some sample_order), w) \<and>
    pg_get_state ''ws'' (oi_client_order_id (sample_intent ''f'' 1)) (xw_store w) = Some ACCEPTED"
proof -
  obtain r w where run: "reconcile_uncertain (pg_get_state ''ws'') (pg_set_state ''ws'' 5)
      (\<lambda>_. Inr (Some sample_order)) (sample_intent ''f'' 1)
      \<lparr> xw_store = [uncertain_row], xw_submissions = [] \<rparr> = (r, w)" by fastforce
  have "intents_unique [uncertain_row]" by (simp add: intents_unique_def)
  moreover have "pg_get_state ''ws'' (oi_client_order_id (sample_intent ''f'' 1)) [uncertain_row] = Some SUBMISSION_UNCERTAIN"
    by (simp add: pg_get_state_def owns_def uncertain_row_def)
  ultimately show ?thesis using uncertain_submissions_reconcile [OF _ run] run by auto
qed

end
