(* ===== verification/Guardian_Properties.thy ===== *)
theory Guardian_Properties
  imports Guardian Execution_Properties
begin

text \<open>
  What the guardian promises: when an observation halts trading, that a halt lasts until a recovery
  with known broker state, that workspaces do not see each other's incidents, and that a call of
  the engine whose check finds an incident submits nothing.
\<close>

section \<open>Evaluation\<close>

text \<open>\<open>calmer policy a b\<close>: nothing in the observation \<open>a\<close> is more alarming than in \<open>b\<close>.\<close>

definition calmer :: "guardian_policy \<Rightarrow> guardian_observation \<Rightarrow> guardian_observation \<Rightarrow> bool" where
  "calmer policy a b \<longleftrightarrow> (stale_data policy a \<longrightarrow> stale_data policy b) \<and>
     (go_broker_stream_connected b \<longrightarrow> go_broker_stream_connected a) \<and>
     (go_broker_reconciled b \<longrightarrow> go_broker_reconciled a) \<and>
     go_divergence_count a \<le> go_divergence_count b \<and>
     go_duplicate_order_patterns a \<le> go_duplicate_order_patterns b \<and>
     (go_risk_policy_breach a \<longrightarrow> go_risk_policy_breach b) \<and>
     go_recent_order_rejections a \<le> go_recent_order_rejections b \<and>
     go_orders_last_minute a \<le> go_orders_last_minute b \<and>
     go_uncovered_short_option_legs a \<le> go_uncovered_short_option_legs b"

text \<open>C10. The guardian stays normal exactly when market data is present, not from the future and not
  older than the policy allows, the stream is connected, the broker is reconciled without divergence,
  no duplicate pattern, policy breach or uncovered leg is seen and the numbers of rejections and orders
  are within the policy; a halt pauses intents, cancels orders and requires reconciliation.  It is
  monotone: an observation that is no calmer raises at least the same triggers.\<close>

theorem guardian_halts_when_unhealthy:
  "(\<not> ge_halted (guardian_evaluate policy ob) \<longleftrightarrow>
     (\<exists>t. go_latest_market_data_at ob = Some t \<and> t \<le> go_observed_at ob \<and>
       go_observed_at ob \<le> t + seconds (gp_max_market_data_age_seconds policy)) \<and>
     go_broker_stream_connected ob \<and> go_broker_reconciled ob \<and> go_divergence_count ob \<le> 0 \<and>
     go_duplicate_order_patterns ob \<le> 0 \<and> \<not> go_risk_policy_breach ob \<and>
     go_recent_order_rejections ob < gp_max_recent_order_rejections policy \<and>
     go_orders_last_minute ob \<le> gp_max_orders_per_minute policy \<and>
     go_uncovered_short_option_legs ob \<le> 0) \<and>
   (ge_pause_new_intents (guardian_evaluate policy ob) \<longleftrightarrow> ge_halted (guardian_evaluate policy ob)) \<and>
   (ge_cancel_eligible_open_orders (guardian_evaluate policy ob) \<longleftrightarrow> ge_halted (guardian_evaluate policy ob)) \<and>
   (ge_require_reconciliation (guardian_evaluate policy ob) \<longleftrightarrow> ge_halted (guardian_evaluate policy ob)) \<and>
   (calmer policy ob ob' \<longrightarrow>
     set (ge_triggers (guardian_evaluate policy ob)) \<subseteq> set (ge_triggers (guardian_evaluate policy ob')))"
proof -
  have stale: "\<not> stale_data policy ob \<longleftrightarrow> (\<exists>t. go_latest_market_data_at ob = Some t \<and>
      t \<le> go_observed_at ob \<and> go_observed_at ob \<le> t + seconds (gp_max_market_data_age_seconds policy))"
    by (auto simp: stale_data_def Let_def not_less algebra_simps split: option.splits)
  have empty: "guardian_triggers policy ob = [] \<longleftrightarrow> \<not> stale_data policy ob \<and>
      go_broker_stream_connected ob \<and> go_broker_reconciled ob \<and> go_divergence_count ob \<le> 0 \<and>
      go_duplicate_order_patterns ob \<le> 0 \<and> \<not> go_risk_policy_breach ob \<and>
      go_recent_order_rejections ob < gp_max_recent_order_rejections policy \<and>
      go_orders_last_minute ob \<le> gp_max_orders_per_minute policy \<and> go_uncovered_short_option_legs ob \<le> 0"
    by (simp add: guardian_triggers_def not_less not_le)
  have sub: "set (guardian_triggers policy ob) \<subseteq> set (guardian_triggers policy ob')" if "calmer policy ob ob'"
    using that unfolding guardian_triggers_def calmer_def set_append
    by (intro Un_mono reason_if_mono) linarith+
  have normal: "\<not> ge_halted (guardian_evaluate policy ob) \<longleftrightarrow> guardian_triggers policy ob = []"
    by (simp add: guardian_evaluate_def Let_def)
  show ?thesis
    by (intro conjI normal [unfolded empty stale])
      (simp_all add: guardian_evaluate_def Let_def sub)
qed

definition healthy_observation :: guardian_observation where
  "healthy_observation = \<lparr> go_observed_at = seconds 100, go_latest_market_data_at = Some (seconds 95),
     go_broker_stream_connected = True, go_broker_reconciled = True, go_divergence_count = 0,
     go_duplicate_order_patterns = 0, go_risk_policy_breach = False, go_recent_order_rejections = 2,
     go_orders_last_minute = 5, go_uncovered_short_option_legs = 0 \<rparr>"

theorem guardian_halts_when_unhealthy_witness:
  "\<not> ge_halted (guardian_evaluate default_guardian_policy healthy_observation) \<and>
   set (ge_triggers (guardian_evaluate default_guardian_policy healthy_observation)) \<subseteq>
   set (ge_triggers (guardian_evaluate default_guardian_policy
     (healthy_observation\<lparr>go_recent_order_rejections := 3\<rparr>)))"
  using guardian_halts_when_unhealthy [of default_guardian_policy healthy_observation
      "healthy_observation\<lparr>go_recent_order_rejections := 3\<rparr>"]
  by (simp add: healthy_observation_def default_guardian_policy_def seconds_def calmer_def stale_data_def)

section \<open>Operations in sequence\<close>

datatype guardian_op = Halt_op uuid instant "guardian_trigger list" string | Recover_op instant bool

definition guardian_do ::
  "(uuid \<Rightarrow> instant \<Rightarrow> guardian_trigger list \<Rightarrow> string \<Rightarrow> 's \<Rightarrow> guardian_incident \<times> 's) \<Rightarrow>
   (instant \<Rightarrow> bool \<Rightarrow> 's \<Rightarrow> (guardian_status \<times> 's) result) \<Rightarrow> guardian_op \<Rightarrow> 's \<Rightarrow> 's"
where
  "guardian_do halt recover op s = (case op of
      Halt_op fresh now triggers reason \<Rightarrow> snd (halt fresh now triggers reason s)
    | Recover_op now broker_state_known \<Rightarrow>
        (case recover now broker_state_known s of Inl e \<Rightarrow> s | Inr (_, s') \<Rightarrow> s'))"

fun recovers :: "guardian_op \<Rightarrow> bool" where
  "recovers (Halt_op _ _ _ _) = False"
| "recovers (Recover_op _ broker_state_known) = broker_state_known"

context guardian_store
begin

lemma halted_stays:
  assumes "gs_active_incident (status s) = Some i" and "list_all (\<lambda>op. \<not> recovers op) ops"
  shows "gs_active_incident (status (fold (guardian_do halt recover) ops s)) = Some i"
  using assms
proof (induction ops arbitrary: s)
  case Nil
  then show ?case by simp
next
  case (Cons op ops)
  have "guardian_do halt recover op s = s"
    using Cons.prems halt_again [OF Cons.prems(1)] recover_unknown
    by (cases op) (auto simp: guardian_do_def)
  with Cons show ?case by simp
qed

lemma recovery_opens: "gs_active_incident (status (guardian_do halt recover (Recover_op now True) s)) = None"
  using recover_known [of now s] by (auto simp: guardian_do_def)

lemma halt_blocks:
  "\<exists>i. gs_active_incident (status (snd (halt fresh now ts reason s))) = Some i \<and>
    (gs_active_incident (status s) = None \<longrightarrow> gi_reason i = reason)"
proof (cases "gs_active_incident (status s)")
  case None
  then show ?thesis
    using halt_new [OF None, of fresh now ts reason] by (cases "halt fresh now ts reason s") (auto simp: new_incident_def)
next
  case (Some i)
  then show ?thesis using halt_again [OF Some] by simp
qed

end

text \<open>C8. Once a workspace is halted, the execution gate stays closed with the reason of the first
  halt, through any number of further halts and refused recoveries, until a recovery with known
  broker state, which opens it, even when several incidents are active.\<close>

theorem halt_lasts_until_recovery:
  assumes "fst (gate_execution_allowed (pg_status ws rows))"
    and "list_all (\<lambda>op. \<not> recovers op) ops"
  shows "gate_execution_allowed (pg_status ws (fold (guardian_do (pg_halt ws) (pg_recover ws))
      (Halt_op fresh now ts reason # ops) rows)) = (False, reason) \<and>
    gate_execution_allowed (pg_status ws (guardian_do (pg_halt ws) (pg_recover ws)
      (Recover_op later True) any_rows)) = (True, ''Guardian is normal'')"
proof -
  have none: "gs_active_incident (pg_status ws rows) = None"
    using assms(1) pg_guardian.allowed_iff [of ws rows] by (auto simp: gate_execution_allowed_def split: if_splits)
  obtain i where i: "gs_active_incident (pg_status ws (snd (pg_halt ws fresh now ts reason rows))) = Some i"
    "gi_reason i = reason"
    using pg_guardian.halt_blocks [of ws fresh now ts reason rows] none by blast
  have "gs_active_incident (pg_status ws (fold (guardian_do (pg_halt ws) (pg_recover ws)) ops
      (snd (pg_halt ws fresh now ts reason rows)))) = Some i"
    by (rule pg_guardian.halted_stays [OF i(1) assms(2)])
  from pg_guardian.gate_blocked [OF this] i(2) pg_guardian.gate_open [OF pg_guardian.recovery_opens]
  show ?thesis by (simp add: guardian_do_def)
qed

theorem halt_lasts_until_recovery_witness:
  "gate_execution_allowed (pg_status ''ws'' (fold (guardian_do (pg_halt ''ws'') (pg_recover ''ws''))
      [Halt_op ''i'' 1 [MANUAL_KILL_SWITCH] ''kill'', Halt_op ''j'' 2 [STATE_DIVERGENCE] ''other'',
       Recover_op 3 False] [])) = (False, ''kill'')"
proof -
  have "fst (gate_execution_allowed (pg_status ''ws'' []))"
    by (simp add: gate_execution_allowed_def pg_status_def pg_active_def status_of_def)
  from halt_lasts_until_recovery [OF this, of "[Halt_op ''j'' 2 [STATE_DIVERGENCE] ''other'', Recover_op 3 False]"]
  show ?thesis by simp
qed

section \<open>Workspaces\<close>

lemma pg_active_other:
  assumes "filter (active_row v) rows' = filter (active_row v) rows"
  shows "pg_status v rows' = pg_status v rows"
  using assms by (simp add: pg_status_def pg_active_def)

lemma guardian_do_other:
  assumes "v \<noteq> ws"
  shows "filter (active_row v) (guardian_do (pg_halt ws) (pg_recover ws) op rows) = filter (active_row v) rows"
proof (cases op)
  case (Halt_op fresh now ts reason)
  then show ?thesis
    using assms by (auto simp: guardian_do_def pg_halt_def Let_def row_of_incident_def active_row_def
        split: option.splits)
next
  case (Recover_op now k)
  have "filter (active_row v) (map (\<lambda>r. if active_row ws r
      then r\<lparr>gr_state := NORMAL, gr_cleared_at := Some now\<rparr> else r) rows) = filter (active_row v) rows"
    using assms by (intro filter_map_other) (auto simp: active_row_def split: if_splits)
  with Recover_op show ?thesis by (simp add: guardian_do_def pg_recover_def Let_def)
qed

text \<open>Halting or recovering one workspace changes nothing for any other: its status is the same
  before and after any sequence of operations.\<close>

theorem guardian_isolates_workspaces:
  assumes "v \<noteq> ws"
  shows "pg_status v (fold (guardian_do (pg_halt ws) (pg_recover ws)) ops rows) = pg_status v rows"
proof (rule pg_active_other)
  show "filter (active_row v) (fold (guardian_do (pg_halt ws) (pg_recover ws)) ops rows) =
      filter (active_row v) rows"
    by (induction ops arbitrary: rows) (simp_all add: guardian_do_other [OF assms])
qed

theorem guardian_isolates_workspaces_witness:
  "gs_execution_allowed (pg_status ''b'' (fold (guardian_do (pg_halt ''a'') (pg_recover ''a''))
      [Halt_op ''i'' 1 [MANUAL_KILL_SWITCH] ''kill''] []))"
  using guardian_isolates_workspaces [of "''b''" "''a''" "[Halt_op ''i'' 1 [MANUAL_KILL_SWITCH] ''kill'']" "[]"]
  by (simp add: pg_status_def pg_active_def status_of_def)

section \<open>The guardian and the execution service\<close>

text \<open>While an incident is active in the workspace, \<open>execute\<close> behind the guardian's gate raises
  \<open>ExecutionBlocked\<close> with the incident's reason; neither the table of intents nor the broker is
  touched, whatever the intent and whatever the broker would answer.\<close>

theorem halted_workspace_submits_nothing:
  assumes "gs_active_incident (pg_status ws incidents) = Some i"
  shows "execute (pg_reserve ws now) (pg_set_state ws now)
      (Some (gate_execution_allowed (pg_status ws incidents))) submit intent w =
    (Inl (ExecutionBlocked (gi_reason i)), w)"
  using pg_guardian.gate_blocked [OF assms] by (simp add: execute_blocked)

theorem halted_workspace_submits_nothing_witness:
  "execute (pg_reserve ''ws'' 5) (pg_set_state ''ws'' 5)
      (Some (gate_execution_allowed (pg_status ''ws''
        (snd (pg_halt ''ws'' ''i'' 1 [MANUAL_KILL_SWITCH] ''kill'' []))))) (\<lambda>_. Inr sample_order)
      (sample_intent ''f'' 1) \<lparr> xw_store = [], xw_submissions = [] \<rparr> =
    (Inl (ExecutionBlocked ''kill''), \<lparr> xw_store = [], xw_submissions = [] \<rparr>)"
proof -
  obtain i where i: "gs_active_incident (pg_status ''ws''
      (snd (pg_halt ''ws'' ''i'' 1 [MANUAL_KILL_SWITCH] ''kill'' []))) = Some i" "gi_reason i = ''kill''"
    using pg_guardian.halt_blocks [of "''ws''" "''i''" 1 "[MANUAL_KILL_SWITCH]" "''kill''" "[]"]
    by (auto simp: pg_status_def pg_active_def status_of_def)
  show ?thesis using halted_workspace_submits_nothing [OF i(1)] i(2) by simp
qed

end
