(* ===== verification/Liquidity.thy ===== *)
theory Liquidity
  imports Options_Bounds
begin

text \<open>
  \<open>packages/options/liquidity.py\<close>: the eligibility of a contract under a liquidity policy,
  and its declarative specification.
\<close>

text \<open>
  \<open>total_seconds()\<close> is the difference in seconds as a rational; the code's float agrees with it
  in every comparison against a whole number of seconds below \<open>2 ^ 32\<close>.
\<close>

definition total_seconds :: "int \<Rightarrow> rat" where
  "total_seconds micros = of_int micros / 1000000"

definition open_interest_reasons :: "liquidity_policy \<Rightarrow> option_quote \<Rightarrow> string list" where
  "open_interest_reasons policy q = (case lp_min_open_interest policy of
      None \<Rightarrow> []
    | Some minimum \<Rightarrow> (case oq_open_interest q of
          None \<Rightarrow> [''open_interest_unavailable'']
        | Some oi \<Rightarrow> reason_if (oi < minimum) ''open_interest_too_low''))"

definition strike_reasons :: "option_contract \<Rightarrow> decimal \<Rightarrow> liquidity_policy \<Rightarrow> string list" where
  "strike_reasons c underlying_price policy =
     (if underlying_price \<le> 0 then [''invalid_underlying_price'']
      else reason_if (dquo (dabs (dsub (oc_strike c) underlying_price)) underlying_price
             > lp_max_strike_distance_ratio policy) ''strike_too_distant'')"

definition evaluate_contract ::
  "option_contract \<Rightarrow> decimal \<Rightarrow> liquidity_policy \<Rightarrow> datetime \<Rightarrow> eligibility_result result" where
  "evaluate_contract c underlying_price policy as_of =
     (if \<not> is_aware as_of then Inl (ValueError ''as_of must be timezone-aware'')
      else
        let now = in_utc as_of; q = oc_quote c; dte = oc_expiration c - date_of now;
            ratio = spread_ratio q; age = total_seconds (now - in_utc (oq_quoted_at q));
            reasons =
              reason_if (oc_underlying_symbol c \<notin> set (lp_supported_underlyings policy))
                ''unsupported_underlying'' @
              reason_if (\<not> oc_tradable c) ''not_tradable'' @
              reason_if (\<not> (lp_min_dte policy \<le> dte \<and> dte \<le> lp_max_dte policy)) ''dte_out_of_range'' @
              reason_if (oq_bid q \<le> 0 \<or> oq_ask q \<le> 0) ''non_executable_quote'' @
              reason_if (case ratio of None \<Rightarrow> True | Some r \<Rightarrow> r > lp_max_spread_ratio policy)
                ''spread_too_wide'' @
              reason_if (oq_bid_size q < lp_min_quote_size policy \<or>
                oq_ask_size q < lp_min_quote_size policy) ''quote_size_too_small'' @
              open_interest_reasons policy q @
              reason_if (age < 0 \<or> age > of_int (lp_max_quote_age_seconds policy)) ''stale_quote'' @
              strike_reasons c underlying_price policy @
              reason_if (lp_require_greeks policy \<and> oq_greeks q = None) ''greeks_unavailable''
        in Inr \<lparr> er_eligible = (reasons = []), er_reasons = reasons \<rparr>)"

section \<open>The specification of eligibility\<close>

text \<open>What a contract must satisfy to be traded.\<close>

definition acceptable :: "option_contract \<Rightarrow> decimal \<Rightarrow> liquidity_policy \<Rightarrow> instant \<Rightarrow> bool" where
  "acceptable c price policy now \<longleftrightarrow>
     (let q = oc_quote c; dte = oc_expiration c - date_of now; age = now - in_utc (oq_quoted_at q) in
      oc_underlying_symbol c \<in> set (lp_supported_underlyings policy) \<and> oc_tradable c \<and>
      lp_min_dte policy \<le> dte \<and> dte \<le> lp_max_dte policy \<and>
      0 < oq_bid q \<and> 0 < oq_ask q \<and>
      (\<exists>r. spread_ratio q = Some r \<and> r \<le> lp_max_spread_ratio policy) \<and>
      lp_min_quote_size policy \<le> oq_bid_size q \<and> lp_min_quote_size policy \<le> oq_ask_size q \<and>
      (\<forall>m. lp_min_open_interest policy = Some m \<longrightarrow> (\<exists>oi. oq_open_interest q = Some oi \<and> m \<le> oi)) \<and>
      0 \<le> age \<and> age \<le> seconds (lp_max_quote_age_seconds policy) \<and>
      0 < price \<and>
      dquo (dabs (dsub (oc_strike c) price)) price \<le> lp_max_strike_distance_ratio policy \<and>
      (lp_require_greeks policy \<longrightarrow> oq_greeks q \<noteq> None))"

lemma open_interest_reasons_Nil:
  "open_interest_reasons policy q = [] \<longleftrightarrow>
     (\<forall>m. lp_min_open_interest policy = Some m \<longrightarrow> (\<exists>oi. oq_open_interest q = Some oi \<and> m \<le> oi))"
  by (auto simp: open_interest_reasons_def reason_if_def split: option.splits if_splits)

lemma strike_reasons_Nil:
  "strike_reasons c price policy = [] \<longleftrightarrow> 0 < price \<and>
     dquo (dabs (dsub (oc_strike c) price)) price \<le> lp_max_strike_distance_ratio policy"
  by (auto simp: strike_reasons_def)

lemma age_window:
  "\<not> (total_seconds a < 0 \<or> total_seconds a > of_int n) \<longleftrightarrow> 0 \<le> a \<and> a \<le> seconds n"
proof -
  have "total_seconds a > of_int n \<longleftrightarrow> (of_int (n * 1000000) :: rat) < of_int a"
    by (simp add: total_seconds_def field_simps)
  then have "total_seconds a > of_int n \<longleftrightarrow> seconds n < a"
    by (simp only: of_int_less_iff seconds_def)
  moreover have "total_seconds a < 0 \<longleftrightarrow> a < 0"
    by (simp add: total_seconds_def)
  ultimately show ?thesis by auto
qed

lemma evaluate_contract_aware:
  "is_aware t \<Longrightarrow> evaluate_contract c price policy t =
     Inr \<lparr> er_eligible = acceptable c price policy (in_utc t),
       er_reasons = er_reasons (projr (evaluate_contract c price policy t)) \<rparr>"
  using age_window [of "in_utc t - in_utc (oq_quoted_at (oc_quote c))" "lp_max_quote_age_seconds policy"]
  by (auto simp: evaluate_contract_def acceptable_def Let_def open_interest_reasons_Nil
      strike_reasons_Nil not_less not_le split: option.splits)

lemma eligible_iff_acceptable:
  assumes "evaluate_contract c price policy (Aware now) = Inr r"
  shows "er_eligible r \<longleftrightarrow> acceptable c price policy now"
  using evaluate_contract_aware [of "Aware now" c price policy] assms
  by (metis eligibility_result.select_convs(1) in_utc.simps(1) is_aware.simps(1) sum.inject(2))

lemma acceptable_quote:
  assumes "acceptable c price policy now"
  shows "0 < oq_bid (oc_quote c)" and "0 < oq_ask (oc_quote c)" and "0 < price"
    and "lp_require_greeks policy \<Longrightarrow> oq_greeks (oc_quote c) \<noteq> None"
  using assms by (auto simp: acceptable_def Let_def)

section \<open>Properties\<close>

text \<open>\<open>evaluate_contract\<close> decides exactly the eligibility specification and lists a reason for
  every refusal: it returns for every timezone-aware time, the contract is eligible if and only if
  it is acceptable, and the reasons are empty exactly then; a naive time is refused.\<close>

theorem liquidity_decides_acceptability:
  "evaluate_contract c price policy (Naive t) = Inl (ValueError ''as_of must be timezone-aware'') \<and>
   (\<exists>reasons. evaluate_contract c price policy (Aware t) =
      Inr \<lparr> er_eligible = acceptable c price policy t, er_reasons = reasons \<rparr> \<and>
      (reasons = [] \<longleftrightarrow> acceptable c price policy t))"
proof -
  obtain r where r: "evaluate_contract c price policy (Aware t) = Inr r"
    by (simp add: evaluate_contract_def Let_def)
  then have "er_eligible r \<longleftrightarrow> acceptable c price policy t" by (rule eligible_iff_acceptable)
  moreover from r have "er_eligible r \<longleftrightarrow> er_reasons r = []"
    by (auto simp: evaluate_contract_def Let_def)
  ultimately show ?thesis
    using r by (cases r) (auto simp: evaluate_contract_def [of _ _ _ "Naive t"])
qed

end
