(* ===== verification/Broker_Columns.thy ===== *)
theory Broker_Columns
  imports Broker_Domain
begin

text \<open>
  What the columns of the broker's tables (\<open>packages/database/models.py\<close>) keep of the values that are stored in them.
  PostgreSQL rounds a number in a \<open>NUMERIC(24, 8)\<close> column to eight places, ties away from zero, and refuses one with
  more than sixteen digits before the point; it refuses a text that is longer than its \<open>VARCHAR(n)\<close> column, unless
  the excess is blanks, which it drops.  Times, truth values, \<open>TEXT\<close> and \<open>JSONB\<close> are kept.
\<close>

section \<open>Columns\<close>

definition data_error :: py_error where
  "data_error = External ''DataError''"

definition numeric_24_8 :: "decimal \<Rightarrow> decimal" where
  "numeric_24_8 x = (if 0 \<le> x then of_int \<lfloor>x * 100000000 + 1 / 2\<rfloor> else - of_int \<lfloor>- x * 100000000 + 1 / 2\<rfloor>) / 100000000"

definition numeric_fits :: "decimal \<Rightarrow> bool" where
  "numeric_fits x \<longleftrightarrow> \<bar>numeric_24_8 x\<bar> < 10000000000000000"

definition optional_fits :: "decimal option \<Rightarrow> bool" where
  "optional_fits v = (case v of None \<Rightarrow> True | Some x \<Rightarrow> numeric_fits x)"

definition varchar :: "nat \<Rightarrow> string \<Rightarrow> string" where
  "varchar n s = take n s"

definition varchar_fits :: "nat \<Rightarrow> string \<Rightarrow> bool" where
  "varchar_fits n s \<longleftrightarrow> list_all (\<lambda>ch. ch = CHR 0x20) (drop n s)"

definition optional_varchar_fits :: "nat \<Rightarrow> string option \<Rightarrow> bool" where
  "optional_varchar_fits n v = (case v of None \<Rightarrow> True | Some s \<Rightarrow> varchar_fits n s)"

section \<open>The rows of the projection\<close>

definition account_columns :: "broker_account \<Rightarrow> broker_account" where
  "account_columns a = a\<lparr>ba_account_id := varchar 64 (ba_account_id a),
     ba_account_number := varchar 64 (ba_account_number a), ba_status := varchar 32 (ba_status a),
     ba_currency := varchar 8 (ba_currency a), ba_equity := numeric_24_8 (ba_equity a),
     ba_cash := numeric_24_8 (ba_cash a), ba_buying_power := numeric_24_8 (ba_buying_power a),
     ba_options_buying_power := map_option numeric_24_8 (ba_options_buying_power a),
     ba_last_equity := numeric_24_8 (ba_last_equity a)\<rparr>"

definition account_fits :: "broker_account \<Rightarrow> bool" where
  "account_fits a \<longleftrightarrow> varchar_fits 64 (ba_account_id a) \<and> varchar_fits 64 (ba_account_number a) \<and>
     varchar_fits 32 (ba_status a) \<and> varchar_fits 8 (ba_currency a) \<and>
     list_all numeric_fits [ba_equity a, ba_cash a, ba_buying_power a, ba_last_equity a] \<and>
     optional_fits (ba_options_buying_power a)"

definition position_columns :: "broker_position \<Rightarrow> broker_position" where
  "position_columns p = p\<lparr>bp_asset_id := varchar 64 (bp_asset_id p), bp_symbol := varchar 48 (bp_symbol p),
     bp_asset_class := varchar 32 (bp_asset_class p), bp_side := varchar 16 (bp_side p),
     bp_quantity := numeric_24_8 (bp_quantity p),
     bp_quantity_available := map_option numeric_24_8 (bp_quantity_available p),
     bp_average_entry_price := numeric_24_8 (bp_average_entry_price p),
     bp_market_value := map_option numeric_24_8 (bp_market_value p),
     bp_cost_basis := numeric_24_8 (bp_cost_basis p), bp_unrealized_pl := numeric_24_8 (bp_unrealized_pl p),
     bp_current_price := map_option numeric_24_8 (bp_current_price p)\<rparr>"

definition position_fits :: "broker_position \<Rightarrow> bool" where
  "position_fits p \<longleftrightarrow> varchar_fits 64 (bp_asset_id p) \<and> varchar_fits 48 (bp_symbol p) \<and>
     varchar_fits 32 (bp_asset_class p) \<and> varchar_fits 16 (bp_side p) \<and>
     list_all numeric_fits [bp_quantity p, bp_average_entry_price p, bp_cost_basis p, bp_unrealized_pl p] \<and>
     list_all optional_fits [bp_quantity_available p, bp_market_value p, bp_current_price p]"

definition order_columns :: "broker_order \<Rightarrow> broker_order" where
  "order_columns b = b\<lparr>bo_broker_order_id := varchar 64 (bo_broker_order_id b),
     bo_client_order_id := varchar 64 (bo_client_order_id b), bo_status := varchar 32 (bo_status b),
     bo_asset_class := varchar 32 (bo_asset_class b), bo_symbol := map_option (varchar 48) (bo_symbol b),
     bo_side := map_option (varchar 16) (bo_side b), bo_order_type := varchar 32 (bo_order_type b),
     bo_order_class := varchar 32 (bo_order_class b), bo_time_in_force := varchar 16 (bo_time_in_force b),
     bo_quantity := map_option numeric_24_8 (bo_quantity b),
     bo_filled_quantity := numeric_24_8 (bo_filled_quantity b),
     bo_filled_average_price := map_option numeric_24_8 (bo_filled_average_price b),
     bo_limit_price := map_option numeric_24_8 (bo_limit_price b)\<rparr>"

definition order_fits :: "broker_order \<Rightarrow> bool" where
  "order_fits b \<longleftrightarrow> varchar_fits 64 (bo_broker_order_id b) \<and> varchar_fits 64 (bo_client_order_id b) \<and>
     varchar_fits 32 (bo_status b) \<and> varchar_fits 32 (bo_asset_class b) \<and>
     optional_varchar_fits 48 (bo_symbol b) \<and> optional_varchar_fits 16 (bo_side b) \<and>
     varchar_fits 32 (bo_order_type b) \<and> varchar_fits 32 (bo_order_class b) \<and>
     varchar_fits 16 (bo_time_in_force b) \<and> numeric_fits (bo_filled_quantity b) \<and>
     list_all optional_fits [bo_quantity b, bo_filled_average_price b, bo_limit_price b]"

definition snapshot_fits :: "reconciliation_snapshot \<Rightarrow> bool" where
  "snapshot_fits snap \<longleftrightarrow> account_fits (rs_account snap) \<and> list_all position_fits (rs_positions snap) \<and>
     list_all order_fits (rs_open_orders snap)"

section \<open>What is kept\<close>

text \<open>An amount is kept to half a unit of the eighth place, and exactly when it has no more places.  A text that fits is
  kept but for blanks at its end.\<close>

definition amount_kept :: "decimal \<Rightarrow> decimal \<Rightarrow> bool" where
  "amount_kept x y \<longleftrightarrow> \<bar>x - y\<bar> \<le> 1 / 200000000 \<and> (x * 100000000 \<in> \<int> \<longrightarrow> y = x)"

definition text_kept :: "string \<Rightarrow> string \<Rightarrow> bool" where
  "text_kept s t \<longleftrightarrow> (\<exists>k. s = t @ replicate k CHR 0x20)"

lemma numeric_kept: "amount_kept x (numeric_24_8 x)"
proof -
  have near: "\<bar>y - of_int \<lfloor>y + 1 / 2\<rfloor>\<bar> \<le> 1 / 2" for y :: rat
    by linarith
  have "\<bar>x - numeric_24_8 x\<bar> = \<bar>\<bar>x\<bar> * 100000000 - of_int \<lfloor>\<bar>x\<bar> * 100000000 + 1 / 2\<rfloor>\<bar> / 100000000"
    by (auto simp: numeric_24_8_def field_simps)
  moreover have "numeric_24_8 x = x" if "x * 100000000 \<in> \<int>"
  proof -
    note whole = that
    obtain n where n: "x * 100000000 = of_int n" using whole by (rule Ints_cases)
    then have "\<lfloor>of_int n + 1 / 2 :: rat\<rfloor> = n" "\<lfloor>of_int (- n) + 1 / 2 :: rat\<rfloor> = - n" by linarith+
    then show ?thesis using n by (simp add: numeric_24_8_def field_simps)
  qed
  ultimately show ?thesis using near [of "\<bar>x\<bar> * 100000000"] by (auto simp: amount_kept_def)
qed

lemma varchar_kept:
  assumes "varchar_fits n s"
  shows "text_kept s (varchar n s)"
proof -
  have "drop n s = replicate (length (drop n s)) CHR 0x20"
    using assms by (auto simp: varchar_fits_def list_all_iff simp del: length_drop intro!: replicate_eqI)
  then show ?thesis unfolding text_kept_def varchar_def by (metis append_take_drop_id)
qed

definition account_kept :: "broker_account \<Rightarrow> broker_account \<Rightarrow> bool" where
  "account_kept a b \<longleftrightarrow>
     list_all2 text_kept [ba_account_id a, ba_account_number a, ba_status a, ba_currency a]
       [ba_account_id b, ba_account_number b, ba_status b, ba_currency b] \<and>
     list_all2 amount_kept [ba_equity a, ba_cash a, ba_buying_power a, ba_last_equity a]
       [ba_equity b, ba_cash b, ba_buying_power b, ba_last_equity b] \<and>
     rel_option amount_kept (ba_options_buying_power a) (ba_options_buying_power b) \<and>
     ba_trading_blocked b = ba_trading_blocked a \<and> ba_account_blocked b = ba_account_blocked a \<and>
     ba_trade_suspended_by_user b = ba_trade_suspended_by_user a \<and> ba_as_of b = ba_as_of a"

definition position_kept :: "broker_position \<Rightarrow> broker_position \<Rightarrow> bool" where
  "position_kept p q \<longleftrightarrow>
     list_all2 text_kept [bp_asset_id p, bp_symbol p, bp_asset_class p, bp_side p]
       [bp_asset_id q, bp_symbol q, bp_asset_class q, bp_side q] \<and>
     list_all2 amount_kept [bp_quantity p, bp_average_entry_price p, bp_cost_basis p, bp_unrealized_pl p]
       [bp_quantity q, bp_average_entry_price q, bp_cost_basis q, bp_unrealized_pl q] \<and>
     list_all2 (rel_option amount_kept) [bp_quantity_available p, bp_market_value p, bp_current_price p]
       [bp_quantity_available q, bp_market_value q, bp_current_price q] \<and> bp_as_of q = bp_as_of p"

definition order_kept :: "broker_order \<Rightarrow> broker_order \<Rightarrow> bool" where
  "order_kept b c \<longleftrightarrow>
     list_all2 text_kept [bo_broker_order_id b, bo_client_order_id b, bo_status b, bo_asset_class b, bo_order_type b,
         bo_order_class b, bo_time_in_force b]
       [bo_broker_order_id c, bo_client_order_id c, bo_status c, bo_asset_class c, bo_order_type c,
         bo_order_class c, bo_time_in_force c] \<and>
     list_all2 (rel_option text_kept) [bo_symbol b, bo_side b] [bo_symbol c, bo_side c] \<and>
     amount_kept (bo_filled_quantity b) (bo_filled_quantity c) \<and>
     list_all2 (rel_option amount_kept) [bo_quantity b, bo_filled_average_price b, bo_limit_price b]
       [bo_quantity c, bo_filled_average_price c, bo_limit_price c] \<and>
     bo_submitted_at c = bo_submitted_at b \<and> bo_created_at c = bo_created_at b \<and> bo_updated_at c = bo_updated_at b \<and>
     bo_legs c = bo_legs b"

lemma optional_kept:
  "rel_option amount_kept v (map_option numeric_24_8 v)"
  "optional_varchar_fits n t \<Longrightarrow> rel_option text_kept t (map_option (varchar n) t)"
  by (cases v; simp add: numeric_kept) (cases t; simp add: optional_varchar_fits_def varchar_kept)

lemma columns_keep:
  "account_fits a \<Longrightarrow> account_kept a (account_columns a)"
  "position_fits p \<Longrightarrow> position_kept p (position_columns p)"
  "order_fits b \<Longrightarrow> order_kept b (order_columns b)"
  by (simp_all add: account_fits_def account_kept_def account_columns_def position_fits_def position_kept_def
      position_columns_def order_fits_def order_kept_def order_columns_def numeric_kept varchar_kept optional_kept)

lemma snapshot_keeps:
  assumes "snapshot_fits snap"
  shows "account_kept (rs_account snap) (account_columns (rs_account snap))"
    and "list_all2 position_kept (rs_positions snap) (map position_columns (rs_positions snap))"
    and "list_all2 order_kept (rs_open_orders snap) (map order_columns (rs_open_orders snap))"
  using assms columns_keep
  by (auto simp: snapshot_fits_def list_all_iff list_all2_map2 list_all2_same)

lemma varchar_short [simp]: "length s \<le> n \<Longrightarrow> varchar n s = s" "length s \<le> n \<Longrightarrow> varchar_fits n s"
  by (simp_all add: varchar_def varchar_fits_def)

lemma numeric_whole [simp]:
  "numeric_24_8 0 = 0" "numeric_24_8 1 = 1" "numeric_24_8 (numeral k) = numeral k"
  using numeric_kept [of 0] numeric_kept [of 1] numeric_kept [of "numeral k"] by (auto simp: amount_kept_def)

lemma columns_flags [simp]:
  "ba_account_blocked (account_columns a) = ba_account_blocked a"
  "ba_trading_blocked (account_columns a) = ba_trading_blocked a"
  "ba_trade_suspended_by_user (account_columns a) = ba_trade_suspended_by_user a"
  by (simp_all add: account_columns_def)

end
