(* ===== verification/Broker_Projections.thy ===== *)
theory Broker_Projections
  imports Broker_Columns "HOL-Library.AList"
begin

text \<open>
  \<open>packages/broker/projections.py\<close> and \<open>packages/broker/reconciliation.py\<close>: the local projection of the
  broker's account, positions and orders, in its database and in-memory forms, the reconciliation
  service that feeds it and the gate that decides from it whether orders may be sent.

  The four tables are lists of rows (the workspace and the object); a unique constraint that an insert
  would violate raises and rolls the transaction back.  A value is stored as its column keeps it, or refused
  (\<open>Broker_Columns\<close>); where values are refused and keys clash at once, the model gives the error of the values.  The
  broker's snapshot and its stream of trade updates are arguments.
\<close>

section \<open>Counting divergences\<close>

text \<open>\<open>len(a ^ b)\<close> of the sets of two lists of keys.\<close>

definition sym_diff_count :: "'a list \<Rightarrow> 'a list \<Rightarrow> int" where
  "sym_diff_count xs ys = int (length (remdups (filter (\<lambda>x. x \<notin> set ys) xs)) +
     length (remdups (filter (\<lambda>y. y \<notin> set xs) ys)))"

lemma sym_diff_count_card: "sym_diff_count xs ys = int (card ((set xs - set ys) \<union> (set ys - set xs)))"
proof -
  have "length (remdups (filter P zs)) = card {z \<in> set zs. P z}" for P and zs :: "'a list"
    by (simp add: length_remdups_card_conv)
  moreover have "(set xs - set ys) \<inter> (set ys - set xs) = {}" by blast
  ultimately show ?thesis by (simp add: sym_diff_count_def card_Un_disjoint set_diff_eq)
qed

lemma sym_diff_count_zero: "sym_diff_count xs ys = 0 \<longleftrightarrow> set xs = set ys"
  by (auto simp: sym_diff_count_card)

section \<open>The projection in the database\<close>

record broker_db =
  bd_sync :: "uuid \<rightharpoonup> broker_sync_status"
  bd_accounts :: "(uuid \<times> broker_account) list"
  bd_positions :: "(uuid \<times> broker_position) list"
  bd_orders :: "(uuid \<times> broker_order) list"

definition integrity_error :: py_error where
  "integrity_error = External ''IntegrityError''"

definition rows_of :: "uuid \<Rightarrow> (uuid \<times> 'a) list \<Rightarrow> 'a list" where
  "rows_of ws rows = map snd (filter (\<lambda>r. fst r = ws) rows)"

definition delete_of :: "uuid \<Rightarrow> (uuid \<times> 'a) list \<Rightarrow> (uuid \<times> 'a) list" where
  "delete_of ws rows = filter (\<lambda>r. fst r \<noteq> ws) rows"

text \<open>\<open>_state_for_update\<close>: the row of the workspace, created when it is missing.\<close>

definition state_for_update :: "uuid \<Rightarrow> broker_db \<Rightarrow> broker_sync_status" where
  "state_for_update ws db = or_else (bd_sync db ws) (new_sync_status NOT_CONFIGURED)"

definition put_state :: "uuid \<Rightarrow> broker_sync_status \<Rightarrow> broker_db \<Rightarrow> broker_db" where
  "put_state ws st db = db\<lparr>bd_sync := (bd_sync db)(ws \<mapsto> st)\<rparr>"

definition pg_mark_state :: "uuid \<Rightarrow> broker_state \<Rightarrow> string option \<Rightarrow> broker_db \<Rightarrow> broker_db" where
  "pg_mark_state ws state failure_reason db =
     put_state ws ((state_for_update ws db)\<lparr>ss_state := state, ss_failure_reason := failure_reason\<rparr>) db"

definition stream_disconnected :: string where
  "stream_disconnected = ''Alpaca trade_updates stream disconnected.''"

definition pg_set_stream_connected :: "uuid \<Rightarrow> bool \<Rightarrow> broker_db \<Rightarrow> broker_db" where
  "pg_set_stream_connected ws is_connected db =
     (let r = (state_for_update ws db)\<lparr>ss_stream_connected := is_connected\<rparr> in
      put_state ws
        (if \<not> is_connected \<and> ss_state r = RECONCILED
         then r\<lparr>ss_state := UNKNOWN, ss_failure_reason := Some stream_disconnected\<rparr> else r) db)"

definition pg_apply_reconciliation ::
  "uuid \<Rightarrow> reconciliation_snapshot \<Rightarrow> broker_db \<Rightarrow> (int \<times> broker_db) result" where
  "pg_apply_reconciliation ws snapshot db =
     (let state = state_for_update ws db;
          positions = map position_columns (rs_positions snapshot);
          orders = map order_columns (rs_open_orders snapshot);
          position_ids = map bp_asset_id (rs_positions snapshot);
          order_ids = map bo_broker_order_id (rs_open_orders snapshot);
          divergence =
            sym_diff_count (map bp_asset_id (rows_of ws (bd_positions db))) position_ids +
            sym_diff_count (map bo_broker_order_id (rows_of ws (bd_orders db))) order_ids
      in if \<not> snapshot_fits snapshot then Inl data_error
         else if \<not> distinct (map bp_asset_id positions) \<or> \<not> distinct (map bo_broker_order_id orders) \<or>
            \<not> distinct (map bo_client_order_id orders)
         then Inl integrity_error
         else Inr (divergence,
           \<lparr> bd_sync = (bd_sync db)(ws \<mapsto> state\<lparr>ss_state := RECONCILED,
               ss_last_reconciled_at := Some (rs_reconciled_at snapshot),
               ss_generation := ss_generation state + 1,
               ss_divergence_count := ss_divergence_count state + divergence,
               ss_failure_reason := None\<rparr>),
             bd_accounts = delete_of ws (bd_accounts db) @ [(ws, account_columns (rs_account snapshot))],
             bd_positions = delete_of ws (bd_positions db) @ map (Pair ws) positions,
             bd_orders = delete_of ws (bd_orders db) @ map (Pair ws) orders \<rparr>))"

text \<open>The upsert on the workspace and the broker's order id; the client order id is unique too.\<close>

definition same_order :: "uuid \<Rightarrow> broker_order \<Rightarrow> uuid \<times> broker_order \<Rightarrow> bool" where
  "same_order ws order r \<longleftrightarrow> fst r = ws \<and> bo_broker_order_id (snd r) = bo_broker_order_id order"

definition upsert_order :: "uuid \<Rightarrow> broker_order \<Rightarrow> (uuid \<times> broker_order) list \<Rightarrow> (uuid \<times> broker_order) list" where
  "upsert_order ws order rows =
     (if list_ex (same_order ws order) rows
      then map (\<lambda>r. if same_order ws order r then (ws, order) else r) rows
      else rows @ [(ws, order)])"

definition pg_apply_trade_update ::
  "uuid \<Rightarrow> broker_trade_update \<Rightarrow> broker_db \<Rightarrow> broker_db result" where
  "pg_apply_trade_update ws update db =
     (let order = order_columns (tu_order update) in
      if \<not> order_fits (tu_order update) then Inl data_error
      else if list_ex (\<lambda>r. fst r = ws \<and> \<not> same_order ws order r \<and>
          bo_client_order_id (snd r) = bo_client_order_id order) (bd_orders db)
      then Inl integrity_error
      else Inr (put_state ws
        ((state_for_update ws db)\<lparr>ss_last_stream_event_at := Some (tu_occurred_at update),
           ss_stream_connected := True\<rparr>)
        (db\<lparr>bd_orders := upsert_order ws order (bd_orders db)\<rparr>)))"

definition pg_get_status :: "uuid \<Rightarrow> broker_db \<Rightarrow> broker_sync_status" where
  "pg_get_status ws db = (case bd_sync db ws of None \<Rightarrow> new_sync_status NOT_CONFIGURED | Some r \<Rightarrow> r)"

definition pg_get_account :: "uuid \<Rightarrow> broker_db \<Rightarrow> broker_account option" where
  "pg_get_account ws db = (case rows_of ws (bd_accounts db) of [] \<Rightarrow> None | a # _ \<Rightarrow> Some a)"

definition pg_list_positions :: "uuid \<Rightarrow> broker_db \<Rightarrow> broker_position list" where
  "pg_list_positions ws db = sort_key bp_symbol (rows_of ws (bd_positions db))"

definition pg_list_orders :: "uuid \<Rightarrow> broker_db \<Rightarrow> broker_order list" where
  "pg_list_orders ws db = sort_key (\<lambda>r. - bo_created_at r) (rows_of ws (bd_orders db))"

section \<open>The projection in memory\<close>

record memory_projection =
  mp_status :: broker_sync_status
  mp_account :: "broker_account option"
  mp_positions :: "(string \<times> broker_position) list"
  mp_orders :: "(string \<times> broker_order) list"

definition memory_projection_init :: memory_projection where
  "memory_projection_init = \<lparr> mp_status = new_sync_status NOT_CONFIGURED, mp_account = None,
     mp_positions = [], mp_orders = [] \<rparr>"

text \<open>\<open>{key(x): x for x in xs}\<close>\<close>

definition dict_by :: "('a \<Rightarrow> string) \<Rightarrow> 'a list \<Rightarrow> (string \<times> 'a) list" where
  "dict_by key xs = fold (\<lambda>x. AList.update (key x) x) xs []"

definition memory_mark_state :: "broker_state \<Rightarrow> string option \<Rightarrow> memory_projection \<Rightarrow> memory_projection" where
  "memory_mark_state state failure_reason m =
     m\<lparr>mp_status := (mp_status m)\<lparr>ss_state := state, ss_failure_reason := failure_reason\<rparr>\<rparr>"

definition memory_set_stream_connected :: "bool \<Rightarrow> memory_projection \<Rightarrow> memory_projection" where
  "memory_set_stream_connected is_connected m =
     (let next_state = (if is_connected then ss_state (mp_status m) else UNKNOWN) in
      m\<lparr>mp_status := (mp_status m)\<lparr>ss_stream_connected := is_connected, ss_state := next_state\<rparr>\<rparr>)"

definition memory_apply_reconciliation ::
  "reconciliation_snapshot \<Rightarrow> memory_projection \<Rightarrow> (int \<times> memory_projection) result" where
  "memory_apply_reconciliation snapshot m =
     (let divergence =
        sym_diff_count (map fst (mp_positions m)) (map bp_asset_id (rs_positions snapshot)) +
        sym_diff_count (map fst (mp_orders m)) (map bo_broker_order_id (rs_open_orders snapshot))
      in Inr (divergence,
        \<lparr> mp_status = (new_sync_status RECONCILED)\<lparr>
            ss_last_reconciled_at := Some (rs_reconciled_at snapshot),
            ss_stream_connected := ss_stream_connected (mp_status m),
            ss_generation := ss_generation (mp_status m) + 1,
            ss_divergence_count := ss_divergence_count (mp_status m) + divergence\<rparr>,
          mp_account = Some (rs_account snapshot),
          mp_positions = dict_by bp_asset_id (rs_positions snapshot),
          mp_orders = dict_by bo_broker_order_id (rs_open_orders snapshot) \<rparr>))"

definition memory_apply_trade_update ::
  "broker_trade_update \<Rightarrow> memory_projection \<Rightarrow> memory_projection result" where
  "memory_apply_trade_update update m =
     Inr (m\<lparr>mp_orders := AList.update (bo_broker_order_id (tu_order update)) (tu_order update) (mp_orders m),
       mp_status := (mp_status m)\<lparr>ss_last_stream_event_at := Some (tu_occurred_at update),
         ss_stream_connected := True\<rparr>\<rparr>)"

definition memory_list_positions :: "memory_projection \<Rightarrow> broker_position list" where
  "memory_list_positions m = map snd (mp_positions m)"

definition memory_list_orders :: "memory_projection \<Rightarrow> broker_order list" where
  "memory_list_orders m = map snd (mp_orders m)"

section \<open>The execution gate\<close>

record execution_gate_decision =
  eg_allowed :: bool
  eg_reason :: string

definition deny :: "string \<Rightarrow> execution_gate_decision" where
  "deny reason = \<lparr> eg_allowed = False, eg_reason = reason \<rparr>"

definition broker_gate_evaluate ::
  "int \<Rightarrow> instant \<Rightarrow> broker_sync_status \<Rightarrow> broker_account option \<Rightarrow> execution_gate_decision" where
  "broker_gate_evaluate maximum_age now status account =
     (if ss_state status \<noteq> RECONCILED
      then deny (''Broker state is '' @ broker_state_text (ss_state status) @ ''; reconciliation is required.'')
      else case ss_last_reconciled_at status of
        None \<Rightarrow> deny ''Reconciliation timestamp is unknown.''
      | Some t \<Rightarrow>
        if now - t > maximum_age then deny ''Broker reconciliation is stale.''
        else if \<not> ss_stream_connected status then deny ''Alpaca trade_updates stream is not connected.''
        else case account of
          None \<Rightarrow> deny ''Broker account projection is absent.''
        | Some a \<Rightarrow>
          if ba_account_blocked a \<or> ba_trading_blocked a \<or> ba_trade_suspended_by_user a
          then deny ''Alpaca account is blocked or suspended.''
          else \<lparr> eg_allowed = True, eg_reason = ''Broker state is known and reconciled.'' \<rparr>)"

definition default_maximum_age :: int where
  "default_maximum_age = seconds 90"

section \<open>The reconciliation service\<close>

definition reconcile ::
  "(broker_state \<Rightarrow> string option \<Rightarrow> 's \<Rightarrow> 's) \<Rightarrow> (reconciliation_snapshot \<Rightarrow> 's \<Rightarrow> (int \<times> 's) result) \<Rightarrow>
   reconciliation_snapshot result \<Rightarrow> 's \<Rightarrow> int result \<times> 's"
where
  "reconcile mark_state apply_reconciliation snapshot s =
     (let s1 = mark_state RECONCILING None s in
      case rbind snapshot (\<lambda>snap. apply_reconciliation snap s1) of
        Inl e \<Rightarrow> (Inl e, mark_state UNKNOWN (Some (''Reconciliation failed: '' @ error_name e)) s1)
      | Inr (divergence_count, s2) \<Rightarrow> (Inr divergence_count, s2))"

text \<open>How the stream of trade updates ends: normally, with an exception, or by the cancellation of
  the consuming task (which only \<open>finally\<close> sees).\<close>

datatype stream_end = Ends | Raises py_error | Cancelled

fun apply_updates ::
  "(broker_trade_update \<Rightarrow> 's \<Rightarrow> 's result) \<Rightarrow> broker_trade_update list \<Rightarrow> stream_end \<Rightarrow> 's \<Rightarrow> stream_end \<times> 's"
where
  "apply_updates apply_trade_update [] fin s = (fin, s)"
| "apply_updates apply_trade_update (u # us) fin s =
     (case apply_trade_update u s of
       Inl e \<Rightarrow> (Raises e, s)
     | Inr s' \<Rightarrow> apply_updates apply_trade_update us fin s')"

definition consume_trade_updates ::
  "(broker_state \<Rightarrow> string option \<Rightarrow> 's \<Rightarrow> 's) \<Rightarrow> (bool \<Rightarrow> 's \<Rightarrow> 's) \<Rightarrow>
   (broker_trade_update \<Rightarrow> 's \<Rightarrow> 's result) \<Rightarrow> broker_trade_update list \<Rightarrow> stream_end \<Rightarrow> 's \<Rightarrow> stream_end \<times> 's"
where
  "consume_trade_updates mark_state set_stream_connected apply_trade_update updates fin s =
     (case apply_updates apply_trade_update updates fin (set_stream_connected True s) of
       (Raises e, s1) \<Rightarrow>
         (Raises e, set_stream_connected False
           (mark_state UNKNOWN (Some stream_disconnected) (set_stream_connected False s1)))
     | (outcome, s1) \<Rightarrow> (outcome, set_stream_connected False s1))"

section \<open>What a projection store promises\<close>

locale projection_store =
  fixes mark_state :: "broker_state \<Rightarrow> string option \<Rightarrow> 's \<Rightarrow> 's"
    and set_stream_connected :: "bool \<Rightarrow> 's \<Rightarrow> 's"
    and apply_reconciliation :: "reconciliation_snapshot \<Rightarrow> 's \<Rightarrow> (int \<times> 's) result"
    and apply_trade_update :: "broker_trade_update \<Rightarrow> 's \<Rightarrow> 's result"
    and get_status :: "'s \<Rightarrow> broker_sync_status"
    and get_account :: "'s \<Rightarrow> broker_account option"
    and kept :: "broker_account \<Rightarrow> broker_account"
  assumes mark_status: "get_status (mark_state st why s) =
      (get_status s)\<lparr>ss_state := st, ss_failure_reason := why\<rparr>"
    and mark_account: "get_account (mark_state st why s) = get_account s"
    and connected_state: "ss_stream_connected (get_status (set_stream_connected b s)) = b"
    and disconnected_state: "ss_state (get_status (set_stream_connected False s)) \<noteq> RECONCILED"
    and connect_keeps: "ss_state (get_status (set_stream_connected True s)) = ss_state (get_status s)"
    and reconciled_status: "apply_reconciliation snap s = Inr (n, s') \<Longrightarrow>
      ss_state (get_status s') = RECONCILED \<and>
      ss_last_reconciled_at (get_status s') = Some (rs_reconciled_at snap) \<and>
      ss_stream_connected (get_status s') = ss_stream_connected (get_status s) \<and>
      ss_generation (get_status s') = ss_generation (get_status s) + 1 \<and>
      ss_divergence_count (get_status s') = ss_divergence_count (get_status s) + n \<and>
      get_account s' = Some (kept (rs_account snap))"
    and update_status: "apply_trade_update u s = Inr s' \<Longrightarrow>
      get_status s' = (get_status s)\<lparr>ss_last_stream_event_at := Some (tu_occurred_at u),
        ss_stream_connected := True\<rparr> \<and> get_account s' = get_account s"
    and kept_flags: "ba_account_blocked (kept a) = ba_account_blocked a \<and>
      ba_trading_blocked (kept a) = ba_trading_blocked a \<and>
      ba_trade_suspended_by_user (kept a) = ba_trade_suspended_by_user a"
begin

lemma reconcile_success:
  assumes "reconcile mark_state apply_reconciliation snapshot s = (Inr n, s')"
  shows "\<exists>snap. snapshot = Inr snap \<and> ss_state (get_status s') = RECONCILED \<and>
    ss_last_reconciled_at (get_status s') = Some (rs_reconciled_at snap) \<and>
    ss_stream_connected (get_status s') = ss_stream_connected (get_status s) \<and>
    ss_generation (get_status s') = ss_generation (get_status s) + 1 \<and>
    ss_divergence_count (get_status s') = ss_divergence_count (get_status s) + n \<and>
    get_account s' = Some (kept (rs_account snap)) \<and>
    apply_reconciliation snap (mark_state RECONCILING None s) = Inr (n, s')"
proof -
  obtain snap where snap: "snapshot = Inr snap"
    "apply_reconciliation snap (mark_state RECONCILING None s) = Inr (n, s')"
    using assms by (auto simp: reconcile_def Let_def guard_simps split: sum.splits)
  with reconciled_status [OF snap(2)] show ?thesis by (auto simp: mark_status)
qed

lemma reconcile_failure:
  assumes "reconcile mark_state apply_reconciliation snapshot s = (Inl e, s')"
  shows "get_status s' = (get_status s)\<lparr>ss_state := UNKNOWN,
      ss_failure_reason := Some (''Reconciliation failed: '' @ error_name e)\<rparr> \<and>
    get_account s' = get_account s"
  using assms by (auto simp: reconcile_def Let_def mark_status mark_account split: sum.splits)

lemma consume_disconnects:
  assumes "consume_trade_updates mark_state set_stream_connected apply_trade_update us fin s = (out, s')"
  shows "\<not> ss_stream_connected (get_status s') \<and> ss_state (get_status s') \<noteq> RECONCILED"
  using assms connected_state [of False] disconnected_state
  by (auto simp: consume_trade_updates_def split: prod.splits stream_end.splits)

end

interpretation memory_projections: projection_store memory_mark_state memory_set_stream_connected
  memory_apply_reconciliation memory_apply_trade_update mp_status mp_account id
  by unfold_locales
    (auto simp: memory_mark_state_def memory_set_stream_connected_def Let_def new_sync_status_def
      memory_apply_reconciliation_def memory_apply_trade_update_def)

lemma rows_of_delete [simp]: "rows_of ws (delete_of ws rows) = []"
  by (simp add: rows_of_def delete_of_def)

lemma rows_of_append [simp]: "rows_of ws (xs @ ys) = rows_of ws xs @ rows_of ws ys"
  by (simp add: rows_of_def)

lemma rows_of_Pair [simp]: "rows_of ws (map (Pair ws) xs) = xs"
  by (simp add: rows_of_def comp_def)

lemma rows_of_map_Pair [simp]: "rows_of ws (map (Pair ws \<circ> f) xs) = map f xs"
  by (simp add: rows_of_def comp_def filter_map)

lemma pg_status_state: "pg_get_status ws db = state_for_update ws db"
  by (auto simp: pg_get_status_def state_for_update_def or_else_def split: option.splits)

lemma state_put [simp]: "state_for_update ws (put_state v st db) = (if v = ws then st else state_for_update ws db)"
  by (auto simp: state_for_update_def put_state_def)

lemma account_put [simp]: "pg_get_account ws (put_state v st db) = pg_get_account ws db"
  by (simp add: pg_get_account_def put_state_def)

interpretation pg_projections: projection_store "pg_mark_state ws" "pg_set_stream_connected ws"
  "pg_apply_reconciliation ws" "pg_apply_trade_update ws" "pg_get_status ws" "pg_get_account ws" account_columns for ws
proof unfold_locales
  fix snap s n s' u st why b
  show "pg_apply_reconciliation ws snap s = Inr (n, s') \<Longrightarrow>
      ss_state (pg_get_status ws s') = RECONCILED \<and>
      ss_last_reconciled_at (pg_get_status ws s') = Some (rs_reconciled_at snap) \<and>
      ss_stream_connected (pg_get_status ws s') = ss_stream_connected (pg_get_status ws s) \<and>
      ss_generation (pg_get_status ws s') = ss_generation (pg_get_status ws s) + 1 \<and>
      ss_divergence_count (pg_get_status ws s') = ss_divergence_count (pg_get_status ws s) + n \<and>
      pg_get_account ws s' = Some (account_columns (rs_account snap))"
    by (auto simp: pg_apply_reconciliation_def Let_def pg_status_state pg_get_account_def
        rows_of_def delete_of_def split: if_splits) (simp_all add: state_for_update_def)
  show "pg_apply_trade_update ws u s = Inr s' \<Longrightarrow>
      pg_get_status ws s' = (pg_get_status ws s)\<lparr>ss_last_stream_event_at := Some (tu_occurred_at u),
        ss_stream_connected := True\<rparr> \<and> pg_get_account ws s' = pg_get_account ws s"
    by (auto simp: pg_apply_trade_update_def Let_def pg_status_state pg_get_account_def put_state_def
        split: if_splits) (simp_all add: state_for_update_def)
qed (auto simp: pg_mark_state_def pg_set_stream_connected_def Let_def pg_status_state)

end
