(* ===== verification/Broker_Properties.thy ===== *)
theory Broker_Properties
  imports Broker_Projections Execution_Properties
begin

text \<open>
  What the broker projection promises: when the gate lets orders through, what a reconciliation and
  the end of the update stream leave behind, and that workspaces are separate.
\<close>

text \<open>The broker gate allows execution exactly when the projection is reconciled, not older than
  the maximum age, the stream of trade updates is connected, and an account is known that is neither
  blocked nor suspended.\<close>

theorem broker_gate_allows:
  "eg_allowed (broker_gate_evaluate maximum_age now status account) \<longleftrightarrow>
    ss_state status = RECONCILED \<and> ss_stream_connected status \<and>
    (\<exists>t. ss_last_reconciled_at status = Some t \<and> now \<le> t + maximum_age) \<and>
    (\<exists>a. account = Some a \<and> \<not> ba_account_blocked a \<and> \<not> ba_trading_blocked a \<and>
      \<not> ba_trade_suspended_by_user a)"
  by (auto simp: broker_gate_evaluate_def deny_def split: option.splits)

definition sample_account :: broker_account where
  "sample_account = \<lparr> ba_account_id = ''acc'', ba_account_number = ''PA1'', ba_status = ''ACTIVE'',
     ba_currency = ''USD'', ba_equity = 100000, ba_cash = 100000, ba_buying_power = 200000,
     ba_options_buying_power = Some 100000, ba_last_equity = 100000, ba_trading_blocked = False,
     ba_account_blocked = False, ba_trade_suspended_by_user = False, ba_as_of = 0 \<rparr>"

definition sample_position :: "string \<Rightarrow> broker_position" where
  "sample_position s = \<lparr> bp_asset_id = s, bp_symbol = s, bp_asset_class = ''us_option'', bp_side = ''long'',
     bp_quantity = 1, bp_quantity_available = None, bp_average_entry_price = 2, bp_market_value = None,
     bp_cost_basis = 200, bp_unrealized_pl = 0, bp_current_price = None, bp_as_of = 0 \<rparr>"

definition sample_snapshot :: reconciliation_snapshot where
  "sample_snapshot = \<lparr> rs_account = sample_account, rs_positions = [sample_position ''B'', sample_position ''A''],
     rs_open_orders = [sample_order], rs_reconciled_at = seconds 10 \<rparr>"

definition empty_broker_db :: broker_db where
  "empty_broker_db = \<lparr> bd_sync = Map.empty, bd_accounts = [], bd_positions = [], bd_orders = [] \<rparr>"

abbreviation pg_reconcile ::
  "uuid \<Rightarrow> reconciliation_snapshot result \<Rightarrow> broker_db \<Rightarrow> int result \<times> broker_db" where
  "pg_reconcile ws \<equiv> reconcile (pg_mark_state ws) (pg_apply_reconciliation ws)"

lemma sample_rows_fit:
  "account_columns sample_account = sample_account" "account_fits sample_account"
  "length s \<le> 48 \<Longrightarrow> position_columns (sample_position s) = sample_position s"
  "length s \<le> 48 \<Longrightarrow> position_fits (sample_position s)"
  "order_columns sample_order = sample_order" "order_fits sample_order"
  by (simp_all add: account_columns_def position_columns_def order_columns_def account_fits_def position_fits_def
      order_fits_def numeric_fits_def optional_fits_def optional_varchar_fits_def sample_account_def
      sample_position_def sample_order_def)

lemma sample_snapshot_columns:
  "snapshot_fits sample_snapshot" "account_columns (rs_account sample_snapshot) = rs_account sample_snapshot"
  "map position_columns (rs_positions sample_snapshot) = rs_positions sample_snapshot"
  "map order_columns (rs_open_orders sample_snapshot) = rs_open_orders sample_snapshot"
  by (simp_all add: snapshot_fits_def sample_snapshot_def sample_rows_fit)

lemma pg_reconcile_sample:
  "pg_reconcile ''ws'' (Inr sample_snapshot) empty_broker_db =
    (Inr 3, snd (pg_reconcile ''ws'' (Inr sample_snapshot) empty_broker_db))"
  by (simp add: reconcile_def Let_def pg_apply_reconciliation_def sample_snapshot_columns)
    (simp add: sample_snapshot_def sample_position_def
      pg_mark_state_def put_state_def empty_broker_db_def rows_of_def sym_diff_count_def)

section \<open>Reconciliation\<close>

lemma pg_apply_tables:
  assumes "pg_apply_reconciliation ws snap db = Inr (n, db')"
  shows "snapshot_fits snap \<and> rows_of ws (bd_positions db') = map position_columns (rs_positions snap) \<and>
    rows_of ws (bd_orders db') = map order_columns (rs_open_orders snap) \<and>
    n = sym_diff_count (map bp_asset_id (rows_of ws (bd_positions db))) (map bp_asset_id (rs_positions snap)) +
      sym_diff_count (map bo_broker_order_id (rows_of ws (bd_orders db)))
        (map bo_broker_order_id (rs_open_orders snap))"
  using assms by (auto simp: pg_apply_reconciliation_def Let_def split: if_splits)

lemma pg_mark_tables:
  "bd_positions (pg_mark_state ws st why db) = bd_positions db"
  "bd_orders (pg_mark_state ws st why db) = bd_orders db"
  "bd_accounts (pg_mark_state ws st why db) = bd_accounts db"
  by (simp_all add: pg_mark_state_def put_state_def)

text \<open>A successful reconciliation makes the broker win: the projection then holds exactly the
  broker's account, positions (by symbol) and orders (newest first) as their columns keep them, the generation is
  counted up, the reported number is the number of positions and orders known to only one side, and reconciling with
  the same snapshot again reports no divergence, if the columns keep the keys as they are.\<close>

theorem reconciliation_broker_wins:
  assumes "pg_reconcile ws snapshot db = (Inr n, db')"
  shows "\<exists>snap. snapshot = Inr snap \<and> pg_get_account ws db' = Some (account_columns (rs_account snap)) \<and>
    pg_list_positions ws db' = sort_key bp_symbol (map position_columns (rs_positions snap)) \<and>
    pg_list_orders ws db' = sort_key (\<lambda>r. - bo_created_at r) (map order_columns (rs_open_orders snap)) \<and>
    ss_generation (pg_get_status ws db') = ss_generation (pg_get_status ws db) + 1 \<and>
    n = int (card (sym_diff (bp_asset_id ` set (rows_of ws (bd_positions db))) (bp_asset_id ` set (rs_positions snap)))) +
        int (card (sym_diff (bo_broker_order_id ` set (rows_of ws (bd_orders db)))
          (bo_broker_order_id ` set (rs_open_orders snap)))) \<and>
    (list_all (\<lambda>p. length (bp_asset_id p) \<le> 64) (rs_positions snap) \<and>
       list_all (\<lambda>b. length (bo_broker_order_id b) \<le> 64) (rs_open_orders snap) \<longrightarrow>
     fst (pg_reconcile ws (Inr snap) db') = Inr 0)"
proof -
  obtain snap where s: "snapshot = Inr snap" "pg_get_account ws db' = Some (account_columns (rs_account snap))"
    "ss_generation (pg_get_status ws db') = ss_generation (pg_get_status ws db) + 1"
    and ap: "pg_apply_reconciliation ws snap (pg_mark_state ws RECONCILING None db) = Inr (n, db')"
    using pg_projections.reconcile_success [OF assms] by blast
  note t = pg_apply_tables [OF ap, unfolded pg_mark_tables]
  let ?m = "pg_mark_state ws RECONCILING None db'"
  have "is_ok (pg_apply_reconciliation ws snap ?m)"
    using ap by (auto simp: pg_apply_reconciliation_def Let_def split: if_splits)
  then obtain k db'' where again: "pg_apply_reconciliation ws snap ?m = Inr (k, db'')"
    by (auto simp: is_ok_iff)
  have "fst (pg_reconcile ws (Inr snap) db') = Inr 0"
    if "list_all (\<lambda>p. length (bp_asset_id p) \<le> 64) (rs_positions snap)"
      "list_all (\<lambda>b. length (bo_broker_order_id b) \<le> 64) (rs_open_orders snap)"
  proof -
    have "map (bp_asset_id \<circ> position_columns) (rs_positions snap) = map bp_asset_id (rs_positions snap)"
      "map (bo_broker_order_id \<circ> order_columns) (rs_open_orders snap) = map bo_broker_order_id (rs_open_orders snap)"
      using that by (auto simp: list_all_iff position_columns_def order_columns_def)
    then have "k = 0"
      using pg_apply_tables [OF again, unfolded pg_mark_tables] t by (simp add: sym_diff_count_card)
    then show ?thesis using again by (simp add: reconcile_def Let_def)
  qed
  with s t show ?thesis
    by (auto simp: pg_list_positions_def pg_list_orders_def sym_diff_count_card)
qed

theorem reconciliation_broker_wins_witness:
  "pg_list_positions ''ws'' (snd (pg_reconcile ''ws'' (Inr sample_snapshot) empty_broker_db)) =
    sort_key bp_symbol [sample_position ''B'', sample_position ''A'']"
  using reconciliation_broker_wins [OF pg_reconcile_sample]
  by (auto simp: sample_snapshot_def sample_rows_fit simp del: sort_key_simps)

text \<open>C13. A reconciliation that fails (the broker raises, or the snapshot violates a unique key or does not fit the
  columns of the tables) leaves
  account, positions and orders as they were, names the error, and closes the gate; after one that
  succeeds the gate is open exactly when the stream was connected, the snapshot is fresh enough and the
  account is usable.\<close>

theorem reconciliation_moves_the_gate:
  assumes "pg_reconcile ws snapshot db = (r, db')"
  shows "case r of
      Inl e \<Rightarrow> pg_get_account ws db' = pg_get_account ws db \<and> bd_positions db' = bd_positions db \<and>
        bd_orders db' = bd_orders db \<and>
        ss_failure_reason (pg_get_status ws db') = Some (''Reconciliation failed: '' @ error_name e) \<and>
        \<not> eg_allowed (broker_gate_evaluate maximum_age now (pg_get_status ws db') (pg_get_account ws db'))
    | Inr n \<Rightarrow> \<exists>snap. snapshot = Inr snap \<and>
        (eg_allowed (broker_gate_evaluate maximum_age now (pg_get_status ws db') (pg_get_account ws db')) \<longleftrightarrow>
          ss_stream_connected (pg_get_status ws db) \<and> now \<le> rs_reconciled_at snap + maximum_age \<and>
          \<not> ba_account_blocked (rs_account snap) \<and> \<not> ba_trading_blocked (rs_account snap) \<and>
          \<not> ba_trade_suspended_by_user (rs_account snap))"
proof (cases r)
  case (Inl e)
  have "bd_positions db' = bd_positions db \<and> bd_orders db' = bd_orders db"
    using assms Inl by (auto simp: reconcile_def Let_def pg_mark_tables split: sum.splits)
  with pg_projections.reconcile_failure [OF assms [unfolded Inl]] show ?thesis
    by (simp add: Inl broker_gate_evaluate_def deny_def)
next
  case (Inr n)
  with pg_projections.reconcile_success [OF assms [unfolded Inr]] show ?thesis
    by (auto simp: broker_gate_evaluate_def deny_def)
qed

theorem reconciliation_moves_the_gate_witness:
  "\<not> eg_allowed (broker_gate_evaluate default_maximum_age (seconds 20)
    (pg_get_status ''ws'' (snd (pg_reconcile ''ws'' (Inr sample_snapshot) empty_broker_db)))
    (pg_get_account ''ws'' (snd (pg_reconcile ''ws'' (Inr sample_snapshot) empty_broker_db))))"
  using reconciliation_moves_the_gate [OF pg_reconcile_sample, of default_maximum_age "seconds 20"]
  by (auto simp: empty_broker_db_def pg_get_status_def new_sync_status_def)

section \<open>The stream of trade updates\<close>

text \<open>However the consumption of the trade updates ends (normally, by an exception of the stream or
  of an update, or by cancellation), the projection is left disconnected and not reconciled, so the
  gate denies every order from then on until a new reconciliation and a new connection.\<close>

theorem stream_end_closes_the_gate:
  assumes "consume_trade_updates (pg_mark_state ws) (pg_set_stream_connected ws) (pg_apply_trade_update ws)
      updates fin db = (outcome, db')"
  shows "\<not> ss_stream_connected (pg_get_status ws db') \<and> ss_state (pg_get_status ws db') \<noteq> RECONCILED \<and>
    \<not> eg_allowed (broker_gate_evaluate maximum_age now (pg_get_status ws db') (pg_get_account ws db'))"
  using pg_projections.consume_disconnects [OF assms] by (simp add: broker_gate_evaluate_def deny_def)

definition sample_update :: broker_trade_update where
  "sample_update = \<lparr> tu_event = ''fill'', tu_order = sample_order, tu_execution_id = None, tu_price = None,
     tu_quantity = None, tu_position_quantity = None, tu_occurred_at = seconds 12 \<rparr>"

theorem stream_end_closes_the_gate_witness:
  "\<not> ss_stream_connected (pg_get_status ''ws'' (snd (consume_trade_updates (pg_mark_state ''ws'')
    (pg_set_stream_connected ''ws'') (pg_apply_trade_update ''ws'') [sample_update] Cancelled empty_broker_db)))"
  using stream_end_closes_the_gate [of "''ws''" "[sample_update]" Cancelled empty_broker_db] by (metis surjective_pairing)

section \<open>Workspaces\<close>

definition same_projection :: "uuid \<Rightarrow> broker_db \<Rightarrow> broker_db \<Rightarrow> bool" where
  "same_projection v a b \<longleftrightarrow> bd_sync a v = bd_sync b v \<and> rows_of v (bd_accounts a) = rows_of v (bd_accounts b) \<and>
     rows_of v (bd_positions a) = rows_of v (bd_positions b) \<and> rows_of v (bd_orders a) = rows_of v (bd_orders b)"

lemma rows_of_delete_other: "v \<noteq> ws \<Longrightarrow> rows_of v (delete_of ws rows) = rows_of v rows"
  by (auto simp: rows_of_def delete_of_def intro!: arg_cong [where f = "map snd"] filter_cong)

lemma rows_of_Pair_other:
  "v \<noteq> ws \<Longrightarrow> rows_of v (map (Pair ws) xs) = []"
  "v \<noteq> ws \<Longrightarrow> rows_of v (map (Pair ws \<circ> f) xs) = []"
  by (simp_all add: rows_of_def filter_empty_conv)

lemma rows_of_single_other: "v \<noteq> ws \<Longrightarrow> rows_of v [(ws, x)] = []"
  by (simp add: rows_of_def)

lemma rows_of_upsert_other:
  assumes "v \<noteq> ws"
  shows "rows_of v (upsert_order ws order rows) = rows_of v rows"
proof -
  have "filter (\<lambda>r. fst r = v) (map (\<lambda>r. if same_order ws order r then (ws, order) else r) rows) =
      filter (\<lambda>r. fst r = v) rows"
    using assms by (intro filter_map_other) (auto simp: same_order_def)
  then show ?thesis using assms by (simp add: upsert_order_def rows_of_def)
qed

datatype projection_op = Mark broker_state "string option" | Connect bool
  | Reconcile_op reconciliation_snapshot | Update_op broker_trade_update

definition projection_do :: "uuid \<Rightarrow> projection_op \<Rightarrow> broker_db \<Rightarrow> broker_db" where
  "projection_do ws op db = (case op of
      Mark st why \<Rightarrow> pg_mark_state ws st why db
    | Connect b \<Rightarrow> pg_set_stream_connected ws b db
    | Reconcile_op snap \<Rightarrow> (case pg_apply_reconciliation ws snap db of Inl e \<Rightarrow> db | Inr (n, db') \<Rightarrow> db')
    | Update_op u \<Rightarrow> (case pg_apply_trade_update ws u db of Inl e \<Rightarrow> db | Inr db' \<Rightarrow> db'))"

lemma projection_do_other: "v \<noteq> ws \<Longrightarrow> same_projection v (projection_do ws op db) db"
  by (cases op)
    (auto simp: projection_do_def same_projection_def Let_def pg_mark_state_def pg_set_stream_connected_def Let_def
      put_state_def pg_apply_reconciliation_def pg_apply_trade_update_def rows_of_delete_other
      rows_of_Pair_other rows_of_upsert_other rows_of_single_other)

lemma same_projection_trans: "same_projection v a b \<Longrightarrow> same_projection v b c \<Longrightarrow> same_projection v a c"
  by (simp add: same_projection_def)

text \<open>No operation of one workspace's projection changes what any other workspace sees: status,
  account, positions and orders are the same before and after any sequence of operations.\<close>

theorem projection_isolates_workspaces:
  assumes "v \<noteq> ws"
  shows "pg_get_status v (fold (projection_do ws) ops db) = pg_get_status v db \<and>
    pg_get_account v (fold (projection_do ws) ops db) = pg_get_account v db \<and>
    pg_list_positions v (fold (projection_do ws) ops db) = pg_list_positions v db \<and>
    pg_list_orders v (fold (projection_do ws) ops db) = pg_list_orders v db"
proof -
  have "same_projection v (fold (projection_do ws) ops db) db"
  proof (induction ops arbitrary: db)
    case Nil
    then show ?case by (simp add: same_projection_def)
  next
    case (Cons op ops)
    then show ?case using projection_do_other [OF assms] same_projection_trans by fastforce
  qed
  then show ?thesis
    by (simp add: same_projection_def pg_get_status_def pg_get_account_def pg_list_positions_def pg_list_orders_def)
qed

theorem projection_isolates_workspaces_witness:
  "pg_list_orders ''b'' (fold (projection_do ''a'') [Connect True, Update_op sample_update] empty_broker_db) = []"
  using projection_isolates_workspaces [of "''b''" "''a''" "[Connect True, Update_op sample_update]" empty_broker_db]
  by (simp add: pg_list_orders_def empty_broker_db_def rows_of_def)

section \<open>The in-memory double\<close>

text \<open>The in-memory store is not a faithful double of the database-backed one: disconnecting the
  stream of a broker that was never configured gives \<open>UNKNOWN\<close> instead of \<open>NOT_CONFIGURED\<close>, and a
  reconciliation forgets the time of the last stream event, which the database keeps.\<close>

theorem memory_projection_diverges:
  "ss_state (mp_status (memory_set_stream_connected False memory_projection_init)) = UNKNOWN \<and>
   ss_state (pg_get_status ''ws'' (pg_set_stream_connected ''ws'' False empty_broker_db)) = NOT_CONFIGURED \<and>
   (\<exists>m n m' db k db'. memory_apply_trade_update sample_update memory_projection_init = Inr m \<and>
     memory_apply_reconciliation sample_snapshot m = Inr (n, m') \<and>
     pg_apply_trade_update ''ws'' sample_update empty_broker_db = Inr db \<and>
     pg_apply_reconciliation ''ws'' sample_snapshot db = Inr (k, db') \<and>
     ss_last_stream_event_at (mp_status m') = None \<and>
     ss_last_stream_event_at (pg_get_status ''ws'' db') = Some (seconds 12))"
  by (simp add: memory_set_stream_connected_def memory_projection_init_def Let_def new_sync_status_def
      pg_get_status_def pg_set_stream_connected_def put_state_def state_for_update_def empty_broker_db_def
      memory_apply_trade_update_def memory_apply_reconciliation_def pg_apply_trade_update_def
      pg_apply_reconciliation_def sample_snapshot_columns sample_update_def sample_rows_fit)
    (simp add: sample_snapshot_def sample_position_def)

end
