(* ===== verification/Py_Text.thy ===== *)
theory Py_Text
  imports Prelude
begin

text \<open>
  The methods of Python's \<open>str\<close> that the code uses, on ASCII text: \<open>lower\<close>, \<open>upper\<close>, \<open>strip\<close>, \<open>split\<close>,
  \<open>isalnum\<close>, \<open>startswith\<close> and \<open>join\<close> with a blank.  Characters outside ASCII are left as they are and
  count neither as blank nor as alphanumeric.
\<close>

definition code_of :: "char \<Rightarrow> int" where
  "code_of ch = of_char ch"

definition is_upper_char :: "char \<Rightarrow> bool" where
  "is_upper_char ch \<longleftrightarrow> 65 \<le> code_of ch \<and> code_of ch \<le> 90"

definition is_lower_char :: "char \<Rightarrow> bool" where
  "is_lower_char ch \<longleftrightarrow> 97 \<le> code_of ch \<and> code_of ch \<le> 122"

definition is_digit_char :: "char \<Rightarrow> bool" where
  "is_digit_char ch \<longleftrightarrow> 48 \<le> code_of ch \<and> code_of ch \<le> 57"

definition is_space_char :: "char \<Rightarrow> bool" where
  "is_space_char ch \<longleftrightarrow> code_of ch = 32 \<or> 9 \<le> code_of ch \<and> code_of ch \<le> 13 \<or> 28 \<le> code_of ch \<and> code_of ch \<le> 31"

definition lower_char :: "char \<Rightarrow> char" where
  "lower_char ch = (if is_upper_char ch then char_of (code_of ch + 32) else ch)"

definition upper_char :: "char \<Rightarrow> char" where
  "upper_char ch = (if is_lower_char ch then char_of (code_of ch - 32) else ch)"

definition py_lower :: "string \<Rightarrow> string" where
  "py_lower s = map lower_char s"

definition py_upper :: "string \<Rightarrow> string" where
  "py_upper s = map upper_char s"

definition strip_while :: "(char \<Rightarrow> bool) \<Rightarrow> string \<Rightarrow> string" where
  "strip_while P s = rev (dropWhile P (rev (dropWhile P s)))"

definition py_strip :: "string \<Rightarrow> string" where
  "py_strip s = strip_while is_space_char s"

definition py_strip_chars :: "string \<Rightarrow> string \<Rightarrow> string" where
  "py_strip_chars chars s = strip_while (\<lambda>ch. ch \<in> set chars) s"

text \<open>\<open>s.split()\<close>: maximal runs of non-blank characters; \<open>acc\<close> is the current run, reversed.\<close>

fun split_loop :: "string \<Rightarrow> string \<Rightarrow> string list" where
  "split_loop acc [] = (if acc = [] then [] else [rev acc])"
| "split_loop acc (ch # cs) =
     (if is_space_char ch then (if acc = [] then split_loop [] cs else rev acc # split_loop [] cs)
      else split_loop (ch # acc) cs)"

definition py_split :: "string \<Rightarrow> string list" where
  "py_split s = split_loop [] s"

definition py_isalnum :: "string \<Rightarrow> bool" where
  "py_isalnum s \<longleftrightarrow> s \<noteq> [] \<and>
     list_all (\<lambda>ch. is_upper_char ch \<or> is_lower_char ch \<or> is_digit_char ch) s"

definition py_startswith :: "string \<Rightarrow> string \<Rightarrow> bool" where
  "py_startswith s prefix \<longleftrightarrow> take (length prefix) s = prefix"

fun join_blank :: "string list \<Rightarrow> string" where
  "join_blank [] = ''''"
| "join_blank [x] = x"
| "join_blank (x # y # ys) = x @ '' '' @ join_blank (y # ys)"

section \<open>Facts\<close>

lemma upper_char_code:
  "code_of (upper_char ch) = (if is_lower_char ch then code_of ch - 32 else code_of ch)"
  by (auto simp: upper_char_def code_of_def is_lower_char_def take_bit_eq_mod)

lemma upper_char_not_lower [simp]: "\<not> is_lower_char (upper_char ch)"
  by (auto simp: is_lower_char_def [of "upper_char ch"] upper_char_code is_lower_char_def split: if_splits)

lemma upper_char_idem [simp]: "upper_char (upper_char ch) = upper_char ch"
  by (simp add: upper_char_def [of "upper_char ch"])

lemma py_upper_idem: "py_upper (py_upper s) = py_upper s"
  by (simp add: py_upper_def)

lemma space_upper [simp]: "is_space_char (upper_char ch) \<longleftrightarrow> is_space_char ch"
  by (auto simp: is_space_char_def upper_char_code is_lower_char_def split: if_splits)

lemma strip_while_ends:
  assumes "strip_while P s \<noteq> []"
  shows "\<not> P (hd (strip_while P s)) \<and> \<not> P (last (strip_while P s))"
proof -
  let ?t = "dropWhile P s"
  let ?u = "dropWhile P (rev ?t)"
  have ne: "?u \<noteq> []" using assms by (simp add: strip_while_def)
  have last: "\<not> P (hd ?u)" using ne by (rule hd_dropWhile)
  have "?t \<noteq> []" using ne by (metis dropWhile.simps(1) rev.simps(1))
  then have hd: "\<not> P (hd ?t)" by (rule hd_dropWhile)
  obtain pre where pre: "rev ?t = pre @ ?u" "list_all P pre"
    by (metis takeWhile_dropWhile_id list_all_iff set_takeWhileD)
  then have "?t = rev ?u @ rev pre" by (metis rev_append rev_rev_ident)
  then have "hd ?t = hd (rev ?u)" using ne by (metis hd_append2 rev_is_Nil_conv)
  with hd last ne show ?thesis by (simp add: strip_while_def last_rev hd_rev)
qed

lemma strip_while_fixed:
  assumes "s \<noteq> []" and "\<not> P (hd s)" and "\<not> P (last s)"
  shows "strip_while P s = s"
proof -
  have "dropWhile P s = s" using assms(1,2) by (cases s) auto
  moreover have "dropWhile P (rev s) = rev s"
    using assms(1,3) by (cases "rev s") (auto simp: hd_rev [symmetric])
  ultimately show ?thesis by (simp add: strip_while_def)
qed

lemma strip_while_idem: "strip_while P (strip_while P s) = strip_while P s"
proof (cases "strip_while P s = []")
  case True
  then show ?thesis by (simp only: True) (simp add: strip_while_def)
next
  case False
  then show ?thesis using strip_while_ends by (intro strip_while_fixed) auto
qed

end
