(* ===== verification/Connected.thy ===== *)
theory Connected
  imports Liquidity Order_Intents Broker_Properties Py_Text
begin

text \<open>
  \<open>packages/connected/opportunities.py\<close>: from live market data to an analysed opportunity.  The
  Alpaca SDK is code outside the repository: the snapshots, bars, headlines and option chain it
  returns, or the exception it raises, are arguments.  Fresh UUIDs and clock readings are arguments;
  the readings after the first are represented by one instant, \<open>later\<close>.
\<close>

section \<open>Features\<close>

definition positive_words :: "string list" where
  "positive_words = [''beats'', ''beat'', ''raises'', ''raised'', ''approval'', ''approved'', ''record'',
     ''growth'', ''wins'']"

definition negative_words :: "string list" where
  "negative_words = [''misses'', ''miss'', ''cuts'', ''cut'', ''lawsuit'', ''probe'', ''downgrade'', ''recall'',
     ''warning'']"

definition catalyst_words :: "string list" where
  "catalyst_words = positive_words @ negative_words @
     [''earnings'', ''guidance'', ''merger'', ''acquisition'', ''contract'', ''fda'']"

record market_bar =
  mb_open :: decimal
  mb_close :: decimal
  mb_volume :: decimal

record stock_snapshot =
  ms_latest_price :: "decimal option"
  ms_daily_bar :: "market_bar option"
  ms_previous_daily_bar :: "market_bar option"

record market_data =
  md_snapshots :: "(string \<times> stock_snapshot) list"
  md_bars :: "market_bar list"
  md_headlines :: "string list"

definition connected_clamp :: "decimal \<Rightarrow> decimal" where
  "connected_clamp value = min (max value (- 1)) 1"

definition news_words :: "string list \<Rightarrow> string list" where
  "news_words headlines = py_split (py_lower (join_blank headlines))"

definition hits :: "string list \<Rightarrow> string list \<Rightarrow> int" where
  "hits vocabulary words =
     int (length (filter (\<lambda>w. py_strip_chars ''.,:;!?()'' w \<in> set vocabulary) words))"

text \<open>\<open>value / max(base, 0.01) - 1\<close>\<close>

definition relative_move :: "decimal \<Rightarrow> decimal \<Rightarrow> decimal" where
  "relative_move value base = dsub (dquo value (max base (1 / 100))) 1"

definition confirmation :: "market_data \<Rightarrow> string \<Rightarrow> decimal" where
  "confirmation md index_symbol = (case map_of (md_snapshots md) index_symbol of
      None \<Rightarrow> 0
    | Some s \<Rightarrow> (case (ms_latest_price s, ms_daily_bar s) of
        (Some price, Some bar) \<Rightarrow> connected_clamp (dmul (relative_move price (mb_open bar)) 20)
      | _ \<Rightarrow> 0))"

definition news_sentiment :: "string list \<Rightarrow> decimal" where
  "news_sentiment words =
     (let positive = hits positive_words words; negative = hits negative_words words in
      connected_clamp (dquo (of_int (positive - negative)) (of_int (max (positive + negative) 1))))"

definition news_confidence :: "string list \<Rightarrow> string list \<Rightarrow> decimal" where
  "news_confidence headlines words =
     min 1 (dadd (dadd (3 / 20) (dmul (of_nat (length headlines)) (3 / 50)))
       (dmul (of_int (hits catalyst_words words)) (2 / 25)))"

definition connected_features ::
  "string \<Rightarrow> market_data \<Rightarrow> (catalyst_features \<times> decimal) result" where
  "connected_features symbol md = (case map_of (md_snapshots md) symbol of
      None \<Rightarrow> Inl (KeyError symbol)
    | Some stock \<Rightarrow>
      (case (ms_latest_price stock, ms_daily_bar stock, ms_previous_daily_bar stock) of
        (Some price, Some daily, Some previous) \<Rightarrow>
          let average_volume = dquo (dsum (map mb_volume (md_bars md)))
                (of_int (max (int (length (md_bars md))) 1));
              relative_volume = dquo (mb_volume daily) (max average_volume 1);
              words = news_words (md_headlines md)
          in rbind (validated catalyst_features_valid ''CatalystFeatures''
            \<lparr> cf_catalyst_confidence = news_confidence (md_headlines md) words,
              cf_sentiment = news_sentiment words,
              cf_relative_volume = max relative_volume 0,
              cf_price_momentum = connected_clamp (dmul (relative_move price (mb_open daily)) 20),
              cf_gap_percent = dmul (relative_move (mb_open daily) (mb_close previous)) 100,
              cf_market_confirmation = confirmation md ''SPY'',
              cf_sector_confirmation = confirmation md ''QQQ'',
              cf_liquidity_score = 3 / 4 \<rparr>) (\<lambda>features.
          Inr (features, price))
      | _ \<Rightarrow> Inl (ValueError ''Current and previous market snapshots are required'')))"

section \<open>Choosing a structure\<close>

record option_chain_query =
  cq_underlying_symbol :: string
  cq_expiration_date_gte :: day
  cq_expiration_date_lte :: day
  cq_strike_price_gte :: "decimal option"
  cq_strike_price_lte :: "decimal option"

definition chain_query :: "string \<Rightarrow> day \<Rightarrow> decimal \<Rightarrow> option_chain_query" where
  "chain_query symbol today price = \<lparr> cq_underlying_symbol = symbol,
     cq_expiration_date_gte = today + 14, cq_expiration_date_lte = today + 45,
     cq_strike_price_gte = Some (dmul price (17 / 20)), cq_strike_price_lte = Some (dmul price (23 / 20)) \<rparr>"

definition connected_liquidity_policy :: "string \<Rightarrow> liquidity_policy" where
  "connected_liquidity_policy symbol = \<lparr> lp_supported_underlyings = [symbol], lp_min_dte = 14,
     lp_max_dte = 45, lp_max_spread_ratio = 1 / 5, lp_min_open_interest = Some 25,
     lp_min_quote_size = 1, lp_max_strike_distance_ratio = 3 / 10, lp_max_quote_age_seconds = 120,
     lp_require_greeks = True \<rparr>"

definition wanted_type :: "trade_idea \<Rightarrow> option_type" where
  "wanted_type idea = (if ti_direction idea = BULLISH then CALL else PUT)"

text \<open>The reading \<open>now\<close> is timezone-aware, so \<open>evaluate_contract\<close> does not raise here.\<close>

definition eligible_contracts ::
  "string \<Rightarrow> option_type \<Rightarrow> decimal \<Rightarrow> instant \<Rightarrow> option_contract list \<Rightarrow> option_contract list" where
  "eligible_contracts symbol wanted price now contracts =
     filter (\<lambda>c. oc_option_type c = wanted \<and>
       (case evaluate_contract c price (connected_liquidity_policy symbol) (Aware now) of
          Inl _ \<Rightarrow> False | Inr r \<Rightarrow> er_eligible r)) contracts"

definition expirations :: "option_contract list \<Rightarrow> day list" where
  "expirations contracts = sort (remdups (map oc_expiration contracts))"

definition first_expiration :: "option_contract list \<Rightarrow> option_contract list" where
  "first_expiration eligible =
     sort_key oc_strike (filter (\<lambda>c. oc_expiration c = hd (expirations eligible)) eligible)"

text \<open>\<open>min(range(len(xs)), key=...)\<close>: the first index with the smallest key.\<close>

fun min_index_loop :: "decimal \<Rightarrow> nat \<Rightarrow> nat \<Rightarrow> decimal list \<Rightarrow> nat" where
  "min_index_loop best at_best i [] = at_best"
| "min_index_loop best at_best i (x # xs) =
     (if x < best then min_index_loop x i (Suc i) xs else min_index_loop best at_best (Suc i) xs)"

fun min_index :: "decimal list \<Rightarrow> nat" where
  "min_index [] = 0"
| "min_index (x # xs) = min_index_loop x 0 1 xs"

definition choose_legs ::
  "option_type \<Rightarrow> decimal \<Rightarrow> option_contract list \<Rightarrow> structure_type \<times> option_contract \<times> option_contract" where
  "choose_legs wanted price selected =
     (let nearest = min_index (map (\<lambda>c. dabs (dsub (oc_strike c) price)) selected) in
      if wanted = CALL then
        let i = (if nearest = length selected - 1 then nearest - 1 else nearest) in
        (BULL_CALL_DEBIT_SPREAD, selected ! i, selected ! (i + 1))
      else
        let i = (if nearest = 0 then 1 else nearest) in
        (BEAR_PUT_DEBIT_SPREAD, selected ! i, selected ! (i - 1)))"

definition spread_of ::
  "structure_type \<Rightarrow> option_contract \<Rightarrow> option_contract \<Rightarrow> option_structure result" where
  "spread_of st long_contract short_contract =
     rbind (validated option_leg_valid ''OptionLeg''
       \<lparr> ol_contract = long_contract, ol_side = LONG, ol_ratio = 1,
         ol_entry_price = oq_ask (oc_quote long_contract) \<rparr>) (\<lambda>long.
     rbind (validated option_leg_valid ''OptionLeg''
       \<lparr> ol_contract = short_contract, ol_side = SHORT, ol_ratio = 1,
         ol_entry_price = oq_bid (oc_quote short_contract) \<rparr>) (\<lambda>short.
     build_structure st [long, short] 1 None))"

section \<open>The risk context of a connected account\<close>

definition account_risk_context ::
  "broker_account \<Rightarrow> broker_position list \<Rightarrow> bool \<Rightarrow> risk_context result" where
  "account_risk_context account positions broker_allowed =
     (let lost = max (dsub (ba_last_equity account) (ba_equity account)) 0 in
      validated risk_context_valid ''RiskContext''
       \<lparr> rk_paper_equity = ba_equity account, rk_open_planned_loss = 0, rk_underlying_open_risk = 0,
         rk_daily_loss = lost,
         rk_drawdown_percent = dmul (dquo lost (max (ba_last_equity account) 1)) 100,
         rk_concurrent_option_structures = int (length positions),
         rk_portfolio_delta = 0, rk_portfolio_gamma = 0, rk_portfolio_theta = 0, rk_portfolio_vega = 0,
         rk_broker_execution_allowed = broker_allowed, rk_duplicate_logical_order = False \<rparr>)"

section \<open>The analysis\<close>

datatype disposition = NO_TRADE | UNAVAILABLE | TRADE | RISK_REJECTED

record connected_analysis =
  an_opportunity_id :: uuid
  an_scan_run_id :: "uuid option"
  an_symbol :: string
  an_disposition :: disposition
  an_source :: string
  an_observed_at :: instant
  an_expires_at :: instant
  an_signal :: signal
  an_trade_idea :: "trade_idea option"
  an_candidate :: "ranked_candidate option"
  an_risk_decision :: "risk_decision option"
  an_order_intent :: "order_intent option"
  an_reason_codes :: "string list"

record fresh_ids =
  fi_signal :: uuid
  fi_idea :: uuid
  fi_opportunity :: uuid
  fi_structure :: "nat \<Rightarrow> uuid"
  fi_risk :: uuid
  fi_intent :: uuid

definition two_minutes :: int where
  "two_minutes = seconds 120"

definition analysis_base :: "fresh_ids \<Rightarrow> uuid option \<Rightarrow> instant \<Rightarrow> signal \<Rightarrow> disposition \<Rightarrow> connected_analysis" where
  "analysis_base ids scan now s d =
     \<lparr> an_opportunity_id = fi_opportunity ids, an_scan_run_id = scan, an_symbol = sg_symbol s,
       an_disposition = d, an_source = ''ALPACA_REAL'', an_observed_at = now,
       an_expires_at = now + two_minutes, an_signal = s, an_trade_idea = None, an_candidate = None,
       an_risk_decision = None, an_order_intent = None, an_reason_codes = [] \<rparr>"

definition unavailable ::
  "fresh_ids \<Rightarrow> uuid option \<Rightarrow> instant \<Rightarrow> signal \<Rightarrow> trade_idea \<Rightarrow> string \<Rightarrow> connected_analysis" where
  "unavailable ids scan now s idea reason =
     (analysis_base ids scan now s UNAVAILABLE)\<lparr>an_trade_idea := Some idea, an_reason_codes := [reason]\<rparr>"

text \<open>The last part of \<open>analyze\<close>: risk and order intent of a candidate.\<close>

definition decide ::
  "(string \<Rightarrow> string) \<Rightarrow> fresh_ids \<Rightarrow> uuid option \<Rightarrow> instant \<Rightarrow> instant \<Rightarrow> uuid \<Rightarrow> broker_db \<Rightarrow> signal \<Rightarrow> trade_idea \<Rightarrow>
   ranked_candidate \<Rightarrow> connected_analysis result"
where
  "decide sha ids scan now later ws db s idea candidate =
     (let gate = broker_gate_evaluate default_maximum_age now (pg_get_status ws db) (pg_get_account ws db) in
      case pg_get_account ws db of
        None \<Rightarrow> Inr (unavailable ids scan now s idea ''broker_account_unavailable'')
      | Some account \<Rightarrow>
        rbind (account_risk_context account (pg_list_positions ws db) (eg_allowed gate)) (\<lambda>context.
        rbind (risk_evaluate default_risk_policy (fi_risk ids) later candidate context) (\<lambda>risk.
        rbind (if rd_decision risk = APPROVE
          then rbind (create_order_intent sha (fi_intent ids) later risk candidate 1 None
            limit_at_calculated_net None) (\<lambda>i. Inr (Some i))
          else Inr None) (\<lambda>intent.
        Inr ((analysis_base ids scan now s (if intent \<noteq> None then TRADE else RISK_REJECTED))
          \<lparr>an_trade_idea := Some idea, an_candidate := Some candidate, an_risk_decision := Some risk,
           an_order_intent := intent\<rparr>)))))"

definition analyze_idea ::
  "(string \<Rightarrow> string) \<Rightarrow> fresh_ids \<Rightarrow> uuid option \<Rightarrow> instant \<Rightarrow> instant \<Rightarrow> day \<Rightarrow>
   (option_chain_query \<Rightarrow> option_contract list result) \<Rightarrow> uuid \<Rightarrow> broker_db \<Rightarrow> decimal \<Rightarrow> signal \<Rightarrow> trade_idea \<Rightarrow>
   connected_analysis result"
where
  "analyze_idea sha ids scan now later today get_chain ws db price s idea =
     rbind (get_chain (chain_query (sg_symbol s) today price)) (\<lambda>contracts.
     let wanted = wanted_type idea;
         eligible = eligible_contracts (sg_symbol s) wanted price now contracts;
         selected = first_expiration eligible
     in if expirations eligible = []
        then Inr (unavailable ids scan now s idea ''no_eligible_option_chain'')
        else if length selected < 2
        then Inr (unavailable ids scan now s idea ''insufficient_vertical_legs'')
        else case choose_legs wanted price selected of (st, long, short) \<Rightarrow>
          rbind (spread_of st long short) (\<lambda>structure.
          rbind (rank_candidates (fi_structure ids) idea [structure]) (\<lambda>ranked.
          case ranked of
            [] \<Rightarrow> Inl IndexError
          | candidate # _ \<Rightarrow> decide sha ids scan now later ws db s idea candidate)))"

definition normal_symbol :: "string \<Rightarrow> string result" where
  "normal_symbol symbol =
     (let normalized = py_upper (py_strip symbol) in
      if \<not> py_isalnum normalized \<or> length normalized > 16 then Inl (ValueError ''Invalid symbol'')
      else Inr normalized)"

definition connected_signal :: "fresh_ids \<Rightarrow> instant \<Rightarrow> string \<Rightarrow> catalyst_features \<Rightarrow> signal result" where
  "connected_signal ids now symbol features =
     rbind (score_signal features) (\<lambda>score.
     validated signal_valid ''Signal''
       \<lparr> sg_signal_id = fi_signal ids, sg_symbol = symbol, sg_observed_at = now, sg_features = features,
         sg_score = score, sg_source_versions = [(''market'', ''alpaca-real-v1''),
           (''news'', ''alpaca-real-v1''), (''options'', ''alpaca-real-v1'')] \<rparr>)"

definition analysis_of ::
  "(string \<Rightarrow> string) \<Rightarrow> fresh_ids \<Rightarrow> uuid option \<Rightarrow> instant \<Rightarrow> instant \<Rightarrow> day \<Rightarrow> (string \<Rightarrow> market_data result) \<Rightarrow>
   (option_chain_query \<Rightarrow> option_contract list result) \<Rightarrow> uuid \<Rightarrow> broker_db \<Rightarrow> string \<Rightarrow>
   connected_analysis result"
where
  "analysis_of sha ids scan now later today fetch get_chain ws db symbol =
     rbind (normal_symbol symbol) (\<lambda>normalized.
     rbind (rbind (fetch normalized) (connected_features normalized)) (\<lambda>(features, price).
     rbind (connected_signal ids now normalized features) (\<lambda>s.
     rbind (evaluate_signal default_catalyst_strategy (fi_idea ids) later s) (\<lambda>outcome.
     case outcome of
       No_trade n \<Rightarrow> Inr ((analysis_base ids scan now s NO_TRADE)\<lparr>an_reason_codes := nt_reason_codes n\<rparr>)
     | Idea idea \<Rightarrow> analyze_idea sha ids scan now later today get_chain ws db price s idea))))"

text \<open>\<open>_persist\<close>: one row per returned analysis; an exception persists nothing.\<close>

record opportunity_row =
  or_opportunity_id :: uuid
  or_workspace_id :: uuid
  or_scan_run_id :: "uuid option"
  or_symbol :: string
  or_state :: disposition
  or_source :: string
  or_payload :: connected_analysis
  or_observed_at :: instant
  or_expires_at :: instant
  or_created_at :: instant

definition opportunity_row_of :: "uuid \<Rightarrow> instant \<Rightarrow> connected_analysis \<Rightarrow> opportunity_row" where
  "opportunity_row_of ws later a = \<lparr> or_opportunity_id = an_opportunity_id a, or_workspace_id = ws,
     or_scan_run_id = an_scan_run_id a, or_symbol = an_symbol a, or_state = an_disposition a,
     or_source = ''ALPACA_REAL'', or_payload = a, or_observed_at = an_observed_at a,
     or_expires_at = an_expires_at a, or_created_at = later \<rparr>"

definition analyze ::
  "(string \<Rightarrow> string) \<Rightarrow> fresh_ids \<Rightarrow> uuid option \<Rightarrow> instant \<Rightarrow> instant \<Rightarrow> day \<Rightarrow> (string \<Rightarrow> market_data result) \<Rightarrow>
   (option_chain_query \<Rightarrow> option_contract list result) \<Rightarrow> uuid \<Rightarrow> broker_db \<Rightarrow> string \<Rightarrow> opportunity_row list \<Rightarrow>
   connected_analysis result \<times> opportunity_row list"
where
  "analyze sha ids scan now later today fetch get_chain ws db symbol rows =
     (case analysis_of sha ids scan now later today fetch get_chain ws db symbol of
       Inl e \<Rightarrow> (Inl e, rows)
     | Inr a \<Rightarrow> if list_ex (\<lambda>r. or_opportunity_id r = an_opportunity_id a) rows
         then (Inl integrity_error, rows)
         else (Inr a, rows @ [opportunity_row_of ws later a]))"

section \<open>Scan runs\<close>

record scan_run_row =
  sr_scan_run_id :: uuid
  sr_workspace_id :: uuid
  sr_trigger :: string
  sr_source :: string
  sr_started_at :: instant
  sr_completed_at :: "instant option"
  sr_attempted_count :: int
  sr_completed_count :: int
  sr_failed_count :: int

text \<open>The insert raises when the fresh identifier is the key of a row already.\<close>

definition start_scan_run ::
  "uuid \<Rightarrow> instant \<Rightarrow> uuid \<Rightarrow> string \<Rightarrow> int \<Rightarrow> scan_run_row list \<Rightarrow> (scan_run_row \<times> scan_run_row list) result" where
  "start_scan_run fresh now ws trigger attempted runs =
     (let r = \<lparr> sr_scan_run_id = fresh, sr_workspace_id = ws, sr_trigger = trigger,
          sr_source = ''ALPACA_REAL'', sr_started_at = now, sr_completed_at = None,
          sr_attempted_count = attempted, sr_completed_count = 0, sr_failed_count = 0 \<rparr>
      in if list_ex (\<lambda>x. sr_scan_run_id x = fresh) runs then Inl integrity_error else Inr (r, runs @ [r]))"

definition complete_scan_run ::
  "instant \<Rightarrow> uuid \<Rightarrow> int \<Rightarrow> int \<Rightarrow> scan_run_row list \<Rightarrow> (scan_run_row \<times> scan_run_row list) result" where
  "complete_scan_run now run completed failed runs =
     (let done = (\<lambda>r. r\<lparr>sr_completed_at := Some now, sr_completed_count := completed, sr_failed_count := failed\<rparr>)
      in case List.find (\<lambda>r. sr_scan_run_id r = run) runs of
        None \<Rightarrow> Inl (RuntimeError ''Connected scan run disappeared before completion'')
      | Some r \<Rightarrow> Inr (done r, map (\<lambda>r. if sr_scan_run_id r = run then done r else r) runs))"

end
