(* ===== verification/Connected_Properties.thy ===== *)
theory Connected_Properties
  imports Connected
begin

text \<open>
  What the live analysis promises: its features are always in range, and an analysis that ends in
  \<open>TRADE\<close> is backed by eligible contracts, an open gate, an approving risk decision and a valid intent.
\<close>

section \<open>Features\<close>

lemma connected_clamp_between: "- 1 \<le> connected_clamp x \<and> connected_clamp x \<le> 1"
  by (auto simp: connected_clamp_def)

lemma confirmation_between: "- 1 \<le> confirmation md s \<and> confirmation md s \<le> 1"
  using connected_clamp_between by (auto simp: confirmation_def split: option.splits)

lemma news_confidence_between: "0 \<le> news_confidence hs ws \<and> news_confidence hs ws \<le> 1"
proof -
  have "0 \<le> dmul (of_nat (length hs)) (3 / 50)" "0 \<le> dmul (of_int (hits catalyst_words ws)) (2 / 25)"
    by (auto simp: dmul_def hits_def intro!: ctx.rnd_nonneg)
  then show ?thesis by (auto simp: news_confidence_def dadd_def intro!: ctx.rnd_nonneg add_nonneg_nonneg)
qed

text \<open>C19. The live feature extraction never builds features that their model rejects: with the latest
  trade, today's and yesterday's bar of the symbol it returns valid features and the price, whatever the volumes,
  prices and headlines are, and a signal can be made of them; the momentum is twenty times the relative move of the
  price from today's opening, between -1 and 1, and the gap the move of the opening from yesterday's close in percent
  (a base below a cent counts as a cent).  With any of the three missing it raises
  \<open>ValueError\<close>, and for a symbol that the broker does not answer for \<open>KeyError\<close>.\<close>

theorem live_features_are_valid:
  "case connected_features symbol md of
     Inr (f, price) \<Rightarrow> catalyst_features_valid f \<and> is_ok (connected_signal ids now symbol f) \<and>
       (\<exists>s daily previous. map_of (md_snapshots md) symbol = Some s \<and> ms_latest_price s = Some price \<and>
         ms_daily_bar s = Some daily \<and> ms_previous_daily_bar s = Some previous \<and>
         cf_price_momentum f = min (max (dmul (dsub (dquo price (max (mb_open daily) (1 / 100))) 1) 20) (- 1)) 1 \<and>
         cf_gap_percent f = dmul (dsub (dquo (mb_open daily) (max (mb_close previous) (1 / 100))) 1) 100)
   | Inl e \<Rightarrow> (case map_of (md_snapshots md) symbol of
         None \<Rightarrow> e = KeyError symbol
       | Some s \<Rightarrow> (ms_latest_price s = None \<or> ms_daily_bar s = None \<or> ms_previous_daily_bar s = None) \<and>
           e = ValueError ''Current and previous market snapshots are required'')"
proof (cases "\<exists>s price d p. map_of (md_snapshots md) symbol = Some s \<and> ms_latest_price s = Some price \<and>
    ms_daily_bar s = Some d \<and> ms_previous_daily_bar s = Some p")
  case False
  then show ?thesis
    by (cases "map_of (md_snapshots md) symbol") (auto simp: connected_features_def split: option.splits)
next
  case True
  then obtain s price d p where s: "map_of (md_snapshots md) symbol = Some s" "ms_latest_price s = Some price"
    "ms_daily_bar s = Some d" "ms_previous_daily_bar s = Some p" by blast
  obtain f where f: "f = \<lparr> cf_catalyst_confidence = news_confidence (md_headlines md) (news_words (md_headlines md)),
      cf_sentiment = news_sentiment (news_words (md_headlines md)),
      cf_relative_volume = max (dquo (mb_volume d) (max (dquo (dsum (map mb_volume (md_bars md)))
        (of_int (max (int (length (md_bars md))) 1))) 1)) 0,
      cf_price_momentum = connected_clamp (dmul (relative_move price (mb_open d)) 20),
      cf_gap_percent = dmul (relative_move (mb_open d) (mb_close p)) 100,
      cf_market_confirmation = confirmation md ''SPY'', cf_sector_confirmation = confirmation md ''QQQ'',
      cf_liquidity_score = 3 / 4 \<rparr>" by blast
  have v: "catalyst_features_valid f"
    using news_confidence_between connected_clamp_between confirmation_between
    by (simp add: f catalyst_features_valid_def unit_interval_def signed_interval_def news_sentiment_def Let_def)
  then have r: "connected_features symbol md = Inr (f, price)"
    using s by (simp add: connected_features_def Let_def f [symmetric])
  have "is_ok (connected_signal ids now symbol f)"
    using score_exact [OF v] v by (simp add: connected_signal_def signal_valid_def)
  with r v s show ?thesis by (simp add: f connected_clamp_def relative_move_def)
qed

section \<open>The choice of the legs\<close>

lemma min_index_loop_bound:
  "at_best < i \<Longrightarrow> min_index_loop best at_best i xs < i + length xs"
proof (induction xs arbitrary: best at_best i)
  case (Cons a xs)
  show ?case
  proof (cases "a < best")
    case True
    then show ?thesis using Cons.IH [of i "Suc i" a] by simp
  next
    case False
    then show ?thesis using Cons.IH [of at_best "Suc i" best] Cons.prems by simp
  qed
qed simp

lemma min_index_less: "xs \<noteq> [] \<Longrightarrow> min_index xs < length xs"
  using min_index_loop_bound [of 0 1] by (cases xs) auto

lemma choose_legs_in:
  assumes "choose_legs wanted price selected = (st, l, s)" and "2 \<le> length selected"
  shows "l \<in> set selected \<and> s \<in> set selected \<and>
    st = (if wanted = CALL then BULL_CALL_DEBIT_SPREAD else BEAR_PUT_DEBIT_SPREAD)"
proof -
  let ?n = "min_index (map (\<lambda>c. dabs (dsub (oc_strike c) price)) selected)"
  have n: "?n < length selected"
    using assms(2) min_index_less [of "map (\<lambda>c. dabs (dsub (oc_strike c) price)) selected"] by (cases selected) auto
  show ?thesis
  proof (cases "wanted = CALL")
    case True
    let ?i = "if ?n = length selected - 1 then ?n - 1 else ?n"
    have "?i < length selected" "?i + 1 < length selected" using n assms(2) by auto
    with True assms(1) show ?thesis by (auto simp: choose_legs_def Let_def)
  next
    case False
    let ?i = "if ?n = 0 then 1 else ?n"
    have "?i < length selected" "?i - 1 < length selected" using n assms(2) by auto
    with False assms(1) show ?thesis by (auto simp: choose_legs_def Let_def)
  qed
qed

lemma first_expiration_in:
  assumes "c \<in> set (first_expiration (eligible_contracts symbol wanted price now contracts))"
  shows "c \<in> set contracts \<and> oc_option_type c = wanted \<and>
    (\<exists>r. evaluate_contract c price (connected_liquidity_policy symbol) (Aware now) = Inr r \<and> er_eligible r) \<and>
    oc_expiration c = hd (expirations (eligible_contracts symbol wanted price now contracts))"
  using assms by (auto simp: first_expiration_def eligible_contracts_def split: sum.splits)

lemma spread_of_Inr:
  assumes "spread_of st l s = Inr x"
  shows "os_structure_type x = st \<and> os_quantity x = 1 \<and> 0 \<le> os_max_loss x \<and>
    os_legs x = [\<lparr> ol_contract = l, ol_side = LONG, ol_ratio = 1, ol_entry_price = oq_ask (oc_quote l) \<rparr>,
      \<lparr> ol_contract = s, ol_side = SHORT, ol_ratio = 1, ol_entry_price = oq_bid (oc_quote s) \<rparr>] \<and>
    build_structure st (os_legs x) 1 None = Inr x"
proof -
  let ?legs = "[\<lparr> ol_contract = l, ol_side = LONG, ol_ratio = 1, ol_entry_price = oq_ask (oc_quote l) \<rparr>,
    \<lparr> ol_contract = s, ol_side = SHORT, ol_ratio = 1, ol_entry_price = oq_bid (oc_quote s) \<rparr>]"
  have b: "build_structure st ?legs 1 None = Inr x"
    using assms by (auto simp: spread_of_def guard_simps)
  have "os_legs x = ?legs \<and> os_structure_type x = st \<and> os_quantity x = 1 \<and> 0 \<le> os_max_loss x"
    by (rule build_structure_Inr [OF b]) simp
  with b show ?thesis by simp
qed

lemma rank_single:
  assumes "rank_candidates fresh idea [s] = Inr (c # cs)"
  shows "rc_structure c = s"
proof -
  obtain ranked where r: "rank_loop fresh (wanted_structure idea) idea 0 [s] = Inr ranked"
    and cs: "c # cs = sort_key rank_key ranked"
    using assms by (auto simp: rank_candidates_def guard_simps)
  have "mset (map rc_structure (c # cs)) = mset (map rc_structure ranked)" by (simp only: cs mset_map mset_sort)
  also have "map rc_structure ranked =
      filter (\<lambda>s. os_structure_type s = wanted_structure idea \<and> os_max_profit s \<noteq> None) [s]"
    using rank_loop_spec [OF r] by blast
  finally show ?thesis by (auto split: if_splits)
qed

section \<open>The decision\<close>

lemma account_risk_context_Inr:
  assumes "account_risk_context account positions allowed = Inr c"
  shows "risk_context_valid c \<and> rk_paper_equity c = ba_equity account \<and> rk_open_planned_loss c = 0 \<and>
    rk_underlying_open_risk c = 0 \<and> rk_concurrent_option_structures c = int (length positions) \<and>
    rk_broker_execution_allowed c = allowed \<and> \<not> rk_duplicate_logical_order c"
  using assms by (auto simp: account_risk_context_def Let_def guard_simps)

text \<open>What is known when the last step ends in \<open>TRADE\<close>.\<close>

definition justified_trade ::
  "(string \<Rightarrow> string) \<Rightarrow> instant \<Rightarrow> uuid \<Rightarrow> broker_db \<Rightarrow> ranked_candidate \<Rightarrow> connected_analysis \<Rightarrow> bool" where
  "justified_trade sha now ws db cand a \<longleftrightarrow> (\<exists>d i account c.
     an_candidate a = Some cand \<and> an_risk_decision a = Some d \<and> an_order_intent a = Some i \<and>
     rd_decision d = APPROVE \<and> rd_structure_id d = rc_structure_id cand \<and>
     order_intent_valid sha i \<and> oi_risk_decision_id i = rd_risk_decision_id d \<and>
     oi_legs i = map leg_of (os_legs (rc_structure cand)) \<and>
     pg_get_account ws db = Some account \<and>
     eg_allowed (broker_gate_evaluate default_maximum_age now (pg_get_status ws db) (Some account)) \<and>
     account_risk_context account (pg_list_positions ws db) True = Inr c \<and>
     within_policy default_risk_policy (rc_structure cand) c)"

lemma justified_tradeD:
  assumes "justified_trade sha now ws db cand a" and "0 \<le> os_max_loss (rc_structure cand)"
  shows "\<exists>d i account. an_candidate a = Some cand \<and> an_risk_decision a = Some d \<and> an_order_intent a = Some i \<and>
    rd_decision d = APPROVE \<and> rd_structure_id d = rc_structure_id cand \<and> pg_get_account ws db = Some account \<and>
    eg_allowed (broker_gate_evaluate default_maximum_age now (pg_get_status ws db) (Some account)) \<and>
    order_intent_valid sha i \<and> oi_risk_decision_id i = rd_risk_decision_id d \<and>
    oi_legs i = map leg_of (os_legs (rc_structure cand)) \<and>
    (1 - 1 / 10 ^ 25) * (os_max_loss (rc_structure cand) * 100) \<le> 1 / 2 * ba_equity account"
proof -
  obtain d i account c where t: "an_candidate a = Some cand" "an_risk_decision a = Some d"
    "an_order_intent a = Some i" "rd_decision d = APPROVE" "rd_structure_id d = rc_structure_id cand"
    "order_intent_valid sha i" "oi_risk_decision_id i = rd_risk_decision_id d"
    "oi_legs i = map leg_of (os_legs (rc_structure cand))" "pg_get_account ws db = Some account"
    "eg_allowed (broker_gate_evaluate default_maximum_age now (pg_get_status ws db) (Some account))"
    and c: "account_risk_context account (pg_list_positions ws db) True = Inr c"
    and w: "within_policy default_risk_policy (rc_structure cand) c"
    using assms(1) by (auto simp: justified_trade_def)
  note v = account_risk_context_Inr [OF c]
  have "exact_limits (1 - slack) default_risk_policy (rc_structure cand) c"
    using within_policy_exact(1) assms(2) w v by blast
  then have "(1 - 1 / 10 ^ 25) * (os_max_loss (rc_structure cand) * 100) \<le> 1 / 2 * ba_equity account"
    using v by (simp only: exact_limits_def default_risk_policy_def slack_def risk_policy.simps)
  with t show ?thesis by blast
qed

lemma decide_trade:
  assumes "decide sha ids scan now later ws db s idea cand = Inr a" and "an_disposition a = TRADE"
    and "0 \<le> os_max_loss (rc_structure cand)"
  shows "justified_trade sha now ws db cand a \<and> an_trade_idea a = Some idea \<and> an_signal a = s"
proof -
  let ?gate = "broker_gate_evaluate default_maximum_age now (pg_get_status ws db) (pg_get_account ws db)"
  obtain account where account: "pg_get_account ws db = Some account"
    using assms(1,2) by (auto simp: decide_def unavailable_def analysis_base_def Let_def split: option.splits)
  obtain c where c: "account_risk_context account (pg_list_positions ws db) (eg_allowed ?gate) = Inr c"
    and rest: "rbind (risk_evaluate default_risk_policy (fi_risk ids) later cand c) (\<lambda>risk.
        rbind (if rd_decision risk = APPROVE
          then rbind (create_order_intent sha (fi_intent ids) later risk cand 1 None
            limit_at_calculated_net None) (\<lambda>i. Inr (Some i))
          else Inr None) (\<lambda>intent.
        Inr ((analysis_base ids scan now s (if intent \<noteq> None then TRADE else RISK_REJECTED))
          \<lparr>an_trade_idea := Some idea, an_candidate := Some cand, an_risk_decision := Some risk,
           an_order_intent := intent\<rparr>))) = Inr a"
    using assms(1) account by (auto simp: decide_def Let_def rbind_eq_Inr)
  obtain d where d: "risk_evaluate default_risk_policy (fi_risk ids) later cand c = Inr d"
    "rd_structure_id d = rc_structure_id cand"
    "rd_decision d = APPROVE \<longleftrightarrow> within_policy default_risk_policy (rc_structure cand) c"
    using risk_evaluate_Inr account_risk_context_Inr [OF c] assms(3) by blast
  have ok: "rd_decision d = APPROVE"
    using rest d(1) assms(2) by (auto simp: analysis_base_def split: if_splits)
  with rest d(1) obtain i where i: "create_order_intent sha (fi_intent ids) later d cand 1 None
      limit_at_calculated_net None = Inr i"
    and a: "a = (analysis_base ids scan now s TRADE) \<lparr>an_trade_idea := Some idea,
      an_candidate := Some cand, an_risk_decision := Some d, an_order_intent := Some i\<rparr>"
    by (auto simp: rbind_eq_Inr)
  have w: "within_policy default_risk_policy (rc_structure cand) c" using d(3) ok by simp
  then have "eg_allowed ?gate"
    using account_risk_context_Inr [OF c] by (simp add: within_policy_def)
  with a d(2) ok w c account create_order_intent_Inr [OF i] show ?thesis
    by (auto simp: justified_trade_def analysis_base_def)
qed

lemma analysis_trade:
  assumes "analysis_of sha ids scan now later today fetch get_chain ws db symbol = Inr a"
    and "an_disposition a = TRADE"
  obtains price s idea contracts l r cand where
    "evaluate_signal default_catalyst_strategy (fi_idea ids) later s = Inr (Idea idea)"
    "get_chain (chain_query (sg_symbol s) today price) = Inr contracts"
    "2 \<le> length (first_expiration (eligible_contracts (sg_symbol s) (wanted_type idea) price now contracts))"
    "l \<in> set (first_expiration (eligible_contracts (sg_symbol s) (wanted_type idea) price now contracts))"
    "r \<in> set (first_expiration (eligible_contracts (sg_symbol s) (wanted_type idea) price now contracts))"
    "spread_of (if wanted_type idea = CALL then BULL_CALL_DEBIT_SPREAD else BEAR_PUT_DEBIT_SPREAD) l r
       = Inr (rc_structure cand)"
    "justified_trade sha now ws db cand a" "an_trade_idea a = Some idea" "an_signal a = s"
proof -
  obtain n features price s out where n: "normal_symbol symbol = Inr n"
    and f: "rbind (fetch n) (connected_features n) = Inr (features, price)"
    and s: "connected_signal ids now n features = Inr s"
    and out: "evaluate_signal default_catalyst_strategy (fi_idea ids) later s = Inr out"
    and a: "(case out of
       No_trade n \<Rightarrow> Inr ((analysis_base ids scan now s NO_TRADE)\<lparr>an_reason_codes := nt_reason_codes n\<rparr>)
     | Idea idea \<Rightarrow> analyze_idea sha ids scan now later today get_chain ws db price s idea) = Inr a"
    using assms(1) unfolding analysis_of_def rbind_eq_Inr by (auto simp: rbind_eq_Inr)
  from a assms(2) obtain idea where idea: "out = Idea idea"
    by (cases out) (auto simp: analysis_base_def)
  from a idea have i: "analyze_idea sha ids scan now later today get_chain ws db price s idea = Inr a" by simp
  then obtain contracts where chain: "get_chain (chain_query (sg_symbol s) today price) = Inr contracts"
    by (auto simp: analyze_idea_def rbind_eq_Inr)
  let ?sel = "first_expiration (eligible_contracts (sg_symbol s) (wanted_type idea) price now contracts)"
  obtain st l r where legs: "choose_legs (wanted_type idea) price ?sel = (st, l, r)"
    by (cases "choose_legs (wanted_type idea) price ?sel") auto
  from i chain assms(2) legs have two: "2 \<le> length ?sel"
    and rest: "rbind (spread_of st l r) (\<lambda>structure.
          rbind (rank_candidates (fi_structure ids) idea [structure]) (\<lambda>ranked.
          case ranked of
            [] \<Rightarrow> Inl IndexError
          | candidate # _ \<Rightarrow> decide sha ids scan now later ws db s idea candidate)) = Inr a"
    by (auto simp: analyze_idea_def Let_def unavailable_def analysis_base_def split: if_splits)
  obtain x ranks where x: "spread_of st l r = Inr x"
    and ranks: "rank_candidates (fi_structure ids) idea [x] = Inr ranks"
    and last: "(case ranks of [] \<Rightarrow> Inl IndexError
          | candidate # _ \<Rightarrow> decide sha ids scan now later ws db s idea candidate) = Inr a"
    using rest unfolding rbind_eq_Inr by blast
  obtain cand cs where "ranks = cand # cs" and dec: "decide sha ids scan now later ws db s idea cand = Inr a"
    using last by (cases ranks) auto
  with ranks have ranked: "rank_candidates (fi_structure ids) idea [x] = Inr (cand # cs)" by simp
  note c = rank_single [OF ranked]
  have "0 \<le> os_max_loss (rc_structure cand)" using spread_of_Inr [OF x] c by simp
  from decide_trade [OF dec assms(2) this] choose_legs_in [OF legs two] x c two out idea chain
  show thesis by (intro that [of s idea price contracts l r cand]) auto
qed

end
