(* ===== verification/Connected_Decisions.thy ===== *)
theory Connected_Decisions
  imports Connected_Properties
begin

text \<open>
  What the live analysis guarantees about a trade it proposes, what its risk context leaves out, and
  which quotes it can never use; with a complete sample run.
\<close>

section \<open>A sample run\<close>

definition demo_snapshot :: stock_snapshot where
  "demo_snapshot = \<lparr> ms_latest_price = Some 100,
     ms_daily_bar = Some \<lparr> mb_open = 80, mb_close = 100, mb_volume = 4000 \<rparr>,
     ms_previous_daily_bar = Some \<lparr> mb_open = 80, mb_close = 80, mb_volume = 1000 \<rparr> \<rparr>"

definition demo_market :: market_data where
  "demo_market = \<lparr> md_snapshots = [(''NVDA'', demo_snapshot), (''SPY'', demo_snapshot), (''QQQ'', demo_snapshot)],
     md_bars = [\<lparr> mb_open = 80, mb_close = 80, mb_volume = 1000 \<rparr>],
     md_headlines = [''NVDA beats, raises guidance after record growth'', ''FDA approval wins''] \<rparr>"

definition demo_contract :: "string \<Rightarrow> decimal \<Rightarrow> decimal \<Rightarrow> option_contract" where
  "demo_contract name strike mid = \<lparr> oc_contract_id = name, oc_symbol = name, oc_underlying_symbol = ''NVDA'',
     oc_expiration = 30, oc_strike = strike, oc_option_type = CALL, oc_multiplier = 100, oc_tradable = True,
     oc_quote = sample_quote (mid - 1 / 10) (mid + 1 / 10) \<rparr>"

definition demo_chain :: "option_contract list" where
  "demo_chain = [demo_contract ''C111'' 111 2, demo_contract ''C100'' 100 4]"

definition demo_ids :: fresh_ids where
  "demo_ids = \<lparr> fi_signal = ''s'', fi_idea = ''i'', fi_opportunity = ''o'', fi_structure = (\<lambda>_. ''c''),
     fi_risk = ''r'', fi_intent = ''n'' \<rparr>"

definition demo_db :: broker_db where
  "demo_db = \<lparr> bd_sync = [''w'' \<mapsto> (new_sync_status RECONCILED)\<lparr>ss_last_reconciled_at := Some 0,
       ss_stream_connected := True\<rparr>],
     bd_accounts = [(''w'', sample_account)], bd_positions = [], bd_orders = [] \<rparr>"

definition demo_features :: catalyst_features where
  "demo_features = \<lparr> cf_catalyst_confidence = 91 / 100, cf_sentiment = 1, cf_relative_volume = 4,
     cf_price_momentum = 1, cf_gap_percent = 0, cf_market_confirmation = 1, cf_sector_confirmation = 1,
     cf_liquidity_score = 3 / 4 \<rparr>"

definition demo_signal :: signal where
  "demo_signal = \<lparr> sg_signal_id = ''s'', sg_symbol = ''NVDA'', sg_observed_at = 0,
     sg_features = demo_features, sg_score = 474 / 5,
     sg_source_versions = [(''market'', ''alpaca-real-v1''), (''news'', ''alpaca-real-v1''),
        (''options'', ''alpaca-real-v1'')] \<rparr>"

definition demo_idea :: trade_idea where
  "demo_idea = \<lparr> ti_trade_idea_id = ''i'', ti_signal_id = ''s'', ti_symbol = ''NVDA'', ti_direction = BULLISH,
     ti_thesis = ''High-confidence catalyst with confirming abnormal volume and price momentum.'',
     ti_holding_horizon = 864000000000, ti_entry_window = 14400000000,
     ti_exit_logic = ''Exit at target, stop, catalyst invalidation, or two DTE.'',
     ti_confidence = 237 / 250 \<rparr>"

definition demo_spread :: option_structure where
  "demo_spread = \<lparr> os_structure_type = BULL_CALL_DEBIT_SPREAD, os_quantity = 1,
     os_legs = [\<lparr> ol_contract = demo_contract ''C100'' 100 4, ol_side = LONG, ol_ratio = 1,
         ol_entry_price = 41 / 10 \<rparr>,
       \<lparr> ol_contract = demo_contract ''C111'' 111 2, ol_side = SHORT, ol_ratio = 1,
         ol_entry_price = 19 / 10 \<rparr>],
     os_underlying = None, os_net_premium_per_share = 11 / 5, os_max_loss = 220, os_max_profit = Some 880,
     os_break_evens = [511 / 5],
     os_greeks = \<lparr> g_delta = 0, g_gamma = 0, g_theta = 0, g_vega = 0 \<rparr> \<rparr>"

definition demo_candidate :: ranked_candidate where
  "demo_candidate = \<lparr> rc_structure_id = ''c'', rc_trade_idea_id = ''i'', rc_structure = demo_spread,
     rc_rank_score = 385 / 2,
     rc_rank_components = [(''reward_risk'', 4),
       (''spread_cost'', 3 / 40)] \<rparr>"

lemma demo_steps:
  "normal_symbol ''nvda '' = Inr ''NVDA''"
  "connected_features ''NVDA'' demo_market = Inr (demo_features, 100)"
  "connected_signal demo_ids 0 ''NVDA'' demo_features = Inr demo_signal"
  "evaluate_signal default_catalyst_strategy ''i'' 0 demo_signal = Inr (Idea demo_idea)"
  "wanted_type demo_idea = CALL"
  "expirations (eligible_contracts ''NVDA'' CALL 100 0 demo_chain) = [30]"
  "first_expiration (eligible_contracts ''NVDA'' CALL 100 0 demo_chain) = rev demo_chain"
  "choose_legs CALL 100 (rev demo_chain) = (BULL_CALL_DEBIT_SPREAD, demo_contract ''C100'' 100 4, demo_contract ''C111'' 111 2)"
  "build_structure BULL_CALL_DEBIT_SPREAD (os_legs demo_spread) 1 None = Inr demo_spread"
  "list_all option_leg_valid (os_legs demo_spread)"
  "rank_candidates (\<lambda>_. ''c'') demo_idea [demo_spread] = Inr [demo_candidate]"
  by code_simp+

lemma demo_spread_of:
  "spread_of BULL_CALL_DEBIT_SPREAD (demo_contract ''C100'' 100 4) (demo_contract ''C111'' 111 2) = Inr demo_spread"
proof -
  have "oq_ask (oc_quote (demo_contract ''C100'' 100 4)) = 41 / 10"
    "oq_bid (oc_quote (demo_contract ''C111'' 111 2)) = 19 / 10"
    by (simp_all add: demo_contract_def sample_quote_def)
  moreover have "os_legs demo_spread = [\<lparr> ol_contract = demo_contract ''C100'' 100 4, ol_side = LONG, ol_ratio = 1,
      ol_entry_price = 41 / 10 \<rparr>, \<lparr> ol_contract = demo_contract ''C111'' 111 2, ol_side = SHORT, ol_ratio = 1,
      ol_entry_price = 19 / 10 \<rparr>]"
    by (simp add: demo_spread_def)
  ultimately show ?thesis using demo_steps(9,10) unfolding spread_of_def by (simp only:) simp
qed

lemma demo_decision:
  "case decide id demo_ids None 0 0 ''w'' demo_db demo_signal demo_idea demo_candidate of
     Inr a \<Rightarrow> an_disposition a = TRADE | Inl e \<Rightarrow> False"
  by code_simp

lemma demo_trade:
  obtains a where "analysis_of id demo_ids None 0 0 0 (\<lambda>_. Inr demo_market) (\<lambda>_. Inr demo_chain) ''w'' demo_db
      ''nvda '' = Inr a" and "an_disposition a = TRADE"
proof -
  have ids: "fi_idea demo_ids = ''i''" "fi_structure demo_ids = (\<lambda>_. ''c'')" by (simp_all add: demo_ids_def)
  have "sg_symbol demo_signal = ''NVDA''" "length (rev demo_chain) = 2"
    by (simp_all add: demo_signal_def demo_chain_def)
  then have "analysis_of id demo_ids None 0 0 0 (\<lambda>_. Inr demo_market) (\<lambda>_. Inr demo_chain) ''w'' demo_db
      ''nvda '' = decide id demo_ids None 0 0 ''w'' demo_db demo_signal demo_idea demo_candidate"
    by (simp add: analysis_of_def demo_steps demo_spread_of ids analyze_idea_def Let_def)
  with demo_decision show thesis by (auto intro: that split: sum.splits)
qed

section \<open>Properties\<close>

text \<open>C18. An analysis that ends in \<open>TRADE\<close> is justified: its signal passed the catalyst strategy, both
  legs come from the fetched chain, are of the type the idea wants, passed the liquidity filter and
  expire together, one is bought and the other sold; the risk engine approved that very candidate with
  a known account and an open broker gate, its maximum loss is within half a per cent of the equity
  (up to the rounding of decimals), and the order intent is valid and made from that decision.\<close>

theorem trade_is_justified:
  assumes "analysis_of sha ids scan now later today fetch get_chain ws db symbol = Inr a"
    and "an_disposition a = TRADE"
  shows "\<exists>idea cand d i account price contracts l r.
    an_trade_idea a = Some idea \<and>
    evaluate_signal default_catalyst_strategy (fi_idea ids) later (an_signal a) = Inr (Idea idea) \<and>
    get_chain (chain_query (sg_symbol (an_signal a)) today price) = Inr contracts \<and>
    (\<forall>c \<in> {l, r}. c \<in> set contracts \<and> oc_option_type c = wanted_type idea \<and>
       (\<exists>e. evaluate_contract c price (connected_liquidity_policy (sg_symbol (an_signal a))) (Aware now) = Inr e \<and>
         er_eligible e)) \<and> oc_expiration l = oc_expiration r \<and>
    an_candidate a = Some cand \<and> an_risk_decision a = Some d \<and> an_order_intent a = Some i \<and>
    rd_decision d = APPROVE \<and> rd_structure_id d = rc_structure_id cand \<and>
    pg_get_account ws db = Some account \<and>
    eg_allowed (broker_gate_evaluate default_maximum_age now (pg_get_status ws db) (Some account)) \<and>
    (1 - 1 / 10 ^ 25) * (os_max_loss (rc_structure cand) * 100) \<le> 1 / 2 * ba_equity account \<and>
    order_intent_valid sha i \<and> oi_risk_decision_id i = rd_risk_decision_id d \<and>
    oi_legs i = [\<lparr> il_symbol = oc_symbol l, il_side = Buy, il_ratio = 1 \<rparr>,
      \<lparr> il_symbol = oc_symbol r, il_side = Sell, il_ratio = 1 \<rparr>]"
proof -
  obtain price s idea contracts l r cand where
    idea: "evaluate_signal default_catalyst_strategy (fi_idea ids) later s = Inr (Idea idea)"
    and chain: "get_chain (chain_query (sg_symbol s) today price) = Inr contracts"
    and legs: "l \<in> set (first_expiration (eligible_contracts (sg_symbol s) (wanted_type idea) price now contracts))"
      "r \<in> set (first_expiration (eligible_contracts (sg_symbol s) (wanted_type idea) price now contracts))"
    and spread: "spread_of (if wanted_type idea = CALL then BULL_CALL_DEBIT_SPREAD else BEAR_PUT_DEBIT_SPREAD) l r
       = Inr (rc_structure cand)"
    and trade: "justified_trade sha now ws db cand a" and a: "an_trade_idea a = Some idea" "an_signal a = s"
    by (rule analysis_trade [OF assms])
  have "0 \<le> os_max_loss (rc_structure cand)" using spread_of_Inr [OF spread] by simp
  from justified_tradeD [OF trade this]
  obtain d i account where d: "an_candidate a = Some cand" "an_risk_decision a = Some d" "an_order_intent a = Some i"
    "rd_decision d = APPROVE" "rd_structure_id d = rc_structure_id cand" "pg_get_account ws db = Some account"
    "eg_allowed (broker_gate_evaluate default_maximum_age now (pg_get_status ws db) (Some account))"
    "order_intent_valid sha i" "oi_risk_decision_id i = rd_risk_decision_id d"
    "oi_legs i = map leg_of (os_legs (rc_structure cand))"
    "(1 - 1 / 10 ^ 25) * (os_max_loss (rc_structure cand) * 100) \<le> 1 / 2 * ba_equity account"
    by (elim exE conjE) (rule that)
  have "oi_legs i = [\<lparr> il_symbol = oc_symbol l, il_side = Buy, il_ratio = 1 \<rparr>,
      \<lparr> il_symbol = oc_symbol r, il_side = Sell, il_ratio = 1 \<rparr>]"
    using d(10) spread_of_Inr [OF spread] by (simp add: leg_of_def)
  with d a idea chain first_expiration_in [OF legs(1)] first_expiration_in [OF legs(2)] show ?thesis
    by (intro exI [of _ idea] exI [of _ cand] exI [of _ d] exI [of _ i] exI [of _ account] exI [of _ price]
        exI [of _ contracts] exI [of _ l] exI [of _ r]) simp
qed

theorem trade_is_justified_witness:
  "\<exists>a account. analysis_of id demo_ids None 0 0 0 (\<lambda>_. Inr demo_market) (\<lambda>_. Inr demo_chain) ''w'' demo_db
      ''nvda '' = Inr a \<and> pg_get_account ''w'' demo_db = Some account \<and>
    (\<exists>cand. an_candidate a = Some cand \<and>
      (1 - 1 / 10 ^ 25) * (os_max_loss (rc_structure cand) * 100) \<le> 1 / 2 * ba_equity account)"
proof -
  obtain a where a: "analysis_of id demo_ids None 0 0 0 (\<lambda>_. Inr demo_market) (\<lambda>_. Inr demo_chain) ''w'' demo_db
      ''nvda '' = Inr a" "an_disposition a = TRADE"
    by (rule demo_trade)
  from trade_is_justified [OF a] a(1) show ?thesis by blast
qed

text \<open>The caps on the aggregate risk are never the reason of a rejection of a connected trade: the
  context built for a connected account has no open loss and no risk in the underlying, whatever its
  positions are, so that a trade within the cap of a single trade always passes the checks
  \<open>total_open_loss\<close> and \<open>underlying_concentration\<close> as well.\<close>

theorem connected_caps_never_bind:
  assumes "account_risk_context account positions allowed = Inr c" and "0 \<le> os_max_loss s"
    and "\<forall>k \<in> set (risk_checks default_risk_policy s c). ck_name k = ''per_trade_loss'' \<longrightarrow> ck_passed k"
  shows "\<forall>k \<in> set (risk_checks default_risk_policy s c).
    ck_name k \<in> {''total_open_loss'', ''underlying_concentration''} \<longrightarrow> ck_passed k"
proof -
  note c = account_risk_context_Inr [OF assms(1)]
  have e: "0 < rk_paper_equity c" using c by (simp add: risk_context_valid_def)
  have "pct_of (os_max_loss s) (rk_paper_equity c) \<le> 1 / 2"
    using assms(3) by (auto simp: risk_checks_def Let_def default_risk_policy_def)
  from pct_within(1) [OF assms(2) e this]
  have "(1 - slack) * (os_max_loss s * 100) \<le> 1 / 2 * rk_paper_equity c" .
  moreover have "(1 + slack) * (os_max_loss s * 100) \<le> 2 * ((1 - slack) * (os_max_loss s * 100))"
    using assms(2) by (simp add: slack_def)
  ultimately have "(1 + slack) * (os_max_loss s * 100) \<le> 1 * rk_paper_equity c" by linarith
  then have "(1 + slack) * ((0 + os_max_loss s) * 100) \<le> cap * rk_paper_equity c" if "1 \<le> cap" for cap
    using mult_right_mono [OF that, of "rk_paper_equity c"] e unfolding add_0 by linarith
  from pct_sum_within(2) [OF order_refl assms(2) e this] c show ?thesis
    by (auto simp: risk_checks_def Let_def default_risk_policy_def)
qed

theorem connected_caps_never_bind_witness:
  "\<exists>c. account_risk_context sample_account (map sample_position [''A'', ''B'', ''C'']) True = Inr c \<and>
    (\<forall>k \<in> set (risk_checks default_risk_policy bull_call c).
      ck_name k \<in> {''total_open_loss'', ''underlying_concentration''} \<longrightarrow> ck_passed k)"
proof -
  have "case account_risk_context sample_account (map sample_position [''A'', ''B'', ''C'']) True of Inl _ \<Rightarrow> False
    | Inr c \<Rightarrow> list_all ck_passed (risk_checks default_risk_policy bull_call c)" by code_simp
  then obtain c where c: "account_risk_context sample_account (map sample_position [''A'', ''B'', ''C'']) True = Inr c"
    "list_all ck_passed (risk_checks default_risk_policy bull_call c)"
    by (auto split: sum.splits)
  have "0 \<le> os_max_loss bull_call" by (simp add: bull_call_def)
  from connected_caps_never_bind [OF c(1) this] c show ?thesis by (auto simp: list_all_iff)
qed

text \<open>The age of a quote is measured from the instant at which the analysis began, before the chain
  is fetched: a contract whose quote is newer than that instant is refused as stale, so that a chain of
  freshly updated quotes always ends in \<open>UNAVAILABLE\<close>.\<close>

theorem quotes_after_start_are_refused:
  assumes "get_chain (chain_query (sg_symbol s) today price) = Inr contracts"
    and "\<forall>c \<in> set contracts. now < in_utc (oq_quoted_at (oc_quote c))"
  shows "analyze_idea sha ids scan now later today get_chain ws db price s idea =
    Inr (unavailable ids scan now s idea ''no_eligible_option_chain'')"
proof -
  have "\<not> er_eligible r" if "c \<in> set contracts"
    "evaluate_contract c price (connected_liquidity_policy (sg_symbol s)) (Aware now) = Inr r" for c r
    using that assms(2) by (auto simp: evaluate_contract_def Let_def reason_if_def total_seconds_def)
  then have "eligible_contracts (sg_symbol s) (wanted_type idea) price now contracts = []"
    by (auto simp: eligible_contracts_def filter_empty_conv split: sum.splits)
  then show ?thesis using assms(1) by (simp add: analyze_idea_def Let_def expirations_def)
qed

theorem quotes_after_start_are_refused_witness:
  "analyze_idea id demo_ids None (- 1) 0 0 (\<lambda>_. Inr demo_chain) ''w'' demo_db 100 demo_signal demo_idea =
    Inr (unavailable demo_ids None (- 1) demo_signal demo_idea ''no_eligible_option_chain'')"
  by (rule quotes_after_start_are_refused [OF refl])
    (simp add: demo_chain_def demo_contract_def sample_quote_def)

end
