(* ===== verification/Text_Codecs.thy ===== *)
theory Text_Codecs
  imports Py_Text "HOL-Library.AList" "HOL-Library.Multiset"
begin

text \<open>
  The text formats of Python's standard library that the code uses: \<open>json.dumps\<close> with sorted keys and
  compact separators and \<open>json.loads\<close> on dictionaries of strings, \<open>base64.urlsafe_b64decode\<close>, and the
  splitting of a text at a separator.  A byte string is the text with the same codes.
\<close>

section \<open>Splitting\<close>

text \<open>\<open>s.split(c)\<close>: the parts between the separators, at least one.\<close>

fun py_split_at :: "char \<Rightarrow> string \<Rightarrow> string list" where
  "py_split_at sep [] = [[]]"
| "py_split_at sep (ch # cs) =
     (if ch = sep then [] # py_split_at sep cs
      else case py_split_at sep cs of [] \<Rightarrow> [[ch]] | part # parts \<Rightarrow> (ch # part) # parts)"

text \<open>\<open>head, tail = s.split(c, 1)\<close>, where a missing separator raises \<open>ValueError\<close>.\<close>

fun py_split_once :: "char \<Rightarrow> string \<Rightarrow> (string \<times> string) option" where
  "py_split_once sep [] = None"
| "py_split_once sep (ch # cs) =
     (if ch = sep then Some ([], cs) else map_option (\<lambda>(h, t). (ch # h, t)) (py_split_once sep cs))"

lemma py_split_once_head: "py_split_once sep s = Some (h, t) \<Longrightarrow> sep \<notin> set h \<and> s = h @ sep # t"
  by (induction s arbitrary: h) (auto split: if_splits)

lemma py_split_at_parts: "p \<in> set (py_split_at sep s) \<Longrightarrow> sep \<notin> set p \<and> set p \<subseteq> set s"
proof (induction s arbitrary: p)
  case (Cons ch cs)
  show ?case
  proof (cases "py_split_at sep cs")
    case Nil
    then show ?thesis using Cons by (auto split: if_splits)
  next
    case (Cons part parts)
    then show ?thesis using Cons.IH Cons.prems by (fastforce split: if_splits)
  qed
qed simp

section \<open>JSON\<close>

definition hex_digits :: string where
  "hex_digits = ''0123456789abcdef''"

definition hex_digit :: "int \<Rightarrow> char" where
  "hex_digit n = hex_digits ! nat n"

definition hex_value :: "char \<Rightarrow> int option" where
  "hex_value ch =
     (let v = code_of ch in
      if 48 \<le> v \<and> v \<le> 57 then Some (v - 48)
      else if 97 \<le> v \<and> v \<le> 102 then Some (v - 87)
      else if 65 \<le> v \<and> v \<le> 70 then Some (v - 55) else None)"

text \<open>The two-character escapes: the letter after the backslash, and the character it stands for.\<close>

definition escapes :: "(char \<times> char) list" where
  "escapes = [(CHR 0x22, CHR 0x22), (CHR 0x5C, CHR 0x5C), (CHR ''n'', CHR 0x0A), (CHR ''r'', CHR 0x0D),
     (CHR ''t'', CHR 0x09), (CHR ''f'', CHR 0x0C), (CHR ''b'', CHR 0x08)]"

definition escape_char :: "char \<Rightarrow> string" where
  "escape_char ch = (case List.find (\<lambda>e. snd e = ch) escapes of
      Some e \<Rightarrow> [CHR 0x5C, fst e]
    | None \<Rightarrow> if 32 \<le> code_of ch \<and> code_of ch \<le> 126 then [ch]
        else [CHR 0x5C, CHR ''u'', CHR ''0'', CHR ''0'', hex_digit (code_of ch div 16),
          hex_digit (code_of ch mod 16)])"

definition json_text :: "string \<Rightarrow> string" where
  "json_text s = CHR 0x22 # concat (map escape_char s) @ [CHR 0x22]"

text \<open>The rest of a JSON string after its opening quote; codes above 255 are outside the model.\<close>

fun read_text :: "string \<Rightarrow> (string \<times> string) option" where
  "read_text [] = None"
| "read_text (ch # cs) =
     (if ch = CHR 0x22 then Some ([], cs)
      else if ch = CHR 0x5C then
        (case cs of
          [] \<Rightarrow> None
        | e # ds \<Rightarrow>
          if e = CHR ''u'' then
            (case ds of
              h1 # h2 # h3 # h4 # es \<Rightarrow>
                (case (hex_value h3, hex_value h4) of
                  (Some a, Some b) \<Rightarrow>
                    if hex_value h1 = Some 0 \<and> hex_value h2 = Some 0
                    then map_option (\<lambda>(s, r). (char_of (16 * a + b) # s, r)) (read_text es)
                    else None
                | _ \<Rightarrow> None)
            | _ \<Rightarrow> None)
          else
            (case map_of (escapes @ [(CHR ''/'', CHR ''/'')]) e of
              None \<Rightarrow> None
            | Some x \<Rightarrow> map_option (\<lambda>(s, r). (x # s, r)) (read_text ds)))
      else if code_of ch < 32 then None
      else map_option (\<lambda>(s, r). (ch # s, r)) (read_text cs))"

lemma hex_value_digit: "0 \<le> n \<Longrightarrow> n < 16 \<Longrightarrow> hex_value (hex_digit n) = Some n"
proof -
  assume n: "0 \<le> n" "n < 16"
  have "list_all (\<lambda>k. hex_value (hex_digit k) = Some k) [0..15]" by code_simp
  with n show ?thesis by (auto simp: list_all_iff)
qed

lemma code_bounds: "0 \<le> code_of ch \<and> code_of ch < 256"
  using of_char_mod_256 [of ch] pos_mod_bound [of "256 :: int" "of_char ch"] pos_mod_sign [of "256 :: int" "of_char ch"]
  by (simp only: code_of_def) simp

lemma read_escape: "read_text (escape_char ch @ cs) = map_option (\<lambda>(s, r). (ch # s, r)) (read_text cs)"
proof (cases "List.find (\<lambda>e. snd e = ch) escapes")
  case None
  then have no: "ch \<noteq> CHR 0x22" "ch \<noteq> CHR 0x5C" by (auto simp: escapes_def split: if_splits)
  show ?thesis
  proof (cases "32 \<le> code_of ch \<and> code_of ch \<le> 126")
    case True
    with None no show ?thesis by (simp add: escape_char_def)
  next
    case False
    have "hex_value (hex_digit (code_of ch div 16)) = Some (code_of ch div 16)"
      "hex_value (hex_digit (code_of ch mod 16)) = Some (code_of ch mod 16)"
      using code_bounds [of ch] by (auto intro!: hex_value_digit)
    moreover have "char_of (16 * (code_of ch div 16) + code_of ch mod 16) = ch"
      by (simp add: code_of_def)
    moreover have "hex_value CHR ''0'' = Some 0" by code_simp
    ultimately show ?thesis using None False no unfolding escape_char_def by simp
  qed
next
  case (Some e)
  then have "e \<in> set escapes" "snd e = ch" by (auto simp: find_Some_iff)
  then show ?thesis using Some by (auto simp: escapes_def escape_char_def)
qed

lemma read_json_text: "read_text (concat (map escape_char s) @ CHR 0x22 # rest) = Some (s, rest)"
  by (induction s) (simp_all add: read_escape)

text \<open>\<open>json.dumps(payload, sort_keys=True, separators=(",", ":"))\<close> for a dictionary of strings.\<close>

fun json_members :: "(string \<times> string) list \<Rightarrow> string" where
  "json_members [] = []"
| "json_members [(k, v)] = json_text k @ CHR '':'' # json_text v"
| "json_members ((k, v) # m # ms) = json_text k @ CHR '':'' # json_text v @ CHR '','' # json_members (m # ms)"

definition json_dumps :: "(string \<times> string) list \<Rightarrow> string" where
  "json_dumps payload = CHR 0x7B # json_members (sort_key fst payload) @ [CHR 0x7D]"

text \<open>
  \<open>json.loads\<close> on a text that is an object of strings; every other text is \<open>None\<close> here.  A repeated key
  keeps the last value.
\<close>

definition skip_ws :: "string \<Rightarrow> string" where
  "skip_ws s = dropWhile (\<lambda>ch. ch \<in> {CHR 0x20, CHR 0x09, CHR 0x0A, CHR 0x0D}) s"

definition read_quoted :: "string \<Rightarrow> (string \<times> string) option" where
  "read_quoted s = (case s of ch # cs \<Rightarrow> if ch = CHR 0x22 then read_text cs else None | [] \<Rightarrow> None)"

definition read_member :: "string \<Rightarrow> ((string \<times> string) \<times> string) option" where
  "read_member s = (case read_quoted s of
      None \<Rightarrow> None
    | Some (k, r) \<Rightarrow> (case skip_ws r of
        ch # cs \<Rightarrow> if ch \<noteq> CHR '':'' then None
          else map_option (\<lambda>(v, t). ((k, v), skip_ws t)) (read_quoted (skip_ws cs))
      | [] \<Rightarrow> None))"

lemma read_text_shorter: "read_text s = Some (x, r) \<Longrightarrow> length r < length s"
proof (induction s arbitrary: x r rule: read_text.induct)
  case (2 ch cs)
  then show ?case by (auto split: if_splits list.splits option.splits) force+
qed simp

lemma skip_ws_length: "length (skip_ws s) \<le> length s"
  by (simp add: skip_ws_def length_dropWhile_le)

lemma read_quoted_shorter: "read_quoted s = Some (x, r) \<Longrightarrow> length r < length s"
  by (cases s) (auto simp: read_quoted_def split: if_splits dest: read_text_shorter)

lemma read_member_shorter:
  assumes "read_member s = Some (m, r)"
  shows "length r < length s"
proof -
  obtain k q ch cs v t where q: "read_quoted s = Some (k, q)" and c: "skip_ws q = ch # cs"
    and v: "read_quoted (skip_ws cs) = Some (v, t)" and r: "r = skip_ws t"
    using assms by (auto simp: read_member_def split: option.splits list.splits if_splits)
  have "length r \<le> length t" using r skip_ws_length by simp
  also have "\<dots> < length (skip_ws cs)" using read_quoted_shorter [OF v] .
  also have "\<dots> \<le> length (skip_ws q)" using c skip_ws_length [of cs] by simp
  also have "\<dots> < length s" using skip_ws_length [of q] read_quoted_shorter [OF q] by simp
  finally show ?thesis .
qed

function read_members :: "(string \<times> string) list \<Rightarrow> string \<Rightarrow> ((string \<times> string) list \<times> string) option" where
  "read_members acc s = (case read_member s of
      None \<Rightarrow> None
    | Some ((k, v), r) \<Rightarrow> (case r of
        [] \<Rightarrow> None
      | ch # cs \<Rightarrow>
        if ch = CHR 0x7D then Some (AList.update k v acc, cs)
        else if ch = CHR '','' then read_members (AList.update k v acc) (skip_ws cs)
        else None))"
  by pat_completeness auto
termination
  using le_less_trans [OF skip_ws_length]
  by (relation "measure (\<lambda>(acc, s). length s)") (auto dest!: read_member_shorter)

definition json_loads :: "string \<Rightarrow> (string \<times> string) list option" where
  "json_loads s = (case skip_ws s of
      ch # cs \<Rightarrow> if ch \<noteq> CHR 0x7B then None
        else (case (case skip_ws cs of
            d # ds \<Rightarrow> if d = CHR 0x7D then Some ([], ds) else read_members [] (d # ds)
          | [] \<Rightarrow> None) of
            Some (payload, r) \<Rightarrow> if skip_ws r = [] then Some payload else None
          | None \<Rightarrow> None)
    | [] \<Rightarrow> None)"

lemma read_quoted_json [simp]: "read_quoted (json_text s @ rest) = Some (s, rest)"
  using read_json_text [of s rest] by (simp add: read_quoted_def json_text_def)

lemma skip_ws_json [simp]: "skip_ws (json_text s @ rest) = json_text s @ rest"
  by (simp add: skip_ws_def json_text_def)

lemma skip_ws_other [simp]: "ch \<notin> {CHR 0x20, CHR 0x09, CHR 0x0A, CHR 0x0D} \<Longrightarrow> skip_ws (ch # cs) = ch # cs"
  by (simp add: skip_ws_def)

lemma read_member_json [simp]:
  "ch \<in> {CHR '','', CHR 0x7D} \<Longrightarrow>
   read_member (json_text k @ CHR '':'' # json_text v @ ch # cs) = Some ((k, v), ch # cs)"
  by (auto simp: read_member_def)

lemma read_json_members:
  assumes "ms \<noteq> []"
  shows "read_members acc (json_members ms @ CHR 0x7D # rest) =
    Some (fold (\<lambda>(k, v). AList.update k v) ms acc, rest)"
  using assms
proof (induction ms arbitrary: acc rule: json_members.induct)
  case (2 k v)
  then show ?case by (subst read_members.simps) simp
next
  case (3 k v m ms)
  have "skip_ws (json_members (m # ms) @ CHR 0x7D # rest) = json_members (m # ms) @ CHR 0x7D # rest"
    by (cases m; cases ms) simp_all
  with 3 show ?case by (subst read_members.simps) simp
qed simp

lemma map_of_updates:
  "map_of (fold (\<lambda>(k, v). AList.update k v) ms acc) = map_of acc ++ map_of (rev ms)"
  by (induction ms arbitrary: acc) (auto simp: update_conv' map_add_def fun_eq_iff split: option.splits)

lemma map_of_rev_distinct: "distinct (map fst ms) \<Longrightarrow> map_of (rev ms) = map_of ms"
  by (metis distinct_rev map_of_inject_set rev_map set_rev)

lemma map_of_sort_distinct: "distinct (map fst ms) \<Longrightarrow> map_of (sort_key fst ms) = map_of (ms :: (string \<times> 'a) list)"
  by (rule map_of_inject_set [THEN iffD2])
    (simp_all add: distinct_map inj_on_def)

text \<open>Reading what was written gives the same dictionary.\<close>

lemma json_object_reads:
  assumes "distinct (map fst ms)"
  shows "\<exists>p. json_loads (CHR 0x7B # json_members ms @ [CHR 0x7D]) = Some p \<and> map_of p = map_of ms"
proof (cases ms)
  case Nil
  then show ?thesis by (simp add: json_loads_def) (simp add: skip_ws_def)
next
  case (Cons m rest)
  have "json_members ms @ [CHR 0x7D] = CHR 0x22 # tl (json_members ms @ [CHR 0x7D])"
    unfolding Cons by (cases m; cases rest) (simp_all add: json_text_def)
  then obtain ds where ds: "json_members ms @ [CHR 0x7D] = CHR 0x22 # ds" by blast
  have "read_members [] (CHR 0x22 # ds) = Some (fold (\<lambda>(k, v). AList.update k v) ms [], [])"
    using read_json_members [of ms "[]" "[]"] Cons unfolding ds by (metis list.distinct(1))
  then have "json_loads (CHR 0x7B # json_members ms @ [CHR 0x7D]) = Some (fold (\<lambda>(k, v). AList.update k v) ms [])"
    unfolding json_loads_def ds by (simp add: skip_ws_def)
  then show ?thesis
    using map_of_updates [of ms "[]"] map_of_rev_distinct [OF assms] by auto
qed

lemma json_roundtrip:
  assumes "distinct (map fst payload)"
  shows "\<exists>p. json_loads (json_dumps payload) = Some p \<and> map_of p = map_of payload"
proof -
  have "distinct (map fst (sort_key fst payload))"
    using assms by (metis mset_eq_imp_distinct_iff mset_map mset_sort)
  from json_object_reads [OF this] show ?thesis
    by (simp add: json_dumps_def map_of_sort_distinct [OF assms])
qed

section \<open>Base 64\<close>

text \<open>
  \<open>base64.urlsafe_b64decode\<close>: characters outside the alphabet are skipped, decoding stops at a complete
  padding, and an incomplete group of four is an error.  \<open>q\<close> counts the characters of the group,
  \<open>left\<close> holds the bits not yet written, \<open>pads\<close> counts padding characters.
\<close>

definition base64_value :: "char \<Rightarrow> int option" where
  "base64_value ch =
     (let v = code_of ch in
      if is_upper_char ch then Some (v - 65)
      else if is_lower_char ch then Some (v - 71)
      else if is_digit_char ch then Some (v + 4)
      else if ch = CHR ''+'' \<or> ch = CHR ''-'' then Some 62
      else if ch = CHR 0x2F \<or> ch = CHR ''_'' then Some 63 else None)"

fun base64_loop :: "int \<Rightarrow> int \<Rightarrow> int \<Rightarrow> string \<Rightarrow> string option" where
  "base64_loop q left pads [] = (if q = 0 then Some [] else None)"
| "base64_loop q left pads (ch # cs) =
     (if ch = CHR ''='' then
        (if 2 \<le> q \<and> 4 \<le> q + pads + 1 then Some []
         else base64_loop q left (if 2 \<le> q then pads + 1 else pads) cs)
      else case base64_value ch of
          None \<Rightarrow> base64_loop q left pads cs
        | Some v \<Rightarrow>
          if q = 0 then base64_loop 1 v 0 cs
          else if q = 1 then map_option (Cons (char_of (4 * left + v div 16))) (base64_loop 2 (v mod 16) 0 cs)
          else if q = 2 then map_option (Cons (char_of (16 * left + v div 4))) (base64_loop 3 (v mod 4) 0 cs)
          else map_option (Cons (char_of (64 * left + v))) (base64_loop 0 0 0 cs))"

definition urlsafe_b64decode :: "string \<Rightarrow> string option" where
  "urlsafe_b64decode s =
     (if list_ex (\<lambda>ch. 127 < code_of ch) s then None else base64_loop 0 0 0 s)"

end
