(* ===== verification/Json.thy ===== *)
theory Json
  imports Decimal_Arith Py_Text
begin

text \<open>
  The values of \<open>json.loads\<close> and of the JSON columns of the database, with Python's truth value and \<open>str\<close>.
\<close>

datatype json = JNull | JBool bool | JNumber decimal | JString string | JArray "json list"
  | JObject "(string \<times> json) list"

fun json_true :: "json \<Rightarrow> bool" where
  "json_true JNull = False"
| "json_true (JBool b) = b"
| "json_true (JNumber n) = (n \<noteq> 0)"
| "json_true (JString s) = (s \<noteq> [])"
| "json_true (JArray xs) = (xs \<noteq> [])"
| "json_true (JObject ps) = (ps \<noteq> [])"

text \<open>\<open>str(v)\<close>: the text itself for a string; \<open>py_str\<close> stands for the rest of Python's \<open>str\<close>.\<close>

definition json_str :: "(json \<Rightarrow> string) \<Rightarrow> json \<Rightarrow> string" where
  "json_str py_str v = (case v of JString s \<Rightarrow> s | _ \<Rightarrow> py_str v)"

end
