(* ===== verification/Credentials.thy ===== *)
theory Credentials
  imports Text_Codecs Json
begin

text \<open>
  \<open>packages/security/credentials.py\<close> and \<open>packages/security/store.py\<close>: the envelope that encrypts a
  workspace's provider credentials, and the store of the encrypted rows with its audit trail.

  AES-GCM, SHA-256, the random nonce and fresh UUIDs are code outside the repository: \<open>seal\<close> and \<open>unseal\<close>
  (key, nonce, data, associated data), \<open>sha\<close> and the rest are arguments; \<open>unseal\<close> gives \<open>None\<close> where the
  library raises \<open>InvalidTag\<close>.
\<close>

section \<open>The cipher\<close>

record encrypted_credential =
  ec_key_version :: string
  ec_nonce :: string
  ec_ciphertext :: string
  ec_fingerprint :: string

record credential_cipher =
  cc_keys :: "(string \<times> string) list"
  cc_active_version :: string

text \<open>The loop of \<open>CredentialCipher.__init__\<close> over the comma-separated keys; a version that is given
  again replaces the key but keeps its place in the dictionary.\<close>

definition parse_key :: "string \<Rightarrow> (string \<times> string) result" where
  "parse_key item =
     (case py_split_once (CHR '':'') (py_strip item) of
       None \<Rightarrow> Inl (CredentialConfigurationError ''Credential master keys must use version:base64 format'')
     | Some (version, encoded) \<Rightarrow>
       (case urlsafe_b64decode (encoded @ replicate (nat ((- int (length encoded)) mod 4)) (CHR ''='')) of
         None \<Rightarrow> Inl (CredentialConfigurationError ''Credential master keys must use version:base64 format'')
       | Some key \<Rightarrow>
         if length key \<noteq> 32
         then Inl (CredentialConfigurationError ''Every credential master key must be 32 bytes'')
         else Inr (version, key)))"

fun parse_keys :: "(string \<times> string) list \<Rightarrow> string list \<Rightarrow> (string \<times> string) list result" where
  "parse_keys parsed [] = Inr parsed"
| "parse_keys parsed (item # items) =
     (if py_strip item = [] then parse_keys parsed items
      else rbind (parse_key item) (\<lambda>(version, key). parse_keys (AList.update version key parsed) items))"

definition new_cipher :: "string \<Rightarrow> credential_cipher result" where
  "new_cipher encoded_keys =
     rbind (parse_keys [] (py_split_at (CHR '','') encoded_keys)) (\<lambda>parsed.
     if parsed = []
     then Inl (CredentialConfigurationError ''At least one credential master key is required'')
     else Inr \<lparr> cc_keys = parsed, cc_active_version = fst (last parsed) \<rparr>)"

definition cipher_aad :: "uuid \<Rightarrow> string \<Rightarrow> string \<Rightarrow> string" where
  "cipher_aad workspace_id provider key_version =
     ''alphadesk:'' @ workspace_id @ '':'' @ provider @ '':'' @ key_version"

definition cipher_encrypt ::
  "(string \<Rightarrow> string \<Rightarrow> string \<Rightarrow> string \<Rightarrow> string) \<Rightarrow> (string \<Rightarrow> string) \<Rightarrow> string \<Rightarrow> credential_cipher \<Rightarrow> uuid \<Rightarrow>
   string \<Rightarrow> (string \<times> string) list \<Rightarrow> encrypted_credential result"
where
  "cipher_encrypt seal sha nonce cipher workspace_id provider payload =
     (let version = cc_active_version cipher; plaintext = json_dumps payload in
      case map_of (cc_keys cipher) version of
        None \<Rightarrow> Inl (KeyError version)
      | Some key \<Rightarrow> Inr \<lparr> ec_key_version = version, ec_nonce = nonce,
          ec_ciphertext = seal key nonce plaintext (cipher_aad workspace_id provider version),
          ec_fingerprint = take 12 (sha plaintext) \<rparr>)"

text \<open>A decrypted text that is not an object of strings does not occur: only \<open>encrypt\<close> writes texts.\<close>

definition cipher_decrypt ::
  "(string \<Rightarrow> string \<Rightarrow> string \<Rightarrow> string \<Rightarrow> string option) \<Rightarrow> credential_cipher \<Rightarrow> uuid \<Rightarrow> string \<Rightarrow>
   string \<Rightarrow> string \<Rightarrow> string \<Rightarrow> (string \<times> string) list result"
where
  "cipher_decrypt unseal cipher workspace_id provider key_version nonce ciphertext =
     (case map_of (cc_keys cipher) key_version of
       None \<Rightarrow> Inl (CredentialConfigurationError (''Credential key version '' @ key_version @ '' is unavailable''))
     | Some key \<Rightarrow>
       (case unseal key nonce ciphertext (cipher_aad workspace_id provider key_version) of
         None \<Rightarrow> Inl (External ''InvalidTag'')
       | Some plaintext \<Rightarrow>
         (case json_loads plaintext of
           None \<Rightarrow> Inl (CredentialConfigurationError ''Decrypted credential payload is invalid'')
         | Some payload \<Rightarrow> Inr payload)))"

section \<open>The store\<close>

record credential_row =
  cr_credential_id :: uuid
  cr_workspace_id :: uuid
  cr_provider :: string
  cr_key_version :: string
  cr_nonce :: string
  cr_ciphertext :: string
  cr_fingerprint :: string
  cr_configuration :: "(string \<times> string) list"
  cr_validation_status :: string
  cr_enabled :: bool
  cr_validated_at :: "instant option"
  cr_created_at :: instant
  cr_updated_at :: instant

record audit_row =
  au_audit_id :: uuid
  au_workspace_id :: "uuid option"
  au_actor_user_id :: "uuid option"
  au_action :: string
  au_detail :: "(string \<times> json) list"
  au_occurred_at :: instant

record credential_db =
  cd_credentials :: "credential_row list"
  cd_audit :: "audit_row list"

definition credential_of :: "uuid \<Rightarrow> string \<Rightarrow> credential_row \<Rightarrow> bool" where
  "credential_of ws provider r \<longleftrightarrow> cr_workspace_id r = ws \<and> cr_provider r = provider"

text \<open>The insert with \<open>on_conflict_do_update\<close>: the row keeps its identifier and creation time.\<close>

definition upsert_credential :: "credential_row \<Rightarrow> credential_row list \<Rightarrow> credential_row \<times> credential_row list" where
  "upsert_credential v rows =
     (case List.find (credential_of (cr_workspace_id v) (cr_provider v)) rows of
       None \<Rightarrow> (v, rows @ [v])
     | Some old \<Rightarrow>
       let new = v\<lparr>cr_credential_id := cr_credential_id old, cr_created_at := cr_created_at old\<rparr> in
       (new, map (\<lambda>r. if credential_of (cr_workspace_id v) (cr_provider v) r then new else r) rows))"

definition credential_values ::
  "uuid \<Rightarrow> instant \<Rightarrow> uuid \<Rightarrow> string \<Rightarrow> encrypted_credential \<Rightarrow> (string \<times> string) list \<Rightarrow> string \<Rightarrow> bool \<Rightarrow>
   credential_row"
where
  "credential_values credential_id now ws provider encrypted configuration validation_status enabled =
     \<lparr> cr_credential_id = credential_id, cr_workspace_id = ws, cr_provider = provider,
       cr_key_version = ec_key_version encrypted, cr_nonce = ec_nonce encrypted,
       cr_ciphertext = ec_ciphertext encrypted, cr_fingerprint = ec_fingerprint encrypted,
       cr_configuration = configuration, cr_validation_status = validation_status, cr_enabled = enabled,
       cr_validated_at = (if validation_status = ''VERIFIED'' then Some now else None),
       cr_created_at = now, cr_updated_at = now \<rparr>"

definition credential_audit ::
  "uuid \<Rightarrow> instant \<Rightarrow> uuid \<Rightarrow> uuid \<Rightarrow> string \<Rightarrow> (string \<times> json) list \<Rightarrow> audit_row" where
  "credential_audit audit_id now ws actor action detail =
     \<lparr> au_audit_id = audit_id, au_workspace_id = Some ws, au_actor_user_id = Some actor,
       au_action = action, au_detail = detail, au_occurred_at = now \<rparr>"

definition credential_save ::
  "(string \<Rightarrow> string \<Rightarrow> string \<Rightarrow> string \<Rightarrow> string) \<Rightarrow> (string \<Rightarrow> string) \<Rightarrow> string \<Rightarrow> credential_cipher \<Rightarrow>
   uuid \<Rightarrow> uuid \<Rightarrow> instant \<Rightarrow> uuid \<Rightarrow> uuid \<Rightarrow> string \<Rightarrow> (string \<times> string) list \<Rightarrow> (string \<times> string) list \<Rightarrow> string \<Rightarrow>
   bool \<Rightarrow> credential_db \<Rightarrow> (credential_row \<times> credential_db) result"
where
  "credential_save seal sha nonce cipher credential_id audit_id now ws actor provider secret_payload
     configuration validation_status enabled db =
     rbind (cipher_encrypt seal sha nonce cipher ws provider secret_payload) (\<lambda>encrypted.
     case upsert_credential (credential_values credential_id now ws provider encrypted configuration
         validation_status enabled) (cd_credentials db) of (record, rows) \<Rightarrow>
     Inr (record, \<lparr> cd_credentials = rows, cd_audit = cd_audit db @
       [credential_audit audit_id now ws actor (''credential.'' @ py_lower provider @ ''.saved'')
         [(''fingerprint'', JString (ec_fingerprint encrypted)), (''status'', JString validation_status)]] \<rparr>))"

definition credential_get :: "uuid \<Rightarrow> string \<Rightarrow> credential_db \<Rightarrow> credential_row option" where
  "credential_get ws provider db = List.find (credential_of ws provider) (cd_credentials db)"

definition credential_reveal ::
  "(string \<Rightarrow> string \<Rightarrow> string \<Rightarrow> string \<Rightarrow> string option) \<Rightarrow> credential_cipher \<Rightarrow> uuid \<Rightarrow> string \<Rightarrow>
   credential_db \<Rightarrow> (string \<times> string) list option result"
where
  "credential_reveal unseal cipher ws provider db =
     (case credential_get ws provider db of
       None \<Rightarrow> Inr None
     | Some r \<Rightarrow> rbind (cipher_decrypt unseal cipher ws provider (cr_key_version r) (cr_nonce r)
         (cr_ciphertext r)) (\<lambda>payload. Inr (Some payload)))"

definition credential_delete :: "uuid \<Rightarrow> instant \<Rightarrow> uuid \<Rightarrow> uuid \<Rightarrow> string \<Rightarrow> credential_db \<Rightarrow> credential_db" where
  "credential_delete audit_id now ws actor provider db =
     \<lparr> cd_credentials = filter (\<lambda>r. \<not> credential_of ws provider r) (cd_credentials db),
       cd_audit = cd_audit db @
         [credential_audit audit_id now ws actor (''credential.'' @ py_lower provider @ ''.deleted'') []] \<rparr>"

section \<open>Facts\<close>

lemma parse_key_Inr:
  "parse_key item = Inr (version, key) \<Longrightarrow> length key = 32 \<and> CHR '':'' \<notin> set version"
  by (auto simp: parse_key_def split: option.splits if_splits dest: py_split_once_head)

lemma parse_keys_Inr:
  assumes "parse_keys parsed items = Inr keys"
    and "\<forall>(v, k) \<in> set parsed. length k = 32 \<and> CHR '':'' \<notin> set v" and "distinct (map fst parsed)"
  shows "(\<forall>(v, k) \<in> set keys. length k = 32 \<and> CHR '':'' \<notin> set v) \<and> distinct (map fst keys)"
  using assms
proof (induction parsed items rule: parse_keys.induct)
  case (2 parsed item items)
  show ?case
  proof (cases "py_strip item = []")
    case True
    then show ?thesis using 2 by simp
  next
    case False
    then obtain v k where vk: "parse_key item = Inr (v, k)"
      "parse_keys (AList.update v k parsed) items = Inr keys"
      using "2.prems"(1) by (auto simp: rbind_eq_Inr)
    have "\<forall>(v', k') \<in> set (AList.update v k parsed). length k' = 32 \<and> CHR '':'' \<notin> set v'"
      using "2.prems"(2) parse_key_Inr [OF vk(1)] by (induction parsed) auto
    moreover have "distinct (map fst (AList.update v k parsed))"
      using "2.prems"(3) by (rule distinct_update)
    ultimately show ?thesis using "2.IH"(2) [OF False vk(1) refl vk(2)] by blast
  qed
qed simp

lemma new_cipher_Inr:
  assumes "new_cipher encoded = Inr cipher"
  shows "(\<exists>key. map_of (cc_keys cipher) (cc_active_version cipher) = Some key) \<and>
    (\<forall>(v, k) \<in> set (cc_keys cipher). length k = 32 \<and> CHR '':'' \<notin> set v)"
proof -
  obtain keys where keys: "parse_keys [] (py_split_at (CHR '','') encoded) = Inr keys" "keys \<noteq> []"
    "cipher = \<lparr> cc_keys = keys, cc_active_version = fst (last keys) \<rparr>"
    using assms by (auto simp: new_cipher_def rbind_eq_Inr split: if_splits)
  have "last keys \<in> set keys" using keys(2) by simp
  then have "map_of keys (fst (last keys)) \<noteq> None" by (simp add: map_of_eq_None_iff)
  with keys parse_keys_Inr [OF keys(1)] show ?thesis by auto
qed

lemma at_separator:
  "sep \<notin> set a \<Longrightarrow> sep \<notin> set b \<Longrightarrow> a @ sep # x = b @ sep # y \<longleftrightarrow> a = b \<and> x = y"
proof (induction a arbitrary: b)
  case Nil
  then show ?case by (cases b) auto
next
  case (Cons c a)
  then show ?case by (cases b) auto
qed

text \<open>The associated data names the workspace and the provider.\<close>

lemma cipher_aad_inj:
  assumes "CHR '':'' \<notin> set ws" "CHR '':'' \<notin> set ws'" "CHR '':'' \<notin> set p" "CHR '':'' \<notin> set p'"
  shows "cipher_aad ws p v = cipher_aad ws' p' v' \<longleftrightarrow> ws = ws' \<and> p = p' \<and> v = v'"
  using assms by (simp add: cipher_aad_def at_separator)

lemma credential_of_upsert:
  assumes "upsert_credential v rows = (r, rows')"
  shows "cr_workspace_id r = cr_workspace_id v \<and> cr_provider r = cr_provider v \<and>
    cr_key_version r = cr_key_version v \<and> cr_nonce r = cr_nonce v \<and> cr_ciphertext r = cr_ciphertext v"
  using assms by (auto simp: upsert_credential_def Let_def split: option.splits)

lemma upsert_lookup:
  assumes "upsert_credential v rows = (r, rows')"
  shows "List.find (credential_of ws p) rows' =
    (if ws = cr_workspace_id v \<and> p = cr_provider v then Some r else List.find (credential_of ws p) rows)"
proof (cases "List.find (credential_of (cr_workspace_id v) (cr_provider v)) rows")
  case None
  then show ?thesis using assms
    by (auto simp: upsert_credential_def find_append credential_of_def split: option.splits)
next
  case (Some old)
  let ?own = "credential_of (cr_workspace_id v) (cr_provider v)"
  have r: "rows' = map (\<lambda>x. if ?own x then r else x) rows" and own: "?own r"
    using assms Some by (auto simp: upsert_credential_def Let_def credential_of_def)
  show ?thesis
  proof (cases "ws = cr_workspace_id v \<and> p = cr_provider v")
    case True
    have "List.find ?own rows' = map_option (\<lambda>x. if ?own x then r else x) (List.find ?own rows)"
      unfolding r by (rule find_map_same) (simp_all add: own)
    moreover have "?own old" using Some by (auto simp: find_Some_iff)
    ultimately show ?thesis using True Some by simp
  next
    case False
    then have "\<not> (?own x \<and> credential_of ws p x)" for x by (auto simp: credential_of_def)
    then show ?thesis using False own unfolding r by (subst find_map_other) auto
  qed
qed

end
