(* ===== verification/AI_Workflow.thy ===== *)
theory AI_Workflow
  imports Json Text_Codecs Options_Domain
begin

text \<open>
  \<open>packages/domain/ai.py\<close>, \<open>packages/ai/\<close>: the read-only AI workflow that comments on an opportunity.
  Three agents answer in turn, each with one repair attempt; whatever goes wrong, the result is a
  degraded one that asks for more data.

  The language model is code outside the repository: its answer to a call is an argument.
\<close>

section \<open>Reports\<close>

record citation =
  ct_source_id :: string
  ct_claim :: string

definition citation_valid :: "citation \<Rightarrow> bool" where
  "citation_valid c \<longleftrightarrow> ct_source_id c \<noteq> [] \<and> ct_claim c \<noteq> []"

record ai_context_report =
  cx_facts :: "string list"
  cx_interpretations :: "string list"
  cx_assumptions :: "string list"
  cx_catalyst_summary :: string
  cx_signal_consistent :: bool
  cx_confidence :: decimal
  cx_reasons :: "string list"
  cx_citations :: "citation list"

definition ai_context_report_valid :: "ai_context_report \<Rightarrow> bool" where
  "ai_context_report_valid r \<longleftrightarrow> 0 \<le> cx_confidence r \<and> cx_confidence r \<le> 1 \<and> cx_reasons r \<noteq> [] \<and>
     cx_citations r \<noteq> [] \<and> list_all citation_valid (cx_citations r)"

record devils_advocate_report =
  dv_alternative_explanations :: "string list"
  dv_priced_in_risk :: string
  dv_extension_risk :: string
  dv_contradictory_evidence :: "string list"
  dv_portfolio_overlap :: string
  dv_liquidity_concerns :: "string list"
  dv_reject_trade :: bool
  dv_confidence :: decimal
  dv_reasons :: "string list"
  dv_citations :: "citation list"

definition devils_advocate_report_valid :: "devils_advocate_report \<Rightarrow> bool" where
  "devils_advocate_report_valid r \<longleftrightarrow> 0 \<le> dv_confidence r \<and> dv_confidence r \<le> 1 \<and> dv_reasons r \<noteq> [] \<and>
     dv_citations r \<noteq> [] \<and> list_all citation_valid (dv_citations r)"

datatype recommendation = PROCEED_TO_STRUCTURE_SELECTION | Recommend_NO_TRADE | NEEDS_MORE_DATA

record decision_report =
  dr_recommendation :: recommendation
  dr_confidence :: decimal
  dr_facts :: "string list"
  dr_interpretations :: "string list"
  dr_reasons :: "string list"
  dr_citations :: "citation list"

definition decision_report_valid :: "decision_report \<Rightarrow> bool" where
  "decision_report_valid r \<longleftrightarrow> 0 \<le> dr_confidence r \<and> dr_confidence r \<le> 1 \<and> dr_reasons r \<noteq> [] \<and>
     list_all citation_valid (dr_citations r)"

record ai_workflow_result =
  aw_provider :: string
  aw_model :: string
  aw_prompt_versions :: "(string \<times> string) list"
  aw_schema_version :: int
  aw_context :: "ai_context_report option"
  aw_devils_advocate :: "devils_advocate_report option"
  aw_decision :: decision_report
  aw_degraded :: bool
  aw_failure_reason :: "string option"
  aw_completed_at :: instant

text \<open>The validator \<open>degraded_results_fail_safe\<close>.\<close>

definition ai_workflow_result_valid :: "ai_workflow_result \<Rightarrow> bool" where
  "ai_workflow_result_valid r \<longleftrightarrow>
     (aw_degraded r \<longrightarrow> dr_recommendation (aw_decision r) = NEEDS_MORE_DATA)"

section \<open>Prompts\<close>

definition newline :: string where
  "newline = [CHR 0x0A]"

definition context_version :: string where
  "context_version = ''ai-context-v1''"

definition devils_advocate_version :: string where
  "devils_advocate_version = ''devils-advocate-v1''"

definition decision_composer_version :: string where
  "decision_composer_version = ''decision-composer-v1''"

definition context_prompt :: string where
  "context_prompt =
     ''You are AlphaDesk's read-only AI Context Agent.'' @
     newline @ ''Use only the supplied source records. Separate facts from interpretations, identify assumptions,'' @
     newline @ ''and cite source_id values for every material claim. Never invent metrics. Return only the schema.'' @
     newline @ ''You cannot place orders, change risk decisions, or request trading tools.''"

definition devils_advocate_prompt :: string where
  "devils_advocate_prompt =
     ''You are AlphaDesk's read-only Devil's Advocate.'' @
     newline @ ''Try to reject the proposed trade using only supplied evidence. Inspect priced-in, extension,'' @
     newline @ ''contradiction, event uncertainty, overlap, and liquidity risks. Cite supplied source_id values.'' @
     newline @ ''Return only the schema. You cannot place orders or override deterministic risk controls.''"

definition decision_prompt :: string where
  "decision_prompt =
     ''You are AlphaDesk's read-only Decision Composer.'' @
     newline @ ''Choose only PROCEED_TO_STRUCTURE_SELECTION, NO_TRADE, or NEEDS_MORE_DATA. Combine the supplied'' @
     newline @ ''quant evidence and two reports as a recommendation, never an order. Separate facts from'' @
     newline @ ''interpretations, cite supplied source_id values, and return only the schema.''"

section \<open>Evidence\<close>

type_synonym evidence = "(string \<times> json) list"

fun source_id_of :: "(json \<Rightarrow> string) \<Rightarrow> json \<Rightarrow> string list" where
  "source_id_of py_str (JObject ps) = (case map_of ps ''source_id'' of
      None \<Rightarrow> []
    | Some v \<Rightarrow> if json_true v then [json_str py_str v] else [])"
| "source_id_of py_str _ = []"

definition allowed_source_ids :: "(json \<Rightarrow> string) \<Rightarrow> evidence \<Rightarrow> string list" where
  "allowed_source_ids py_str ev = (case map_of ev ''sources'' of
      Some (JArray items) \<Rightarrow> concat (map (source_id_of py_str) items)
    | _ \<Rightarrow> [])"

section \<open>The workflow\<close>

text \<open>
  A provider and the answers of its three agents; what an agent sees of the input payload is the
  evidence and the reports made before.  The instructions of the repair attempt differ, so that an
  agent may answer differently then.
\<close>

record ai_provider =
  ap_name :: string
  ap_model :: string
  ap_context :: "string \<Rightarrow> evidence \<Rightarrow> ai_context_report result"
  ap_devils_advocate :: "string \<Rightarrow> evidence \<Rightarrow> ai_context_report \<Rightarrow> devils_advocate_report result"
  ap_decision :: "string \<Rightarrow> evidence \<Rightarrow> ai_context_report \<Rightarrow> devils_advocate_report \<Rightarrow> decision_report result"

definition quoted_list :: "string list \<Rightarrow> string" where
  "quoted_list xs = ''['' @ concat (map (\<lambda>x. x @ '' '') xs) @ '']''"

definition checked_report ::
  "string \<Rightarrow> string list \<Rightarrow> ('r \<Rightarrow> citation list) \<Rightarrow> 'r result \<Rightarrow> 'r result" where
  "checked_report agent_name allowed citations answer =
     rbind answer (\<lambda>r.
     rbind (require (citations r \<noteq> []) (ValueError (agent_name @ '' returned no citations''))) (\<lambda>_.
     let unknown = filter (\<lambda>x. x \<notin> set allowed) (map ct_source_id (citations r)) in
     rbind (require (unknown = [])
       (ValueError (agent_name @ '' cited unknown sources: '' @ quoted_list (sort (remdups unknown))))) (\<lambda>_.
     Inr r)))"

definition repair_suffix :: string where
  "repair_suffix = newline @ ''Previous output failed validation. Strictly repair to the schema.''"

definition with_repair ::
  "string \<Rightarrow> string \<Rightarrow> string list \<Rightarrow> ('r \<Rightarrow> citation list) \<Rightarrow> (string \<Rightarrow> 'r result) \<Rightarrow> 'r result" where
  "with_repair agent_name instructions allowed citations generate =
     (case checked_report agent_name allowed citations (generate instructions) of
       Inr r \<Rightarrow> Inr r
     | Inl _ \<Rightarrow> checked_report agent_name allowed citations (generate (instructions @ repair_suffix)))"

definition prompt_versions :: "(string \<times> string) list" where
  "prompt_versions = [(''context'', context_version), (''devils_advocate'', devils_advocate_version),
     (''decision'', decision_composer_version)]"

definition degraded_decision :: decision_report where
  "degraded_decision = \<lparr> dr_recommendation = NEEDS_MORE_DATA, dr_confidence = 0, dr_facts = [],
     dr_interpretations = [],
     dr_reasons = [''AI workflow unavailable; deterministic systems remain authoritative.''],
     dr_citations = [] \<rparr>"

definition agent_reports ::
  "ai_provider \<Rightarrow> string list \<Rightarrow> evidence \<Rightarrow>
   (ai_context_report \<times> devils_advocate_report \<times> decision_report) result" where
  "agent_reports p allowed ev =
     rbind (with_repair ''ai_context'' context_prompt allowed cx_citations
       (\<lambda>i. ap_context p i ev)) (\<lambda>context.
     rbind (with_repair ''devils_advocate'' devils_advocate_prompt allowed dv_citations
       (\<lambda>i. ap_devils_advocate p i ev context)) (\<lambda>devil.
     rbind (with_repair ''decision_composer'' decision_prompt allowed dr_citations
       (\<lambda>i. ap_decision p i ev context devil)) (\<lambda>decision.
     Inr (context, devil, decision))))"

definition ai_run :: "(json \<Rightarrow> string) \<Rightarrow> instant \<Rightarrow> ai_provider \<Rightarrow> evidence \<Rightarrow> ai_workflow_result" where
  "ai_run py_str now p ev =
     (case agent_reports p (allowed_source_ids py_str ev) ev of
       Inr (context, devil, decision) \<Rightarrow>
         \<lparr> aw_provider = ap_name p, aw_model = ap_model p, aw_prompt_versions = prompt_versions,
           aw_schema_version = 1, aw_context = Some context, aw_devils_advocate = Some devil,
           aw_decision = decision, aw_degraded = False, aw_failure_reason = None, aw_completed_at = now \<rparr>
     | Inl e \<Rightarrow>
         \<lparr> aw_provider = ap_name p, aw_model = ap_model p, aw_prompt_versions = prompt_versions,
           aw_schema_version = 1, aw_context = None, aw_devils_advocate = None,
           aw_decision = degraded_decision, aw_degraded = True, aw_failure_reason = Some (error_name e),
           aw_completed_at = now \<rparr>)"

section \<open>The providers\<close>

definition fence :: string where
  "fence = [CHR 0x60, CHR 0x60, CHR 0x60]"

text \<open>The part of \<open>_decode_structured_content\<close> before \<open>json.loads\<close>.\<close>

definition strip_fence :: "string \<Rightarrow> string" where
  "strip_fence content =
     (let cleaned = py_strip content in
      if py_startswith cleaned fence
      then let body = (if CHR 0x0A \<in> set cleaned
             then tl (dropWhile (\<lambda>ch. ch \<noteq> CHR 0x0A) cleaned) else cleaned);
             inner = (if py_startswith (rev body) fence then take (length body - 3) body else body)
           in py_strip inner
      else cleaned)"

definition decode_structured_content :: "(string \<Rightarrow> 'd option) \<Rightarrow> string \<Rightarrow> 'd result" where
  "decode_structured_content loads content = (case loads (strip_fence content) of
      None \<Rightarrow> Inl (StructuredOutputError ''Provider returned malformed structured output'')
    | Some d \<Rightarrow> Inr d)"

definition openrouter_schema_name :: "string \<Rightarrow> string" where
  "openrouter_schema_name agent_name =
     (let name = take 48 (filter (\<lambda>ch. py_isalnum [ch]) agent_name) in
      if name = [] then ''AlphaDeskResponse'' else name)"

text \<open>\<open>OpenRouterProvider.generate\<close> after the reply: \<open>reply\<close> is the message content, or the exception of the
  client; \<open>parse\<close> is \<open>json.loads\<close> and \<open>model_validate\<close> the response model's validator.\<close>

definition openrouter_generate ::
  "(string \<Rightarrow> 'd option) \<Rightarrow> ('d \<Rightarrow> 'r result) \<Rightarrow> string \<Rightarrow> string option result \<Rightarrow> 'r result" where
  "openrouter_generate parse model_validate agent_name reply =
     rbind reply (\<lambda>content.
     case content of
       None \<Rightarrow> Inl (ValueError (agent_name @ '' returned no structured output''))
     | Some text \<Rightarrow> if text = [] then Inl (ValueError (agent_name @ '' returned no structured output''))
         else rbind (decode_structured_content parse text) model_validate)"

definition openai_generate :: "string \<Rightarrow> 'r option result \<Rightarrow> 'r result" where
  "openai_generate agent_name reply =
     rbind reply (\<lambda>parsed. case parsed of
       None \<Rightarrow> Inl (ValueError (agent_name @ '' returned no structured output'')) | Some r \<Rightarrow> Inr r)"

definition fixture_generate ::
  "(string \<times> 'd) list \<Rightarrow> ('d \<Rightarrow> 'r result) \<Rightarrow> string \<Rightarrow> 'r result" where
  "fixture_generate responses model_validate agent_name = (case map_of responses agent_name of
      None \<Rightarrow> Inl (RuntimeError (''Fixture unavailable for '' @ agent_name))
    | Some d \<Rightarrow> model_validate d)"

section \<open>The store\<close>

record ai_run_row =
  ai_run_id :: uuid
  ai_workspace_id :: "uuid option"
  ai_correlation_id :: uuid
  ai_input_payload :: evidence
  ai_output_payload :: ai_workflow_result
  ai_created_at :: instant

definition ai_store_save ::
  "uuid option \<Rightarrow> uuid \<Rightarrow> instant \<Rightarrow> uuid \<Rightarrow> evidence \<Rightarrow> ai_workflow_result \<Rightarrow> ai_run_row list \<Rightarrow> ai_run_row list" where
  "ai_store_save ws run_id now correlation_id input_payload result rows =
     rows @ [\<lparr> ai_run_id = run_id, ai_workspace_id = ws, ai_correlation_id = correlation_id,
       ai_input_payload = input_payload, ai_output_payload = result, ai_created_at = now \<rparr>]"

section \<open>Properties\<close>

text \<open>A report that cites something, and only sources of the evidence.\<close>

definition sourced :: "string list \<Rightarrow> citation list \<Rightarrow> bool" where
  "sourced allowed citations \<longleftrightarrow>
     citations \<noteq> [] \<and> list_all (\<lambda>c. ct_source_id c \<in> set allowed) citations"

lemma with_repair_Inr:
  assumes "with_repair agent i allowed citations generate = Inr r"
  shows "sourced allowed (citations r) \<and>
    (generate i = Inr r \<or> generate (i @ repair_suffix) = Inr r)"
  using assms
  by (auto simp: with_repair_def checked_report_def Let_def guard_simps filter_empty_conv sourced_def
      list_all_iff split: sum.splits)

text \<open>C25. The AI workflow always returns a valid result.  Either all three agents answered and every
  report cites at least one source and only sources of the evidence, or the result is degraded: it
  carries no report, asks for more data with confidence 0 and names the failure.  Evidence without a
  source always gives the degraded result.\<close>

theorem ai_workflow_fails_safe:
  "ai_workflow_result_valid (ai_run py_str now p ev) \<and>
   (if aw_degraded (ai_run py_str now p ev)
    then aw_context (ai_run py_str now p ev) = None \<and> aw_devils_advocate (ai_run py_str now p ev) = None \<and>
      aw_decision (ai_run py_str now p ev) = degraded_decision \<and> aw_failure_reason (ai_run py_str now p ev) \<noteq> None
    else allowed_source_ids py_str ev \<noteq> [] \<and>
      (\<exists>c d. aw_context (ai_run py_str now p ev) = Some c \<and> aw_devils_advocate (ai_run py_str now p ev) = Some d \<and>
        sourced (allowed_source_ids py_str ev) (cx_citations c) \<and>
        sourced (allowed_source_ids py_str ev) (dv_citations d) \<and>
        sourced (allowed_source_ids py_str ev) (dr_citations (aw_decision (ai_run py_str now p ev)))))"
proof (cases "agent_reports p (allowed_source_ids py_str ev) ev")
  case (Inl e)
  then show ?thesis by (simp add: ai_run_def ai_workflow_result_valid_def degraded_decision_def)
next
  case (Inr reports)
  obtain c d r where reports: "reports = (c, d, r)" by (cases reports)
  have "sourced (allowed_source_ids py_str ev) (cx_citations c) \<and>
      sourced (allowed_source_ids py_str ev) (dv_citations d) \<and>
      sourced (allowed_source_ids py_str ev) (dr_citations r)"
    using Inr by (auto simp: reports agent_reports_def rbind_eq_Inr dest!: with_repair_Inr)
  moreover from this have "allowed_source_ids py_str ev \<noteq> []" by (cases "cx_citations c") (auto simp: sourced_def)
  ultimately show ?thesis using Inr by (simp add: ai_run_def ai_workflow_result_valid_def reports)
qed

end
