(* ===== verification/Desk_State.thy ===== *)
theory Desk_State
  imports Connected_Decisions Credentials AI_Workflow Guardian
begin

text \<open>
  The tables of the connected desk in one state (\<open>packages/database/models.py\<close>), shared by all
  workspaces, and what one workspace sees of them.
\<close>

datatype workspace_status = ONBOARDING | CONNECTING | ACTIVE | CONNECTION_ERROR | SUSPENDED

record workspace_row =
  ws_workspace_id :: uuid
  ws_owner_user_id :: uuid
  ws_name :: string
  ws_workspace_type :: string
  ws_status :: workspace_status
  ws_scanner_enabled :: bool
  ws_created_at :: instant
  ws_updated_at :: instant

record watchlist_row =
  wl_workspace_id :: uuid
  wl_symbol :: string
  wl_created_at :: instant

text \<open>The signed-in user of a request (\<open>packages/auth/dependencies.py\<close>), and the workspace the request is for.\<close>

record auth_principal =
  pr_user_id :: uuid
  pr_auth_subject :: string
  pr_email :: string
  pr_is_admin :: bool

record workspace_context =
  wc_principal :: auth_principal
  wc_workspace_id :: uuid
  wc_status :: workspace_status

definition wc_user_id :: "workspace_context \<Rightarrow> uuid" where
  "wc_user_id cx = pr_user_id (wc_principal cx)"

record desk_db =
  dd_workspaces :: "workspace_row list"
  dd_watchlist :: "watchlist_row list"
  dd_credentials :: credential_db
  dd_opportunities :: "opportunity_row list"
  dd_scan_runs :: "scan_run_row list"
  dd_broker :: broker_db
  dd_incidents :: "incident_row list"
  dd_intents :: "order_intent_row list"
  dd_ai_runs :: "ai_run_row list"

text \<open>\<open>session.get(WorkspaceRecord, id)\<close>, and the update of the fetched row.\<close>

definition get_workspace :: "uuid \<Rightarrow> desk_db \<Rightarrow> workspace_row option" where
  "get_workspace ws db = List.find (\<lambda>r. ws_workspace_id r = ws) (dd_workspaces db)"

definition update_workspace :: "uuid \<Rightarrow> (workspace_row \<Rightarrow> workspace_row) \<Rightarrow> desk_db \<Rightarrow> desk_db" where
  "update_workspace ws f db =
     db\<lparr>dd_workspaces := map (\<lambda>r. if ws_workspace_id r = ws then f r else r) (dd_workspaces db)\<rparr>"

definition watchlist_of :: "uuid \<Rightarrow> desk_db \<Rightarrow> string list" where
  "watchlist_of ws db = map wl_symbol (filter (\<lambda>r. wl_workspace_id r = ws) (dd_watchlist db))"

section \<open>The view of one workspace\<close>

text \<open>All that the endpoints read on behalf of a workspace.\<close>

record workspace_view_state =
  vw_workspace :: "workspace_row list"
  vw_watchlist :: "watchlist_row list"
  vw_credentials :: "credential_row list"
  vw_audit :: "audit_row list"
  vw_opportunities :: "opportunity_row list"
  vw_scan_runs :: "scan_run_row list"
  vw_sync :: "broker_sync_status option"
  vw_accounts :: "broker_account list"
  vw_positions :: "broker_position list"
  vw_orders :: "broker_order list"
  vw_incidents :: "incident_row list"
  vw_intents :: "order_intent_row list"
  vw_ai_runs :: "ai_run_row list"

definition view_of :: "uuid \<Rightarrow> desk_db \<Rightarrow> workspace_view_state" where
  "view_of ws db = \<lparr>
     vw_workspace = filter (\<lambda>r. ws_workspace_id r = ws) (dd_workspaces db),
     vw_watchlist = filter (\<lambda>r. wl_workspace_id r = ws) (dd_watchlist db),
     vw_credentials = filter (\<lambda>r. cr_workspace_id r = ws) (cd_credentials (dd_credentials db)),
     vw_audit = filter (\<lambda>r. au_workspace_id r = Some ws) (cd_audit (dd_credentials db)),
     vw_opportunities = filter (\<lambda>r. or_workspace_id r = ws) (dd_opportunities db),
     vw_scan_runs = filter (\<lambda>r. sr_workspace_id r = ws) (dd_scan_runs db),
     vw_sync = bd_sync (dd_broker db) ws,
     vw_accounts = rows_of ws (bd_accounts (dd_broker db)),
     vw_positions = rows_of ws (bd_positions (dd_broker db)),
     vw_orders = rows_of ws (bd_orders (dd_broker db)),
     vw_incidents = filter (\<lambda>r. gr_workspace_id r = ws) (dd_incidents db),
     vw_intents = filter (\<lambda>r. ir_workspace_id r = ws) (dd_intents db),
     vw_ai_runs = filter (\<lambda>r. ai_workspace_id r = Some ws) (dd_ai_runs db) \<rparr>"

end
