(* ===== verification/Desk.thy ===== *)
theory Desk
  imports Desk_State
begin

text \<open>
  \<open>apps/api/routes/desk.py\<close>: the endpoints of the connected desk.  Each is a function of the request,
  the workspace of the caller, the answers of the services outside the repository (Alpaca, OpenRouter,
  the cryptography library), fresh identifiers and clock readings, and the tables.  A response is a
  value or the exception that FastAPI turns into one.
\<close>

section \<open>Workspace and credentials\<close>

record workspace_view =
  wv_workspace_id :: uuid
  wv_status :: workspace_status
  wv_scanner_enabled :: bool
  wv_watchlist_count :: int

definition workspace_view_endpoint :: "workspace_context \<Rightarrow> desk_db \<Rightarrow> workspace_view result" where
  "workspace_view_endpoint cx db = (case get_workspace (wc_workspace_id cx) db of
      None \<Rightarrow> Inl AssertionError
    | Some w \<Rightarrow> Inr \<lparr> wv_workspace_id = wc_workspace_id cx, wv_status = ws_status w,
        wv_scanner_enabled = ws_scanner_enabled w,
        wv_watchlist_count = int (length (watchlist_of (wc_workspace_id cx) db)) \<rparr>)"

record credential_status_view =
  cv_provider :: string
  cv_configured :: bool
  cv_enabled :: bool
  cv_validation_status :: string
  cv_fingerprint :: "string option"
  cv_configuration :: "(string \<times> string) list"
  cv_validated_at :: "instant option"
  cv_updated_at :: "instant option"

definition credential_view :: "string \<Rightarrow> credential_row option \<Rightarrow> credential_status_view" where
  "credential_view provider record = (case record of
      None \<Rightarrow> \<lparr> cv_provider = provider, cv_configured = False, cv_enabled = False,
        cv_validation_status = ''NOT_CONFIGURED'', cv_fingerprint = None, cv_configuration = [],
        cv_validated_at = None, cv_updated_at = None \<rparr>
    | Some r \<Rightarrow> \<lparr> cv_provider = provider, cv_configured = True, cv_enabled = cr_enabled r,
        cv_validation_status = cr_validation_status r, cv_fingerprint = Some (cr_fingerprint r),
        cv_configuration = cr_configuration r, cv_validated_at = cr_validated_at r,
        cv_updated_at = Some (cr_updated_at r) \<rparr>)"

text \<open>The dictionary comprehension keeps the last row of a provider; there is one at most.\<close>

definition credential_statuses :: "workspace_context \<Rightarrow> desk_db \<Rightarrow> credential_status_view list" where
  "credential_statuses cx db =
     (let records = filter (\<lambda>r. cr_workspace_id r = wc_workspace_id cx) (cd_credentials (dd_credentials db)) in
      map (\<lambda>p. credential_view p (List.find (\<lambda>r. cr_provider r = p) (rev records)))
        [''ALPACA'', ''OPENROUTER''])"

text \<open>The cryptographic services of a request: the configured cipher (or none) and the library.\<close>

record vault =
  va_cipher :: "credential_cipher option"
  va_seal :: "string \<Rightarrow> string \<Rightarrow> string \<Rightarrow> string \<Rightarrow> string"
  va_unseal :: "string \<Rightarrow> string \<Rightarrow> string \<Rightarrow> string \<Rightarrow> string option"
  va_sha :: "string \<Rightarrow> string"

definition credential_store_of :: "vault \<Rightarrow> credential_cipher result" where
  "credential_store_of v = (case va_cipher v of
      None \<Rightarrow> Inl (HTTPException 503 ''Encrypted credential storage is not configured'')
    | Some cipher \<Rightarrow> Inr cipher)"

definition reveal :: "vault \<Rightarrow> uuid \<Rightarrow> string \<Rightarrow> desk_db \<Rightarrow> (string \<times> string) list option result" where
  "reveal v ws provider db = rbind (credential_store_of v) (\<lambda>cipher.
     credential_reveal (va_unseal v) cipher ws provider (dd_credentials db))"

text \<open>A subscript \<open>secrets[name]\<close>.\<close>

definition secret_item :: "(string \<times> string) list \<Rightarrow> string \<Rightarrow> string result" where
  "secret_item secrets name = (case map_of secrets name of None \<Rightarrow> Inl (KeyError name) | Some x \<Rightarrow> Inr x)"

definition alpaca_keys :: "(string \<times> string) list \<Rightarrow> (string \<times> string) result" where
  "alpaca_keys secrets = rbind (secret_item secrets ''api_key_id'') (\<lambda>k.
     rbind (secret_item secrets ''secret_key'') (\<lambda>s. Inr (k, s)))"

text \<open>The constructor of the adapter refuses empty keys.\<close>

definition alpaca_adapter :: "string \<times> string \<Rightarrow> unit result" where
  "alpaca_adapter keys = require (fst keys \<noteq> [] \<and> snd keys \<noteq> [])
     (ValueError ''Paper Alpaca credentials are required for the broker adapter.'')"

record provider_test_result =
  pt_provider :: string
  pt_status :: string
  pt_detail :: string
  pt_account_status :: "string option"
  pt_model :: "string option"

text \<open>\<open>_test_alpaca\<close>: \<open>reconciled\<close> is the outcome of the adapter's reconciliation within 20 seconds.\<close>

definition test_alpaca ::
  "string \<times> string \<Rightarrow> reconciliation_snapshot result \<Rightarrow> provider_test_result result" where
  "test_alpaca keys reconciled = rbind (alpaca_adapter keys) (\<lambda>_.
     case reconciled of
       Inl e \<Rightarrow> Inl (HTTPException 422 (''Alpaca paper validation failed ('' @ error_name e @ '')''))
     | Inr snapshot \<Rightarrow> Inr \<lparr> pt_provider = ''ALPACA'', pt_status = ''VERIFIED'',
         pt_detail = ''Paper endpoint authenticated; account, positions, and orders reconciled.'',
         pt_account_status = Some (ba_status (rs_account snapshot)), pt_model = None \<rparr>)"

definition test_openrouter :: "string \<Rightarrow> unit result \<Rightarrow> provider_test_result result" where
  "test_openrouter model probe = (case probe of
      Inl e \<Rightarrow> Inl (HTTPException 422 (''OpenRouter model capability probe failed ('' @ error_name e @ '')''))
    | Inr _ \<Rightarrow> Inr \<lparr> pt_provider = ''OPENROUTER'', pt_status = ''VERIFIED'',
        pt_detail = ''The model produced a schema-valid read-only response.'',
        pt_account_status = None, pt_model = Some model \<rparr>)"

text \<open>Identifiers and clock readings of a request.\<close>

record request_ids =
  rq_id1 :: uuid
  rq_id2 :: uuid
  rq_nonce :: string
  rq_now :: instant
  rq_later :: instant

definition save_alpaca_credentials ::
  "vault \<Rightarrow> request_ids \<Rightarrow> workspace_context \<Rightarrow> string \<times> string \<Rightarrow> reconciliation_snapshot result \<Rightarrow>
   desk_db \<Rightarrow> credential_status_view result \<times> desk_db"
where
  "save_alpaca_credentials v rq cx keys reconciled db =
     (case rbind (test_alpaca keys reconciled) (\<lambda>_. rbind (credential_store_of v) (\<lambda>cipher.
         credential_save (va_seal v) (va_sha v) (rq_nonce rq) cipher (rq_id1 rq) (rq_id2 rq) (rq_now rq)
           (wc_workspace_id cx) (wc_user_id cx) ''ALPACA''
           [(''api_key_id'', fst keys), (''secret_key'', snd keys)] [(''endpoint'', ''PAPER'')]
           ''VERIFIED'' True (dd_credentials db))) of
       Inl e \<Rightarrow> (Inl e, db)
     | Inr (record, credentials) \<Rightarrow>
       let db1 = db\<lparr>dd_credentials := credentials\<rparr> in
       (case get_workspace (wc_workspace_id cx) db1 of
         None \<Rightarrow> (Inl AssertionError, db1)
       | Some _ \<Rightarrow> (Inr (credential_view ''ALPACA'' (Some record)),
           update_workspace (wc_workspace_id cx)
             (\<lambda>w. w\<lparr>ws_status := CONNECTING, ws_updated_at := rq_later rq\<rparr>) db1)))"

definition save_openrouter_credentials ::
  "vault \<Rightarrow> request_ids \<Rightarrow> workspace_context \<Rightarrow> string \<Rightarrow> string \<Rightarrow> unit result \<Rightarrow>
   desk_db \<Rightarrow> credential_status_view result \<times> desk_db"
where
  "save_openrouter_credentials v rq cx api_key model probe db =
     (case rbind (test_openrouter model probe) (\<lambda>_. rbind (credential_store_of v) (\<lambda>cipher.
         credential_save (va_seal v) (va_sha v) (rq_nonce rq) cipher (rq_id1 rq) (rq_id2 rq) (rq_now rq)
           (wc_workspace_id cx) (wc_user_id cx) ''OPENROUTER'' [(''api_key'', api_key)]
           [(''model'', model), (''compatibility'', ''verified'')] ''VERIFIED'' True (dd_credentials db))) of
       Inl e \<Rightarrow> (Inl e, db)
     | Inr (record, credentials) \<Rightarrow>
       (Inr (credential_view ''OPENROUTER'' (Some record)), db\<lparr>dd_credentials := credentials\<rparr>))"

text \<open>\<open>delete_credentials\<close>: with the Alpaca credentials go the broker projection and the guardian's
  incidents of the workspace, in one transaction after that of the credentials.\<close>

datatype provider_name = Alpaca | Openrouter

definition provider_text :: "provider_name \<Rightarrow> string" where
  "provider_text p = (case p of Alpaca \<Rightarrow> ''ALPACA'' | Openrouter \<Rightarrow> ''OPENROUTER'')"

definition forget_broker :: "uuid \<Rightarrow> broker_db \<Rightarrow> broker_db" where
  "forget_broker ws b = \<lparr> bd_sync = (bd_sync b)(ws := None), bd_accounts = delete_of ws (bd_accounts b),
     bd_positions = delete_of ws (bd_positions b), bd_orders = delete_of ws (bd_orders b) \<rparr>"

definition delete_credentials ::
  "vault \<Rightarrow> request_ids \<Rightarrow> workspace_context \<Rightarrow> provider_name \<Rightarrow> desk_db \<Rightarrow> unit result \<times> desk_db" where
  "delete_credentials v rq cx provider db =
     (case credential_store_of v of
       Inl e \<Rightarrow> (Inl e, db)
     | Inr _ \<Rightarrow>
       let ws = wc_workspace_id cx;
           db1 = db\<lparr>dd_credentials := credential_delete (rq_id1 rq) (rq_now rq) ws (wc_user_id cx)
             (provider_text provider) (dd_credentials db)\<rparr>
       in if provider \<noteq> Alpaca then (Inr (), db1)
          else case get_workspace ws db1 of
              None \<Rightarrow> (Inl AssertionError, db1)
            | Some _ \<Rightarrow> (Inr (), update_workspace ws
                (\<lambda>w. w\<lparr>ws_status := ONBOARDING, ws_scanner_enabled := False, ws_updated_at := rq_later rq\<rparr>)
                (db1\<lparr>dd_broker := forget_broker ws (dd_broker db1),
                   dd_incidents := filter (\<lambda>r. gr_workspace_id r \<noteq> ws) (dd_incidents db1)\<rparr>)))"

section \<open>Watchlist and scanner\<close>

definition get_watchlist :: "workspace_context \<Rightarrow> desk_db \<Rightarrow> string list" where
  "get_watchlist cx db = sort (watchlist_of (wc_workspace_id cx) db)"

definition watchlist_symbols :: "string list \<Rightarrow> string list" where
  "watchlist_symbols items =
     sort (remdups (map (\<lambda>s. py_upper (py_strip s)) (filter (\<lambda>s. py_strip s \<noteq> []) items)))"

definition replace_watchlist ::
  "request_ids \<Rightarrow> workspace_context \<Rightarrow> string list \<Rightarrow> desk_db \<Rightarrow> string list result \<times> desk_db" where
  "replace_watchlist rq cx items db =
     (let symbols = watchlist_symbols items; ws = wc_workspace_id cx in
      if length symbols > 25 \<or> list_ex (\<lambda>s. \<not> py_isalnum s \<or> length s > 16) symbols
      then (Inl (HTTPException 422 ''Watchlist contains invalid symbols''), db)
      else (Inr symbols, db\<lparr>dd_watchlist :=
        filter (\<lambda>r. wl_workspace_id r \<noteq> ws) (dd_watchlist db) @
        map (\<lambda>s. \<lparr> wl_workspace_id = ws, wl_symbol = s, wl_created_at = rq_now rq \<rparr>) symbols\<rparr>))"

definition credentials_required :: py_error where
  "credentials_required = HTTPException 409 ''Verified Alpaca paper credentials required''"

definition set_scanner ::
  "vault \<Rightarrow> request_ids \<Rightarrow> workspace_context \<Rightarrow> bool \<Rightarrow> desk_db \<Rightarrow> workspace_view result \<times> desk_db" where
  "set_scanner v rq cx enabled db =
     (let ws = wc_workspace_id cx;
          permitted = (if \<not> enabled then Inr () else rbind (credential_store_of v) (\<lambda>_.
            case credential_get ws ''ALPACA'' (dd_credentials db) of
              None \<Rightarrow> Inl credentials_required
            | Some r \<Rightarrow> require (cr_enabled r) credentials_required))
      in case permitted of
        Inl e \<Rightarrow> (Inl e, db)
      | Inr _ \<Rightarrow>
        (case get_workspace ws db of
          None \<Rightarrow> (Inl AssertionError, db)
        | Some w \<Rightarrow> (Inr \<lparr> wv_workspace_id = ws_workspace_id w, wv_status = ws_status w,
              wv_scanner_enabled = enabled, wv_watchlist_count = int (length (watchlist_of ws db)) \<rparr>,
            update_workspace ws (\<lambda>w. w\<lparr>ws_scanner_enabled := enabled, ws_updated_at := rq_now rq\<rparr>) db)))"

text \<open>\<open>_opportunity_service\<close>: the keys of the workspace; the option adapter refuses empty ones.\<close>

definition opportunity_service :: "vault \<Rightarrow> workspace_context \<Rightarrow> desk_db \<Rightarrow> unit result" where
  "opportunity_service v cx db =
     rbind (reveal v (wc_workspace_id cx) ''ALPACA'' db) (\<lambda>secrets.
     case secrets of
       None \<Rightarrow> Inl credentials_required
     | Some s \<Rightarrow> rbind (alpaca_keys s) (\<lambda>keys.
         require (fst keys \<noteq> [] \<and> snd keys \<noteq> [])
           (ValueError ''Alpaca credentials are required for option market data.'')))"

end
