(* ===== verification/Desk_Scans.thy ===== *)
theory Desk_Scans
  imports Desk
begin

text \<open>
  \<open>apps/api/routes/desk.py\<close>: the endpoints that analyse symbols, scan the watchlist, list scan runs and
  opportunities and ask the AI workflow about one; and \<open>packages/connected/market_clock.py\<close>.
\<close>

section \<open>Analysing a symbol\<close>

text \<open>What one analysis gets from outside: identifiers, clock readings and the market's answers.\<close>

record analysis_inputs =
  in_ids :: fresh_ids
  in_now :: instant
  in_later :: instant
  in_today :: day
  in_fetch :: "string \<Rightarrow> market_data result"
  in_get_chain :: "option_chain_query \<Rightarrow> option_contract list result"

definition analyze_for ::
  "(string \<Rightarrow> string) \<Rightarrow> uuid \<Rightarrow> broker_db \<Rightarrow> uuid option \<Rightarrow> analysis_inputs \<Rightarrow> string \<Rightarrow> opportunity_row list \<Rightarrow>
   connected_analysis result \<times> opportunity_row list"
where
  "analyze_for sha ws b scan inp symbol rows =
     analyze sha (in_ids inp) scan (in_now inp) (in_later inp) (in_today inp) (in_fetch inp)
       (in_get_chain inp) ws b symbol rows"

text \<open>\<open>except HTTPException: raise; except Exception: 422\<close>\<close>

definition unless_http :: "string \<Rightarrow> 'a result \<Rightarrow> 'a result" where
  "unless_http what r = (case r of
      Inr x \<Rightarrow> Inr x
    | Inl (HTTPException c d) \<Rightarrow> Inl (HTTPException c d)
    | Inl e \<Rightarrow> Inl (HTTPException 422 (what @ '' ('' @ error_name e @ '')'')))"

definition analyze_symbol ::
  "vault \<Rightarrow> (string \<Rightarrow> string) \<Rightarrow> analysis_inputs \<Rightarrow> workspace_context \<Rightarrow> string \<Rightarrow> desk_db \<Rightarrow>
   connected_analysis result \<times> desk_db"
where
  "analyze_symbol v sha inp cx symbol db =
     (case opportunity_service v cx db of
       Inl e \<Rightarrow> (unless_http ''Real-data analysis unavailable'' (Inl e), db)
     | Inr _ \<Rightarrow>
       (case analyze_for sha (wc_workspace_id cx) (dd_broker db) None inp symbol (dd_opportunities db) of
         (r, rows) \<Rightarrow> (unless_http ''Real-data analysis unavailable'' r, db\<lparr>dd_opportunities := rows\<rparr>)))"

section \<open>Scanning the watchlist\<close>

record scanner_result =
  sn_scan_run_id :: uuid
  sn_trigger :: string
  sn_started_at :: instant
  sn_completed_at :: instant
  sn_attempted :: int
  sn_results :: "connected_analysis list"
  sn_failures :: "string list"

text \<open>The loop over the symbols: an exception of one symbol becomes a failure of that symbol.\<close>

fun scan_symbols ::
  "(string \<Rightarrow> opportunity_row list \<Rightarrow> connected_analysis result \<times> opportunity_row list) \<Rightarrow> string list \<Rightarrow>
   opportunity_row list \<Rightarrow> connected_analysis list \<times> string list \<times> opportunity_row list"
where
  "scan_symbols analyse [] rows = ([], [], rows)"
| "scan_symbols analyse (symbol # symbols) rows =
     (case analyse symbol rows of (r, rows1) \<Rightarrow>
      case scan_symbols analyse symbols rows1 of (results, failures, rows2) \<Rightarrow>
      (case r of
        Inr a \<Rightarrow> (a # results, failures, rows2)
      | Inl _ \<Rightarrow> (results, symbol # failures, rows2)))"

definition scan_now ::
  "vault \<Rightarrow> (string \<Rightarrow> string) \<Rightarrow> (string \<Rightarrow> analysis_inputs) \<Rightarrow> request_ids \<Rightarrow> workspace_context \<Rightarrow> desk_db \<Rightarrow>
   scanner_result result \<times> desk_db"
where
  "scan_now v sha inputs rq cx db =
     (let symbols = get_watchlist cx db; ws = wc_workspace_id cx in
      case opportunity_service v cx db of
        Inl e \<Rightarrow> (Inl e, db)
      | Inr _ \<Rightarrow>
        (case start_scan_run (rq_id1 rq) (rq_now rq) ws ''MANUAL'' (int (length symbols)) (dd_scan_runs db) of
          Inl e \<Rightarrow> (Inl e, db)
        | Inr (run, runs) \<Rightarrow>
         (case scan_symbols (\<lambda>s. analyze_for sha ws (dd_broker db) (Some (sr_scan_run_id run)) (inputs s) s)
           symbols (dd_opportunities db) of (results, failures, rows) \<Rightarrow>
         (case complete_scan_run (rq_later rq) (sr_scan_run_id run) (int (length results))
             (int (length failures)) runs of
           Inl e \<Rightarrow> (Inl e, db\<lparr>dd_scan_runs := runs, dd_opportunities := rows\<rparr>)
         | Inr (completed, runs1) \<Rightarrow>
           (case sr_completed_at completed of
             None \<Rightarrow> (Inl AssertionError, db\<lparr>dd_scan_runs := runs1, dd_opportunities := rows\<rparr>)
           | Some t \<Rightarrow> (Inr \<lparr> sn_scan_run_id = sr_scan_run_id run, sn_trigger = sr_trigger run,
                 sn_started_at = sr_started_at run, sn_completed_at = t,
                 sn_attempted = int (length symbols), sn_results = results, sn_failures = failures \<rparr>,
               db\<lparr>dd_scan_runs := runs1, dd_opportunities := rows\<rparr>))))))"

section \<open>Listing\<close>

record scan_run_view =
  rv_scan_run_id :: uuid
  rv_trigger :: string
  rv_source :: string
  rv_started_at :: instant
  rv_completed_at :: "instant option"
  rv_attempted :: int
  rv_completed :: int
  rv_failed :: int

definition scan_run_view_of :: "scan_run_row \<Rightarrow> scan_run_view" where
  "scan_run_view_of r = \<lparr> rv_scan_run_id = sr_scan_run_id r, rv_trigger = sr_trigger r,
     rv_source = sr_source r, rv_started_at = sr_started_at r, rv_completed_at = sr_completed_at r,
     rv_attempted = sr_attempted_count r, rv_completed = sr_completed_count r,
     rv_failed = sr_failed_count r \<rparr>"

definition list_scan_runs :: "workspace_context \<Rightarrow> desk_db \<Rightarrow> scan_run_view list" where
  "list_scan_runs cx db = map scan_run_view_of (take 10 (sort_key (\<lambda>r. - sr_started_at r)
     (filter (\<lambda>r. sr_workspace_id r = wc_workspace_id cx) (dd_scan_runs db))))"

definition get_scan_run_results :: "workspace_context \<Rightarrow> uuid \<Rightarrow> desk_db \<Rightarrow> connected_analysis list result" where
  "get_scan_run_results cx run db =
     (if \<not> list_ex (\<lambda>r. sr_scan_run_id r = run \<and> sr_workspace_id r = wc_workspace_id cx) (dd_scan_runs db)
      then Inl (HTTPException 404 ''Scan run not found'')
      else Inr (map or_payload (sort_key or_symbol
        (filter (\<lambda>r. or_workspace_id r = wc_workspace_id cx \<and> or_scan_run_id r = Some run)
          (dd_opportunities db)))))"

definition list_opportunities :: "workspace_context \<Rightarrow> desk_db \<Rightarrow> connected_analysis list" where
  "list_opportunities cx db = map or_payload (take 50 (sort_key (\<lambda>r. - or_created_at r)
     (filter (\<lambda>r. or_workspace_id r = wc_workspace_id cx) (dd_opportunities db))))"

definition find_opportunity :: "workspace_context \<Rightarrow> uuid \<Rightarrow> desk_db \<Rightarrow> connected_analysis result" where
  "find_opportunity cx i db =
     (case List.find (\<lambda>r. or_workspace_id r = wc_workspace_id cx \<and> or_opportunity_id r = i)
         (dd_opportunities db) of
       None \<Rightarrow> Inl (HTTPException 404 ''Opportunity not found'')
     | Some r \<Rightarrow> Inr (or_payload r))"

definition get_opportunity :: "workspace_context \<Rightarrow> uuid \<Rightarrow> desk_db \<Rightarrow> connected_analysis result" where
  "get_opportunity cx i db = find_opportunity cx i db"

section \<open>The market clock\<close>

record market_clock =
  mk_is_open :: bool
  mk_timestamp :: instant
  mk_next_open :: instant
  mk_next_close :: instant
  mk_timezone :: string
  mk_regular_session :: string
  mk_source :: string

text \<open>The raw clock of the SDK; a naive time is read as UTC (\<open>_aware\<close>).\<close>

record raw_clock =
  raw_is_open :: bool
  raw_timestamp :: datetime
  raw_next_open :: datetime
  raw_next_close :: datetime

definition get_clock :: "raw_clock result \<Rightarrow> market_clock result" where
  "get_clock raw = rbind raw (\<lambda>c. Inr \<lparr> mk_is_open = raw_is_open c, mk_timestamp = in_utc (raw_timestamp c),
     mk_next_open = in_utc (raw_next_open c), mk_next_close = in_utc (raw_next_close c),
     mk_timezone = ''America/New_York'', mk_regular_session = ''9:30 AM-4:00 PM ET'',
     mk_source = ''ALPACA_REAL'' \<rparr>)"

definition market_clock_endpoint ::
  "vault \<Rightarrow> workspace_context \<Rightarrow> raw_clock result \<Rightarrow> desk_db \<Rightarrow> market_clock result" where
  "market_clock_endpoint v cx raw db =
     rbind (reveal v (wc_workspace_id cx) ''ALPACA'' db) (\<lambda>secrets.
     case secrets of
       None \<Rightarrow> Inl credentials_required
     | Some s \<Rightarrow>
       (case rbind (alpaca_keys s) (\<lambda>keys. rbind (require (fst keys \<noteq> [] \<and> snd keys \<noteq> [])
           (ValueError ''Alpaca credentials are required for the market clock'')) (\<lambda>_. get_clock raw)) of
         Inl e \<Rightarrow> Inl (HTTPException 422 (''Real market clock unavailable ('' @ error_name e @ '')''))
       | Inr c \<Rightarrow> Inr c))"

section \<open>Asking the AI workflow\<close>

text \<open>The rendering of an analysis as JSON is an argument.\<close>

definition ai_evidence :: "(connected_analysis \<Rightarrow> json \<times> json \<times> json) \<Rightarrow> (instant \<Rightarrow> string) \<Rightarrow> connected_analysis \<Rightarrow> evidence"
where
  "ai_evidence dump isoformat a = (case dump a of (s, c, d) \<Rightarrow>
     [(''sources'', JArray
        [JObject [(''source_id'', JString ''alpaca-signal''), (''evidence'', s)],
         JObject [(''source_id'', JString ''alpaca-candidate''), (''evidence'', c)],
         JObject [(''source_id'', JString ''deterministic-risk''), (''evidence'', d)]]),
      (''source'', JString (an_source a)),
      (''observed_at'', JString (isoformat (an_observed_at a)))])"

text \<open>\<open>connect key model\<close> is the OpenRouter provider with its answers.\<close>

definition analyze_opportunity_with_ai ::
  "vault \<Rightarrow> request_ids \<Rightarrow> (string \<Rightarrow> string \<Rightarrow> ai_provider) \<Rightarrow> (json \<Rightarrow> string) \<Rightarrow>
   (connected_analysis \<Rightarrow> json \<times> json \<times> json) \<Rightarrow> (instant \<Rightarrow> string) \<Rightarrow> workspace_context \<Rightarrow> uuid \<Rightarrow> desk_db \<Rightarrow>
   ai_workflow_result result \<times> desk_db"
where
  "analyze_opportunity_with_ai v rq connect py_str dump isoformat cx i db =
     (case rbind (find_opportunity cx i db) (\<lambda>a.
        rbind (credential_store_of v) (\<lambda>_.
        rbind (reveal v (wc_workspace_id cx) ''OPENROUTER'' db) (\<lambda>secrets.
        (case (credential_get (wc_workspace_id cx) ''OPENROUTER'' (dd_credentials db), secrets) of
          (Some credential, Some s) \<Rightarrow>
            if \<not> cr_enabled credential
            then Inl (HTTPException 409 ''Verified OpenRouter credentials required'')
            else rbind (secret_item s ''api_key'') (\<lambda>key.
              let model = (case map_of (cr_configuration credential) ''model'' of None \<Rightarrow> [] | Some m \<Rightarrow> m) in
              rbind (require (key \<noteq> [] \<and> model \<noteq> []) (ValueError ''OpenRouter API key and model are required''))
                (\<lambda>_. Inr (a, connect key model)))
        | _ \<Rightarrow> Inl (HTTPException 409 ''Verified OpenRouter credentials required''))))) of
       Inl e \<Rightarrow> (Inl e, db)
     | Inr (a, provider) \<Rightarrow>
       let ev = ai_evidence dump isoformat a; result = ai_run py_str (rq_now rq) provider ev in
       (Inr result, db\<lparr>dd_ai_runs := ai_store_save (Some (wc_workspace_id cx)) (rq_id1 rq) (rq_later rq) i ev
          result (dd_ai_runs db)\<rparr>))"

end
