(* ===== verification/Desk_Orders.thy ===== *)
theory Desk_Orders
  imports Desk_Scans Execution_Properties
begin

text \<open>
  \<open>apps/api/routes/desk.py\<close>: the endpoints that act on the broker account: the confirmation of an order,
  the closing of a position, the broker projection and the guardian's kill switch.
\<close>

section \<open>Confirming an order\<close>

text \<open>\<open>ConnectedPreflight.execution_allowed\<close>: the guardian first, then the broker gate.\<close>

definition connected_preflight :: "uuid \<Rightarrow> instant \<Rightarrow> desk_db \<Rightarrow> bool \<times> string" where
  "connected_preflight ws now db =
     (let guardian = gate_execution_allowed (pg_status ws (dd_incidents db)) in
      if \<not> fst guardian then (False, snd guardian)
      else let broker = broker_gate_evaluate default_maximum_age now (pg_get_status ws (dd_broker db))
               (pg_get_account ws (dd_broker db))
           in (eg_allowed broker, eg_reason broker))"

text \<open>The clock readings of the confirmation in their order, and the identifier of the second decision.\<close>

record confirm_inputs =
  ci_expiry_check :: instant
  ci_gate :: instant
  ci_risk :: instant
  ci_preflight :: instant
  ci_store :: instant
  ci_risk_id :: uuid

definition confirm_refused :: "string \<Rightarrow> py_error" where
  "confirm_refused detail = HTTPException 409 detail"

text \<open>\<open>RankedCandidate.model_validate\<close> with the models inside it.\<close>

definition ranked_candidate_valid :: "ranked_candidate \<Rightarrow> bool" where
  "ranked_candidate_valid c \<longleftrightarrow> option_structure_valid (rc_structure c) \<and>
     list_all option_leg_valid (os_legs (rc_structure c)) \<and>
     (case os_underlying (rc_structure c) of None \<Rightarrow> True | Some u \<Rightarrow> underlying_leg_valid u)"

text \<open>The checks before the execution engine is built; the result is the intent.\<close>

definition confirm_checks ::
  "vault \<Rightarrow> confirm_inputs \<Rightarrow> workspace_context \<Rightarrow> uuid \<Rightarrow> string \<Rightarrow> desk_db \<Rightarrow> order_intent result" where
  "confirm_checks v ci cx i client_order_id db =
     (let ws = wc_workspace_id cx in
      rbind (find_opportunity cx i db) (\<lambda>a.
      case (if an_source a \<noteq> ''ALPACA_REAL'' then None else an_order_intent a) of
        None \<Rightarrow> Inl (confirm_refused ''Only real, risk-approved intents can be confirmed'')
      | Some raw_intent \<Rightarrow>
        rbind (require (\<not> an_expires_at a \<le> ci_expiry_check ci)
          (confirm_refused ''Order review expired; analyze the symbol again'')) (\<lambda>_.
        rbind (validated (order_intent_valid (va_sha v)) ''OrderIntent'' raw_intent) (\<lambda>intent.
        rbind (require (client_order_id = oi_client_order_id intent)
          (confirm_refused ''Confirmation does not match immutable order intent'')) (\<lambda>_.
        case an_candidate a of
          None \<Rightarrow> Inl AssertionError
        | Some raw_candidate \<Rightarrow>
          rbind (validated ranked_candidate_valid ''RankedCandidate'' raw_candidate) (\<lambda>candidate.
          case pg_get_account ws (dd_broker db) of
            None \<Rightarrow> Inl (confirm_refused ''Broker account projection unavailable'')
          | Some account \<Rightarrow>
            let gate = broker_gate_evaluate default_maximum_age (ci_gate ci) (pg_get_status ws (dd_broker db))
                  (pg_get_account ws (dd_broker db)) in
            rbind (account_risk_context account (pg_list_positions ws (dd_broker db)) (eg_allowed gate)) (\<lambda>context.
            rbind (risk_evaluate default_risk_policy (ci_risk_id ci) (ci_risk ci) candidate context) (\<lambda>rerisk.
            rbind (require (rd_decision rerisk = APPROVE)
              (confirm_refused ''Deterministic risk no longer approves this order'')) (\<lambda>_.
            rbind (reveal v ws ''ALPACA'' db) (\<lambda>secrets.
            case secrets of
              None \<Rightarrow> Inl (confirm_refused ''Alpaca credential unavailable'')
            | Some s \<Rightarrow> rbind (rbind (alpaca_keys s) alpaca_adapter) (\<lambda>_. Inr intent)))))))))))"

text \<open>\<open>except ExecutionBlocked\<close>; any other exception of the engine is not caught.\<close>

definition blocked_is_409 :: "'a result \<Rightarrow> 'a result" where
  "blocked_is_409 r = (case r of Inl (ExecutionBlocked reason) \<Rightarrow> Inl (confirm_refused reason) | _ \<Rightarrow> r)"

definition confirm_paper_order ::
  "vault \<Rightarrow> confirm_inputs \<Rightarrow> (order_submission \<Rightarrow> broker_order result) \<Rightarrow> workspace_context \<Rightarrow> uuid \<Rightarrow> string \<Rightarrow>
   desk_db \<Rightarrow> broker_order result \<times> desk_db \<times> order_submission list"
where
  "confirm_paper_order v ci submit cx i client_order_id db =
     (case confirm_checks v ci cx i client_order_id db of
       Inl e \<Rightarrow> (Inl e, db, [])
     | Inr intent \<Rightarrow>
       let ws = wc_workspace_id cx in
       (case execute (pg_reserve ws (ci_store ci)) (pg_set_state ws (ci_store ci))
           (Some (connected_preflight ws (ci_preflight ci) db)) submit intent
           \<lparr> xw_store = dd_intents db, xw_submissions = [] \<rparr> of
         (reply, w) \<Rightarrow> (blocked_is_409 reply, db\<lparr>dd_intents := xw_store w\<rparr>, xw_submissions w)))"

section \<open>Closing a position\<close>

text \<open>The \<open>APIError\<close> of the SDK is \<open>Api_error\<close> with its text; every other exception has its text too.\<close>

datatype close_failure = Api_error string | Other_error string

definition contains :: "string \<Rightarrow> string \<Rightarrow> bool" where
  "contains needle s \<longleftrightarrow> list_ex (\<lambda>n. take (length needle) (drop n s) = needle) [0..<Suc (length s)]"

text \<open>The message for closed markets has an en dash between the times in the source.\<close>

definition close_detail :: "string \<Rightarrow> string \<Rightarrow> string" where
  "close_detail symbol detail =
     (if contains ''market orders are only allowed during market hours'' detail
      then ''Options market orders can only be executed during regular market hours (9:30 AM - 4:00 PM EDT). Please try again when the market opens.''
      else if contains ''position not found'' detail
      then ''Position '' @ symbol @ '' is already closed or does not exist on the broker.''
      else detail)"

definition close_error :: "string \<Rightarrow> close_failure \<Rightarrow> py_error" where
  "close_error symbol f = (case f of
      Api_error detail \<Rightarrow> HTTPException 400 (close_detail symbol detail)
    | Other_error detail \<Rightarrow> HTTPException 400 detail)"

text \<open>\<open>closing\<close> is the broker's answer to the closing order, \<open>snapshot\<close> that to the reconciliation after it.\<close>

definition close_position ::
  "vault \<Rightarrow> workspace_context \<Rightarrow> string \<Rightarrow> close_failure + broker_order \<Rightarrow> close_failure + reconciliation_snapshot \<Rightarrow>
   desk_db \<Rightarrow> broker_order result \<times> desk_db"
where
  "close_position v cx symbol closing snapshot db =
     (case rbind (reveal v (wc_workspace_id cx) ''ALPACA'' db) (\<lambda>secrets.
        case secrets of
          None \<Rightarrow> Inl (confirm_refused ''Alpaca credential unavailable'')
        | Some s \<Rightarrow> rbind (alpaca_keys s) alpaca_adapter) of
       Inl e \<Rightarrow> (Inl e, db)
     | Inr _ \<Rightarrow>
       (case closing of
         Inl f \<Rightarrow> (Inl (close_error symbol f), db)
       | Inr order \<Rightarrow>
         (case snapshot of
           Inl f \<Rightarrow> (Inl (close_error symbol f), db)
         | Inr snap \<Rightarrow>
           (case pg_apply_reconciliation (wc_workspace_id cx) snap (dd_broker db) of
             Inl e \<Rightarrow> (Inl (close_error symbol (Other_error (error_name e))), db)
           | Inr (_, b) \<Rightarrow> (Inr order, db\<lparr>dd_broker := b\<rparr>)))))"

section \<open>The broker projection and the guardian\<close>

definition broker_status_endpoint :: "workspace_context \<Rightarrow> desk_db \<Rightarrow> broker_sync_status" where
  "broker_status_endpoint cx db = pg_get_status (wc_workspace_id cx) (dd_broker db)"

definition broker_account_endpoint :: "workspace_context \<Rightarrow> desk_db \<Rightarrow> broker_account option" where
  "broker_account_endpoint cx db = pg_get_account (wc_workspace_id cx) (dd_broker db)"

definition broker_positions_endpoint :: "workspace_context \<Rightarrow> desk_db \<Rightarrow> broker_position list" where
  "broker_positions_endpoint cx db = pg_list_positions (wc_workspace_id cx) (dd_broker db)"

definition broker_orders_endpoint :: "workspace_context \<Rightarrow> desk_db \<Rightarrow> broker_order list" where
  "broker_orders_endpoint cx db = pg_list_orders (wc_workspace_id cx) (dd_broker db)"

definition guardian_status_endpoint :: "workspace_context \<Rightarrow> desk_db \<Rightarrow> guardian_status" where
  "guardian_status_endpoint cx db = pg_status (wc_workspace_id cx) (dd_incidents db)"

definition guardian_halt :: "request_ids \<Rightarrow> workspace_context \<Rightarrow> desk_db \<Rightarrow> guardian_status \<times> desk_db" where
  "guardian_halt rq cx db =
     (case pg_halt (wc_workspace_id cx) (rq_id1 rq) (rq_now rq) [MANUAL_KILL_SWITCH]
         ''Operator activated the connected paper kill switch.'' (dd_incidents db) of
       (_, rows) \<Rightarrow> (pg_status (wc_workspace_id cx) rows, db\<lparr>dd_incidents := rows\<rparr>))"

text \<open>\<open>guardian_recover\<close>: the broker state is known when reconciled, connected and at most 90 seconds old.\<close>

definition broker_state_known :: "instant \<Rightarrow> broker_sync_status \<Rightarrow> bool" where
  "broker_state_known now status \<longleftrightarrow> ss_state status = RECONCILED \<and> ss_stream_connected status \<and>
     (case ss_last_reconciled_at status of None \<Rightarrow> False | Some t \<Rightarrow> now - t \<le> seconds 90)"

definition guardian_recover ::
  "request_ids \<Rightarrow> workspace_context \<Rightarrow> desk_db \<Rightarrow> guardian_status result \<times> desk_db" where
  "guardian_recover rq cx db =
     (case pg_recover (wc_workspace_id cx) (rq_later rq)
         (broker_state_known (rq_now rq) (pg_get_status (wc_workspace_id cx) (dd_broker db))) (dd_incidents db) of
       Inl (RuntimeError detail) \<Rightarrow> (Inl (confirm_refused detail), db)
     | Inl e \<Rightarrow> (Inl e, db)
     | Inr (status, rows) \<Rightarrow> (Inr status, db\<lparr>dd_incidents := rows\<rparr>))"

end
