(* ===== verification/Credential_Properties.thy ===== *)
theory Credential_Properties
  imports Credentials
begin

text \<open>
  What the encrypted store promises: a saved secret comes back unchanged for its own workspace and
  provider, also after new keys were added, and for nobody else.
\<close>

section \<open>A sample of authenticated encryption\<close>

text \<open>A stand-in for AES-GCM that has the two laws the code relies on: the text is opened with the
  associated data it was sealed with, and with no other.\<close>

definition sample_header :: "string \<Rightarrow> string" where
  "sample_header a = replicate (length a) (CHR ''1'') @ CHR ''0'' # a"

definition sample_seal :: "string \<Rightarrow> string \<Rightarrow> string \<Rightarrow> string \<Rightarrow> string" where
  "sample_seal key nonce plaintext a = sample_header a @ plaintext"

definition sample_unseal :: "string \<Rightarrow> string \<Rightarrow> string \<Rightarrow> string \<Rightarrow> string option" where
  "sample_unseal key nonce ciphertext a =
     (if take (length (sample_header a)) ciphertext = sample_header a
      then Some (drop (length (sample_header a)) ciphertext) else None)"

lemma unary_prefix:
  "replicate n (CHR ''1'') @ CHR ''0'' # x = replicate m (CHR ''1'') @ CHR ''0'' # y \<longleftrightarrow> n = m \<and> x = y"
proof (induction n arbitrary: m)
  case 0
  then show ?case by (cases m) auto
next
  case (Suc n)
  then show ?case by (cases m) auto
qed

lemma sample_opens: "sample_unseal k n (sample_seal k n p a) a = Some p"
  by (simp add: sample_unseal_def sample_seal_def)

lemma sample_binds:
  assumes "a \<noteq> b"
  shows "sample_unseal k n (sample_seal k n p a) b = None"
proof -
  have False if prefix: "take (length (sample_header b)) (sample_header a @ p) = sample_header b"
  proof -
    obtain t where "sample_header a @ p = sample_header b @ t"
      using append_take_drop_id [of "length (sample_header b)" "sample_header a @ p"] unfolding prefix by metis
    then have "length a = length b \<and> a @ p = b @ t" unfolding sample_header_def by (simp add: unary_prefix)
    then show False using assms by (metis append_eq_append_conv)
  qed
  then show ?thesis by (auto simp: sample_unseal_def sample_seal_def)
qed

definition sample_cipher :: credential_cipher where
  "sample_cipher = \<lparr> cc_keys = [(''v1'', replicate 32 (CHR ''a''))], cc_active_version = ''v1'' \<rparr>"

definition sample_secret :: "(string \<times> string) list" where
  "sample_secret = [(''secret_key'', ''s3cret-value''), (''api_key_id'', ''PK-12345'')]"

section \<open>Properties\<close>

lemma save_decrypts:
  assumes opens: "\<And>k n p a. unseal k n (seal k n p a) a = Some p"
    and enc: "cipher_encrypt seal sha nonce cipher ws provider payload = Inr e"
    and keys: "\<And>v k. map_of (cc_keys cipher) v = Some k \<Longrightarrow> map_of (cc_keys later) v = Some k"
    and distinct: "distinct (map fst payload)"
  shows "\<exists>p. cipher_decrypt unseal later ws provider (ec_key_version e) (ec_nonce e) (ec_ciphertext e) = Inr p \<and>
    map_of p = map_of payload"
proof -
  obtain key where key: "map_of (cc_keys cipher) (cc_active_version cipher) = Some key"
    and e: "e = \<lparr> ec_key_version = cc_active_version cipher, ec_nonce = nonce,
      ec_ciphertext = seal key nonce (json_dumps payload) (cipher_aad ws provider (cc_active_version cipher)),
      ec_fingerprint = take 12 (sha (json_dumps payload)) \<rparr>"
    using enc by (auto simp: cipher_encrypt_def Let_def split: option.splits)
  obtain p where "json_loads (json_dumps payload) = Some p" "map_of p = map_of payload"
    using json_roundtrip [OF distinct] by blast
  with keys [OF key] e opens show ?thesis by (simp add: cipher_decrypt_def)
qed

lemma moved_ciphertext_refused:
  assumes binds: "\<And>k n p a b. a \<noteq> b \<Longrightarrow> unseal k n (seal k n p a) b = None"
    and enc: "cipher_encrypt seal sha nonce cipher ws provider payload = Inr e"
    and keys: "\<And>v k. map_of (cc_keys cipher) v = Some k \<Longrightarrow> map_of (cc_keys later) v = Some k"
    and "cipher_aad ws provider (ec_key_version e) \<noteq> cipher_aad ws' provider' (ec_key_version e)"
  shows "cipher_decrypt unseal later ws' provider' (ec_key_version e) (ec_nonce e) (ec_ciphertext e)
    = Inl (External ''InvalidTag'')"
  using assms by (auto simp: cipher_encrypt_def cipher_decrypt_def Let_def split: option.splits)

text \<open>C26. Saving a secret and revealing it gives the same dictionary back, for every cipher that still
  has the keys of the one that saved it; other rows are untouched, and the stored ciphertext opens for
  no other workspace or provider.  The laws of the authenticated encryption are hypotheses: it opens
  with the associated data it was sealed with and raises \<open>InvalidTag\<close> with any other.\<close>

theorem credential_roundtrip:
  assumes opens: "\<And>k n p a. unseal k n (seal k n p a) a = Some p"
    and binds: "\<And>k n p a b. a \<noteq> b \<Longrightarrow> unseal k n (seal k n p a) b = None"
    and save: "credential_save seal sha nonce cipher fresh audit now ws actor provider payload configuration
      status enabled db = Inr (r, db')"
    and keys: "\<And>v k. map_of (cc_keys cipher) v = Some k \<Longrightarrow> map_of (cc_keys later) v = Some k"
    and "distinct (map fst payload)" and "CHR '':'' \<notin> set ws" and "CHR '':'' \<notin> set provider"
  shows "(\<exists>p. credential_reveal unseal later ws provider db' = Inr (Some p) \<and> map_of p = map_of payload) \<and>
    (\<forall>w q. (w, q) \<noteq> (ws, provider) \<longrightarrow> credential_get w q db' = credential_get w q db) \<and>
    (\<forall>w q. (w, q) \<noteq> (ws, provider) \<and> CHR '':'' \<notin> set w \<and> CHR '':'' \<notin> set q \<longrightarrow>
      cipher_decrypt unseal later w q (cr_key_version r) (cr_nonce r) (cr_ciphertext r)
        = Inl (External ''InvalidTag''))"
proof -
  obtain e where e: "cipher_encrypt seal sha nonce cipher ws provider payload = Inr e"
    using save by (auto simp: credential_save_def rbind_eq_Inr)
  obtain v where v: "v = credential_values fresh now ws provider e configuration status enabled" by simp
  obtain rows where up: "upsert_credential v (cd_credentials db) = (r, rows)" and db': "cd_credentials db' = rows"
    using save e by (auto simp: credential_save_def v split: prod.splits)
  have v: "cr_workspace_id v = ws" "cr_provider v = provider" "cr_key_version v = ec_key_version e"
      "cr_nonce v = ec_nonce e" "cr_ciphertext v = ec_ciphertext e"
    by (simp_all add: v credential_values_def)
  have r: "cr_key_version r = ec_key_version e" "cr_nonce r = ec_nonce e" "cr_ciphertext r = ec_ciphertext e"
    using credential_of_upsert [OF up] v by simp_all
  have get: "credential_get w q db' = (if (w, q) = (ws, provider) then Some r else credential_get w q db)" for w q
    using upsert_lookup [OF up, of w q] v db' by (simp add: credential_get_def)
  obtain p where "cipher_decrypt unseal later ws provider (ec_key_version e) (ec_nonce e) (ec_ciphertext e) = Inr p"
    "map_of p = map_of payload"
    using save_decrypts [where unseal = unseal and seal = seal, OF opens e keys assms(5)] by blast
  then have "credential_reveal unseal later ws provider db' = Inr (Some p) \<and> map_of p = map_of payload"
    by (simp add: credential_reveal_def get r)
  moreover have "cipher_decrypt unseal later w q (ec_key_version e) (ec_nonce e) (ec_ciphertext e)
      = Inl (External ''InvalidTag'')"
    if "(w, q) \<noteq> (ws, provider)" "CHR '':'' \<notin> set w" "CHR '':'' \<notin> set q" for w q
    using that by (intro moved_ciphertext_refused [where unseal = unseal and seal = seal, OF binds e keys])
      (simp_all add: cipher_aad_inj [OF assms(6) that(2) assms(7) that(3)], auto)
  ultimately show ?thesis using get r by auto
qed

theorem credential_roundtrip_witness:
  "\<exists>r db p. credential_save sample_seal rev ''n'' sample_cipher ''c'' ''a'' 0 ''w1'' ''u'' ''ALPACA'' sample_secret
      [] ''VERIFIED'' True \<lparr> cd_credentials = [], cd_audit = [] \<rparr> = Inr (r, db) \<and>
    credential_reveal sample_unseal sample_cipher ''w1'' ''ALPACA'' db = Inr (Some p) \<and>
    map_of p ''api_key_id'' = Some ''PK-12345'' \<and>
    cipher_decrypt sample_unseal sample_cipher ''w2'' ''ALPACA'' (cr_key_version r) (cr_nonce r) (cr_ciphertext r)
      = Inl (External ''InvalidTag'')"
proof -
  let ?save = "credential_save sample_seal rev ''n'' sample_cipher ''c'' ''a'' 0 ''w1'' ''u'' ''ALPACA'' sample_secret
      [] ''VERIFIED'' True \<lparr> cd_credentials = [], cd_audit = [] \<rparr>"
  obtain r db where save: "?save = Inr (r, db)"
    by (auto simp: credential_save_def cipher_encrypt_def sample_cipher_def upsert_credential_def Let_def credential_values_def)
  have "map_of sample_secret ''api_key_id'' = Some ''PK-12345''" "distinct (map fst sample_secret)"
    by (simp_all add: sample_secret_def)
  then show ?thesis
    using credential_roundtrip [where unseal = sample_unseal and seal = sample_seal, OF sample_opens sample_binds save, of sample_cipher] save by fastforce
qed

end
