(* ===== verification/Desk_Samples.thy ===== *)
theory Desk_Samples
  imports Desk_Orders Broker_Properties Guardian_Properties Credential_Properties
begin

text \<open>
  A sample desk of one workspace with verified credentials, a reviewed trade and a live broker
  projection, on which the properties of the desk are exercised.
\<close>

section \<open>The desk\<close>

definition demo_vault :: vault where
  "demo_vault = \<lparr> va_cipher = Some sample_cipher, va_seal = sample_seal, va_unseal = sample_unseal, va_sha = id \<rparr>"

definition demo_context_of :: "uuid \<Rightarrow> uuid \<Rightarrow> workspace_context" where
  "demo_context_of user ws = \<lparr> wc_principal = \<lparr> pr_user_id = user, pr_auth_subject = user,
     pr_email = user @ ''@desk.io'', pr_is_admin = False \<rparr>, wc_workspace_id = ws, wc_status = ACTIVE \<rparr>"

definition demo_context :: workspace_context where
  "demo_context = demo_context_of ''u'' ''w''"

definition demo_intent :: order_intent where
  "demo_intent = sample_intent ''i'' 1"

definition demo_analysis :: connected_analysis where
  "demo_analysis = (analysis_base demo_ids None 0 demo_signal TRADE)\<lparr>an_trade_idea := Some demo_idea,
     an_candidate := Some demo_candidate, an_order_intent := Some demo_intent\<rparr>"

definition demo_credential :: credential_row where
  "demo_credential = credential_values ''k'' 0 ''w'' ''ALPACA''
     \<lparr> ec_key_version = ''v1'', ec_nonce = ''n'',
       ec_ciphertext = sample_seal (replicate 32 (CHR ''a'')) ''n'' (json_dumps sample_secret)
         (cipher_aad ''w'' ''ALPACA'' ''v1''), ec_fingerprint = ''f'' \<rparr> [] ''VERIFIED'' True"

definition demo_workspace :: workspace_row where
  "demo_workspace = \<lparr> ws_workspace_id = ''w'', ws_owner_user_id = ''u'', ws_name = ''desk'',
     ws_workspace_type = ''CONNECTED_PAPER'', ws_status = ACTIVE, ws_scanner_enabled = True,
     ws_created_at = 0, ws_updated_at = 0 \<rparr>"

definition demo_desk :: "incident_row list \<Rightarrow> desk_db" where
  "demo_desk incidents = \<lparr> dd_workspaces = [demo_workspace], dd_watchlist = [],
     dd_credentials = \<lparr> cd_credentials = [demo_credential], cd_audit = [] \<rparr>,
     dd_opportunities = [opportunity_row_of ''w'' 0 demo_analysis], dd_scan_runs = [], dd_broker = demo_db,
     dd_incidents = incidents, dd_intents = [], dd_ai_runs = [] \<rparr>"

definition demo_confirm :: confirm_inputs where
  "demo_confirm = \<lparr> ci_expiry_check = seconds 30, ci_gate = seconds 30, ci_risk = seconds 30,
     ci_preflight = seconds 30, ci_store = seconds 30, ci_risk_id = ''r2'' \<rparr>"

definition demo_submit :: "order_submission \<Rightarrow> broker_order result" where
  "demo_submit s = Inl (External ''TimeoutError'')"

lemma demo_confirm_sends:
  "snd (snd (confirm_paper_order demo_vault demo_confirm demo_submit demo_context ''o''
     (oi_client_order_id demo_intent) (demo_desk []))) \<noteq> []"
  by code_simp

definition demo_request :: request_ids where
  "demo_request = \<lparr> rq_id1 = ''q1'', rq_id2 = ''q2'', rq_nonce = ''n'', rq_now = seconds 500, rq_later = seconds 501 \<rparr>"

definition demo_incident :: incident_row where
  "demo_incident = row_of_incident ''w'' (new_incident ''g'' 0 [MANUAL_KILL_SWITCH] ''stop'')"

section \<open>Inputs of a scan: news and prices for NVDA but no option chain, nothing for another symbol\<close>

definition demo_inputs :: "string \<Rightarrow> analysis_inputs" where
  "demo_inputs symbol = \<lparr> in_ids = demo_ids\<lparr>fi_opportunity := ''o2''\<rparr>, in_now = 0, in_later = 0, in_today = 0,
     in_fetch = (\<lambda>s. if s = ''NVDA'' then Inr demo_market else Inl (External ''TimeoutError'')),
     in_get_chain = (\<lambda>_. Inr []) \<rparr>"

definition demo_scan_desk :: desk_db where
  "demo_scan_desk = (demo_desk [])\<lparr>dd_watchlist :=
     [\<lparr> wl_workspace_id = ''w'', wl_symbol = ''MSFT'', wl_created_at = 0 \<rparr>,
      \<lparr> wl_workspace_id = ''w'', wl_symbol = ''NVDA'', wl_created_at = 0 \<rparr>,
      \<lparr> wl_workspace_id = ''x'', wl_symbol = ''SPY'', wl_created_at = 0 \<rparr>]\<rparr>"

definition demo_unavailable :: connected_analysis where
  "demo_unavailable = unavailable (demo_ids\<lparr>fi_opportunity := ''o2''\<rparr>) (Some ''q1'') 0 demo_signal demo_idea
     ''no_eligible_option_chain''"

lemma demo_analyses:
  "analysis_of id (demo_ids\<lparr>fi_opportunity := ''o2''\<rparr>) (Some ''q1'') 0 0 0 (in_fetch (demo_inputs ''NVDA''))
     (\<lambda>_. Inr []) ''w'' demo_db ''NVDA'' = Inr demo_unavailable"
  "analysis_of id (demo_ids\<lparr>fi_opportunity := ''o2''\<rparr>) (Some ''q1'') 0 0 0 (in_fetch (demo_inputs ''MSFT''))
     (\<lambda>_. Inr []) ''w'' demo_db ''MSFT'' = Inl (External ''TimeoutError'')"
proof -
  have n: "normal_symbol ''NVDA'' = Inr ''NVDA''" "normal_symbol ''MSFT'' = Inr ''MSFT''" by code_simp+
  have sig: "connected_signal (demo_ids\<lparr>fi_opportunity := ''o2''\<rparr>) 0 ''NVDA'' demo_features = Inr demo_signal"
    using demo_steps(3) by (simp add: connected_signal_def)
  have none: "expirations (eligible_contracts symbol wanted price now []) = []" for symbol wanted price now
    by (simp add: expirations_def eligible_contracts_def)
  have i: "fi_idea (demo_ids\<lparr>fi_opportunity := ''o2''\<rparr>) = ''i''" by (simp add: demo_ids_def)
  show "analysis_of id (demo_ids\<lparr>fi_opportunity := ''o2''\<rparr>) (Some ''q1'') 0 0 0 (in_fetch (demo_inputs ''NVDA''))
     (\<lambda>_. Inr []) ''w'' demo_db ''NVDA'' = Inr demo_unavailable"
    by (simp add: analysis_of_def n demo_inputs_def demo_steps sig i analyze_idea_def none demo_unavailable_def)
  show "analysis_of id (demo_ids\<lparr>fi_opportunity := ''o2''\<rparr>) (Some ''q1'') 0 0 0 (in_fetch (demo_inputs ''MSFT''))
     (\<lambda>_. Inr []) ''w'' demo_db ''MSFT'' = Inl (External ''TimeoutError'')"
    by (simp add: analysis_of_def n demo_inputs_def)
qed

lemma demo_service: "opportunity_service demo_vault demo_context demo_scan_desk = Inr ()"
  by code_simp

end
