(* ===== verification/Desk_Properties.thy ===== *)
theory Desk_Properties
  imports Desk_Samples
begin

text \<open>
  What the connected desk promises: an order is submitted only through every gate, a scan
  accounts for every symbol, the watchlist comes back as it was saved; and one thing that it does not: a
  halt survives the deletion of the credentials.  \<open>Desk_Tenancy\<close> has the separation of workspaces.
\<close>

section \<open>Confirmation\<close>

lemma confirm_checks_Inr:
  assumes "confirm_checks v ci cx i cid db = Inr intent"
  shows "\<exists>a cand account. find_opportunity cx i db = Inr a \<and> an_order_intent a = Some intent \<and>
    an_candidate a = Some cand \<and> ci_expiry_check ci < an_expires_at a \<and> cid = oi_client_order_id intent \<and>
    order_intent_valid (va_sha v) intent \<and>
    pg_get_account (wc_workspace_id cx) (dd_broker db) = Some account \<and>
    eg_allowed (broker_gate_evaluate default_maximum_age (ci_gate ci)
      (pg_get_status (wc_workspace_id cx) (dd_broker db)) (Some account)) \<and>
    (1 - 1 / 10 ^ 25) * (os_max_loss (rc_structure cand) * 100) \<le> 1 / 2 * ba_equity account"
proof -
  let ?ws = "wc_workspace_id cx"
  obtain a where a: "find_opportunity cx i db = Inr a"
    using assms by (auto simp: confirm_checks_def Let_def rbind_eq_Inr)
  obtain cand account con rerisk where c: "an_order_intent a = Some intent" "ci_expiry_check ci < an_expires_at a"
    "order_intent_valid (va_sha v) intent" "cid = oi_client_order_id intent" "an_candidate a = Some cand"
    "ranked_candidate_valid cand" "pg_get_account ?ws (dd_broker db) = Some account"
    and con: "account_risk_context account (pg_list_positions ?ws (dd_broker db))
      (eg_allowed (broker_gate_evaluate default_maximum_age (ci_gate ci) (pg_get_status ?ws (dd_broker db))
        (Some account))) = Inr con"
    and rerisk: "risk_evaluate default_risk_policy (ci_risk_id ci) (ci_risk ci) cand con = Inr rerisk"
      "rd_decision rerisk = APPROVE"
    using assms a unfolding confirm_checks_def Let_def
    by (auto simp: guard_simps not_le split: if_splits option.splits)
  note k = account_risk_context_Inr [OF con]
  have "0 \<le> os_max_loss (rc_structure cand)"
    using c(6) by (simp add: ranked_candidate_valid_def option_structure_valid_def)
  with risk_evaluate_Inr [OF _ this, of con default_risk_policy "ci_risk_id ci" "ci_risk ci"] k rerisk
  have w: "within_policy default_risk_policy (rc_structure cand) con"
    and nonneg: "0 \<le> os_max_loss (rc_structure cand)" by auto
  have "exact_limits (1 - slack) default_risk_policy (rc_structure cand) con"
    using within_policy_exact(1) nonneg w k by blast
  then have "(1 - 1 / 10 ^ 25) * (os_max_loss (rc_structure cand) * 100) \<le> 1 / 2 * ba_equity account"
    using k by (simp only: exact_limits_def default_risk_policy_def slack_def risk_policy.simps)
  moreover have "eg_allowed (broker_gate_evaluate default_maximum_age (ci_gate ci)
      (pg_get_status ?ws (dd_broker db)) (Some account))"
    using w k by (simp add: within_policy_def)
  ultimately show ?thesis using a c by blast
qed

lemma execute_sends:
  assumes "execute (pg_reserve ws t) (pg_set_state ws t) (Some pre) submit intent
      \<lparr> xw_store = rows, xw_submissions = [] \<rparr> = (reply, w)"
    and "xw_submissions w \<noteq> []"
  shows "fst pre \<and> pg_get_state ws (oi_client_order_id intent) rows = None \<and>
    xw_submissions w = [submission_of intent]"
proof -
  have pre: "fst pre" using assms by (cases pre) (auto simp: execute_def split: bool.splits)
  then obtain why where p: "pre = (True, why)" by (cases pre) auto
  obtain s where res: "pg_reserve ws t intent rows = Inr (True, s)"
    using assms p by (auto simp: execute_def split: sum.splits prod.splits bool.splits)
  obtain x where dto: "submission_dto intent = Inr x"
    using assms p res by (cases "submission_dto intent") (auto simp: execute_def)
  have "xw_submissions w = [x]"
    using assms(1) p res dto by (auto simp: execute_def settle_def split: sum.splits)
  moreover have "x = submission_of intent" by (rule submission_dto_Inr [OF dto])
  moreover have "pg_get_state ws (oi_client_order_id intent) rows = None"
    using res by (auto simp: pg_reserve_def pg_get_None split: if_splits)
  ultimately show ?thesis using pre by simp
qed



section \<open>A halt and the credentials\<close>

lemma forgotten_incidents: "pg_active v (filter (\<lambda>r. gr_workspace_id r \<noteq> ws) rows) =
    (if v = ws then None else pg_active v rows)"
proof (cases "v = ws")
  case True
  then show ?thesis by (simp add: pg_active_None filter_empty_conv active_row_def)
next
  case False
  then have "filter (active_row v) (filter (\<lambda>r. gr_workspace_id r \<noteq> ws) rows) = filter (active_row v) rows"
    by (auto simp: active_row_def intro: filter_cong)
  then show ?thesis using False by (simp only: pg_active_def if_False)
qed

lemma dd_incidents_update [simp]: "dd_incidents (update_workspace ws f db) = dd_incidents db"
  by (simp add: update_workspace_def)

text \<open>A halted workspace whose broker state is not known is refused recovery and keeps its incident;
  deleting its Alpaca credentials, which needs no known state, lifts the halt: the incidents of the
  workspace are gone and the guardian's gate is open.  The incidents of other workspaces stay.\<close>

theorem delete_credentials_lifts_the_halt:
  assumes "credential_store_of v = Inr cipher" and "get_workspace (wc_workspace_id cx) db = Some w"
    and "gs_active_incident (pg_status (wc_workspace_id cx) (dd_incidents db)) = Some incident"
    and "\<not> broker_state_known (rq_now rq) (pg_get_status (wc_workspace_id cx) (dd_broker db))"
  shows "guardian_recover rq cx db =
      (Inl (HTTPException 409 ''Guardian recovery requires known reconciled broker state''), db) \<and>
    \<not> fst (gate_execution_allowed (pg_status (wc_workspace_id cx) (dd_incidents db))) \<and>
    (\<exists>db'. delete_credentials v rq cx Alpaca db = (Inr (), db') \<and>
      gate_execution_allowed (pg_status (wc_workspace_id cx) (dd_incidents db')) = (True, ''Guardian is normal'') \<and>
      (\<forall>ws. ws \<noteq> wc_workspace_id cx \<longrightarrow> pg_status ws (dd_incidents db') = pg_status ws (dd_incidents db)))"
proof (intro conjI)
  let ?ws = "wc_workspace_id cx"
  show "guardian_recover rq cx db =
      (Inl (HTTPException 409 ''Guardian recovery requires known reconciled broker state''), db)"
    using assms(4) by (simp add: guardian_recover_def pg_recover_def recovery_refused_def confirm_refused_def)
  show "\<not> fst (gate_execution_allowed (pg_status ?ws (dd_incidents db)))"
    using pg_guardian.gate_blocked [OF assms(3)] by simp
  obtain db' where d: "delete_credentials v rq cx Alpaca db = (Inr (), db')"
      "dd_incidents db' = filter (\<lambda>r. gr_workspace_id r \<noteq> ?ws) (dd_incidents db)"
    using assms(1,2) by (simp add: delete_credentials_def Let_def get_workspace_def)
  have s: "pg_status ws (dd_incidents db') = (if ws = ?ws then status_of None else pg_status ws (dd_incidents db))"
    for ws by (simp add: d(2) pg_status_def forgotten_incidents)
  then have "gate_execution_allowed (pg_status ?ws (dd_incidents db')) = (True, ''Guardian is normal'')"
    by (simp add: status_of_def gate_execution_allowed_def)
  with d s show "\<exists>db'. delete_credentials v rq cx Alpaca db = (Inr (), db') \<and>
      gate_execution_allowed (pg_status ?ws (dd_incidents db')) = (True, ''Guardian is normal'') \<and>
      (\<forall>ws. ws \<noteq> ?ws \<longrightarrow> pg_status ws (dd_incidents db') = pg_status ws (dd_incidents db))"
    by (intro exI [of _ db']) simp
qed

theorem delete_credentials_lifts_the_halt_witness:
  "fst (gate_execution_allowed (pg_status ''w'' (dd_incidents (demo_desk [demo_incident])))) = False \<and>
   fst (gate_execution_allowed (pg_status ''w'' (dd_incidents (snd (delete_credentials demo_vault demo_request
     demo_context Alpaca (demo_desk [demo_incident])))))) = True"
proof -
  have ws: "wc_workspace_id demo_context = ''w''" by (simp add: demo_context_def demo_context_of_def)
  have c: "credential_store_of demo_vault = Inr sample_cipher"
    by (simp add: credential_store_of_def demo_vault_def)
  have w: "get_workspace (wc_workspace_id demo_context) (demo_desk [demo_incident]) = Some demo_workspace"
    by (simp add: get_workspace_def ws demo_desk_def demo_workspace_def)
  have i: "gs_active_incident (pg_status (wc_workspace_id demo_context) (dd_incidents (demo_desk [demo_incident]))) =
      Some (incident_of_row demo_incident)"
    by (simp add: ws demo_desk_def pg_status_def status_of_def pg_active_def demo_incident_def active_row_def
        row_of_incident_def)
  have k: "\<not> broker_state_known (rq_now demo_request)
      (pg_get_status (wc_workspace_id demo_context) (dd_broker (demo_desk [demo_incident])))"
    by code_simp
  from delete_credentials_lifts_the_halt [OF c w i k] show ?thesis by (auto simp: ws)
qed

end
