(* ===== verification/Desk_Lists.thy ===== *)
theory Desk_Lists
  imports Desk_Samples "HOL-Library.Multiset"
begin

text \<open>
  The lists a workspace keeps: a saved watchlist comes back normalised and saving it again changes
  nothing, and a scan of the watchlist accounts for every symbol, in its answer, in the table of
  opportunities and in its own row.
\<close>

section \<open>The watchlist\<close>

lemma isalnum_no_space: "py_isalnum s \<Longrightarrow> ch \<in> set s \<Longrightarrow> \<not> is_space_char ch"
  by (auto simp: py_isalnum_def list_all_iff is_space_char_def is_upper_char_def is_lower_char_def is_digit_char_def)

lemma strip_isalnum:
  assumes "py_isalnum s"
  shows "py_strip s = s"
proof -
  have "s \<noteq> []" using assms by (simp add: py_isalnum_def)
  moreover from this have "\<not> is_space_char (hd s)" "\<not> is_space_char (last s)"
    using isalnum_no_space [OF assms] by simp_all
  ultimately show ?thesis unfolding py_strip_def by (rule strip_while_fixed)
qed

lemma set_watchlist_symbols:
  "set (watchlist_symbols items) = {py_upper (py_strip x) | x. x \<in> set items \<and> py_strip x \<noteq> []}"
  by (auto simp: watchlist_symbols_def)

lemma watchlist_symbols_again:
  assumes "\<forall>s \<in> set (watchlist_symbols items). py_isalnum s"
  shows "watchlist_symbols (watchlist_symbols items) = watchlist_symbols items"
proof -
  let ?w = "watchlist_symbols items"
  have up: "py_upper s = s" if "s \<in> set ?w" for s
    using that by (auto simp: set_watchlist_symbols py_upper_idem)
  have st: "py_strip s = s" if "s \<in> set ?w" for s using that assms strip_isalnum by blast
  have ne: "s \<noteq> []" if "s \<in> set ?w" for s using that assms by (auto simp: py_isalnum_def)
  have "filter (\<lambda>s. py_strip s \<noteq> []) ?w = ?w" using st ne by (simp add: filter_id_conv)
  moreover have "map (\<lambda>s. py_upper (py_strip s)) ?w = ?w" using st up by (simp add: map_idI)
  moreover have "remdups ?w = ?w" by (rule distinct_remdups_id) (simp add: watchlist_symbols_def)
  moreover have "sort ?w = ?w" by (rule sort_key_id_if_sorted) (simp add: watchlist_symbols_def)
  ultimately show ?thesis by (simp only: watchlist_symbols_def [of ?w])
qed

lemma watchlist_of_saved:
  "watchlist_of ws (db\<lparr>dd_watchlist := filter (\<lambda>r. wl_workspace_id r \<noteq> ws) (dd_watchlist db) @
     map (\<lambda>s. \<lparr> wl_workspace_id = ws, wl_symbol = s, wl_created_at = now \<rparr>) symbols\<rparr>) = symbols"
  by (simp add: watchlist_of_def o_def filter_empty_conv)

text \<open>A saved watchlist comes back as it was answered: the symbols of the request, stripped, in upper
  case, sorted and without repetition, at most 25, each alphanumeric and of at most 16 characters; saving
  the answer again gives the same answer.  A request is refused, and nothing is changed, exactly when one of
  these bounds fails.\<close>

theorem watchlist_comes_back:
  assumes "replace_watchlist rq cx items db = (answer, db')"
  shows "case answer of
      Inl e \<Rightarrow> db' = db \<and> (25 < card {py_upper (py_strip x) | x. x \<in> set items \<and> py_strip x \<noteq> []} \<or>
        (\<exists>x \<in> set items. py_strip x \<noteq> [] \<and>
          (\<not> py_isalnum (py_upper (py_strip x)) \<or> 16 < length (py_upper (py_strip x)))))
    | Inr symbols \<Rightarrow> get_watchlist cx db' = symbols \<and> sorted symbols \<and> distinct symbols \<and> length symbols \<le> 25 \<and>
        set symbols = {py_upper (py_strip x) | x. x \<in> set items \<and> py_strip x \<noteq> []} \<and>
        list_all (\<lambda>s. py_isalnum s \<and> length s \<le> 16) symbols \<and>
        fst (replace_watchlist rq' cx symbols db') = Inr symbols"
proof -
  let ?w = "watchlist_symbols items"
  have len: "length ?w = card {py_upper (py_strip x) | x. x \<in> set items \<and> py_strip x \<noteq> []}"
    unfolding set_watchlist_symbols [symmetric]
    by (rule distinct_card [symmetric]) (simp add: watchlist_symbols_def)
  show ?thesis
  proof (cases "length ?w > 25 \<or> list_ex (\<lambda>s. \<not> py_isalnum s \<or> length s > 16) ?w")
    case True
    then have "answer = Inl (HTTPException 422 ''Watchlist contains invalid symbols'') \<and> db' = db"
      using assms by (simp add: replace_watchlist_def Let_def)
    moreover have "25 < length ?w \<or> (\<exists>x \<in> set items. py_strip x \<noteq> [] \<and>
        (\<not> py_isalnum (py_upper (py_strip x)) \<or> 16 < length (py_upper (py_strip x))))"
      using True by (auto simp: list_ex_iff set_watchlist_symbols)
    ultimately show ?thesis using len by simp
  next
    case False
    then have db': "answer = Inr ?w" "get_watchlist cx db' = sort ?w"
      using assms by (auto simp: replace_watchlist_def Let_def get_watchlist_def watchlist_of_saved)
    have ok: "list_all (\<lambda>s. py_isalnum s \<and> length s \<le> 16) ?w" "length ?w \<le> 25"
      using False by (auto simp: list_ex_iff list_all_iff)
    have s: "sorted ?w" "distinct ?w" by (simp_all add: watchlist_symbols_def)
    have "watchlist_symbols ?w = ?w" using ok(1) by (intro watchlist_symbols_again) (simp add: list_all_iff)
    then have "fst (replace_watchlist rq' cx ?w db') = Inr ?w"
      using False by (simp add: replace_watchlist_def Let_def)
    with db' ok s set_watchlist_symbols [of items] show ?thesis by (simp add: sort_key_id_if_sorted)
  qed
qed

lemma save_sample: "replace_watchlist demo_request demo_context ['' msft '', ''AAPL'', ''MSFT'', '' ''] (demo_desk []) =
    (Inr [''AAPL'', ''MSFT''], (demo_desk [])\<lparr>dd_watchlist :=
      [\<lparr> wl_workspace_id = ''w'', wl_symbol = ''AAPL'', wl_created_at = seconds 500 \<rparr>,
       \<lparr> wl_workspace_id = ''w'', wl_symbol = ''MSFT'', wl_created_at = seconds 500 \<rparr>]\<rparr>)"
proof -
  have "watchlist_symbols ['' msft '', ''AAPL'', ''MSFT'', '' ''] = [''AAPL'', ''MSFT'']" by code_simp
  moreover have "py_isalnum ''AAPL'' \<and> py_isalnum ''MSFT''" by code_simp
  ultimately show ?thesis
    by (simp add: replace_watchlist_def Let_def demo_request_def demo_context_def demo_context_of_def demo_desk_def)
qed

theorem watchlist_comes_back_witness:
  "get_watchlist demo_context (snd (replace_watchlist demo_request demo_context
     ['' msft '', ''AAPL'', ''MSFT'', '' ''] (demo_desk []))) = [''AAPL'', ''MSFT'']"
  using watchlist_comes_back [OF save_sample] by (simp add: save_sample)

section \<open>A scan\<close>

text \<open>Every value of a step satisfies a condition.\<close>

definition yields :: "('a \<Rightarrow> bool) \<Rightarrow> 'a result \<Rightarrow> bool" where
  "yields P r \<longleftrightarrow> (case r of Inl _ \<Rightarrow> True | Inr a \<Rightarrow> P a)"

lemma yields_Inl [simp]: "yields P (Inl e)" and yields_Inr [simp]: "yields P (Inr a) = P a"
  by (simp_all add: yields_def)

lemma yields_rbind [intro!]: "(\<And>x. m = Inr x \<Longrightarrow> yields P (f x)) \<Longrightarrow> yields P (rbind m f)"
  by (cases m) simp_all

lemma yieldsD: "yields P r \<Longrightarrow> r = Inr a \<Longrightarrow> P a"
  by simp

lemma decide_form: "yields (\<lambda>a. an_symbol a = sg_symbol s \<and> an_scan_run_id a = scan)
    (decide sha ids scan now later ws db s idea cand)"
  by (auto simp: decide_def Let_def unavailable_def analysis_base_def split: option.split)

lemma analyze_idea_form: "yields (\<lambda>a. an_symbol a = sg_symbol s \<and> an_scan_run_id a = scan)
    (analyze_idea sha ids scan now later today get_chain ws db price s idea)"
  unfolding analyze_idea_def Let_def
  by (auto simp: decide_form simp: unavailable_def analysis_base_def split: list.split prod.split)

lemma analysis_form:
  assumes "analysis_of sha ids scan now later today fetch get_chain ws db symbol = Inr a"
  shows "an_symbol a = py_upper (py_strip symbol) \<and> an_scan_run_id a = scan"
proof -
  obtain features price s out where
    s: "connected_signal ids now (py_upper (py_strip symbol)) features = Inr s"
    and a: "(case out of
       No_trade n \<Rightarrow> Inr ((analysis_base ids scan now s NO_TRADE)\<lparr>an_reason_codes := nt_reason_codes n\<rparr>)
     | Idea idea \<Rightarrow> analyze_idea sha ids scan now later today get_chain ws db price s idea) = Inr a"
    using assms unfolding analysis_of_def normal_symbol_def rbind_eq_Inr
    by (auto simp: rbind_eq_Inr Let_def split: if_splits)
  have "sg_symbol s = py_upper (py_strip symbol)"
    using s by (auto simp: connected_signal_def rbind_eq_Inr validated_def split: if_splits)
  moreover have "an_symbol a = sg_symbol s \<and> an_scan_run_id a = scan"
    using a yieldsD [OF analyze_idea_form] by (cases out) (auto simp: analysis_base_def)
  ultimately show ?thesis by simp
qed

text \<open>What one analysis does to the table of opportunities.\<close>

definition adds_own_row :: "uuid \<Rightarrow> uuid \<Rightarrow> string \<Rightarrow> connected_analysis result \<times> opportunity_row list \<Rightarrow>
    opportunity_row list \<Rightarrow> bool" where
  "adds_own_row ws run symbol answer rows = (case answer of
      (Inl e, rows') \<Rightarrow> rows' = rows
    | (Inr a, rows') \<Rightarrow> \<exists>r. rows' = rows @ [r] \<and> or_payload r = a \<and> or_symbol r = an_symbol a \<and>
        or_workspace_id r = ws \<and> or_scan_run_id r = Some run \<and> an_symbol a = py_upper (py_strip symbol))"

lemma analyze_for_adds: "adds_own_row ws run symbol (analyze_for sha ws b (Some run) inp symbol rows) rows"
  by (auto simp: adds_own_row_def analyze_for_def analyze_def opportunity_row_of_def
      split: sum.splits dest: analysis_form)

lemma scan_symbols_account:
  assumes "scan_symbols analyse symbols rows = (results, failures, rows')"
    and "\<And>s rows. adds_own_row ws run s (analyse s rows) rows"
  shows "mset (map an_symbol results) + mset (map (\<lambda>s. py_upper (py_strip s)) failures) =
      mset (map (\<lambda>s. py_upper (py_strip s)) symbols) \<and>
    length results + length failures = length symbols \<and> set failures \<subseteq> set symbols \<and>
    (\<exists>new. rows' = rows @ new \<and> map or_payload new = results \<and> map or_symbol new = map an_symbol results \<and>
      list_all (\<lambda>r. or_workspace_id r = ws \<and> or_scan_run_id r = Some run) new)"
  using assms(1)
proof (induction symbols arbitrary: rows results failures rows')
  case (Cons symbol symbols)
  obtain r rows1 where an: "analyse symbol rows = (r, rows1)" by (cases "analyse symbol rows")
  obtain res fail rows2 where rest: "scan_symbols analyse symbols rows1 = (res, fail, rows2)"
    by (metis prod_cases3)
  note ih = Cons.IH [OF rest]
  have own: "adds_own_row ws run symbol (r, rows1) rows" using assms(2) [of symbol rows] an by simp
  show ?case
  proof (cases r)
    case (Inl e)
    then show ?thesis using Cons.prems an rest own ih by (auto simp: adds_own_row_def)
  next
    case (Inr a)
    then obtain row where row: "rows1 = rows @ [row]" "or_payload row = a" "or_symbol row = an_symbol a"
      "or_workspace_id row = ws" "or_scan_run_id row = Some run" "an_symbol a = py_upper (py_strip symbol)"
      using own by (auto simp: adds_own_row_def)
    obtain new where new: "rows2 = rows1 @ new" "map or_payload new = res" "map or_symbol new = map an_symbol res"
      "list_all (\<lambda>r. or_workspace_id r = ws \<and> or_scan_run_id r = Some run) new" using ih by blast
    have out: "results = a # res" "failures = fail" "rows' = rows2" using Cons.prems an rest Inr by auto
    have "\<exists>new. rows' = rows @ new \<and> map or_payload new = results \<and> map or_symbol new = map an_symbol results \<and>
        list_all (\<lambda>r. or_workspace_id r = ws \<and> or_scan_run_id r = Some run) new"
      using new row out by (intro exI [of _ "row # new"]) simp
    then show ?thesis using out ih row(6) by auto
  qed
qed simp

text \<open>A scan that answers accounts for every symbol of the watchlist: each is the symbol of a result or
  a failure, with its multiplicity; the results are the rows the scan added to the opportunities, all of
  this workspace and of this run; the run's row carries the counts and the time of the answer; and reading
  the results of the run gives the results of the scan, ordered by symbol.\<close>

theorem scan_accounts_for_every_symbol:
  assumes "scan_now v sha inputs rq cx db = (Inr r, db')"
    and "\<forall>o' \<in> set (dd_opportunities db). or_scan_run_id o' \<noteq> Some (rq_id1 rq)"
  shows "mset (map an_symbol (sn_results r)) + mset (map (\<lambda>s. py_upper (py_strip s)) (sn_failures r)) =
      mset (map (\<lambda>s. py_upper (py_strip s)) (get_watchlist cx db)) \<and>
    sn_attempted r = int (length (sn_results r)) + int (length (sn_failures r)) \<and>
    (\<exists>new. dd_opportunities db' = dd_opportunities db @ new \<and> map or_payload new = sn_results r \<and>
      list_all (\<lambda>o'. or_workspace_id o' = wc_workspace_id cx \<and> or_scan_run_id o' = Some (sn_scan_run_id r)) new) \<and>
    List.find (\<lambda>x. sr_scan_run_id x = sn_scan_run_id r) (dd_scan_runs db') = Some
      \<lparr> sr_scan_run_id = sn_scan_run_id r, sr_workspace_id = wc_workspace_id cx, sr_trigger = ''MANUAL'',
        sr_source = ''ALPACA_REAL'', sr_started_at = sn_started_at r, sr_completed_at = Some (sn_completed_at r),
        sr_attempted_count = sn_attempted r, sr_completed_count = int (length (sn_results r)),
        sr_failed_count = int (length (sn_failures r)) \<rparr> \<and>
    get_scan_run_results cx (sn_scan_run_id r) db' = Inr (sort_key an_symbol (sn_results r))"
proof -
  let ?ws = "wc_workspace_id cx" and ?w = "get_watchlist cx db" and ?run = "rq_id1 rq"
  let ?row = "\<lparr> sr_scan_run_id = ?run, sr_workspace_id = ?ws, sr_trigger = ''MANUAL'',
     sr_source = ''ALPACA_REAL'', sr_started_at = rq_now rq, sr_completed_at = None,
     sr_attempted_count = int (length ?w), sr_completed_count = 0, sr_failed_count = 0 \<rparr>"
  have new_run: "\<not> list_ex (\<lambda>x. sr_scan_run_id x = ?run) (dd_scan_runs db)"
    using assms(1) by (auto simp: scan_now_def start_scan_run_def Let_def split: sum.splits if_splits)
  then have none: "List.find (\<lambda>x. sr_scan_run_id x = ?run) (dd_scan_runs db) = None"
    by (simp add: find_None_iff list_ex_iff)
  obtain results failures rows where sc: "scan_symbols (\<lambda>s. analyze_for sha ?ws (dd_broker db) (Some ?run)
      (inputs s) s) ?w (dd_opportunities db) = (results, failures, rows)" by (metis prod_cases3)
  let ?done = "?row\<lparr>sr_completed_at := Some (rq_later rq), sr_completed_count := int (length results),
      sr_failed_count := int (length failures)\<rparr>"
  have find_row: "List.find (\<lambda>x. sr_scan_run_id x = ?run) (dd_scan_runs db @ [?row]) = Some ?row"
    by (simp add: find_append none)
  have r: "r = \<lparr> sn_scan_run_id = ?run, sn_trigger = ''MANUAL'', sn_started_at = rq_now rq,
      sn_completed_at = rq_later rq, sn_attempted = int (length ?w), sn_results = results,
      sn_failures = failures \<rparr>"
    and db': "dd_opportunities db' = rows"
    "dd_scan_runs db' = map (\<lambda>x. if sr_scan_run_id x = ?run
        then x\<lparr>sr_completed_at := Some (rq_later rq), sr_completed_count := int (length results),
          sr_failed_count := int (length failures)\<rparr> else x) (dd_scan_runs db @ [?row])"
    using assms(1) sc new_run find_row
    by (auto simp: scan_now_def start_scan_run_def complete_scan_run_def Let_def split: sum.splits)
  obtain new where acc: "mset (map an_symbol results) + mset (map (\<lambda>s. py_upper (py_strip s)) failures) =
      mset (map (\<lambda>s. py_upper (py_strip s)) ?w)" "length results + length failures = length ?w"
    and new: "rows = dd_opportunities db @ new" "map or_payload new = results"
      "map or_symbol new = map an_symbol results"
      "list_all (\<lambda>x. or_workspace_id x = ?ws \<and> or_scan_run_id x = Some ?run) new"
    using scan_symbols_account [OF sc analyze_for_adds] by blast
  have found: "List.find (\<lambda>x. sr_scan_run_id x = ?run) (dd_scan_runs db') = Some ?done"
    unfolding db' by (subst find_map_same) (simp_all add: find_row)
  have "filter (\<lambda>x. or_workspace_id x = ?ws \<and> or_scan_run_id x = Some ?run) rows = new"
    using assms(2) new(1,4) by (auto simp: filter_empty_conv filter_id_conv list_all_iff)
  moreover have "map or_payload (sort_key or_symbol new) = sort_key an_symbol results"
  proof -
    have "\<forall>x \<in> set new. or_symbol x = an_symbol (or_payload x)"
      using new(2,3) by (metis (no_types, lifting) map_eq_conv map_map o_apply)
    then show ?thesis using new(2) map_sort_key by metis
  qed
  moreover have "list_ex (\<lambda>x. sr_scan_run_id x = ?run \<and> sr_workspace_id x = ?ws) (dd_scan_runs db')"
    unfolding db' by simp
  ultimately have res: "get_scan_run_results cx ?run db' = Inr (sort_key an_symbol results)"
    using db'(1) by (simp add: get_scan_run_results_def)
  have n: "int (length ?w) = int (length results) + int (length failures)" using acc(2) by linarith
  show ?thesis using acc(1) n new db'(1) found res by (auto simp: r)
qed

theorem scan_accounts_for_every_symbol_witness:
  "\<exists>r db'. scan_now demo_vault id demo_inputs demo_request demo_context demo_scan_desk = (Inr r, db') \<and>
     sn_failures r = [''MSFT''] \<and> get_scan_run_results demo_context ''q1'' db' = Inr [demo_unavailable]"
proof -
  have c: "wc_workspace_id demo_context = ''w''" "rq_id1 demo_request = ''q1''"
    by (simp_all add: demo_context_def demo_context_of_def demo_request_def)
  have w: "get_watchlist demo_context demo_scan_desk = [''MSFT'', ''NVDA'']" by code_simp
  have b: "dd_broker demo_scan_desk = demo_db" "dd_scan_runs demo_scan_desk = []"
    "dd_opportunities demo_scan_desk = [opportunity_row_of ''w'' 0 demo_analysis]"
    by (simp_all add: demo_scan_desk_def demo_desk_def)
  have o: "an_opportunity_id demo_unavailable = ''o2''" "an_scan_run_id demo_analysis = None"
    "or_opportunity_id (opportunity_row_of ''w'' 0 demo_analysis) = ''o''"
    by (simp_all add: demo_unavailable_def unavailable_def analysis_base_def opportunity_row_of_def demo_analysis_def
        demo_ids_def)
  have f: "analyze_for id ''w'' demo_db (Some ''q1'') (demo_inputs ''MSFT'') ''MSFT'' rows =
      (Inl (External ''TimeoutError''), rows)"
    "list_all (\<lambda>x. or_opportunity_id x \<noteq> ''o2'') rows \<Longrightarrow>
     analyze_for id ''w'' demo_db (Some ''q1'') (demo_inputs ''NVDA'') ''NVDA'' rows =
      (Inr demo_unavailable, rows @ [opportunity_row_of ''w'' 0 demo_unavailable])" for rows
    using demo_analyses
    by (auto simp: analyze_for_def analyze_def demo_inputs_def o list_all_iff list_ex_iff)
  obtain r db' where r: "scan_now demo_vault id demo_inputs demo_request demo_context demo_scan_desk = (Inr r, db')"
      "sn_failures r = [''MSFT'']" "sn_results r = [demo_unavailable]" "sn_scan_run_id r = ''q1''"
    by (simp add: scan_now_def w demo_service c b f o start_scan_run_def complete_scan_run_def Let_def)
  have "\<forall>o' \<in> set (dd_opportunities demo_scan_desk). or_scan_run_id o' \<noteq> Some (rq_id1 demo_request)"
    using o by (simp add: b opportunity_row_of_def)
  from scan_accounts_for_every_symbol [OF r(1) this] r show ?thesis by (intro exI conjI) auto
qed

end
