(* ===== verification/Worker.thy ===== *)
theory Worker
  imports Desk_Scans
begin

text \<open>
  \<open>apps/worker/__main__.py\<close>: the background worker.  It keeps one runtime task per connected workspace, which
  reconciles the broker projection and follows the stream of trade updates, and it scans the watchlists
  while the market is open.

  Each loop is modelled by its iterations; waiting is not modelled.  Time zones are outside the repository:
  \<open>eastern\<close> gives the weekday, hour and minute of an instant in New York.
\<close>

section \<open>Starting up\<close>

datatype worker_mode = Connected_disabled string | Connected_enabled credential_cipher

text \<open>\<open>run\<close>: without a usable master key the worker only waits.\<close>

definition worker_start :: "string option \<Rightarrow> worker_mode result" where
  "worker_start master_keys = (case master_keys of
      None \<Rightarrow> Inr (Connected_disabled ''master_key_missing'')
    | Some encoded \<Rightarrow>
      (case new_cipher encoded of
        Inl (CredentialConfigurationError _) \<Rightarrow> Inr (Connected_disabled ''master_key_invalid'')
      | Inl e \<Rightarrow> Inl e
      | Inr cipher \<Rightarrow> Inr (Connected_enabled cipher)))"

section \<open>The runtime of a workspace\<close>

definition set_workspace_status :: "uuid \<Rightarrow> workspace_status \<Rightarrow> desk_db \<Rightarrow> desk_db" where
  "set_workspace_status ws status db = update_workspace ws (\<lambda>w. w\<lparr>ws_status := status\<rparr>) db"

definition reconcile_workspace ::
  "uuid \<Rightarrow> reconciliation_snapshot result \<Rightarrow> desk_db \<Rightarrow> int result \<times> desk_db" where
  "reconcile_workspace ws snapshot db =
     (case reconcile (pg_mark_state ws) (pg_apply_reconciliation ws) snapshot (dd_broker db) of
       (r, b) \<Rightarrow> (r, db\<lparr>dd_broker := b\<rparr>))"

definition disconnect_workspace :: "uuid \<Rightarrow> desk_db \<Rightarrow> desk_db" where
  "disconnect_workspace ws db = db\<lparr>dd_broker := pg_set_stream_connected ws False (dd_broker db)\<rparr>"

text \<open>How \<open>_workspace_runtime\<close> begins: it returns because the credentials are gone, it dies with an exception
  of the code before the \<open>try\<close>, it fails and says so in the workspace's status, or it is ready and waits for
  its stop signal.\<close>

datatype runtime_start = No_credentials | Died py_error | Connection_failed py_error | Ready

definition worker_reveal ::
  "(string \<Rightarrow> string \<Rightarrow> string \<Rightarrow> string \<Rightarrow> string option) \<Rightarrow> credential_cipher \<Rightarrow> uuid \<Rightarrow> desk_db \<Rightarrow>
   (string \<times> string) list option result"
where
  "worker_reveal unseal cipher ws db = credential_reveal unseal cipher ws ''ALPACA'' (dd_credentials db)"

definition start_runtime ::
  "(string \<Rightarrow> string \<Rightarrow> string \<Rightarrow> string \<Rightarrow> string option) \<Rightarrow> credential_cipher \<Rightarrow> uuid \<Rightarrow>
   reconciliation_snapshot result \<Rightarrow> desk_db \<Rightarrow> runtime_start \<times> desk_db"
where
  "start_runtime unseal cipher ws snapshot db =
     (case worker_reveal unseal cipher ws db of
       Inl e \<Rightarrow> (Died e, db)
     | Inr None \<Rightarrow> (No_credentials, db)
     | Inr (Some secret) \<Rightarrow>
       (case rbind (alpaca_keys secret) alpaca_adapter of
         Inl e \<Rightarrow> (Died e, db)
       | Inr _ \<Rightarrow>
         (case reconcile_workspace ws snapshot db of
           (Inl e, db1) \<Rightarrow>
             (Connection_failed e, disconnect_workspace ws (set_workspace_status ws CONNECTION_ERROR db1))
         | (Inr _, db1) \<Rightarrow> (Ready, set_workspace_status ws ACTIVE db1))))"

text \<open>Stopping a ready runtime cancels its tasks and marks the stream disconnected.\<close>

definition stop_runtime :: "uuid \<Rightarrow> desk_db \<Rightarrow> desk_db" where
  "stop_runtime ws db = disconnect_workspace ws db"

text \<open>One iteration of \<open>_periodic_reconciliation\<close>: an exception is dropped.\<close>

definition periodic_reconciliation :: "uuid \<Rightarrow> reconciliation_snapshot result \<Rightarrow> desk_db \<Rightarrow> desk_db" where
  "periodic_reconciliation ws snapshot db = snd (reconcile_workspace ws snapshot db)"

text \<open>One iteration of \<open>_trade_update_supervisor\<close>: a stream that raises is followed by a reconciliation,
  unless the stop signal came first; a cancelled one ends the loop.\<close>

definition follow_trade_updates ::
  "uuid \<Rightarrow> broker_trade_update list \<Rightarrow> stream_end \<Rightarrow> bool \<Rightarrow> reconciliation_snapshot result \<Rightarrow> desk_db \<Rightarrow>
   bool \<times> desk_db"
where
  "follow_trade_updates ws updates fin stopped snapshot db =
     (case consume_trade_updates (pg_mark_state ws) (pg_set_stream_connected ws) (pg_apply_trade_update ws)
         updates fin (dd_broker db) of
       (Cancelled, b) \<Rightarrow> (False, db\<lparr>dd_broker := b\<rparr>)
     | (Ends, b) \<Rightarrow> (True, db\<lparr>dd_broker := b\<rparr>)
     | (Raises e, b) \<Rightarrow>
       if stopped then (False, db\<lparr>dd_broker := b\<rparr>)
       else (True, snd (reconcile_workspace ws snapshot (db\<lparr>dd_broker := b\<rparr>))))"

section \<open>The connection supervisor\<close>

definition discover_credentials :: "desk_db \<Rightarrow> credential_row list" where
  "discover_credentials db = sort_key cr_updated_at (filter (\<lambda>r. cr_provider r = ''ALPACA'' \<and>
     cr_validation_status r = ''VERIFIED'' \<and> cr_enabled r \<and>
     list_ex (\<lambda>w. ws_workspace_id w = cr_workspace_id r \<and> ws_status w \<noteq> SUSPENDED) (dd_workspaces db))
     (cd_credentials (dd_credentials db)))"

text \<open>The dictionary of runtimes in its order, by workspace.  \<open>ar_task\<close> tells tasks of the same workspace apart,
  \<open>ar_ended\<close> that the task has returned or raised.\<close>

record active_runtime =
  ar_fingerprint :: string
  ar_task :: nat
  ar_ended :: bool

definition wanted_credentials :: "nat \<Rightarrow> desk_db \<Rightarrow> (uuid \<times> credential_row) list" where
  "wanted_credentials connection_limit db =
     dict_by cr_workspace_id (take connection_limit (discover_credentials db))"

definition keeps_runtime :: "(uuid \<times> credential_row) list \<Rightarrow> uuid \<times> active_runtime \<Rightarrow> bool" where
  "keeps_runtime wanted entry = (case map_of wanted (fst entry) of
      None \<Rightarrow> False
    | Some record \<Rightarrow> cr_fingerprint record = ar_fingerprint (snd entry))"

text \<open>One iteration: the runtimes whose credential is gone or has another fingerprint are stopped and
  removed, then the wanted workspaces without a runtime get one.  \<open>task\<close> is the number of the next task.\<close>

definition connection_tick ::
  "nat \<Rightarrow> nat \<Rightarrow> (uuid \<times> active_runtime) list \<Rightarrow> desk_db \<Rightarrow> (uuid \<times> active_runtime) list \<times> uuid list \<times> uuid list" where
  "connection_tick connection_limit next_task runtimes db =
     (let wanted = wanted_credentials connection_limit db;
          kept = filter (keeps_runtime wanted) runtimes;
          stopped = map fst (filter (\<lambda>e. \<not> keeps_runtime wanted e) runtimes);
          new = filter (\<lambda>(ws, record). map_of kept ws = None) wanted;
          started = map (\<lambda>((ws, record), n). (ws, \<lparr> ar_fingerprint = cr_fingerprint record, ar_task = n,
            ar_ended = False \<rparr>)) (zip new [next_task..<next_task + length new])
      in (kept @ started, stopped, map fst started))"

section \<open>The scanner\<close>

definition market_is_open :: "(instant \<Rightarrow> int \<times> int \<times> int) \<Rightarrow> instant \<Rightarrow> bool" where
  "market_is_open eastern now = (case eastern now of (weekday, hour, minute) \<Rightarrow>
     let minutes = hour * 60 + minute in weekday < 5 \<and> 570 \<le> minutes \<and> minutes < 960)"

definition scanned_lately :: "instant \<Rightarrow> instant option \<Rightarrow> bool" where
  "scanned_lately now scans = (case scans of None \<Rightarrow> False | Some t \<Rightarrow> now - t < seconds 300)"

text \<open>The identifier and the clock readings of the run of a workspace.\<close>

record scan_inputs =
  sc_run_id :: uuid
  sc_started_at :: instant
  sc_completed_at :: instant
  sc_analysis :: "string \<Rightarrow> analysis_inputs"

text \<open>The scan of one workspace.  The watchlist comes in the order of the table; the adapter for option data
  refuses empty keys.\<close>

definition scan_workspace ::
  "(string \<Rightarrow> string) \<Rightarrow> uuid \<Rightarrow> scan_inputs \<Rightarrow> (string \<times> string) list \<Rightarrow> desk_db \<Rightarrow> unit result \<times> desk_db" where
  "scan_workspace sha ws inp secret db =
     (let symbols = watchlist_of ws db in
      case rbind (alpaca_keys secret) (\<lambda>keys. require (fst keys \<noteq> [] \<and> snd keys \<noteq> [])
          (ValueError ''Alpaca credentials are required for option market data.'')) of
        Inl e \<Rightarrow> (Inl e, db)
      | Inr _ \<Rightarrow>
        (case start_scan_run (sc_run_id inp) (sc_started_at inp) ws ''SCHEDULED'' (int (length symbols))
            (dd_scan_runs db) of
          Inl e \<Rightarrow> (Inl e, db)
        | Inr (run, runs) \<Rightarrow>
          (case scan_symbols (\<lambda>s. analyze_for sha ws (dd_broker db) (Some (sr_scan_run_id run)) (sc_analysis inp s) s)
              symbols (dd_opportunities db) of (results, failures, rows) \<Rightarrow>
          (case complete_scan_run (sc_completed_at inp) (sr_scan_run_id run) (int (length results))
              (int (length failures)) runs of
            Inl e \<Rightarrow> (Inl e, db\<lparr>dd_scan_runs := runs, dd_opportunities := rows\<rparr>)
          | Inr (_, runs1) \<Rightarrow> (Inr (), db\<lparr>dd_scan_runs := runs1, dd_opportunities := rows\<rparr>)))))"

text \<open>The loop over the workspaces that the tick has read; an exception leaves it, and with it the worker.\<close>

fun scan_workspaces ::
  "(string \<Rightarrow> string \<Rightarrow> string \<Rightarrow> string \<Rightarrow> string option) \<Rightarrow> credential_cipher \<Rightarrow> (string \<Rightarrow> string) \<Rightarrow> instant \<Rightarrow>
   (uuid \<Rightarrow> scan_inputs) \<Rightarrow> workspace_row list \<Rightarrow> (uuid \<rightharpoonup> instant) \<Rightarrow> desk_db \<Rightarrow>
   unit result \<times> (uuid \<rightharpoonup> instant) \<times> desk_db"
where
  "scan_workspaces unseal cipher sha now inputs [] scans db = (Inr (), scans, db)"
| "scan_workspaces unseal cipher sha now inputs (w # workspaces) scans db =
     (let ws = ws_workspace_id w in
      if scanned_lately now (scans ws) then scan_workspaces unseal cipher sha now inputs workspaces scans db
      else case worker_reveal unseal cipher ws db of
        Inl e \<Rightarrow> (Inl e, scans, db)
      | Inr None \<Rightarrow> scan_workspaces unseal cipher sha now inputs workspaces scans db
      | Inr (Some secret) \<Rightarrow>
        (case scan_workspace sha ws (inputs ws) secret db of
          (Inl e, db1) \<Rightarrow> (Inl e, scans, db1)
        | (Inr _, db1) \<Rightarrow>
          scan_workspaces unseal cipher sha now inputs workspaces (scans(ws \<mapsto> now)) db1))"

definition scanner_tick ::
  "(string \<Rightarrow> string \<Rightarrow> string \<Rightarrow> string \<Rightarrow> string option) \<Rightarrow> credential_cipher \<Rightarrow> (string \<Rightarrow> string) \<Rightarrow>
   (instant \<Rightarrow> int \<times> int \<times> int) \<Rightarrow> instant \<Rightarrow> (uuid \<Rightarrow> scan_inputs) \<Rightarrow> (uuid \<rightharpoonup> instant) \<Rightarrow> desk_db \<Rightarrow>
   unit result \<times> (uuid \<rightharpoonup> instant) \<times> desk_db"
where
  "scanner_tick unseal cipher sha eastern now inputs scans db =
     (if \<not> market_is_open eastern now then (Inr (), scans, db)
      else scan_workspaces unseal cipher sha now inputs
        (filter (\<lambda>w. ws_scanner_enabled w \<and> ws_status w = ACTIVE) (dd_workspaces db)) scans db)"

end
