(* ===== verification/Desk_Tenancy.thy ===== *)
theory Desk_Tenancy
  imports Desk_Samples
begin

text \<open>
  One workspace's requests never touch another workspace's data: every endpoint that writes keeps the
  view of every other workspace, and what the reading endpoints answer is a function of the caller's own view.
\<close>

section \<open>The endpoints as one operation\<close>

datatype desk_request =
    Save_alpaca "string \<times> string" "reconciliation_snapshot result"
  | Save_openrouter string string "unit result"
  | Delete_credentials provider_name
  | Replace_watchlist "string list"
  | Set_scanner bool
  | Analyze_symbol analysis_inputs string
  | Scan_now "string \<Rightarrow> analysis_inputs"
  | Ask_ai "string \<Rightarrow> string \<Rightarrow> ai_provider" "json \<Rightarrow> string" "connected_analysis \<Rightarrow> json \<times> json \<times> json"
      "instant \<Rightarrow> string" uuid
  | Confirm confirm_inputs "order_submission \<Rightarrow> broker_order result" uuid string
  | Close_position string "close_failure + broker_order" "close_failure + reconciliation_snapshot"
  | Halt
  | Recover

definition desk_do :: "vault \<Rightarrow> request_ids \<Rightarrow> workspace_context \<Rightarrow> desk_request \<Rightarrow> desk_db \<Rightarrow> desk_db" where
  "desk_do v rq cx request db = (case request of
      Save_alpaca keys reconciled \<Rightarrow> snd (save_alpaca_credentials v rq cx keys reconciled db)
    | Save_openrouter key model probe \<Rightarrow> snd (save_openrouter_credentials v rq cx key model probe db)
    | Delete_credentials p \<Rightarrow> snd (delete_credentials v rq cx p db)
    | Replace_watchlist items \<Rightarrow> snd (replace_watchlist rq cx items db)
    | Set_scanner b \<Rightarrow> snd (set_scanner v rq cx b db)
    | Analyze_symbol inp symbol \<Rightarrow> snd (analyze_symbol v (va_sha v) inp cx symbol db)
    | Scan_now inputs \<Rightarrow> snd (scan_now v (va_sha v) inputs rq cx db)
    | Ask_ai connect py_str dump isoformat i \<Rightarrow>
        snd (analyze_opportunity_with_ai v rq connect py_str dump isoformat cx i db)
    | Confirm ci submit i cid \<Rightarrow> fst (snd (confirm_paper_order v ci submit cx i cid db))
    | Close_position symbol closing snapshot \<Rightarrow> snd (close_position v cx symbol closing snapshot db)
    | Halt \<Rightarrow> snd (guardian_halt rq cx db)
    | Recover \<Rightarrow> snd (guardian_recover rq cx db))"

section \<open>The tables\<close>

named_theorems other_rows \<open>what an operation leaves of the rows of another workspace\<close>

lemma workspaces_other [other_rows]:
  assumes "v \<noteq> ws" and "\<And>r. ws_workspace_id (f r) = ws_workspace_id r"
  shows "filter (\<lambda>r. ws_workspace_id r = v)
    (map (\<lambda>r. if ws_workspace_id r = ws then f r else r) rows) = filter (\<lambda>r. ws_workspace_id r = v) rows"
  using assms by (intro filter_map_other) auto

lemma filter_not_own [other_rows]: "v \<noteq> ws \<Longrightarrow> x \<noteq> ws \<and> x = v \<longleftrightarrow> x = v"
  by auto

lemma upsert_credential_other [other_rows]:
  assumes "upsert_credential c rows = (r, rows')" and "v \<noteq> cr_workspace_id c"
  shows "filter (\<lambda>r. cr_workspace_id r = v) rows' = filter (\<lambda>r. cr_workspace_id r = v) rows"
proof (cases "List.find (credential_of (cr_workspace_id c) (cr_provider c)) rows")
  case None
  then show ?thesis using assms by (auto simp: upsert_credential_def)
next
  case (Some old)
  have "filter (\<lambda>r. cr_workspace_id r = v) (map (\<lambda>x. if credential_of (cr_workspace_id c) (cr_provider c) x
      then r else x) rows) = filter (\<lambda>r. cr_workspace_id r = v) rows"
    using assms credential_of_upsert [OF assms(1)] by (intro filter_map_other) (auto simp: credential_of_def)
  then show ?thesis using assms(1) Some by (auto simp: upsert_credential_def Let_def)
qed

lemma credential_save_other:
  assumes "credential_save seal sha nonce cipher i a now ws actor p payload conf st en db = Inr (r, db')" and "v \<noteq> ws"
  shows "filter (\<lambda>r. cr_workspace_id r = v) (cd_credentials db') = filter (\<lambda>r. cr_workspace_id r = v) (cd_credentials db) \<and>
    filter (\<lambda>r. au_workspace_id r = Some v) (cd_audit db') = filter (\<lambda>r. au_workspace_id r = Some v) (cd_audit db)"
proof -
  obtain c rows x where up: "upsert_credential c (cd_credentials db) = (r, rows)" "cr_workspace_id c = ws"
    and db': "db' = \<lparr> cd_credentials = rows, cd_audit = cd_audit db @ [x] \<rparr>" "au_workspace_id x = Some ws"
  proof -
    obtain e where e: "(case upsert_credential (credential_values i now ws p e conf st en) (cd_credentials db) of
        (record, rows) \<Rightarrow> Inr (record, \<lparr> cd_credentials = rows, cd_audit = cd_audit db @
          [credential_audit a now ws actor (''credential.'' @ py_lower p @ ''.saved'')
            [(''fingerprint'', JString (ec_fingerprint e)), (''status'', JString st)]] \<rparr>)) = (Inr (r, db') :: (credential_row \<times> credential_db) result)"
      using assms(1) unfolding credential_save_def rbind_eq_Inr by blast
    obtain r' rows where up: "upsert_credential (credential_values i now ws p e conf st en) (cd_credentials db) = (r', rows)"
      by (metis surj_pair)
    show ?thesis
      using e up by (intro that [of _ rows]) (auto simp: credential_values_def credential_audit_def)
  qed
  from upsert_credential_other [OF up(1), of v] up(2) db' assms(2) show ?thesis by simp
qed

lemma credential_delete_other:
  assumes "v \<noteq> ws"
  shows "filter (\<lambda>r. cr_workspace_id r = v) (cd_credentials (credential_delete a now ws actor p db)) =
      filter (\<lambda>r. cr_workspace_id r = v) (cd_credentials db) \<and>
    filter (\<lambda>r. au_workspace_id r = Some v) (cd_audit (credential_delete a now ws actor p db)) =
      filter (\<lambda>r. au_workspace_id r = Some v) (cd_audit db)"
  using assms by (auto simp: credential_delete_def credential_audit_def credential_of_def intro: filter_cong)

lemma analyze_for_other:
  "v \<noteq> ws \<Longrightarrow> analyze_for sha ws b scan inp symbol rows = (r, rows') \<Longrightarrow>
   filter (\<lambda>r. or_workspace_id r = v) rows' = filter (\<lambda>r. or_workspace_id r = v) rows"
  by (auto simp: analyze_for_def analyze_def opportunity_row_of_def split: sum.splits if_splits)

lemma scan_symbols_other:
  assumes "scan_symbols analyse symbols rows = (results, failures, rows')"
    and "\<And>s rows r rows'. analyse s rows = (r, rows') \<Longrightarrow> filter P rows' = filter P rows"
  shows "filter P rows' = filter P rows"
  using assms(1)
proof (induction symbols arbitrary: rows results failures)
  case (Cons s symbols)
  obtain r rows1 where "analyse s rows = (r, rows1)" by (cases "analyse s rows")
  then show ?case using Cons assms(2) [of s rows r rows1] by (auto split: prod.splits sum.splits)
qed simp

lemma scan_run_other:
  assumes "start_scan_run fresh now ws trigger n runs = Inr (run, runs1)" and "v \<noteq> ws"
  shows "filter (\<lambda>r. sr_workspace_id r = v) runs1 = filter (\<lambda>r. sr_workspace_id r = v) runs" (is ?started)
    and "complete_scan_run later (sr_scan_run_id run) c f runs1 = Inr (r, runs2) \<Longrightarrow>
      filter (\<lambda>r. sr_workspace_id r = v) runs2 = filter (\<lambda>r. sr_workspace_id r = v) runs"
proof -
  have new: "runs1 = runs @ [run]" "sr_workspace_id run = ws" "\<forall>x \<in> set runs. sr_scan_run_id x \<noteq> sr_scan_run_id run"
    using assms(1) by (auto simp: start_scan_run_def Let_def list_ex_iff split: if_splits)
  then show ?started using assms(2) by simp
  assume "complete_scan_run later (sr_scan_run_id run) c f runs1 = Inr (r, runs2)"
  then have "runs2 = map (\<lambda>r. if sr_scan_run_id r = sr_scan_run_id run then r\<lparr>sr_completed_at := Some later,
      sr_completed_count := c, sr_failed_count := f\<rparr> else r) runs1"
    by (auto simp: complete_scan_run_def Let_def split: option.splits)
  then have "filter (\<lambda>r. sr_workspace_id r = v) runs2 = filter (\<lambda>r. sr_workspace_id r = v) runs1"
    using new assms(2) by (simp only:) (rule filter_map_other, auto)
  then show "filter (\<lambda>r. sr_workspace_id r = v) runs2 = filter (\<lambda>r. sr_workspace_id r = v) runs"
    using \<open>?started\<close> by simp
qed

lemma pg_set_state_other:
  assumes "pg_set_state ws now k st rows = Inr rows'" and "v \<noteq> ws"
  shows "filter (\<lambda>r. ir_workspace_id r = v) rows' = filter (\<lambda>r. ir_workspace_id r = v) rows"
proof -
  have "filter (\<lambda>r. ir_workspace_id r = v) (map (\<lambda>r. if owns ws k r then r\<lparr>ir_state := st, ir_updated_at := now\<rparr>
      else r) rows) = filter (\<lambda>r. ir_workspace_id r = v) rows"
    using assms(2) by (intro filter_map_other) (auto simp: owns_def)
  then show ?thesis using assms(1) by (auto simp: pg_set_state_def split: if_splits)
qed

lemma pg_reserve_other:
  assumes "pg_reserve ws now i rows = Inr (b, rows')" and "v \<noteq> ws"
  shows "filter (\<lambda>r. ir_workspace_id r = v) rows' = filter (\<lambda>r. ir_workspace_id r = v) rows"
  using assms by (auto simp: pg_reserve_def split: if_splits)

lemma settle_other:
  assumes "settle (pg_set_state ws t) i reply w = (answer, w')" and "v \<noteq> ws"
  shows "filter (\<lambda>r. ir_workspace_id r = v) (xw_store w') = filter (\<lambda>r. ir_workspace_id r = v) (xw_store w)"
  using assms by (auto simp: settle_def split: sum.splits dest: pg_set_state_other)

lemma execute_other:
  assumes "execute (pg_reserve ws t) (pg_set_state ws t') pre submit i w = (answer, w')" and "v \<noteq> ws"
  shows "filter (\<lambda>r. ir_workspace_id r = v) (xw_store w') = filter (\<lambda>r. ir_workspace_id r = v) (xw_store w)"
  using assms unfolding execute_def
  by (auto split: option.splits prod.splits bool.splits sum.splits dest!: pg_reserve_other [OF _ assms(2)]
      settle_other [OF _ assms(2)])

section \<open>The view of another workspace\<close>

lemma view_eqI:
  assumes "filter (\<lambda>r. ws_workspace_id r = v) (dd_workspaces a) = filter (\<lambda>r. ws_workspace_id r = v) (dd_workspaces b)"
    and "filter (\<lambda>r. wl_workspace_id r = v) (dd_watchlist a) = filter (\<lambda>r. wl_workspace_id r = v) (dd_watchlist b)"
    and "filter (\<lambda>r. cr_workspace_id r = v) (cd_credentials (dd_credentials a)) =
      filter (\<lambda>r. cr_workspace_id r = v) (cd_credentials (dd_credentials b)) \<and>
      filter (\<lambda>r. au_workspace_id r = Some v) (cd_audit (dd_credentials a)) =
      filter (\<lambda>r. au_workspace_id r = Some v) (cd_audit (dd_credentials b))"
    and "filter (\<lambda>r. or_workspace_id r = v) (dd_opportunities a) = filter (\<lambda>r. or_workspace_id r = v) (dd_opportunities b)"
    and "filter (\<lambda>r. sr_workspace_id r = v) (dd_scan_runs a) = filter (\<lambda>r. sr_workspace_id r = v) (dd_scan_runs b)"
    and "same_projection v (dd_broker a) (dd_broker b)"
    and "filter (\<lambda>r. gr_workspace_id r = v) (dd_incidents a) = filter (\<lambda>r. gr_workspace_id r = v) (dd_incidents b)"
    and "filter (\<lambda>r. ir_workspace_id r = v) (dd_intents a) = filter (\<lambda>r. ir_workspace_id r = v) (dd_intents b)"
    and "filter (\<lambda>r. ai_workspace_id r = Some v) (dd_ai_runs a) = filter (\<lambda>r. ai_workspace_id r = Some v) (dd_ai_runs b)"
  shows "view_of v a = view_of v b"
  using assms by (simp add: view_of_def same_projection_def)

lemma same_projection_refl [simp]: "same_projection v b b"
  by (simp add: same_projection_def)

lemma view_update_workspace:
  assumes "v \<noteq> ws" and "\<And>r. ws_workspace_id (f r) = ws_workspace_id r"
  shows "view_of v (update_workspace ws f db) = view_of v db"
  by (rule view_eqI) (simp_all add: update_workspace_def workspaces_other [OF assms])

lemma view_credentials:
  assumes "filter (\<lambda>r. cr_workspace_id r = v) (cd_credentials c) =
      filter (\<lambda>r. cr_workspace_id r = v) (cd_credentials (dd_credentials db)) \<and>
      filter (\<lambda>r. au_workspace_id r = Some v) (cd_audit c) =
      filter (\<lambda>r. au_workspace_id r = Some v) (cd_audit (dd_credentials db))"
  shows "view_of v (db\<lparr>dd_credentials := c\<rparr>) = view_of v db"
  using assms by (intro view_eqI) simp_all

lemma save_alpaca_other:
  assumes "v \<noteq> wc_workspace_id cx"
  shows "view_of v (snd (save_alpaca_credentials vt rq cx keys reconciled db)) = view_of v db"
proof (cases "rbind (test_alpaca keys reconciled) (\<lambda>_. rbind (credential_store_of vt) (\<lambda>cipher.
    credential_save (va_seal vt) (va_sha vt) (rq_nonce rq) cipher (rq_id1 rq) (rq_id2 rq) (rq_now rq)
      (wc_workspace_id cx) (wc_user_id cx) ''ALPACA''
      [(''api_key_id'', fst keys), (''secret_key'', snd keys)] [(''endpoint'', ''PAPER'')]
      ''VERIFIED'' True (dd_credentials db)))")
  case (Inl e)
  then show ?thesis by (simp add: save_alpaca_credentials_def)
next
  case (Inr x)
  obtain r c where x: "x = (r, c)" by (cases x)
  have "view_of v (db\<lparr>dd_credentials := c\<rparr>) = view_of v db"
    using Inr x assms by (intro view_credentials) (auto simp: rbind_eq_Inr dest: credential_save_other)
  then show ?thesis using Inr x assms
    by (auto simp: save_alpaca_credentials_def Let_def view_update_workspace split: option.split)
qed

lemma save_openrouter_other:
  assumes "v \<noteq> wc_workspace_id cx"
  shows "view_of v (snd (save_openrouter_credentials vt rq cx key model probe db)) = view_of v db"
  using assms unfolding save_openrouter_credentials_def
  by (auto split: sum.split intro!: view_credentials simp: rbind_eq_Inr dest: credential_save_other)

lemma delete_credentials_other:
  assumes "v \<noteq> wc_workspace_id cx"
  shows "view_of v (snd (delete_credentials vt rq cx p db)) = view_of v db"
proof -
  let ?ws = "wc_workspace_id cx"
  define db1 where "db1 = db\<lparr>dd_credentials := credential_delete (rq_id1 rq) (rq_now rq) ?ws (wc_user_id cx)
      (provider_text p) (dd_credentials db)\<rparr>"
  have one: "view_of v db1 = view_of v db"
    unfolding db1_def by (rule view_credentials) (rule credential_delete_other [OF assms])
  have two: "view_of v (db1\<lparr>dd_broker := forget_broker ?ws (dd_broker db1),
      dd_incidents := filter (\<lambda>r. gr_workspace_id r \<noteq> ?ws) (dd_incidents db1)\<rparr>) = view_of v db1"
    using assms by (intro view_eqI) (simp_all add: same_projection_def forget_broker_def rows_of_delete_other filter_not_own)
  have d: "delete_credentials vt rq cx p db = (case credential_store_of vt of
       Inl e \<Rightarrow> (Inl e, db)
     | Inr _ \<Rightarrow> if p \<noteq> Alpaca then (Inr (), db1)
          else case get_workspace ?ws db1 of
              None \<Rightarrow> (Inl AssertionError, db1)
            | Some _ \<Rightarrow> (Inr (), update_workspace ?ws
                (\<lambda>w. w\<lparr>ws_status := ONBOARDING, ws_scanner_enabled := False, ws_updated_at := rq_later rq\<rparr>)
                (db1\<lparr>dd_broker := forget_broker ?ws (dd_broker db1),
                   dd_incidents := filter (\<lambda>r. gr_workspace_id r \<noteq> ?ws) (dd_incidents db1)\<rparr>)))"
    by (simp only: delete_credentials_def db1_def Let_def)
  show ?thesis
    unfolding d using one two assms by (auto split: sum.split option.split simp: view_update_workspace)
qed

lemma replace_watchlist_other:
  "v \<noteq> wc_workspace_id cx \<Longrightarrow> view_of v (snd (replace_watchlist rq cx items db)) = view_of v db"
  by (auto simp: replace_watchlist_def Let_def filter_not_own filter_empty_conv intro!: view_eqI)

lemma set_scanner_other:
  "v \<noteq> wc_workspace_id cx \<Longrightarrow> view_of v (snd (set_scanner vt rq cx b db)) = view_of v db"
  by (auto simp: set_scanner_def Let_def view_update_workspace split: sum.split option.split)

lemma analyze_symbol_other:
  assumes "v \<noteq> wc_workspace_id cx"
  shows "view_of v (snd (analyze_symbol vt sha inp cx symbol db)) = view_of v db"
proof -
  obtain r rows where a: "analyze_for sha (wc_workspace_id cx) (dd_broker db) None inp symbol (dd_opportunities db) = (r, rows)"
    by (metis surj_pair)
  have "view_of v (db\<lparr>dd_opportunities := rows\<rparr>) = view_of v db"
    by (rule view_eqI) (simp_all add: analyze_for_other [OF assms a])
  then show ?thesis by (simp add: analyze_symbol_def a split: sum.split)
qed

lemma scan_now_other:
  assumes "v \<noteq> wc_workspace_id cx"
  shows "view_of v (snd (scan_now vt sha inputs rq cx db)) = view_of v db"
proof (cases "\<exists>run runs. opportunity_service vt cx db = Inr () \<and> start_scan_run (rq_id1 rq) (rq_now rq)
    (wc_workspace_id cx) ''MANUAL'' (int (length (get_watchlist cx db))) (dd_scan_runs db) = Inr (run, runs)")
  case False
  then show ?thesis by (auto simp: scan_now_def Let_def split: sum.split)
next
  case True
  then obtain run runs where ok: "opportunity_service vt cx db = Inr ()" and start: "start_scan_run (rq_id1 rq)
      (rq_now rq) (wc_workspace_id cx) ''MANUAL'' (int (length (get_watchlist cx db))) (dd_scan_runs db) = Inr (run, runs)"
    by blast
  obtain results failures rows where scan: "scan_symbols (\<lambda>s. analyze_for sha (wc_workspace_id cx) (dd_broker db)
      (Some (sr_scan_run_id run)) (inputs s) s) (get_watchlist cx db) (dd_opportunities db) = (results, failures, rows)"
    by (metis prod_cases3)
  have rows: "filter (\<lambda>r. or_workspace_id r = v) rows = filter (\<lambda>r. or_workspace_id r = v) (dd_opportunities db)"
    using scan_symbols_other [OF scan] analyze_for_other [OF assms] by blast
  have view: "view_of v (db\<lparr>dd_scan_runs := runs', dd_opportunities := rows\<rparr>) = view_of v db"
    if "filter (\<lambda>r. sr_workspace_id r = v) runs' = filter (\<lambda>r. sr_workspace_id r = v) (dd_scan_runs db)" for runs'
    by (rule view_eqI) (simp_all add: rows that)
  show ?thesis
    using view scan_run_other [OF start assms] scan_run_other(2) [OF start assms]
    by (auto simp: scan_now_def Let_def ok start scan split: sum.split option.split)
qed

lemma ask_ai_other:
  "v \<noteq> wc_workspace_id cx \<Longrightarrow>
   view_of v (snd (analyze_opportunity_with_ai vt rq connect py_str dump isoformat cx i db)) = view_of v db"
  unfolding analyze_opportunity_with_ai_def Let_def
  by (auto split: sum.split intro!: view_eqI simp: ai_store_save_def)

lemma confirm_other:
  assumes "v \<noteq> wc_workspace_id cx"
  shows "view_of v (fst (snd (confirm_paper_order vt ci submit cx i cid db))) = view_of v db"
proof (cases "confirm_checks vt ci cx i cid db")
  case (Inl e)
  then show ?thesis by (simp add: confirm_paper_order_def)
next
  case (Inr intent)
  let ?ws = "wc_workspace_id cx"
  obtain r w where run: "execute (pg_reserve ?ws (ci_store ci)) (pg_set_state ?ws (ci_store ci))
      (Some (connected_preflight ?ws (ci_preflight ci) db)) submit intent
      \<lparr> xw_store = dd_intents db, xw_submissions = [] \<rparr> = (r, w)" by (metis surj_pair)
  have "view_of v (db\<lparr>dd_intents := xw_store w\<rparr>) = view_of v db"
    using execute_other [OF run assms] by (intro view_eqI) simp_all
  then show ?thesis by (simp add: confirm_paper_order_def Inr run)
qed

lemma close_other:
  assumes "v \<noteq> wc_workspace_id cx"
  shows "view_of v (snd (close_position vt cx symbol closing snapshot db)) = view_of v db"
proof -
  have "view_of v (db\<lparr>dd_broker := b\<rparr>) = view_of v db"
    if "pg_apply_reconciliation (wc_workspace_id cx) snap (dd_broker db) = Inr (n, b)" for snap n b
    using projection_do_other [OF assms, of "Reconcile_op snap" "dd_broker db"] that
    by (intro view_eqI) (simp_all add: projection_do_def)
  then show ?thesis unfolding close_position_def by (auto split: sum.split)
qed

lemma halt_other:
  "v \<noteq> wc_workspace_id cx \<Longrightarrow> view_of v (snd (guardian_halt rq cx db)) = view_of v db"
  by (auto simp: guardian_halt_def pg_halt_def Let_def row_of_incident_def split: option.split intro!: view_eqI)

lemma recover_other:
  assumes "v \<noteq> wc_workspace_id cx"
  shows "view_of v (snd (guardian_recover rq cx db)) = view_of v db"
proof -
  have "filter (\<lambda>r. gr_workspace_id r = v) (map (\<lambda>r. if active_row (wc_workspace_id cx) r
      then r\<lparr>gr_state := NORMAL, gr_cleared_at := Some now\<rparr> else r) rows) = filter (\<lambda>r. gr_workspace_id r = v) rows"
    for now rows using assms by (intro filter_map_other) (auto simp: active_row_def split: if_splits)
  then show ?thesis
    by (auto simp: guardian_recover_def pg_recover_def Let_def recovery_refused_def intro!: view_eqI)
qed

lemmas endpoint_other = save_alpaca_other save_openrouter_other delete_credentials_other replace_watchlist_other
  set_scanner_other analyze_symbol_other scan_now_other ask_ai_other confirm_other close_other halt_other recover_other

lemma desk_do_other: "v \<noteq> wc_workspace_id cx \<Longrightarrow> view_of v (desk_do vt rq cx request db) = view_of v db"
  by (cases request) (simp_all add: desk_do_def endpoint_other)

section \<open>Reading only one's own view\<close>

lemma find_filter: "List.find P (filter Q xs) = List.find (\<lambda>x. Q x \<and> P x) xs"
  by (induction xs) auto

lemma find_cong_filter:
  assumes "filter Q xs = filter Q ys" and "\<And>x. P x \<Longrightarrow> Q x"
  shows "List.find P xs = List.find P ys"
proof -
  have "(\<lambda>x. Q x \<and> P x) = P" using assms(2) by auto
  then show ?thesis using find_filter [of P Q xs] find_filter [of P Q ys] assms(1) by simp
qed

lemma filter_cong_filter:
  assumes "filter Q xs = filter Q ys" and "\<And>x. P x \<Longrightarrow> Q x"
  shows "filter P xs = filter P ys"
proof -
  have "filter P zs = filter P (filter Q zs)" for zs
    using assms(2) by (induction zs) auto
  then show ?thesis using assms(1) by metis
qed

lemma list_ex_cong_filter:
  assumes "filter Q xs = filter Q ys" and "\<And>x. P x \<Longrightarrow> Q x"
  shows "list_ex P xs = list_ex P ys"
proof -
  have "list_ex P zs = list_ex P (filter Q zs)" for zs using assms(2) by (induction zs) auto
  then show ?thesis using assms(1) by metis
qed

lemma view_same_tables:
  assumes "view_of ws a = view_of ws b"
  shows "filter (\<lambda>r. ws_workspace_id r = ws) (dd_workspaces a) = filter (\<lambda>r. ws_workspace_id r = ws) (dd_workspaces b)"
    and "filter (\<lambda>r. wl_workspace_id r = ws) (dd_watchlist a) = filter (\<lambda>r. wl_workspace_id r = ws) (dd_watchlist b)"
    and "filter (\<lambda>r. cr_workspace_id r = ws) (cd_credentials (dd_credentials a)) =
      filter (\<lambda>r. cr_workspace_id r = ws) (cd_credentials (dd_credentials b))"
    and "filter (\<lambda>r. or_workspace_id r = ws) (dd_opportunities a) = filter (\<lambda>r. or_workspace_id r = ws) (dd_opportunities b)"
    and "filter (\<lambda>r. sr_workspace_id r = ws) (dd_scan_runs a) = filter (\<lambda>r. sr_workspace_id r = ws) (dd_scan_runs b)"
    and "bd_sync (dd_broker a) ws = bd_sync (dd_broker b) ws"
    and "rows_of ws (bd_accounts (dd_broker a)) = rows_of ws (bd_accounts (dd_broker b))"
    and "rows_of ws (bd_positions (dd_broker a)) = rows_of ws (bd_positions (dd_broker b))"
    and "rows_of ws (bd_orders (dd_broker a)) = rows_of ws (bd_orders (dd_broker b))"
    and "filter (\<lambda>r. gr_workspace_id r = ws) (dd_incidents a) = filter (\<lambda>r. gr_workspace_id r = ws) (dd_incidents b)"
    and "filter (\<lambda>r. ir_workspace_id r = ws) (dd_intents a) = filter (\<lambda>r. ir_workspace_id r = ws) (dd_intents b)"
  using assms by (simp_all add: view_of_def)

lemma view_status: "view_of ws a = view_of ws b \<Longrightarrow> pg_status ws (dd_incidents a) = pg_status ws (dd_incidents b)"
  by (rule pg_active_other) (rule filter_cong_filter [OF view_same_tables(10)], simp_all add: active_row_def)

lemma view_broker:
  assumes "view_of ws a = view_of ws b"
  shows "pg_get_status ws (dd_broker a) = pg_get_status ws (dd_broker b)"
    and "pg_get_account ws (dd_broker a) = pg_get_account ws (dd_broker b)"
    and "pg_list_positions ws (dd_broker a) = pg_list_positions ws (dd_broker b)"
    and "pg_list_orders ws (dd_broker a) = pg_list_orders ws (dd_broker b)"
  using view_same_tables [OF assms]
  by (simp_all add: pg_get_status_def pg_get_account_def pg_list_positions_def pg_list_orders_def)

lemma view_reveal: "view_of ws a = view_of ws b \<Longrightarrow> reveal vt ws p a = reveal vt ws p b"
  unfolding reveal_def credential_reveal_def credential_get_def
  by (subst find_cong_filter [OF view_same_tables(3)]) (simp_all add: credential_of_def)

text \<open>C21. Requests of other workspaces, whatever they do and in whatever order, change nothing of what a
  workspace is answered: its watchlist, credentials, scan runs, opportunities, broker projection,
  guardian status, order states, and the gate before its orders are the same before and after.\<close>

theorem desk_isolates_workspaces:
  assumes "\<forall>step \<in> set steps. wc_workspace_id (fst (snd step)) \<noteq> wc_workspace_id me"
    and "db' = fold (\<lambda>(rq, cx, request). desk_do vt rq cx request) steps db"
  shows "get_watchlist me db' = get_watchlist me db \<and>
    credential_statuses me db' = credential_statuses me db \<and>
    reveal vt (wc_workspace_id me) provider db' = reveal vt (wc_workspace_id me) provider db \<and>
    list_scan_runs me db' = list_scan_runs me db \<and> list_opportunities me db' = list_opportunities me db \<and>
    get_opportunity me i db' = get_opportunity me i db \<and>
    get_scan_run_results me run db' = get_scan_run_results me run db \<and>
    broker_status_endpoint me db' = broker_status_endpoint me db \<and>
    broker_account_endpoint me db' = broker_account_endpoint me db \<and>
    broker_positions_endpoint me db' = broker_positions_endpoint me db \<and>
    broker_orders_endpoint me db' = broker_orders_endpoint me db \<and>
    guardian_status_endpoint me db' = guardian_status_endpoint me db \<and>
    pg_get_state (wc_workspace_id me) cid (dd_intents db') = pg_get_state (wc_workspace_id me) cid (dd_intents db) \<and>
    connected_preflight (wc_workspace_id me) now db' = connected_preflight (wc_workspace_id me) now db"
proof -
  let ?ws = "wc_workspace_id me"
  have view: "view_of ?ws db' = view_of ?ws db"
    unfolding assms(2) using assms(1)
  proof (induction steps arbitrary: db)
    case (Cons step steps)
    obtain rq cx request where "step = (rq, cx, request)" by (cases step)
    then show ?case using Cons desk_do_other [of ?ws cx vt rq request db] by (simp add: eq_commute [of ?ws])
  qed simp
  note t = view_same_tables [OF view]
  have "list_ex (\<lambda>r. sr_scan_run_id r = run \<and> sr_workspace_id r = ?ws) (dd_scan_runs db') =
      list_ex (\<lambda>r. sr_scan_run_id r = run \<and> sr_workspace_id r = ?ws) (dd_scan_runs db)"
    by (rule list_ex_cong_filter [OF t(5)]) simp
  moreover have "filter (\<lambda>r. or_workspace_id r = ?ws \<and> or_scan_run_id r = Some run) (dd_opportunities db') =
      filter (\<lambda>r. or_workspace_id r = ?ws \<and> or_scan_run_id r = Some run) (dd_opportunities db)"
    by (rule filter_cong_filter [OF t(4)]) simp
  moreover have "List.find (\<lambda>r. or_workspace_id r = ?ws \<and> or_opportunity_id r = i) (dd_opportunities db') =
      List.find (\<lambda>r. or_workspace_id r = ?ws \<and> or_opportunity_id r = i) (dd_opportunities db)"
    by (rule find_cong_filter [OF t(4)]) simp
  moreover have "List.find (owns ?ws cid) (dd_intents db') = List.find (owns ?ws cid) (dd_intents db)"
    by (rule find_cong_filter [OF t(11)]) (simp add: owns_def)
  ultimately show ?thesis
    using t view_broker [OF view] view_status [OF view] view_reveal [OF view]
    by (simp add: get_watchlist_def watchlist_of_def credential_statuses_def list_scan_runs_def list_opportunities_def
        get_opportunity_def find_opportunity_def get_scan_run_results_def broker_status_endpoint_def
        broker_account_endpoint_def broker_positions_endpoint_def broker_orders_endpoint_def
        guardian_status_endpoint_def pg_get_state_def connected_preflight_def Let_def)
qed

theorem desk_isolates_workspaces_witness:
  "get_watchlist demo_context (desk_do demo_vault demo_request (demo_context_of ''y'' ''x'')
      (Delete_credentials Alpaca) (desk_do demo_vault demo_request (demo_context_of ''y'' ''x'')
        (Replace_watchlist [''QQQ'']) demo_scan_desk)) = [''MSFT'', ''NVDA'']"
proof -
  let ?x = "(demo_context_of ''y'' ''x'')"
  let ?steps = "[(demo_request, ?x, Replace_watchlist [''QQQ'']), (demo_request, ?x, Delete_credentials Alpaca)]"
  have "\<forall>step \<in> set ?steps. wc_workspace_id (fst (snd step)) \<noteq> wc_workspace_id demo_context"
    by (simp add: demo_context_def demo_context_of_def)
  from desk_isolates_workspaces [OF this refl, of demo_vault demo_scan_desk]
  have "get_watchlist demo_context (fold (\<lambda>(rq, cx, request). desk_do demo_vault rq cx request) ?steps demo_scan_desk) =
      get_watchlist demo_context demo_scan_desk" by blast
  moreover have "get_watchlist demo_context demo_scan_desk = [''MSFT'', ''NVDA'']" by code_simp
  ultimately show ?thesis by simp
qed

end
