(* ===== verification/Worker_Properties.thy ===== *)
theory Worker_Properties
  imports Worker Desk_Tenancy Desk_Lists
begin

text \<open>
  What the worker does: the supervisor runs exactly the wanted workspaces, a runtime's start is visible in
  the workspace and in its gate, a scan tick scans exactly the workspaces that are due; and where it falls
  short: a runtime that has ended is not started again, and one unreadable credential stops the scanner.
\<close>

section \<open>Dictionaries\<close>

lemma dict_by_facts:
  "distinct (map fst (fold (\<lambda>x. AList.update (key x) x) xs d)) = distinct (map fst d)"
  if "distinct (map fst d)"
  using that by (induction xs arbitrary: d) (simp_all add: distinct_update)

lemma dict_by_distinct: "distinct (map fst (dict_by key xs))"
  by (simp add: dict_by_def dict_by_facts)

lemma update_length: "length (AList.update k v d) \<le> Suc (length d)"
  by (induction d) auto

lemma fold_update:
  "set (map fst (fold (\<lambda>x. AList.update (key x) x) xs d)) = set (map fst d) \<union> key ` set xs \<and>
   length (fold (\<lambda>x. AList.update (key x) x) xs d) \<le> length d + length xs"
proof (induction xs arbitrary: d)
  case (Cons x xs)
  have "length (AList.update (key x) x d) \<le> Suc (length d)" by (rule update_length)
  then show ?case using Cons.IH [of "AList.update (key x) x d"] by (auto simp: dom_update)
qed simp

lemma dict_by_keys: "fst ` set (dict_by key xs) = key ` set xs"
  using fold_update [of key xs "[]"] by (simp add: dict_by_def)

lemma dict_by_length: "length (dict_by key xs) \<le> length xs"
  using fold_update [of key xs "[]"] by (simp add: dict_by_def)

section \<open>The supervisor\<close>

lemma map_fst_new:
  "map fst (map (\<lambda>((ws, record), n). (ws, f record n)) (zip new [i..<i + length new])) = map fst new"
proof -
  have "map fst (map (\<lambda>((ws, record), n). (ws, f record n)) xs) = map fst (map fst xs)" for xs
    by (induction xs) auto
  then have "map fst (map (\<lambda>((ws, record), n). (ws, f record n)) (zip new [i..<i + length new])) =
      map fst (map fst (zip new [i..<i + length new]))" .
  also have "map fst (zip new [i..<i + length new]) = new" by simp
  finally show ?thesis .
qed

lemma started_entry:
  assumes "(ws, r) \<in> set (map (\<lambda>((ws, record), n). (ws, f record n)) (zip new ns))"
  shows "\<exists>record n. (ws, record) \<in> set new \<and> r = f record n"
  using assms by (auto dest: set_zip_leftD)

lemma wanted_facts:
  "distinct (map fst (wanted_credentials n db))" "length (wanted_credentials n db) \<le> n"
  "fst ` set (wanted_credentials n db) = cr_workspace_id ` set (take n (discover_credentials db))"
proof -
  show "distinct (map fst (wanted_credentials n db))"
    unfolding wanted_credentials_def by (rule dict_by_distinct)
  have "length (wanted_credentials n db) \<le> length (take n (discover_credentials db))"
    unfolding wanted_credentials_def by (rule dict_by_length)
  then show "length (wanted_credentials n db) \<le> n" by simp
  show "fst ` set (wanted_credentials n db) = cr_workspace_id ` set (take n (discover_credentials db))"
    unfolding wanted_credentials_def by (rule dict_by_keys)
qed

lemma connection_tick_parts:
  assumes "connection_tick limit task runtimes db = (runtimes', stopped, started)"
  obtains new where "runtimes' = filter (keeps_runtime (wanted_credentials limit db)) runtimes @ new"
    "started = map fst new" "stopped = map fst (filter (\<lambda>e. \<not> keeps_runtime (wanted_credentials limit db) e) runtimes)"
    "map fst new = map fst (filter (\<lambda>(ws, record).
      map_of (filter (keeps_runtime (wanted_credentials limit db)) runtimes) ws = None) (wanted_credentials limit db))"
    "\<forall>(ws, r) \<in> set new. \<exists>record. (ws, record) \<in> set (wanted_credentials limit db) \<and>
      ar_fingerprint r = cr_fingerprint record \<and> \<not> ar_ended r"
proof -
  let ?w = "wanted_credentials limit db"
  let ?kept = "filter (keeps_runtime ?w) runtimes"
  let ?new = "filter (\<lambda>(ws, record). map_of ?kept ws = None) ?w"
  let ?f = "\<lambda>record n. \<lparr> ar_fingerprint = cr_fingerprint record, ar_task = n, ar_ended = False \<rparr>"
  define new where "new = map (\<lambda>((ws, record), n). (ws, ?f record n)) (zip ?new [task..<task + length ?new])"
  have t: "runtimes' = ?kept @ new" "started = map fst new"
      "stopped = map fst (filter (\<lambda>e. \<not> keeps_runtime ?w e) runtimes)"
    using assms by (auto simp: connection_tick_def Let_def new_def)
  have "map fst new = map fst ?new" unfolding new_def by (rule map_fst_new)
  moreover have "\<forall>(ws, r) \<in> set new. \<exists>record. (ws, record) \<in> set ?w \<and> ar_fingerprint r = cr_fingerprint record \<and> \<not> ar_ended r"
  proof clarify
    fix ws r assume "(ws, r) \<in> set new"
    from started_entry [OF this [unfolded new_def]]
    obtain item n where "(ws, item) \<in> set ?new" "r = ?f item n" by blast
    then show "\<exists>record. (ws, record) \<in> set ?w \<and> ar_fingerprint r = cr_fingerprint record \<and> \<not> ar_ended r"
      by (intro exI [of _ item]) simp
  qed
  ultimately show thesis using t by (intro that)
qed

lemma connection_tick_keys:
  assumes "distinct (map fst runtimes)"
    and "connection_tick limit task runtimes db = (runtimes', stopped, started)"
  obtains new where "runtimes' = filter (keeps_runtime (wanted_credentials limit db)) runtimes @ new"
    "fst ` set new = fst ` set (wanted_credentials limit db) -
      fst ` set (filter (keeps_runtime (wanted_credentials limit db)) runtimes)"
    "distinct (map fst runtimes')" "fst ` set runtimes' = fst ` set (wanted_credentials limit db)"
    "length runtimes' \<le> limit"
proof -
  let ?w = "wanted_credentials limit db"
  let ?kept = "filter (keeps_runtime ?w) runtimes"
  obtain new where t: "runtimes' = ?kept @ new"
    and keys: "map fst new = map fst (filter (\<lambda>(ws, record). map_of ?kept ws = None) ?w)"
    using connection_tick_parts [OF assms(2)] .
  have dk: "distinct (map fst ?kept)" using assms(1) by (simp add: distinct_map_filter)
  have dn: "distinct (map fst new)" unfolding keys using wanted_facts(1) by (rule distinct_map_filter)
  have kept_w: "fst ` set ?kept \<subseteq> fst ` set ?w"
    by (force simp: keeps_runtime_def split: option.splits dest: map_of_SomeD)
  have new_keys: "fst ` set new = fst ` set ?w - fst ` set ?kept"
  proof -
    have "fst ` set new = set (map fst new)" by simp
    also have "\<dots> = {k \<in> fst ` set ?w. map_of ?kept k = None}"
      unfolding keys by force
    also have "\<dots> = fst ` set ?w - fst ` set ?kept" by (auto simp: map_of_eq_None_iff)
    finally show ?thesis .
  qed
  have all_keys: "fst ` set runtimes' = fst ` set ?w"
    using new_keys kept_w by (simp add: t image_Un) blast
  have d: "distinct (map fst runtimes')"
    using dk dn new_keys by (auto simp: t)
  have "length runtimes' = card (fst ` set runtimes')"
    using distinct_card [OF d] by simp
  also have "\<dots> = length ?w" using distinct_card [OF wanted_facts(1) [of limit db]] by (simp add: all_keys)
  finally have len: "length runtimes' \<le> limit" using wanted_facts(2) [of limit db] by simp
  show thesis using t new_keys d all_keys len by (rule that)
qed

lemma connection_tick_wanted:
  assumes "distinct (map fst runtimes)"
    and "connection_tick limit task runtimes db = (runtimes', stopped, started)"
  shows "distinct (map fst runtimes') \<and> length runtimes' \<le> limit \<and>
    fst ` set runtimes' = cr_workspace_id ` set (take limit (discover_credentials db)) \<and>
    list_all (\<lambda>e. keeps_runtime (wanted_credentials limit db) e) runtimes' \<and>
    list_all (\<lambda>e. (e \<in> set runtimes') = keeps_runtime (wanted_credentials limit db) e \<and>
      (fst e \<in> set stopped) = (\<not> keeps_runtime (wanted_credentials limit db) e)) runtimes \<and>
    set started = fst ` set runtimes' - {ws. \<exists>r. (ws, r) \<in> set runtimes \<and> keeps_runtime (wanted_credentials limit db) (ws, r)}"
proof -
  let ?w = "wanted_credentials limit db"
  let ?kept = "filter (keeps_runtime ?w) runtimes"
  obtain new where t: "runtimes' = ?kept @ new" "started = map fst new"
      "stopped = map fst (filter (\<lambda>e. \<not> keeps_runtime ?w e) runtimes)"
    and fresh: "\<forall>(ws, r) \<in> set new. \<exists>record. (ws, record) \<in> set ?w \<and> ar_fingerprint r = cr_fingerprint record \<and> \<not> ar_ended r"
    using connection_tick_parts [OF assms(2)] .
  obtain new' where "runtimes' = ?kept @ new'" and new'_keys: "fst ` set new' = fst ` set ?w - fst ` set ?kept"
    and d: "distinct (map fst runtimes')" and all_keys: "fst ` set runtimes' = fst ` set ?w"
    and len: "length runtimes' \<le> limit"
    using connection_tick_keys [OF assms] .
  then have "new' = new" using t(1) by simp
  note new_keys = new'_keys [unfolded this]
  have ok: "keeps_runtime ?w e" if "e \<in> set runtimes'" for e
  proof (cases "e \<in> set new")
    case True
    then obtain c where "(fst e, c) \<in> set ?w" "ar_fingerprint (snd e) = cr_fingerprint c"
      using fresh by (cases e) auto
    then show ?thesis using wanted_facts(1) by (simp add: keeps_runtime_def)
  next
    case False
    then show ?thesis using that by (auto simp: t(1))
  qed
  have stop: "(fst e \<in> set stopped) = (\<not> keeps_runtime ?w e)" if "e \<in> set runtimes" for e
    using that assms(1) by (auto simp: t(3) distinct_map dest: inj_onD)
  have "e \<in> set runtimes' \<longleftrightarrow> keeps_runtime ?w e" if "e \<in> set runtimes" for e
  proof
    assume "keeps_runtime ?w e"
    then show "e \<in> set runtimes'" using that by (simp add: t(1))
  qed (rule ok)
  moreover have "set started = fst ` set runtimes' - {ws. \<exists>r. (ws, r) \<in> set runtimes \<and> keeps_runtime ?w (ws, r)}"
  proof -
    have "{ws. \<exists>r. (ws, r) \<in> set runtimes \<and> keeps_runtime ?w (ws, r)} = fst ` set ?kept" by force
    moreover have "fst ` set runtimes' - fst ` set ?kept = fst ` set new"
      unfolding all_keys new_keys ..
    ultimately show ?thesis by (simp only: t(2) set_map)
  qed
  ultimately show ?thesis
    using d len ok stop all_keys wanted_facts(3) by (simp add: list_all_iff)
qed

lemma dict_by_map_of: "map_of (dict_by key xs) = map_of (rev (map (\<lambda>x. (key x, x)) xs))"
proof -
  have "map_of (fold (\<lambda>x. AList.update (key x) x) xs d) = map_of d ++ map_of (rev (map (\<lambda>x. (key x, x)) xs))" for d
    by (induction xs arbitrary: d) (auto simp: update_conv' map_add_def fun_eq_iff split: option.splits)
  then show ?thesis by (simp add: dict_by_def)
qed

lemma keeps_runtime_fingerprint:
  "keeps_runtime (wanted_credentials limit db) (ws, r) \<longleftrightarrow>
   map_of (rev (map (\<lambda>c. (cr_workspace_id c, cr_fingerprint c)) (take limit (discover_credentials db)))) ws =
     Some (ar_fingerprint r)"
proof -
  have "map_of (map (\<lambda>x. (key x, f x)) xs) k = map_option f (map_of (map (\<lambda>x. (key x, x)) xs) k)" for key f k and xs :: "'a list"
    by (induction xs) auto
  from this [of cr_workspace_id cr_fingerprint "rev (take limit (discover_credentials db))" ws]
  have "map_of (rev (map (\<lambda>c. (cr_workspace_id c, cr_fingerprint c)) (take limit (discover_credentials db)))) ws =
      map_option cr_fingerprint (map_of (wanted_credentials limit db) ws)"
    by (simp add: wanted_credentials_def dict_by_map_of rev_map)
  then show ?thesis by (auto simp: keeps_runtime_def split: option.splits)
qed

lemma discovered: "discover_credentials db = sort_key cr_updated_at (filter (\<lambda>c. cr_provider c = ''ALPACA'' \<and>
    cr_validation_status c = ''VERIFIED'' \<and> cr_enabled c \<and>
    (\<exists>w \<in> set (dd_workspaces db). ws_workspace_id w = cr_workspace_id c \<and> ws_status w \<noteq> SUSPENDED))
    (cd_credentials (dd_credentials db)))"
  by (simp add: discover_credentials_def list_ex_iff)

text \<open>C27. After an iteration of the supervisor there is exactly one runtime for each workspace among the first
  \<open>connection_limit\<close> credentials, least recently updated first, that are for Alpaca, verified and enabled and
  belong to a workspace that is not suspended; each runtime has the fingerprint of its workspace's credential.  A runtime
  that was there before is still there exactly if its fingerprint is the credential's, and is stopped otherwise; the
  workspaces without such a runtime are started.  No workspace had two runtimes before.\<close>

theorem supervisor_runs_exactly_the_wanted:
  assumes "distinct (map fst runtimes)"
    and "connection_tick limit task runtimes db = (runtimes', stopped, started)"
  shows "let credentials = take limit (sort_key cr_updated_at (filter (\<lambda>c. cr_provider c = ''ALPACA'' \<and>
        cr_validation_status c = ''VERIFIED'' \<and> cr_enabled c \<and>
        (\<exists>w \<in> set (dd_workspaces db). ws_workspace_id w = cr_workspace_id c \<and> ws_status w \<noteq> SUSPENDED))
        (cd_credentials (dd_credentials db))));
      fingerprint = map_of (rev (map (\<lambda>c. (cr_workspace_id c, cr_fingerprint c)) credentials))
    in distinct (map fst runtimes') \<and> length runtimes' \<le> limit \<and>
      fst ` set runtimes' = cr_workspace_id ` set credentials \<and>
      (\<forall>(ws, r) \<in> set runtimes'. fingerprint ws = Some (ar_fingerprint r)) \<and>
      (\<forall>(ws, r) \<in> set runtimes. ((ws, r) \<in> set runtimes' \<longleftrightarrow> fingerprint ws = Some (ar_fingerprint r)) \<and>
        (ws \<in> set stopped \<longleftrightarrow> fingerprint ws \<noteq> Some (ar_fingerprint r))) \<and>
      set started = fst ` set runtimes' - {ws. \<exists>r. (ws, r) \<in> set runtimes \<and> fingerprint ws = Some (ar_fingerprint r)}"
  using connection_tick_wanted [OF assms] unfolding Let_def discovered [symmetric]
  by (simp add: list_all_iff keeps_runtime_fingerprint case_prod_beta flip: keeps_runtime_fingerprint)

definition worker_desk :: desk_db where
  "worker_desk = (demo_desk [])\<lparr>dd_broker := empty_broker_db\<rparr>"

lemma worker_wanted: "wanted_credentials 20 worker_desk = [(''w'', demo_credential)]"
proof -
  have "cr_provider demo_credential = ''ALPACA''" "cr_validation_status demo_credential = ''VERIFIED''"
    "cr_enabled demo_credential" "cr_workspace_id demo_credential = ''w''"
    by (simp_all add: demo_credential_def credential_values_def)
  moreover have "ws_workspace_id demo_workspace = ''w''" "ws_status demo_workspace = ACTIVE"
    by (simp_all add: demo_workspace_def)
  ultimately have "discover_credentials worker_desk = [demo_credential]"
    by (simp add: discover_credentials_def worker_desk_def demo_desk_def)
  then show ?thesis
    by (simp add: wanted_credentials_def dict_by_def demo_credential_def credential_values_def)
qed

lemma worker_fingerprint: "cr_fingerprint demo_credential = ''f''"
  by (simp add: demo_credential_def credential_values_def)

lemma worker_tick: "connection_tick 20 7 [(''x'', \<lparr> ar_fingerprint = ''f'', ar_task = 3, ar_ended = False \<rparr>)] worker_desk =
    ([(''w'', \<lparr> ar_fingerprint = ''f'', ar_task = 7, ar_ended = False \<rparr>)], [''x''], [''w''])"
  by (simp add: connection_tick_def worker_wanted keeps_runtime_def worker_fingerprint upt_rec)

theorem supervisor_runs_exactly_the_wanted_witness:
  "fst ` set (fst (connection_tick 20 7 [(''x'', \<lparr> ar_fingerprint = ''f'', ar_task = 3, ar_ended = False \<rparr>)] worker_desk)) =
    {''w''}"
  using supervisor_runs_exactly_the_wanted [OF _ worker_tick] by (simp add: worker_tick)

fun connection_ticks :: "nat \<Rightarrow> (nat \<times> desk_db) list \<Rightarrow> (uuid \<times> active_runtime) list \<Rightarrow>
    (uuid \<times> active_runtime) list \<times> uuid list" where
  "connection_ticks limit [] runtimes = (runtimes, [])"
| "connection_ticks limit ((task, db) # ticks) runtimes =
     (case connection_tick limit task runtimes db of (runtimes', _, started) \<Rightarrow>
      case connection_ticks limit ticks runtimes' of (final, later) \<Rightarrow> (final, started @ later))"

text \<open>C29. A runtime that has ended, because the broker could not be reached when it started for instance, is not
  started again: as long as the credential stays among the wanted ones with the same fingerprint (also when
  the same keys are saved again), every iteration keeps the ended runtime and starts nothing for it.\<close>


theorem ended_runtime_is_not_restarted:
  assumes "distinct (map fst runtimes)" and "(ws, r) \<in> set runtimes" and "ar_ended r"
    and "\<forall>(task, db) \<in> set ticks. \<exists>c. map_of (wanted_credentials limit db) ws = Some c \<and>
      cr_fingerprint c = ar_fingerprint r"
  shows "(ws, r) \<in> set (fst (connection_ticks limit ticks runtimes)) \<and>
    ws \<notin> set (snd (connection_ticks limit ticks runtimes))"
  using assms
proof (induction ticks arbitrary: runtimes)
  case (Cons tick ticks)
  obtain task db where tick: "tick = (task, db)" by (cases tick)
  obtain runtimes' stopped started where t: "connection_tick limit task runtimes db = (runtimes', stopped, started)"
    by (metis prod_cases3)
  have keeps: "keeps_runtime (wanted_credentials limit db) (ws, r)"
    using Cons.prems(4) tick by (auto simp: keeps_runtime_def)
  obtain new where parts: "runtimes' = filter (keeps_runtime (wanted_credentials limit db)) runtimes @ new"
    "started = map fst new" "stopped = map fst (filter (\<lambda>e. \<not> keeps_runtime (wanted_credentials limit db) e) runtimes)"
    and keys: "map fst new = map fst (filter (\<lambda>(ws, record).
      map_of (filter (keeps_runtime (wanted_credentials limit db)) runtimes) ws = None) (wanted_credentials limit db))"
    and "\<forall>(ws, r) \<in> set new. \<exists>record. (ws, record) \<in> set (wanted_credentials limit db) \<and>
      ar_fingerprint r = cr_fingerprint record \<and> \<not> ar_ended r"
    using connection_tick_parts [OF t] .
  have here: "(ws, r) \<in> set runtimes'" using keeps Cons.prems(2) by (simp add: parts(1))
  have "map_of (filter (keeps_runtime (wanted_credentials limit db)) runtimes) ws \<noteq> None"
  proof -
    have "(ws, r) \<in> set (filter (keeps_runtime (wanted_credentials limit db)) runtimes)"
      using keeps Cons.prems(2) by simp
    then show ?thesis using weak_map_of_SomeI [of ws r] by fastforce
  qed
  then have notnew: "ws \<notin> set started" unfolding parts(2) keys by force
  have d: "distinct (map fst runtimes')"
    using connection_tick_keys [OF Cons.prems(1) t] .
  have "\<forall>(task, db) \<in> set ticks. \<exists>c. map_of (wanted_credentials limit db) ws = Some c \<and>
      cr_fingerprint c = ar_fingerprint r" using Cons.prems(4) by simp
  note rest = Cons.IH [OF d here Cons.prems(3) this]
  show ?case using rest notnew by (auto simp: tick t split: prod.splits)
qed simp

theorem ended_runtime_is_not_restarted_witness:
  "''w'' \<notin> set (snd (connection_ticks 20 [(7, worker_desk), (8, worker_desk)]
     [(''w'', \<lparr> ar_fingerprint = ''f'', ar_task = 3, ar_ended = True \<rparr>)]))"
  using ended_runtime_is_not_restarted [of "[(''w'', \<lparr> ar_fingerprint = ''f'', ar_task = 3, ar_ended = True \<rparr>)]" "''w''"
      "\<lparr> ar_fingerprint = ''f'', ar_task = 3, ar_ended = True \<rparr>" "[(7, worker_desk), (8, worker_desk)]" 20]
  by (simp add: worker_wanted worker_fingerprint)

section \<open>The start of a runtime\<close>

lemma status_set: "get_workspace ws (set_workspace_status ws st db) =
    map_option (\<lambda>w. w\<lparr>ws_status := st\<rparr>) (get_workspace ws db)"
proof -
  let ?f = "\<lambda>r. if ws_workspace_id r = ws then r\<lparr>ws_status := st\<rparr> else r"
  have m: "List.find (\<lambda>r. ws_workspace_id r = ws) (map ?f (dd_workspaces db)) =
      map_option ?f (List.find (\<lambda>r. ws_workspace_id r = ws) (dd_workspaces db))"
    by (rule find_map_same) simp_all
  show ?thesis
  proof (cases "List.find (\<lambda>r. ws_workspace_id r = ws) (dd_workspaces db)")
    case (Some w)
    then have "ws_workspace_id w = ws" by (auto simp: find_Some_iff)
    then show ?thesis using m Some by (simp add: get_workspace_def set_workspace_status_def update_workspace_def)
  qed (use m in \<open>simp add: get_workspace_def set_workspace_status_def update_workspace_def\<close>)
qed

lemma broker_status_set [simp]: "dd_broker (set_workspace_status ws st db) = dd_broker db"
  by (simp add: set_workspace_status_def update_workspace_def)

lemma disconnect_fields [simp]:
  "get_workspace ws (disconnect_workspace v db) = get_workspace ws db"
  "dd_broker (disconnect_workspace v db) = pg_set_stream_connected v False (dd_broker db)"
  by (simp_all add: disconnect_workspace_def get_workspace_def)

lemma reconcile_workspace_broker:
  "reconcile_workspace ws snapshot db = (r, db') \<Longrightarrow>
   reconcile (pg_mark_state ws) (pg_apply_reconciliation ws) snapshot (dd_broker db) = (r, dd_broker db') \<and>
   get_workspace v db' = get_workspace v db"
  by (auto simp: reconcile_workspace_def get_workspace_def split: prod.splits)

text \<open>The start of a runtime is visible: when it is ready, the workspace is active and its projection is
  that of the broker's snapshot, as the columns of the tables keep it; when the connection fails, the workspace says so and the broker gate is
  closed at every time; when the credentials are gone or unreadable, nothing is changed, so that the workspace
  keeps the status it had.\<close>

theorem runtime_start_is_visible:
  assumes "start_runtime unseal cipher ws snapshot db = (outcome, db')"
  shows "case outcome of
      Ready \<Rightarrow> map_option ws_status (get_workspace ws db') = map_option (\<lambda>_. ACTIVE) (get_workspace ws db) \<and>
        (\<exists>snap. snapshot = Inr snap \<and> ss_state (pg_get_status ws (dd_broker db')) = RECONCILED \<and>
          pg_get_account ws (dd_broker db') = Some (account_columns (rs_account snap)) \<and>
          pg_list_positions ws (dd_broker db') = sort_key bp_symbol (map position_columns (rs_positions snap)))
    | Connection_failed e \<Rightarrow>
        map_option ws_status (get_workspace ws db') = map_option (\<lambda>_. CONNECTION_ERROR) (get_workspace ws db) \<and>
        \<not> eg_allowed (broker_gate_evaluate maximum_age now (pg_get_status ws (dd_broker db'))
          (pg_get_account ws (dd_broker db')))
    | Died e \<Rightarrow> db' = db
    | No_credentials \<Rightarrow> db' = db"
proof (cases "\<exists>secret. worker_reveal unseal cipher ws db = Inr (Some secret) \<and>
    rbind (alpaca_keys secret) alpaca_adapter = Inr ()")
  case False
  then show ?thesis using assms
    by (auto simp: start_runtime_def split: sum.splits option.splits)
next
  case True
  then obtain secret where s: "worker_reveal unseal cipher ws db = Inr (Some secret)"
    "rbind (alpaca_keys secret) alpaca_adapter = Inr ()" by blast
  obtain r db1 where r: "reconcile_workspace ws snapshot db = (r, db1)" by (metis surj_pair)
  note rb = reconcile_workspace_broker [OF r]
  show ?thesis
  proof (cases r)
    case (Inl e)
    have "outcome = Connection_failed e"
      "db' = disconnect_workspace ws (set_workspace_status ws CONNECTION_ERROR db1)"
      using assms by (simp_all add: start_runtime_def s r Inl)
    moreover have "ss_state (pg_get_status ws (dd_broker db1)) = UNKNOWN"
      using pg_projections.reconcile_failure rb Inl by fastforce
    ultimately show ?thesis using rb pg_projections.disconnected_state [of ws "dd_broker db1"]
      by (simp add: status_set option.map_comp o_def broker_gate_evaluate_def deny_def)
  next
    case (Inr n)
    have o: "outcome = Ready" "db' = set_workspace_status ws ACTIVE db1"
      using assms by (simp_all add: start_runtime_def s r Inr)
    obtain snap where snap: "snapshot = Inr snap" "ss_state (pg_get_status ws (dd_broker db1)) = RECONCILED"
      "pg_get_account ws (dd_broker db1) = Some (account_columns (rs_account snap))"
      "pg_apply_reconciliation ws snap (pg_mark_state ws RECONCILING None (dd_broker db)) = Inr (n, dd_broker db1)"
      using pg_projections.reconcile_success rb Inr by blast
    have "rows_of ws (bd_positions (dd_broker db1)) = map position_columns (rs_positions snap)"
      using pg_apply_tables [OF snap(4)] by simp
    then show ?thesis using o snap(1-3) rb
      by (simp add: status_set option.map_comp o_def pg_list_positions_def)
  qed
qed

lemma worker_start_sample:
  "fst (start_runtime sample_unseal sample_cipher ''w'' (Inl (External ''TimeoutError'')) worker_desk) =
    Connection_failed (External ''TimeoutError'')"
  by code_simp

theorem runtime_start_is_visible_witness:
  "map_option ws_status (get_workspace ''w'' (snd (start_runtime sample_unseal sample_cipher ''w''
     (Inl (External ''TimeoutError'')) worker_desk))) = Some CONNECTION_ERROR"
proof -
  obtain db' where s: "start_runtime sample_unseal sample_cipher ''w'' (Inl (External ''TimeoutError'')) worker_desk =
      (Connection_failed (External ''TimeoutError''), db')"
    using worker_start_sample by (metis prod.collapse)
  have "get_workspace ''w'' worker_desk = Some demo_workspace"
    by (simp add: get_workspace_def worker_desk_def demo_desk_def demo_workspace_def)
  with runtime_start_is_visible [OF s] s show ?thesis by simp
qed

section \<open>The scanner\<close>

lemma complete_finds:
  "List.find (\<lambda>r. sr_scan_run_id r = run) runs = None \<Longrightarrow> sr_scan_run_id r = run \<Longrightarrow>
   complete_scan_run now run c f (runs @ [r]) =
     (let r' = r\<lparr>sr_completed_at := Some now, sr_completed_count := c, sr_failed_count := f\<rparr> in Inr (r', runs @ [r']))"
proof -
  assume a: "List.find (\<lambda>r. sr_scan_run_id r = run) runs = None" "sr_scan_run_id r = run"
  then have "map (\<lambda>r. if sr_scan_run_id r = run then g r else r) runs = runs" for g
    by (auto simp: find_None_iff intro!: map_idI)
  then show ?thesis using a by (simp add: complete_scan_run_def Let_def find_append)
qed

lemma scan_workspace_effect:
  assumes "scan_workspace sha ws inp secret db = (answer, db1)"
  shows "dd_workspaces db1 = dd_workspaces db \<and> dd_credentials db1 = dd_credentials db \<and>
    dd_watchlist db1 = dd_watchlist db \<and>
    (case answer of Inl e \<Rightarrow> db1 = db
      | Inr _ \<Rightarrow> \<exists>run. dd_scan_runs db1 = dd_scan_runs db @ [run] \<and> sr_workspace_id run = ws \<and>
          sr_trigger run = ''SCHEDULED'' \<and> sr_completed_at run = Some (sc_completed_at inp) \<and>
          sr_attempted_count run = int (length (watchlist_of ws db)) \<and>
          sr_attempted_count run = sr_completed_count run + sr_failed_count run)"
proof (cases "rbind (alpaca_keys secret) (\<lambda>keys. require (fst keys \<noteq> [] \<and> snd keys \<noteq> [])
    (ValueError ''Alpaca credentials are required for option market data.''))")
  case (Inl e)
  then have "answer = Inl e \<and> db1 = db" using assms by (simp add: scan_workspace_def Let_def)
  then show ?thesis by simp
next
  case ok: (Inr u)
  show ?thesis
  proof (cases "list_ex (\<lambda>x. sr_scan_run_id x = sc_run_id inp) (dd_scan_runs db)")
    case True
    then show ?thesis using assms by (auto simp: scan_workspace_def Let_def ok start_scan_run_def)
  next
    case False
    then have none: "List.find (\<lambda>x. sr_scan_run_id x = sc_run_id inp) (dd_scan_runs db) = None"
      by (simp add: find_None_iff list_ex_iff)
    obtain results failures rows where sc: "scan_symbols (\<lambda>s. analyze_for sha ws (dd_broker db)
        (Some (sc_run_id inp)) (sc_analysis inp s) s) (watchlist_of ws db) (dd_opportunities db) = (results, failures, rows)"
      by (metis prod_cases3)
    have "length results + length failures = length (watchlist_of ws db)"
      using scan_symbols_account [OF sc analyze_for_adds] by blast
    then have "int (length (watchlist_of ws db)) = int (length results) + int (length failures)" by linarith
    then show ?thesis using assms False
      by (auto simp: scan_workspace_def Let_def ok start_scan_run_def sc complete_finds [OF none])
  qed
qed

definition due :: "(string \<Rightarrow> string \<Rightarrow> string \<Rightarrow> string \<Rightarrow> string option) \<Rightarrow> credential_cipher \<Rightarrow> instant \<Rightarrow>
    (uuid \<rightharpoonup> instant) \<Rightarrow> desk_db \<Rightarrow> workspace_row \<Rightarrow> bool" where
  "due unseal cipher now scans db w \<longleftrightarrow> \<not> scanned_lately now (scans (ws_workspace_id w)) \<and>
     (case worker_reveal unseal cipher (ws_workspace_id w) db of Inr (Some _) \<Rightarrow> True | _ \<Rightarrow> False)"

definition scheduled_run :: "desk_db \<Rightarrow> scan_run_row \<Rightarrow> bool" where
  "scheduled_run db run \<longleftrightarrow> sr_trigger run = ''SCHEDULED'' \<and> sr_completed_at run \<noteq> None \<and>
     sr_attempted_count run = int (length (watchlist_of (sr_workspace_id run) db)) \<and>
     sr_attempted_count run = sr_completed_count run + sr_failed_count run"

lemma scan_workspaces_effect:
  assumes "scan_workspaces unseal cipher sha now inputs workspaces scans db = (answer, scans', db')"
    and "distinct (map ws_workspace_id workspaces)"
  shows "\<exists>handled rest runs. workspaces = handled @ rest \<and> (rest = [] \<longleftrightarrow> is_ok answer) \<and>
    dd_scan_runs db' = dd_scan_runs db @ runs \<and>
    map sr_workspace_id runs = map ws_workspace_id (filter (due unseal cipher now scans db) handled) \<and>
    list_all (scheduled_run db) runs \<and>
    scans' = (\<lambda>ws. if ws \<in> ws_workspace_id ` set (filter (due unseal cipher now scans db) handled) then Some now else scans ws)"
  using assms
proof (induction workspaces arbitrary: scans db)
  case Nil
  then show ?case by (intro exI [of _ "[]"]) auto
next
  case (Cons w workspaces)
  let ?ws = "ws_workspace_id w"
  have d: "distinct (map ws_workspace_id workspaces)" "?ws \<notin> ws_workspace_id ` set workspaces"
    using Cons.prems(2) by auto
  show ?case
  proof (cases "due unseal cipher now scans db w")
    case False
    show ?thesis
    proof (cases "\<exists>e. \<not> scanned_lately now (scans ?ws) \<and> worker_reveal unseal cipher ?ws db = Inl e")
      case True
      then show ?thesis using Cons.prems(1)
        by (intro exI [of _ "[]"] exI [of _ "w # workspaces"]) (auto simp: Let_def)
    next
      case no_error: False
      have "scan_workspaces unseal cipher sha now inputs workspaces scans db = (answer, scans', db')"
        using Cons.prems(1) False no_error
        by (auto simp: Let_def due_def split: if_splits sum.splits option.splits)
      from Cons.IH [OF this d(1)] obtain handled rest runs where ih: "workspaces = handled @ rest"
        "(rest = []) = is_ok answer" "dd_scan_runs db' = dd_scan_runs db @ runs"
        "map sr_workspace_id runs = map ws_workspace_id (filter (due unseal cipher now scans db) handled)"
        "list_all (scheduled_run db) runs"
        "scans' = (\<lambda>ws. if ws \<in> ws_workspace_id ` set (filter (due unseal cipher now scans db) handled) then Some now else scans ws)"
        by (elim exE conjE) (rule that)
      show ?thesis using ih False
        by (intro exI [of _ "w # handled"] exI [of _ rest] exI [of _ runs]) simp
    qed
  next
    case True
    then obtain secret where s: "worker_reveal unseal cipher ?ws db = Inr (Some secret)"
      "\<not> scanned_lately now (scans ?ws)"
      by (auto simp: due_def split: sum.splits option.splits)
    obtain r db1 where sw: "scan_workspace sha ?ws (inputs ?ws) secret db = (r, db1)" by (metis surj_pair)
    note eff = scan_workspace_effect [OF sw]
    show ?thesis
    proof (cases r)
      case (Inl e)
      then show ?thesis using Cons.prems(1) s sw eff
        by (intro exI [of _ "[]"] exI [of _ "w # workspaces"]) (auto simp: Let_def)
    next
      case (Inr u)
      obtain run where run: "dd_scan_runs db1 = dd_scan_runs db @ [run]" "sr_workspace_id run = ?ws" "scheduled_run db run"
        using eff by (auto simp: Inr scheduled_run_def)
      have "scan_workspaces unseal cipher sha now inputs workspaces (scans(?ws \<mapsto> now)) db1 = (answer, scans', db')"
        using Cons.prems(1) s sw Inr by (simp add: Let_def)
      from Cons.IH [OF this d(1)] obtain handled rest runs where ih: "workspaces = handled @ rest"
        "(rest = []) = is_ok answer" "dd_scan_runs db' = dd_scan_runs db1 @ runs"
        "map sr_workspace_id runs = map ws_workspace_id (filter (due unseal cipher now (scans(?ws \<mapsto> now)) db1) handled)"
        "list_all (scheduled_run db1) runs"
        "scans' = (\<lambda>ws. if ws \<in> ws_workspace_id ` set (filter (due unseal cipher now (scans(?ws \<mapsto> now)) db1) handled)
          then Some now else (scans(?ws \<mapsto> now)) ws)"
        by (elim exE conjE) (rule that)
      have same: "filter (due unseal cipher now (scans(?ws \<mapsto> now)) db1) handled = filter (due unseal cipher now scans db) handled"
      proof (rule filter_cong [OF refl])
        fix x assume "x \<in> set handled"
        then have "x \<in> set workspaces" using ih(1) by simp
        then have "ws_workspace_id x \<noteq> ?ws" using d(2) by (metis image_eqI)
        then show "due unseal cipher now (scans(?ws \<mapsto> now)) db1 x = due unseal cipher now scans db x"
          using eff by (simp add: due_def worker_reveal_def)
      qed
      have sched: "scheduled_run db1 = scheduled_run db"
        using eff by (intro ext) (simp add: scheduled_run_def watchlist_of_def)
      show ?thesis using ih run True unfolding same sched
        by (intro exI [of _ "w # handled"] exI [of _ rest] exI [of _ "run # runs"]) auto
    qed
  qed
qed

text \<open>A scanner iteration while the market is open adds one completed run, whose counts account for the whole
  watchlist, for each workspace that is due: active, with its scanner on, not scanned in the last five
  minutes, and with credentials; the time of those scans is remembered.  An exception for one workspace
  (unreadable credentials, for instance) ends the iteration: all workspaces behind it stay unscanned.  While
  the market is closed nothing happens.\<close>

theorem scanner_scans_the_due:
  assumes "scanner_tick unseal cipher sha eastern now inputs scans db = (answer, scans', db')"
    and "distinct (map ws_workspace_id (dd_workspaces db))"
  shows "if \<not> market_is_open eastern now then answer = Inr () \<and> scans' = scans \<and> db' = db
    else \<exists>handled rest runs.
      filter (\<lambda>w. ws_scanner_enabled w \<and> ws_status w = ACTIVE) (dd_workspaces db) = handled @ rest \<and>
      (rest = [] \<longleftrightarrow> is_ok answer) \<and> dd_scan_runs db' = dd_scan_runs db @ runs \<and>
      map sr_workspace_id runs = map ws_workspace_id (filter (due unseal cipher now scans db) handled) \<and>
      list_all (scheduled_run db) runs \<and>
      scans' = (\<lambda>ws. if ws \<in> ws_workspace_id ` set (filter (due unseal cipher now scans db) handled)
        then Some now else scans ws)"
proof (cases "market_is_open eastern now")
  case True
  have "distinct (map ws_workspace_id (filter (\<lambda>w. ws_scanner_enabled w \<and> ws_status w = ACTIVE) (dd_workspaces db)))"
    using assms(2) by (rule distinct_map_filter)
  from scan_workspaces_effect [OF _ this] assms(1) True show ?thesis by (simp add: scanner_tick_def)
next
  case False
  then show ?thesis using assms(1) by (auto simp: scanner_tick_def)
qed

definition bad_workspace :: workspace_row where
  "bad_workspace = demo_workspace\<lparr>ws_workspace_id := ''v''\<rparr>"

definition scanner_desk :: desk_db where
  "scanner_desk = worker_desk\<lparr>dd_workspaces := [bad_workspace, demo_workspace],
     dd_credentials := \<lparr> cd_credentials = [demo_credential\<lparr>cr_workspace_id := ''v'', cr_key_version := ''lost''\<rparr>, demo_credential],
       cd_audit = [] \<rparr>\<rparr>"

lemma scanner_sample:
  "scanner_tick sample_unseal sample_cipher id (\<lambda>_. (1, 10, 0)) 0 inputs (\<lambda>_. None) scanner_desk =
    (Inl (CredentialConfigurationError ''Credential key version lost is unavailable''), \<lambda>_. None, scanner_desk)"
proof -
  have "filter (\<lambda>w. ws_scanner_enabled w \<and> ws_status w = ACTIVE) (dd_workspaces scanner_desk) = [bad_workspace, demo_workspace]"
    by (simp add: scanner_desk_def bad_workspace_def demo_workspace_def)
  moreover have "worker_reveal sample_unseal sample_cipher ''v'' scanner_desk =
      Inl (CredentialConfigurationError ''Credential key version lost is unavailable'')"
    by code_simp
  moreover have "ws_workspace_id bad_workspace = ''v''" by (simp add: bad_workspace_def)
  ultimately show ?thesis
    by (simp add: scanner_tick_def market_is_open_def scanned_lately_def Let_def)
qed

theorem scanner_scans_the_due_witness:
  "\<exists>handled rest. filter (\<lambda>w. ws_scanner_enabled w \<and> ws_status w = ACTIVE) (dd_workspaces scanner_desk) = handled @ rest \<and>
     rest \<noteq> [] \<and> filter (due sample_unseal sample_cipher 0 (\<lambda>_. None) scanner_desk) handled = []"
proof -
  have d: "distinct (map ws_workspace_id (dd_workspaces scanner_desk))"
    by (simp add: scanner_desk_def bad_workspace_def demo_workspace_def)
  have m: "market_is_open (\<lambda>_. (1, 10, 0)) 0" by (simp add: market_is_open_def)
  have r: "dd_scan_runs scanner_desk = []" by (simp add: scanner_desk_def worker_desk_def demo_desk_def)
  show ?thesis
    using scanner_scans_the_due [OF scanner_sample d] m r by auto
qed

end
