(* ===== verification/Worker_Steps.thy ===== *)
theory Worker_Steps
  imports Worker_Properties
begin

text \<open>
  \<open>apps/worker/__main__.py\<close>: a running workspace.  The task of \<open>_periodic_reconciliation\<close>, the task of
  \<open>_trade_update_supervisor\<close> and the API work on the same broker projection; they interleave at every \<open>await\<close> that
  touches it: the mark before the broker is asked, the application of its answer, the flag of the stream, each update.
\<close>

section \<open>The steps\<close>

datatype periodic_task = Resting | Asking

text \<open>The stream task between two passes, in the loop over the updates, on the way through \<open>except\<close> and \<open>finally\<close>,
  before and during the reconciliation that follows, and cancelled.\<close>

datatype stream_task = Between | Streaming | Dropped | Marked | Broken | Retrying | Cancelled_stream

record runtime_state =
  rt_broker :: broker_db
  rt_periodic :: periodic_task
  rt_stream :: stream_task
  rt_snapshot :: "reconciliation_snapshot option"

definition reconciliation_failed :: "uuid \<Rightarrow> py_error \<Rightarrow> broker_db \<Rightarrow> broker_db" where
  "reconciliation_failed ws e b = pg_mark_state ws UNKNOWN (Some (''Reconciliation failed: '' @ error_name e)) b"

text \<open>\<open>rt_snapshot\<close> remembers the snapshot that was applied last.\<close>

inductive runtime_step :: "uuid \<Rightarrow> runtime_state \<Rightarrow> runtime_state \<Rightarrow> bool" for ws where
  periodic_asks: "rt_periodic \<sigma> = Resting \<Longrightarrow>
    runtime_step ws \<sigma> (\<sigma>\<lparr>rt_broker := pg_mark_state ws RECONCILING None (rt_broker \<sigma>), rt_periodic := Asking\<rparr>)"
| periodic_applies: "rt_periodic \<sigma> = Asking \<Longrightarrow> pg_apply_reconciliation ws snap (rt_broker \<sigma>) = Inr (n, b) \<Longrightarrow>
    runtime_step ws \<sigma> (\<sigma>\<lparr>rt_broker := b, rt_periodic := Resting, rt_snapshot := Some snap\<rparr>)"
| periodic_fails: "rt_periodic \<sigma> = Asking \<Longrightarrow>
    runtime_step ws \<sigma> (\<sigma>\<lparr>rt_broker := reconciliation_failed ws e (rt_broker \<sigma>), rt_periodic := Resting\<rparr>)"
| stream_opens: "rt_stream \<sigma> = Between \<Longrightarrow>
    runtime_step ws \<sigma> (\<sigma>\<lparr>rt_broker := pg_set_stream_connected ws True (rt_broker \<sigma>), rt_stream := Streaming\<rparr>)"
| stream_updates: "rt_stream \<sigma> = Streaming \<Longrightarrow> pg_apply_trade_update ws u (rt_broker \<sigma>) = Inr b \<Longrightarrow>
    runtime_step ws \<sigma> (\<sigma>\<lparr>rt_broker := b\<rparr>)"
| stream_ends: "rt_stream \<sigma> = Streaming \<Longrightarrow>
    runtime_step ws \<sigma> (\<sigma>\<lparr>rt_broker := pg_set_stream_connected ws False (rt_broker \<sigma>), rt_stream := Between\<rparr>)"
| stream_raises: "rt_stream \<sigma> = Streaming \<Longrightarrow>
    runtime_step ws \<sigma> (\<sigma>\<lparr>rt_broker := pg_set_stream_connected ws False (rt_broker \<sigma>), rt_stream := Dropped\<rparr>)"
| stream_marks: "rt_stream \<sigma> = Dropped \<Longrightarrow>
    runtime_step ws \<sigma> (\<sigma>\<lparr>rt_broker := pg_mark_state ws UNKNOWN (Some stream_disconnected) (rt_broker \<sigma>),
      rt_stream := Marked\<rparr>)"
| stream_finally: "rt_stream \<sigma> = Marked \<Longrightarrow>
    runtime_step ws \<sigma> (\<sigma>\<lparr>rt_broker := pg_set_stream_connected ws False (rt_broker \<sigma>), rt_stream := Broken\<rparr>)"
| retry_asks: "rt_stream \<sigma> = Broken \<Longrightarrow>
    runtime_step ws \<sigma> (\<sigma>\<lparr>rt_broker := pg_mark_state ws RECONCILING None (rt_broker \<sigma>), rt_stream := Retrying\<rparr>)"
| retry_applies: "rt_stream \<sigma> = Retrying \<Longrightarrow> pg_apply_reconciliation ws snap (rt_broker \<sigma>) = Inr (n, b) \<Longrightarrow>
    runtime_step ws \<sigma> (\<sigma>\<lparr>rt_broker := b, rt_stream := Between, rt_snapshot := Some snap\<rparr>)"
| retry_fails: "rt_stream \<sigma> = Retrying \<Longrightarrow>
    runtime_step ws \<sigma> (\<sigma>\<lparr>rt_broker := reconciliation_failed ws e (rt_broker \<sigma>), rt_stream := Between\<rparr>)"
| stream_cancelled: "rt_stream \<sigma> \<in> {Streaming, Dropped, Marked} \<Longrightarrow>
    runtime_step ws \<sigma> (\<sigma>\<lparr>rt_broker := pg_set_stream_connected ws False (rt_broker \<sigma>), rt_stream := Cancelled_stream\<rparr>)"
| waiting_cancelled: "rt_stream \<sigma> \<in> {Between, Broken, Retrying} \<Longrightarrow>
    runtime_step ws \<sigma> (\<sigma>\<lparr>rt_stream := Cancelled_stream\<rparr>)"
| runtime_stops: "rt_stream \<sigma> = Cancelled_stream \<Longrightarrow>
    runtime_step ws \<sigma> (\<sigma>\<lparr>rt_broker := pg_set_stream_connected ws False (rt_broker \<sigma>)\<rparr>)"
| position_closed: "pg_apply_reconciliation ws snap (rt_broker \<sigma>) = Inr (n, b) \<Longrightarrow>
    runtime_step ws \<sigma> (\<sigma>\<lparr>rt_broker := b, rt_snapshot := Some snap\<rparr>)"
| credentials_deleted: "runtime_step ws \<sigma> (\<sigma>\<lparr>rt_broker := forget_broker ws (rt_broker \<sigma>), rt_snapshot := None\<rparr>)"
| other_workspace: "same_projection ws b (rt_broker \<sigma>) \<Longrightarrow> runtime_step ws \<sigma> (\<sigma>\<lparr>rt_broker := b\<rparr>)"

inductive_cases runtime_stepE: "runtime_step ws \<sigma> \<tau>"

section \<open>The gate while the runtime is running\<close>

text \<open>What holds all along: the flag of the stream is up only while the loop over the updates runs, and the times and
  the account in the projection are those of the snapshot applied last.\<close>

definition runtime_ok :: "uuid \<Rightarrow> runtime_state \<Rightarrow> bool" where
  "runtime_ok ws \<sigma> \<longleftrightarrow>
     (ss_stream_connected (pg_get_status ws (rt_broker \<sigma>)) \<longrightarrow> rt_stream \<sigma> = Streaming) \<and>
     ss_last_reconciled_at (pg_get_status ws (rt_broker \<sigma>)) = map_option rs_reconciled_at (rt_snapshot \<sigma>) \<and>
     pg_get_account ws (rt_broker \<sigma>) = map_option (\<lambda>snap. account_columns (rs_account snap)) (rt_snapshot \<sigma>)"

lemma stream_flag_keeps [simp]:
  "ss_last_reconciled_at (pg_get_status ws (pg_set_stream_connected ws c b)) = ss_last_reconciled_at (pg_get_status ws b)"
  "pg_get_account ws (pg_set_stream_connected ws c b) = pg_get_account ws b"
  by (simp_all add: pg_set_stream_connected_def Let_def pg_status_state)

lemma forgotten_broker [simp]:
  "pg_get_status ws (forget_broker ws b) = new_sync_status NOT_CONFIGURED"
  "pg_get_account ws (forget_broker ws b) = None"
  by (simp_all add: pg_get_status_def pg_get_account_def forget_broker_def)

lemma same_projection_reads:
  assumes "same_projection ws a b"
  shows "pg_get_status ws a = pg_get_status ws b \<and> pg_get_account ws a = pg_get_account ws b"
  using assms by (simp add: same_projection_def pg_get_status_def pg_get_account_def)

lemmas projection_reads = pg_projections.mark_status pg_projections.mark_account pg_projections.connected_state
  reconciliation_failed_def

lemma runtime_ok_step: "runtime_step ws \<sigma> \<tau> \<Longrightarrow> runtime_ok ws \<sigma> \<Longrightarrow> runtime_ok ws \<tau>"
proof (induction rule: runtime_step.induct)
  case (other_workspace b \<sigma>)
  then show ?case using same_projection_reads [of ws b "rt_broker \<sigma>"] by (simp add: runtime_ok_def)
next
  case (credentials_deleted \<sigma>)
  then show ?case by (simp add: runtime_ok_def new_sync_status_def)
qed (auto simp: runtime_ok_def projection_reads dest!: pg_projections.reconciled_status pg_projections.update_status)

lemma runtime_ok_run: "(runtime_step ws)\<^sup>*\<^sup>* \<sigma> \<tau> \<Longrightarrow> runtime_ok ws \<sigma> \<Longrightarrow> runtime_ok ws \<tau>"
  by (induction rule: rtranclp_induct) (auto intro: runtime_ok_step)

text \<open>The state in which the tasks of a ready runtime begin.\<close>

definition runtime_begins :: "reconciliation_snapshot \<Rightarrow> desk_db \<Rightarrow> runtime_state" where
  "runtime_begins snap db = \<lparr> rt_broker = dd_broker db, rt_periodic = Resting, rt_stream = Between,
     rt_snapshot = Some snap \<rparr>"

lemma ready_runtime_ok:
  assumes "start_runtime unseal cipher ws (Inr snap) db = (Ready, db1)"
    and "\<not> ss_stream_connected (pg_get_status ws (dd_broker db))"
  shows "runtime_ok ws (runtime_begins snap db1)"
proof -
  obtain n b where "reconcile (pg_mark_state ws) (pg_apply_reconciliation ws) (Inr snap) (dd_broker db) = (Inr n, b)"
    "dd_broker db1 = b"
    using assms(1)
    by (auto simp: start_runtime_def reconcile_workspace_def split: sum.splits option.splits prod.splits)
  with pg_projections.reconcile_success [OF this(1)] assms(2) show ?thesis
    by (simp add: runtime_ok_def runtime_begins_def)
qed

text \<open>C14. Whatever the tasks of a running workspace, the API and the other workspaces do, and however they interleave,
  the broker gate is open only while the loop over the trade updates is running, on an account that the broker
  reported at most the permitted age ago (as the columns of the table keep it) and that is not blocked: as long as the flag of the stream was down when the
  runtime started.\<close>

theorem running_gate_needs_a_live_stream:
  assumes "start_runtime unseal cipher ws (Inr snap) db = (Ready, db1)"
    and "\<not> ss_stream_connected (pg_get_status ws (dd_broker db))"
    and "(runtime_step ws)\<^sup>*\<^sup>* (runtime_begins snap db1) \<sigma>"
    and "eg_allowed (broker_gate_evaluate maximum_age now (pg_get_status ws (rt_broker \<sigma>)) (pg_get_account ws (rt_broker \<sigma>)))"
  shows "rt_stream \<sigma> = Streaming \<and> (\<exists>snap'. rt_snapshot \<sigma> = Some snap' \<and>
    pg_get_account ws (rt_broker \<sigma>) = Some (account_columns (rs_account snap')) \<and> now \<le> rs_reconciled_at snap' + maximum_age \<and>
    \<not> ba_account_blocked (rs_account snap') \<and> \<not> ba_trading_blocked (rs_account snap') \<and>
    \<not> ba_trade_suspended_by_user (rs_account snap'))"
  using runtime_ok_run [OF assms(3) ready_runtime_ok [OF assms(1,2)]] assms(4)
  by (auto simp: runtime_ok_def broker_gate_evaluate_def deny_def split: if_splits option.splits)

text \<open>A sample workspace, started over any state of the projection.\<close>

lemma sample_login:
  obtains secret where "worker_reveal sample_unseal sample_cipher ''w'' worker_desk = Inr (Some secret)"
    "rbind (alpaca_keys secret) alpaca_adapter = Inr ()"
proof -
  have "case worker_reveal sample_unseal sample_cipher ''w'' worker_desk of
      Inr (Some secret) \<Rightarrow> rbind (alpaca_keys secret) alpaca_adapter = Inr () | _ \<Rightarrow> False"
    by code_simp
  then show thesis using that by (auto split: sum.splits option.splits)
qed

lemma sample_applies: "\<exists>n b'. pg_apply_reconciliation ws sample_snapshot b = Inr (n, b')"
  by (simp add: pg_apply_reconciliation_def Let_def sample_snapshot_columns)
    (simp add: sample_snapshot_def sample_position_def)

lemma sample_starts:
  obtains db1 where
    "start_runtime sample_unseal sample_cipher ''w'' (Inr sample_snapshot) (worker_desk\<lparr>dd_broker := b\<rparr>) = (Ready, db1)"
    "ss_state (pg_get_status ''w'' (dd_broker db1)) = RECONCILED"
    "ss_last_reconciled_at (pg_get_status ''w'' (dd_broker db1)) = Some (seconds 10)"
    "ss_stream_connected (pg_get_status ''w'' (dd_broker db1)) = ss_stream_connected (pg_get_status ''w'' b)"
    "pg_get_account ''w'' (dd_broker db1) = Some sample_account"
proof -
  let ?db = "worker_desk\<lparr>dd_broker := b\<rparr>"
  obtain secret where login: "worker_reveal sample_unseal sample_cipher ''w'' worker_desk = Inr (Some secret)"
    "rbind (alpaca_keys secret) alpaca_adapter = Inr ()" by (rule sample_login)
  then have reveal: "worker_reveal sample_unseal sample_cipher ''w'' ?db = Inr (Some secret)"
    by (simp add: worker_reveal_def)
  obtain n b' where run: "pg_reconcile ''w'' (Inr sample_snapshot) b = (Inr n, b')"
    using sample_applies [of "''w''" "pg_mark_state ''w'' RECONCILING None b"]
    by (auto simp: reconcile_def Let_def)
  have "start_runtime sample_unseal sample_cipher ''w'' (Inr sample_snapshot) ?db =
      (Ready, set_workspace_status ''w'' ACTIVE (?db\<lparr>dd_broker := b'\<rparr>))"
    by (simp add: start_runtime_def reveal login(2) reconcile_workspace_def run)
  with pg_projections.reconcile_success [OF run] show thesis
    by (intro that [of "set_workspace_status ''w'' ACTIVE (?db\<lparr>dd_broker := b'\<rparr>)"])
      (simp_all add: sample_snapshot_def sample_rows_fit)
qed

lemma sample_gate:
  assumes "ss_state status = RECONCILED" and "ss_last_reconciled_at status = Some (seconds 10)"
    and "ss_stream_connected status"
  shows "eg_allowed (broker_gate_evaluate default_maximum_age (seconds 20) status (Some sample_account))"
  using assms by (simp add: broker_gate_evaluate_def default_maximum_age_def sample_account_def seconds_def)

theorem running_gate_needs_a_live_stream_witness:
  "\<exists>db1 \<sigma> snap. start_runtime sample_unseal sample_cipher ''w'' (Inr sample_snapshot) worker_desk = (Ready, db1) \<and>
    (runtime_step ''w'')\<^sup>*\<^sup>* (runtime_begins sample_snapshot db1) \<sigma> \<and> rt_stream \<sigma> = Streaming \<and>
    rt_snapshot \<sigma> = Some snap \<and> pg_get_account ''w'' (rt_broker \<sigma>) = Some (account_columns (rs_account snap))"
proof -
  obtain db1 where db1: "start_runtime sample_unseal sample_cipher ''w'' (Inr sample_snapshot) worker_desk = (Ready, db1)"
    "ss_state (pg_get_status ''w'' (dd_broker db1)) = RECONCILED"
    "ss_last_reconciled_at (pg_get_status ''w'' (dd_broker db1)) = Some (seconds 10)"
    "pg_get_account ''w'' (dd_broker db1) = Some sample_account"
    using sample_starts [of empty_broker_db] by (auto simp: worker_desk_def)
  let ?start = "runtime_begins sample_snapshot db1"
  let ?\<sigma> = "?start\<lparr>rt_broker := pg_set_stream_connected ''w'' True (dd_broker db1), rt_stream := Streaming\<rparr>"
  have run: "(runtime_step ''w'')\<^sup>*\<^sup>* ?start ?\<sigma>"
    using runtime_step.stream_opens [of ?start "''w''"] by (intro r_into_rtranclp) (simp add: runtime_begins_def)
  have gate: "eg_allowed (broker_gate_evaluate default_maximum_age (seconds 20)
      (pg_get_status ''w'' (rt_broker ?\<sigma>)) (pg_get_account ''w'' (rt_broker ?\<sigma>)))"
    using sample_gate db1 by (simp add: pg_projections.connected_state pg_projections.connect_keeps)
  have "\<not> ss_stream_connected (pg_get_status ''w'' (dd_broker worker_desk))"
    by (simp add: worker_desk_def empty_broker_db_def pg_get_status_def new_sync_status_def)
  from running_gate_needs_a_live_stream [OF db1(1) this run gate] db1(1) run show ?thesis by blast
qed

text \<open>The condition on the flag is needed: a worker that was killed leaves it up, and the first reconciliation of the
  next one opens the gate before any stream is connected.\<close>

theorem stale_stream_flag_opens_the_gate:
  "\<exists>db. start_runtime sample_unseal sample_cipher ''w'' (Inr sample_snapshot)
      (worker_desk\<lparr>dd_broker := pg_set_stream_connected ''w'' True empty_broker_db\<rparr>) = (Ready, db) \<and>
    eg_allowed (broker_gate_evaluate default_maximum_age (seconds 20)
      (pg_get_status ''w'' (dd_broker db)) (pg_get_account ''w'' (dd_broker db)))"
proof -
  obtain db where "start_runtime sample_unseal sample_cipher ''w'' (Inr sample_snapshot)
      (worker_desk\<lparr>dd_broker := pg_set_stream_connected ''w'' True empty_broker_db\<rparr>) = (Ready, db)"
    "ss_state (pg_get_status ''w'' (dd_broker db)) = RECONCILED"
    "ss_last_reconciled_at (pg_get_status ''w'' (dd_broker db)) = Some (seconds 10)"
    "ss_stream_connected (pg_get_status ''w'' (dd_broker db))" "pg_get_account ''w'' (dd_broker db) = Some sample_account"
    using sample_starts [of "pg_set_stream_connected ''w'' True empty_broker_db"]
    by (auto simp: pg_projections.connected_state)
  with sample_gate show ?thesis by auto
qed

end
