(* ===== verification/Desk_System.thy ===== *)
theory Desk_System
  imports Worker_Steps Desk_Properties Desk_Tenancy
begin

text \<open>
  The connected desk as a whole: the requests of all users and what the worker does for every workspace, in any
  order, on the shared tables; and the orders that the execution engine hands to the broker on the way.  A request
  runs here in one piece; \<open>Desk_Steps\<close> takes the confirmations apart at every \<open>await\<close>, and \<open>Execution_Steps\<close> the
  submissions.
\<close>

section \<open>The actions\<close>

datatype desk_action =
    Asked vault request_ids workspace_context desk_request
  | Runtime_started "string \<Rightarrow> string \<Rightarrow> string \<Rightarrow> string \<Rightarrow> string option" credential_cipher uuid
      "reconciliation_snapshot result"
  | Runtime_stopped uuid
  | Reconciled uuid "reconciliation_snapshot result"
  | Followed uuid "broker_trade_update list" stream_end bool "reconciliation_snapshot result"
  | Scanned "string \<Rightarrow> string \<Rightarrow> string \<Rightarrow> string \<Rightarrow> string option" credential_cipher "string \<Rightarrow> string"
      "instant \<Rightarrow> int \<times> int \<times> int" instant "uuid \<Rightarrow> scan_inputs" "uuid \<rightharpoonup> instant"

record desk_world =
  wo_db :: desk_db
  wo_orders :: "(uuid \<times> order_submission) list"

definition orders_of :: "vault \<Rightarrow> workspace_context \<Rightarrow> desk_request \<Rightarrow> desk_db \<Rightarrow> order_submission list" where
  "orders_of v cx request db = (case request of
      Confirm ci submit i cid \<Rightarrow> snd (snd (confirm_paper_order v ci submit cx i cid db))
    | _ \<Rightarrow> [])"

definition desk_act :: "desk_action \<Rightarrow> desk_world \<Rightarrow> desk_world" where
  "desk_act a w = (let db = wo_db w in case a of
      Asked v rq cx request \<Rightarrow> \<lparr> wo_db = desk_do v rq cx request db,
        wo_orders = wo_orders w @ map (Pair (wc_workspace_id cx)) (orders_of v cx request db) \<rparr>
    | Runtime_started unseal cipher ws snapshot \<Rightarrow> w\<lparr>wo_db := snd (start_runtime unseal cipher ws snapshot db)\<rparr>
    | Runtime_stopped ws \<Rightarrow> w\<lparr>wo_db := stop_runtime ws db\<rparr>
    | Reconciled ws snapshot \<Rightarrow> w\<lparr>wo_db := periodic_reconciliation ws snapshot db\<rparr>
    | Followed ws updates fin stopped snapshot \<Rightarrow>
        w\<lparr>wo_db := snd (follow_trade_updates ws updates fin stopped snapshot db)\<rparr>
    | Scanned unseal cipher sha eastern now inputs scans \<Rightarrow>
        w\<lparr>wo_db := snd (snd (scanner_tick unseal cipher sha eastern now inputs scans db))\<rparr>)"

definition desk_run :: "desk_action list \<Rightarrow> desk_db \<Rightarrow> desk_world" where
  "desk_run acts db = fold desk_act acts \<lparr> wo_db = db, wo_orders = [] \<rparr>"

section \<open>What touches the intents and the incidents\<close>

definition untouched :: "desk_db \<Rightarrow> desk_db \<Rightarrow> bool" where
  "untouched db db' \<longleftrightarrow> dd_intents db' = dd_intents db \<and> dd_incidents db' = dd_incidents db"

lemma untouched_refl [simp]: "untouched db db"
  by (simp add: untouched_def)

lemma untouched_trans: "untouched a b \<Longrightarrow> untouched b c \<Longrightarrow> untouched a c"
  by (simp add: untouched_def)

lemma untouched_updates [simp]:
  "untouched db (db'\<lparr>dd_broker := b\<rparr>) = untouched db db'"
  "untouched db (db'\<lparr>dd_workspaces := x1\<rparr>) = untouched db db'"
  "untouched db (db'\<lparr>dd_credentials := x2\<rparr>) = untouched db db'"
  "untouched db (db'\<lparr>dd_watchlist := x3\<rparr>) = untouched db db'"
  "untouched db (db'\<lparr>dd_opportunities := x4\<rparr>) = untouched db db'"
  "untouched db (db'\<lparr>dd_scan_runs := x5\<rparr>) = untouched db db'"
  "untouched db (db'\<lparr>dd_ai_runs := x6\<rparr>) = untouched db db'"
  "untouched db (update_workspace ws f db') = untouched db db'"
  by (simp_all add: untouched_def update_workspace_def)

lemma reconcile_untouched: "reconcile_workspace ws snapshot db = (r, db') \<Longrightarrow> untouched db db'"
  by (auto simp: reconcile_workspace_def split: prod.splits)

lemma start_untouched: "untouched db (snd (start_runtime unseal cipher ws snapshot db))"
  by (auto simp: start_runtime_def set_workspace_status_def disconnect_workspace_def
      dest: reconcile_untouched split: sum.split option.split prod.split)

lemma follow_untouched: "untouched db (snd (follow_trade_updates ws updates fin stopped snapshot db))"
proof -
  have "untouched db (snd (reconcile_workspace ws snapshot (db\<lparr>dd_broker := b\<rparr>)))" for b
    using reconcile_untouched [of ws snapshot "db\<lparr>dd_broker := b\<rparr>"]
    by (cases "reconcile_workspace ws snapshot (db\<lparr>dd_broker := b\<rparr>)") (auto simp: untouched_def)
  then show ?thesis by (auto simp: follow_trade_updates_def split: prod.split stream_end.split)
qed

lemma scan_workspace_untouched: "scan_workspace sha ws inp secret db = (r, db') \<Longrightarrow> untouched db db'"
  by (auto simp: scan_workspace_def Let_def split: sum.splits prod.splits)

lemma scan_workspaces_untouched:
  "scan_workspaces unseal cipher sha now inputs workspaces scans db = (r, scans', db') \<Longrightarrow> untouched db db'"
proof (induction workspaces arbitrary: scans db)
  case (Cons w workspaces)
  show ?case
  proof (cases "scanned_lately now (scans (ws_workspace_id w))")
    case True
    with Cons show ?thesis by simp
  next
    case False
    show ?thesis
    proof (cases "worker_reveal unseal cipher (ws_workspace_id w) db")
      case (Inl e)
      with Cons.prems False show ?thesis by (simp add: Let_def)
    next
      case (Inr found)
      show ?thesis
      proof (cases found)
        case None
        with Cons.prems Cons.IH False Inr show ?thesis by (simp add: Let_def)
      next
        case (Some secret)
        obtain x db1 where one: "scan_workspace sha (ws_workspace_id w) (inputs (ws_workspace_id w)) secret db = (x, db1)"
          by (metis surj_pair)
        show ?thesis
          using Cons.prems Cons.IH [of _ db1] scan_workspace_untouched [OF one] False Inr Some one
          by (cases x) (auto simp: Let_def intro: untouched_trans)
      qed
    qed
  qed
qed simp

lemma scanner_untouched: "untouched db (snd (snd (scanner_tick unseal cipher sha eastern now inputs scans db)))"
proof (cases "market_is_open eastern now")
  case True
  obtain r scans' db' where "scan_workspaces unseal cipher sha now inputs
      (filter (\<lambda>w. ws_scanner_enabled w \<and> ws_status w = ACTIVE) (dd_workspaces db)) scans db = (r, scans', db')"
    by (metis prod_cases3)
  with scan_workspaces_untouched [OF this] True show ?thesis by (simp add: scanner_tick_def)
qed (simp add: scanner_tick_def)

text \<open>The requests that are left: everything but confirmations, halts, recoveries and deletions.\<close>

fun quiet :: "desk_request \<Rightarrow> bool" where
  "quiet (Confirm _ _ _ _) = False"
| "quiet Halt = False"
| "quiet Recover = False"
| "quiet (Delete_credentials _) = False"
| "quiet _ = True"

lemma quiet_untouched: "quiet request \<Longrightarrow> untouched db (desk_do v rq cx request db)"
proof (cases request)
  case (Save_alpaca keys reconciled)
  then show ?thesis by (auto simp: desk_do_def save_alpaca_credentials_def Let_def split: sum.split option.split)
next
  case (Save_openrouter key model probe)
  then show ?thesis by (auto simp: desk_do_def save_openrouter_credentials_def split: sum.split)
next
  case (Replace_watchlist items)
  then show ?thesis by (auto simp: desk_do_def replace_watchlist_def Let_def)
next
  case (Set_scanner b)
  then show ?thesis by (auto simp: desk_do_def set_scanner_def Let_def split: sum.split option.split)
next
  case (Analyze_symbol inp symbol)
  then show ?thesis by (auto simp: desk_do_def analyze_symbol_def split: sum.split prod.split)
next
  case (Scan_now inputs)
  then show ?thesis
    by (auto simp: desk_do_def scan_now_def Let_def split: sum.split prod.split option.split)
next
  case (Ask_ai connect py_str dump isoformat i)
  then show ?thesis by (auto simp: desk_do_def analyze_opportunity_with_ai_def Let_def split: sum.split)
next
  case (Close_position symbol closing snapshot)
  then show ?thesis by (auto simp: desk_do_def close_position_def split: sum.split)
qed simp_all

section \<open>Submissions\<close>

text \<open>The keys stay unique and no known client order id is forgotten.\<close>

definition grows :: "order_intent_row list \<Rightarrow> order_intent_row list \<Rightarrow> bool" where
  "grows rows rows' \<longleftrightarrow> (intents_unique rows \<longrightarrow> intents_unique rows') \<and>
     (\<forall>ws k. pg_get_state ws k rows \<noteq> None \<longrightarrow> pg_get_state ws k rows' \<noteq> None)"

lemma grows_refl [simp]: "grows rows rows"
  by (simp add: grows_def)

lemma grows_trans: "grows a b \<Longrightarrow> grows b c \<Longrightarrow> grows a c"
  by (simp add: grows_def)

lemma grows_reserve: "pg_reserve ws now i rows = Inr (b, rows') \<Longrightarrow> grows rows rows'"
  by (auto simp: pg_reserve_def grows_def pg_get_append pg_get_None intro!: intents_unique_snoc split: if_splits)

lemma grows_set:
  assumes "pg_set_state ws now k st rows = Inr rows'"
  shows "grows rows rows'"
proof -
  have "list_ex (owns v j) (map (\<lambda>r. if owns ws k r then r\<lparr>ir_state := st, ir_updated_at := now\<rparr> else r) rows) =
      list_ex (owns v j) rows" for v j
    by (induction rows) auto
  then show ?thesis using assms
    by (auto simp: pg_set_state_def grows_def intents_unique_set pg_get_None split: if_splits)
qed

lemma grows_settle: "settle (pg_set_state ws now) i reply w = (r, w') \<Longrightarrow> grows (xw_store w) (xw_store w')"
  by (auto simp: settle_def dest: grows_set split: sum.splits)

lemma reserve_knows: "pg_reserve ws now i rows = Inr (b, rows') \<Longrightarrow> pg_get_state ws (oi_client_order_id i) rows' \<noteq> None"
  by (auto simp: pg_reserve_def pg_get_append pg_get_None owns_def split: if_splits)

lemma execute_grows:
  assumes "execute (pg_reserve ws now) (pg_set_state ws now) pre submit i w = (r, w')"
  shows "grows (xw_store w) (xw_store w')"
    and "xw_submissions w' \<noteq> xw_submissions w \<Longrightarrow> pg_get_state ws (oi_client_order_id i) (xw_store w') \<noteq> None"
proof -
  have "grows (xw_store w) (xw_store w') \<and>
    (xw_submissions w' \<noteq> xw_submissions w \<longrightarrow> pg_get_state ws (oi_client_order_id i) (xw_store w') \<noteq> None)"
  proof (cases "(\<exists>reason. pre = Some (False, reason)) \<or> \<not> is_ok (pg_reserve ws now i (xw_store w))")
    case True
    then show ?thesis using assms
      by (auto simp: execute_def is_ok_iff split: option.splits prod.splits bool.splits sum.splits)
  next
    case False
    then obtain b rows where res: "pg_reserve ws now i (xw_store w) = Inr (b, rows)" by (auto simp: is_ok_iff)
    have run: "(case (b, submission_dto i) of
        (False, _) \<Rightarrow> xw_store w' = rows \<and> xw_submissions w' = xw_submissions w
      | (True, Inl e) \<Rightarrow> xw_store w' = rows \<and> xw_submissions w' = xw_submissions w
      | (True, Inr sub) \<Rightarrow> grows rows (xw_store w'))"
      using assms False res
      by (auto simp: execute_def dest: grows_settle split: option.splits prod.splits bool.splits sum.splits)
    show ?thesis using run grows_reserve [OF res] reserve_knows [OF res]
      by (auto simp: grows_def split: bool.splits sum.splits)
  qed
  then show "grows (xw_store w) (xw_store w')"
    and "xw_submissions w' \<noteq> xw_submissions w \<Longrightarrow> pg_get_state ws (oi_client_order_id i) (xw_store w') \<noteq> None"
    by blast+
qed

lemma preflight_unhalted:
  assumes "fst (connected_preflight ws now db)"
  shows "gs_active_incident (pg_status ws (dd_incidents db)) = None"
  using assms pg_guardian.gate_blocked [of ws "dd_incidents db"]
  by (cases "gs_active_incident (pg_status ws (dd_incidents db))")
    (auto simp: connected_preflight_def Let_def split: if_splits)

text \<open>What a confirmation does to the whole desk.\<close>

lemma confirm_effect:
  assumes "confirm_paper_order v ci submit cx i cid db = (reply, db', orders)"
  shows "grows (dd_intents db) (dd_intents db') \<and> dd_incidents db' = dd_incidents db \<and>
    (orders = [] \<or> (\<exists>s. orders = [s] \<and>
      pg_get_state (wc_workspace_id cx) (su_client_order_id s) (dd_intents db) = None \<and>
      pg_get_state (wc_workspace_id cx) (su_client_order_id s) (dd_intents db') \<noteq> None \<and>
      gs_active_incident (pg_status (wc_workspace_id cx) (dd_incidents db)) = None))"
proof (cases "confirm_checks v ci cx i cid db")
  case (Inl e)
  then show ?thesis using assms by (simp add: confirm_paper_order_def)
next
  case (Inr intent)
  let ?ws = "wc_workspace_id cx"
  obtain r w where run: "execute (pg_reserve ?ws (ci_store ci)) (pg_set_state ?ws (ci_store ci))
      (Some (connected_preflight ?ws (ci_preflight ci) db)) submit intent
      \<lparr> xw_store = dd_intents db, xw_submissions = [] \<rparr> = (r, w)" by (metis surj_pair)
  have db': "db' = db\<lparr>dd_intents := xw_store w\<rparr>" "orders = xw_submissions w"
    using assms Inr run by (simp_all add: confirm_paper_order_def)
  show ?thesis
  proof (cases "orders = []")
    case True
    then show ?thesis using execute_grows(1) [OF run] db' by simp
  next
    case False
    then have "xw_submissions w \<noteq> []" using db' by simp
    note sends = execute_sends [OF run this]
    show ?thesis
      using sends preflight_unhalted [of ?ws "ci_preflight ci" db] execute_grows [OF run] db' False by simp
  qed
qed

lemma delete_intents: "dd_intents (snd (delete_credentials v rq cx p db)) = dd_intents db"
  by (auto simp: delete_credentials_def Let_def update_workspace_def split: sum.split option.split)

lemma halt_intents: "dd_intents (snd (guardian_halt rq cx db)) = dd_intents db"
  by (simp add: guardian_halt_def split: prod.split)

lemma recover_intents: "dd_intents (snd (guardian_recover rq cx db)) = dd_intents db"
  by (auto simp: guardian_recover_def split: sum.split py_error.split prod.split)

text \<open>What the worker does on its own sends nothing.\<close>

lemma background_act:
  assumes "\<forall>v rq cx request. a \<noteq> Asked v rq cx request"
  shows "untouched (wo_db w) (wo_db (desk_act a w)) \<and> wo_orders (desk_act a w) = wo_orders w"
proof (cases a)
  case (Reconciled ws snapshot)
  then show ?thesis
    by (cases "reconcile_workspace ws snapshot (wo_db w)")
      (simp add: desk_act_def Let_def periodic_reconciliation_def reconcile_untouched)
qed (use assms in \<open>simp_all add: desk_act_def Let_def start_untouched follow_untouched scanner_untouched
  stop_runtime_def disconnect_workspace_def\<close>)

text \<open>One action: no known id is forgotten, and at most one order goes out, under an id that was new and is known
  afterwards, for a workspace that is not halted.\<close>

lemma act_effect:
  "grows (dd_intents (wo_db w)) (dd_intents (wo_db (desk_act a w))) \<and>
   (wo_orders (desk_act a w) = wo_orders w \<or>
    (\<exists>v s. wo_orders (desk_act a w) = wo_orders w @ [(v, s)] \<and>
      pg_get_state v (su_client_order_id s) (dd_intents (wo_db w)) = None \<and>
      pg_get_state v (su_client_order_id s) (dd_intents (wo_db (desk_act a w))) \<noteq> None \<and>
      gs_active_incident (pg_status v (dd_incidents (wo_db w))) = None))"
proof (cases a)
  case (Asked v rq cx request)
  show ?thesis
  proof (cases request)
    case (Confirm ci submit i cid)
    obtain reply db' orders where run: "confirm_paper_order v ci submit cx i cid (wo_db w) = (reply, db', orders)"
      by (metis prod_cases3)
    then have "wo_db (desk_act a w) = db'" "wo_orders (desk_act a w) = wo_orders w @ map (Pair (wc_workspace_id cx)) orders"
      by (simp_all add: Asked Confirm desk_act_def Let_def desk_do_def orders_of_def)
    with confirm_effect [OF run] show ?thesis by auto
  qed (use Asked quiet_untouched [of request "wo_db w" v rq cx] in
    \<open>simp_all add: desk_act_def Let_def orders_of_def untouched_def desk_do_def delete_intents halt_intents recover_intents\<close>)
qed (use background_act [of a w] in \<open>auto simp: untouched_def\<close>)

definition sent_by :: "uuid \<Rightarrow> string \<Rightarrow> (uuid \<times> order_submission) list \<Rightarrow> nat" where
  "sent_by v c orders = length (filter (\<lambda>(u, s). u = v \<and> su_client_order_id s = c) orders)"

lemma run_effect:
  assumes "w' = fold desk_act acts w"
  shows "grows (dd_intents (wo_db w)) (dd_intents (wo_db w')) \<and>
    sent_by v c (wo_orders w') \<le>
      sent_by v c (wo_orders w) + (if pg_get_state v c (dd_intents (wo_db w)) = None then 1 else 0) \<and>
    (sent_by v c (wo_orders w) < sent_by v c (wo_orders w') \<longrightarrow> pg_get_state v c (dd_intents (wo_db w')) \<noteq> None)"
  using assms
proof (induction acts arbitrary: w)
  case Nil
  then show ?case by simp
next
  case (Cons a acts)
  let ?w = "desk_act a w"
  have ih: "grows (dd_intents (wo_db ?w)) (dd_intents (wo_db w'))"
    "sent_by v c (wo_orders w') \<le>
      sent_by v c (wo_orders ?w) + (if pg_get_state v c (dd_intents (wo_db ?w)) = None then 1 else 0)"
    "sent_by v c (wo_orders ?w) < sent_by v c (wo_orders w') \<longrightarrow> pg_get_state v c (dd_intents (wo_db w')) \<noteq> None"
    using Cons.IH [of ?w] Cons.prems by auto
  note act = act_effect [of w a]
  have g: "grows (dd_intents (wo_db w)) (dd_intents (wo_db w'))" using act ih(1) grows_trans by blast
  show ?case
  proof (cases "sent_by v c (wo_orders ?w) = sent_by v c (wo_orders w)")
    case True
    have "pg_get_state v c (dd_intents (wo_db w)) \<noteq> None \<Longrightarrow> pg_get_state v c (dd_intents (wo_db ?w)) \<noteq> None"
      using act by (simp add: grows_def)
    then show ?thesis using g ih True by (auto split: if_splits)
  next
    case False
    then obtain s where s: "wo_orders ?w = wo_orders w @ [(v, s)]" "su_client_order_id s = c"
      "pg_get_state v c (dd_intents (wo_db w)) = None" "pg_get_state v c (dd_intents (wo_db ?w)) \<noteq> None"
      using act by (auto simp: sent_by_def split: if_splits)
    then have "sent_by v c (wo_orders ?w) = Suc (sent_by v c (wo_orders w))" by (simp add: sent_by_def)
    moreover have "pg_get_state v c (dd_intents (wo_db w')) \<noteq> None" using ih(1) s(4) by (simp add: grows_def)
    ultimately show ?thesis using g ih s(3,4) by simp
  qed
qed

text \<open>C4. Whatever the users of all workspaces ask and the worker does, in any order, the engine hands the broker at
  most one order for each workspace and client order id, and none for an id that the workspace's table had before;
  every id that went out is in the table, whose keys stay unique.\<close>

theorem desk_submits_at_most_once:
  assumes "intents_unique (dd_intents db)"
  shows "intents_unique (dd_intents (wo_db (desk_run acts db))) \<and> sent_by v c (wo_orders (desk_run acts db)) \<le> 1 \<and>
    (0 < sent_by v c (wo_orders (desk_run acts db)) \<longrightarrow> pg_get_state v c (dd_intents db) = None \<and>
      pg_get_state v c (dd_intents (wo_db (desk_run acts db))) \<noteq> None)"
proof -
  have "sent_by v c [] = 0" by (simp add: sent_by_def)
  with run_effect [of "desk_run acts db" acts "\<lparr> wo_db = db, wo_orders = [] \<rparr>" v c] assms show ?thesis
    by (auto simp: desk_run_def grows_def split: if_splits)
qed

definition demo_confirmation :: desk_action where
  "demo_confirmation = Asked demo_vault demo_request demo_context
     (Confirm demo_confirm demo_submit ''o'' (oi_client_order_id demo_intent))"

theorem desk_submits_at_most_once_witness:
  "\<exists>c. sent_by ''w'' c (wo_orders (desk_run [demo_confirmation, demo_confirmation] (demo_desk []))) = 1"
proof -
  let ?w = "desk_run [demo_confirmation] (demo_desk [])"
  obtain s rest where first: "snd (snd (confirm_paper_order demo_vault demo_confirm demo_submit demo_context ''o''
      (oi_client_order_id demo_intent) (demo_desk []))) = s # rest"
    using demo_confirm_sends by (cases "snd (snd (confirm_paper_order demo_vault demo_confirm demo_submit demo_context
      ''o'' (oi_client_order_id demo_intent) (demo_desk [])))") simp_all
  have "wc_workspace_id demo_context = ''w''" by (simp add: demo_context_def demo_context_of_def)
  then have "(''w'', s) \<in> set (wo_orders ?w)"
    by (simp add: desk_run_def demo_confirmation_def desk_act_def Let_def orders_of_def first)
  then have "(''w'', s) \<in> set (wo_orders (desk_act demo_confirmation ?w))"
    using act_effect [of ?w demo_confirmation] by auto
  then have "0 < sent_by ''w'' (su_client_order_id s) (wo_orders (desk_act demo_confirmation ?w))"
    by (auto simp: sent_by_def filter_empty_conv)
  moreover have "intents_unique (dd_intents (demo_desk []))" by (simp add: intents_unique_def demo_desk_def)
  note desk_submits_at_most_once [OF this, of "[demo_confirmation, demo_confirmation]" "''w''" "su_client_order_id s"]
  ultimately show ?thesis by (intro exI [of _ "su_client_order_id s"]) (simp add: desk_run_def)
qed

section \<open>A halted workspace\<close>

text \<open>The actions that can lift a halt.\<close>

fun lifts :: "uuid \<Rightarrow> desk_action \<Rightarrow> bool" where
  "lifts ws (Asked v rq cx request) = (wc_workspace_id cx = ws \<and>
     (case request of Recover \<Rightarrow> True | Delete_credentials p \<Rightarrow> p = Alpaca | _ \<Rightarrow> False))"
| "lifts ws _ = False"

lemma own_request_halted:
  assumes "gs_active_incident (pg_status (wc_workspace_id cx) (dd_incidents db)) = Some i"
    and "\<not> lifts (wc_workspace_id cx) (Asked v rq cx request)"
  shows "dd_incidents (desk_do v rq cx request db) = dd_incidents db"
proof (cases request)
  case Halt
  then show ?thesis using pg_guardian.halt_again [OF assms(1)] by (simp add: desk_do_def guardian_halt_def)
next
  case (Delete_credentials p)
  then show ?thesis using assms(2)
    by (auto simp: desk_do_def delete_credentials_def Let_def split: sum.split)
next
  case (Confirm ci submit j cid)
  then show ?thesis by (auto simp: desk_do_def confirm_paper_order_def Let_def split: sum.split prod.split)
next
  case Recover
  then show ?thesis using assms(2) by simp
qed (use quiet_untouched [of request db v rq cx] in \<open>simp_all add: untouched_def\<close>)

lemma act_halted:
  assumes "gs_active_incident (pg_status ws (dd_incidents (wo_db w))) = Some i" and "\<not> lifts ws a"
  shows "gs_active_incident (pg_status ws (dd_incidents (wo_db (desk_act a w)))) = Some i \<and>
    filter (\<lambda>(u, s). u = ws) (wo_orders (desk_act a w)) = filter (\<lambda>(u, s). u = ws) (wo_orders w)"
proof
  show "filter (\<lambda>(u, s). u = ws) (wo_orders (desk_act a w)) = filter (\<lambda>(u, s). u = ws) (wo_orders w)"
    using act_effect [of w a] assms(1) by auto
  have "pg_status ws (dd_incidents (wo_db (desk_act a w))) = pg_status ws (dd_incidents (wo_db w))"
  proof (cases a)
    case (Asked v rq cx request)
    have db: "wo_db (desk_act a w) = desk_do v rq cx request (wo_db w)" by (simp add: Asked desk_act_def Let_def)
    show ?thesis
    proof (cases "ws = wc_workspace_id cx")
      case True
      then show ?thesis using own_request_halted [of cx "wo_db w" i v rq request] assms Asked db by simp
    next
      case False
      then show ?thesis unfolding db by (intro view_status desk_do_other)
    qed
  qed (use background_act [of a w] in \<open>auto simp: untouched_def\<close>)
  then show "gs_active_incident (pg_status ws (dd_incidents (wo_db (desk_act a w)))) = Some i"
    using assms(1) by simp
qed

end
