(* ===== verification/Desk_Steps.thy ===== *)
theory Desk_Steps
  imports Desk_System
begin

text \<open>
  The connected desk with its confirmations in flight.  A confirmation is a task that runs from one \<open>await\<close> of
  \<open>confirm_paper_order\<close>, \<open>ConnectedPreflight.execution_allowed\<close> and \<open>ExecutionEngine.execute\<close> to the next: each read
  or write of a table and the call to the broker is a step of its own, on the tables as they are then.  Between any two
  of them other confirmations run, other requests are answered and the worker does its work, and a confirmation may be
  cancelled (or its process may stop).
\<close>

section \<open>A confirmation in its phases\<close>

text \<open>A phase is named after what has just been done, and holds what the coroutine still needs.\<close>

datatype phase =
    Asked_for
  | Reviewed order_intent ranked_candidate
  | Valued order_intent ranked_candidate broker_account
  | Counted order_intent ranked_candidate broker_account "broker_position list"
  | Rated order_intent ranked_candidate broker_account "broker_position list" broker_sync_status
  | Approved order_intent
  | Armed order_intent
  | Unhalted order_intent
  | Trusted order_intent broker_sync_status
  | Cleared order_intent
  | Stored order_intent order_submission
  | Answered order_intent "broker_order result"
  | Responded "broker_order result"
  | Cancelled

record confirm_task =
  co_vault :: vault
  co_inputs :: confirm_inputs
  co_submit :: "order_submission \<Rightarrow> broker_order result"
  co_context :: workspace_context
  co_opportunity :: uuid
  co_client_order_id :: string
  co_phase :: phase

definition co_workspace :: "confirm_task \<Rightarrow> uuid" where
  "co_workspace c = wc_workspace_id (co_context c)"

text \<open>The opportunity's row and the checks on it.\<close>

definition review :: "confirm_task \<Rightarrow> desk_db \<Rightarrow> (order_intent \<times> ranked_candidate) result" where
  "review c db =
     rbind (find_opportunity (co_context c) (co_opportunity c) db) (\<lambda>a.
     case (if an_source a \<noteq> ''ALPACA_REAL'' then None else an_order_intent a) of
       None \<Rightarrow> Inl (confirm_refused ''Only real, risk-approved intents can be confirmed'')
     | Some raw_intent \<Rightarrow>
       rbind (require (\<not> an_expires_at a \<le> ci_expiry_check (co_inputs c))
         (confirm_refused ''Order review expired; analyze the symbol again'')) (\<lambda>_.
       rbind (validated (order_intent_valid (va_sha (co_vault c))) ''OrderIntent'' raw_intent) (\<lambda>intent.
       rbind (require (co_client_order_id c = oi_client_order_id intent)
         (confirm_refused ''Confirmation does not match immutable order intent'')) (\<lambda>_.
       case an_candidate a of
         None \<Rightarrow> Inl AssertionError
       | Some raw_candidate \<Rightarrow>
         rbind (validated ranked_candidate_valid ''RankedCandidate'' raw_candidate) (\<lambda>candidate.
         Inr (intent, candidate))))))"

text \<open>The second risk decision, once the gate has read the status and the account.\<close>

definition reapprove ::
  "confirm_task \<Rightarrow> ranked_candidate \<Rightarrow> broker_account \<Rightarrow> broker_position list \<Rightarrow> broker_sync_status \<Rightarrow> desk_db \<Rightarrow>
   unit result"
where
  "reapprove c candidate account positions status db =
     (let gate = broker_gate_evaluate default_maximum_age (ci_gate (co_inputs c)) status
            (pg_get_account (co_workspace c) (dd_broker db)) in
      rbind (account_risk_context account positions (eg_allowed gate)) (\<lambda>limits.
      rbind (risk_evaluate default_risk_policy (ci_risk_id (co_inputs c)) (ci_risk (co_inputs c)) candidate limits) (\<lambda>rerisk.
      require (rd_decision rerisk = APPROVE)
        (confirm_refused ''Deterministic risk no longer approves this order''))))"

definition arm :: "confirm_task \<Rightarrow> desk_db \<Rightarrow> unit result" where
  "arm c db =
     rbind (reveal (co_vault c) (co_workspace c) ''ALPACA'' db) (\<lambda>secrets.
     case secrets of
       None \<Rightarrow> Inl (confirm_refused ''Alpaca credential unavailable'')
     | Some s \<Rightarrow> rbind (rbind (alpaca_keys s) alpaca_adapter) (\<lambda>_. Inr ()))"

definition passed :: "'a result \<Rightarrow> ('a \<Rightarrow> phase) \<Rightarrow> phase" where
  "passed r next_phase = (case r of Inl e \<Rightarrow> Responded (Inl e) | Inr x \<Rightarrow> next_phase x)"

text \<open>How the engine ends, inside \<open>try\<close>.\<close>

definition engine_ends :: "broker_order result \<Rightarrow> phase" where
  "engine_ends reply = Responded (blocked_is_409 reply)"

text \<open>One step: the next phase, the tables and the order that goes out.\<close>

definition advance :: "confirm_task \<Rightarrow> desk_db \<Rightarrow> phase \<times> desk_db \<times> order_submission list" where
  "advance c db = (let ws = co_workspace c; ci = co_inputs c in case co_phase c of
      Asked_for \<Rightarrow> (passed (review c db) (\<lambda>(intent, candidate). Reviewed intent candidate), db, [])
    | Reviewed intent candidate \<Rightarrow>
        (case pg_get_account ws (dd_broker db) of
          None \<Rightarrow> (Responded (Inl (confirm_refused ''Broker account projection unavailable'')), db, [])
        | Some account \<Rightarrow> (Valued intent candidate account, db, []))
    | Valued intent candidate account \<Rightarrow>
        (Counted intent candidate account (pg_list_positions ws (dd_broker db)), db, [])
    | Counted intent candidate account positions \<Rightarrow>
        (Rated intent candidate account positions (pg_get_status ws (dd_broker db)), db, [])
    | Rated intent candidate account positions status \<Rightarrow>
        (passed (reapprove c candidate account positions status db) (\<lambda>_. Approved intent), db, [])
    | Approved intent \<Rightarrow> (passed (arm c db) (\<lambda>_. Armed intent), db, [])
    | Armed intent \<Rightarrow>
        (case gate_execution_allowed (pg_status ws (dd_incidents db)) of (allowed, reason) \<Rightarrow>
          (if allowed then Unhalted intent else engine_ends (Inl (ExecutionBlocked reason)), db, []))
    | Unhalted intent \<Rightarrow> (Trusted intent (pg_get_status ws (dd_broker db)), db, [])
    | Trusted intent status \<Rightarrow>
        (let gate = broker_gate_evaluate default_maximum_age (ci_preflight ci) status (pg_get_account ws (dd_broker db))
         in (if eg_allowed gate then Cleared intent else engine_ends (Inl (ExecutionBlocked (eg_reason gate))), db, []))
    | Cleared intent \<Rightarrow>
        (case pg_reserve ws (ci_store ci) intent (dd_intents db) of
          Inl e \<Rightarrow> (engine_ends (Inl e), db, [])
        | Inr (False, rows) \<Rightarrow> (engine_ends (Inl (duplicate_of intent)), db\<lparr>dd_intents := rows\<rparr>, [])
        | Inr (True, rows) \<Rightarrow>
            (case submission_dto intent of
              Inl e \<Rightarrow> (engine_ends (Inl e), db\<lparr>dd_intents := rows\<rparr>, [])
            | Inr submission \<Rightarrow> (Stored intent submission, db\<lparr>dd_intents := rows\<rparr>, [])))
    | Stored intent submission \<Rightarrow> (Answered intent (co_submit c submission), db, [submission])
    | Answered intent reply \<Rightarrow>
        (case pg_set_state ws (ci_store ci) (oi_client_order_id intent)
            (case reply of Inl e \<Rightarrow> SUBMISSION_UNCERTAIN | Inr order \<Rightarrow> ACCEPTED) (dd_intents db) of
          Inl e \<Rightarrow> (engine_ends (Inl e), db, [])
        | Inr rows \<Rightarrow> (engine_ends reply, db\<lparr>dd_intents := rows\<rparr>, []))
    | Responded reply \<Rightarrow> (Responded reply, db, [])
    | Cancelled \<Rightarrow> (Cancelled, db, []))"

section \<open>A confirmation that nothing interrupts\<close>

fun alone :: "nat \<Rightarrow> confirm_task \<Rightarrow> desk_db \<Rightarrow> phase \<times> desk_db \<times> order_submission list" where
  "alone 0 c db = (co_phase c, db, [])"
| "alone (Suc n) c db = (case advance c db of (p, db', out) \<Rightarrow>
     (case alone n (c\<lparr>co_phase := p\<rparr>) db' of (p', db'', out') \<Rightarrow> (p', db'', out @ out')))"

lemma alone_responded: "co_phase c = Responded r \<Longrightarrow> alone n c db = (Responded r, db, [])"
  by (induction n arbitrary: c) (simp_all add: advance_def Let_def)

lemma confirm_checks_in_steps:
  "confirm_checks (co_vault c) (co_inputs c) (co_context c) (co_opportunity c) (co_client_order_id c) db =
    rbind (review c db) (\<lambda>(intent, candidate).
    case pg_get_account (co_workspace c) (dd_broker db) of
      None \<Rightarrow> Inl (confirm_refused ''Broker account projection unavailable'')
    | Some account \<Rightarrow>
        rbind (reapprove c candidate account (pg_list_positions (co_workspace c) (dd_broker db))
          (pg_get_status (co_workspace c) (dd_broker db)) db) (\<lambda>_. rbind (arm c db) (\<lambda>_. Inr intent)))"
  unfolding confirm_checks_def review_def reapprove_def arm_def co_workspace_def Let_def
  by (auto simp: rbind_def require_def split: sum.split option.split)

lemma phase_updates [simp]:
  "co_workspace (c\<lparr>co_phase := p\<rparr>) = co_workspace c" "review (c\<lparr>co_phase := p\<rparr>) = review c"
  "reapprove (c\<lparr>co_phase := p\<rparr>) = reapprove c" "arm (c\<lparr>co_phase := p\<rparr>) = arm c"
  by (simp_all add: co_workspace_def review_def reapprove_def arm_def fun_eq_iff cong: option.case_cong)

lemma alone_checks:
  assumes "co_phase c = Asked_for"
  shows "alone (Suc (Suc (Suc (Suc (Suc (Suc n)))))) c db =
    (case confirm_checks (co_vault c) (co_inputs c) (co_context c) (co_opportunity c) (co_client_order_id c) db of
      Inl e \<Rightarrow> (Responded (Inl e), db, [])
    | Inr intent \<Rightarrow> alone n (c\<lparr>co_phase := Armed intent\<rparr>) db)"
  using assms
  by (simp add: confirm_checks_in_steps advance_def Let_def passed_def rbind_def alone_responded split: sum.split option.split prod.split)

lemma alone_engine:
  assumes "co_phase c = Armed intent"
  shows "alone (Suc (Suc (Suc (Suc (Suc (Suc 0)))))) c db =
    (case execute (pg_reserve (co_workspace c) (ci_store (co_inputs c))) (pg_set_state (co_workspace c) (ci_store (co_inputs c)))
        (Some (connected_preflight (co_workspace c) (ci_preflight (co_inputs c)) db)) (co_submit c) intent
        \<lparr> xw_store = dd_intents db, xw_submissions = [] \<rparr> of
      (reply, w) \<Rightarrow> (Responded (blocked_is_409 reply), db\<lparr>dd_intents := xw_store w\<rparr>, xw_submissions w))"
  using assms
  by (simp add: advance_def Let_def engine_ends_def alone_responded execute_def settle_def connected_preflight_def
      split: sum.split option.split prod.split bool.split)

lemma confirmation_alone:
  assumes "co_phase c = Asked_for"
    and "confirm_paper_order (co_vault c) (co_inputs c) (co_submit c) (co_context c) (co_opportunity c)
      (co_client_order_id c) db = (reply, db', orders)"
  shows "alone 12 c db = (Responded reply, db', orders)"
proof -
  have twelve: "12 = Suc (Suc (Suc (Suc (Suc (Suc (Suc (Suc (Suc (Suc (Suc (Suc 0)))))))))))" by simp
  note checks = alone_checks [OF assms(1), of "Suc (Suc (Suc (Suc (Suc (Suc 0)))))" db, folded twelve]
  show ?thesis
  proof (cases "confirm_checks (co_vault c) (co_inputs c) (co_context c) (co_opportunity c) (co_client_order_id c) db")
    case (Inl e)
    then show ?thesis using assms(2) checks by (simp add: confirm_paper_order_def)
  next
    case (Inr intent)
    have "alone 12 c db = alone (Suc (Suc (Suc (Suc (Suc (Suc 0)))))) (c\<lparr>co_phase := Armed intent\<rparr>) db"
      unfolding checks Inr by simp
    also have "\<dots> = (Responded reply, db', orders)"
      using assms(2) Inr by (subst alone_engine) (auto simp: confirm_paper_order_def co_workspace_def Let_def split: prod.splits)
    finally show ?thesis .
  qed
qed

section \<open>The desk\<close>

record desk_floor =
  fl_world :: desk_world
  fl_confirmations :: "confirm_task list"

definition proceed :: "nat \<Rightarrow> desk_floor \<Rightarrow> desk_floor" where
  "proceed k fl = (let c = fl_confirmations fl ! k; w = fl_world fl in
     case advance c (wo_db w) of (p, db, out) \<Rightarrow>
       \<lparr> fl_world = \<lparr> wo_db = db, wo_orders = wo_orders w @ map (Pair (co_workspace c)) out \<rparr>,
         fl_confirmations = (fl_confirmations fl)[k := c\<lparr>co_phase := p\<rparr>] \<rparr>)"

fun confirms :: "desk_action \<Rightarrow> bool" where
  "confirms (Asked v rq cx (Confirm ci submit i client_order_id)) = True"
| "confirms _ = False"

text \<open>The steps; of the other actions those that are \<open>permitted\<close>.\<close>

inductive floor_step :: "(desk_action \<Rightarrow> bool) \<Rightarrow> desk_floor \<Rightarrow> desk_floor \<Rightarrow> bool" for permitted where
  arrive: "co_phase c = Asked_for \<Longrightarrow>
    floor_step permitted fl (fl\<lparr>fl_confirmations := fl_confirmations fl @ [c]\<rparr>)"
| proceed: "k < length (fl_confirmations fl) \<Longrightarrow> floor_step permitted fl (proceed k fl)"
| cancel: "k < length (fl_confirmations fl) \<Longrightarrow> floor_step permitted fl
    (fl\<lparr>fl_confirmations := (fl_confirmations fl)[k := (fl_confirmations fl ! k)\<lparr>co_phase := Cancelled\<rparr>]\<rparr>)"
| other: "permitted a \<Longrightarrow> \<not> confirms a \<Longrightarrow> floor_step permitted fl (fl\<lparr>fl_world := desk_act a (fl_world fl)\<rparr>)"

definition orders_for :: "uuid \<Rightarrow> desk_floor \<Rightarrow> order_submission list" where
  "orders_for ws fl = map snd (filter (\<lambda>(v, s). v = ws) (wo_orders (fl_world fl)))"

text \<open>Nothing is interleaved when one confirmation is always the next to proceed.\<close>

lemma proceed_alone:
  assumes "alone n c db = (p, db', out)" and "k < length cs" and "cs ! k = c"
  shows "fold proceed (replicate n k) \<lparr> fl_world = \<lparr> wo_db = db, wo_orders = os \<rparr>, fl_confirmations = cs \<rparr> =
    \<lparr> fl_world = \<lparr> wo_db = db', wo_orders = os @ map (Pair (co_workspace c)) out \<rparr>,
      fl_confirmations = cs[k := c\<lparr>co_phase := p\<rparr>] \<rparr>"
  using assms
proof (induction n arbitrary: c db p db' out os cs)
  case 0
  then show ?case by auto
next
  case (Suc n)
  obtain p1 db1 out1 where one: "advance c db = (p1, db1, out1)" by (metis prod_cases3)
  obtain p2 db2 out2 where rest: "alone n (c\<lparr>co_phase := p1\<rparr>) db1 = (p2, db2, out2)" by (metis prod_cases3)
  have all: "p = p2" "db' = db2" "out = out1 @ out2" using Suc.prems(1) one rest by simp_all
  show ?case
    using Suc.IH [OF rest, of "cs[k := c\<lparr>co_phase := p1\<rparr>]" "os @ map (Pair (co_workspace c)) out1"] Suc.prems(2,3) one
    by (simp add: all proceed_def Let_def)
qed

lemma fold_proceed:
  "list_all (\<lambda>k. k < length (fl_confirmations fl)) ks \<Longrightarrow> (floor_step permitted)\<^sup>*\<^sup>* fl (fold proceed ks fl)"
proof (induction ks arbitrary: fl)
  case (Cons k ks)
  have "length (fl_confirmations (proceed k fl)) = length (fl_confirmations fl)"
    by (simp add: proceed_def Let_def split: prod.split)
  with Cons show ?case by (auto intro: converse_rtranclp_into_rtranclp floor_step.proceed)
qed simp

lemma orders_only_grow: "\<exists>more. orders_for ws (fold proceed ks fl) = orders_for ws fl @ more"
proof (induction ks arbitrary: fl)
  case (Cons k ks)
  have "\<exists>more. orders_for ws (proceed k fl) = orders_for ws fl @ more"
    by (simp add: proceed_def Let_def orders_for_def split: prod.split)
  with Cons [of "proceed k fl"] show ?case by auto
qed simp

section \<open>A halt while confirmations are in flight\<close>

text \<open>The order of a confirmation that has been told that the guardian is normal and has not sent it yet.\<close>

definition past_guardian :: "uuid \<Rightarrow> confirm_task \<Rightarrow> order_submission list" where
  "past_guardian ws c = (if co_workspace c \<noteq> ws then [] else case co_phase c of
      Unhalted intent \<Rightarrow> [submission_of intent]
    | Trusted intent status \<Rightarrow> [submission_of intent]
    | Cleared intent \<Rightarrow> [submission_of intent]
    | Stored intent submission \<Rightarrow> [submission]
    | _ \<Rightarrow> [])"

definition in_flight :: "uuid \<Rightarrow> desk_floor \<Rightarrow> order_submission list" where
  "in_flight ws fl = concat (map (past_guardian ws) (fl_confirmations fl))"

text \<open>A step of a confirmation sends nothing but what was in flight, and on a halted desk nothing joins it.\<close>

lemma advance_effect:
  assumes "advance c db = (p, db', out)"
  shows "dd_incidents db' = dd_incidents db" and "co_workspace c \<noteq> ws \<Longrightarrow> past_guardian ws (c\<lparr>co_phase := p\<rparr>) = []"
    and "gs_active_incident (pg_status (co_workspace c) (dd_incidents db)) = Some i \<Longrightarrow>
      mset (out @ past_guardian (co_workspace c) (c\<lparr>co_phase := p\<rparr>)) \<subseteq># mset (past_guardian (co_workspace c) c)"
proof -
  show "dd_incidents db' = dd_incidents db"
    using assms by (auto simp: advance_def Let_def split: phase.splits option.splits prod.splits sum.splits bool.splits)
  show "co_workspace c \<noteq> ws \<Longrightarrow> past_guardian ws (c\<lparr>co_phase := p\<rparr>) = []" by (simp add: past_guardian_def)
  assume "gs_active_incident (pg_status (co_workspace c) (dd_incidents db)) = Some i"
  then have "\<not> fst (gate_execution_allowed (pg_status (co_workspace c) (dd_incidents db)))"
    using pg_guardian.gate_blocked by fastforce
  then show "mset (out @ past_guardian (co_workspace c) (c\<lparr>co_phase := p\<rparr>)) \<subseteq># mset (past_guardian (co_workspace c) c)"
    using assms submission_dto_Inr
    by (cases "co_phase c") (auto simp: advance_def Let_def past_guardian_def passed_def engine_ends_def
        split: option.splits prod.splits sum.splits bool.splits if_splits)
qed

lemma concat_update:
  assumes "k < length xs"
  shows "mset (concat (map g (xs[k := x]))) + mset (g (xs ! k)) = mset (concat (map g xs)) + mset (g x)"
  using assms
proof (induction xs arbitrary: k)
  case (Cons y ys)
  show ?case
  proof (cases k)
    case (Suc j)
    then have "mset (concat (map g (ys[j := x]))) + mset (g (ys ! j)) = mset (concat (map g ys)) + mset (g x)"
      using Cons by simp
    then show ?thesis using Suc by (simp add: ac_simps)
  qed simp
qed simp

lemma in_flight_update:
  assumes "k < length (fl_confirmations fl)" and "fl_confirmations fl' = (fl_confirmations fl)[k := c]"
    and "mset (out @ past_guardian ws c) \<subseteq># mset (past_guardian ws (fl_confirmations fl ! k))"
  shows "mset (out @ in_flight ws fl') \<subseteq># mset (in_flight ws fl)"
proof -
  have "mset (in_flight ws fl') + mset (past_guardian ws (fl_confirmations fl ! k)) =
      mset (in_flight ws fl) + mset (past_guardian ws c)"
    using concat_update [OF assms(1), of "past_guardian ws" c] assms(2) by (simp add: in_flight_def)
  then have "mset (out @ in_flight ws fl') + mset (past_guardian ws (fl_confirmations fl ! k)) =
      mset (in_flight ws fl) + mset (out @ past_guardian ws c)" by (simp add: ac_simps)
  also have "\<dots> \<subseteq># mset (in_flight ws fl) + mset (past_guardian ws (fl_confirmations fl ! k))"
    using assms(3) by (intro subset_mset.add_left_mono)
  finally show ?thesis by (simp only: mset_subset_eq_mono_add_right_cancel)
qed

lemma subset_mset_trans_append:
  assumes "mset (out @ xs) \<subseteq># M" and "mset (out' @ ys) \<subseteq># mset xs"
  shows "mset ((out @ out') @ ys) \<subseteq># M"
proof -
  have "mset out + mset (out' @ ys) \<subseteq># mset out + mset xs" using assms(2) by (rule subset_mset.add_left_mono)
  also have "\<dots> \<subseteq># M" using assms(1) by simp
  finally show ?thesis by (simp add: add.assoc)
qed

lemma halted_step:
  assumes "floor_step (\<lambda>a. \<not> lifts ws a) fl fl'"
    and "gs_active_incident (pg_status ws (dd_incidents (wo_db (fl_world fl)))) = Some i"
  shows "gs_active_incident (pg_status ws (dd_incidents (wo_db (fl_world fl')))) = Some i \<and>
    (\<exists>out. orders_for ws fl' = orders_for ws fl @ out \<and> mset (out @ in_flight ws fl') \<subseteq># mset (in_flight ws fl))"
  using assms(1)
proof cases
  case (arrive c)
  then have "in_flight ws fl' = in_flight ws fl" by (simp add: in_flight_def past_guardian_def)
  with arrive assms(2) show ?thesis by (simp add: orders_for_def)
next
  case (cancel k)
  let ?c = "(fl_confirmations fl ! k)\<lparr>co_phase := Cancelled\<rparr>"
  have "past_guardian ws ?c = []" by (simp add: past_guardian_def)
  then have "mset ([] @ in_flight ws fl') \<subseteq># mset (in_flight ws fl)"
    using cancel by (intro in_flight_update [of k fl fl' ?c]) simp_all
  with cancel assms(2) show ?thesis by (simp add: orders_for_def)
next
  case (other a)
  then show ?thesis using act_halted [OF assms(2), of a] by (simp add: orders_for_def in_flight_def)
next
  case (proceed k)
  let ?c = "fl_confirmations fl ! k"
  obtain p db out where step: "advance ?c (wo_db (fl_world fl)) = (p, db, out)" by (metis prod_cases3)
  let ?out = "if co_workspace ?c = ws then out else []"
  have fl': "wo_db (fl_world fl') = db" "fl_confirmations fl' = (fl_confirmations fl)[k := ?c\<lparr>co_phase := p\<rparr>]"
    "orders_for ws fl' = orders_for ws fl @ ?out"
    using step by (simp_all add: proceed(1) proceed_def Let_def orders_for_def filter_map comp_def)
  have "mset (?out @ past_guardian ws (?c\<lparr>co_phase := p\<rparr>)) \<subseteq># mset (past_guardian ws ?c)"
    using advance_effect(2,3) [OF step] assms(2) by (cases "co_workspace ?c = ws") simp_all
  from in_flight_update [OF proceed(2) fl'(2) this] show ?thesis
    using fl' advance_effect(1) [OF step] assms(2) by auto
qed

text \<open>C9. From the moment at which a halt of a workspace is committed, and until somebody of the workspace asks for a
  recovery or deletes its Alpaca credentials, the incident stays the active one, and the only orders that the engine
  hands the broker for the workspace are those of confirmations that had already passed the guardian's check and were
  waiting to submit, each at most once: no confirmation that is checked later or arrives later sends anything.  This
  holds for every interleaving of the steps of all confirmations with each other, with cancellations and with all other
  requests and the worker.  (Closing a position does not go through the engine and asks no gate.)\<close>

theorem halted_desk_sends_only_what_was_checked:
  assumes "gs_active_incident (pg_status ws (dd_incidents (wo_db (fl_world fl)))) = Some i"
    and "(floor_step (\<lambda>a. \<not> lifts ws a))\<^sup>*\<^sup>* fl fl'"
  shows "gs_active_incident (pg_status ws (dd_incidents (wo_db (fl_world fl')))) = Some i \<and>
    (\<exists>out. orders_for ws fl' = orders_for ws fl @ out \<and> mset out \<subseteq># mset (in_flight ws fl))"
proof -
  have "gs_active_incident (pg_status ws (dd_incidents (wo_db (fl_world fl')))) = Some i \<and>
    (\<exists>out. orders_for ws fl' = orders_for ws fl @ out \<and> mset (out @ in_flight ws fl') \<subseteq># mset (in_flight ws fl))"
    using assms(2)
  proof (induction rule: rtranclp_induct)
    case base
    then show ?case using assms(1) by simp
  next
    case (step fl1 fl2)
    then obtain out where out: "orders_for ws fl1 = orders_for ws fl @ out"
      "mset (out @ in_flight ws fl1) \<subseteq># mset (in_flight ws fl)" by blast
    obtain out' where out': "orders_for ws fl2 = orders_for ws fl1 @ out'"
      "mset (out' @ in_flight ws fl2) \<subseteq># mset (in_flight ws fl1)"
      using halted_step [OF step(2)] step.IH by blast
    have "orders_for ws fl2 = orders_for ws fl @ out @ out'" using out(1) out'(1) by simp
    moreover have "mset ((out @ out') @ in_flight ws fl2) \<subseteq># mset (in_flight ws fl)"
      by (rule subset_mset_trans_append [OF out(2) out'(2)])
    ultimately show ?case using halted_step [OF step(2)] step.IH by blast
  qed
  then show ?thesis by (auto intro: subset_mset.order_trans [OF mset_subset_eq_add_left])
qed

text \<open>Two confirmations of one order.  The first one has passed the guardian when the desk is halted; it still sends
  its order.  The second one arrives after the halt and is refused.\<close>

definition demo_task :: confirm_task where
  "demo_task = \<lparr> co_vault = demo_vault, co_inputs = demo_confirm, co_submit = demo_submit, co_context = demo_context,
     co_opportunity = ''o'', co_client_order_id = oi_client_order_id demo_intent, co_phase = Asked_for \<rparr>"

definition demo_account :: broker_account where
  "demo_account = the (pg_get_account ''w'' demo_db)"

definition halted_desk :: desk_db where
  "halted_desk = desk_do demo_vault demo_request demo_context Halt (demo_desk [])"

definition halted_late :: desk_floor where
  "halted_late = \<lparr> fl_world = \<lparr> wo_db = halted_desk, wo_orders = [] \<rparr>,
     fl_confirmations = [demo_task\<lparr>co_phase := Unhalted demo_intent\<rparr>, demo_task] \<rparr>"

lemma demo_task_simps [simp]:
  "co_workspace demo_task = ''w''" "co_inputs demo_task = demo_confirm" "co_phase demo_task = Asked_for"
  "co_submit demo_task = demo_submit" "ci_preflight demo_confirm = seconds 30" "dd_broker (demo_desk incidents) = demo_db"
  "dd_intents (demo_desk incidents) = []" "dd_incidents (demo_desk incidents) = incidents"
  by (simp_all add: demo_task_def co_workspace_def demo_context_def demo_context_of_def demo_confirm_def demo_desk_def)

lemma demo_has_account: "pg_get_account ''w'' demo_db = Some demo_account"
proof -
  have "pg_get_account ''w'' demo_db \<noteq> None" by code_simp
  then show ?thesis by (simp add: demo_account_def)
qed

lemma demo_review: "review demo_task (demo_desk incidents) = Inr (demo_intent, demo_candidate)"
proof -
  have "order_intent_valid id demo_intent" unfolding demo_intent_def by (rule sample_intent_valid) simp
  moreover have "ranked_candidate_valid demo_candidate" by code_simp
  moreover have "seconds 30 < an_expires_at demo_analysis" by code_simp
  ultimately show ?thesis
    by (simp add: review_def demo_task_def find_opportunity_def demo_desk_def demo_context_def demo_context_of_def
        opportunity_row_of_def demo_analysis_def analysis_base_def demo_ids_def validated_def demo_vault_def
        demo_confirm_def require_def)
qed

lemma demo_reapproved:
  "reapprove demo_task demo_candidate demo_account (pg_list_positions ''w'' demo_db) (pg_get_status ''w'' demo_db)
    (demo_desk incidents) = Inr ()"
  unfolding reapprove_def demo_task_def co_workspace_def demo_desk_def demo_account_def demo_confirm_def demo_context_def
    demo_context_of_def by code_simp

lemma demo_armed: "arm demo_task (demo_desk incidents) = Inr ()"
  unfolding arm_def demo_task_def co_workspace_def demo_desk_def demo_context_def demo_context_of_def by code_simp

lemma demo_gate:
  "eg_allowed (broker_gate_evaluate default_maximum_age (seconds 30) (pg_get_status ''w'' demo_db) (Some demo_account))"
  unfolding demo_account_def by code_simp

lemma demo_no_incident: "gate_execution_allowed (pg_status ''w'' []) = (True, ''Guardian is normal'')"
  by code_simp

lemma demo_reaches: "alone 7 demo_task (demo_desk []) = (Unhalted demo_intent, demo_desk [], [])"
proof -
  have "alone 7 demo_task (demo_desk []) = alone (Suc (Suc (Suc (Suc (Suc (Suc (Suc 0))))))) demo_task (demo_desk [])"
    by (rule arg_cong [where f = "\<lambda>n. alone n demo_task (demo_desk [])"]) simp
  also have "\<dots> = alone (Suc 0) (demo_task\<lparr>co_phase := Armed demo_intent\<rparr>) (demo_desk [])"
    using confirm_checks_in_steps [of demo_task "demo_desk []"]
    by (subst alone_checks) (simp_all add: demo_review demo_has_account demo_reapproved demo_armed)
  also have "\<dots> = (Unhalted demo_intent, demo_desk [], [])"
    by (simp add: advance_def Let_def demo_no_incident)
  finally show ?thesis .
qed

lemma demo_sends: "snd (snd (alone 4 (demo_task\<lparr>co_phase := Unhalted demo_intent\<rparr>) halted_desk)) = [submission_of demo_intent]"
proof -
  have dto: "submission_dto demo_intent = Inr (submission_of demo_intent)"
    unfolding demo_intent_def by (rule submission_dto_valid [OF sample_intent_valid]) simp
  have "\<exists>rows. halted_desk = demo_desk rows"
    by (simp add: halted_desk_def desk_do_def guardian_halt_def demo_desk_def case_prod_unfold)
  then obtain rows where halted: "halted_desk = demo_desk rows" by blast
  have four: "4 = Suc (Suc (Suc (Suc 0)))" by simp
  show ?thesis
    unfolding halted four by (simp add: dto advance_def Let_def demo_has_account demo_gate pg_reserve_def)
qed

text \<open>The desk is reachable: the confirmation runs, then the halt is committed and the other confirmation arrives.\<close>

lemma halted_late_reachable:
  "(floor_step (\<lambda>_. True))\<^sup>*\<^sup>*
     \<lparr> fl_world = \<lparr> wo_db = demo_desk [], wo_orders = [] \<rparr>, fl_confirmations = [demo_task] \<rparr> halted_late"
  (is "?R\<^sup>*\<^sup>* ?start _")
proof -
  let ?fl = "\<lparr> fl_world = \<lparr> wo_db = demo_desk [], wo_orders = [] \<rparr>,
    fl_confirmations = [demo_task\<lparr>co_phase := Unhalted demo_intent\<rparr>] \<rparr>"
  let ?halt = "Asked demo_vault demo_request demo_context Halt"
  have "fold proceed (replicate 7 0) ?start = ?fl" using proceed_alone [OF demo_reaches, of 0 "[demo_task]" "[]"] by simp
  moreover have "?R\<^sup>*\<^sup>* ?start (fold proceed (replicate 7 0) ?start)"
    by (intro fold_proceed) (simp add: list_all_iff)
  moreover have "?R ?fl (?fl\<lparr>fl_world := desk_act ?halt (fl_world ?fl)\<rparr>)" by (rule floor_step.other) simp_all
  moreover have "?R (?fl\<lparr>fl_world := desk_act ?halt (fl_world ?fl)\<rparr>) halted_late"
    using floor_step.arrive [of demo_task "\<lambda>_. True" "?fl\<lparr>fl_world := desk_act ?halt (fl_world ?fl)\<rparr>"]
    by (simp add: halted_late_def halted_desk_def desk_act_def Let_def orders_of_def)
  ultimately show ?thesis by (metis rtranclp.rtrancl_into_rtrancl)
qed

lemma halted_late_facts:
  "gs_active_incident (pg_status ''w'' (dd_incidents (wo_db (fl_world halted_late)))) \<noteq> None"
  "orders_for ''w'' halted_late = []"
  "orders_for ''w'' (fold proceed (replicate 4 0) halted_late) = [submission_of demo_intent]"
proof -
  have "gs_active_incident (pg_status ''w'' (dd_incidents halted_desk)) \<noteq> None" by code_simp
  then show "gs_active_incident (pg_status ''w'' (dd_incidents (wo_db (fl_world halted_late)))) \<noteq> None"
    by (simp add: halted_late_def)
  show "orders_for ''w'' halted_late = []" by (simp add: halted_late_def orders_for_def)
  obtain p db where sends: "alone 4 (demo_task\<lparr>co_phase := Unhalted demo_intent\<rparr>) halted_desk =
      (p, db, [submission_of demo_intent])"
    using demo_sends by (metis prod.collapse)
  show "orders_for ''w'' (fold proceed (replicate 4 0) halted_late) = [submission_of demo_intent]"
    using proceed_alone [OF sends, of 0 "fl_confirmations halted_late" "[]"] by (simp add: halted_late_def orders_for_def)
qed

text \<open>So a halt does not stop an order that has passed the guardian: on a desk that can be reached and is halted, the
  order goes out.\<close>

lemma halt_comes_too_late:
  "\<exists>fl fl'. (floor_step (\<lambda>_. True))\<^sup>*\<^sup>*
       \<lparr> fl_world = \<lparr> wo_db = demo_desk [], wo_orders = [] \<rparr>, fl_confirmations = [demo_task] \<rparr> fl \<and>
     gs_active_incident (pg_status ''w'' (dd_incidents (wo_db (fl_world fl)))) \<noteq> None \<and> orders_for ''w'' fl = [] \<and>
     (floor_step (\<lambda>a. \<not> lifts ''w'' a))\<^sup>*\<^sup>* fl fl' \<and> orders_for ''w'' fl' = [submission_of demo_intent]"
proof -
  have "(floor_step (\<lambda>a. \<not> lifts ''w'' a))\<^sup>*\<^sup>* halted_late (fold proceed (replicate 4 0) halted_late)"
    by (intro fold_proceed) (simp add: halted_late_def list_all_iff)
  with halted_late_reachable halted_late_facts show ?thesis by blast
qed

theorem halted_desk_sends_only_what_was_checked_witness:
  "orders_for ''w'' (fold proceed (replicate 4 0 @ replicate 12 1) halted_late) = [submission_of demo_intent]"
proof -
  let ?mid = "fold proceed (replicate 4 0) halted_late"
  let ?fl = "fold proceed (replicate 4 0 @ replicate 12 1) halted_late"
  obtain i where i: "gs_active_incident (pg_status ''w'' (dd_incidents (wo_db (fl_world halted_late)))) = Some i"
    using halted_late_facts(1) by blast
  have run: "(floor_step (\<lambda>a. \<not> lifts ''w'' a))\<^sup>*\<^sup>* halted_late ?fl"
    by (intro fold_proceed) (simp add: halted_late_def list_all_iff)
  obtain out where out: "orders_for ''w'' ?fl = out" "mset out \<subseteq># {#submission_of demo_intent#}"
    using halted_desk_sends_only_what_was_checked [OF i run]
    by (auto simp: halted_late_def orders_for_def in_flight_def past_guardian_def)
  note halted_late_facts(3)
  moreover have "\<exists>more. orders_for ''w'' ?fl = orders_for ''w'' ?mid @ more"
    by (simp only: fold_append o_apply) (rule orders_only_grow)
  moreover have "length out \<le> 1" using size_mset_mono [OF out(2)] by simp
  ultimately show ?thesis using out(1) by auto
qed

section \<open>Closing a position\<close>

text \<open>A position is closed whether or not the desk is halted: the endpoint does not read the guardian.\<close>

lemma closing_ignores_the_halt:
  "close_position v cx symbol closing snapshot (db\<lparr>dd_incidents := rows\<rparr>) =
    apsnd (\<lambda>db'. db'\<lparr>dd_incidents := rows\<rparr>) (close_position v cx symbol closing snapshot db)"
  by (simp add: close_position_def reveal_def split: sum.split prod.split)

end
