(* ===== verification/Identity.thy ===== *)
theory Identity
  imports Json Prelude
begin

text \<open>
  \<open>packages/auth/jwt.py\<close>: the identity in an access token; \<open>packages/auth/supabase_admin.py\<close>: the adapter that
  administers the accounts of the hosted identity provider.

  Outside the repository: the JWT library (\<open>decode\<close>: keys, token, audience and issuer to the claims), the HTTP
  client (\<open>http\<close>: a request to its outcome), the JSON parser (\<open>parse\<close>) and \<open>str\<close> of a JSON value.
\<close>

section \<open>Access tokens\<close>

definition py_rstrip :: "char \<Rightarrow> string \<Rightarrow> string" where
  "py_rstrip ch s = rev (dropWhile (\<lambda>c. c = ch) (rev s))"

record verified_identity =
  vi_subject :: string
  vi_email :: string

record jwt_verifier =
  jv_issuer :: string
  jv_audience :: string
  jv_jwks_url :: string

definition new_jwt_verifier :: "string \<Rightarrow> string \<Rightarrow> jwt_verifier" where
  "new_jwt_verifier supabase_url audience =
     (let issuer = py_rstrip (CHR 0x2F) supabase_url @ ''/auth/v1'' in
      \<lparr> jv_issuer = issuer, jv_audience = audience, jv_jwks_url = issuer @ ''/.well-known/jwks.json'' \<rparr>)"

text \<open>\<open>str(document.get(name, ""))\<close>\<close>

definition json_text_field :: "(json \<Rightarrow> string) \<Rightarrow> (string \<times> json) list \<Rightarrow> string \<Rightarrow> string" where
  "json_text_field py_str document name =
     (case map_of document name of None \<Rightarrow> [] | Some v \<Rightarrow> json_str py_str v)"

definition verify_token ::
  "(string \<Rightarrow> string \<Rightarrow> string \<Rightarrow> string \<Rightarrow> (string \<times> json) list result) \<Rightarrow> (json \<Rightarrow> string) \<Rightarrow> jwt_verifier \<Rightarrow>
   string \<Rightarrow> verified_identity result"
where
  "verify_token decode py_str v token =
     (case decode (jv_jwks_url v) token (jv_audience v) (jv_issuer v) of
       Inl e \<Rightarrow> Inl (AuthenticationError ''Invalid or expired access token'')
     | Inr claims \<Rightarrow>
       let subject = json_text_field py_str claims ''sub'';
           email = py_lower (py_strip (json_text_field py_str claims ''email''))
       in if subject = [] \<or> email = []
          then Inl (AuthenticationError ''Authenticated identity is missing subject or email'')
          else Inr \<lparr> vi_subject = subject, vi_email = email \<rparr>)"

section \<open>The administration of accounts\<close>

record supabase_identity =
  si_subject :: string
  si_email :: string

record registration_status =
  rg_supabase_url_configured :: bool
  rg_server_secret_configured :: bool
  rg_public_signup_disabled :: bool
  rg_admin_auth_reachable :: bool

definition registration_available :: "registration_status \<Rightarrow> bool" where
  "registration_available s \<longleftrightarrow> rg_supabase_url_configured s \<and> rg_server_secret_configured s \<and>
     rg_public_signup_disabled s \<and> rg_admin_auth_reachable s"

record supabase_admin =
  sa_base_url :: string
  sa_secret_key :: string

definition new_supabase_admin :: "string \<Rightarrow> string \<Rightarrow> supabase_admin" where
  "new_supabase_admin supabase_url secret_key =
     \<lparr> sa_base_url = py_rstrip (CHR 0x2F) supabase_url @ ''/auth/v1'', sa_secret_key = secret_key \<rparr>"

record http_request =
  hr_url :: string
  hr_body :: "(string \<times> json) list option"
  hr_method :: string
  hr_headers :: "(string \<times> string) list"

text \<open>The outcome of a request: the text of a reply, an \<open>HTTPError\<close> with its code, a \<open>URLError\<close> or a
  \<open>TimeoutError\<close>, or an exception that the adapter does not expect.\<close>

datatype http_outcome = Http_reply string | Http_error nat | Unreachable | Other_failure py_error

definition auth_unavailable :: py_error where
  "auth_unavailable = SupabaseAdminError ''Supabase Auth administration is unavailable''"

definition supabase_request ::
  "(http_request \<Rightarrow> http_outcome) \<Rightarrow> (string \<Rightarrow> json option) \<Rightarrow> supabase_admin \<Rightarrow> string \<Rightarrow> string \<Rightarrow>
   (string \<times> json) list option \<Rightarrow> (string \<times> json) list result"
where
  "supabase_request http parse a meth path payload =
     (case http \<lparr> hr_url = sa_base_url a @ path, hr_body = payload, hr_method = meth,
         hr_headers = [(''Accept'', ''application/json''), (''Content-Type'', ''application/json''),
           (''apikey'', sa_secret_key a), (''Authorization'', ''Bearer '' @ sa_secret_key a)] \<rparr> of
       Http_error code \<Rightarrow> Inl (if code \<in> {400, 409, 422}
         then SupabaseAdminError ''Supabase could not create this account'' else auth_unavailable)
     | Unreachable \<Rightarrow> Inl auth_unavailable
     | Other_failure e \<Rightarrow> Inl e
     | Http_reply body \<Rightarrow>
       (case parse (if body = [] then ''{}'' else body) of
         None \<Rightarrow> Inl auth_unavailable
       | Some (JObject document) \<Rightarrow> Inr document
       | Some _ \<Rightarrow> Inl (SupabaseAdminError ''Supabase Auth returned an invalid response'')))"

definition supabase_create_user ::
  "(http_request \<Rightarrow> http_outcome) \<Rightarrow> (string \<Rightarrow> json option) \<Rightarrow> (json \<Rightarrow> string) \<Rightarrow> supabase_admin \<Rightarrow>
   string \<Rightarrow> string \<Rightarrow> supabase_identity result"
where
  "supabase_create_user http parse py_str a email password =
     rbind (supabase_request http parse a ''POST'' ''/admin/users''
       (Some [(''email'', JString email), (''password'', JString password), (''email_confirm'', JBool True)])) (\<lambda>document.
     let subject = py_strip (json_text_field py_str document ''id'');
         returned_email = py_lower (py_strip (json_text_field py_str document ''email''))
     in if subject = [] \<or> returned_email \<noteq> email
        then Inl (SupabaseAdminError ''Supabase Auth returned an invalid user record'')
        else Inr \<lparr> si_subject = subject, si_email = returned_email \<rparr>)"

definition supabase_delete_user ::
  "(http_request \<Rightarrow> http_outcome) \<Rightarrow> (string \<Rightarrow> json option) \<Rightarrow> supabase_admin \<Rightarrow> string \<Rightarrow> unit result" where
  "supabase_delete_user http parse a subject =
     rbind (supabase_request http parse a ''DELETE'' (''/admin/users/'' @ subject) None) (\<lambda>_. Inr ())"

text \<open>A \<open>SupabaseAdminError\<close> of either request leaves the flags as they are by then.\<close>

definition supabase_registration_status ::
  "(http_request \<Rightarrow> http_outcome) \<Rightarrow> (string \<Rightarrow> json option) \<Rightarrow> supabase_admin \<Rightarrow> registration_status result" where
  "supabase_registration_status http parse a =
     (let status = (\<lambda>disabled reachable. Inr \<lparr> rg_supabase_url_configured = True,
          rg_server_secret_configured = True, rg_public_signup_disabled = disabled,
          rg_admin_auth_reachable = reachable \<rparr>)
      in case supabase_request http parse a ''GET'' ''/settings'' None of
        Inl (SupabaseAdminError _) \<Rightarrow> status False False
      | Inl e \<Rightarrow> Inl e
      | Inr settings \<Rightarrow>
        let disabled = (map_of settings ''disable_signup'' = Some (JBool True)) in
        (case supabase_request http parse a ''GET'' ''/admin/users?page=1&per_page=1'' None of
          Inl (SupabaseAdminError _) \<Rightarrow> status disabled False
        | Inl e \<Rightarrow> Inl e
        | Inr _ \<Rightarrow> status disabled True))"

end
