(* ===== verification/Accounts.thy ===== *)
theory Accounts
  imports Identity Desk_State
begin

text \<open>
  \<open>packages/auth/invitations.py\<close>, \<open>workspaces.py\<close>, \<open>registration.py\<close> and \<open>dependencies.py\<close>: invitations, the
  workspace that a registration creates, and the user and workspace of a request.

  A transaction that raises changes nothing.  The unique keys and the column widths of the tables that
  these operations can violate are checked by the inserts.
\<close>

section \<open>Tables\<close>

record app_user =
  us_user_id :: uuid
  us_auth_subject :: string
  us_email :: string
  us_is_admin :: bool
  us_created_at :: instant
  us_last_seen_at :: instant

record invitation_row =
  iv_invitation_id :: uuid
  iv_token_hash :: string
  iv_code_format :: string
  iv_comment :: string
  iv_max_uses :: int
  iv_use_count :: int
  iv_expires_at :: "instant option"
  iv_disabled_at :: "instant option"
  iv_created_by_user_id :: uuid
  iv_created_at :: instant

record redemption_row =
  rp_redemption_id :: uuid
  rp_invitation_id :: uuid
  rp_user_id :: uuid
  rp_redeemed_at :: instant

record account_db =
  ac_users :: "app_user list"
  ac_invitations :: "invitation_row list"
  ac_redemptions :: "redemption_row list"
  ac_workspaces :: "workspace_row list"
  ac_watchlist :: "watchlist_row list"
  ac_audit :: "audit_row list"

text \<open>An insert raises when the row is too wide for its columns or clashes with a unique key.\<close>

definition db_insert :: "('a \<Rightarrow> bool) \<Rightarrow> ('a \<Rightarrow> 'a \<Rightarrow> bool) \<Rightarrow> 'a \<Rightarrow> 'a list \<Rightarrow> 'a list result" where
  "db_insert fits clash x rows =
     (if \<not> fits x then Inl data_error
      else if list_ex (clash x) rows then Inl integrity_error else Inr (rows @ [x]))"

definition user_fits :: "app_user \<Rightarrow> bool" where
  "user_fits u \<longleftrightarrow> length (us_auth_subject u) \<le> 128 \<and> length (us_email u) \<le> 320"

definition user_clash :: "app_user \<Rightarrow> app_user \<Rightarrow> bool" where
  "user_clash a b \<longleftrightarrow> us_user_id a = us_user_id b \<or> us_auth_subject a = us_auth_subject b \<or> us_email a = us_email b"

definition invitation_clash :: "invitation_row \<Rightarrow> invitation_row \<Rightarrow> bool" where
  "invitation_clash a b \<longleftrightarrow> iv_invitation_id a = iv_invitation_id b \<or> iv_token_hash a = iv_token_hash b"

definition redemption_clash :: "redemption_row \<Rightarrow> redemption_row \<Rightarrow> bool" where
  "redemption_clash a b \<longleftrightarrow> rp_redemption_id a = rp_redemption_id b \<or>
     rp_invitation_id a = rp_invitation_id b \<and> rp_user_id a = rp_user_id b"

definition workspace_fits :: "workspace_row \<Rightarrow> bool" where
  "workspace_fits w \<longleftrightarrow> length (ws_name w) \<le> 120"

definition workspace_clash :: "workspace_row \<Rightarrow> workspace_row \<Rightarrow> bool" where
  "workspace_clash a b \<longleftrightarrow> ws_workspace_id a = ws_workspace_id b \<or> ws_owner_user_id a = ws_owner_user_id b"

definition watchlist_clash :: "watchlist_row \<Rightarrow> watchlist_row \<Rightarrow> bool" where
  "watchlist_clash a b \<longleftrightarrow> wl_workspace_id a = wl_workspace_id b \<and> wl_symbol a = wl_symbol b"

definition audit_clash :: "audit_row \<Rightarrow> audit_row \<Rightarrow> bool" where
  "audit_clash a b \<longleftrightarrow> au_audit_id a = au_audit_id b"

fun insert_all :: "('a \<Rightarrow> 'a \<Rightarrow> bool) \<Rightarrow> 'a list \<Rightarrow> 'a list \<Rightarrow> 'a list result" where
  "insert_all clash [] rows = Inr rows"
| "insert_all clash (x # xs) rows = rbind (db_insert (\<lambda>_. True) clash x rows) (insert_all clash xs)"

section \<open>Invitations\<close>

definition default_watchlist :: "string list" where
  "default_watchlist = [''AAPL'', ''AMZN'', ''META'', ''MSFT'', ''NVDA'', ''SPY'', ''TSLA'']"

definition crockford_alphabet :: string where
  "crockford_alphabet = ''0123456789ABCDEFGHJKMNPQRSTVWXYZ''"

definition readable_code_length :: nat where
  "readable_code_length = 26"

definition normalize_readable_code :: "string \<Rightarrow> string" where
  "normalize_readable_code code = filter (\<lambda>ch. ch \<noteq> CHR ''-'' \<and> ch \<noteq> CHR '' '') (py_upper code)"

definition invitation_hash_candidates :: "(string \<Rightarrow> string) \<Rightarrow> string \<Rightarrow> string list" where
  "invitation_hash_candidates sha code =
     (let raw = py_strip code; hash = sha (normalize_readable_code raw); legacy_hash = sha raw in
      if legacy_hash \<noteq> hash then [hash, legacy_hash] else [hash])"

text \<open>The groups of five characters, and \<open>sep.join\<close>.\<close>

function chunks :: "nat \<Rightarrow> 'a list \<Rightarrow> 'a list list" where
  "chunks n [] = []"
| "chunks n (x # xs) = (x # take (n - 1) xs) # chunks n (drop (n - 1) xs)"
  by pat_completeness auto
termination by (relation "measure (length \<circ> snd)") auto

fun join_with :: "string \<Rightarrow> string list \<Rightarrow> string" where
  "join_with sep [] = []"
| "join_with sep [x] = x"
| "join_with sep (x # y # ys) = x @ sep @ join_with sep (y # ys)"

text \<open>\<open>raw\<close> are the characters that \<open>secrets.choice\<close> drew.\<close>

definition drawn_code :: "string \<Rightarrow> bool" where
  "drawn_code raw \<longleftrightarrow> length raw = readable_code_length \<and> set raw \<subseteq> set crockford_alphabet"

definition generate_invitation_code :: "string \<Rightarrow> string" where
  "generate_invitation_code raw = join_with ''-'' (chunks 5 raw)"

definition day_span :: "int \<Rightarrow> int" where
  "day_span n = seconds (86400 * n)"

definition create_invitation ::
  "(string \<Rightarrow> string) \<Rightarrow> string \<Rightarrow> uuid \<Rightarrow> instant \<Rightarrow> uuid \<Rightarrow> string \<Rightarrow> int \<Rightarrow> instant option \<Rightarrow> account_db \<Rightarrow>
   ((invitation_row \<times> string) \<times> account_db) result"
where
  "create_invitation sha raw fresh now created_by_user_id comment max_uses expires_at db =
     (let raw_token = generate_invitation_code raw;
          record = \<lparr> iv_invitation_id = fresh, iv_token_hash = sha (normalize_readable_code raw_token),
            iv_code_format = ''crockford_v1'', iv_comment = comment, iv_max_uses = max_uses, iv_use_count = 0,
            iv_expires_at = Some (or_else expires_at (now + day_span 7)), iv_disabled_at = None,
            iv_created_by_user_id = created_by_user_id, iv_created_at = now \<rparr>
      in rbind (db_insert (\<lambda>_. True) invitation_clash record (ac_invitations db)) (\<lambda>rows.
         Inr ((record, raw_token), db\<lparr>ac_invitations := rows\<rparr>)))"

definition available :: "invitation_row \<Rightarrow> instant \<Rightarrow> bool" where
  "available record checked_at \<longleftrightarrow> iv_disabled_at record = None \<and>
     (case iv_expires_at record of None \<Rightarrow> True | Some t \<Rightarrow> t > checked_at) \<and>
     iv_use_count record < iv_max_uses record"

text \<open>When the hashes of a text are those of two invitations, the first row is found.\<close>

definition inspect_invitation :: "(string \<Rightarrow> string) \<Rightarrow> string \<Rightarrow> account_db \<Rightarrow> invitation_row option" where
  "inspect_invitation sha token db =
     List.find (\<lambda>r. iv_token_hash r \<in> set (invitation_hash_candidates sha token)) (ac_invitations db)"

section \<open>Workspaces\<close>

record provision_ids =
  pv_workspace_id :: uuid
  pv_audit_id :: uuid
  pv_now :: instant

definition new_workspace :: "provision_ids \<Rightarrow> uuid \<Rightarrow> string \<Rightarrow> workspace_row" where
  "new_workspace pv owner_user_id owner_email =
     \<lparr> ws_workspace_id = pv_workspace_id pv, ws_owner_user_id = owner_user_id,
       ws_name = hd (py_split_at (CHR ''@'') owner_email) @ [CHR 0x27] @ ''s paper desk'',
       ws_workspace_type = ''CONNECTED_PAPER'', ws_status = ONBOARDING, ws_scanner_enabled = False,
       ws_created_at = pv_now pv, ws_updated_at = pv_now pv \<rparr>"

definition create_connected_workspace ::
  "provision_ids \<Rightarrow> uuid \<Rightarrow> string \<Rightarrow> uuid \<Rightarrow> string \<Rightarrow> account_db \<Rightarrow> (workspace_row \<times> account_db) result" where
  "create_connected_workspace pv owner_user_id owner_email actor_user_id audit_action db =
     (let workspace = new_workspace pv owner_user_id owner_email in
      rbind (db_insert workspace_fits workspace_clash workspace (ac_workspaces db)) (\<lambda>workspaces.
      rbind (insert_all watchlist_clash
        (map (\<lambda>symbol. \<lparr> wl_workspace_id = ws_workspace_id workspace, wl_symbol = symbol,
          wl_created_at = pv_now pv \<rparr>) default_watchlist) (ac_watchlist db)) (\<lambda>watchlist.
      rbind (db_insert (\<lambda>_. True) audit_clash
        \<lparr> au_audit_id = pv_audit_id pv, au_workspace_id = Some (ws_workspace_id workspace),
          au_actor_user_id = Some actor_user_id, au_action = audit_action,
          au_detail = [(''status'', JString ''ONBOARDING''),
            (''watchlist_count'', JNumber (of_nat (length default_watchlist)))],
          au_occurred_at = pv_now pv \<rparr> (ac_audit db)) (\<lambda>audit.
      Inr (workspace, db\<lparr>ac_workspaces := workspaces, ac_watchlist := watchlist, ac_audit := audit\<rparr>)))))"

definition workspace_of_owner :: "uuid \<Rightarrow> account_db \<Rightarrow> workspace_row option" where
  "workspace_of_owner user_id db = List.find (\<lambda>w. ws_owner_user_id w = user_id) (ac_workspaces db)"

definition provision :: "provision_ids \<Rightarrow> uuid \<Rightarrow> account_db \<Rightarrow> ((workspace_row \<times> bool) \<times> account_db) result" where
  "provision pv admin_user_id db =
     (case List.find (\<lambda>u. us_user_id u = admin_user_id) (ac_users db) of
       None \<Rightarrow> Inl (PermissionError ''Administrator access required'')
     | Some admin \<Rightarrow>
       if \<not> us_is_admin admin then Inl (PermissionError ''Administrator access required'')
       else case workspace_of_owner admin_user_id db of
         Some w \<Rightarrow> Inr ((w, False), db)
       | None \<Rightarrow> rbind (create_connected_workspace pv (us_user_id admin) (us_email admin) (us_user_id admin)
           ''ADMIN_CONNECTED_WORKSPACE_PROVISIONED'' db) (\<lambda>(w, db'). Inr ((w, True), db')))"

section \<open>Registration\<close>

definition registration_refused :: py_error where
  "registration_refused = RegistrationUnavailable ''Registration could not be completed''"

record registration_inputs =
  rn_user_id :: uuid
  rn_redemption_id :: uuid
  rn_checked_at :: instant
  rn_now :: instant
  rn_provision :: provision_ids

text \<open>The calls of the identity provider that a registration makes.\<close>

datatype provider_call = Create_user string | Delete_user string

text \<open>The rows of a registration, once the identity provider has created the account.\<close>

definition registration_rows ::
  "registration_inputs \<Rightarrow> supabase_identity \<Rightarrow> invitation_row \<Rightarrow> account_db \<Rightarrow> (workspace_row \<times> account_db) result" where
  "registration_rows rn identity invitation db =
     (let user = \<lparr> us_user_id = rn_user_id rn, us_auth_subject = si_subject identity, us_email = si_email identity,
        us_is_admin = False, us_created_at = rn_now rn, us_last_seen_at = rn_now rn \<rparr> in
      rbind (db_insert user_fits user_clash user (ac_users db)) (\<lambda>users.
      rbind (create_connected_workspace (rn_provision rn) (us_user_id user) (us_email user) (us_user_id user)
        ''INVITATION_CONNECTED_WORKSPACE_PROVISIONED'' (db\<lparr>ac_users := users\<rparr>)) (\<lambda>(workspace, db1).
      rbind (db_insert (\<lambda>_. True) redemption_clash
        \<lparr> rp_redemption_id = rn_redemption_id rn, rp_invitation_id = iv_invitation_id invitation,
          rp_user_id = us_user_id user, rp_redeemed_at = rn_now rn \<rparr> (ac_redemptions db1)) (\<lambda>redemptions.
      Inr (workspace, db1\<lparr>ac_redemptions := redemptions, ac_invitations :=
        map (\<lambda>r. if iv_invitation_id r = iv_invitation_id invitation
          then r\<lparr>iv_use_count := iv_use_count r + 1\<rparr> else r) (ac_invitations db1)\<rparr>)))))"

definition register ::
  "(string \<Rightarrow> string) \<Rightarrow> (string \<Rightarrow> string \<Rightarrow> supabase_identity result) \<Rightarrow> (string \<Rightarrow> unit result) \<Rightarrow> string list \<Rightarrow>
   registration_inputs \<Rightarrow> string \<Rightarrow> string \<Rightarrow> string \<Rightarrow> account_db \<Rightarrow>
   workspace_row result \<times> account_db \<times> provider_call list"
where
  "register sha create_user delete_user admin_emails rn email password invitation_code db =
     (let normalized_email = py_lower (py_strip email) in
      if normalized_email \<in> set admin_emails then (Inl registration_refused, db, [])
      else case inspect_invitation sha invitation_code db of
        None \<Rightarrow> (Inl registration_refused, db, [])
      | Some invitation \<Rightarrow>
        if \<not> available invitation (rn_checked_at rn) then (Inl registration_refused, db, [])
        else if list_ex (\<lambda>u. us_email u = normalized_email) (ac_users db)
        then (Inl registration_refused, db, [])
        else case create_user normalized_email password of
          Inl (SupabaseAdminError _) \<Rightarrow> (Inl registration_refused, db, [Create_user normalized_email])
        | Inl e \<Rightarrow> (Inl e, db, [Create_user normalized_email])
        | Inr identity \<Rightarrow>
          (case registration_rows rn identity invitation db of
            Inr (workspace, db') \<Rightarrow> (Inr workspace, db', [Create_user normalized_email])
          | Inl e \<Rightarrow>
            ((case delete_user (si_subject identity) of
               Inl (SupabaseAdminError _) \<Rightarrow> Inl e
             | Inl e' \<Rightarrow> Inl e'
             | Inr _ \<Rightarrow> Inl e), db, [Create_user normalized_email, Delete_user (si_subject identity)])))"

section \<open>The user and the workspace of a request\<close>

definition principal_of :: "app_user \<Rightarrow> auth_principal" where
  "principal_of u = \<lparr> pr_user_id = us_user_id u, pr_auth_subject = us_auth_subject u, pr_email = us_email u,
     pr_is_admin = us_is_admin u \<rparr>"

definition sync_user ::
  "string list \<Rightarrow> uuid \<Rightarrow> instant \<Rightarrow> verified_identity \<Rightarrow> account_db \<Rightarrow> (auth_principal \<times> account_db) result" where
  "sync_user admin_emails fresh now identity db =
     (let is_bootstrap_admin = vi_email identity \<in> set admin_emails in
      case List.find (\<lambda>u. us_auth_subject u = vi_subject identity) (ac_users db) of
        None \<Rightarrow>
          let u = \<lparr> us_user_id = fresh, us_auth_subject = vi_subject identity, us_email = vi_email identity,
            us_is_admin = is_bootstrap_admin, us_created_at = now, us_last_seen_at = now \<rparr> in
          rbind (db_insert user_fits user_clash u (ac_users db)) (\<lambda>users.
            Inr (principal_of u, db\<lparr>ac_users := users\<rparr>))
      | Some old \<Rightarrow>
          let u = old\<lparr>us_email := vi_email identity, us_last_seen_at := now,
            us_is_admin := us_is_admin old \<or> is_bootstrap_admin\<rparr> in
          if \<not> user_fits u then Inl data_error
          else if list_ex (\<lambda>x. us_auth_subject x \<noteq> us_auth_subject u \<and> us_email x = us_email u) (ac_users db)
          then Inl integrity_error
          else Inr (principal_of u, db\<lparr>ac_users :=
            map (\<lambda>x. if us_auth_subject x = us_auth_subject u then u else x) (ac_users db)\<rparr>))"

text \<open>\<open>database_configured\<close>: \<open>app.state.database\<close> is set.  The bearer token is a scheme and its credentials.\<close>

definition require_principal ::
  "(string \<Rightarrow> verified_identity result) option \<Rightarrow> bool \<Rightarrow> string list \<Rightarrow> uuid \<Rightarrow> instant \<Rightarrow> (string \<times> string) option \<Rightarrow>
   account_db \<Rightarrow> (auth_principal \<times> account_db) result"
where
  "require_principal verifier database_configured admin_emails fresh now credentials db =
     (case credentials of
       None \<Rightarrow> Inl (HTTPException 401 ''Authentication required'')
     | Some (scheme, token) \<Rightarrow>
       if py_lower scheme \<noteq> ''bearer'' then Inl (HTTPException 401 ''Authentication required'')
       else case verifier of
         None \<Rightarrow> Inl (HTTPException 503 ''Connected workspace authentication is disabled'')
       | Some verify \<Rightarrow>
         (case verify token of
           Inl (AuthenticationError detail) \<Rightarrow> Inl (HTTPException 401 detail)
         | Inl e \<Rightarrow> Inl e
         | Inr identity \<Rightarrow>
           if \<not> database_configured then Inl (HTTPException 503 ''Authentication requires infrastructure'')
           else sync_user admin_emails fresh now identity db))"

definition require_admin :: "auth_principal \<Rightarrow> auth_principal result" where
  "require_admin who = (if \<not> pr_is_admin who
     then Inl (HTTPException 403 ''Administrator access required'') else Inr who)"

definition require_workspace :: "auth_principal \<Rightarrow> account_db \<Rightarrow> workspace_context result" where
  "require_workspace who db =
     (case workspace_of_owner (pr_user_id who) db of
       None \<Rightarrow> Inl (HTTPException 403 ''No Connected Paper Workspace has been provisioned for this account.'')
     | Some w \<Rightarrow>
       if ws_status w = SUSPENDED then Inl (HTTPException 423 ''Connected workspace is suspended'')
       else Inr \<lparr> wc_principal = who, wc_workspace_id = ws_workspace_id w, wc_status = ws_status w \<rparr>)"

end
