(* ===== verification/Accounts_Api.thy ===== *)
theory Accounts_Api
  imports Accounts
begin

text \<open>
  \<open>apps/api/routes/auth.py\<close>, \<open>admin.py\<close> and \<open>identity.py\<close>: the endpoints over the accounts.
\<close>

section \<open>Registration\<close>

text \<open>The pattern \<open>[^\s@]+@[^\s@]+\.[^\s@]+\<close> on a whole text: one at-sign, no blank, something before it,
  and behind it a dot that is neither first nor last.\<close>

definition email_pattern :: "string \<Rightarrow> bool" where
  "email_pattern s \<longleftrightarrow> list_all (\<lambda>ch. \<not> is_space_char ch) s \<and>
     (case py_split_at (CHR ''@'') s of
       [local_part, domain] \<Rightarrow> local_part \<noteq> [] \<and> 2 < length domain \<and> CHR ''.'' \<in> set (butlast (tl domain))
     | _ \<Rightarrow> False)"

record register_operator_input =
  ro_email :: string
  ro_password :: string
  ro_invitation_code :: string

definition register_operator_input_valid ::
  "register_operator_input \<Rightarrow> register_operator_input result" where
  "register_operator_input_valid p =
     (let normalized = py_lower (py_strip (ro_email p)) in
      if 3 \<le> length (ro_email p) \<and> length (ro_email p) \<le> 320 \<and> 8 \<le> length (ro_password p) \<and>
         length (ro_password p) \<le> 128 \<and> 20 \<le> length (ro_invitation_code p) \<and>
         length (ro_invitation_code p) \<le> 128 \<and> email_pattern normalized
      then Inr (p\<lparr>ro_email := normalized\<rparr>)
      else Inl (HTTPException 422 ''RegisterOperator''))"

text \<open>The adapter of the identity provider: its three operations.\<close>

record provider_adapter =
  pa_create_user :: "string \<Rightarrow> string \<Rightarrow> supabase_identity result"
  pa_delete_user :: "string \<Rightarrow> unit result"
  pa_registration_status :: "registration_status result"

definition supabase_adapter ::
  "(http_request \<Rightarrow> http_outcome) \<Rightarrow> (string \<Rightarrow> json option) \<Rightarrow> (json \<Rightarrow> string) \<Rightarrow> supabase_admin \<Rightarrow> provider_adapter"
where
  "supabase_adapter http parse py_str a =
     \<lparr> pa_create_user = supabase_create_user http parse py_str a,
       pa_delete_user = supabase_delete_user http parse a,
       pa_registration_status = supabase_registration_status http parse a \<rparr>"

definition registration_status_endpoint ::
  "provider_adapter option \<Rightarrow> string option \<Rightarrow> (registration_status \<times> bool) result" where
  "registration_status_endpoint adapter supabase_url =
     rbind (case adapter of
         None \<Rightarrow> Inr \<lparr> rg_supabase_url_configured = (supabase_url \<noteq> None \<and> supabase_url \<noteq> Some []),
           rg_server_secret_configured = False, rg_public_signup_disabled = False,
           rg_admin_auth_reachable = False \<rparr>
       | Some a \<Rightarrow> pa_registration_status a)
       (\<lambda>status. Inr (status, registration_available status))"

definition registration_unavailable :: py_error where
  "registration_unavailable = HTTPException 503 ''Connected registration is unavailable''"

definition register_operator ::
  "(string \<Rightarrow> string) \<Rightarrow> provider_adapter option \<Rightarrow> bool \<Rightarrow> string list \<Rightarrow> registration_inputs \<Rightarrow>
   register_operator_input \<Rightarrow> account_db \<Rightarrow> (string \<times> string) result \<times> account_db \<times> provider_call list"
where
  "register_operator sha adapter database_configured admin_emails rn raw db =
     (case register_operator_input_valid raw of
       Inl e \<Rightarrow> (Inl e, db, [])
     | Inr payload \<Rightarrow>
       (case adapter of
         None \<Rightarrow> (Inl registration_unavailable, db, [])
       | Some a \<Rightarrow>
         if \<not> database_configured then (Inl registration_unavailable, db, [])
         else case pa_registration_status a of
           Inl e \<Rightarrow> (Inl e, db, [])
         | Inr provider_status \<Rightarrow>
           if \<not> registration_available provider_status then (Inl registration_unavailable, db, [])
           else case register sha (pa_create_user a) (pa_delete_user a) admin_emails rn (ro_email payload)
               (ro_password payload) (ro_invitation_code payload) db of
             (answer, db', calls) \<Rightarrow>
             ((case answer of
                Inr _ \<Rightarrow> Inr (''created'', ''sign_in'')
              | Inl (RegistrationUnavailable _) \<Rightarrow> Inl (HTTPException 409 ''Registration could not be completed'')
              | Inl e \<Rightarrow> Inl e), db', calls)))"

section \<open>Identity\<close>

record identity_view =
  id_email :: string
  id_is_admin :: bool
  id_workspace_id :: "uuid option"
  id_workspace_status :: "workspace_status option"

definition identity_me :: "auth_principal \<Rightarrow> account_db \<Rightarrow> identity_view" where
  "identity_me who db =
     (let workspace = workspace_of_owner (pr_user_id who) db in
      \<lparr> id_email = pr_email who, id_is_admin = pr_is_admin who,
        id_workspace_id = map_option ws_workspace_id workspace,
        id_workspace_status = map_option ws_status workspace \<rparr>)"

section \<open>Administration\<close>

record invitation_view =
  ivw_invitation_id :: uuid
  ivw_comment :: string
  ivw_max_uses :: int
  ivw_use_count :: int
  ivw_expires_at :: "instant option"
  ivw_disabled_at :: "instant option"
  ivw_created_at :: instant
  ivw_invitation_code :: "string option"

definition invitation_view_of :: "invitation_row \<Rightarrow> string option \<Rightarrow> invitation_view" where
  "invitation_view_of r token = \<lparr> ivw_invitation_id = iv_invitation_id r, ivw_comment = iv_comment r,
     ivw_max_uses = iv_max_uses r, ivw_use_count = iv_use_count r, ivw_expires_at = iv_expires_at r,
     ivw_disabled_at = iv_disabled_at r, ivw_created_at = iv_created_at r, ivw_invitation_code = token \<rparr>"

record create_invitation_input =
  cn_comment :: string
  cn_max_uses :: int
  cn_expires_in_days :: "int option"

definition create_invitation_input_valid :: "create_invitation_input \<Rightarrow> bool" where
  "create_invitation_input_valid p \<longleftrightarrow> length (cn_comment p) \<le> 240 \<and> 1 \<le> cn_max_uses p \<and> cn_max_uses p \<le> 100 \<and>
     (case cn_expires_in_days p of None \<Rightarrow> True | Some n \<Rightarrow> 1 \<le> n \<and> n \<le> 90)"

text \<open>\<open>now\<close> is read by the endpoint, \<open>later\<close> by the service.\<close>

definition create_invitation_endpoint ::
  "(string \<Rightarrow> string) \<Rightarrow> string \<Rightarrow> uuid \<Rightarrow> instant \<Rightarrow> instant \<Rightarrow> auth_principal \<Rightarrow> create_invitation_input \<Rightarrow> account_db \<Rightarrow>
   (invitation_view \<times> account_db) result"
where
  "create_invitation_endpoint sha raw fresh now later who payload db =
     rbind (require (create_invitation_input_valid payload) (HTTPException 422 ''CreateInvitation'')) (\<lambda>_.
     rbind (require_admin who) (\<lambda>admin.
     rbind (create_invitation sha raw fresh later (pr_user_id admin) (cn_comment payload) (cn_max_uses payload)
       (map_option (\<lambda>n. now + day_span n) (cn_expires_in_days payload)) db) (\<lambda>((record, token), db').
     Inr (invitation_view_of record (Some token), db'))))"

definition list_invitations :: "auth_principal \<Rightarrow> account_db \<Rightarrow> invitation_view list result" where
  "list_invitations who db = rbind (require_admin who) (\<lambda>_.
     Inr (map (\<lambda>r. invitation_view_of r None)
       (sort_key (\<lambda>r. - iv_created_at r) (ac_invitations db))))"

definition disable_invitation ::
  "instant \<Rightarrow> auth_principal \<Rightarrow> uuid \<Rightarrow> account_db \<Rightarrow> (invitation_view \<times> account_db) result" where
  "disable_invitation now who invitation_id db = rbind (require_admin who) (\<lambda>_.
     case List.find (\<lambda>r. iv_invitation_id r = invitation_id) (ac_invitations db) of
       None \<Rightarrow> Inl (HTTPException 404 ''Invitation not found'')
     | Some record \<Rightarrow>
       let disabled = (if iv_disabled_at record = None then record\<lparr>iv_disabled_at := Some now\<rparr> else record) in
       Inr (invitation_view_of disabled None, db\<lparr>ac_invitations :=
         map (\<lambda>r. if iv_invitation_id r = invitation_id then disabled else r) (ac_invitations db)\<rparr>))"

record admin_workspace_view =
  aw_workspace_id :: uuid
  aw_status :: workspace_status
  aw_created :: bool
  aw_watchlist_count :: int

definition provision_admin_workspace ::
  "provision_ids \<Rightarrow> auth_principal \<Rightarrow> account_db \<Rightarrow> (admin_workspace_view \<times> account_db) result" where
  "provision_admin_workspace pv who db = rbind (require_admin who) (\<lambda>admin.
     rbind (provision pv (pr_user_id admin) db) (\<lambda>((w, created), db').
     Inr (\<lparr> aw_workspace_id = ws_workspace_id w, aw_status = ws_status w, aw_created = created,
         aw_watchlist_count = int (length (filter (\<lambda>r. wl_workspace_id r = ws_workspace_id w) (ac_watchlist db'))) \<rparr>, db')))"

end
