(* ===== verification/Accounts_Properties.thy ===== *)
theory Accounts_Properties
  imports Accounts_Api
begin

text \<open>
  What the accounts promise: an invitation is never used more often than it may, nobody owns two
  workspaces, a registration happens completely or not at all, a request works on the workspace of its
  own user, and an invitation code is found again however it is typed.
\<close>

section \<open>Inserts\<close>

lemma db_insert_Inr [guard_simps]:
  "db_insert fits clash x rows = Inr rows' \<longleftrightarrow> fits x \<and> \<not> list_ex (clash x) rows \<and> rows' = rows @ [x]"
  by (auto simp: db_insert_def)

lemma insert_all_Inr: "insert_all clash xs rows = Inr rows' \<Longrightarrow> rows' = rows @ xs"
  by (induction xs arbitrary: rows) (fastforce simp: guard_simps)+

lemma distinct_replace:
  assumes "distinct (map key xs)" and "distinct (map g xs)" and "\<forall>x \<in> set xs. key x \<noteq> k \<longrightarrow> g x \<noteq> g u"
  shows "distinct (map g (map (\<lambda>x. if key x = k then u else x) xs))"
  using assms
proof (induction xs)
  case (Cons x xs)
  show ?case
  proof (cases "key x = k")
    case True
    then have "map (\<lambda>x. if key x = k then u else x) xs = xs"
      using Cons.prems(1) by (intro map_idI) (force simp: image_iff)
    moreover have "g u \<noteq> g y" if "y \<in> set xs" for y
    proof -
      have "key y \<noteq> k" using that True Cons.prems(1) by (metis distinct.simps(2) image_eqI list.simps(9) set_map)
      then have "g y \<noteq> g u" using that Cons.prems(3) by simp
      then show ?thesis by simp
    qed
    ultimately show ?thesis using True Cons.prems by auto
  next
    case False
    then have "g x \<notin> set (map g (map (\<lambda>x. if key x = k then u else x) xs))"
      using Cons.prems by (auto split: if_splits)
    then show ?thesis using False Cons by simp
  qed
qed simp

section \<open>Consistent accounts\<close>

definition redemptions_of :: "uuid \<Rightarrow> account_db \<Rightarrow> nat" where
  "redemptions_of i db = length (filter (\<lambda>r. rp_invitation_id r = i) (ac_redemptions db))"

definition users_ok :: "account_db \<Rightarrow> bool" where
  "users_ok db \<longleftrightarrow> distinct (map us_user_id (ac_users db)) \<and> distinct (map us_auth_subject (ac_users db)) \<and>
     distinct (map us_email (ac_users db))"

definition workspaces_ok :: "account_db \<Rightarrow> bool" where
  "workspaces_ok db \<longleftrightarrow> distinct (map ws_workspace_id (ac_workspaces db)) \<and>
     distinct (map ws_owner_user_id (ac_workspaces db))"

definition invitations_ok :: "account_db \<Rightarrow> bool" where
  "invitations_ok db \<longleftrightarrow> distinct (map iv_invitation_id (ac_invitations db)) \<and>
     (\<forall>r \<in> set (ac_invitations db). iv_use_count r = int (redemptions_of (iv_invitation_id r) db) \<and>
       iv_use_count r \<le> iv_max_uses r) \<and>
     (\<forall>x \<in> set (ac_redemptions db). rp_invitation_id x \<in> iv_invitation_id ` set (ac_invitations db))"

lemmas accounts_ok_defs = users_ok_def workspaces_ok_def invitations_ok_def redemptions_of_def

lemma create_workspace_effect:
  assumes "create_connected_workspace pv owner email actor action db = Inr (w, db')"
  shows "w = new_workspace pv owner email \<and> ac_workspaces db' = ac_workspaces db @ [w] \<and>
    \<not> list_ex (workspace_clash w) (ac_workspaces db) \<and>
    ac_watchlist db' = ac_watchlist db @ map (\<lambda>s. \<lparr> wl_workspace_id = ws_workspace_id w, wl_symbol = s,
      wl_created_at = pv_now pv \<rparr>) default_watchlist \<and>
    ac_users db' = ac_users db \<and> ac_invitations db' = ac_invitations db \<and> ac_redemptions db' = ac_redemptions db"
  using assms by (auto simp: create_connected_workspace_def Let_def guard_simps dest!: insert_all_Inr)

lemma create_workspace_ok:
  assumes "create_connected_workspace pv owner email actor action db = Inr (w, db')"
    and "users_ok db" and "workspaces_ok db" and "invitations_ok db"
  shows "users_ok db' \<and> workspaces_ok db' \<and> invitations_ok db'"
  using assms(2-) create_workspace_effect [OF assms(1)]
  by (auto simp: accounts_ok_defs workspace_clash_def list_ex_iff)

lemma registration_effect:
  assumes "registration_rows rn identity invitation db = Inr (w, db')"
  shows "\<exists>user redemption. ac_users db' = ac_users db @ [user] \<and> \<not> list_ex (user_clash user) (ac_users db) \<and>
    us_user_id user = rn_user_id rn \<and> us_auth_subject user = si_subject identity \<and> us_email user = si_email identity \<and>
    \<not> us_is_admin user \<and>
    w = new_workspace (rn_provision rn) (us_user_id user) (us_email user) \<and> ac_workspaces db' = ac_workspaces db @ [w] \<and>
    \<not> list_ex (workspace_clash w) (ac_workspaces db) \<and>
    ac_watchlist db' = ac_watchlist db @ map (\<lambda>s. \<lparr> wl_workspace_id = ws_workspace_id w, wl_symbol = s,
      wl_created_at = pv_now (rn_provision rn) \<rparr>) default_watchlist \<and>
    ac_redemptions db' = ac_redemptions db @ [redemption] \<and> rp_user_id redemption = us_user_id user \<and>
    rp_invitation_id redemption = iv_invitation_id invitation \<and>
    ac_invitations db' = map (\<lambda>r. if iv_invitation_id r = iv_invitation_id invitation
      then r\<lparr>iv_use_count := iv_use_count r + 1\<rparr> else r) (ac_invitations db)"
  using assms unfolding registration_rows_def Let_def
  by (auto simp: guard_simps dest!: create_workspace_effect)

lemma map_use_count [simp]:
  "map iv_invitation_id (map (\<lambda>r. if P r then r\<lparr>iv_use_count := iv_use_count r + 1\<rparr> else r) rows) =
    map iv_invitation_id rows"
  by simp

lemma registration_ok:
  assumes "registration_rows rn identity invitation db = Inr (w, db')" and "invitation \<in> set (ac_invitations db)"
    and "iv_use_count invitation < iv_max_uses invitation"
    and "users_ok db" and "workspaces_ok db" and "invitations_ok db"
  shows "users_ok db' \<and> workspaces_ok db' \<and> invitations_ok db'"
proof -
  let ?i = "iv_invitation_id invitation"
  obtain user redemption where e: "ac_users db' = ac_users db @ [user]" "\<not> list_ex (user_clash user) (ac_users db)"
    "ac_workspaces db' = ac_workspaces db @ [w]" "\<not> list_ex (workspace_clash w) (ac_workspaces db)"
    "ac_redemptions db' = ac_redemptions db @ [redemption]" "rp_invitation_id redemption = ?i"
    "ac_invitations db' = map (\<lambda>r. if iv_invitation_id r = ?i
      then r\<lparr>iv_use_count := iv_use_count r + 1\<rparr> else r) (ac_invitations db)"
    using registration_effect [OF assms(1)] by (elim exE conjE) (rule that)
  have "users_ok db'" using assms(4) e(1,2) by (auto simp: users_ok_def user_clash_def list_ex_iff)
  moreover have "workspaces_ok db'"
    using assms(5) e(3,4) by (auto simp: workspaces_ok_def workspace_clash_def list_ex_iff)
  moreover have "invitations_ok db'"
  proof -
    have own: "r = invitation" if "r \<in> set (ac_invitations db)" "iv_invitation_id r = ?i" for r
      using that assms(2,6) by (auto simp: invitations_ok_def distinct_map dest: inj_onD)
    have n: "redemptions_of i db' = redemptions_of i db + (if i = ?i then 1 else 0)" for i
      using e(5,6) by (simp add: redemptions_of_def)
    have "distinct (map iv_invitation_id (ac_invitations db'))"
      using assms(6) by (simp add: e(7) invitations_ok_def o_def if_distrib cong: if_cong)
    moreover have ids: "iv_invitation_id ` set (ac_invitations db') = iv_invitation_id ` set (ac_invitations db)"
    proof -
      have "map iv_invitation_id (ac_invitations db') = map iv_invitation_id (ac_invitations db)"
        by (simp add: e(7))
      then show ?thesis by (metis set_map)
    qed
    moreover have "iv_use_count r = int (redemptions_of (iv_invitation_id r) db') \<and> iv_use_count r \<le> iv_max_uses r"
      if r: "r \<in> set (ac_invitations db')" for r
    proof -
      obtain r0 where r0: "r0 \<in> set (ac_invitations db)"
        "r = (if iv_invitation_id r0 = ?i then r0\<lparr>iv_use_count := iv_use_count r0 + 1\<rparr> else r0)"
        using r by (auto simp: e(7))
      then have "iv_use_count r0 = int (redemptions_of (iv_invitation_id r0) db) \<and> iv_use_count r0 \<le> iv_max_uses r0"
        using assms(6) by (auto simp: invitations_ok_def)
      with r0 own [of r0] assms(3) show ?thesis by (auto simp: n)
    qed
    moreover have "\<forall>x \<in> set (ac_redemptions db'). rp_invitation_id x \<in> iv_invitation_id ` set (ac_invitations db')"
      using assms(2,6) e(5,6) ids by (auto simp: invitations_ok_def)
    ultimately show ?thesis unfolding invitations_ok_def by blast
  qed
  ultimately show ?thesis by blast
qed

lemma register_Inr:
  assumes "register sha create delete admins rn email password code db = (Inr w, db', calls)"
  obtains invitation identity where "inspect_invitation sha code db = Some invitation"
    "available invitation (rn_checked_at rn)" "py_lower (py_strip email) \<notin> set admins"
    "\<not> list_ex (\<lambda>u. us_email u = py_lower (py_strip email)) (ac_users db)"
    "create (py_lower (py_strip email)) password = Inr identity" "calls = [Create_user (py_lower (py_strip email))]"
    "registration_rows rn identity invitation db = Inr (w, db')"
proof -
  let ?e = "py_lower (py_strip email)"
  obtain invitation where i: "inspect_invitation sha code db = Some invitation" "available invitation (rn_checked_at rn)"
    "?e \<notin> set admins" "\<not> list_ex (\<lambda>u. us_email u = ?e) (ac_users db)"
    using assms by (auto simp: register_def Let_def split: if_splits option.splits)
  then obtain identity where c: "create ?e password = Inr identity"
    using assms by (cases "create ?e password") (auto simp: register_def Let_def split: py_error.splits)
  have "register sha create delete admins rn email password code db =
      (case registration_rows rn identity invitation db of
         Inr (workspace, db') \<Rightarrow> (Inr workspace, db', [Create_user ?e])
       | Inl e \<Rightarrow> ((case delete (si_subject identity) of Inl (SupabaseAdminError _) \<Rightarrow> Inl e | Inl e' \<Rightarrow> Inl e'
           | Inr _ \<Rightarrow> Inl e), db, [Create_user ?e, Delete_user (si_subject identity)]))"
    using i c by (simp add: register_def Let_def)
  with assms have r: "registration_rows rn identity invitation db = Inr (w, db')" "calls = [Create_user ?e]"
    by (auto split: sum.splits py_error.splits)
  show thesis using i c r by (intro that)
qed

lemma register_Inl:
  assumes "register sha create delete admins rn email password code db = (Inl e, db', calls)"
  shows "db' = db \<and> (if py_lower (py_strip email) \<in> set admins \<or>
      py_lower (py_strip email) \<in> us_email ` set (ac_users db) \<or>
      (\<forall>invitation. inspect_invitation sha code db = Some invitation \<longrightarrow> \<not> available invitation (rn_checked_at rn))
    then e = registration_refused \<and> calls = []
    else calls = Create_user (py_lower (py_strip email)) #
      (case create (py_lower (py_strip email)) password of
         Inl _ \<Rightarrow> [] | Inr identity \<Rightarrow> [Delete_user (si_subject identity)]))"
proof -
  have known: "list_ex (\<lambda>u. us_email u = x) us \<longleftrightarrow> x \<in> us_email ` set us" for x us
    by (auto simp: list_ex_iff)
  show ?thesis
    using assms unfolding register_def Let_def known
    by (auto split: if_splits option.splits sum.splits prod.splits py_error.splits)
qed

lemma find_in_set: "List.find P xs = Some x \<Longrightarrow> x \<in> set xs \<and> P x"
  by (auto simp: find_Some_iff)

lemma register_ok:
  assumes "register sha create delete admins rn email password code db = (answer, db', calls)"
    and "users_ok db" and "workspaces_ok db" and "invitations_ok db"
  shows "users_ok db' \<and> workspaces_ok db' \<and> invitations_ok db'"
proof (cases answer)
  case (Inl e)
  then show ?thesis using assms register_Inl by blast
next
  case (Inr w)
  obtain invitation identity where i: "inspect_invitation sha code db = Some invitation"
    "available invitation (rn_checked_at rn)" "registration_rows rn identity invitation db = Inr (w, db')"
    using register_Inr [OF assms(1) [unfolded Inr]] by blast
  have "invitation \<in> set (ac_invitations db)" using i(1) find_in_set by (fastforce simp: inspect_invitation_def)
  with registration_ok [OF i(3)] i(2) assms(2-4) show ?thesis by (simp add: available_def)
qed

lemma create_invitation_ok:
  assumes "create_invitation sha raw fresh now by comment n expires db = Inr (r, db')" and "0 \<le> n"
    and "invitations_ok db"
  shows "invitations_ok db' \<and> ac_users db' = ac_users db \<and> ac_workspaces db' = ac_workspaces db"
proof -
  obtain row where r: "db' = db\<lparr>ac_invitations := ac_invitations db @ [row]\<rparr>" "iv_use_count row = 0"
    "iv_max_uses row = n" "iv_invitation_id row \<notin> iv_invitation_id ` set (ac_invitations db)"
    using assms(1) unfolding create_invitation_def Let_def rbind_eq_Inr db_insert_Inr
    by (auto simp: list_ex_iff invitation_clash_def intro!: that)
  have "\<forall>x \<in> set (ac_redemptions db). rp_invitation_id x \<noteq> iv_invitation_id row"
    using r(4) assms(3) unfolding invitations_ok_def by metis
  then have "redemptions_of (iv_invitation_id row) db = 0"
    by (simp add: redemptions_of_def filter_empty_conv)
  with r assms(2,3) show ?thesis by (auto simp: invitations_ok_def redemptions_of_def)
qed

lemma disable_ok:
  assumes "disable_invitation now who i db = Inr (view, db')" and "invitations_ok db"
  shows "invitations_ok db' \<and> ac_users db' = ac_users db \<and> ac_workspaces db' = ac_workspaces db"
proof -
  obtain old where old: "List.find (\<lambda>r. iv_invitation_id r = i) (ac_invitations db) = Some old"
    using assms(1) by (auto simp: disable_invitation_def guard_simps Let_def split: option.splits)
  define new where "new = (if iv_disabled_at old = None then old\<lparr>iv_disabled_at := Some now\<rparr> else old)"
  have db': "db' = db\<lparr>ac_invitations := map (\<lambda>r. if iv_invitation_id r = i then new else r) (ac_invitations db)\<rparr>"
    using assms(1) old by (auto simp: disable_invitation_def guard_simps Let_def new_def)
  have o: "old \<in> set (ac_invitations db)" "iv_invitation_id old = i" using find_in_set [OF old] by auto
  have new: "iv_invitation_id new = i" "iv_use_count new = iv_use_count old" "iv_max_uses new = iv_max_uses old"
    using o(2) by (simp_all add: new_def)
  have ids: "map iv_invitation_id (ac_invitations db') = map iv_invitation_id (ac_invitations db)"
    using new(1) by (simp add: db')
  then have "iv_invitation_id ` set (ac_invitations db') = iv_invitation_id ` set (ac_invitations db)"
    by (metis set_map)
  moreover have "\<forall>r \<in> set (ac_invitations db'). iv_use_count r = int (redemptions_of (iv_invitation_id r) db') \<and>
      iv_use_count r \<le> iv_max_uses r"
    using assms(2) o new by (auto simp: db' invitations_ok_def redemptions_of_def)
  moreover have "distinct (map iv_invitation_id (ac_invitations db'))"
    using assms(2) unfolding ids by (simp add: invitations_ok_def)
  moreover have "ac_redemptions db' = ac_redemptions db" "ac_users db' = ac_users db" "ac_workspaces db' = ac_workspaces db"
    by (simp_all add: db')
  ultimately show ?thesis using assms(2) unfolding invitations_ok_def by metis
qed

lemma provision_ok:
  assumes "provision pv who db = Inr (r, db')" and "users_ok db" and "workspaces_ok db" and "invitations_ok db"
  shows "users_ok db' \<and> workspaces_ok db' \<and> invitations_ok db'"
  using assms create_workspace_ok unfolding provision_def
  by (auto simp: guard_simps split: option.splits if_splits prod.splits)

lemma sync_user_ok:
  assumes "sync_user admins fresh now identity db = Inr (who, db')" and "users_ok db"
  shows "users_ok db' \<and> ac_workspaces db' = ac_workspaces db \<and> ac_invitations db' = ac_invitations db \<and>
    ac_redemptions db' = ac_redemptions db \<and>
    (\<exists>u \<in> set (ac_users db'). principal_of u = who \<and> us_auth_subject u = vi_subject identity)"
proof (cases "List.find (\<lambda>u. us_auth_subject u = vi_subject identity) (ac_users db)")
  case None
  with assms show ?thesis
    by (auto simp: sync_user_def Let_def guard_simps users_ok_def user_clash_def list_ex_iff)
next
  case (Some old)
  define u where "u = old\<lparr>us_email := vi_email identity, us_last_seen_at := now,
    us_is_admin := us_is_admin old \<or> vi_email identity \<in> set admins\<rparr>"
  have o: "old \<in> set (ac_users db)" "us_auth_subject old = vi_subject identity" using find_in_set [OF Some] by auto
  have other: "\<not> list_ex (\<lambda>x. us_auth_subject x \<noteq> us_auth_subject u \<and> us_email x = us_email u) (ac_users db)"
    and who: "who = principal_of u"
    and db': "db' = db\<lparr>ac_users := map (\<lambda>x. if us_auth_subject x = us_auth_subject u then u else x) (ac_users db)\<rparr>"
    using assms(1) Some by (auto simp: sync_user_def Let_def u_def split: if_splits)
  have s: "us_auth_subject u = vi_subject identity" "us_user_id u = us_user_id old" using o by (simp_all add: u_def)
  have d: "distinct (map us_auth_subject (ac_users db))" "distinct (map us_user_id (ac_users db))"
    "distinct (map us_email (ac_users db))" using assms(2) by (simp_all add: users_ok_def)
  have users: "ac_users db' = map (\<lambda>x. if us_auth_subject x = us_auth_subject u then u else x) (ac_users db)"
    by (simp add: db')
  have "distinct (map us_user_id (ac_users db'))" unfolding users
  proof (rule distinct_replace [OF d(1,2)])
    show "\<forall>x \<in> set (ac_users db). us_auth_subject x \<noteq> us_auth_subject u \<longrightarrow> us_user_id x \<noteq> us_user_id u"
      using d(2) o s by (auto simp: distinct_map dest: inj_onD)
  qed
  moreover have "distinct (map us_auth_subject (ac_users db'))" unfolding users
    by (rule distinct_replace [OF d(1,1)]) simp
  moreover have "distinct (map us_email (ac_users db'))" unfolding users
    by (rule distinct_replace [OF d(1,3)]) (use other in \<open>auto simp: list_ex_iff\<close>)
  moreover have "u \<in> set (ac_users db')" using o s by (auto simp: db')
  ultimately show ?thesis using who s by (auto simp: users_ok_def db')
qed

lemma register_operator_db:
  assumes "register_operator sha adapter configured admins rn payload db = (reply, db', calls)"
  shows "db' = db \<or> (\<exists>(a :: provider_adapter) (p :: register_operator_input) answer. register sha (pa_create_user a) (pa_delete_user a) admins rn (ro_email p)
    (ro_password p) (ro_invitation_code p) db = (answer, db', calls))"
proof (cases "\<exists>p a. register_operator_input_valid payload = Inr p \<and> adapter = Some a")
  case False
  then show ?thesis using assms
    by (auto simp: register_operator_def split: sum.splits option.splits)
next
  case True
  then obtain p a where pa: "register_operator_input_valid payload = Inr p" "adapter = Some a" by blast
  obtain answer db1 calls1 where r: "register sha (pa_create_user a) (pa_delete_user a) admins rn (ro_email p)
      (ro_password p) (ro_invitation_code p) db = (answer, db1, calls1)" by (metis prod_cases3)
  have "db' = db \<or> db' = db1 \<and> calls = calls1"
    using assms by (auto simp: register_operator_def pa r split: sum.splits if_splits)
  then show ?thesis
  proof
    assume "db' = db1 \<and> calls = calls1"
    then show ?thesis using r by (intro disjI2 exI [of _ a] exI [of _ p] exI [of _ answer]) simp
  qed simp
qed

section \<open>Every sequence of requests\<close>

text \<open>The requests that write the accounts; a request that raises writes nothing.\<close>

datatype account_request =
    Register provider_adapter "string list" registration_inputs register_operator_input
  | Sign_in "string list" uuid instant verified_identity
  | Invite string uuid instant instant auth_principal create_invitation_input
  | Disable_invitation instant auth_principal uuid
  | Provision provision_ids auth_principal

definition account_do :: "(string \<Rightarrow> string) \<Rightarrow> account_request \<Rightarrow> account_db \<Rightarrow> account_db" where
  "account_do sha request db = (case request of
      Register a admins rn payload \<Rightarrow> fst (snd (register_operator sha (Some a) True admins rn payload db))
    | Sign_in admins fresh now identity \<Rightarrow>
        (case sync_user admins fresh now identity db of Inl e \<Rightarrow> db | Inr (_, db') \<Rightarrow> db')
    | Invite raw fresh now later who payload \<Rightarrow>
        (case create_invitation_endpoint sha raw fresh now later who payload db of Inl e \<Rightarrow> db | Inr (_, db') \<Rightarrow> db')
    | Disable_invitation now who i \<Rightarrow>
        (case disable_invitation now who i db of Inl e \<Rightarrow> db | Inr (_, db') \<Rightarrow> db')
    | Provision pv who \<Rightarrow>
        (case provision_admin_workspace pv who db of Inl e \<Rightarrow> db | Inr (_, db') \<Rightarrow> db'))"

definition empty_accounts :: account_db where
  "empty_accounts = \<lparr> ac_users = [], ac_invitations = [], ac_redemptions = [], ac_workspaces = [],
     ac_watchlist = [], ac_audit = [] \<rparr>"

lemma account_do_ok:
  assumes "users_ok db" and "workspaces_ok db" and "invitations_ok db"
  shows "users_ok (account_do sha request db) \<and> workspaces_ok (account_do sha request db) \<and>
    invitations_ok (account_do sha request db)"
proof (cases request)
  case (Register a admins rn payload)
  obtain reply db' calls where r: "register_operator sha (Some a) True admins rn payload db = (reply, db', calls)"
    by (metis prod_cases3)
  have "users_ok db' \<and> workspaces_ok db' \<and> invitations_ok db'"
    using register_operator_db [OF r]
  proof
    assume "\<exists>(a :: provider_adapter) (p :: register_operator_input) answer. register sha (pa_create_user a) (pa_delete_user a) admins rn (ro_email p) (ro_password p)
      (ro_invitation_code p) db = (answer, db', calls)"
    then show ?thesis using register_ok [OF _ assms] by (elim exE)
  qed (use assms in simp)
  moreover have "account_do sha request db = db'" using r by (simp add: Register account_do_def)
  ultimately show ?thesis by simp
next
  case (Sign_in admins fresh now identity)
  then show ?thesis using assms sync_user_ok [of admins fresh now identity db]
    by (auto simp: account_do_def workspaces_ok_def invitations_ok_def redemptions_of_def split: sum.split)
next
  case (Invite raw fresh now later who payload)
  show ?thesis
  proof (cases "create_invitation_endpoint sha raw fresh now later who payload db")
    case (Inl e)
    then show ?thesis using assms by (simp add: Invite account_do_def)
  next
    case (Inr x)
    obtain view db' where x: "x = (view, db')" by (cases x)
    obtain r token where c: "create_invitation sha raw fresh later (pr_user_id who) (cn_comment payload)
        (cn_max_uses payload) (map_option (\<lambda>n. now + day_span n) (cn_expires_in_days payload)) db = Inr ((r, token), db')"
      "1 \<le> cn_max_uses payload"
      using Inr x by (auto simp: create_invitation_endpoint_def create_invitation_input_valid_def rbind_eq_Inr
          require_admin_def split: if_splits)
    have "invitations_ok db' \<and> ac_users db' = ac_users db \<and> ac_workspaces db' = ac_workspaces db"
      using c(2) assms(3) by (intro create_invitation_ok [OF c(1)]) simp_all
    then show ?thesis using Inr x assms by (simp add: Invite account_do_def users_ok_def workspaces_ok_def)
  qed
next
  case (Disable_invitation now who i)
  show ?thesis
  proof (cases "disable_invitation now who i db")
    case (Inl e)
    then show ?thesis using assms by (simp add: Disable_invitation account_do_def)
  next
    case (Inr x)
    obtain view db' where x: "x = (view, db')" by (cases x)
    note ok = disable_ok [OF Inr [unfolded x] assms(3)]
    then show ?thesis using Inr x assms by (simp add: Disable_invitation account_do_def users_ok_def workspaces_ok_def)
  qed
next
  case (Provision pv who)
  show ?thesis
  proof (cases "provision_admin_workspace pv who db")
    case (Inl e)
    then show ?thesis using assms by (simp add: Provision account_do_def)
  next
    case (Inr x)
    obtain view db' where x: "x = (view, db')" by (cases x)
    obtain r where "provision pv (pr_user_id who) db = Inr (r, db')"
      using Inr x by (auto simp: provision_admin_workspace_def rbind_eq_Inr require_admin_def split: if_splits)
    then show ?thesis using Inr x provision_ok [OF _ assms] by (simp add: Provision account_do_def)
  qed
qed

text \<open>C22. Whatever requests arrive, from an empty database on: no two users share an identifier, an identity
  or an email address, nobody owns two workspaces, and every invitation has been used exactly as often as
  it has redemptions, and at most as often as it may.\<close>

theorem accounts_stay_consistent:
  "let db = fold (account_do sha) requests empty_accounts in
     distinct (map us_user_id (ac_users db)) \<and> distinct (map us_auth_subject (ac_users db)) \<and>
     distinct (map us_email (ac_users db)) \<and> distinct (map ws_workspace_id (ac_workspaces db)) \<and>
     distinct (map ws_owner_user_id (ac_workspaces db)) \<and>
     list_all (\<lambda>r. iv_use_count r = int (redemptions_of (iv_invitation_id r) db) \<and> iv_use_count r \<le> iv_max_uses r)
       (ac_invitations db)"
proof -
  have ok: "users_ok (fold (account_do sha) requests db) \<and> workspaces_ok (fold (account_do sha) requests db) \<and>
      invitations_ok (fold (account_do sha) requests db)"
    if "users_ok db \<and> workspaces_ok db \<and> invitations_ok db" for db
    using that by (induction requests arbitrary: db) (simp_all add: account_do_ok)
  have "users_ok empty_accounts \<and> workspaces_ok empty_accounts \<and> invitations_ok empty_accounts"
    by (simp add: users_ok_def workspaces_ok_def invitations_ok_def empty_accounts_def)
  note final = ok [OF this]
  show ?thesis
    using final unfolding Let_def users_ok_def workspaces_ok_def invitations_ok_def list_all_iff by blast
qed

section \<open>Registration\<close>


text \<open>A sample provider, invitation and database.\<close>

definition sample_http :: "http_request \<Rightarrow> http_outcome" where
  "sample_http r = Http_reply (hr_method r)"

definition sample_parse :: "string \<Rightarrow> json option" where
  "sample_parse body = Some (JObject [(''id'', JString ''s1''), (''email'', JString ''ann@desk.io'')])"

definition sample_admin :: supabase_admin where
  "sample_admin = new_supabase_admin ''https://x.io/'' ''sb_secret_1''"

definition sample_invitation :: invitation_row where
  "sample_invitation = \<lparr> iv_invitation_id = ''i'', iv_token_hash = ''ABC'', iv_code_format = ''crockford_v1'',
     iv_comment = [], iv_max_uses = 1, iv_use_count = 0, iv_expires_at = Some 10, iv_disabled_at = None,
     iv_created_by_user_id = ''root'', iv_created_at = 0 \<rparr>"

definition sample_accounts :: account_db where
  "sample_accounts = empty_accounts\<lparr>ac_invitations := [sample_invitation]\<rparr>"

definition sample_registration :: registration_inputs where
  "sample_registration = \<lparr> rn_user_id = ''u'', rn_redemption_id = ''r'', rn_checked_at = 1, rn_now = 2,
     rn_provision = \<lparr> pv_workspace_id = ''w'', pv_audit_id = ''a'', pv_now = 3 \<rparr> \<rparr>"

lemma sample_register: "\<exists>w db'. register id (supabase_create_user sample_http sample_parse (\<lambda>_. []) sample_admin)
    (supabase_delete_user sample_http sample_parse sample_admin) [] sample_registration '' Ann@desk.io'' ''password''
    ''abc'' sample_accounts = (Inr w, db', [Create_user ''ann@desk.io''])"
proof -
  have "(case register id (supabase_create_user sample_http sample_parse (\<lambda>_. []) sample_admin)
      (supabase_delete_user sample_http sample_parse sample_admin) [] sample_registration '' Ann@desk.io'' ''password''
      ''abc'' sample_accounts of (answer, _, calls) \<Rightarrow> is_ok answer \<and> calls = [Create_user ''ann@desk.io''])"
    by code_simp
  then show ?thesis by (auto simp: is_ok_iff split: prod.splits)
qed


section \<open>Requests\<close>

lemma workspace_of_owner_Some:
  "workspace_of_owner u db = Some w \<Longrightarrow> w \<in> set (ac_workspaces db) \<and> ws_owner_user_id w = u"
  unfolding workspace_of_owner_def by (rule find_in_set)

lemma require_principal_Inr:
  assumes "require_principal (Some verify) True admins fresh now (Some (scheme, token)) db = Inr (who, db')"
  obtains identity where "verify token = Inr identity" "sync_user admins fresh now identity db = Inr (who, db')"
  using assms by (auto simp: require_principal_def split: if_splits sum.splits py_error.splits)

lemma sync_user_keeps:
  assumes "sync_user admins fresh now identity db = Inr (who, db')" and "users_ok db" and "u \<in> set (ac_users db)"
  shows "\<exists>v \<in> set (ac_users db'). us_user_id v = us_user_id u \<and> us_auth_subject v = us_auth_subject u"
proof (cases "List.find (\<lambda>u. us_auth_subject u = vi_subject identity) (ac_users db)")
  case None
  with assms show ?thesis by (auto simp: sync_user_def Let_def guard_simps)
next
  case (Some old)
  have o: "old \<in> set (ac_users db)" "us_auth_subject old = vi_subject identity" using find_in_set [OF Some] by auto
  obtain n where n: "us_user_id n = us_user_id old" "us_auth_subject n = us_auth_subject old"
    "ac_users db' = map (\<lambda>x. if us_auth_subject x = us_auth_subject old then n else x) (ac_users db)"
    using assms(1) Some
    by (intro that [of "old\<lparr>us_email := vi_email identity, us_last_seen_at := now,
        us_is_admin := us_is_admin old \<or> vi_email identity \<in> set admins\<rparr>"])
      (auto simp: sync_user_def Let_def split: if_splits)
  show ?thesis
  proof (cases "us_auth_subject u = us_auth_subject old")
    case True
    then have "u = old" using assms(2,3) o(1) by (auto simp: users_ok_def distinct_map dest: inj_onD)
    then show ?thesis using n assms(3) by force
  next
    case False
    then show ?thesis using n(3) assms(3) by force
  qed
qed

text \<open>C24. A request works on the workspace of its own user: the token is verified, the user is the one with
  the verified identity, the workspace is owned by that user and not suspended, and two requests get the
  same workspace exactly when their tokens name the same identity.\<close>

theorem workspace_is_the_callers:
  assumes "users_ok db" and "workspaces_ok db"
    and "require_principal (Some verify) True admins fresh now (Some (scheme, token)) db = Inr (who, db1)"
    and "require_workspace who db1 = Inr cx"
    and "require_principal (Some verify) True admins fresh' now' (Some (scheme', token')) db1 = Inr (who', db2)"
    and "require_workspace who' db2 = Inr cx'"
  shows "\<exists>identity identity' w. verify token = Inr identity \<and> verify token' = Inr identity' \<and>
    pr_auth_subject who = vi_subject identity \<and> w \<in> set (ac_workspaces db) \<and>
    ws_workspace_id w = wc_workspace_id cx \<and> ws_owner_user_id w = pr_user_id who \<and> ws_status w \<noteq> SUSPENDED \<and>
    (wc_workspace_id cx' = wc_workspace_id cx \<longleftrightarrow> vi_subject identity' = vi_subject identity)"
proof -
  obtain identity where i: "verify token = Inr identity" "sync_user admins fresh now identity db = Inr (who, db1)"
    using require_principal_Inr [OF assms(3)] .
  obtain identity' where i': "verify token' = Inr identity'" "sync_user admins fresh' now' identity' db1 = Inr (who', db2)"
    using require_principal_Inr [OF assms(5)] .
  note s = sync_user_ok [OF i(2) assms(1)]
  note s' = sync_user_ok [OF i'(2)]
  obtain w where w: "workspace_of_owner (pr_user_id who) db1 = Some w" "ws_status w \<noteq> SUSPENDED"
    "cx = \<lparr> wc_principal = who, wc_workspace_id = ws_workspace_id w, wc_status = ws_status w \<rparr>"
    using assms(4) by (auto simp: require_workspace_def split: option.splits if_splits)
  obtain w' where w': "workspace_of_owner (pr_user_id who') db2 = Some w'"
    "cx' = \<lparr> wc_principal = who', wc_workspace_id = ws_workspace_id w', wc_status = ws_status w' \<rparr>"
    using assms(6) by (auto simp: require_workspace_def split: option.splits if_splits)
  have in_w: "w \<in> set (ac_workspaces db)" "ws_owner_user_id w = pr_user_id who"
    and in_w': "w' \<in> set (ac_workspaces db)" "ws_owner_user_id w' = pr_user_id who'"
    using workspace_of_owner_Some [OF w(1)] workspace_of_owner_Some [OF w'(1)] s s' by auto
  have users: "pr_user_id who' = pr_user_id who \<longleftrightarrow> vi_subject identity' = vi_subject identity"
  proof -
    obtain u where u: "u \<in> set (ac_users db1)" "principal_of u = who" "us_auth_subject u = vi_subject identity"
      using s by blast
    obtain u' where u': "u' \<in> set (ac_users db2)" "principal_of u' = who'" "us_auth_subject u' = vi_subject identity'"
      using s s' by blast
    have ok: "users_ok db2" using s s' by blast
    obtain v where v: "v \<in> set (ac_users db2)" "us_user_id v = us_user_id u" "us_auth_subject v = us_auth_subject u"
      using u(1) s sync_user_keeps [OF i'(2)] by blast
    have "us_user_id u' = us_user_id v \<longleftrightarrow> us_auth_subject u' = us_auth_subject v"
      using ok u'(1) v(1) by (auto simp: users_ok_def distinct_map dest: inj_onD)
    then show ?thesis using u u' v by (auto simp: principal_of_def)
  qed
  have "wc_workspace_id cx' = wc_workspace_id cx \<longleftrightarrow> pr_user_id who' = pr_user_id who"
  proof -
    have "inj_on ws_workspace_id (set (ac_workspaces db))" "inj_on ws_owner_user_id (set (ac_workspaces db))"
      using assms(2) by (simp_all add: workspaces_ok_def distinct_map)
    then have "ws_workspace_id w' = ws_workspace_id w \<longleftrightarrow> ws_owner_user_id w' = ws_owner_user_id w"
      using in_w(1) in_w'(1) by (metis inj_onD)
    then show ?thesis using in_w in_w' w(3) w'(2) by simp
  qed
  moreover have "pr_auth_subject who = vi_subject identity" using s by (auto simp: principal_of_def)
  ultimately show ?thesis using i(1) i'(1) in_w w(2,3) users
    by (intro exI [of _ identity] exI [of _ identity'] exI [of _ w]) simp
qed

definition sample_verify :: "string \<Rightarrow> verified_identity result" where
  "sample_verify token = Inr \<lparr> vi_subject = token, vi_email = token @ ''@desk.io'' \<rparr>"

definition sample_user :: "string \<Rightarrow> app_user" where
  "sample_user name = \<lparr> us_user_id = name, us_auth_subject = name, us_email = name @ ''@desk.io'', us_is_admin = False,
     us_created_at = 0, us_last_seen_at = 0 \<rparr>"

definition sample_owners :: account_db where
  "sample_owners = empty_accounts\<lparr>ac_users := [sample_user ''ann'', sample_user ''bob''],
     ac_workspaces := map (\<lambda>n. new_workspace \<lparr> pv_workspace_id = ''w'' @ n, pv_audit_id = n, pv_now = 0 \<rparr> n n) [''ann'', ''bob'']\<rparr>"

definition sample_request :: "string \<Rightarrow> account_db \<Rightarrow> (auth_principal \<times> account_db) result" where
  "sample_request name db = require_principal (Some sample_verify) True [] ''new'' 5 (Some (''Bearer'', name)) db"

lemma sample_requests:
  "case sample_request ''ann'' sample_owners of Inl e \<Rightarrow> False | Inr (who, db1) \<Rightarrow> is_ok (require_workspace who db1) \<and>
     (case sample_request ''bob'' db1 of Inl e \<Rightarrow> False | Inr (who', db2) \<Rightarrow> is_ok (require_workspace who' db2))"
  by code_simp

theorem workspace_is_the_callers_witness:
  "\<exists>who db1 cx who' db2 cx'. sample_request ''ann'' sample_owners = Inr (who, db1) \<and>
     require_workspace who db1 = Inr cx \<and> sample_request ''bob'' db1 = Inr (who', db2) \<and>
     require_workspace who' db2 = Inr cx' \<and> pr_auth_subject who = ''ann'' \<and> wc_workspace_id cx' \<noteq> wc_workspace_id cx"
proof -
  obtain who db1 where ann: "sample_request ''ann'' sample_owners = Inr (who, db1)"
    using sample_requests by (auto split: sum.splits)
  obtain who' db2 where bob: "sample_request ''bob'' db1 = Inr (who', db2)"
    using sample_requests ann by (auto split: sum.splits)
  obtain cx cx' where "require_workspace who db1 = Inr cx" "require_workspace who' db2 = Inr cx'"
    using sample_requests ann bob by (auto simp: is_ok_iff)
  note r = ann this(1) bob this(2)
  have ok: "users_ok sample_owners" "workspaces_ok sample_owners"
    by (simp_all add: users_ok_def workspaces_ok_def sample_owners_def sample_user_def new_workspace_def)
  from workspace_is_the_callers [OF ok r(1) [unfolded sample_request_def] r(2) r(3) [unfolded sample_request_def] r(4)] r
  show ?thesis unfolding sample_verify_def by auto
qed

section \<open>Invitation codes\<close>

lemma concat_chunks: "0 < n \<Longrightarrow> concat (chunks n xs) = xs"
proof (induction n xs rule: chunks.induct)
  case (2 n x xs)
  then show ?case by (metis append_Cons append_take_drop_id chunks.simps(2) concat.simps(2))
qed simp

lemma filter_join: "\<forall>ch \<in> set sep. \<not> P ch \<Longrightarrow> filter P (join_with sep xs) = filter P (concat xs)"
  by (induction sep xs rule: join_with.induct) (auto simp: filter_empty_conv)

lemma map_join: "map f (join_with sep xs) = join_with (map f sep) (map (map f) xs)"
  by (induction sep xs rule: join_with.induct) auto

lemma set_join: "set (join_with sep xs) \<subseteq> set sep \<union> set (concat xs)"
  by (induction sep xs rule: join_with.induct) auto

lemma alphabet: "list_all (\<lambda>ch. upper_char ch = ch \<and> upper_char (lower_char ch) = ch \<and> ch \<noteq> CHR ''-'' \<and> ch \<noteq> CHR '' '' \<and>
    \<not> is_space_char ch \<and> \<not> is_space_char (lower_char ch)) crockford_alphabet"
  by code_simp

lemma alphabetD:
  assumes "drawn_code raw" and "ch \<in> set raw"
  shows "upper_char ch = ch \<and> upper_char (lower_char ch) = ch \<and> ch \<noteq> CHR ''-'' \<and> ch \<noteq> CHR '' '' \<and>
    \<not> is_space_char ch \<and> \<not> is_space_char (lower_char ch)"
  using assms alphabet by (auto simp: drawn_code_def list_all_iff)

lemma strip_no_space: "\<forall>ch \<in> set s. \<not> is_space_char ch \<Longrightarrow> py_strip s = s"
proof -
  have drop: "dropWhile is_space_char xs = xs" if "\<forall>ch \<in> set xs. \<not> is_space_char ch" for xs
    using that by (cases xs) auto
  assume "\<forall>ch \<in> set s. \<not> is_space_char ch"
  then show ?thesis using drop [of s] drop [of "rev s"] by (simp add: py_strip_def strip_while_def)
qed

lemma normalize_generated:
  assumes "drawn_code raw" and "\<forall>ch \<in> set raw. upper_char (f ch) = ch" and "upper_char (f (CHR ''-'')) = CHR ''-''"
  shows "normalize_readable_code (map f (generate_invitation_code raw)) = raw"
proof -
  have "map upper_char (map f (generate_invitation_code raw)) =
      join_with ''-'' (map (map (\<lambda>ch. upper_char (f ch))) (chunks 5 raw))"
    using assms(3) by (simp add: generate_invitation_code_def map_join o_def)
  also have "map (map (\<lambda>ch. upper_char (f ch))) (chunks 5 raw) = chunks 5 raw"
  proof -
    have "set (concat (chunks 5 raw)) = set raw" by (simp add: concat_chunks)
    then show ?thesis using assms(2) by (auto intro!: map_idI)
  qed
  finally have "normalize_readable_code (map f (generate_invitation_code raw)) =
      filter (\<lambda>ch. ch \<noteq> CHR ''-'' \<and> ch \<noteq> CHR '' '') raw"
    by (simp add: normalize_readable_code_def py_upper_def filter_join concat_chunks)
  also have "\<dots> = raw" using alphabetD [OF assms(1)] by (simp add: filter_id_conv)
  finally show ?thesis .
qed

lemma strip_generated:
  assumes "drawn_code raw" and "\<forall>ch \<in> set raw. \<not> is_space_char (f ch)" and "\<not> is_space_char (f (CHR ''-''))"
  shows "py_strip (map f (generate_invitation_code raw)) = map f (generate_invitation_code raw)"
proof (rule strip_no_space)
  have "set (generate_invitation_code raw) \<subseteq> insert (CHR ''-'') (set raw)"
    using set_join [of "''-''" "chunks 5 raw"] by (simp add: generate_invitation_code_def concat_chunks)
  then show "\<forall>ch \<in> set (map f (generate_invitation_code raw)). \<not> is_space_char ch" using assms(2,3) by auto
qed

text \<open>An invitation code is found again as it was shown, in lower case, and however its letters are grouped
  by dashes and blanks, provided no other invitation has one of the hashes of what was typed; it is then
  available until it expires, which is after the requested number of days, and after seven days also when
  no expiry was requested.\<close>

theorem invitation_code_roundtrip:
  assumes "drawn_code raw"
    and "create_invitation_endpoint sha raw fresh now later who payload db = Inr (view, db')"
    and "normalize_readable_code (py_strip typed) = raw"
    and "list_all (\<lambda>r. iv_token_hash r \<notin> set (invitation_hash_candidates sha typed)) (ac_invitations db)"
  shows "\<exists>r. inspect_invitation sha typed db' = Some r \<and> iv_invitation_id r = fresh \<and>
    ivw_invitation_code view = Some (generate_invitation_code raw) \<and>
    normalize_readable_code (py_strip (generate_invitation_code raw)) = raw \<and>
    normalize_readable_code (py_strip (py_lower (generate_invitation_code raw))) = raw \<and>
    (\<forall>t. available r t = (t < (case cn_expires_in_days payload of
      None \<Rightarrow> later + day_span 7 | Some n \<Rightarrow> now + day_span n)))"
proof -
  have dash: "upper_char (CHR ''-'') = CHR ''-''" "upper_char (lower_char (CHR ''-'')) = CHR ''-''"
    "\<not> is_space_char (CHR ''-'')" "\<not> is_space_char (lower_char (CHR ''-''))" by code_simp+
  have up: "normalize_readable_code (py_strip (generate_invitation_code raw)) = raw"
    using normalize_generated [OF assms(1), of "\<lambda>c. c"] strip_generated [OF assms(1), of "\<lambda>c. c"] alphabetD [OF assms(1)] dash
    by simp
  have low: "normalize_readable_code (py_strip (py_lower (generate_invitation_code raw))) = raw"
    using normalize_generated [OF assms(1), of lower_char] strip_generated [OF assms(1), of lower_char]
      alphabetD [OF assms(1)] dash by (simp add: py_lower_def)
  have norm: "normalize_readable_code (generate_invitation_code raw) = raw"
    using normalize_generated [OF assms(1), of "\<lambda>c. c"] alphabetD [OF assms(1)] dash by simp
  have max: "1 \<le> cn_max_uses payload"
    using assms(2) by (auto simp: create_invitation_endpoint_def create_invitation_input_valid_def guard_simps)
  obtain r where r: "db' = db\<lparr>ac_invitations := ac_invitations db @ [r]\<rparr>" "iv_invitation_id r = fresh"
    "iv_token_hash r = sha raw" "iv_disabled_at r = None" "iv_use_count r = 0" "iv_max_uses r = cn_max_uses payload"
    "iv_expires_at r = Some (or_else (map_option (\<lambda>n. now + day_span n) (cn_expires_in_days payload)) (later + day_span 7))"
    "ivw_invitation_code view = Some (generate_invitation_code raw)"
    using assms(2) unfolding create_invitation_endpoint_def create_invitation_def Let_def rbind_eq_Inr db_insert_Inr
    by (auto simp: norm invitation_view_of_def require_admin_def split: if_splits intro!: that)
  have "sha raw \<in> set (invitation_hash_candidates sha typed)"
    by (simp add: invitation_hash_candidates_def Let_def assms(3))
  moreover have "List.find (\<lambda>r. iv_token_hash r \<in> set (invitation_hash_candidates sha typed)) (ac_invitations db) = None"
    using assms(4) by (simp add: find_None_iff list_all_iff)
  ultimately have "inspect_invitation sha typed db' = Some r"
    using r(1,3) by (simp add: inspect_invitation_def find_append)
  then show ?thesis using r max up low
    by (intro exI [of _ r]) (auto simp: available_def split: option.split)
qed

definition sample_payload :: create_invitation_input where
  "sample_payload = \<lparr> cn_comment = [], cn_max_uses = 1, cn_expires_in_days = None \<rparr>"

definition sample_root :: auth_principal where
  "sample_root = \<lparr> pr_user_id = ''root'', pr_auth_subject = ''root'', pr_email = ''root@desk.io'', pr_is_admin = True \<rparr>"

theorem invitation_code_roundtrip_witness:
  "\<exists>view db' r. create_invitation_endpoint id ''ABCDEFGHJKMNPQRSTVWXYZ0123'' ''f'' 0 1 sample_root sample_payload
     sample_accounts = Inr (view, db') \<and>
   inspect_invitation id '' abcde-fghjk mnpqrstvwxyz-0123 '' db' = Some r \<and> iv_invitation_id r = ''f'' \<and>
   available r 5"
proof -
  have d: "drawn_code ''ABCDEFGHJKMNPQRSTVWXYZ0123''" by code_simp
  have n: "normalize_readable_code (py_strip '' abcde-fghjk mnpqrstvwxyz-0123 '') = ''ABCDEFGHJKMNPQRSTVWXYZ0123''"
    by code_simp
  have o: "list_all (\<lambda>r. iv_token_hash r \<notin> set (invitation_hash_candidates id '' abcde-fghjk mnpqrstvwxyz-0123 ''))
      (ac_invitations sample_accounts)" by code_simp
  have "is_ok (create_invitation_endpoint id ''ABCDEFGHJKMNPQRSTVWXYZ0123'' ''f'' 0 1 sample_root sample_payload
      sample_accounts)" by code_simp
  then obtain view db' where c: "create_invitation_endpoint id ''ABCDEFGHJKMNPQRSTVWXYZ0123'' ''f'' 0 1 sample_root
      sample_payload sample_accounts = Inr (view, db')" by (auto simp: is_ok_iff)
  from invitation_code_roundtrip [OF d c n o] c show ?thesis
    by (auto simp: sample_payload_def day_span_def seconds_def)
qed

end
