(* ===== verification/Py_Numbers.thy ===== *)
theory Py_Numbers
  imports Text_Codecs Options_Domain
begin

text \<open>
  How Python's standard library reads numbers from text, where the code does so: \<open>int(s)\<close>, \<open>int(s, 16)\<close>,
  \<open>Decimal(s)\<close>, \<open>UUID(s)\<close> and \<open>datetime.fromtimestamp(n, tz=UTC)\<close>.
\<close>

section \<open>Integers\<close>

text \<open>\<open>int\<close> strips the blanks of C only, unlike \<open>str.strip\<close>.\<close>

definition is_c_space :: "char \<Rightarrow> bool" where
  "is_c_space ch \<longleftrightarrow> code_of ch = 32 \<or> 9 \<le> code_of ch \<and> code_of ch \<le> 13"

definition digit_value :: "int \<Rightarrow> char \<Rightarrow> int option" where
  "digit_value base ch = (case hex_value ch of None \<Rightarrow> None | Some v \<Rightarrow> if v < base then Some v else None)"

text \<open>Digits with single underscores between them; \<open>gap\<close>: the previous character was an underscore.\<close>

fun digits_loop :: "int \<Rightarrow> int \<Rightarrow> bool \<Rightarrow> string \<Rightarrow> int option" where
  "digits_loop base acc gap [] = (if gap then None else Some acc)"
| "digits_loop base acc gap (ch # cs) =
     (if ch = CHR ''_'' then (if gap then None else digits_loop base acc True cs)
      else case digit_value base ch of
        None \<Rightarrow> None
      | Some v \<Rightarrow> digits_loop base (acc * base + v) False cs)"

text \<open>A number does not begin with an underscore.\<close>

definition read_digits :: "int \<Rightarrow> string \<Rightarrow> int option" where
  "read_digits base s = digits_loop base 0 True s"

definition read_sign :: "string \<Rightarrow> bool \<times> string" where
  "read_sign s = (case s of
      [] \<Rightarrow> (False, [])
    | ch # cs \<Rightarrow> if ch = CHR ''-'' then (True, cs) else if ch = CHR ''+'' then (False, cs) else (False, s))"

text \<open>The prefix \<open>0x\<close> of \<open>int(s, 16)\<close>, which one underscore may follow.\<close>

definition drop_prefix :: "string \<Rightarrow> string" where
  "drop_prefix s =
     (if py_lower (take 2 s) = ''0x'' then (if take 1 (drop 2 s) = ''_'' then drop 3 s else drop 2 s) else s)"

text \<open>\<open>None\<close> stands for \<open>ValueError\<close>; a decimal text of more than 4300 digits is refused.\<close>

definition py_int :: "int \<Rightarrow> string \<Rightarrow> int option" where
  "py_int base s =
     (case read_sign (strip_while is_c_space s) of (negative, body) \<Rightarrow>
      let digits = (if base = 16 then drop_prefix body else body) in
      if base = 10 \<and> 4300 < length (filter (\<lambda>ch. ch \<noteq> CHR ''_'') digits) then None
      else map_option (\<lambda>n. if negative then - n else n) (read_digits base digits))"

section \<open>Decimals\<close>

text \<open>A decimal read from text is a number or one of the special values (infinities and NaNs).\<close>

datatype numeral_value = Finite decimal | Not_finite

fun is_finite :: "numeral_value \<Rightarrow> bool" where
  "is_finite (Finite x) = True"
| "is_finite Not_finite = False"

fun finite_value :: "numeral_value \<Rightarrow> decimal" where
  "finite_value (Finite x) = x"
| "finite_value Not_finite = 0"

definition all_digits :: "string \<Rightarrow> bool" where
  "all_digits s \<longleftrightarrow> list_all is_digit_char s"

fun digits_number :: "int \<Rightarrow> string \<Rightarrow> int" where
  "digits_number acc [] = acc"
| "digits_number acc (ch # cs) = digits_number (10 * acc + (code_of ch - 48)) cs"

definition is_special :: "string \<Rightarrow> bool" where
  "is_special body \<longleftrightarrow> (let low = py_lower body in
     low = ''inf'' \<or> low = ''infinity'' \<or>
     take 3 low = ''nan'' \<and> all_digits (drop 3 low) \<or>
     take 4 low = ''snan'' \<and> all_digits (drop 4 low))"

text \<open>The mantissa's digits and the number of them behind the point.\<close>

definition read_mantissa :: "string \<Rightarrow> (string \<times> nat) option" where
  "read_mantissa m = (case py_split_once CHR ''.'' m of
      None \<Rightarrow> if m \<noteq> [] \<and> all_digits m then Some (m, 0) else None
    | Some (whole, fraction) \<Rightarrow>
        if whole @ fraction \<noteq> [] \<and> all_digits (whole @ fraction) then Some (whole @ fraction, length fraction)
        else None)"

definition read_exponent :: "string \<Rightarrow> int option" where
  "read_exponent s = (case read_sign s of (negative, digits) \<Rightarrow>
     if digits \<noteq> [] \<and> all_digits digits
     then Some (if negative then - digits_number 0 digits else digits_number 0 digits) else None)"

text \<open>Mantissa and exponent, and the bounds that \<open>Decimal\<close> puts on exponents.\<close>

definition read_unsigned :: "string \<Rightarrow> decimal option" where
  "read_unsigned body =
     (let low = py_lower body;
          parts = (case py_split_once CHR ''e'' low of
              None \<Rightarrow> (case read_mantissa low of None \<Rightarrow> None | Some m \<Rightarrow> Some (m, 0))
            | Some (mantissa, e) \<Rightarrow> (case read_mantissa mantissa of None \<Rightarrow> None | Some m \<Rightarrow>
                (case read_exponent e of None \<Rightarrow> None | Some x \<Rightarrow> Some (m, x))))
      in case parts of
        None \<Rightarrow> None
      | Some ((digits, places), x) \<Rightarrow>
          let scale = x - int places in
          if 10 ^ 18 \<le> scale + int (length digits) - 1 \<or> scale < - 1999999999999999997 then None
          else Some (of_int (digits_number 0 digits) * pow10 scale))"

text \<open>\<open>Decimal(s)\<close>: blanks at the ends and underscores anywhere are dropped; what is no number raises.\<close>

definition parse_decimal :: "string \<Rightarrow> numeral_value result" where
  "parse_decimal s =
     (case read_sign (filter (\<lambda>ch. ch \<noteq> CHR ''_'') (py_strip s)) of (negative, body) \<Rightarrow>
      if is_special body then Inr Not_finite
      else case read_unsigned body of
        None \<Rightarrow> Inl InvalidOperation
      | Some x \<Rightarrow> Inr (Finite (if negative then - x else x)))"

text \<open>A pydantic model refuses a special value in a field of type \<open>Decimal\<close>.\<close>

definition finite_fields :: "string \<Rightarrow> numeral_value list \<Rightarrow> unit result" where
  "finite_fields model ns = require (list_all is_finite ns) (ValidationError model)"

lemma finite_fields_Inr [guard_simps]:
  "finite_fields model ns = Inr u \<longleftrightarrow> (\<forall>n \<in> set ns. is_finite n)"
  by (simp add: finite_fields_def list_all_iff)

section \<open>UUIDs\<close>

definition py_delete :: "string \<Rightarrow> string \<Rightarrow> string" where
  "py_delete chars s = filter (\<lambda>ch. ch \<notin> set chars) s"

text \<open>\<open>s.replace(word, '')\<close>\<close>

function remove_word :: "string \<Rightarrow> string \<Rightarrow> string" where
  "remove_word word s =
     (case s of
       [] \<Rightarrow> []
     | ch # cs \<Rightarrow> if word \<noteq> [] \<and> py_startswith s word then remove_word word (drop (length word) s)
         else ch # remove_word word cs)"
  by auto
termination by (relation "measure (\<lambda>(word, s). length s)") auto

declare remove_word.simps [simp del]

fun hex_text :: "nat \<Rightarrow> int \<Rightarrow> string" where
  "hex_text 0 n = []"
| "hex_text (Suc k) n = hex_text k (n div 16) @ [hex_digit (n mod 16)]"

definition uuid_text :: "int \<Rightarrow> uuid" where
  "uuid_text n = (let h = hex_text 32 n in
     take 8 h @ ''-'' @ take 4 (drop 8 h) @ ''-'' @ take 4 (drop 12 h) @ ''-'' @ take 4 (drop 16 h) @ ''-'' @ drop 20 h)"

text \<open>\<open>UUID(s)\<close>; \<open>None\<close> stands for \<open>ValueError\<close>.\<close>

definition parse_uuid :: "string \<Rightarrow> uuid option" where
  "parse_uuid s =
     (let hex = py_delete ''-'' (py_strip_chars ''{}'' (remove_word ''uuid:'' (remove_word ''urn:'' s))) in
      if length hex \<noteq> 32 then None
      else case py_int 16 hex of
        None \<Rightarrow> None
      | Some n \<Rightarrow> if 0 \<le> n \<and> n < 16 ^ 32 then Some (uuid_text n) else None)"

section \<open>Timestamps\<close>

text \<open>\<open>datetime.fromtimestamp(n, tz=UTC)\<close> for whole seconds: the years 1 to 9999, a \<open>ValueError\<close> for a year that
  the C library can compute, and its own errors beyond.\<close>

definition from_timestamp :: "int \<Rightarrow> instant result" where
  "from_timestamp n =
     (if - 62135596800 \<le> n \<and> n \<le> 253402300799 then Inr (seconds n)
      else if - 67768040609740800 \<le> n \<and> n \<le> 67768036191676799 then Inl (ValueError ''year is out of range'')
      else if - (2 ^ 63) \<le> n \<and> n < 2 ^ 63 then Inl (External ''OSError'')
      else Inl OverflowError)"

text \<open>\<open>int(t.timestamp())\<close> truncates towards zero; the times here are after the epoch.\<close>

definition timestamp_seconds :: "instant \<Rightarrow> int" where
  "timestamp_seconds t = (if 0 \<le> t then t div 1000000 else - ((- t) div 1000000))"

end
