(* ===== verification/Options_Chain.thy ===== *)
theory Options_Chain
  imports Connected Py_Numbers
begin

text \<open>
  \<open>packages/options/alpaca_adapter.py\<close>: option contracts and their market data, read page by page from
  Alpaca and turned into the domain's contracts.

  The two SDK clients are parameters: \<open>fetch n request\<close> is the answer to the \<open>n\<close>-th request for contracts
  (a page and the token of the next one), \<open>snapshots\<close> the dictionary of market data.  An attribute of an SDK
  object is its text (\<open>str\<close> of it); \<open>None\<close> where the attribute is \<open>None\<close> and the code asks for it.
\<close>

section \<open>The SDK's objects\<close>

record raw_contract =
  rk_id :: string
  rk_symbol :: string
  rk_underlying_symbol :: string
  rk_expiration_date :: day
  rk_strike_price :: string
  rk_type :: string
  rk_size :: string
  rk_open_interest :: "string option"
  rk_tradable :: bool

record raw_greeks =
  rg_delta :: string
  rg_gamma :: string
  rg_theta :: string
  rg_vega :: string

record raw_quote =
  rq_bid_price :: string
  rq_ask_price :: string
  rq_bid_size :: string
  rq_ask_size :: string
  rq_timestamp :: datetime

record raw_snapshot =
  rn_latest_quote :: "raw_quote option"
  rn_greeks :: "raw_greeks option"
  rn_implied_volatility :: "string option"

record contracts_request =
  xr_underlying_symbols :: "string list"
  xr_status :: string
  xr_expiration_date_gte :: day
  xr_expiration_date_lte :: day
  xr_strike_price_gte :: "decimal option"
  xr_strike_price_lte :: "decimal option"
  xr_limit :: int
  xr_page_token :: "string option"

section \<open>Mapping a contract\<close>

definition option_chain_adapter :: "string \<Rightarrow> string \<Rightarrow> unit result" where
  "option_chain_adapter api_key secret_key = require (api_key \<noteq> [] \<and> secret_key \<noteq> [])
     (ValueError ''Alpaca credentials are required for option market data.'')"

fun option_type_text :: "option_type \<Rightarrow> string" where
  "option_type_text CALL = ''call''"
| "option_type_text PUT = ''put''"

definition option_type_of :: "string \<Rightarrow> option_type result" where
  "option_type_of v = (let normalized = py_lower v in
     if normalized = ''call'' then Inr CALL else if normalized = ''put'' then Inr PUT
     else Inl (ValueError (''Unsupported option type: '' @ normalized)))"

definition parse_int :: "string \<Rightarrow> int result" where
  "parse_int s = (case py_int 10 s of None \<Rightarrow> Inl (ValueError ''invalid literal for int()'') | Some n \<Rightarrow> Inr n)"

definition parse_optional :: "(string \<Rightarrow> 'a result) \<Rightarrow> string option \<Rightarrow> 'a option result" where
  "parse_optional f v = (case v of None \<Rightarrow> Inr None | Some s \<Rightarrow> rbind (f s) (\<lambda>x. Inr (Some x)))"

definition map_greeks :: "raw_greeks \<Rightarrow> greeks result" where
  "map_greeks g =
     rbind (parse_decimal (rg_delta g)) (\<lambda>delta.
     rbind (parse_decimal (rg_gamma g)) (\<lambda>gamma.
     rbind (parse_decimal (rg_theta g)) (\<lambda>theta.
     rbind (parse_decimal (rg_vega g)) (\<lambda>vega.
     rbind (finite_fields ''Greeks'' [delta, gamma, theta, vega]) (\<lambda>_.
     Inr \<lparr> g_delta = finite_value delta, g_gamma = finite_value gamma,
       g_theta = finite_value theta, g_vega = finite_value vega \<rparr>)))))"

definition map_quote :: "raw_quote \<Rightarrow> string option \<Rightarrow> int option \<Rightarrow> greeks option \<Rightarrow> option_quote result" where
  "map_quote q volatility open_interest greeks =
     rbind (parse_decimal (rq_bid_price q)) (\<lambda>bid.
     rbind (parse_decimal (rq_ask_price q)) (\<lambda>ask.
     rbind (parse_decimal (rq_bid_size q)) (\<lambda>bid_size.
     rbind (parse_decimal (rq_ask_size q)) (\<lambda>ask_size.
     rbind (parse_optional parse_decimal volatility) (\<lambda>iv.
     rbind (finite_fields ''OptionQuote''
       ([bid, ask, bid_size, ask_size] @ (case iv of None \<Rightarrow> [] | Some v \<Rightarrow> [v]))) (\<lambda>_.
     validated option_quote_valid ''OptionQuote'' \<lparr> oq_bid = finite_value bid, oq_ask = finite_value ask,
       oq_bid_size = finite_value bid_size, oq_ask_size = finite_value ask_size,
       oq_quoted_at = rq_timestamp q, oq_open_interest = open_interest, oq_volume = None,
       oq_implied_volatility = map_option finite_value iv, oq_greeks = greeks \<rparr>))))))"

definition map_contract :: "raw_contract \<Rightarrow> raw_snapshot \<Rightarrow> option_contract result" where
  "map_contract raw snapshot = (case rn_latest_quote snapshot of
      None \<Rightarrow> Inl (ValueError (''Latest quote unavailable for '' @ rk_symbol raw))
    | Some quote \<Rightarrow>
      rbind (case rn_greeks snapshot of None \<Rightarrow> Inr None | Some g \<Rightarrow> rbind (map_greeks g) (\<lambda>m. Inr (Some m))) (\<lambda>greeks.
      rbind (parse_optional parse_int (rk_open_interest raw)) (\<lambda>open_interest.
      rbind (parse_decimal (rk_strike_price raw)) (\<lambda>strike.
      rbind (option_type_of (rk_type raw)) (\<lambda>option_type.
      rbind (parse_int (rk_size raw)) (\<lambda>multiplier.
      rbind (map_quote quote (rn_implied_volatility snapshot) open_interest greeks) (\<lambda>q.
      rbind (finite_fields ''OptionContract'' [strike]) (\<lambda>_.
      validated option_contract_valid ''OptionContract'' \<lparr> oc_contract_id = rk_id raw, oc_symbol = rk_symbol raw,
        oc_underlying_symbol = rk_underlying_symbol raw, oc_expiration = rk_expiration_date raw,
        oc_strike = finite_value strike, oc_option_type = option_type, oc_multiplier = multiplier,
        oc_tradable = rk_tradable raw, oc_quote = q \<rparr>))))))))"

section \<open>Reading the pages\<close>

definition contracts_request_of :: "option_chain_query \<Rightarrow> string option \<Rightarrow> contracts_request" where
  "contracts_request_of q page_token = \<lparr> xr_underlying_symbols = [cq_underlying_symbol q], xr_status = ''active'',
     xr_expiration_date_gte = cq_expiration_date_gte q, xr_expiration_date_lte = cq_expiration_date_lte q,
     xr_strike_price_gte = cq_strike_price_gte q, xr_strike_price_lte = cq_strike_price_lte q,
     xr_limit = 10000, xr_page_token = page_token \<rparr>"

type_synonym page = "raw_contract list \<times> string option"

text \<open>A page is the last one when its token is missing or empty.\<close>

definition last_page :: "page \<Rightarrow> bool" where
  "last_page p \<longleftrightarrow> snd p = None \<or> snd p = Some []"

text \<open>The loop \<open>while True\<close>, which need not end: its value is then \<open>None\<close>.\<close>

partial_function (option) contracts_loop ::
  "(nat \<Rightarrow> contracts_request \<Rightarrow> page result) \<Rightarrow> option_chain_query \<Rightarrow> nat \<Rightarrow> raw_contract list \<Rightarrow> string option \<Rightarrow>
   raw_contract list result option"
where
  "contracts_loop fetch q n contracts page_token =
     (case fetch n (contracts_request_of q page_token) of
       Inl e \<Rightarrow> Some (Inl e)
     | Inr page \<Rightarrow>
         if last_page page then Some (Inr (contracts @ fst page))
         else contracts_loop fetch q (Suc n) (contracts @ fst page) (snd page))"

definition get_contracts ::
  "(nat \<Rightarrow> contracts_request \<Rightarrow> page result) \<Rightarrow> option_chain_query \<Rightarrow> raw_contract list result option" where
  "get_contracts fetch q = contracts_loop fetch q 0 [] None"

section \<open>The market data\<close>

record snapshots_request =
  sr_underlying_symbol :: string
  sr_expiration_date_gte :: day
  sr_expiration_date_lte :: day
  sr_strike_price_gte :: "decimal option"
  sr_strike_price_lte :: "decimal option"

text \<open>\<open>float_of\<close> is the rounding of a decimal to a double; \<open>get_option_chain\<close> is the data client.\<close>

definition get_snapshots ::
  "(decimal \<Rightarrow> decimal) \<Rightarrow> (snapshots_request \<Rightarrow> (string \<times> raw_snapshot option) list result) \<Rightarrow> option_chain_query \<Rightarrow>
   (string \<times> raw_snapshot option) list result"
where
  "get_snapshots float_of get_option_chain q = get_option_chain
     \<lparr> sr_underlying_symbol = cq_underlying_symbol q, sr_expiration_date_gte = cq_expiration_date_gte q,
       sr_expiration_date_lte = cq_expiration_date_lte q,
       sr_strike_price_gte = map_option float_of (cq_strike_price_gte q),
       sr_strike_price_lte = map_option float_of (cq_strike_price_lte q) \<rparr>"

section \<open>The chain\<close>

text \<open>Contracts without market data or without a quote are left out.\<close>

fun normalize_contracts :: "(string \<times> raw_snapshot option) list \<Rightarrow> raw_contract list \<Rightarrow> option_contract list result" where
  "normalize_contracts snapshots [] = Inr []"
| "normalize_contracts snapshots (contract # contracts) =
     (case map_of snapshots (rk_symbol contract) of
       Some (Some snapshot) \<Rightarrow>
         if rn_latest_quote snapshot = None then normalize_contracts snapshots contracts
         else rbind (map_contract contract snapshot) (\<lambda>c.
           rbind (normalize_contracts snapshots contracts) (\<lambda>cs. Inr (c # cs)))
     | _ \<Rightarrow> normalize_contracts snapshots contracts)"

text \<open>\<open>OptionType\<close> is a \<open>StrEnum\<close>: its members compare as their texts.\<close>

instantiation option_type :: linorder
begin

definition less_eq_option_type :: "option_type \<Rightarrow> option_type \<Rightarrow> bool" where
  "less_eq_option_type a b \<longleftrightarrow> option_type_text a \<le> option_type_text b"

definition less_option_type :: "option_type \<Rightarrow> option_type \<Rightarrow> bool" where
  "less_option_type a b \<longleftrightarrow> option_type_text a < option_type_text b"

instance
proof
  fix a b c :: option_type
  show "a < b \<longleftrightarrow> a \<le> b \<and> \<not> b \<le> a" by (auto simp: less_eq_option_type_def less_option_type_def)
  show "a \<le> a" by (simp add: less_eq_option_type_def)
  show "a \<le> b \<Longrightarrow> b \<le> c \<Longrightarrow> a \<le> c" by (auto simp: less_eq_option_type_def)
  show "a \<le> b \<Longrightarrow> b \<le> a \<Longrightarrow> a = b"
    by (cases a; cases b) (simp_all add: less_eq_option_type_def)
  show "a \<le> b \<or> b \<le> a" by (auto simp: less_eq_option_type_def)
qed

end

definition chain_key :: "option_contract \<Rightarrow> day \<times> decimal \<times> option_type" where
  "chain_key c = (oc_expiration c, oc_strike c, oc_option_type c)"

text \<open>Both requests run at the same time; \<open>snapshots\<close> is the outcome of \<open>get_snapshots\<close>.  When both fail, the first failure is raised; \<open>snapshots_first\<close> says
  which one that is.\<close>

definition get_chain ::
  "bool \<Rightarrow> (nat \<Rightarrow> contracts_request \<Rightarrow> page result) \<Rightarrow> (string \<times> raw_snapshot option) list result \<Rightarrow>
   option_chain_query \<Rightarrow> option_contract list result option"
where
  "get_chain snapshots_first fetch snapshots q =
     (case (get_contracts fetch q, snapshots) of
       (None, Inl e) \<Rightarrow> Some (Inl e)
     | (None, Inr _) \<Rightarrow> None
     | (Some (Inl e), Inl e') \<Rightarrow> Some (Inl (if snapshots_first then e' else e))
     | (Some (Inl e), Inr _) \<Rightarrow> Some (Inl e)
     | (Some (Inr _), Inl e) \<Rightarrow> Some (Inl e)
     | (Some (Inr contracts), Inr found) \<Rightarrow>
         Some (rbind (normalize_contracts found contracts) (\<lambda>cs. Inr (sort_key chain_key cs))))"

end
