(* ===== verification/Options_Chain_Properties.thy ===== *)
theory Options_Chain_Properties
  imports Options_Chain
begin

text \<open>
  Reading an option chain: the loop over the pages returns exactly when some answer has no further page, with the
  contracts of all pages up to it; the chain holds every contract that has a quote, in order.
\<close>

section \<open>The sequence of answers\<close>

text \<open>The token sent with the \<open>n\<close>-th request, and the answer to it.\<close>

fun token_at :: "(nat \<Rightarrow> contracts_request \<Rightarrow> page result) \<Rightarrow> option_chain_query \<Rightarrow> nat \<Rightarrow> string option" where
  "token_at fetch q 0 = None"
| "token_at fetch q (Suc n) = (case fetch n (contracts_request_of q (token_at fetch q n)) of
      Inl e \<Rightarrow> None | Inr p \<Rightarrow> snd p)"

definition answer :: "(nat \<Rightarrow> contracts_request \<Rightarrow> page result) \<Rightarrow> option_chain_query \<Rightarrow> nat \<Rightarrow> page result" where
  "answer fetch q n = fetch n (contracts_request_of q (token_at fetch q n))"

definition is_end :: "page result \<Rightarrow> bool" where
  "is_end r = (case r of Inl e \<Rightarrow> True | Inr p \<Rightarrow> last_page p)"

definition contracts_of :: "page result \<Rightarrow> raw_contract list" where
  "contracts_of r = (case r of Inl e \<Rightarrow> [] | Inr p \<Rightarrow> fst p)"

text \<open>What reading the answers up to the \<open>n\<close>-th gives.\<close>

definition read_until :: "(nat \<Rightarrow> contracts_request \<Rightarrow> page result) \<Rightarrow> option_chain_query \<Rightarrow> nat \<Rightarrow> raw_contract list result" where
  "read_until fetch q n = (case answer fetch q n of
      Inl e \<Rightarrow> Inl e
    | Inr p \<Rightarrow> Inr (concat (map (\<lambda>i. contracts_of (answer fetch q i)) [0..<Suc n])))"

lemma token_Suc: "answer fetch q n = Inr p \<Longrightarrow> token_at fetch q (Suc n) = snd p"
  by (simp add: answer_def)

section \<open>The loop\<close>

lemma loop_reads:
  assumes "is_end (answer fetch q (n + k))" and "\<And>i. i < k \<Longrightarrow> \<not> is_end (answer fetch q (n + i))"
  shows "contracts_loop fetch q n (concat (map (\<lambda>i. contracts_of (answer fetch q i)) [0..<n])) (token_at fetch q n) =
     Some (read_until fetch q (n + k))"
  using assms
proof (induction k arbitrary: n)
  case 0
  show ?case
  proof (cases "answer fetch q n")
    case (Inl e)
    then show ?thesis by (subst contracts_loop.simps) (simp add: answer_def [symmetric] read_until_def)
  next
    case (Inr p)
    then have "last_page p" using 0 by (simp add: is_end_def)
    then show ?thesis using Inr
      by (subst contracts_loop.simps) (simp add: answer_def [symmetric] read_until_def contracts_of_def)
  qed
next
  case (Suc k)
  have "\<not> is_end (answer fetch q n)" using Suc.prems(2) [of 0] by simp
  then obtain p where p: "answer fetch q n = Inr p" "\<not> last_page p"
    by (auto simp: is_end_def split: sum.splits)
  have "contracts_loop fetch q (Suc n) (concat (map (\<lambda>i. contracts_of (answer fetch q i)) [0..<Suc n]))
      (token_at fetch q (Suc n)) = Some (read_until fetch q (Suc n + k))"
    using Suc.prems(1) Suc.prems(2) [of "Suc i" for i] by (intro Suc.IH) simp_all
  moreover have "contracts_loop fetch q n (concat (map (\<lambda>i. contracts_of (answer fetch q i)) [0..<n])) (token_at fetch q n) =
      contracts_loop fetch q (Suc n) (concat (map (\<lambda>i. contracts_of (answer fetch q i)) [0..<n]) @ fst p) (snd p)"
    using p by (subst contracts_loop.simps) (simp add: answer_def [symmetric])
  ultimately show ?case using p token_Suc [OF p(1)] by (simp add: contracts_of_def)
qed

lemma loop_ends:
  "contracts_loop fetch q n acc token = Some r \<Longrightarrow> token = token_at fetch q n \<longrightarrow> (\<exists>m. is_end (answer fetch q m))"
proof (rule contracts_loop.raw_induct
    [where P = "\<lambda>fetch q n acc token r. token = token_at fetch q n \<longrightarrow> (\<exists>m. is_end (answer fetch q m))"], goal_cases)
  case (1 loop fetch q n acc token r)
  show ?case
  proof (intro impI)
    assume token: "token = token_at fetch q n"
    show "\<exists>m. is_end (answer fetch q m)"
    proof (cases "is_end (answer fetch q n)")
      case False
      then obtain p where p: "answer fetch q n = Inr p" "\<not> last_page p"
        by (auto simp: is_end_def split: sum.splits)
      then have "loop fetch q (Suc n) (acc @ fst p) (snd p) = Some r"
        using 1(3) token by (simp add: answer_def)
      then show ?thesis using 1(2) token_Suc [OF p(1)] by metis
    qed blast
  qed
qed assumption

text \<open>C31. Reading the pages of a chain returns exactly when some answer is the last one, that is an error or a
  page without a token, and then with the contracts of all the pages up to the first such answer in their order,
  or with its error.  Otherwise the loop does not end: the code does not bound the number of pages.\<close>

theorem pagination_reads_every_page:
  "get_contracts fetch q =
     (if \<exists>n. is_end (answer fetch q n) then Some (read_until fetch q (LEAST n. is_end (answer fetch q n))) else None)"
proof (cases "\<exists>n. is_end (answer fetch q n)")
  case True
  define k where "k = (LEAST n. is_end (answer fetch q n))"
  have "is_end (answer fetch q k)" unfolding k_def using True by (rule LeastI_ex)
  moreover have "\<not> is_end (answer fetch q i)" if "i < k" for i
    using that unfolding k_def by (rule not_less_Least)
  ultimately have "contracts_loop fetch q 0 [] None = Some (read_until fetch q k)"
    using loop_reads [of fetch q 0 k] by simp
  then show ?thesis using True by (simp add: get_contracts_def k_def)
next
  case False
  then show ?thesis using loop_ends [of fetch q 0 "[]" None] by (cases "get_contracts fetch q") (auto simp: get_contracts_def)
qed

section \<open>The chain\<close>

text \<open>The contracts with a quote, and their snapshots.\<close>

definition quoted :: "(string \<times> raw_snapshot option) list \<Rightarrow> raw_contract list \<Rightarrow> (raw_contract \<times> raw_snapshot) list" where
  "quoted snapshots contracts = concat (map (\<lambda>c. case map_of snapshots (rk_symbol c) of
       Some (Some s) \<Rightarrow> (if rn_latest_quote s = None then [] else [(c, s)]) | _ \<Rightarrow> []) contracts)"

lemma normalize_quoted:
  "normalize_contracts snapshots contracts = rmap (\<lambda>(c, s). map_contract c s) (quoted snapshots contracts)"
  by (induction contracts) (auto simp: quoted_def split: option.splits)

lemma map_contract_valid: "map_contract raw snapshot = Inr c \<Longrightarrow> option_contract_valid c"
  by (auto simp: map_contract_def guard_simps split: option.splits)

text \<open>C32. A chain that is returned holds every contract of every page that has a quote, once for each time it was
  listed, and no other; the contracts are in the order of expiration, strike and type, and each of them satisfies
  the bounds of the domain model.\<close>

theorem chain_is_complete_and_sorted:
  assumes "get_chain snapshots_first fetch snapshots q = Some (Inr chain)"
  shows "\<exists>contracts found mapped. get_contracts fetch q = Some (Inr contracts) \<and> snapshots = Inr found \<and>
     list_all2 (\<lambda>(c, s) m. map_contract c s = Inr m) (quoted found contracts) mapped \<and> mset chain = mset mapped \<and>
     sorted (map chain_key chain) \<and> (\<forall>c \<in> set chain. option_contract_valid c)"
proof -
  obtain contracts found mapped where ok: "get_contracts fetch q = Some (Inr contracts)" "snapshots = Inr found"
      "normalize_contracts found contracts = Inr mapped" "chain = sort_key chain_key mapped"
    using assms by (auto simp: get_chain_def guard_simps split: option.splits sum.splits)
  then have m: "list_all2 (\<lambda>(c, s) m. map_contract c s = Inr m) (quoted found contracts) mapped"
    by (simp add: normalize_quoted rmap_Inr_iff case_prod_unfold)
  then have "\<forall>c \<in> set mapped. option_contract_valid c"
    by (fastforce simp: list_all2_conv_all_nth in_set_conv_nth case_prod_unfold intro: map_contract_valid)
  with ok m show ?thesis by auto
qed

definition demo_raw :: "string \<Rightarrow> string \<Rightarrow> raw_contract" where
  "demo_raw symbol strike = \<lparr> rk_id = symbol, rk_symbol = symbol, rk_underlying_symbol = ''NVDA'',
     rk_expiration_date = 20000, rk_strike_price = strike, rk_type = ''call'', rk_size = ''100'',
     rk_open_interest = Some ''250'', rk_tradable = True \<rparr>"

definition demo_snapshot :: raw_snapshot where
  "demo_snapshot = \<lparr> rn_latest_quote = Some \<lparr> rq_bid_price = ''4.10'', rq_ask_price = ''4.30'', rq_bid_size = ''10'',
     rq_ask_size = ''12'', rq_timestamp = Aware 0 \<rparr>, rn_greeks = None, rn_implied_volatility = Some ''0.38'' \<rparr>"

text \<open>Two pages, the second without a token; the third contract has no market data.\<close>

definition demo_fetch :: "nat \<Rightarrow> contracts_request \<Rightarrow> page result" where
  "demo_fetch n request = (case xr_page_token request of
      None \<Rightarrow> Inr ([demo_raw ''B'' ''125'', demo_raw ''A'' ''120.0''], Some ''next'')
    | Some token \<Rightarrow> Inr ([demo_raw ''C'' ''130''], None))"

lemma chain_is_complete_and_sorted_witness:
  "\<exists>chain. map oc_symbol chain = [''A'', ''B''] \<and> (\<exists>contracts found mapped.
     get_contracts demo_fetch (chain_query ''NVDA'' 19980 120) = Some (Inr contracts) \<and>
     Inr [(''A'', Some demo_snapshot), (''B'', Some demo_snapshot), (''C'', None)] = (Inr found :: (string \<times> raw_snapshot option) list result) \<and>
     list_all2 (\<lambda>(c, s) m. map_contract c s = Inr m) (quoted found contracts) mapped \<and> mset chain = mset mapped \<and>
     sorted (map chain_key chain) \<and> (\<forall>c \<in> set chain. option_contract_valid c))"
proof -
  let ?q = "chain_query ''NVDA'' 19980 120"
  let ?s = "[(''A'', Some demo_snapshot), (''B'', Some demo_snapshot), (''C'', None)]"
  have "get_contracts demo_fetch ?q = Some (Inr [demo_raw ''B'' ''125'', demo_raw ''A'' ''120.0'', demo_raw ''C'' ''130''])"
    by (simp add: get_contracts_def contracts_loop.simps demo_fetch_def contracts_request_of_def last_page_def)
  moreover have "\<exists>chain. normalize_contracts ?s [demo_raw ''B'' ''125'', demo_raw ''A'' ''120.0'', demo_raw ''C'' ''130''] = Inr chain \<and>
      map oc_symbol (sort_key chain_key chain) = [''A'', ''B'']"
  proof -
    let ?c = "\<lambda>symbol strike. \<lparr> oc_contract_id = symbol, oc_symbol = symbol, oc_underlying_symbol = ''NVDA'',
      oc_expiration = 20000, oc_strike = strike, oc_option_type = CALL, oc_multiplier = 100, oc_tradable = True,
      oc_quote = \<lparr> oq_bid = 41 / 10, oq_ask = 43 / 10, oq_bid_size = 10, oq_ask_size = 12, oq_quoted_at = Aware 0,
        oq_open_interest = Some 250, oq_volume = None, oq_implied_volatility = Some (19 / 50), oq_greeks = None \<rparr> \<rparr>"
    have "map_contract (demo_raw ''B'' ''125'') demo_snapshot = Inr (?c ''B'' 125)" by code_simp
    moreover have "map_contract (demo_raw ''A'' ''120.0'') demo_snapshot = Inr (?c ''A'' 120)" by code_simp
    ultimately show ?thesis
      by (simp add: demo_raw_def demo_snapshot_def sort_key_def chain_key_def less_eq_prod_def less_prod_def)
  qed
  ultimately obtain chain where chain: "get_chain True demo_fetch (Inr ?s) ?q = Some (Inr chain)"
      and symbols: "map oc_symbol chain = [''A'', ''B'']"
    by (auto simp: get_chain_def)
  show ?thesis using symbols chain_is_complete_and_sorted [OF chain] by (intro exI [of _ chain] conjI)
qed

end
