(* ===== verification/Broker_Adapter.thy ===== *)
theory Broker_Adapter
  imports Broker_Domain Py_Numbers
begin

text \<open>
  \<open>packages/broker/alpaca_adapter.py\<close>: the boundary to Alpaca's SDK.  Raw SDK objects become the domain's
  accounts, positions, orders and trade updates; orders go out as limit orders with several legs.

  The SDK's client is a parameter, one argument for each call's answer.  An attribute of an SDK object is the text that
  \<open>str\<close> gives for it (of an enum member, for its value), \<open>None\<close> for \<open>None\<close>.  \<open>read_iso\<close> stands for
  \<open>datetime.fromisoformat\<close>, where \<open>None\<close> is \<open>ValueError\<close>; \<open>now\<close> is the clock reading that fills a missing time.
  Every object reads the clock on its own: \<open>reading k\<close> is the reading for the \<open>k\<close>th of a list.
\<close>

section \<open>Values\<close>

definition text_of :: "string option \<Rightarrow> string \<Rightarrow> string" where
  "text_of value fallback = or_else value fallback"

text \<open>\<open>_text(value) or None\<close>\<close>

definition text_or_none :: "string option \<Rightarrow> string option" where
  "text_or_none value = (if text_of value [] = [] then None else Some (text_of value []))"

definition decimal_of :: "string option \<Rightarrow> numeral_value result" where
  "decimal_of value = parse_decimal (or_else value ''0'')"

definition optional_decimal :: "string option \<Rightarrow> numeral_value option result" where
  "optional_decimal value = (case value of None \<Rightarrow> Inr None | Some s \<Rightarrow> rbind (parse_decimal s) (\<lambda>x. Inr (Some x)))"

fun given :: "numeral_value option \<Rightarrow> numeral_value list" where
  "given None = []"
| "given (Some x) = [x]"

text \<open>A time attribute: a \<open>datetime\<close> or another object, which is read as ISO 8601 text.\<close>

datatype raw_time = Time datetime | Time_text string

text \<open>\<open>s.replace('Z', '+00:00')\<close>\<close>

definition replace_z :: "string \<Rightarrow> string" where
  "replace_z s = concat (map (\<lambda>ch. if ch = CHR ''Z'' then ''+00:00'' else [ch]) s)"

definition datetime_of :: "(string \<Rightarrow> datetime option) \<Rightarrow> raw_time option \<Rightarrow> instant option result" where
  "datetime_of read_iso value = (case value of
      None \<Rightarrow> Inr None
    | Some (Time t) \<Rightarrow> Inr (Some (in_utc t))
    | Some (Time_text s) \<Rightarrow> (case read_iso (replace_z s) of
        None \<Rightarrow> Inl (ValueError ''Invalid isoformat string'')
      | Some t \<Rightarrow> Inr (Some (in_utc t))))"

definition required_datetime :: "(string \<Rightarrow> datetime option) \<Rightarrow> instant \<Rightarrow> raw_time option \<Rightarrow> instant result" where
  "required_datetime read_iso now value = rbind (datetime_of read_iso value) (\<lambda>t. Inr (or_else t now))"

section \<open>The SDK's objects\<close>

record raw_account =
  ra_id :: "string option"
  ra_account_number :: "string option"
  ra_status :: "string option"
  ra_currency :: "string option"
  ra_equity :: "string option"
  ra_cash :: "string option"
  ra_buying_power :: "string option"
  ra_options_buying_power :: "string option"
  ra_last_equity :: "string option"
  ra_trading_blocked :: bool
  ra_account_blocked :: bool
  ra_trade_suspended_by_user :: bool

record raw_position =
  rp_asset_id :: "string option"
  rp_symbol :: "string option"
  rp_asset_class :: "string option"
  rp_side :: "string option"
  rp_qty :: "string option"
  rp_qty_available :: "string option"
  rp_avg_entry_price :: "string option"
  rp_market_value :: "string option"
  rp_cost_basis :: "string option"
  rp_unrealized_pl :: "string option"
  rp_current_price :: "string option"

record raw_leg =
  rl_id :: "string option"
  rl_symbol :: "string option"
  rl_side :: "string option"
  rl_qty :: "string option"
  rl_filled_qty :: "string option"
  rl_status :: "string option"

record raw_order =
  ro_id :: "string option"
  ro_client_order_id :: "string option"
  ro_status :: "string option"
  ro_asset_class :: "string option"
  ro_symbol :: "string option"
  ro_side :: "string option"
  ro_order_type :: "string option"
  ro_type :: "string option"
  ro_order_class :: "string option"
  ro_time_in_force :: "string option"
  ro_qty :: "string option"
  ro_filled_qty :: "string option"
  ro_filled_avg_price :: "string option"
  ro_limit_price :: "string option"
  ro_submitted_at :: "raw_time option"
  ro_created_at :: "raw_time option"
  ro_updated_at :: "raw_time option"
  ro_legs :: "raw_leg list option"

record raw_trade_update =
  ru_event :: "string option"
  ru_order :: raw_order
  ru_execution_id :: "string option"
  ru_price :: "string option"
  ru_qty :: "string option"
  ru_position_qty :: "string option"
  ru_timestamp :: "raw_time option"

section \<open>Mapping\<close>

definition broker_adapter :: "string \<Rightarrow> string \<Rightarrow> unit result" where
  "broker_adapter api_key secret_key = require (api_key \<noteq> [] \<and> secret_key \<noteq> [])
     (ValueError ''Paper Alpaca credentials are required for the broker adapter.'')"

definition map_account :: "instant \<Rightarrow> raw_account \<Rightarrow> broker_account result" where
  "map_account now raw =
     rbind (decimal_of (ra_equity raw)) (\<lambda>equity.
     rbind (decimal_of (ra_cash raw)) (\<lambda>cash.
     rbind (decimal_of (ra_buying_power raw)) (\<lambda>buying_power.
     rbind (optional_decimal (ra_options_buying_power raw)) (\<lambda>options_buying_power.
     rbind (decimal_of (ra_last_equity raw)) (\<lambda>last_equity.
     rbind (finite_fields ''BrokerAccount'' ([equity, cash, buying_power, last_equity] @ given options_buying_power)) (\<lambda>_.
     Inr \<lparr> ba_account_id = text_of (ra_id raw) [], ba_account_number = text_of (ra_account_number raw) [],
       ba_status = text_of (ra_status raw) [], ba_currency = text_of (ra_currency raw) ''USD'',
       ba_equity = finite_value equity, ba_cash = finite_value cash, ba_buying_power = finite_value buying_power,
       ba_options_buying_power = map_option finite_value options_buying_power,
       ba_last_equity = finite_value last_equity, ba_trading_blocked = ra_trading_blocked raw,
       ba_account_blocked = ra_account_blocked raw,
       ba_trade_suspended_by_user = ra_trade_suspended_by_user raw, ba_as_of = now \<rparr>))))))"

definition map_position :: "instant \<Rightarrow> raw_position \<Rightarrow> broker_position result" where
  "map_position now raw =
     rbind (decimal_of (rp_qty raw)) (\<lambda>quantity.
     rbind (optional_decimal (rp_qty_available raw)) (\<lambda>quantity_available.
     rbind (decimal_of (rp_avg_entry_price raw)) (\<lambda>average_entry_price.
     rbind (optional_decimal (rp_market_value raw)) (\<lambda>market_value.
     rbind (decimal_of (rp_cost_basis raw)) (\<lambda>cost_basis.
     rbind (decimal_of (rp_unrealized_pl raw)) (\<lambda>unrealized_pl.
     rbind (optional_decimal (rp_current_price raw)) (\<lambda>current_price.
     rbind (finite_fields ''BrokerPosition'' ([quantity, average_entry_price, cost_basis, unrealized_pl] @
       given quantity_available @ given market_value @ given current_price)) (\<lambda>_.
     Inr \<lparr> bp_asset_id = text_of (rp_asset_id raw) [], bp_symbol = text_of (rp_symbol raw) [],
       bp_asset_class = text_of (rp_asset_class raw) [], bp_side = text_of (rp_side raw) [],
       bp_quantity = finite_value quantity, bp_quantity_available = map_option finite_value quantity_available,
       bp_average_entry_price = finite_value average_entry_price,
       bp_market_value = map_option finite_value market_value, bp_cost_basis = finite_value cost_basis,
       bp_unrealized_pl = finite_value unrealized_pl,
       bp_current_price = map_option finite_value current_price, bp_as_of = now \<rparr>))))))))"

definition map_leg :: "raw_leg \<Rightarrow> broker_order_leg result" where
  "map_leg raw =
     rbind (optional_decimal (rl_qty raw)) (\<lambda>quantity.
     rbind (decimal_of (rl_filled_qty raw)) (\<lambda>filled_quantity.
     rbind (finite_fields ''BrokerOrderLeg'' (filled_quantity # given quantity)) (\<lambda>_.
     Inr \<lparr> bl_broker_order_id = text_of (rl_id raw) [], bl_symbol = text_of (rl_symbol raw) [],
       bl_side = text_of (rl_side raw) [], bl_quantity = map_option finite_value quantity,
       bl_filled_quantity = finite_value filled_quantity, bl_status = text_of (rl_status raw) ''unknown'' \<rparr>)))"

text \<open>\<open>raw.order_type or raw.type\<close>\<close>

definition order_type_text :: "raw_order \<Rightarrow> string" where
  "order_type_text raw = (if text_of (ro_order_type raw) [] = [] then text_of (ro_type raw) []
     else text_of (ro_order_type raw) [])"

definition map_order :: "(string \<Rightarrow> datetime option) \<Rightarrow> instant \<Rightarrow> raw_order \<Rightarrow> broker_order result" where
  "map_order read_iso now raw =
     rbind (rmap map_leg (or_else (ro_legs raw) [])) (\<lambda>legs.
     rbind (optional_decimal (ro_qty raw)) (\<lambda>quantity.
     rbind (decimal_of (ro_filled_qty raw)) (\<lambda>filled_quantity.
     rbind (optional_decimal (ro_filled_avg_price raw)) (\<lambda>filled_average_price.
     rbind (optional_decimal (ro_limit_price raw)) (\<lambda>limit_price.
     rbind (datetime_of read_iso (ro_submitted_at raw)) (\<lambda>submitted_at.
     rbind (required_datetime read_iso now (ro_created_at raw)) (\<lambda>created_at.
     rbind (datetime_of read_iso (ro_updated_at raw)) (\<lambda>updated_at.
     rbind (finite_fields ''BrokerOrder''
       (filled_quantity # given quantity @ given filled_average_price @ given limit_price)) (\<lambda>_.
     Inr \<lparr> bo_broker_order_id = text_of (ro_id raw) [], bo_client_order_id = text_of (ro_client_order_id raw) [],
       bo_status = text_of (ro_status raw) ''unknown'', bo_asset_class = text_of (ro_asset_class raw) [],
       bo_symbol = text_or_none (ro_symbol raw), bo_side = text_or_none (ro_side raw),
       bo_order_type = order_type_text raw, bo_order_class = text_of (ro_order_class raw) ''simple'',
       bo_time_in_force = text_of (ro_time_in_force raw) [], bo_quantity = map_option finite_value quantity,
       bo_filled_quantity = finite_value filled_quantity,
       bo_filled_average_price = map_option finite_value filled_average_price,
       bo_limit_price = map_option finite_value limit_price, bo_submitted_at = submitted_at,
       bo_created_at = created_at, bo_updated_at = updated_at, bo_legs = legs \<rparr>)))))))))"

definition map_trade_update ::
  "(string \<Rightarrow> datetime option) \<Rightarrow> instant \<Rightarrow> raw_trade_update \<Rightarrow> broker_trade_update result" where
  "map_trade_update read_iso now raw =
     rbind (map_order read_iso now (ru_order raw)) (\<lambda>order.
     rbind (optional_decimal (ru_price raw)) (\<lambda>price.
     rbind (optional_decimal (ru_qty raw)) (\<lambda>quantity.
     rbind (optional_decimal (ru_position_qty raw)) (\<lambda>position_quantity.
     rbind (required_datetime read_iso now (ru_timestamp raw)) (\<lambda>occurred_at.
     rbind (finite_fields ''BrokerTradeUpdate'' (given price @ given quantity @ given position_quantity)) (\<lambda>_.
     Inr \<lparr> tu_event = text_of (ru_event raw) [], tu_order = order,
       tu_execution_id = text_or_none (ru_execution_id raw), tu_price = map_option finite_value price,
       tu_quantity = map_option finite_value quantity,
       tu_position_quantity = map_option finite_value position_quantity, tu_occurred_at = occurred_at \<rparr>))))))"

section \<open>Calls\<close>

definition get_account :: "instant \<Rightarrow> raw_account result \<Rightarrow> broker_account result" where
  "get_account now raw = rbind raw (map_account now)"

definition map_all :: "(instant \<Rightarrow> 'a \<Rightarrow> 'b result) \<Rightarrow> (nat \<Rightarrow> instant) \<Rightarrow> 'a list \<Rightarrow> 'b list result" where
  "map_all f reading raws = rmap (\<lambda>(k, raw). f (reading k) raw) (List.enumerate 0 raws)"

definition list_positions :: "(nat \<Rightarrow> instant) \<Rightarrow> raw_position list result \<Rightarrow> broker_position list result" where
  "list_positions reading raw = rbind raw (map_all map_position reading)"

text \<open>The request asks for orders in every state, open or not.\<close>

record orders_request =
  gr_status :: string
  gr_limit :: int
  gr_nested :: bool

definition open_orders_request :: orders_request where
  "open_orders_request = \<lparr> gr_status = ''all'', gr_limit = 50, gr_nested = True \<rparr>"

definition list_open_orders ::
  "(string \<Rightarrow> datetime option) \<Rightarrow> (nat \<Rightarrow> instant) \<Rightarrow> (orders_request \<Rightarrow> raw_order list result) \<Rightarrow> broker_order list result"
where
  "list_open_orders read_iso reading get_orders =
     rbind (get_orders open_orders_request) (map_all (map_order read_iso) reading)"

record limit_order_request =
  lr_qty :: int
  lr_limit_price :: decimal
  lr_time_in_force :: string
  lr_order_class :: string
  lr_client_order_id :: string
  lr_legs :: "(string \<times> int \<times> string) list"

text \<open>\<open>float_of\<close> is the conversion of the limit price to a binary floating point number.\<close>

definition order_request :: "(decimal \<Rightarrow> decimal) \<Rightarrow> order_submission \<Rightarrow> limit_order_request" where
  "order_request float_of order = \<lparr> lr_qty = su_quantity order, lr_limit_price = float_of (su_limit_price order),
     lr_time_in_force = ''day'', lr_order_class = ''mleg'', lr_client_order_id = su_client_order_id order,
     lr_legs = map (\<lambda>l. (sl_symbol l, sl_ratio l, if side_text (sl_side l) = ''buy'' then ''buy'' else ''sell''))
       (su_legs order) \<rparr>"

definition submit_order ::
  "(string \<Rightarrow> datetime option) \<Rightarrow> instant \<Rightarrow> (decimal \<Rightarrow> decimal) \<Rightarrow> (limit_order_request \<Rightarrow> raw_order result) \<Rightarrow>
   order_submission \<Rightarrow> broker_order result"
where
  "submit_order read_iso now float_of submit order = rbind (submit (order_request float_of order)) (map_order read_iso now)"

definition close_broker_position ::
  "(string \<Rightarrow> datetime option) \<Rightarrow> instant \<Rightarrow> (string \<Rightarrow> raw_order result) \<Rightarrow> string \<Rightarrow> broker_order result" where
  "close_broker_position read_iso now close symbol_or_asset_id = rbind (close symbol_or_asset_id) (map_order read_iso now)"

text \<open>The SDK's answer to a cancellation is not kept.\<close>

definition cancel_order :: "(string \<Rightarrow> 'a result) \<Rightarrow> string \<Rightarrow> unit result" where
  "cancel_order cancel broker_order_id = rbind (cancel broker_order_id) (\<lambda>_. Inr ())"

text \<open>An answer to a look-up: an order, an \<open>APIError\<close> with the status it carries, or another exception.\<close>

datatype lookup = Order_found raw_order | Api_failure "int option" | Failure py_error

definition get_order ::
  "(string \<Rightarrow> datetime option) \<Rightarrow> instant \<Rightarrow> (string \<Rightarrow> lookup) \<Rightarrow> (string \<Rightarrow> lookup) \<Rightarrow> string option \<Rightarrow> string option \<Rightarrow>
   broker_order option result"
where
  "get_order read_iso now by_id by_client_id broker_order_id client_order_id =
     rbind (require ((broker_order_id = None) \<noteq> (client_order_id = None))
       (ValueError ''Provide exactly one broker_order_id or client_order_id.'')) (\<lambda>_.
     case (case broker_order_id of Some i \<Rightarrow> by_id i | None \<Rightarrow> by_client_id (the client_order_id)) of
       Order_found raw \<Rightarrow> rbind (map_order read_iso now raw) (\<lambda>order. Inr (Some order))
     | Api_failure (Some status) \<Rightarrow> if status = 404 then Inr None else Inl (External ''APIError'')
     | Api_failure None \<Rightarrow> Inl (External ''APIError'')
     | Failure e \<Rightarrow> Inl e)"

definition adapter_reconcile ::
  "(string \<Rightarrow> datetime option) \<Rightarrow> instant \<Rightarrow> (nat \<Rightarrow> instant) \<Rightarrow> (nat \<Rightarrow> instant) \<Rightarrow> instant \<Rightarrow> raw_account result \<Rightarrow>
   raw_position list result \<Rightarrow> (orders_request \<Rightarrow> raw_order list result) \<Rightarrow> reconciliation_snapshot result"
where
  "adapter_reconcile read_iso account_at position_at order_at now account positions get_orders =
     rbind (get_account account_at account) (\<lambda>a.
     rbind (list_positions position_at positions) (\<lambda>ps.
     rbind (list_open_orders read_iso order_at get_orders) (\<lambda>os.
     Inr \<lparr> rs_account = a, rs_positions = ps, rs_open_orders = os, rs_reconciled_at = now \<rparr>)))"

section \<open>The stream of trade updates\<close>

text \<open>The task that runs the SDK's stream and the queue that its handler fills.\<close>

record update_stream =
  us_task :: bool
  us_queue :: "broker_trade_update list"

definition start_stream :: "update_stream \<Rightarrow> update_stream" where
  "start_stream s = s\<lparr>us_task := True, us_queue := []\<rparr>"

text \<open>The handler; an update that cannot be mapped raises in the SDK's task and is not queued.\<close>

definition handle_update ::
  "(string \<Rightarrow> datetime option) \<Rightarrow> instant \<Rightarrow> raw_trade_update \<Rightarrow> update_stream \<Rightarrow> unit result \<times> update_stream" where
  "handle_update read_iso now raw s = (case map_trade_update read_iso now raw of
      Inl e \<Rightarrow> (Inl e, s)
    | Inr u \<Rightarrow> (Inr (), s\<lparr>us_queue := us_queue s @ [u]\<rparr>))"

text \<open>\<open>yield await queue.get()\<close>: \<open>None\<close> while there is nothing to yield, whatever has become of the task.\<close>

definition next_update :: "update_stream \<Rightarrow> (broker_trade_update \<times> update_stream) option" where
  "next_update s = (case us_queue s of [] \<Rightarrow> None | u # us \<Rightarrow> Some (u, s\<lparr>us_queue := us\<rparr>))"

text \<open>How the task ends once the stream has been told to stop, within five seconds or not.\<close>

datatype task_end = Returned | Timed_out | Task_failed py_error

definition close_stream :: "task_end \<Rightarrow> update_stream \<Rightarrow> unit result \<times> update_stream" where
  "close_stream fin s = (if \<not> us_task s then (Inr (), s)
     else case fin of
       Task_failed e \<Rightarrow> (Inl e, s)
     | _ \<Rightarrow> (Inr (), s\<lparr>us_task := False\<rparr>))"

end
