(* ===== verification/Broker_Adapter_Properties.thy ===== *)
theory Broker_Adapter_Properties
  imports Broker_Adapter Broker_Properties
begin

text \<open>
  The broker's own words at both ends: what a reconciliation through the SDK puts into the projection, and how an
  order whose submission failed is found again under its client order id.
\<close>

section \<open>What the adapter reads\<close>

text \<open>The objects that the adapter's answers have to be: every text is that of the SDK's attribute, every amount the
  number that the attribute's text denotes.  They are stated field by field, apart from the adapter's mapping.\<close>

definition amount_read :: "string option \<Rightarrow> decimal \<Rightarrow> bool" where
  "amount_read value x \<longleftrightarrow> (case value of None \<Rightarrow> x = 0 | Some s \<Rightarrow> parse_decimal s = Inr (Finite x))"

definition optional_read :: "string option \<Rightarrow> decimal option \<Rightarrow> bool" where
  "optional_read value v \<longleftrightarrow> rel_option (\<lambda>s x. parse_decimal s = Inr (Finite x)) value v"

definition account_read :: "instant \<Rightarrow> raw_account \<Rightarrow> broker_account \<Rightarrow> bool" where
  "account_read now ra a \<longleftrightarrow>
     ba_account_id a = or_else (ra_id ra) [] \<and> ba_account_number a = or_else (ra_account_number ra) [] \<and>
     ba_status a = or_else (ra_status ra) [] \<and> ba_currency a = or_else (ra_currency ra) ''USD'' \<and>
     amount_read (ra_equity ra) (ba_equity a) \<and> amount_read (ra_cash ra) (ba_cash a) \<and>
     amount_read (ra_buying_power ra) (ba_buying_power a) \<and>
     optional_read (ra_options_buying_power ra) (ba_options_buying_power a) \<and>
     amount_read (ra_last_equity ra) (ba_last_equity a) \<and> ba_trading_blocked a = ra_trading_blocked ra \<and>
     ba_account_blocked a = ra_account_blocked ra \<and>
     ba_trade_suspended_by_user a = ra_trade_suspended_by_user ra \<and> ba_as_of a = now"

definition position_read :: "instant \<Rightarrow> raw_position \<Rightarrow> broker_position \<Rightarrow> bool" where
  "position_read now rp p \<longleftrightarrow>
     bp_asset_id p = or_else (rp_asset_id rp) [] \<and> bp_symbol p = or_else (rp_symbol rp) [] \<and>
     bp_asset_class p = or_else (rp_asset_class rp) [] \<and> bp_side p = or_else (rp_side rp) [] \<and>
     amount_read (rp_qty rp) (bp_quantity p) \<and> optional_read (rp_qty_available rp) (bp_quantity_available p) \<and>
     amount_read (rp_avg_entry_price rp) (bp_average_entry_price p) \<and>
     optional_read (rp_market_value rp) (bp_market_value p) \<and> amount_read (rp_cost_basis rp) (bp_cost_basis p) \<and>
     amount_read (rp_unrealized_pl rp) (bp_unrealized_pl p) \<and>
     optional_read (rp_current_price rp) (bp_current_price p) \<and> bp_as_of p = now"

definition leg_read :: "raw_leg \<Rightarrow> broker_order_leg \<Rightarrow> bool" where
  "leg_read rl l \<longleftrightarrow>
     bl_broker_order_id l = or_else (rl_id rl) [] \<and> bl_symbol l = or_else (rl_symbol rl) [] \<and>
     bl_side l = or_else (rl_side rl) [] \<and> optional_read (rl_qty rl) (bl_quantity l) \<and>
     amount_read (rl_filled_qty rl) (bl_filled_quantity l) \<and> bl_status l = or_else (rl_status rl) ''unknown''"

definition order_read :: "(string \<Rightarrow> datetime option) \<Rightarrow> instant \<Rightarrow> raw_order \<Rightarrow> broker_order \<Rightarrow> bool" where
  "order_read read_iso now ro b \<longleftrightarrow>
     bo_broker_order_id b = or_else (ro_id ro) [] \<and> bo_client_order_id b = or_else (ro_client_order_id ro) [] \<and>
     bo_status b = or_else (ro_status ro) ''unknown'' \<and> bo_asset_class b = or_else (ro_asset_class ro) [] \<and>
     bo_symbol b = (if ro_symbol ro = Some [] then None else ro_symbol ro) \<and>
     bo_side b = (if ro_side ro = Some [] then None else ro_side ro) \<and>
     bo_order_type b = (if ro_order_type ro \<in> {None, Some []} then or_else (ro_type ro) [] else or_else (ro_order_type ro) []) \<and>
     bo_order_class b = or_else (ro_order_class ro) ''simple'' \<and> bo_time_in_force b = or_else (ro_time_in_force ro) [] \<and>
     optional_read (ro_qty ro) (bo_quantity b) \<and> amount_read (ro_filled_qty ro) (bo_filled_quantity b) \<and>
     optional_read (ro_filled_avg_price ro) (bo_filled_average_price b) \<and>
     optional_read (ro_limit_price ro) (bo_limit_price b) \<and>
     datetime_of read_iso (ro_submitted_at ro) = Inr (bo_submitted_at b) \<and>
     (\<exists>t. datetime_of read_iso (ro_created_at ro) = Inr t \<and> bo_created_at b = or_else t now) \<and>
     datetime_of read_iso (ro_updated_at ro) = Inr (bo_updated_at b) \<and>
     list_all2 leg_read (or_else (ro_legs ro) []) (bo_legs b)"

lemma is_finite_value: "is_finite n \<Longrightarrow> Finite (finite_value n) = n"
  by (cases n) simp_all

lemma amount_reads: "decimal_of raw = Inr n \<Longrightarrow> is_finite n \<Longrightarrow> amount_read raw (finite_value n)"
proof -
  have "parse_decimal ''0'' = Inr (Finite 0)" by code_simp
  then show "decimal_of raw = Inr n \<Longrightarrow> is_finite n \<Longrightarrow> amount_read raw (finite_value n)"
    by (cases raw) (auto simp: decimal_of_def amount_read_def is_finite_value)
qed

lemma optional_reads:
  "optional_decimal raw = Inr v \<Longrightarrow> \<forall>n \<in> set (given v). is_finite n \<Longrightarrow> optional_read raw (map_option finite_value v)"
  by (cases raw) (auto simp: optional_decimal_def optional_read_def is_finite_value guard_simps)

lemma map_account_reads: "map_account now ra = Inr a \<Longrightarrow> account_read now ra a"
  unfolding map_account_def guard_simps
  by (elim exE conjE) (auto simp: account_read_def text_of_def guard_simps ball_Un intro: amount_reads optional_reads)

lemma map_position_reads: "map_position now rp = Inr p \<Longrightarrow> position_read now rp p"
  unfolding map_position_def guard_simps
  by (elim exE conjE) (auto simp: position_read_def text_of_def guard_simps ball_Un intro: amount_reads optional_reads)

lemma map_leg_reads: "map_leg rl = Inr l \<Longrightarrow> leg_read rl l"
  unfolding map_leg_def guard_simps
  by (elim exE conjE) (auto simp: leg_read_def text_of_def guard_simps ball_Un intro: amount_reads optional_reads)

lemma text_or_none_reads: "text_or_none raw = (if raw = Some [] then None else raw)"
  by (cases raw) (simp_all add: text_or_none_def text_of_def)

lemma order_type_reads: "order_type_text ro =
    (if ro_order_type ro \<in> {None, Some []} then or_else (ro_type ro) [] else or_else (ro_order_type ro) [])"
  by (cases "ro_order_type ro") (simp_all add: order_type_text_def text_of_def)

lemma map_order_reads:
  assumes "map_order read_iso now ro = Inr b"
  shows "order_read read_iso now ro b"
proof -
  have "list_all2 leg_read (or_else (ro_legs ro) []) ls" if "rmap map_leg (or_else (ro_legs ro) []) = Inr ls" for ls
    using that unfolding rmap_Inr_iff by (rule list_all2_mono) (rule map_leg_reads)
  then show ?thesis using assms unfolding map_order_def guard_simps
    by (elim exE conjE) (auto simp: order_read_def text_of_def required_datetime_def text_or_none_reads order_type_reads
        guard_simps ball_Un intro: amount_reads optional_reads)
qed

lemma map_all_Inr:
  assumes "map_all f reading raws = Inr xs" and "\<And>now raw x. f now raw = Inr x \<Longrightarrow> R now raw x"
  shows "list_all2 (\<lambda>(k, raw) x. R (reading k) raw x) (List.enumerate 0 raws) xs"
  using assms(1) unfolding map_all_def rmap_Inr_iff by (rule list_all2_mono) (auto intro: assms(2))

section \<open>Reconciliation through the adapter\<close>

lemma adapter_reconcile_Inr:
  assumes "adapter_reconcile read_iso account_at position_at order_at now account positions get_orders = Inr snap"
  shows "\<exists>ra rps ros. account = Inr ra \<and> positions = Inr rps \<and> get_orders open_orders_request = Inr ros \<and>
     account_read account_at ra (rs_account snap) \<and>
     list_all2 (\<lambda>(k, rp) p. position_read (position_at k) rp p) (List.enumerate 0 rps) (rs_positions snap) \<and>
     list_all2 (\<lambda>(k, ro) b. order_read read_iso (order_at k) ro b) (List.enumerate 0 ros) (rs_open_orders snap) \<and>
     rs_reconciled_at snap = now"
proof -
  obtain ra rps ros ps os where r: "account = Inr ra" "positions = Inr rps" "get_orders open_orders_request = Inr ros"
    "map_account account_at ra = Inr (rs_account snap)" "map_all map_position position_at rps = Inr (rs_positions snap)"
    "map_all (map_order read_iso) order_at ros = Inr (rs_open_orders snap)" "rs_reconciled_at snap = now"
    using assms by (auto simp: adapter_reconcile_def get_account_def list_positions_def list_open_orders_def guard_simps)
  show ?thesis
    using r map_account_reads [OF r(4)] map_all_Inr [OF r(5), of position_read, OF map_position_reads]
      map_all_Inr [OF r(6), of "order_read read_iso", OF map_order_reads] by blast
qed

text \<open>C30. A reconciliation through the SDK that succeeds leaves in the projection what the broker said, as far as the
  columns of the tables can hold it: its account, one position for each one listed and one order for each one listed,
  positions by symbol and orders newest first.  Each amount is the number that the broker's text denotes, to half a unit of
  the eighth decimal place, and exactly if it has at most eight; each text is the broker's but for blanks at its end
  (the identifiers and texts that are missing or empty have their defaults).  One text that cannot be read, one value
  that its column refuses, or one call that fails, leaves the projection's account, positions and orders alone, names
  the exception and closes the gate.\<close>

theorem broker_truth_reaches_the_projection:
  assumes "pg_reconcile ws (adapter_reconcile read_iso account_at position_at order_at now account positions get_orders) db =
    (r, db')"
  shows "(case r of
      Inr n \<Rightarrow> (\<exists>ra rps ros a ps os a' ps' os'.
        account = Inr ra \<and> positions = Inr rps \<and> get_orders open_orders_request = Inr ros \<and>
        account_read account_at ra a \<and> account_kept a a' \<and>
        list_all2 (\<lambda>(k, rp) p. position_read (position_at k) rp p) (List.enumerate 0 rps) ps \<and>
        list_all2 position_kept ps ps' \<and>
        list_all2 (\<lambda>(k, ro) b. order_read read_iso (order_at k) ro b) (List.enumerate 0 ros) os \<and>
        list_all2 order_kept os os' \<and>
        pg_get_account ws db' = Some a' \<and> pg_list_positions ws db' = sort_key bp_symbol ps' \<and>
        pg_list_orders ws db' = sort_key (\<lambda>b. - bo_created_at b) os')
    | Inl e \<Rightarrow> pg_get_account ws db' = pg_get_account ws db \<and> bd_positions db' = bd_positions db \<and>
        bd_orders db' = bd_orders db \<and>
        ss_failure_reason (pg_get_status ws db') = Some (''Reconciliation failed: '' @ error_name e) \<and>
        \<not> eg_allowed (broker_gate_evaluate maximum_age t (pg_get_status ws db') (pg_get_account ws db')))"
proof (cases r)
  case (Inl e)
  have "bd_positions db' = bd_positions db \<and> bd_orders db' = bd_orders db"
    using assms Inl by (auto simp: reconcile_def Let_def pg_mark_tables split: sum.splits)
  with pg_projections.reconcile_failure [OF assms [unfolded Inl]] show ?thesis
    by (simp add: Inl broker_gate_evaluate_def deny_def)
next
  case (Inr n)
  obtain snap where snap: "adapter_reconcile read_iso account_at position_at order_at now account positions get_orders = Inr snap"
    "pg_get_account ws db' = Some (account_columns (rs_account snap))"
    "pg_apply_reconciliation ws snap (pg_mark_state ws RECONCILING None db) = Inr (n, db')"
    using pg_projections.reconcile_success [OF assms [unfolded Inr]] by blast
  note tables = pg_apply_tables [OF snap(3)]
  have "pg_list_positions ws db' = sort_key bp_symbol (map position_columns (rs_positions snap))"
    "pg_list_orders ws db' = sort_key (\<lambda>b. - bo_created_at b) (map order_columns (rs_open_orders snap))"
    using tables by (simp_all add: pg_list_positions_def pg_list_orders_def)
  moreover note snapshot_keeps [OF conjunct1 [OF tables]]
  ultimately show ?thesis using adapter_reconcile_Inr [OF snap(1)] snap(2) Inr by (simp only: sum.case) blast
qed

definition demo_raw_account :: raw_account where
  "demo_raw_account = \<lparr> ra_id = Some ''acc'', ra_account_number = Some ''PA1'', ra_status = Some ''ACTIVE'', ra_currency = None,
     ra_equity = Some ''100000.50'', ra_cash = Some ''1e5'', ra_buying_power = Some ''200000'',
     ra_options_buying_power = None, ra_last_equity = Some ''100000'', ra_trading_blocked = False,
     ra_account_blocked = False, ra_trade_suspended_by_user = False \<rparr>"

definition demo_raw_position :: "string \<Rightarrow> string \<Rightarrow> raw_position" where
  "demo_raw_position symbol qty = \<lparr> rp_asset_id = Some symbol, rp_symbol = Some symbol,
     rp_asset_class = Some ''us_option'', rp_side = Some ''long'', rp_qty = Some qty, rp_qty_available = None,
     rp_avg_entry_price = Some ''2.10'', rp_market_value = None, rp_cost_basis = Some ''210'',
     rp_unrealized_pl = None, rp_current_price = None \<rparr>"

text \<open>Two positions are read in the order in which the broker lists them, and the text \<open>100000.50\<close> is the amount of the
  account; a third position has a quantity that is no number.\<close>

lemma broker_truth_reaches_the_projection_witness:
  "(let read = (\<lambda>ps. pg_reconcile ''ws'' (adapter_reconcile (\<lambda>_. None) 7 (\<lambda>_. 7) (\<lambda>_. 7) 7 (Inr demo_raw_account) (Inr ps) (\<lambda>_. Inr [])) empty_broker_db);
        good = read [demo_raw_position ''B'' ''2'', demo_raw_position ''A'' '' 1_0 '']
    in is_ok (fst good) \<and> (\<exists>a. pg_get_account ''ws'' (snd good) = Some a \<and> ba_equity a = 200001 / 2) \<and>
       length (pg_list_positions ''ws'' (snd good)) = 2 \<and>
       pg_get_account ''ws'' (snd (read [demo_raw_position ''C'' ''two''])) = None)"
proof -
  let ?read = "\<lambda>ps. pg_reconcile ''ws'' (adapter_reconcile (\<lambda>_. None) 7 (\<lambda>_. 7) (\<lambda>_. 7) 7 (Inr demo_raw_account) (Inr ps) (\<lambda>_. Inr [])) empty_broker_db"
  let ?good = "[demo_raw_position ''B'' ''2'', demo_raw_position ''A'' '' 1_0 '']"
  let ?bad = "[demo_raw_position ''C'' ''two'']"
  have ok: "is_ok (fst (?read ?good))" by code_simp
  then obtain n where n: "?read ?good = (Inr n, snd (?read ?good))" by (metis is_ok_iff prod.collapse)
  have "\<not> is_ok (fst (?read ?bad))" by code_simp
  then obtain e where e: "?read ?bad = (Inl e, snd (?read ?bad))" by (metis is_ok_Inr prod.collapse sumE)
  have "pg_get_account ''ws'' empty_broker_db = None" by (simp add: pg_get_account_def empty_broker_db_def rows_of_def)
  then have bad: "pg_get_account ''ws'' (snd (?read ?bad)) = None"
    using broker_truth_reaches_the_projection [OF e, of 0 0] by (simp only: sum.case)
  have half: "parse_decimal ''100000.50'' = Inr (Finite (200001 / 2))" by code_simp
  obtain a a' ps ps' where *: "account_read 7 demo_raw_account a" "account_kept a a'"
    "pg_get_account ''ws'' (snd (?read ?good)) = Some a'" "list_all2 position_kept ps ps'"
    "list_all2 (\<lambda>(k, rp) p. position_read 7 rp p) (List.enumerate 0 ?good) ps"
    "pg_list_positions ''ws'' (snd (?read ?good)) = sort_key bp_symbol ps'"
    using broker_truth_reaches_the_projection [OF n, of 0 0] by (simp only: sum.case sum.inject) metis
  have "ba_equity a = 200001 / 2" using *(1) half by (simp add: account_read_def amount_read_def demo_raw_account_def)
  moreover have "amount_kept (ba_equity a) (ba_equity a')" using *(2) by (simp add: account_kept_def)
  moreover have "(200001 / 2 :: rat) * 100000000 = of_int 10000050000000" by simp
  ultimately have "ba_equity a' = 200001 / 2" unfolding amount_kept_def by (metis Ints_of_int)
  moreover have "length (pg_list_positions ''ws'' (snd (?read ?good))) = 2"
    using *(4-6) by (auto dest!: list_all2_lengthD)
  ultimately show ?thesis using ok bad *(3) unfolding Let_def by blast
qed

section \<open>Finding an order again\<close>

text \<open>An order whose submission raised, whether the SDK failed or its answer could not be read, stays uncertain
  and is not sent again.  Reconciling it asks the broker for the client order id: an order that is found and can be
  read settles the intent as accepted, status 404 leaves it uncertain, and everything else raises and leaves it
  uncertain too.\<close>

theorem uncertain_order_is_found_again:
  assumes "intents_unique rows" and "order_intent_valid sha i"
    and "\<forall>r \<in> set rows. ir_order_intent_id r \<noteq> oi_order_intent_id i"
    and "\<forall>reason. pre \<noteq> Some (False, reason)" and "pg_get_state ws (oi_client_order_id i) rows = None"
    and run: "execute (pg_reserve ws now) (pg_set_state ws now) pre (submit_order read_iso now float_of submit) i
      \<lparr> xw_store = rows, xw_submissions = l \<rparr> = (Inl e, w)"
    and again: "reconcile_uncertain (pg_get_state ws) (pg_set_state ws later)
      (\<lambda>c. get_order read_iso later by_id by_client_id None (Some c)) i w = (r, w')"
  shows "xw_submissions w' = l @ [submission_of i] \<and>
     (case by_client_id (oi_client_order_id i) of
        Order_found raw \<Rightarrow> r = rbind (map_order read_iso later raw) (\<lambda>order. Inr (Some order))
      | Api_failure status \<Rightarrow> r = (if status = Some 404 then Inr None else Inl (External ''APIError''))
      | Failure e' \<Rightarrow> r = Inl e') \<and>
     pg_get_state ws (oi_client_order_id i) (xw_store w') =
       Some (case r of Inr (Some order) \<Rightarrow> ACCEPTED | _ \<Rightarrow> SUBMISSION_UNCERTAIN) \<and>
     ((\<forall>reason. pre' \<noteq> Some (False, reason)) \<longrightarrow>
       execute (pg_reserve ws t) (pg_set_state ws t) pre' submit' i w' = (Inl (duplicate_of i), w'))"
proof -
  let ?k = "oi_client_order_id i"
  obtain s where w: "w = \<lparr> xw_store = s, xw_submissions = l @ [submission_of i] \<rparr>" and inv: "intents_unique s"
    and known: "pg_get_state ws ?k s = Some SUBMISSION_UNCERTAIN"
  proof -
    have "is_ok (pg_reserve ws now i rows)" using assms(3) by (rule pg_reserve_ok)
    then obtain s where s: "(Inl e, w) = (submit_order read_iso now float_of submit (submission_of i),
        \<lparr> xw_store = s, xw_submissions = l @ [submission_of i] \<rparr>)" "intents_unique s"
      "\<And>k. pg_get_state ws k s = (if k = ?k
        then Some (case submit_order read_iso now float_of submit (submission_of i) of
          Inl e \<Rightarrow> SUBMISSION_UNCERTAIN | Inr order \<Rightarrow> ACCEPTED) else pg_get_state ws k rows)"
      using pg.execute_new [of "\<lparr> xw_store = rows, xw_submissions = l \<rparr>" ws i pre sha now "submit_order read_iso now float_of submit"]
        assms(1,2,4,5) run by auto
    have "submit_order read_iso now float_of submit (submission_of i) = Inl e" using s(1) by simp
    with s show thesis by (intro that [of s]) simp_all
  qed
  have r: "r = get_order read_iso later by_id by_client_id None (Some ?k)"
    and w': "\<exists>s'. w' = \<lparr> xw_store = s', xw_submissions = l @ [submission_of i] \<rparr> \<and> intents_unique s' \<and>
      pg_get_state ws ?k s' = Some (case r of Inr (Some order) \<Rightarrow> ACCEPTED | _ \<Rightarrow> SUBMISSION_UNCERTAIN)"
  proof -
    obtain s1 where s1: "pg_set_state ws later ?k ACCEPTED s = Inr s1"
      using pg.set_known [OF inv] known by (metis option.distinct(1))
    then have "intents_unique s1 \<and> pg_get_state ws ?k s1 = Some ACCEPTED"
      using pg.set_effect [OF inv _ s1] known by simp
    with again known s1 inv show "r = get_order read_iso later by_id by_client_id None (Some ?k)"
      and "\<exists>s'. w' = \<lparr> xw_store = s', xw_submissions = l @ [submission_of i] \<rparr> \<and> intents_unique s' \<and>
        pg_get_state ws ?k s' = Some (case r of Inr (Some order) \<Rightarrow> ACCEPTED | _ \<Rightarrow> SUBMISSION_UNCERTAIN)"
      by (auto simp: reconcile_uncertain_def w split: sum.splits option.splits)
  qed
  obtain s' where s': "w' = \<lparr> xw_store = s', xw_submissions = l @ [submission_of i] \<rparr>" "intents_unique s'"
    "pg_get_state ws ?k s' = Some (case r of Inr (Some order) \<Rightarrow> ACCEPTED | _ \<Rightarrow> SUBMISSION_UNCERTAIN)"
    using w' by blast
  have "(case by_client_id ?k of
        Order_found raw \<Rightarrow> r = rbind (map_order read_iso later raw) (\<lambda>order. Inr (Some order))
      | Api_failure status \<Rightarrow> r = (if status = Some 404 then Inr None else Inl (External ''APIError''))
      | Failure e' \<Rightarrow> r = Inl e')"
    by (auto simp: r get_order_def split: lookup.splits option.splits)
  moreover have "execute (pg_reserve ws t) (pg_set_state ws t) pre' submit' i w' = (Inl (duplicate_of i), w')"
    if "\<forall>reason. pre' \<noteq> Some (False, reason)"
    using pg.execute_known [of w' ws i pre' t submit'] s' that by simp
  ultimately show ?thesis using s' by simp
qed

definition demo_raw_order :: raw_order where
  "demo_raw_order = \<lparr> ro_id = Some ''b1'', ro_client_order_id = Some ''c'', ro_status = Some ''filled'', ro_asset_class = None,
     ro_symbol = None, ro_side = None, ro_order_type = None, ro_type = Some ''limit'', ro_order_class = Some ''mleg'',
     ro_time_in_force = Some ''day'', ro_qty = Some ''1'', ro_filled_qty = Some ''1'', ro_filled_avg_price = Some ''2.05'',
     ro_limit_price = Some ''2.10'', ro_submitted_at = None, ro_created_at = Some (Time (Aware 3)), ro_updated_at = None,
     ro_legs = None \<rparr>"

text \<open>A submission that times out although the broker has filled the order.\<close>

lemma uncertain_order_is_found_again_witness:
  "\<exists>e w order w'. execute (pg_reserve ''ws'' 5) (pg_set_state ''ws'' 5) None
       (submit_order (\<lambda>_. None) 5 id (\<lambda>_. Inl (External ''TimeoutError''))) (sample_intent ''f'' 1)
       \<lparr> xw_store = [], xw_submissions = [] \<rparr> = (Inl e, w) \<and>
     reconcile_uncertain (pg_get_state ''ws'') (pg_set_state ''ws'' 9)
       (\<lambda>c. get_order (\<lambda>_. None) 9 (\<lambda>_. Api_failure None) (\<lambda>_. Order_found demo_raw_order) None (Some c)) (sample_intent ''f'' 1) w
       = (Inr (Some order), w') \<and>
     pg_get_state ''ws'' (oi_client_order_id (sample_intent ''f'' 1)) (xw_store w') = Some ACCEPTED"
proof -
  let ?i = "sample_intent ''f'' 1"
  let ?submit = "submit_order (\<lambda>_. None) 5 id (\<lambda>_. Inl (External ''TimeoutError''))"
  let ?get = "\<lambda>c. get_order (\<lambda>_. None) 9 (\<lambda>_. Api_failure None) (\<lambda>_. Order_found demo_raw_order) None (Some c)"
  obtain r0 w where run: "execute (pg_reserve ''ws'' 5) (pg_set_state ''ws'' 5) None ?submit ?i
      \<lparr> xw_store = [], xw_submissions = [] \<rparr> = (r0, w)" by fastforce
  have "r0 = ?submit (submission_of ?i)"
    using new_run [OF no_rows(1) sample_intent_valid no_rows(2) _ no_state run] by simp
  then have r0: "r0 = Inl (External ''TimeoutError'')" by (simp add: submit_order_def)
  obtain r w' where again: "reconcile_uncertain (pg_get_state ''ws'') (pg_set_state ''ws'' 9) ?get ?i w = (r, w')" by fastforce
  have "is_ok (map_order (\<lambda>_. None) 9 demo_raw_order)" by code_simp
  then obtain order where order: "map_order (\<lambda>_. None) 9 demo_raw_order = Inr order" by (auto simp: is_ok_iff)
  from uncertain_order_is_found_again [OF no_rows(1) sample_intent_valid no_rows(2) _ no_state run [unfolded r0] again, of None 0 undefined]
  have "r = Inr (Some order) \<and> pg_get_state ''ws'' (oi_client_order_id ?i) (xw_store w') = Some ACCEPTED"
    using order by simp
  with run r0 again show ?thesis by blast
qed

end
