(* ===== verification/Decimal_Sqrt.thy ===== *)
theory Decimal_Sqrt
  imports Decimal_Arith
begin

text \<open>
  Square roots of decimals as the standard library computes them: \<open>Decimal.sqrt\<close> (28 digits, half to even)
  and \<open>statistics.stdev\<close> on decimals, which computes the variance exactly and rounds its root correctly.
\<close>

section \<open>The integer square root\<close>

function isqrt :: "int \<Rightarrow> int" where
  "isqrt n = (if n \<le> 0 then 0
     else let r = 2 * isqrt (n div 4) in if (r + 1) * (r + 1) \<le> n then r + 1 else r)"
  by auto
termination by (relation "measure nat") auto

declare isqrt.simps [simp del]

lemma isqrt_bounds: "0 \<le> n \<Longrightarrow> 0 \<le> isqrt n \<and> isqrt n * isqrt n \<le> n \<and> n < (isqrt n + 1) * (isqrt n + 1)"
proof (induction n rule: isqrt.induct)
  case (1 n)
  show ?case
  proof (cases "n = 0")
    case True
    then show ?thesis by (simp add: isqrt.simps)
  next
    case False
    define s where "s = isqrt (n div 4)"
    have IH: "0 \<le> s" "s * s \<le> n div 4" "n div 4 < (s + 1) * (s + 1)"
      using 1 False unfolding s_def by auto
    then have "4 * (s * s) \<le> n" "n < 4 * ((s + 1) * (s + 1))" by linarith+
    then have "2 * s * (2 * s) \<le> n" "n < (2 * s + 1 + 1) * (2 * s + 1 + 1)" by (simp_all add: algebra_simps)
    moreover have "isqrt n = (if (2 * s + 1) * (2 * s + 1) \<le> n then 2 * s + 1 else 2 * s)"
      using False 1(2) by (subst isqrt.simps) (simp add: s_def Let_def)
    ultimately show ?thesis using IH(1) by auto
  qed
qed

section \<open>\<open>Decimal.sqrt\<close>\<close>

text \<open>For a positive number: the nearest number with 28 digits, half to even.\<close>

definition dsqrt :: "decimal \<Rightarrow> decimal" where
  "dsqrt x = (if x \<le> 0 then 0 else
     let k = 27 - magnitude x div 2;
         y = x * pow10 (2 * k);
         r = isqrt \<lfloor>y\<rfloor>;
         middle = of_int r + 1 / 2;
         up = (middle * middle < y \<or> middle * middle = y \<and> odd r)
     in of_int (if up then r + 1 else r) / pow10 k)"

lemma dsqrt_nonneg: "0 \<le> dsqrt x"
proof (cases "0 < x")
  case True
  let ?y = "x * pow10 (2 * (27 - magnitude x div 2))"
  have "0 \<le> ?y" using True by (simp add: less_imp_le)
  then have "0 \<le> isqrt \<lfloor>?y\<rfloor>" by (intro isqrt_bounds [THEN conjunct1]) simp
  then show ?thesis using True by (auto simp: dsqrt_def Let_def intro!: divide_nonneg_pos)
qed (simp add: dsqrt_def)

text \<open>The result is within half a unit of its last place.\<close>

lemma dsqrt_close:
  assumes "0 < x"
  defines "u \<equiv> 1 / (2 * pow10 (27 - magnitude x div 2))"
  shows "(dsqrt x = 0 \<or> (dsqrt x - u) * (dsqrt x - u) \<le> x) \<and> x \<le> (dsqrt x + u) * (dsqrt x + u)"
proof -
  define k where "k = 27 - magnitude x div 2"
  define y where "y = x * pow10 (2 * k)"
  define r where "r = isqrt \<lfloor>y\<rfloor>"
  have p: "pow10 (2 * k) = pow10 k * pow10 k" using pow10_add [of k k] by simp
  have y0: "0 \<le> y" using assms(1) by (simp add: y_def less_imp_le)
  then have b: "0 \<le> r" "r * r \<le> \<lfloor>y\<rfloor>" "\<lfloor>y\<rfloor> < (r + 1) * (r + 1)"
    using isqrt_bounds [of "\<lfloor>y\<rfloor>"] by (simp_all add: r_def)
  have lo: "of_int r * of_int r \<le> y" using b(2) by (simp add: le_floor_iff)
  have hi: "y < (of_int r + 1) * (of_int r + 1)" using b(3) by (simp add: floor_less_iff)
  have x: "x = y / (pow10 k * pow10 k)" by (simp add: y_def p)
  have d: "dsqrt x = (if (of_int r + 1 / 2) * (of_int r + 1 / 2) < y \<or> (of_int r + 1 / 2) * (of_int r + 1 / 2) = y \<and> odd r
      then of_int r + 1 else of_int r) / pow10 k"
    using assms(1) by (simp add: dsqrt_def Let_def k_def y_def r_def)
  have u: "u = (1 / 2) / pow10 k" by (simp add: u_def k_def)
  have r0: "(0 :: rat) \<le> of_int r" using b(1) by simp
  have scale: "(s / pow10 k) * (s / pow10 k) \<le> x \<longleftrightarrow> s * s \<le> y" "x \<le> (s / pow10 k) * (s / pow10 k) \<longleftrightarrow> y \<le> s * s" for s
    by (simp_all add: x divide_le_cancel mult_pos_pos [THEN less_imp_le] mult_pos_pos [THEN order.strict_implies_not_eq])
  consider (up) "dsqrt x = (of_int r + 1) / pow10 k" "(of_int r + 1 / 2) * (of_int r + 1 / 2) \<le> y"
    | (down) "dsqrt x = of_int r / pow10 k" "y \<le> (of_int r + 1 / 2) * (of_int r + 1 / 2)"
    using d by (auto split: if_splits)
  then show "(dsqrt x = 0 \<or> (dsqrt x - u) * (dsqrt x - u) \<le> x) \<and> x \<le> (dsqrt x + u) * (dsqrt x + u)"
  proof cases
    case up
    have e: "dsqrt x - u = (of_int r + 1 / 2) / pow10 k" "dsqrt x + u = (of_int r + 3 / 2) / pow10 k"
      using up(1) by (simp_all add: u field_simps)
    have "y \<le> (of_int r + 3 / 2) * (of_int r + 3 / 2)" using hi r0 by (simp add: algebra_simps)
    with up(2) show "(dsqrt x = 0 \<or> (dsqrt x - u) * (dsqrt x - u) \<le> x) \<and> x \<le> (dsqrt x + u) * (dsqrt x + u)"
      unfolding e scale by simp
  next
    case down
    have e: "dsqrt x - u = (of_int r - 1 / 2) / pow10 k" "dsqrt x + u = (of_int r + 1 / 2) / pow10 k"
      using down(1) by (simp_all add: u field_simps)
    have "dsqrt x = 0 \<or> (of_int r - 1 / 2) * (of_int r - 1 / 2) \<le> y"
    proof (cases "r = 0")
      case False
      then have "(1 :: rat) \<le> of_int r" using b(1) by simp
      then show ?thesis using lo by (simp add: algebra_simps)
    qed (simp add: down(1))
    with down(2) show "(dsqrt x = 0 \<or> (dsqrt x - u) * (dsqrt x - u) \<le> x) \<and> x \<le> (dsqrt x + u) * (dsqrt x + u)"
      unfolding e scale by simp
  qed
qed

section \<open>\<open>statistics.stdev\<close>\<close>

text \<open>\<open>next_plus\<close> and \<open>next_minus\<close> of a positive number with at most 28 digits.\<close>

definition next_plus :: "decimal \<Rightarrow> decimal" where
  "next_plus x = x + pow10 (magnitude x - 27)"

definition next_minus :: "decimal \<Rightarrow> decimal" where
  "next_minus x = (if x = pow10 (magnitude x) then x - pow10 (magnitude x - 28) else x - pow10 (magnitude x - 27))"

text \<open>The root of the quotient, moved by one step where the rounding of the quotient has spoilt it.\<close>

definition sqrt_of_frac :: "rat \<Rightarrow> decimal" where
  "sqrt_of_frac v = (if v = 0 then 0 else
     let root = dsqrt (ctx v); plus = next_plus root; minus = next_minus root in
     if (root + plus) * (root + plus) < 4 * v then plus
     else if 4 * v < (root + minus) * (root + minus) then minus else root)"

definition sample_variance :: "decimal list \<Rightarrow> rat" where
  "sample_variance xs = (let n = of_nat (length xs) in
     (n * sum_list (map (\<lambda>x. x * x) xs) - sum_list xs * sum_list xs) / n / (n - 1))"

definition stdev :: "decimal list \<Rightarrow> decimal result" where
  "stdev xs = (if length xs < 2 then Inl (External ''StatisticsError'') else Inr (sqrt_of_frac (sample_variance xs)))"

end
