(* ===== verification/Lab.thy ===== *)
theory Lab
  imports Decimal_Sqrt Options_Domain Json
begin

text \<open>
  \<open>packages/domain/lab.py\<close> and \<open>packages/lab/evidence.py\<close>: the research side of the desk.  What a simulation may
  see at an instant, the cost of a fill, the metrics of an equity curve, the historical analogs of an event and
  the windows of a walk-forward test.
\<close>

section \<open>Data\<close>

record bitemporal_observation =
  bt_observation_id :: uuid
  bt_series :: string
  bt_symbol :: string
  bt_observed_at :: datetime
  bt_available_at :: datetime
  bt_payload :: "(string \<times> json) list"
  bt_source_version :: string

definition bitemporal_observation_valid :: "bitemporal_observation \<Rightarrow> bool" where
  "bitemporal_observation_valid o' \<longleftrightarrow> is_aware (bt_observed_at o') \<and> is_aware (bt_available_at o') \<and>
     \<not> in_utc (bt_available_at o') < in_utc (bt_observed_at o')"

record cost_model =
  cm_version :: string
  cm_slippage_bps :: decimal
  cm_per_contract_fee :: decimal

definition cost_model_valid :: "cost_model \<Rightarrow> bool" where
  "cost_model_valid m \<longleftrightarrow> 0 \<le> cm_slippage_bps m \<and> 0 \<le> cm_per_contract_fee m"

record performance_metrics =
  pm_total_return :: decimal
  pm_max_drawdown :: decimal
  pm_trade_count :: int
  pm_win_rate :: decimal
  pm_sharpe :: "decimal option"
  pm_profit_factor :: "decimal option"
  pm_total_costs :: decimal

record historical_analog =
  ha_event_id :: string
  ha_available_at :: datetime
  ha_features :: "(string \<times> decimal) list"
  ha_forward_return :: decimal
  ha_distance :: "decimal option"

section \<open>What a simulation may see\<close>

definition observation_key :: "bitemporal_observation \<Rightarrow> instant \<times> instant \<times> string" where
  "observation_key o' = (in_utc (bt_observed_at o'), in_utc (bt_available_at o'), bt_observation_id o')"

definition visible :: "datetime \<Rightarrow> bitemporal_observation list \<Rightarrow> bitemporal_observation list result" where
  "visible now observations =
     rbind (require (is_aware now) (ValueError ''simulation clock must be timezone-aware'')) (\<lambda>_.
     Inr (sort_key observation_key (filter (\<lambda>o'. in_utc (bt_available_at o') \<le> in_utc now) observations)))"

section \<open>Costs\<close>

definition execution_cost :: "decimal \<Rightarrow> decimal \<Rightarrow> decimal \<Rightarrow> int \<Rightarrow> int \<Rightarrow> cost_model \<Rightarrow> decimal" where
  "execution_cost mid bid ask contracts multiplier model =
     (let half_spread = max (dquo (dsub ask bid) 2) 0;
          slippage = dquo (dmul mid (cm_slippage_bps model)) 10000
      in dadd (dmul (dmul (dadd half_spread slippage) (of_int multiplier)) (of_int contracts))
           (dmul (cm_per_contract_fee model) (of_int contracts)))"

section \<open>Metrics of an equity curve\<close>

text \<open>The loop over neighbouring points: the peak, the largest drawdown so far and the returns.\<close>

fun metrics_loop :: "decimal \<Rightarrow> decimal \<Rightarrow> decimal list \<Rightarrow> (decimal \<times> decimal list) result" where
  "metrics_loop peak drawdown (previous # current # rest) =
     (let peak = max peak current in
      rbind (ddiv (dsub peak current) peak) (\<lambda>d.
      rbind (ddiv current previous) (\<lambda>r.
      rbind (metrics_loop peak (max drawdown d) (current # rest)) (\<lambda>(drawdown, returns).
      Inr (drawdown, dsub r 1 # returns)))))"
| "metrics_loop peak drawdown _ = Inr (drawdown, [])"

definition profit_factor :: "decimal list \<Rightarrow> decimal option result" where
  "profit_factor trade_pnls =
     (let wins = filter (\<lambda>x. 0 < x) trade_pnls; losses = filter (\<lambda>x. x < 0) trade_pnls in
      if losses = [] then Inr None else rbind (ddiv (dsum wins) (dabs (dsum losses))) (\<lambda>f. Inr (Some f)))"

definition sharpe :: "decimal list \<Rightarrow> decimal option result" where
  "sharpe returns =
     (if length returns < 2 then Inr None
      else rbind (stdev returns) (\<lambda>deviation.
        if deviation = 0 then Inr None
        else rbind (ddiv (dsum returns) (of_nat (length returns))) (\<lambda>m.
          rbind (ddiv m deviation) (\<lambda>s. Inr (Some s)))))"

definition win_rate :: "decimal list \<Rightarrow> decimal result" where
  "win_rate trade_pnls = (if trade_pnls = [] then Inr 0
     else ddiv (of_nat (length (filter (\<lambda>x. 0 < x) trade_pnls))) (of_nat (length trade_pnls)))"

definition compute_metrics ::
  "decimal \<Rightarrow> decimal list \<Rightarrow> decimal list \<Rightarrow> decimal \<Rightarrow> performance_metrics result" where
  "compute_metrics initial_equity equity_curve trade_pnls total_costs =
     rbind (require (0 < initial_equity \<and> equity_curve \<noteq> [])
       (ValueError ''positive initial equity and non-empty equity curve are required'')) (\<lambda>_.
     rbind (ddiv (last equity_curve) initial_equity) (\<lambda>total.
     rbind (metrics_loop initial_equity 0 equity_curve) (\<lambda>(drawdown, returns).
     rbind (win_rate trade_pnls) (\<lambda>rate.
     rbind (profit_factor trade_pnls) (\<lambda>factor.
     rbind (sharpe returns) (\<lambda>s.
     Inr \<lparr> pm_total_return = dsub total 1, pm_max_drawdown = drawdown, pm_trade_count = int (length trade_pnls),
       pm_win_rate = rate, pm_sharpe = s, pm_profit_factor = factor, pm_total_costs = total_costs \<rparr>))))))"

section \<open>Historical analogs\<close>

text \<open>Comparing a naive with an aware time raises.\<close>

definition later_than :: "datetime \<Rightarrow> datetime \<Rightarrow> bool result" where
  "later_than a b = (case (a, b) of
      (Aware s, Aware t) \<Rightarrow> Inr (t < s)
    | (Naive s, Naive t) \<Rightarrow> Inr (t < s)
    | _ \<Rightarrow> Inl (External ''TypeError''))"

text \<open>The squared distance; the names are those of the target.\<close>

definition squared_distance :: "(string \<times> decimal) list \<Rightarrow> (string \<times> decimal) list \<Rightarrow> decimal" where
  "squared_distance target features = dsum (map (\<lambda>(name, t).
     let d = dsub (the (map_of features name)) t in dmul d d) target)"

definition same_names :: "(string \<times> decimal) list \<Rightarrow> (string \<times> decimal) list \<Rightarrow> bool" where
  "same_names target features \<longleftrightarrow> set (map fst features) = set (map fst target)"

fun ranked_analogs ::
  "(string \<times> decimal) list \<Rightarrow> datetime \<Rightarrow> historical_analog list \<Rightarrow> historical_analog list result" where
  "ranked_analogs target now [] = Inr []"
| "ranked_analogs target now (c # cs) =
     rbind (later_than (ha_available_at c) now) (\<lambda>later.
     if later \<or> \<not> same_names target (ha_features c) then ranked_analogs target now cs
     else rbind (ranked_analogs target now cs) (\<lambda>rs.
       Inr (c\<lparr>ha_distance := Some (dsqrt (squared_distance target (ha_features c)))\<rparr> # rs)))"

definition analog_key :: "historical_analog \<Rightarrow> decimal \<times> string" where
  "analog_key c = (or_else (ha_distance c) 0, ha_event_id c)"

definition select_historical_analogs ::
  "(string \<times> decimal) list \<Rightarrow> historical_analog list \<Rightarrow> datetime \<Rightarrow> int \<Rightarrow> historical_analog list result" where
  "select_historical_analogs target candidates now limit =
     rbind (require (1 \<le> limit) (ValueError ''analog limit must be positive'')) (\<lambda>_.
     rbind (ranked_analogs target now candidates) (\<lambda>rs. Inr (take (nat limit) (sort_key analog_key rs))))"

section \<open>Walk-forward windows\<close>

text \<open>\<open>range(0, stop, step)\<close> for a positive step.\<close>

definition py_range :: "int \<Rightarrow> nat \<Rightarrow> nat list" where
  "py_range stop step = map (\<lambda>i. i * step) [0..<(nat stop + step - 1) div step]"

definition slice :: "nat \<Rightarrow> nat \<Rightarrow> 'a list \<Rightarrow> 'a list" where
  "slice start n xs = take n (drop start xs)"

definition window_at :: "instant list \<Rightarrow> nat \<Rightarrow> nat \<Rightarrow> nat \<Rightarrow> (instant list \<times> instant list) list" where
  "window_at timestamps training testing start =
     (let train = slice start training timestamps; test = slice (start + training) testing timestamps in
      if train \<noteq> [] \<and> test \<noteq> [] \<and> Max (set train) < Min (set test) then [(train, test)] else [])"

definition walk_forward_windows ::
  "instant list \<Rightarrow> int \<Rightarrow> int \<Rightarrow> (instant list \<times> instant list) list result" where
  "walk_forward_windows timestamps training_size testing_size =
     rbind (require (0 < training_size \<and> 0 < testing_size)
       (ValueError ''walk-forward window sizes must be positive'')) (\<lambda>_.
     Inr (concat (map (window_at timestamps (nat training_size) (nat testing_size))
       (py_range (int (length timestamps) - training_size - testing_size + 1) (nat testing_size)))))"

end
