(* ===== verification/Lab_Properties.thy ===== *)
theory Lab_Properties
  imports Lab "HOL-Library.Multiset"
begin

text \<open>
  The research side: a simulation sees nothing from its future, the metrics of an equity curve are defined and are
  what they are said to be, the nearest analogs are selected, and walk-forward windows never test on data that
  precedes their training.
\<close>

section \<open>Visibility\<close>

text \<open>A simulation sees exactly the observations that were available at its instant, in the order of their
  keys: nothing it sees was observed after that instant, a later simulation sees all that an earlier one saw, and
  observations that become available afterwards change nothing.\<close>

theorem simulation_has_no_lookahead:
  assumes "list_all bitemporal_observation_valid observations" and "s \<le> t"
    and "visible (Aware s) observations = Inr early" and "visible (Aware t) observations = Inr late"
    and "\<forall>o' \<in> set future. s < in_utc (bt_available_at o')"
  shows "mset early = filter_mset (\<lambda>o'. in_utc (bt_available_at o') \<le> s) (mset observations) \<and>
     sorted (map observation_key early) \<and> (\<forall>o' \<in> set early. in_utc (bt_observed_at o') \<le> s) \<and>
     mset early \<subseteq># mset late \<and> visible (Aware s) (observations @ future) = Inr early"
proof -
  let ?seen = "\<lambda>t. filter (\<lambda>o'. in_utc (bt_available_at o') \<le> t) observations"
  have early: "early = sort_key observation_key (?seen s)" and late: "late = sort_key observation_key (?seen t)"
    using assms(3,4) by (simp_all add: visible_def)
  have "filter (\<lambda>o'. in_utc (bt_available_at o') \<le> s) future = []"
    using assms(5) by (auto simp: filter_empty_conv)
  then have fut: "visible (Aware s) (observations @ future) = Inr early" by (simp add: visible_def early)
  have "\<forall>o' \<in> set early. in_utc (bt_observed_at o') \<le> s"
    using assms(1) by (auto simp: early bitemporal_observation_valid_def list_all_iff)
  moreover have "mset early \<subseteq># mset late"
  proof -
    have "filter_mset (\<lambda>o'. in_utc (bt_available_at o') \<le> s) (mset observations) \<subseteq>#
        filter_mset (\<lambda>o'. in_utc (bt_available_at o') \<le> t) (mset observations)"
      using assms(2) by (intro mset_subset_eqI) (simp add: count_filter_mset)
    then show ?thesis by (simp add: early late)
  qed
  ultimately show ?thesis using fut by (simp add: early)
qed

definition demo_observation :: "string \<Rightarrow> instant \<Rightarrow> instant \<Rightarrow> bitemporal_observation" where
  "demo_observation i observed available = \<lparr> bt_observation_id = i, bt_series = ''close'', bt_symbol = ''NVDA'',
     bt_observed_at = Aware observed, bt_available_at = Aware available, bt_payload = [], bt_source_version = ''v1'' \<rparr>"

lemma simulation_has_no_lookahead_witness:
  "let a = demo_observation ''a'' 10 12; b = demo_observation ''b'' 5 25; c = demo_observation ''c'' 1 30 in
   mset [a] = filter_mset (\<lambda>o'. in_utc (bt_available_at o') \<le> 20) (mset [a, b]) \<and>
     sorted (map observation_key [a]) \<and> (\<forall>o' \<in> set [a]. in_utc (bt_observed_at o') \<le> 20) \<and>
     mset [a] \<subseteq># mset [b, a] \<and> visible (Aware 20) ([a, b] @ [c]) = Inr [a]"
proof -
  let ?a = "demo_observation ''a'' 10 12" and ?b = "demo_observation ''b'' 5 25"
  have "list_all bitemporal_observation_valid [?a, ?b]" by code_simp
  moreover have "visible (Aware 20) [?a, ?b] = Inr [?a]" by code_simp
  moreover have "visible (Aware 26) [?a, ?b] = Inr [?b, ?a]" by code_simp
  ultimately show ?thesis
    using simulation_has_no_lookahead [of "[?a, ?b]" 20 26 "[?a]" "[?b, ?a]" "[demo_observation ''c'' 1 30]"]
    by (simp add: Let_def demo_observation_def)
qed

section \<open>Metrics\<close>

text \<open>The drawdown at a point: from the highest of the initial equity and the points behind the first one.\<close>

definition drawdown_at :: "decimal \<Rightarrow> decimal list \<Rightarrow> nat \<Rightarrow> decimal" where
  "drawdown_at peak curve i =
     (let p = Max (insert peak (set (take i (tl curve)))) in dquo (dsub p (curve ! i)) p)"

lemma drawdown_at_first: "drawdown_at peak (a # b # rest) 1 = dquo (dsub (max peak b) b) (max peak b)"
  by (simp add: drawdown_at_def Let_def max.commute)

lemma drawdown_at_later:
  assumes "1 \<le> j"
  shows "drawdown_at peak (a # b # rest) (Suc j) = drawdown_at (max peak b) (b # rest) j"
proof -
  have "Max (insert peak (set (take (Suc j) (b # rest)))) = Max (insert (max peak b) (set (take j rest)))"
    using Max_insert [of "set (take j rest)"] by (cases "set (take j rest) = {}") (auto simp: max.assoc)
  then show ?thesis by (simp add: drawdown_at_def)
qed

lemma drawdowns_unfold:
  "insert dd (drawdown_at peak (a # b # rest) ` {1..<length (a # b # rest)}) =
   insert dd (insert (dquo (dsub (max peak b) b) (max peak b))
     (drawdown_at (max peak b) (b # rest) ` {1..<length (b # rest)}))"
proof -
  have "{1..<length (a # b # rest)} = insert 1 (Suc ` {1..<length (b # rest)})"
    by (auto simp: image_iff Suc_le_eq less_Suc_eq_0_disj)
  then show ?thesis
    by (simp only: image_insert drawdown_at_first image_image) (auto simp: drawdown_at_later image_def)
qed

lemma metrics_loop_ok:
  assumes "0 < peak" and "0 \<notin> set (butlast curve)"
  shows "\<exists>returns. metrics_loop peak dd curve =
     Inr (Max (insert dd (drawdown_at peak curve ` {1..<length curve})), returns)"
  using assms
proof (induction peak dd curve rule: metrics_loop.induct)
  case (1 peak dd a b rest)
  define p where "p = max peak b"
  define d where "d = dquo (dsub p b) p"
  have p: "0 < p" using 1(2) by (simp add: p_def)
  have a: "a \<noteq> 0" and rest: "0 \<notin> set (butlast (b # rest))" using 1(3) by auto
  obtain returns where "metrics_loop p (max dd d) (b # rest) =
      Inr (Max (insert (max dd d) (drawdown_at p (b # rest) ` {1..<length (b # rest)})), returns)"
    using 1(1) [of p d "dquo b a"] p a rest by (auto simp: p_def d_def)
  moreover have "Max (insert (max dd d) S) = Max (insert dd (insert d S))" if "finite S" for S :: "rat set"
    using that by (cases "S = {}") (simp_all add: max.assoc)
  ultimately show ?case
    unfolding drawdowns_unfold using p a by (simp add: p_def [symmetric] d_def [symmetric] Let_def)
qed simp_all

lemma metrics_loop_zero:
  assumes "0 < peak" and "0 \<in> set (butlast curve)"
  shows "\<exists>e. metrics_loop peak dd curve = Inl e"
  using assms
proof (induction peak dd curve rule: metrics_loop.induct)
  case (1 peak dd a b rest)
  define p where "p = max peak b"
  have p: "0 < p" using 1(2) by (simp add: p_def)
  show ?case
  proof (cases "a = 0")
    case True
    then show ?thesis using p by (simp add: p_def [symmetric] Let_def ddiv_def)
  next
    case False
    then have "0 \<in> set (butlast (b # rest))" using 1(3) by auto
    then show ?thesis using 1(1) [of p "dquo (dsub p b) p" "dquo b a"] p False
      by (auto simp: p_def [symmetric] Let_def)
  qed
qed simp_all

lemma dsum_neg: "(\<forall>x \<in> set xs. x < 0) \<Longrightarrow> a \<le> 0 \<Longrightarrow> foldl dadd a xs \<le> 0 \<and> (xs \<noteq> [] \<longrightarrow> foldl dadd a xs < 0)"
proof (induction xs arbitrary: a)
  case (Cons x xs)
  then have "dadd a x < 0" by (auto simp: dadd_def ctx.rnd_neg_iff)
  then show ?case using Cons by (cases xs) (auto simp: less_imp_le)
qed simp

lemma dsum_nonneg: "(\<forall>x \<in> set xs. 0 < x) \<Longrightarrow> 0 \<le> a \<Longrightarrow> 0 \<le> foldl dadd a xs"
  by (induction xs arbitrary: a) (auto simp: dadd_def ctx.rnd_nonneg less_imp_le)

lemma profit_factor_ok: "\<exists>f. profit_factor pnls = Inr f \<and> (\<forall>x. f = Some x \<longrightarrow> 0 \<le> x)"
proof (cases "filter (\<lambda>x. x < 0) pnls = []")
  case False
  have "dsum (filter (\<lambda>x. x < 0) pnls) < 0" using dsum_neg [of "filter (\<lambda>x. x < 0) pnls" 0] False by (simp add: dsum_def)
  then have "0 < dabs (dsum (filter (\<lambda>x. x < 0) pnls))" by (simp add: dabs_def ctx.rnd_pos_iff)
  moreover have "0 \<le> dsum (filter (\<lambda>x. 0 < x) pnls)"
    using dsum_nonneg [of "filter (\<lambda>x. 0 < x) pnls" 0] by (simp add: dsum_def)
  ultimately show ?thesis using False by (simp add: profit_factor_def Let_def dquo_def ctx.rnd_nonneg)
qed (simp add: profit_factor_def Let_def)

lemma sharpe_ok: "\<exists>s. sharpe returns = Inr s"
  by (cases "returns = []") (auto simp: sharpe_def stdev_def Let_def)

lemma win_rate_ok: "\<exists>r. win_rate pnls = Inr r \<and> 0 \<le> r \<and> r \<le> 1"
proof (cases "pnls = []")
  case False
  let ?w = "of_nat (length (filter (\<lambda>x. 0 < x) pnls)) :: rat" and ?n = "of_nat (length pnls) :: rat"
  have "0 < ?n" and "?w \<le> ?n" using False by (simp_all only: of_nat_0_less_iff of_nat_le_iff length_filter_le) simp_all
  then have "?w / ?n \<le> 1" and "0 \<le> ?w / ?n" by (simp_all add: divide_le_eq_1)
  then have "0 \<le> dquo ?w ?n" and "dquo ?w ?n \<le> 1"
    by (simp_all only: dquo_def ctx.rnd_nonneg ctx.rnd_le [OF ctx_eval_one])
  with False show ?thesis by (simp add: win_rate_def)
qed (simp add: win_rate_def)

text \<open>C34. The metrics are computed exactly when the initial equity is positive, the curve is not empty and no
  point of it but the last is zero; nothing else can make them fail.  Then the maximal drawdown is the largest of
  the drawdowns at the points behind the first one, or zero; the win rate lies between 0 and 1, and a profit
  factor is not negative.  The first point of the curve never counts, neither as a peak nor as a trough.\<close>

theorem metrics_are_exact:
  "(is_ok (compute_metrics e curve pnls costs) \<longleftrightarrow> 0 < e \<and> curve \<noteq> [] \<and> 0 \<notin> set (butlast curve)) \<and>
   (\<forall>m. compute_metrics e curve pnls costs = Inr m \<longrightarrow>
     pm_max_drawdown m = Max (insert 0 (drawdown_at e curve ` {1..<length curve})) \<and>
     0 \<le> pm_max_drawdown m \<and> pm_trade_count m = int (length pnls) \<and> 0 \<le> pm_win_rate m \<and> pm_win_rate m \<le> 1 \<and>
     (\<forall>f. pm_profit_factor m = Some f \<longrightarrow> 0 \<le> f) \<and>
     pm_total_return m = dsub (dquo (last curve) e) 1)"
proof (cases "0 < e \<and> curve \<noteq> []")
  case True
  then have e: "0 < e" "e \<noteq> 0" "curve \<noteq> []" by simp_all
  obtain f where f: "profit_factor pnls = Inr f" "\<forall>x. f = Some x \<longrightarrow> 0 \<le> x" using profit_factor_ok by blast
  obtain r where r: "win_rate pnls = Inr r" "0 \<le> r" "r \<le> 1" using win_rate_ok by blast
  show ?thesis
  proof (cases "0 \<in> set (butlast curve)")
    case True
    then obtain x where "metrics_loop e 0 curve = Inl x" using metrics_loop_zero e(1) by blast
    then show ?thesis using True e by (simp add: compute_metrics_def)
  next
    case False
    then obtain returns where loop: "metrics_loop e 0 curve =
        Inr (Max (insert 0 (drawdown_at e curve ` {1..<length curve})), returns)"
      using metrics_loop_ok e(1) by blast
    obtain s where "sharpe returns = Inr s" using sharpe_ok by blast
    then show ?thesis using loop f r e False by (simp add: compute_metrics_def)
  qed
qed (auto simp: compute_metrics_def)

lemma metrics_are_exact_witness:
  "pm_max_drawdown \<lparr> pm_total_return = - (2 / 5), pm_max_drawdown = 2 / 5, pm_trade_count = 0, pm_win_rate = 0,
     pm_sharpe = None, pm_profit_factor = None, pm_total_costs = 0 \<rparr> =
   Max (insert 0 (drawdown_at 100 [50, 60] ` {1..<length [50, 60 :: decimal]}))"
proof -
  have "compute_metrics 100 [50, 60] [] 0 = Inr \<lparr> pm_total_return = - (2 / 5), pm_max_drawdown = 2 / 5,
      pm_trade_count = 0, pm_win_rate = 0, pm_sharpe = None, pm_profit_factor = None, pm_total_costs = 0 \<rparr>"
    by code_simp
  then show ?thesis using metrics_are_exact [of 100 "[50, 60]" "[]" 0] by blast
qed

section \<open>Analogs\<close>

text \<open>What is ranked: the candidates that were available and have the target's features, with their distance.\<close>

definition measured :: "(string \<times> decimal) list \<Rightarrow> historical_analog \<Rightarrow> historical_analog" where
  "measured target c = c\<lparr>ha_distance := Some (dsqrt (squared_distance target (ha_features c)))\<rparr>"

definition comparable :: "(string \<times> decimal) list \<Rightarrow> datetime \<Rightarrow> historical_analog \<Rightarrow> bool" where
  "comparable target now c \<longleftrightarrow> later_than (ha_available_at c) now = Inr False \<and> same_names target (ha_features c)"

lemma ranked_analogs_Inr:
  "ranked_analogs target now cs = Inr rs \<Longrightarrow> rs = map (measured target) (filter (comparable target now) cs)"
  by (induction cs arbitrary: rs) (auto simp: guard_simps comparable_def measured_def split: if_splits)

lemma take_sorted_least:
  assumes "sorted (map f xs)" and "x \<in> set (take n xs)" and "y \<in> set (drop n xs)"
  shows "f x \<le> f y"
proof -
  have "sorted (map f (take n xs) @ map f (drop n xs))" using assms(1) by (simp flip: map_append)
  then show ?thesis using assms(2,3) by (auto simp: sorted_append)
qed

text \<open>The analogs that are selected are nearest: they are comparable candidates, none of them was available only
  after the simulation's instant, at most \<open>limit\<close> of them, in the order of distance and identifier, and every
  comparable candidate left out is at least as far as each one selected.\<close>

theorem nearest_analogs_are_selected:
  assumes "select_historical_analogs target candidates now limit = Inr selected"
  shows "\<exists>rest. mset selected + mset rest = image_mset (measured target) (filter_mset (comparable target now) (mset candidates)) \<and>
     length selected = min (nat limit) (length (filter (comparable target now) candidates)) \<and>
     sorted (map analog_key selected) \<and> (\<forall>c \<in> set selected. later_than (ha_available_at c) now = Inr False) \<and>
     (\<forall>c \<in> set selected. \<forall>d \<in> set rest. analog_key c \<le> analog_key d)"
proof -
  let ?rs = "map (measured target) (filter (comparable target now) candidates)"
  let ?sorted = "sort_key analog_key ?rs"
  have sel: "selected = take (nat limit) ?sorted"
    using assms ranked_analogs_Inr by (auto simp: select_historical_analogs_def guard_simps)
  have "mset selected + mset (drop (nat limit) ?sorted) = mset ?sorted"
    unfolding sel by (metis append_take_drop_id mset_append)
  moreover have "sorted (map analog_key selected)"
    unfolding sel by (simp add: take_map [symmetric] sorted_wrt_take del: map_map)
  moreover have "\<forall>c \<in> set selected. later_than (ha_available_at c) now = Inr False"
    unfolding sel by (auto dest!: in_set_takeD simp: comparable_def measured_def)
  moreover have "\<forall>c \<in> set selected. \<forall>d \<in> set (drop (nat limit) ?sorted). analog_key c \<le> analog_key d"
    unfolding sel by (auto intro: take_sorted_least [OF sorted_sort_key])
  ultimately show ?thesis by (intro exI [of _ "drop (nat limit) ?sorted"]) (simp add: sel min.commute)
qed

definition demo_analog :: "string \<Rightarrow> instant \<Rightarrow> decimal \<Rightarrow> historical_analog" where
  "demo_analog i available gap = \<lparr> ha_event_id = i, ha_available_at = Aware available, ha_features = [(''gap'', gap)],
     ha_forward_return = 0, ha_distance = None \<rparr>"

lemma nearest_analogs_are_selected_witness:
  "let candidates = [demo_analog ''far'' 1 9, demo_analog ''near'' 2 4, demo_analog ''late'' 30 3, demo_analog ''b'' 3 2];
       target = [(''gap'', 3)]
   in \<exists>selected. map ha_event_id selected = [''b'', ''near''] \<and> (\<exists>rest.
     mset selected + mset rest = image_mset (measured target) (filter_mset (comparable target (Aware 20)) (mset candidates)) \<and>
     length selected = min (nat 2) (length (filter (comparable target (Aware 20)) candidates)) \<and>
     sorted (map analog_key selected) \<and> (\<forall>c \<in> set selected. later_than (ha_available_at c) (Aware 20) = Inr False) \<and>
     (\<forall>c \<in> set selected. \<forall>d \<in> set rest. analog_key c \<le> analog_key d))"
proof -
  let ?cs = "[demo_analog ''far'' 1 9, demo_analog ''near'' 2 4, demo_analog ''late'' 30 3, demo_analog ''b'' 3 2]"
  let ?sel = "[measured [(''gap'', 3)] (demo_analog ''b'' 3 2), measured [(''gap'', 3)] (demo_analog ''near'' 2 4)]"
  have sel: "select_historical_analogs [(''gap'', 3)] ?cs (Aware 20) 2 = Inr ?sel" by code_simp
  have "map ha_event_id ?sel = [''b'', ''near'']" by (simp add: measured_def demo_analog_def)
  then show ?thesis unfolding Let_def
    by (rule exI [of _ ?sel, OF conjI]) (rule nearest_analogs_are_selected [OF sel])
qed

section \<open>Walk-forward windows\<close>

lemma py_range_step:
  fixes i n step :: nat
  assumes "0 < step"
  shows "i < (n + step - 1) div step \<longleftrightarrow> i * step < n"
proof -
  have "i < (n + step - 1) div step \<longleftrightarrow> Suc i * step \<le> n + step - 1"
    using assms by (simp only: Suc_le_eq [symmetric] less_eq_div_iff_mult_less_eq)
  also have "\<dots> \<longleftrightarrow> i * step < n" using assms by auto
  finally show ?thesis .
qed

lemma concat_slices: "concat (map (\<lambda>i. take s (drop (i * s) ys)) [0..<k]) = take (k * s) ys"
  by (induction k) (simp_all add: take_add add.commute [of s])

lemma window_at_sound:
  assumes "w \<in> set (window_at ts r s start)" and "start + r + s \<le> length ts"
  shows "length (fst w) = r \<and> length (snd w) = s \<and> fst w @ snd w = slice start (r + s) ts \<and>
     (\<forall>a \<in> set (fst w). \<forall>b \<in> set (snd w). a < b)"
proof -
  let ?a = "slice start r ts" and ?b = "slice (start + r) s ts"
  have w: "w = (?a, ?b)" "?a \<noteq> []" "?b \<noteq> []" "Max (set ?a) < Min (set ?b)"
    using assms(1) by (auto simp: window_at_def Let_def split: if_splits)
  then have "\<forall>x \<in> set ?a. \<forall>y \<in> set ?b. x < y" by (auto simp: Max_less_iff Min_gr_iff)
  with w(1) assms(2) show ?thesis by (simp add: slice_def take_add add.commute)
qed

lemma window_at_sorted:
  assumes "sorted_wrt (<) ts" and "start + r + s \<le> length ts" and "0 < r" and "0 < s"
  shows "window_at ts r s start = [(slice start r ts, slice (start + r) s ts)]"
proof -
  let ?a = "slice start r ts" and ?b = "slice (start + r) s ts"
  have ne: "?a \<noteq> []" "?b \<noteq> []" using assms by (auto simp: slice_def)
  have "sorted_wrt (<) (take (r + s) (drop start ts))"
    using assms(1) by (intro sorted_wrt_take sorted_wrt_drop)
  then have "sorted_wrt (<) (?a @ ?b)" by (simp add: slice_def take_add add.commute)
  then have "\<forall>x \<in> set ?a. \<forall>y \<in> set ?b. x < y" by (simp add: sorted_wrt_append)
  then have "Max (set ?a) < Min (set ?b)" using ne by simp
  with ne show ?thesis by (simp add: window_at_def)
qed

text \<open>The number of windows that fit, and where they start.\<close>

definition window_count :: "instant list \<Rightarrow> int \<Rightarrow> int \<Rightarrow> nat" where
  "window_count ts training testing = (length ts - nat training) div nat testing"

lemma window_starts:
  assumes "0 < training" and "0 < testing"
  shows "py_range (int (length ts) - training - testing + 1) (nat testing) =
     map (\<lambda>i. i * nat testing) [0..<window_count ts training testing]"
proof -
  let ?s = "nat testing" and ?stop = "nat (int (length ts) - training - testing + 1)"
  have s: "0 < ?s" using assms by simp
  have "i < (?stop + ?s - 1) div ?s \<longleftrightarrow> i < window_count ts training testing" for i
  proof -
    have "i * ?s < ?stop \<longleftrightarrow> Suc i * ?s \<le> length ts - nat training"
      using assms by (auto simp: algebra_simps)
    also have "\<dots> \<longleftrightarrow> i < window_count ts training testing"
      using s by (simp only: window_count_def Suc_le_eq [symmetric] less_eq_div_iff_mult_less_eq)
    finally show ?thesis by (simp only: py_range_step [OF s])
  qed
  then have "(?stop + ?s - 1) div ?s = window_count ts training testing" by (metis linorder_neqE_nat less_irrefl)
  then show ?thesis by (simp add: py_range_def)
qed

lemma window_fits:
  assumes "0 < training" and "0 < testing" and "i < window_count ts training testing"
  shows "i * nat testing + nat training + nat testing \<le> length ts"
proof -
  have "Suc i * nat testing \<le> length ts - nat training" and "0 < nat testing"
    using assms by (simp_all only: window_count_def Suc_le_eq [symmetric] less_eq_div_iff_mult_less_eq zero_less_nat_eq)
  then show ?thesis by auto
qed

text \<open>Every walk-forward window trains on as many consecutive timestamps as asked and tests on the ones that
  follow, all of them later than the training.  On timestamps in order, nothing is dropped: the tests are
  disjoint and, put together, are all the timestamps behind the first training, up to a rest shorter than a test.\<close>

theorem walk_forward_partitions:
  assumes "walk_forward_windows ts training testing = Inr windows"
  shows "(\<forall>w \<in> set windows. int (length (fst w)) = training \<and> int (length (snd w)) = testing \<and>
       (\<exists>start. fst w @ snd w = slice start (nat training + nat testing) ts) \<and>
       (\<forall>a \<in> set (fst w). \<forall>b \<in> set (snd w). a < b)) \<and>
     (sorted_wrt (<) ts \<longrightarrow> length windows = window_count ts training testing \<and>
       concat (map snd windows) = take (length windows * nat testing) (drop (nat training) ts))"
proof -
  have pos: "0 < training" "0 < testing" using assms by (auto simp: walk_forward_windows_def guard_simps)
  let ?r = "nat training" and ?s = "nat testing" and ?k = "window_count ts training testing"
  have windows: "windows = concat (map (\<lambda>i. window_at ts ?r ?s (i * ?s)) [0..<?k])"
    using assms by (auto simp: walk_forward_windows_def guard_simps window_starts [OF pos] comp_def)
  have "int (length (fst w)) = training \<and> int (length (snd w)) = testing \<and>
      (\<exists>start. fst w @ snd w = slice start (?r + ?s) ts) \<and> (\<forall>a \<in> set (fst w). \<forall>b \<in> set (snd w). a < b)"
    if "w \<in> set windows" for w
  proof -
    obtain i where i: "i < ?k" "w \<in> set (window_at ts ?r ?s (i * ?s))" using \<open>w \<in> set windows\<close> windows by auto
    from window_at_sound [OF i(2) window_fits [OF pos i(1)]] pos show ?thesis by auto
  qed
  moreover have "length windows = ?k \<and> concat (map snd windows) = take (length windows * ?s) (drop ?r ts)"
    if "sorted_wrt (<) ts"
  proof -
    have "map (\<lambda>i. window_at ts ?r ?s (i * ?s)) [0..<?k] =
        map (\<lambda>i. [(slice (i * ?s) ?r ts, take ?s (drop (i * ?s) (drop ?r ts)))]) [0..<?k]"
      using that pos window_fits [OF pos] by (auto simp: window_at_sorted slice_def add.commute)
    then have "windows = map (\<lambda>i. (slice (i * ?s) ?r ts, take ?s (drop (i * ?s) (drop ?r ts)))) [0..<?k]"
      by (simp only: windows concat_map_singleton)
    then show ?thesis using concat_slices [of ?s "drop ?r ts" ?k] by (simp add: comp_def)
  qed
  ultimately show ?thesis by blast
qed

lemma walk_forward_partitions_witness:
  "let windows = [([1, 2, 3], [4, 5]), ([3, 4, 5], [6, 7])] in
   (\<forall>w \<in> set windows. int (length (fst w)) = 3 \<and> int (length (snd w)) = 2 \<and>
       (\<exists>start. fst w @ snd w = slice start (nat 3 + nat 2) [1, 2, 3, 4, 5, 6, 7, 8 :: instant]) \<and>
       (\<forall>a \<in> set (fst w). \<forall>b \<in> set (snd w). a < b)) \<and>
     length windows = window_count [1, 2, 3, 4, 5, 6, 7, 8] 3 2 \<and>
     concat (map snd windows) = take (length windows * nat 2) (drop (nat 3) [1, 2, 3, 4, 5, 6, 7, 8])"
proof -
  have "walk_forward_windows [1, 2, 3, 4, 5, 6, 7, 8] 3 2 = Inr [([1, 2, 3], [4, 5]), ([3, 4, 5], [6, 7])]"
    by code_simp
  moreover have "sorted_wrt (<) [1, 2, 3, 4, 5, 6, 7, 8 :: instant]" by simp
  ultimately show ?thesis
    using walk_forward_partitions [of "[1, 2, 3, 4, 5, 6, 7, 8]" 3 2] unfolding Let_def by blast
qed

end
