(* ===== verification/Lab_Fingerprint.thy ===== *)
theory Lab_Fingerprint
  imports Lab Text_Codecs Workflow_Domain
begin

text \<open>
  \<open>compute_fingerprint\<close> of \<open>packages/lab/evidence.py\<close> with \<open>DataFingerprint\<close> and the strategy passport of
  \<open>packages/domain/lab.py\<close>: the canonical JSON text of the rows of a data set and its hash.  SHA-256 and the ISO
  text of a time are parameters.
\<close>

record data_fingerprint =
  df_sha256 :: string
  df_row_count :: int
  df_feed :: string
  df_adjustment :: string
  df_timeframe :: string
  df_start :: datetime
  df_end :: datetime

definition data_fingerprint_valid :: "data_fingerprint \<Rightarrow> bool" where
  "data_fingerprint_valid f \<longleftrightarrow> 0 \<le> df_row_count f"

record strategy_passport =
  sp_passport_id :: uuid
  sp_name :: string
  sp_version :: string
  sp_owner :: string
  sp_hypothesis :: string
  sp_asset_universe :: "string list"
  sp_entry_logic :: string
  sp_exit_logic :: string
  sp_dte_strike_policy :: string
  sp_risk_assumptions :: "string list"
  sp_latency_budget_seconds :: int
  sp_historical_test_ranges :: "string list"
  sp_out_of_sample_results :: "(string \<times> decimal) list"
  sp_walk_forward_results :: "(string \<times> decimal) list"
  sp_slippage_assumptions :: string
  sp_known_failure_regimes :: "string list"
  sp_paper_status :: string
  sp_approved_risk_limits :: "(string \<times> decimal) list"
  sp_data_fingerprint :: data_fingerprint

definition strategy_passport_valid :: "strategy_passport \<Rightarrow> bool" where
  "strategy_passport_valid p \<longleftrightarrow> 0 < sp_latency_budget_seconds p \<and> data_fingerprint_valid (sp_data_fingerprint p)"

section \<open>The canonical text\<close>

text \<open>
  The values a row may hold.  A float carries its \<open>repr\<close>, and a value that JSON does not know (a decimal, a time)
  carries its \<open>str\<close>, which \<open>default=str\<close> writes as a string.
\<close>

datatype row_value = Row_null | Row_bool bool | Row_int int | Row_float string | Row_text string | Row_other string
  | Row_list "row_value list" | Row_dict "(string \<times> row_value) list"

fun join_comma :: "string list \<Rightarrow> string" where
  "join_comma [] = []"
| "join_comma [x] = x"
| "join_comma (x # y # xs) = x @ CHR '','' # join_comma (y # xs)"

text \<open>\<open>json.dumps(v, sort_keys=True, separators=(",", ":"), default=str)\<close>; each member is written with its key
  before the members are put in the order of the keys.\<close>

fun dump_value :: "row_value \<Rightarrow> string"
  and dump_items :: "row_value list \<Rightarrow> string list"
  and dump_members :: "(string \<times> row_value) list \<Rightarrow> (string \<times> string) list"
where
  "dump_value Row_null = ''null''"
| "dump_value (Row_bool b) = (if b then ''true'' else ''false'')"
| "dump_value (Row_int n) = int_text n"
| "dump_value (Row_float r) = r"
| "dump_value (Row_text s) = json_text s"
| "dump_value (Row_other s) = json_text s"
| "dump_value (Row_list vs) = CHR ''['' # join_comma (dump_items vs) @ '']''"
| "dump_value (Row_dict ps) = CHR ''{'' # join_comma (map snd (sort_key fst (dump_members ps))) @ ''}''"
| "dump_items [] = []"
| "dump_items (v # vs) = dump_value v # dump_items vs"
| "dump_members [] = []"
| "dump_members ((k, v) # ps) = (k, json_text k @ CHR '':'' # dump_value v) # dump_members ps"

definition fingerprint_document ::
  "(datetime \<Rightarrow> string) \<Rightarrow> (string \<times> row_value) list list \<Rightarrow> string \<Rightarrow> string \<Rightarrow> string \<Rightarrow> datetime \<Rightarrow> datetime \<Rightarrow> row_value"
where
  "fingerprint_document isoformat rows feed adjustment timeframe start stop =
     Row_dict [(''metadata'', Row_dict [(''feed'', Row_text feed), (''adjustment'', Row_text adjustment),
         (''timeframe'', Row_text timeframe), (''start'', Row_text (isoformat start)),
         (''end'', Row_text (isoformat stop))]),
       (''rows'', Row_list (map Row_dict rows))]"

definition compute_fingerprint ::
  "(string \<Rightarrow> string) \<Rightarrow> (datetime \<Rightarrow> string) \<Rightarrow> (string \<times> row_value) list list \<Rightarrow> string \<Rightarrow> string \<Rightarrow> string \<Rightarrow>
   datetime \<Rightarrow> datetime \<Rightarrow> data_fingerprint"
where
  "compute_fingerprint sha isoformat rows feed adjustment timeframe start stop =
     \<lparr> df_sha256 = sha (dump_value (fingerprint_document isoformat rows feed adjustment timeframe start stop)),
       df_row_count = int (length rows), df_feed = feed, df_adjustment = adjustment, df_timeframe = timeframe,
       df_start = start, df_end = stop \<rparr>"

section \<open>Facts\<close>

lemma dump_items_map: "dump_items vs = map dump_value vs"
  by (induction vs) simp_all

lemma dump_members_map: "dump_members ps = map (\<lambda>(k, v). (k, json_text k @ CHR '':'' # dump_value v)) ps"
  by (induction ps) auto

lemma dump_members_keys: "map fst (dump_members ps) = map fst ps"
  by (simp add: dump_members_map comp_def case_prod_beta)

text \<open>Two dictionaries with the same members in another order have one text.\<close>

lemma dump_dict_order:
  assumes "distinct (map fst ps)" and "mset ps = mset qs"
  shows "dump_value (Row_dict ps) = dump_value (Row_dict qs)"
proof -
  have "mset (dump_members ps) = mset (dump_members qs)" using assms(2) by (simp add: dump_members_map)
  moreover have "distinct (map fst (dump_members ps))" using assms(1) by (simp add: dump_members_keys)
  ultimately have "sort_key fst (dump_members ps) = sort_key fst (dump_members qs)"
    by (intro sort_key_inj_key_eq) (simp_all add: distinct_map)
  then show ?thesis by simp
qed

text \<open>The fingerprint of a data set depends on its contents and not on how they are stored: rows whose members
  are the same in another order give the same fingerprint, and the fingerprint tells the number of rows and the
  metadata.\<close>

theorem fingerprint_ignores_member_order:
  assumes "list_all2 (\<lambda>r q. distinct (map fst r) \<and> mset r = mset q) rows rows'"
  shows "compute_fingerprint sha isoformat rows feed adjustment timeframe start stop =
      compute_fingerprint sha isoformat rows' feed adjustment timeframe start stop \<and>
    data_fingerprint_valid (compute_fingerprint sha isoformat rows feed adjustment timeframe start stop) \<and>
    df_row_count (compute_fingerprint sha isoformat rows feed adjustment timeframe start stop) = int (length rows')"
proof -
  have "map dump_value (map Row_dict rows) = map dump_value (map Row_dict rows')"
    using assms by (induction rule: list_all2_induct) (simp, metis dump_dict_order list.simps(9))
  then have "dump_items (map Row_dict rows) = dump_items (map Row_dict rows')" by (simp add: dump_items_map)
  then have "dump_value (fingerprint_document isoformat rows feed adjustment timeframe start stop) =
      dump_value (fingerprint_document isoformat rows' feed adjustment timeframe start stop)"
    by (simp add: fingerprint_document_def)
  then show ?thesis
    using list_all2_lengthD [OF assms] by (simp add: compute_fingerprint_def data_fingerprint_valid_def)
qed

theorem fingerprint_ignores_member_order_witness:
  "compute_fingerprint (\<lambda>s. s) (\<lambda>_. ''t'') [[(''o'', Row_int 1), (''c'', Row_other ''2.5'')]] ''sip'' ''raw'' ''1D''
      (Aware 0) (Aware 1) =
    compute_fingerprint (\<lambda>s. s) (\<lambda>_. ''t'') [[(''c'', Row_other ''2.5''), (''o'', Row_int 1)]] ''sip'' ''raw'' ''1D''
      (Aware 0) (Aware 1)"
  using fingerprint_ignores_member_order [of "[[(''o'', Row_int 1), (''c'', Row_other ''2.5'')]]"
      "[[(''c'', Row_other ''2.5''), (''o'', Row_int 1)]]" "\<lambda>s. s" "\<lambda>_. ''t''" "''sip''" "''raw''" "''1D''" "Aware 0" "Aware 1"]
  by (simp add: add_mset_commute)

end
