(* ===== verification/Demo.thy ===== *)
theory Demo
  imports Py_Numbers Identity Workflow_Domain
begin

text \<open>
  \<open>packages/demo/sessions.py\<close> and \<open>apps/api/routes/demo.py\<close>: anonymous demonstration sessions.  A session is a
  row of a table; the browser holds a signed token that names it and its expiry.

  HMAC-SHA256 is the parameter \<open>hmac\<close>, from a key and a text to the digest.  The clock readings of a request are
  arguments in the order in which the code takes them.
\<close>

section \<open>Base64\<close>

definition base64_digits :: string where
  "base64_digits = ''ABCDEFGHIJKLMNOPQRSTUVWXYZabcdefghijklmnopqrstuvwxyz0123456789-_''"

definition base64_digit :: "int \<Rightarrow> char" where
  "base64_digit n = base64_digits ! nat n"

text \<open>\<open>base64.urlsafe_b64encode\<close>\<close>

fun urlsafe_b64encode :: "string \<Rightarrow> string" where
  "urlsafe_b64encode [] = []"
| "urlsafe_b64encode [a] = [base64_digit (code_of a div 4), base64_digit (code_of a mod 4 * 16), CHR ''='', CHR ''='']"
| "urlsafe_b64encode [a, b] = [base64_digit (code_of a div 4), base64_digit (code_of a mod 4 * 16 + code_of b div 16),
     base64_digit (code_of b mod 16 * 4), CHR ''='']"
| "urlsafe_b64encode (a # b # c # rest) = base64_digit (code_of a div 4) #
     base64_digit (code_of a mod 4 * 16 + code_of b div 16) # base64_digit (code_of b mod 16 * 4 + code_of c div 64) #
     base64_digit (code_of c mod 64) # urlsafe_b64encode rest"

section \<open>Sessions\<close>

record demo_session_row =
  ds_demo_session_id :: uuid
  ds_expires_at :: instant
  ds_guardian_halted :: bool
  ds_guardian_reason :: "string option"
  ds_created_at :: instant
  ds_updated_at :: instant

record demo_service =
  sv_signing_key :: string
  sv_lifetime :: int

definition new_demo_service :: "string \<Rightarrow> demo_service result" where
  "new_demo_service signing_key =
     rbind (require (32 \<le> length signing_key) (ValueError ''Demo session signing key must contain at least 32 bytes'')) (\<lambda>_.
     Inr \<lparr> sv_signing_key = signing_key, sv_lifetime = seconds 86400 \<rparr>)"

definition signature :: "(string \<Rightarrow> string \<Rightarrow> string) \<Rightarrow> demo_service \<Rightarrow> string \<Rightarrow> string" where
  "signature hmac sv value = py_rstrip CHR ''='' (urlsafe_b64encode (hmac (sv_signing_key sv) value))"

definition token_payload :: "uuid \<Rightarrow> instant \<Rightarrow> string" where
  "token_payload i expires = i @ ''.'' @ int_text (timestamp_seconds expires)"

definition create_session ::
  "(string \<Rightarrow> string \<Rightarrow> string) \<Rightarrow> demo_service \<Rightarrow> uuid \<Rightarrow> instant \<Rightarrow> demo_session_row list \<Rightarrow>
   (demo_session_row \<times> string) result \<times> demo_session_row list"
where
  "create_session hmac sv i now rows =
     (let row = \<lparr> ds_demo_session_id = i, ds_expires_at = now + sv_lifetime sv, ds_guardian_halted = False,
        ds_guardian_reason = None, ds_created_at = now, ds_updated_at = now \<rparr>;
        payload = token_payload i (ds_expires_at row)
      in if list_ex (\<lambda>r. ds_demo_session_id r = i) rows then (Inl (External ''IntegrityError''), rows)
         else (Inr (row, payload @ ''.'' @ signature hmac sv payload), rows @ [row]))"

definition find_session :: "uuid \<Rightarrow> demo_session_row list \<Rightarrow> demo_session_row option" where
  "find_session i rows = List.find (\<lambda>r. ds_demo_session_id r = i) rows"

text \<open>\<open>token.split('.', 2)\<close> into three parts.\<close>

definition split_token :: "string \<Rightarrow> (string \<times> string \<times> string) option" where
  "split_token token = (case py_split_once CHR ''.'' token of
      None \<Rightarrow> None
    | Some (identifier, rest) \<Rightarrow> (case py_split_once CHR ''.'' rest of
        None \<Rightarrow> None
      | Some (expires, sig) \<Rightarrow> Some (identifier, expires, sig)))"

definition invalid_session :: py_error where
  "invalid_session = InvalidDemoSession ''Invalid demo session''"

definition expired_session :: py_error where
  "expired_session = InvalidDemoSession ''Demo session expired''"

text \<open>The first part of \<open>resolve\<close>: \<open>ValueError\<close> becomes \<open>InvalidDemoSession\<close>, other exceptions pass.\<close>

definition read_token :: "string \<Rightarrow> (uuid \<times> instant \<times> string \<times> string) result" where
  "read_token token =
     (case split_token token of
       None \<Rightarrow> Inl invalid_session
     | Some (identifier, expires, sig) \<Rightarrow>
       (case parse_uuid identifier of
         None \<Rightarrow> Inl invalid_session
       | Some i \<Rightarrow>
         (case py_int 10 expires of
           None \<Rightarrow> Inl invalid_session
         | Some n \<Rightarrow>
           (case from_timestamp n of
             Inl (ValueError _) \<Rightarrow> Inl invalid_session
           | Inl e \<Rightarrow> Inl e
           | Inr expires_at \<Rightarrow> Inr (i, expires_at, identifier @ ''.'' @ expires, sig)))))"

text \<open>\<open>hmac.compare_digest\<close> raises for texts outside ASCII.\<close>

definition compare_digest :: "string \<Rightarrow> string \<Rightarrow> bool result" where
  "compare_digest a b =
     (if list_all (\<lambda>ch. code_of ch < 128) (a @ b) then Inr (a = b) else Inl (External ''TypeError''))"

definition resolve_session ::
  "(string \<Rightarrow> string \<Rightarrow> string) \<Rightarrow> demo_service \<Rightarrow> instant \<Rightarrow> instant \<Rightarrow> string \<Rightarrow> demo_session_row list \<Rightarrow>
   demo_session_row result"
where
  "resolve_session hmac sv now later token rows =
     rbind (read_token token) (\<lambda>(i, expires_at, payload, sig).
     rbind (compare_digest sig (signature hmac sv payload)) (\<lambda>same.
     rbind (require same invalid_session) (\<lambda>_.
     rbind (require (\<not> expires_at \<le> now) expired_session) (\<lambda>_.
     case find_session i rows of
       None \<Rightarrow> Inl expired_session
     | Some row \<Rightarrow> rbind (require (\<not> ds_expires_at row \<le> later) expired_session) (\<lambda>_. Inr row)))))"

section \<open>The routes\<close>

record demo_session_status =
  st_mode :: string
  st_expires_at :: instant
  st_guardian_halted :: bool
  st_guardian_reason :: "string option"

definition demo_status :: "demo_session_row \<Rightarrow> bool \<Rightarrow> string option \<Rightarrow> demo_session_status" where
  "demo_status row halted reason = \<lparr> st_mode = ''DEMO_SYNTHETIC'', st_expires_at = ds_expires_at row,
     st_guardian_halted = halted, st_guardian_reason = reason \<rparr>"

text \<open>\<open>_resolve\<close>: the service is missing when the API runs without its infrastructure.\<close>

definition resolve_request ::
  "(string \<Rightarrow> string \<Rightarrow> string) \<Rightarrow> demo_service option \<Rightarrow> instant \<Rightarrow> instant \<Rightarrow> string option \<Rightarrow> demo_session_row list \<Rightarrow>
   demo_session_row result"
where
  "resolve_request hmac service now later token rows =
     (case token of
       None \<Rightarrow> Inl (HTTPException 401 ''Create a demo session first'')
     | Some t \<Rightarrow>
       (case service of
         None \<Rightarrow> Inl (External ''AttributeError'')
       | Some sv \<Rightarrow>
         (case resolve_session hmac sv now later t rows of
           Inl (InvalidDemoSession d) \<Rightarrow> Inl (HTTPException 401 d)
         | r \<Rightarrow> r)))"

text \<open>The answer and the cookie that is set.\<close>

definition create_demo_session ::
  "(string \<Rightarrow> string \<Rightarrow> string) \<Rightarrow> demo_service option \<Rightarrow> uuid \<Rightarrow> instant \<Rightarrow> demo_session_row list \<Rightarrow>
   (demo_session_status \<times> string) result \<times> demo_session_row list"
where
  "create_demo_session hmac service i now rows =
     (case service of
       None \<Rightarrow> (Inl (External ''AttributeError''), rows)
     | Some sv \<Rightarrow>
       (case create_session hmac sv i now rows of
         (Inl e, rows) \<Rightarrow> (Inl e, rows)
       | (Inr (row, token), rows) \<Rightarrow>
           (Inr (demo_status row (ds_guardian_halted row) (ds_guardian_reason row), token), rows)))"

definition demo_session_status_endpoint ::
  "(string \<Rightarrow> string \<Rightarrow> string) \<Rightarrow> demo_service option \<Rightarrow> instant \<Rightarrow> instant \<Rightarrow> string option \<Rightarrow> demo_session_row list \<Rightarrow>
   demo_session_status result"
where
  "demo_session_status_endpoint hmac service now later token rows =
     rbind (resolve_request hmac service now later token rows) (\<lambda>row.
     Inr (demo_status row (ds_guardian_halted row) (ds_guardian_reason row)))"

text \<open>The row is read again, for update, and changed.\<close>

definition set_halted :: "uuid \<Rightarrow> bool \<Rightarrow> string option \<Rightarrow> instant \<Rightarrow> demo_session_row list \<Rightarrow> demo_session_row list" where
  "set_halted i halted reason now rows = map (\<lambda>r. if ds_demo_session_id r = i
     then r\<lparr>ds_guardian_halted := halted, ds_guardian_reason := reason, ds_updated_at := now\<rparr> else r) rows"

definition synthetic_reason :: string where
  "synthetic_reason = ''Synthetic manual kill-switch scenario.''"

definition change_guardian ::
  "bool \<Rightarrow> string option \<Rightarrow> (string \<Rightarrow> string \<Rightarrow> string) \<Rightarrow> demo_service option \<Rightarrow> instant \<Rightarrow> instant \<Rightarrow> instant \<Rightarrow> string option \<Rightarrow>
   demo_session_row list \<Rightarrow> demo_session_status result \<times> demo_session_row list"
where
  "change_guardian halted reason hmac service now later at_update token rows =
     (case resolve_request hmac service now later token rows of
       Inl e \<Rightarrow> (Inl e, rows)
     | Inr row \<Rightarrow>
       (case find_session (ds_demo_session_id row) rows of
         None \<Rightarrow> (Inl AssertionError, rows)
       | Some _ \<Rightarrow> (Inr (demo_status row halted reason),
           set_halted (ds_demo_session_id row) halted reason at_update rows)))"

definition demo_halt ::
  "(string \<Rightarrow> string \<Rightarrow> string) \<Rightarrow> demo_service option \<Rightarrow> instant \<Rightarrow> instant \<Rightarrow> instant \<Rightarrow> string option \<Rightarrow>
   demo_session_row list \<Rightarrow> demo_session_status result \<times> demo_session_row list"
where
  "demo_halt = change_guardian True (Some synthetic_reason)"

definition demo_recover ::
  "(string \<Rightarrow> string \<Rightarrow> string) \<Rightarrow> demo_service option \<Rightarrow> instant \<Rightarrow> instant \<Rightarrow> instant \<Rightarrow> string option \<Rightarrow>
   demo_session_row list \<Rightarrow> demo_session_status result \<times> demo_session_row list"
where
  "demo_recover = change_guardian False None"

end
