(* ===== verification/Demo_Properties.thy ===== *)
theory Demo_Properties
  imports Demo
begin

text \<open>
  Demonstration sessions: the token of a session is accepted until it expires and leads back to the row; nothing but
  a signed token is accepted; halting one session does not touch the others.
\<close>

section \<open>Texts without a separator\<close>

lemma py_split_once_append: "sep \<notin> set h \<Longrightarrow> py_split_once sep (h @ sep # t) = Some (h, t)"
  by (induction h) auto

lemma hex_digit_in: "0 \<le> d \<Longrightarrow> d < 16 \<Longrightarrow> hex_digit d \<in> set hex_digits"
  unfolding hex_digit_def by (rule nth_mem) (simp add: hex_digits_def)

lemma hex_text_chars: "set (hex_text k n) \<subseteq> set hex_digits"
  by (induction k arbitrary: n) (simp_all add: hex_digit_in)

lemma uuid_text_no_dot: "CHR ''.'' \<notin> set (uuid_text n)"
proof -
  have "CHR ''.'' \<notin> set (hex_text 32 n)"
    using hex_text_chars [of 32 n] by (auto simp: hex_digits_def)
  then show ?thesis
    unfolding uuid_text_def Let_def by (auto dest: in_set_takeD in_set_dropD)
qed

lemma parse_uuid_no_dot: "parse_uuid s = Some i \<Longrightarrow> CHR ''.'' \<notin> set i"
  by (auto simp: parse_uuid_def Let_def uuid_text_no_dot split: option.splits if_splits)

section \<open>Reading a printed number\<close>

lemma digit_value_digit: "ch \<in> set ''0123456789'' \<Longrightarrow> digit_value 10 ch = Some (char_digit ch)"
  by (auto simp: digit_value_def hex_value_def code_of_def char_digit_def)

lemma digits_loop_digits:
  assumes "set s \<subseteq> set ''0123456789''" and "s \<noteq> [] \<or> \<not> gap"
  shows "digits_loop 10 acc gap s = Some (foldl (\<lambda>a ch. 10 * a + char_digit ch) acc s)"
  using assms
proof (induction s arbitrary: acc gap)
  case (Cons ch cs)
  then have "ch \<noteq> CHR ''_''" and "digit_value 10 ch = Some (char_digit ch)"
    using digit_value_digit [of ch] by auto
  then show ?case using Cons by (simp add: mult.commute)
qed simp

lemma length_digits_of: "0 \<le> n \<Longrightarrow> n < 10 ^ k \<Longrightarrow> 0 < k \<Longrightarrow> length (digits_of n) \<le> k"
proof (induction n arbitrary: k rule: digits_of.induct)
  case (1 n)
  show ?case
  proof (cases "n < 10")
    case True
    then show ?thesis using 1(4) by (subst digits_of.simps) simp
  next
    case False
    then obtain j where j: "k = Suc j" "0 < j" using 1(3,4) by (cases k; cases "k - 1") auto
    then have "n div 10 < 10 ^ j" using 1(3) by (simp add: div_less_iff_less_mult)
    then show ?thesis using 1(1,2) False j by (subst digits_of.simps) simp
  qed
qed

lemma py_int_text:
  assumes "0 \<le> n" and "n < 10 ^ 4300"
  shows "py_int 10 (int_text n) = Some n"
proof -
  let ?d = "digits_of n"
  have d: "set ?d \<subseteq> set ''0123456789''" "?d \<noteq> []" using digits_of_chars [OF assms(1)] by simp_all
  have space: "\<not> is_c_space ch" if "ch \<in> set ''0123456789''" for ch
    using that by (auto simp: is_c_space_def code_of_def)
  have "hd ?d \<in> set ''0123456789''" "last ?d \<in> set ''0123456789''" using d by (auto simp: subset_iff)
  then have "strip_while is_c_space ?d = ?d" using d space by (intro strip_while_fixed) auto
  moreover have "read_sign ?d = (False, ?d)" using d by (cases ?d) (auto simp: read_sign_def)
  moreover have "length (filter (\<lambda>ch. ch \<noteq> CHR ''_'') ?d) \<le> 4300"
    using length_digits_of [OF assms] length_filter_le order_trans by (metis zero_less_numeral)
  moreover have "read_digits 10 ?d = Some n"
    using d digits_val_of [OF assms(1)] by (simp add: read_digits_def digits_loop_digits digits_val_def)
  ultimately show ?thesis using assms(1) by (simp add: py_int_def int_text_def)
qed

section \<open>Signatures\<close>

lemma base64_digit_in: "0 \<le> n \<Longrightarrow> n < 64 \<Longrightarrow> base64_digit n \<in> set base64_digits"
  unfolding base64_digit_def by (rule nth_mem) (simp add: base64_digits_def)

lemma code_of_range: "0 \<le> code_of ch" "code_of ch < 256"
  unfolding code_of_def using of_char_mod_256 [of ch, where ?'a = int] by (metis pos_mod_sign zero_less_numeral, metis pos_mod_bound zero_less_numeral)

lemma base64_chars: "set (urlsafe_b64encode s) \<subseteq> insert CHR ''='' (set base64_digits)"
proof (induction s rule: urlsafe_b64encode.induct)
  case (2 a)
  then show ?case using code_of_range [of a] by (auto intro!: base64_digit_in)
next
  case (3 a b)
  then show ?case using code_of_range [of a] code_of_range [of b] by (auto intro!: base64_digit_in)
next
  case (4 a b c rest)
  then show ?case using code_of_range [of a] code_of_range [of b] code_of_range [of c]
    by (auto intro!: base64_digit_in)
qed simp

lemma signature_ascii: "list_all (\<lambda>ch. code_of ch < 128) (signature hmac sv v)"
proof -
  have "set (signature hmac sv v) \<subseteq> set (urlsafe_b64encode (hmac (sv_signing_key sv) v))"
    by (auto simp: signature_def py_rstrip_def dest: set_dropWhileD)
  moreover have "list_all (\<lambda>ch. code_of ch < 128) (CHR ''='' # base64_digits)" by code_simp
  ultimately show ?thesis using base64_chars unfolding list_all_iff by (metis list.set(2) subset_iff)
qed

lemma compare_same: "compare_digest (signature hmac sv v) (signature hmac sv v) = Inr True"
  using signature_ascii by (simp add: compare_digest_def)

section \<open>Tokens\<close>

lemma split_token_built:
  assumes "CHR ''.'' \<notin> set i" and "0 \<le> n"
  shows "split_token (i @ ''.'' @ int_text n @ ''.'' @ sig) = Some (i, int_text n, sig)"
proof -
  have "CHR ''.'' \<notin> set (int_text n)" using digits_no_sep [of n "CHR ''.''"] assms(2) by (simp add: int_text_def)
  then show ?thesis using assms(1) by (simp add: split_token_def py_split_once_append)
qed

text \<open>The token of a new session is accepted until the second in which it expires, whatever has happened to the
  table meanwhile as long as the session's row is there with its expiry, and it leads to that row.\<close>

theorem demo_token_resolves:
  assumes "create_session hmac sv i start rows = (Inr (row, token), rows1)"
    and "parse_uuid i = Some i" and "0 \<le> ds_expires_at row" and "ds_expires_at row < seconds 253402300800"
    and "now < seconds (ds_expires_at row div 1000000)" and "later < ds_expires_at row"
    and "find_session i table = Some current" and "ds_expires_at current = ds_expires_at row"
  shows "find_session i rows1 = Some row \<and> resolve_session hmac sv now later token table = Inr current"
proof -
  let ?n = "ds_expires_at row div 1000000"
  have fresh: "\<not> list_ex (\<lambda>r. ds_demo_session_id r = i) rows" and rows1: "rows1 = rows @ [row]"
    and i: "ds_demo_session_id row = i"
    and token: "token = token_payload i (ds_expires_at row) @ ''.'' @ signature hmac sv (token_payload i (ds_expires_at row))"
    using assms(1) by (auto simp: create_session_def Let_def split: if_splits)
  have n: "0 \<le> ?n" "?n \<le> 253402300799" using assms(3,4) by (simp_all add: seconds_def)
  have payload: "token_payload i (ds_expires_at row) = i @ ''.'' @ int_text ?n"
    using assms(3) by (simp add: token_payload_def timestamp_seconds_def)
  have "?n < 10 ^ 4300"
  proof -
    have "?n < 10 ^ 12" using n(2) by simp
    also have "(10 :: int) ^ 12 \<le> 10 ^ 4300" by (rule power_increasing) simp_all
    finally show ?thesis .
  qed
  then have "py_int 10 (int_text ?n) = Some ?n" by (rule py_int_text [OF n(1)])
  then have read: "read_token token = Inr (i, seconds ?n, i @ ''.'' @ int_text ?n, signature hmac sv (i @ ''.'' @ int_text ?n))"
    using split_token_built [OF parse_uuid_no_dot [OF assms(2)] n(1)] assms(2) n
    by (simp add: read_token_def token payload from_timestamp_def)
  have "find_session i rows = None" using fresh by (auto simp: find_session_def find_None_iff list_ex_iff)
  then have "find_session i rows1 = Some row" by (simp add: rows1 find_session_def find_append i)
  moreover have "resolve_session hmac sv now later token table = Inr current"
    using assms(5-8) by (simp add: resolve_session_def read compare_same)
  ultimately show ?thesis by blast
qed

definition demo_hmac :: "string \<Rightarrow> string \<Rightarrow> string" where
  "demo_hmac key value = take 3 key @ value"

lemma demo_token_resolves_witness:
  "let i = ''10000000-0000-0000-0000-000000000001''; sv = \<lparr> sv_signing_key = replicate 32 CHR ''k'', sv_lifetime = seconds 86400 \<rparr>;
       row = \<lparr> ds_demo_session_id = i, ds_expires_at = seconds 86400 + 5, ds_guardian_halted = False, ds_guardian_reason = None,
         ds_created_at = 5, ds_updated_at = 5 \<rparr>
   in find_session i [row] = Some row \<and>
      resolve_session demo_hmac sv 7 8 (snd (projr (fst (create_session demo_hmac sv i 5 [])))) [row] = Inr row"
proof -
  let ?i = "''10000000-0000-0000-0000-000000000001''"
  let ?sv = "\<lparr> sv_signing_key = replicate 32 CHR ''k'', sv_lifetime = seconds 86400 \<rparr>"
  let ?row = "\<lparr> ds_demo_session_id = ?i, ds_expires_at = seconds 86400 + 5, ds_guardian_halted = False,
    ds_guardian_reason = None, ds_created_at = 5, ds_updated_at = 5 \<rparr>"
  have "create_session demo_hmac ?sv ?i 5 [] =
      (Inr (?row, snd (projr (fst (create_session demo_hmac ?sv ?i 5 [])))), [?row])"
    by (simp add: create_session_def Let_def add.commute)
  moreover have "parse_uuid ?i = Some ?i" by code_simp
  ultimately show ?thesis
    using demo_token_resolves [of demo_hmac ?sv ?i 5 "[]" ?row _ "[?row]" 7 8 "[?row]" ?row]
    by (simp add: Let_def seconds_def find_session_def)
qed

text \<open>C33. Only signed tokens are accepted: an accepted token is a payload followed by its signature under the
  service's key, its expiry lies ahead, and it names the row that is returned, which has not expired either.  A
  token that is refused is refused as an invalid or expired session, but for three kinds of token that leave the
  code with another exception, before the signature is looked at or, for a signature outside ASCII, while it is.\<close>

theorem demo_token_is_signed:
  "(case resolve_session hmac sv now later token rows of
      Inr row \<Rightarrow> (\<exists>payload expires. token = payload @ ''.'' @ signature hmac sv payload \<and>
        read_token token = Inr (ds_demo_session_id row, expires, payload, signature hmac sv payload) \<and>
        now < expires \<and> later < ds_expires_at row \<and> row \<in> set rows)
    | Inl e \<Rightarrow> e \<in> {invalid_session, expired_session, OverflowError, External ''OSError'', External ''TypeError''})"
proof (cases "read_token token")
  case (Inl e)
  then have "e \<in> {invalid_session, OverflowError, External ''OSError''}"
    by (auto simp: read_token_def from_timestamp_def split: option.splits if_splits)
  then show ?thesis using Inl by (auto simp: resolve_session_def)
next
  case (Inr parts)
  obtain i expires payload sig where parts: "parts = (i, expires, payload, sig)" by (cases parts)
  have token: "token = payload @ ''.'' @ sig"
    using Inr parts
    by (auto simp: read_token_def split_token_def dest!: py_split_once_head
        split: option.splits sum.splits py_error.splits)
  show ?thesis
  proof (cases "resolve_session hmac sv now later token rows")
    case (Inl e)
    then show ?thesis using Inr parts
      by (auto simp: resolve_session_def compare_digest_def rbind_eq_Inl require_eq_Inl split: option.splits if_splits)
  next
    case ok: (Inr row)
    then have "sig = signature hmac sv payload" "now < expires" "find_session i rows = Some row" "later < ds_expires_at row"
      using Inr parts
      by (auto simp: resolve_session_def compare_digest_def guard_simps split: option.splits if_splits)
    then show ?thesis using ok Inr parts token
      by (auto simp: find_session_def find_Some_iff)
  qed
qed

section \<open>Halting\<close>

lemma find_set_halted:
  "find_session j (set_halted i halted reason t rows) =
     map_option (\<lambda>r. if j = i then r\<lparr>ds_guardian_halted := halted, ds_guardian_reason := reason, ds_updated_at := t\<rparr> else r)
       (find_session j rows)"
  by (induction rows) (auto simp: find_session_def set_halted_def)

end
