(* ===== verification/Replay.thy ===== *)
theory Replay
  imports Order_Intents Py_Numbers
begin

text \<open>
  \<open>packages/replay/catalyst.py\<close>: the demonstration scenarios.  Each is a run of the real strategy, options engine,
  risk engine and order intents on fixed data; the identifiers and clock readings that those draw are replaced by
  fixed ones.  The model keeps the values that the code dumps to JSON.
\<close>

datatype replay_scenario = Replay_approved | Replay_no_trade | Replay_risk_veto | Replay_partial_fill
  | Replay_submission_uncertain | Replay_guardian_recovery

record catalyst_replay =
  cy_scenario :: replay_scenario
  cy_disposition :: string
  cy_signal :: signal
  cy_trade_idea :: "trade_idea option"
  cy_candidate :: "ranked_candidate option"
  cy_risk_decision :: "risk_decision option"
  cy_order_intent :: "order_intent option"
  cy_audit_timeline :: "string list"

text \<open>What a run draws from outside, all of it replaced later: fresh identifiers and the clock.\<close>

record replay_inputs =
  ri_idea :: uuid
  ri_structure :: "nat \<Rightarrow> uuid"
  ri_risk :: uuid
  ri_intent :: uuid
  ri_now :: instant

section \<open>The fixed data\<close>

text \<open>2026-09-01 14:00 UTC, and the expiration 2026-09-25.\<close>

definition replay_time :: instant where
  "replay_time = seconds 1788271200"

definition replay_expiration :: day where
  "replay_expiration = 20721"

text \<open>\<open>f'{n:08d}'\<close>\<close>

definition pad8 :: "int \<Rightarrow> string" where
  "pad8 n = replicate (8 - length (int_text n)) CHR ''0'' @ int_text n"

definition replay_leg :: "string \<Rightarrow> leg_side \<Rightarrow> string \<Rightarrow> option_leg result" where
  "replay_leg strike side entry =
     rbind (parse_decimal entry) (\<lambda>e.
     rbind (parse_decimal strike) (\<lambda>k.
     let price = finite_value e; strike_value = finite_value k in
     rbind (validated option_quote_valid ''OptionQuote'' \<lparr> oq_bid = dsub price (1 / 20), oq_ask = dadd price (1 / 20),
       oq_bid_size = 40, oq_ask_size = 38, oq_quoted_at = Aware replay_time, oq_open_interest = Some 2400,
       oq_volume = Some 850, oq_implied_volatility = Some (19 / 50),
       oq_greeks = Some \<lparr> g_delta = 1 / 2, g_gamma = 3 / 100, g_theta = - (1 / 25), g_vega = 3 / 25 \<rparr> \<rparr>) (\<lambda>quote.
     rbind (validated option_contract_valid ''OptionContract'' \<lparr> oc_contract_id = ''fixture-'' @ strike,
       oc_symbol = ''NVDA260925C'' @ pad8 \<lfloor>dmul strike_value 1000\<rfloor>, oc_underlying_symbol = ''NVDA'',
       oc_expiration = replay_expiration, oc_strike = strike_value, oc_option_type = CALL, oc_multiplier = 100,
       oc_tradable = True, oc_quote = quote \<rparr>) (\<lambda>contract.
     validated option_leg_valid ''OptionLeg'' \<lparr> ol_contract = contract, ol_side = side, ol_ratio = 1,
       ol_entry_price = price \<rparr>))))"

definition replay_features :: "bool \<Rightarrow> catalyst_features" where
  "replay_features weak = \<lparr> cf_catalyst_confidence = (if weak then 2 / 5 else 91 / 100), cf_sentiment = 19 / 25,
     cf_relative_volume = 16 / 5, cf_price_momentum = 17 / 25, cf_gap_percent = (if weak then 17 else 21 / 5),
     cf_market_confirmation = 3 / 10, cf_sector_confirmation = 13 / 25, cf_liquidity_score = 93 / 100 \<rparr>"

definition replay_signal :: "bool \<Rightarrow> signal result" where
  "replay_signal weak =
     rbind (validated catalyst_features_valid ''CatalystFeatures'' (replay_features weak)) (\<lambda>features.
     rbind (score_signal features) (\<lambda>score.
     validated signal_valid ''Signal'' \<lparr> sg_signal_id = ''10000000-0000-0000-0000-000000000001'', sg_symbol = ''NVDA'',
       sg_observed_at = replay_time, sg_features = features, sg_score = score,
       sg_source_versions = [(''market'', ''synthetic-v1''), (''news'', ''synthetic-v1'')] \<rparr>))"

definition replay_context :: "bool \<Rightarrow> risk_context" where
  "replay_context broker_allowed = \<lparr> rk_paper_equity = 100000, rk_open_planned_loss = 0, rk_underlying_open_risk = 0,
     rk_daily_loss = 0, rk_drawdown_percent = 0, rk_concurrent_option_structures = 0, rk_portfolio_delta = 0,
     rk_portfolio_gamma = 0, rk_portfolio_theta = 0, rk_portfolio_vega = 0,
     rk_broker_execution_allowed = broker_allowed, rk_duplicate_logical_order = False \<rparr>"

section \<open>A run\<close>

definition replay_structure :: "option_structure result" where
  "replay_structure =
     rbind (replay_leg ''120'' LONG ''4.20'') (\<lambda>long.
     rbind (replay_leg ''125'' SHORT ''2.10'') (\<lambda>short.
     build_structure BULL_CALL_DEBIT_SPREAD [long, short] 1 None))"

text \<open>\<open>xs[0]\<close>\<close>

definition first_of :: "'a list \<Rightarrow> 'a result" where
  "first_of xs = (case xs of [] \<Rightarrow> Inl IndexError | x # _ \<Rightarrow> Inr x)"

definition risk_reviewed :: "replay_inputs \<Rightarrow> bool \<Rightarrow> ranked_candidate \<Rightarrow> risk_decision result" where
  "risk_reviewed inp broker_allowed candidate =
     rbind (validated risk_context_valid ''RiskContext'' (replay_context broker_allowed)) (\<lambda>context.
     rbind (risk_evaluate default_risk_policy (ri_risk inp) (ri_now inp) candidate context) (\<lambda>risk.
     Inr (risk\<lparr>rd_risk_decision_id := ''40000000-0000-0000-0000-000000000001'',
       rd_created_at := replay_time + seconds 1\<rparr>)))"

definition timeline_of :: "risk_decision \<Rightarrow> string list" where
  "timeline_of risk = [''MARKET_EVENT_INGESTED'', ''SIGNAL_CREATED'', ''TRADE_IDEA_CREATED'',
     ''STRUCTURE_CANDIDATES_CREATED'', ''STRUCTURE_SELECTED'',
     if rd_decision risk = APPROVE then ''RISK_APPROVED'' else ''RISK_REJECTED'']"

text \<open>The scenarios that are runs themselves.\<close>

definition replay_run :: "(string \<Rightarrow> string) \<Rightarrow> replay_inputs \<Rightarrow> replay_scenario \<Rightarrow> catalyst_replay result" where
  "replay_run sha inp scenario =
     rbind (replay_signal (scenario = Replay_no_trade)) (\<lambda>s.
     rbind (evaluate_signal default_catalyst_strategy (ri_idea inp) (ri_now inp) s) (\<lambda>outcome.
     case outcome of
       No_trade _ \<Rightarrow> Inr \<lparr> cy_scenario = scenario, cy_disposition = ''NO_TRADE'', cy_signal = s, cy_trade_idea = None,
         cy_candidate = None, cy_risk_decision = None, cy_order_intent = None,
         cy_audit_timeline = [''MARKET_EVENT_INGESTED'', ''SIGNAL_CREATED'', ''NO_TRADE_DECISION''] \<rparr>
     | Idea made \<Rightarrow>
       let idea = made\<lparr>ti_trade_idea_id := ''20000000-0000-0000-0000-000000000001''\<rparr> in
       rbind replay_structure (\<lambda>structure.
       rbind (rank_candidates (ri_structure inp) idea [structure]) (\<lambda>ranked.
       rbind (first_of ranked) (\<lambda>best.
       let candidate = best\<lparr>rc_structure_id := ''30000000-0000-0000-0000-000000000001''\<rparr> in
       rbind (risk_reviewed inp (scenario \<noteq> Replay_risk_veto) candidate) (\<lambda>risk.
       if rd_decision risk \<noteq> APPROVE
       then Inr \<lparr> cy_scenario = scenario, cy_disposition = ''RISK_REJECTED'', cy_signal = s, cy_trade_idea = Some idea,
         cy_candidate = Some candidate, cy_risk_decision = Some risk, cy_order_intent = None,
         cy_audit_timeline = timeline_of risk \<rparr>
       else rbind (create_order_intent sha (ri_intent inp) (ri_now inp) risk candidate 1 None limit_at_calculated_net
           (Some (replay_time + seconds 1))) (\<lambda>intent.
         Inr \<lparr> cy_scenario = scenario, cy_disposition = ''ORDER_INTENT_CREATED'', cy_signal = s,
           cy_trade_idea = Some idea, cy_candidate = Some candidate, cy_risk_decision = Some risk,
           cy_order_intent = Some (intent\<lparr>oi_order_intent_id := ''50000000-0000-0000-0000-000000000001''\<rparr>),
           cy_audit_timeline = timeline_of risk @ [''ORDER_INTENT_CREATED''] \<rparr>)))))))"

text \<open>The scenarios that continue the approved one: their disposition and what they add to its timeline.\<close>

fun continuation :: "replay_scenario \<Rightarrow> (string \<times> string list) option" where
  "continuation Replay_partial_fill = Some (''ORDER_PARTIALLY_FILLED'',
     [''ORDER_SUBMISSION_STARTED'', ''ORDER_ACCEPTED'', ''ORDER_PARTIALLY_FILLED''])"
| "continuation Replay_submission_uncertain = Some (''SUBMISSION_UNCERTAIN'',
     [''ORDER_SUBMISSION_STARTED'', ''ORDER_SUBMISSION_UNCERTAIN'', ''BROKER_RECONCILIATION_STARTED''])"
| "continuation Replay_guardian_recovery = Some (''RECOVERY_RECONCILED'',
     [''GUARDIAN_HALT_ACTIVATED'', ''BROKER_RECONCILIATION_STARTED'', ''BROKER_RECONCILIATION_COMPLETED''])"
| "continuation _ = None"

definition run_catalyst_replay :: "(string \<Rightarrow> string) \<Rightarrow> replay_inputs \<Rightarrow> replay_scenario \<Rightarrow> catalyst_replay result" where
  "run_catalyst_replay sha inp scenario = (case continuation scenario of
      None \<Rightarrow> replay_run sha inp scenario
    | Some (disposition, additions) \<Rightarrow>
        rbind (replay_run sha inp Replay_approved) (\<lambda>base.
        Inr (base\<lparr>cy_scenario := scenario, cy_disposition := disposition,
          cy_audit_timeline := cy_audit_timeline base @ additions\<rparr>)))"

end
