(* ===== verification/Replay_Properties.thy ===== *)
theory Replay_Properties
  imports Replay
begin

text \<open>
  The demonstration scenarios always come out, each with its disposition, and do not depend on the clock or on the
  identifiers that a run draws.
\<close>

section \<open>Independence of identifiers and clock\<close>

lemma evaluate_signal_fresh:
  "evaluate_signal strategy fresh now s =
     (case evaluate_signal strategy fresh' now' s of
       Inl e \<Rightarrow> Inl e
     | Inr (No_trade n) \<Rightarrow> Inr (No_trade (n\<lparr>nt_created_at := now\<rparr>))
     | Inr (Idea i) \<Rightarrow> Inr (Idea (i\<lparr>ti_trade_idea_id := fresh\<rparr>)))"
  by (simp add: evaluate_signal_def validated_def trade_idea_valid_def Let_def)

lemma rank_structure_fresh:
  "rank_structure i idea s p =
     (case rank_structure j idea s p of Inl e \<Rightarrow> Inl e | Inr c \<Rightarrow> Inr (c\<lparr>rc_structure_id := i\<rparr>))"
  by (simp add: rank_structure_def rbind_def split: sum.splits)

definition relabelled :: "uuid \<Rightarrow> ranked_candidate list result \<Rightarrow> ranked_candidate result" where
  "relabelled i ranked = rbind ranked (\<lambda>cs. rbind (first_of cs) (\<lambda>c. Inr (c\<lparr>rc_structure_id := i\<rparr>)))"

lemma rank_single_fresh:
  "relabelled i (rank_candidates fresh idea [s]) = relabelled i (rank_candidates fresh' idea [s])"
  using rank_structure_fresh [of "fresh 0" idea s _ "fresh' 0"]
  by (simp add: relabelled_def rank_candidates_def first_of_def rbind_def split: option.splits sum.splits)

lemma risk_reviewed_fresh: "risk_reviewed inp allowed c = risk_reviewed inp' allowed c"
  by (simp add: risk_reviewed_def risk_evaluate_def validated_def risk_decision_valid_def Let_def rbind_def split: sum.splits)

lemma create_order_intent_fresh:
  "create_order_intent sha fresh now risk c q price pol (Some t) =
     (case create_order_intent sha fresh' now' risk c q price pol (Some t) of
       Inl e \<Rightarrow> Inl e | Inr i \<Rightarrow> Inr (i\<lparr>oi_order_intent_id := fresh\<rparr>))"
  by (simp add: create_order_intent_def validated_def order_intent_valid_def Let_def rbind_def split: sum.splits)

section \<open>The runs\<close>

definition replay_quote :: "decimal \<Rightarrow> option_quote" where
  "replay_quote price = \<lparr> oq_bid = price - 1 / 20, oq_ask = price + 1 / 20, oq_bid_size = 40, oq_ask_size = 38,
     oq_quoted_at = Aware 1788271200000000, oq_open_interest = Some 2400, oq_volume = Some 850,
     oq_implied_volatility = Some (19 / 50),
     oq_greeks = Some \<lparr> g_delta = 1 / 2, g_gamma = 3 / 100, g_theta = - (1 / 25), g_vega = 3 / 25 \<rparr> \<rparr>"

definition replay_option_leg :: "string \<Rightarrow> string \<Rightarrow> decimal \<Rightarrow> leg_side \<Rightarrow> decimal \<Rightarrow> option_leg" where
  "replay_option_leg contract symbol strike side price = \<lparr> ol_contract = \<lparr> oc_contract_id = contract, oc_symbol = symbol,
     oc_underlying_symbol = ''NVDA'', oc_expiration = 20721, oc_strike = strike, oc_option_type = CALL, oc_multiplier = 100,
     oc_tradable = True, oc_quote = replay_quote price \<rparr>, ol_side = side, ol_ratio = 1, ol_entry_price = price \<rparr>"

definition replay_spread :: option_structure where
  "replay_spread = \<lparr> os_structure_type = BULL_CALL_DEBIT_SPREAD, os_quantity = 1,
     os_legs = [replay_option_leg ''fixture-120'' ''NVDA260925C00120000'' 120 LONG (21 / 5),
       replay_option_leg ''fixture-125'' ''NVDA260925C00125000'' 125 SHORT (21 / 10)],
     os_underlying = None, os_net_premium_per_share = 21 / 10, os_max_loss = 210, os_max_profit = Some 290,
     os_break_evens = [1221 / 10], os_greeks = \<lparr> g_delta = 0, g_gamma = 0, g_theta = 0, g_vega = 0 \<rparr> \<rparr>"

lemma replay_structure_eq: "replay_structure = Inr replay_spread"
proof -
  let ?long = "replay_option_leg ''fixture-120'' ''NVDA260925C00120000'' 120 LONG (21 / 5)"
  let ?short = "replay_option_leg ''fixture-125'' ''NVDA260925C00125000'' 125 SHORT (21 / 10)"
  have "replay_leg ''120'' LONG ''4.20'' = Inr ?long" by code_simp
  moreover have "replay_leg ''125'' SHORT ''2.10'' = Inr ?short" by code_simp
  moreover have "build_structure BULL_CALL_DEBIT_SPREAD [?long, ?short] 1 None = Inr replay_spread" by code_simp
  ultimately show ?thesis by (simp add: replay_structure_def)
qed

definition scored_signal :: "bool \<Rightarrow> signal" where
  "scored_signal weak = \<lparr> sg_signal_id = ''10000000-0000-0000-0000-000000000001'', sg_symbol = ''NVDA'',
     sg_observed_at = replay_time, sg_features = replay_features weak, sg_score = (if weak then 1752 / 25 else 4269 / 50),
     sg_source_versions = [(''market'', ''synthetic-v1''), (''news'', ''synthetic-v1'')] \<rparr>"

lemma replay_signal_eq: "replay_signal weak = Inr (scored_signal weak)"
proof -
  have "catalyst_features_valid (replay_features True)" "catalyst_features_valid (replay_features False)"
    "score_signal (replay_features True) = Inr (1752 / 25)" "score_signal (replay_features False) = Inr (4269 / 50)"
    by code_simp+
  then show ?thesis
    by (cases weak) (simp_all add: replay_signal_def scored_signal_def validated_def signal_valid_def)
qed

lemma weak_outcome: "\<exists>n. evaluate_signal default_catalyst_strategy fresh now (scored_signal True) = Inr (No_trade n)"
proof -
  have "signal_reasons default_catalyst_strategy (scored_signal True) \<noteq> []" by code_simp
  then show ?thesis by (simp add: evaluate_signal_def Let_def)
qed

lemma strong_outcome:
  "\<exists>i. evaluate_signal default_catalyst_strategy fresh now (scored_signal False) = Inr (Idea i) \<and> ti_direction i = BULLISH"
proof -
  have "signal_reasons default_catalyst_strategy (scored_signal False) = []" by code_simp
  moreover have "dquo (sg_score (scored_signal False)) 100 = 4269 / 5000" by code_simp
  moreover have "idea_direction (sg_features (scored_signal False)) = BULLISH" by code_simp
  ultimately show ?thesis
    by (simp add: evaluate_signal_def Let_def trade_idea_valid_def unit_interval_def)
qed

text \<open>The rank score of the spread is small, so rounding it to four places succeeds.\<close>

lemma cost_between:
  assumes "midpoint (oc_quote (ol_contract l)) = m" and "dsub (oq_ask (oc_quote (ol_contract l))) (oq_bid (oc_quote (ol_contract l))) = d"
    and "0 \<le> d" and "d \<le> m" and "0 < m"
  shows "0 \<le> leg_spread_cost l \<and> leg_spread_cost l \<le> 1"
proof -
  have "0 \<le> dquo d m" and "dquo d m \<le> 1"
    using assms(3-5) by (simp_all add: dquo_def ctx.rnd_nonneg ctx.rnd_le [OF ctx_eval_one])
  then show ?thesis using assms by (simp add: leg_spread_cost_def spread_ratio_def)
qed

lemma replay_rank: "\<exists>c. rank_structure i idea replay_spread 290 = Inr c \<and> rc_structure c = replay_spread \<and>
    rc_trade_idea_id c = ti_trade_idea_id idea"
proof -
  let ?long = "replay_option_leg ''fixture-120'' ''NVDA260925C00120000'' 120 LONG (21 / 5)"
  let ?short = "replay_option_leg ''fixture-125'' ''NVDA260925C00125000'' 125 SHORT (21 / 10)"
  have "midpoint (oc_quote (ol_contract ?long)) = 21 / 5" "midpoint (oc_quote (ol_contract ?short)) = 21 / 10"
    "dsub (oq_ask (oc_quote (ol_contract ?long))) (oq_bid (oc_quote (ol_contract ?long))) = 1 / 10"
    "dsub (oq_ask (oc_quote (ol_contract ?short))) (oq_bid (oc_quote (ol_contract ?short))) = 1 / 10"
    "ctx 2 = 2" "ctx 100 = 100"
    by code_simp+
  note eval = this
  have costs: "0 \<le> leg_spread_cost ?long" "leg_spread_cost ?long \<le> 1" "0 \<le> leg_spread_cost ?short" "leg_spread_cost ?short \<le> 1"
    using cost_between [OF eval(1,3)] cost_between [OF eval(2,4)] by simp_all
  define total where "total = dsum [leg_spread_cost ?long, leg_spread_cost ?short]"
  define rr where "rr = dquo 290 210"
  define cost where "cost = dquo total 2"
  have "dadd 0 (leg_spread_cost ?long) \<le> 1" "0 \<le> dadd 0 (leg_spread_cost ?long)"
    using costs by (simp_all add: dadd_def ctx.rnd_nonneg ctx.rnd_le [OF ctx_eval_one])
  then have total: "0 \<le> total" "total \<le> 2"
    using costs by (simp_all add: total_def dsum_def dadd_def ctx.rnd_nonneg ctx.rnd_le [OF eval(5)])
  have rr: "0 \<le> rr" "rr \<le> 2" by (simp_all add: rr_def dquo_def ctx.rnd_nonneg ctx.rnd_le [OF eval(5)])
  have cost: "0 \<le> cost" "cost \<le> 1"
    using total by (simp_all add: cost_def dquo_def ctx.rnd_nonneg ctx.rnd_le [OF ctx_eval_one])
  have "0 \<le> dmul rr 50" "dmul rr 50 \<le> 100" "0 \<le> dmul cost 100" "dmul cost 100 \<le> 100"
    using rr cost by (simp_all add: dmul_def ctx.rnd_nonneg ctx.rnd_le [OF eval(6)])
  then have "dsub (dmul rr 50) (dmul cost 100) \<le> 100" "- 100 \<le> dsub (dmul rr 50) (dmul cost 100)"
    unfolding dsub_def by (intro ctx.rnd_le ctx.rnd_ge; simp add: eval(6) ctx_minus)+
  then have "\<bar>dsub (dmul rr 50) (dmul cost 100)\<bar> * 10 ^ 4 < 10 ^ 27" by (simp add: abs_if)
  from quantize_bounded [OF this] show ?thesis
    by (simp add: rank_structure_def replay_spread_def total_def rr_def cost_def)
qed

lemma replay_ranked:
  assumes "ti_direction idea = BULLISH"
  shows "\<exists>c. rank_candidates fresh idea [replay_spread] = Inr [c] \<and> rc_structure c = replay_spread"
proof -
  obtain c where "rank_structure (fresh 0) idea replay_spread 290 = Inr c" "rc_structure c = replay_spread"
    using replay_rank by blast
  moreover have "os_structure_type replay_spread = wanted_structure idea" "os_max_profit replay_spread = Some 290"
    using assms by (simp_all add: replay_spread_def wanted_structure_def)
  ultimately show ?thesis by (simp add: rank_candidates_def)
qed

lemma replay_reviewed:
  assumes "rc_structure c = replay_spread"
  shows "\<exists>r. risk_reviewed inp allowed c = Inr r \<and> rd_decision r = (if allowed then APPROVE else REJECT) \<and>
     rd_structure_id r = rc_structure_id c"
proof -
  have "list_all ck_passed (risk_checks default_risk_policy replay_spread (replay_context True))"
    "\<not> list_all ck_passed (risk_checks default_risk_policy replay_spread (replay_context False))"
    "risk_context_valid (replay_context True)" "risk_context_valid (replay_context False)"
    "ddiv (os_max_loss replay_spread) (rk_paper_equity (replay_context True)) = Inr (21 / 10000)"
    "ddiv (os_max_loss replay_spread) (rk_paper_equity (replay_context False)) = Inr (21 / 10000)"
    "os_max_loss replay_spread = 210"
    by code_simp+
  then show ?thesis using assms
    by (cases allowed) (simp_all add: risk_reviewed_def risk_evaluate_def Let_def risk_decision_valid_def del: ddiv_nonzero)
qed

lemma replay_intent:
  assumes "rc_structure c = replay_spread" and "rd_decision r = APPROVE" and "rd_structure_id r = rc_structure_id c"
  shows "\<exists>i. create_order_intent sha fresh now r c 1 None limit_at_calculated_net (Some t) = Inr i \<and> order_intent_valid sha i"
proof -
  have "os_quantity replay_spread = 1" by (simp add: replay_spread_def)
  moreover have "rmap (\<lambda>leg. validated intent_leg_valid ''IntentLeg'' (leg_of leg)) (os_legs replay_spread) =
      Inr (map leg_of (os_legs replay_spread))"
    by (simp add: replay_spread_def replay_option_leg_def leg_of_def intent_leg_valid_def)
  moreover have "list_all intent_leg_valid (map leg_of (os_legs replay_spread))"
    by (simp add: replay_spread_def replay_option_leg_def leg_of_def intent_leg_valid_def)
  ultimately show ?thesis using assms by (simp add: create_order_intent_def order_intent_valid_def Let_def)
qed

fun disposition_text :: "replay_scenario \<Rightarrow> string" where
  "disposition_text Replay_approved = ''ORDER_INTENT_CREATED''"
| "disposition_text Replay_no_trade = ''NO_TRADE''"
| "disposition_text Replay_risk_veto = ''RISK_REJECTED''"
| "disposition_text Replay_partial_fill = ''ORDER_PARTIALLY_FILLED''"
| "disposition_text Replay_submission_uncertain = ''SUBMISSION_UNCERTAIN''"
| "disposition_text Replay_guardian_recovery = ''RECOVERY_RECONCILED''"

text \<open>What a run says: its scenario and disposition, and an order intent that is valid exactly where one is due.\<close>

definition tells :: "(string \<Rightarrow> string) \<Rightarrow> replay_scenario \<Rightarrow> catalyst_replay \<Rightarrow> bool" where
  "tells sha scenario r \<longleftrightarrow> cy_scenario r = scenario \<and> cy_disposition r = disposition_text scenario \<and>
     (case cy_order_intent r of
       None \<Rightarrow> scenario \<in> {Replay_no_trade, Replay_risk_veto}
     | Some i \<Rightarrow> scenario \<notin> {Replay_no_trade, Replay_risk_veto} \<and> order_intent_valid sha i)"

lemma replay_run_tells:
  assumes "scenario \<in> {Replay_approved, Replay_no_trade, Replay_risk_veto}"
  shows "\<exists>r. replay_run sha inp scenario = Inr r \<and> tells sha scenario r"
proof (cases "scenario = Replay_no_trade")
  case True
  then show ?thesis
    using weak_outcome [of "ri_idea inp" "ri_now inp"] by (auto simp: replay_run_def replay_signal_eq tells_def)
next
  case False
  obtain made where made: "evaluate_signal default_catalyst_strategy (ri_idea inp) (ri_now inp) (scored_signal False) = Inr (Idea made)"
      "ti_direction made = BULLISH"
    using strong_outcome by blast
  let ?idea = "made\<lparr>ti_trade_idea_id := ''20000000-0000-0000-0000-000000000001''\<rparr>"
  obtain c where c: "rank_candidates (ri_structure inp) ?idea [replay_spread] = Inr [c]" "rc_structure c = replay_spread"
    using replay_ranked [of ?idea] made(2) by auto
  let ?c = "c\<lparr>rc_structure_id := ''30000000-0000-0000-0000-000000000001''\<rparr>"
  obtain r where r: "risk_reviewed inp (scenario \<noteq> Replay_risk_veto) ?c = Inr r"
      "rd_decision r = (if scenario \<noteq> Replay_risk_veto then APPROVE else REJECT)" "rd_structure_id r = rc_structure_id ?c"
    using replay_reviewed [of ?c] c(2) by fastforce
  show ?thesis
  proof (cases "scenario = Replay_risk_veto")
    case True
    then show ?thesis using made c r
      by (simp add: replay_run_def replay_signal_eq replay_structure_eq first_of_def tells_def)
  next
    case False
    with r have "rd_decision r = APPROVE" by simp
    then obtain i where "create_order_intent sha (ri_intent inp) (ri_now inp) r ?c 1 None limit_at_calculated_net
        (Some (replay_time + seconds 1)) = Inr i" "order_intent_valid sha i"
      using replay_intent [of ?c r] c(2) r(3) by fastforce
    with \<open>scenario \<noteq> Replay_no_trade\<close> False assms made c r show ?thesis
      by (simp add: replay_run_def replay_signal_eq replay_structure_eq first_of_def tells_def order_intent_valid_def)
  qed
qed

section \<open>The property\<close>

lemma rbind_assoc: "rbind (rbind m f) g = rbind m (\<lambda>x. rbind (f x) g)"
  by (cases m) simp_all

text \<open>The order intent with its fixed identifier.\<close>

definition issued :: "(string \<Rightarrow> string) \<Rightarrow> replay_inputs \<Rightarrow> risk_decision \<Rightarrow> ranked_candidate \<Rightarrow> order_intent result" where
  "issued sha inp risk candidate =
     rbind (create_order_intent sha (ri_intent inp) (ri_now inp) risk candidate 1 None limit_at_calculated_net
       (Some (replay_time + seconds 1))) (\<lambda>i. Inr (i\<lparr>oi_order_intent_id := ''50000000-0000-0000-0000-000000000001''\<rparr>))"

lemma issued_fresh: "issued sha inp risk c = issued sha inp' risk c"
  unfolding issued_def
  by (subst create_order_intent_fresh [where fresh' = "ri_intent inp'" and now' = "ri_now inp'"])
    (simp add: rbind_def split: sum.splits)

text \<open>The continuation of a run from the idea on, with the identifiers already replaced.\<close>

definition continued ::
  "(string \<Rightarrow> string) \<Rightarrow> replay_inputs \<Rightarrow> replay_scenario \<Rightarrow> signal \<Rightarrow> trade_idea \<Rightarrow> catalyst_replay result" where
  "continued sha inp scenario s idea =
     rbind replay_structure (\<lambda>structure.
     rbind (relabelled ''30000000-0000-0000-0000-000000000001'' (rank_candidates (ri_structure inp) idea [structure])) (\<lambda>candidate.
     rbind (risk_reviewed inp (scenario \<noteq> Replay_risk_veto) candidate) (\<lambda>risk.
     if rd_decision risk \<noteq> APPROVE
     then Inr \<lparr> cy_scenario = scenario, cy_disposition = ''RISK_REJECTED'', cy_signal = s, cy_trade_idea = Some idea,
       cy_candidate = Some candidate, cy_risk_decision = Some risk, cy_order_intent = None,
       cy_audit_timeline = timeline_of risk \<rparr>
     else rbind (issued sha inp risk candidate) (\<lambda>intent.
       Inr \<lparr> cy_scenario = scenario, cy_disposition = ''ORDER_INTENT_CREATED'', cy_signal = s,
         cy_trade_idea = Some idea, cy_candidate = Some candidate, cy_risk_decision = Some risk,
         cy_order_intent = Some intent, cy_audit_timeline = timeline_of risk @ [''ORDER_INTENT_CREATED''] \<rparr>))))"

lemma continued_fresh: "continued sha inp scenario s idea = continued sha inp' scenario s idea"
  unfolding continued_def
  by (simp only: rank_single_fresh [where fresh = "ri_structure inp" and fresh' = "ri_structure inp'"]
      risk_reviewed_fresh [of inp _ _ inp'] issued_fresh [of sha inp _ _ inp'])

lemma replay_run_continued:
  "replay_run sha inp scenario =
     rbind (replay_signal (scenario = Replay_no_trade)) (\<lambda>s.
     rbind (evaluate_signal default_catalyst_strategy (ri_idea inp) (ri_now inp) s) (\<lambda>outcome.
     case outcome of
       No_trade _ \<Rightarrow> Inr \<lparr> cy_scenario = scenario, cy_disposition = ''NO_TRADE'', cy_signal = s, cy_trade_idea = None,
         cy_candidate = None, cy_risk_decision = None, cy_order_intent = None,
         cy_audit_timeline = [''MARKET_EVENT_INGESTED'', ''SIGNAL_CREATED'', ''NO_TRADE_DECISION''] \<rparr>
     | Idea made \<Rightarrow> continued sha inp scenario s (made\<lparr>ti_trade_idea_id := ''20000000-0000-0000-0000-000000000001''\<rparr>)))"
  unfolding replay_run_def continued_def relabelled_def issued_def Let_def rbind_assoc rbind_Inr by (rule refl)

lemma replay_run_fresh: "replay_run sha inp scenario = replay_run sha inp' scenario"
proof -
  have "evaluate_signal default_catalyst_strategy (ri_idea inp) (ri_now inp) s =
     (case evaluate_signal default_catalyst_strategy (ri_idea inp') (ri_now inp') s of
       Inl e \<Rightarrow> Inl e
     | Inr (No_trade n) \<Rightarrow> Inr (No_trade (n\<lparr>nt_created_at := ri_now inp\<rparr>))
     | Inr (Idea i) \<Rightarrow> Inr (Idea (i\<lparr>ti_trade_idea_id := ri_idea inp\<rparr>)))" for s
    by (rule evaluate_signal_fresh)
  then show ?thesis
    unfolding replay_run_continued
    by (auto simp: rbind_def continued_fresh [of sha inp _ _ _ inp'] split: sum.splits signal_outcome.splits)
qed

text \<open>C40. Every demonstration scenario comes out, with its own disposition, and is the same at every call: it does not
  depend on the clock or on the identifiers drawn.  It carries an order intent that is valid for the real engine
  exactly when it is neither the scenario without a trade nor the one that risk vetoes.\<close>

theorem replays_are_reproducible:
  "run_catalyst_replay sha inp scenario = run_catalyst_replay sha inp' scenario \<and>
   (\<exists>r. run_catalyst_replay sha inp scenario = Inr r \<and> tells sha scenario r)"
proof (cases "continuation scenario")
  case None
  then have "scenario \<in> {Replay_approved, Replay_no_trade, Replay_risk_veto}" by (cases scenario) simp_all
  then show ?thesis
    using None replay_run_tells [of scenario sha inp] replay_run_fresh [of sha inp scenario inp']
    by (simp add: run_catalyst_replay_def)
next
  case (Some dc)
  obtain d more where dc: "dc = (d, more)" by (cases dc)
  obtain r where r: "replay_run sha inp Replay_approved = Inr r" "tells sha Replay_approved r"
    using replay_run_tells [of Replay_approved sha inp] by auto
  then have same: "replay_run sha inp' Replay_approved = Inr r" by (simp add: replay_run_fresh [of sha inp' _ inp])
  let ?r = "r\<lparr>cy_scenario := scenario, cy_disposition := d, cy_audit_timeline := cy_audit_timeline r @ more\<rparr>"
  have "d = disposition_text scenario" "scenario \<notin> {Replay_no_trade, Replay_risk_veto}"
    using Some dc by (cases scenario; auto)+
  with r(2) have "tells sha scenario ?r" by (simp add: tells_def split: option.splits)
  moreover have "run_catalyst_replay sha inp scenario = Inr ?r" "run_catalyst_replay sha inp' scenario = Inr ?r"
    using Some dc r(1) same by (simp_all add: run_catalyst_replay_def)
  ultimately show ?thesis by simp
qed

end
