(* ===== verification/Schema.thy ===== *)
theory Schema
  imports Prelude "HOL-Library.AList"
begin

text \<open>
  What the schema operations of the migrations mean (\<open>alembic.op\<close>, as used under
  \<open>migrations/versions\<close>), on a model of the PostgreSQL database that they change.

  A database is a list of named tables (columns, primary key, uniqueness constraints, foreign
  keys and indexes) and, for every table, its rows.  Each operation is a function from a
  database to a database or an exception of the driver: \<open>ProgrammingError\<close> for a relation or a
  column that exists already or does not exist, \<open>InternalError\<close> when another object depends on
  what is dropped, \<open>IntegrityError\<close> when existing rows do not meet a new constraint and
  \<open>DataError\<close> when a default does not fit its column.  Names of tables, indexes and named keys
  share one name space, as in PostgreSQL; names that PostgreSQL would make up itself never clash
  and are left out (\<open>None\<close>).
\<close>

section \<open>Types and values of columns\<close>

datatype sql_type =
    SqlUuid | SqlString nat | SqlText | SqlInteger | SqlBoolean | SqlNumeric nat nat
  | SqlTimestamptz | SqlBytes | SqlJsonb

text \<open>A \<open>NUMERIC(p, s)\<close> value is given by its unscaled integer.\<close>

datatype sql_value =
    VNull | VUuid uuid | VText string | VInt int | VBool bool | VNumeric int
  | VTime instant | VBytes "nat list" | VJson string

fun fits :: "sql_type \<Rightarrow> sql_value \<Rightarrow> bool" where
  "fits SqlUuid (VUuid _) = True"
| "fits (SqlString n) (VText s) = (length s \<le> n)"
| "fits SqlText (VText _) = True"
| "fits SqlInteger (VInt i) = (- (2 ^ 31) \<le> i \<and> i < 2 ^ 31)"
| "fits SqlBoolean (VBool _) = True"
| "fits (SqlNumeric p _) (VNumeric i) = (\<bar>i\<bar> < 10 ^ p)"
| "fits SqlTimestamptz (VTime _) = True"
| "fits SqlBytes (VBytes _) = True"
| "fits SqlJsonb (VJson _) = True"
| "fits _ _ = False"

record column =
  col_name :: string
  col_type :: sql_type
  col_nullable :: bool
  col_default :: "string option"

text \<open>\<open>sa.Column(name, type, nullable=...)\<close>.\<close>

definition sa_column :: "string \<Rightarrow> sql_type \<Rightarrow> bool \<Rightarrow> column" where
  "sa_column n ty nullable =
     \<lparr> col_name = n, col_type = ty, col_nullable = nullable, col_default = None \<rparr>"

text \<open>The value that a new column gives the existing rows: its server default, or NULL.\<close>

definition initial_value :: "column \<Rightarrow> sql_value" where
  "initial_value c = (case col_default c of None \<Rightarrow> VNull | Some s \<Rightarrow> VText s)"

section \<open>Tables\<close>

datatype ondelete = OnCascade | OnRestrict | OnSetNull

record foreign_key =
  fk_name :: "string option"
  fk_columns :: "string list"
  fk_table :: string
  fk_targets :: "string list"
  fk_ondelete :: ondelete

record index_def =
  ix_name :: string
  ix_columns :: "string list"
  ix_unique :: bool

record table_def =
  t_columns :: "column list"
  t_primary :: "(string option \<times> string list) option"
  t_uniques :: "(string option \<times> string list) list"
  t_fks :: "foreign_key list"
  t_indexes :: "index_def list"

text \<open>The arguments of \<open>op.create_table\<close>, in the order in which the code lists them.\<close>

datatype table_item =
    Col column
  | PrimaryKey "string option" "string list"
  | ForeignKey "string list" string "string list" ondelete
  | Unique "string option" "string list"

definition empty_table :: table_def where
  "empty_table = \<lparr> t_columns = [], t_primary = None, t_uniques = [], t_fks = [], t_indexes = [] \<rparr>"

fun add_item :: "table_item \<Rightarrow> table_def \<Rightarrow> table_def" where
  "add_item (Col c) t = t\<lparr> t_columns := t_columns t @ [c] \<rparr>"
| "add_item (PrimaryKey n cs) t = t\<lparr> t_primary := Some (n, cs) \<rparr>"
| "add_item (ForeignKey cs tn ds act) t = t\<lparr> t_fks := t_fks t @
     [\<lparr> fk_name = None, fk_columns = cs, fk_table = tn, fk_targets = ds, fk_ondelete = act \<rparr>] \<rparr>"
| "add_item (Unique n cs) t = t\<lparr> t_uniques := t_uniques t @ [(n, cs)] \<rparr>"

definition primary_columns :: "table_def \<Rightarrow> string list" where
  "primary_columns t = (case t_primary t of None \<Rightarrow> [] | Some k \<Rightarrow> snd k)"

text \<open>The columns of a primary key are NOT NULL whatever their declaration says.\<close>

definition close_primary :: "table_def \<Rightarrow> table_def" where
  "close_primary t = t\<lparr> t_columns := map (\<lambda>c. c\<lparr> col_nullable := col_nullable c \<and>
     col_name c \<notin> set (primary_columns t) \<rparr>) (t_columns t) \<rparr>"

definition build_table :: "table_item list \<Rightarrow> table_def" where
  "build_table items = close_primary (fold add_item items empty_table)"

definition column_names :: "table_def \<Rightarrow> string list" where
  "column_names t = map col_name (t_columns t)"

text \<open>The primary key and the uniqueness constraints, with their names.\<close>

definition constraint_keys :: "table_def \<Rightarrow> (string option \<times> string list) list" where
  "constraint_keys t = (case t_primary t of None \<Rightarrow> [] | Some k \<Rightarrow> [k]) @ t_uniques t"

text \<open>The column lists on which no two rows may agree.\<close>

definition keys :: "table_def \<Rightarrow> string list list" where
  "keys t = map snd (constraint_keys t) @ map ix_columns (filter ix_unique (t_indexes t))"

definition names_in :: "table_def \<Rightarrow> string list" where
  "names_in t = List.map_filter fst (constraint_keys t) @ map ix_name (t_indexes t)"

type_synonym schema = "(string \<times> table_def) list"

definition relation_names :: "schema \<Rightarrow> string list" where
  "relation_names ts = concat (map (\<lambda>(n, t). n # names_in t) ts)"

section \<open>Operations on the schema\<close>

datatype ddl =
    CreateTable string "table_item list"
  | DropTable string
  | CreateIndex string string "string list"
  | DropIndex string string
  | AddColumn string column
  | DropColumn string string
  | CreateForeignKey string string string "string list" "string list" ondelete
  | DropForeignKey string string

text \<open>What a table must be in itself: distinct columns, and keys, foreign keys and indexes over
  its own columns.\<close>

definition table_ok :: "table_def \<Rightarrow> bool" where
  "table_ok t \<longleftrightarrow>
     distinct (column_names t) \<and>
     (\<forall>k \<in> set (keys t). set k \<subseteq> set (column_names t)) \<and>
     (\<forall>f \<in> set (t_fks t). set (fk_columns f) \<subseteq> set (column_names t)) \<and>
     (\<forall>i \<in> set (t_indexes t). set (ix_columns i) \<subseteq> set (column_names t)) \<and>
     (\<forall>c \<in> set (t_columns t). col_name c \<in> set (primary_columns t) \<longrightarrow> \<not> col_nullable c)"

text \<open>A foreign key refers to a key of an existing table.\<close>

definition fk_ok :: "schema \<Rightarrow> foreign_key \<Rightarrow> bool" where
  "fk_ok ts f \<longleftrightarrow> (case map_of ts (fk_table f) of
       None \<Rightarrow> False
     | Some t \<Rightarrow> fk_targets f \<in> set (keys t) \<and> length (fk_columns f) = length (fk_targets f))"

text \<open>Some foreign key of these tables refers to the columns of a table for which \<open>P\<close> holds.\<close>

definition referenced :: "schema \<Rightarrow> string \<Rightarrow> (string list \<Rightarrow> bool) \<Rightarrow> bool" where
  "referenced ts n P \<longleftrightarrow> (\<exists>(m, t) \<in> set ts. \<exists>f \<in> set (t_fks t). fk_table f = n \<and> P (fk_targets f))"

definition with_table :: "schema \<Rightarrow> string \<Rightarrow> (table_def \<Rightarrow> schema result) \<Rightarrow> schema result" where
  "with_table ts n f = (case map_of ts n of
       None \<Rightarrow> Inl (External ''ProgrammingError'') | Some t \<Rightarrow> f t)"

definition without_column :: "string \<Rightarrow> table_def \<Rightarrow> table_def" where
  "without_column c t = t\<lparr>
     t_columns := filter (\<lambda>d. col_name d \<noteq> c) (t_columns t),
     t_primary := (case t_primary t of None \<Rightarrow> None
                   | Some k \<Rightarrow> if c \<in> set (snd k) then None else Some k),
     t_uniques := filter (\<lambda>k. c \<notin> set (snd k)) (t_uniques t),
     t_fks := filter (\<lambda>f. c \<notin> set (fk_columns f)) (t_fks t),
     t_indexes := filter (\<lambda>i. c \<notin> set (ix_columns i)) (t_indexes t) \<rparr>"

fun schema_step :: "ddl \<Rightarrow> schema \<Rightarrow> schema result" where
  "schema_step (CreateTable n items) ts =
     (let t = build_table items in
      if set (n # names_in t) \<inter> set (relation_names ts) \<noteq> {} \<or> \<not> distinct (n # names_in t)
         \<or> \<not> table_ok t \<or> \<not> (\<forall>f \<in> set (t_fks t). fk_ok (ts @ [(n, t)]) f)
      then Inl (External ''ProgrammingError'')
      else Inr (ts @ [(n, t)]))"
| "schema_step (DropTable n) ts = with_table ts n (\<lambda>_.
     if referenced (AList.delete n ts) n (\<lambda>_. True) then Inl (External ''InternalError'')
     else Inr (AList.delete n ts))"
| "schema_step (CreateIndex i n cs) ts = with_table ts n (\<lambda>t.
     if i \<in> set (relation_names ts) \<or> \<not> set cs \<subseteq> set (column_names t)
     then Inl (External ''ProgrammingError'')
     else Inr (AList.update n (t\<lparr> t_indexes := t_indexes t @
            [\<lparr> ix_name = i, ix_columns = cs, ix_unique = False \<rparr>] \<rparr>) ts))"
| "schema_step (DropIndex i n) ts = with_table ts n (\<lambda>t.
     case List.find (\<lambda>x. ix_name x = i) (t_indexes t) of
       None \<Rightarrow> Inl (External ''ProgrammingError'')
     | Some x \<Rightarrow>
         if ix_unique x \<and> referenced ts n (\<lambda>k. k = ix_columns x)
         then Inl (External ''InternalError'')
         else Inr (AList.update n
                (t\<lparr> t_indexes := filter (\<lambda>x. ix_name x \<noteq> i) (t_indexes t) \<rparr>) ts))"
| "schema_step (AddColumn n c) ts = with_table ts n (\<lambda>t.
     if col_name c \<in> set (column_names t) then Inl (External ''ProgrammingError'')
     else if col_default c \<noteq> None \<and> \<not> fits (col_type c) (initial_value c)
     then Inl (External ''DataError'')
     else Inr (AList.update n (t\<lparr> t_columns := t_columns t @ [c] \<rparr>) ts))"
| "schema_step (DropColumn n c) ts = with_table ts n (\<lambda>t.
     if c \<notin> set (column_names t) then Inl (External ''ProgrammingError'')
     else if referenced ts n (\<lambda>k. c \<in> set k) then Inl (External ''InternalError'')
     else Inr (AList.update n (without_column c t) ts))"
| "schema_step (CreateForeignKey f n m cs ds act) ts = with_table ts n (\<lambda>t.
     let fk = \<lparr> fk_name = Some f, fk_columns = cs, fk_table = m, fk_targets = ds,
                fk_ondelete = act \<rparr> in
     if \<not> set cs \<subseteq> set (column_names t) \<or> \<not> fk_ok ts fk
        \<or> (\<exists>g \<in> set (t_fks t). fk_name g = Some f)
     then Inl (External ''ProgrammingError'')
     else Inr (AList.update n (t\<lparr> t_fks := t_fks t @ [fk] \<rparr>) ts))"
| "schema_step (DropForeignKey f n) ts = with_table ts n (\<lambda>t.
     if \<exists>g \<in> set (t_fks t). fk_name g = Some f
     then Inr (AList.update n
            (t\<lparr> t_fks := filter (\<lambda>g. fk_name g \<noteq> Some f) (t_fks t) \<rparr>) ts)
     else Inl (External ''ProgrammingError''))"

fun schema_run :: "ddl list \<Rightarrow> schema \<Rightarrow> schema result" where
  "schema_run [] ts = Inr ts"
| "schema_run (d # ds) ts = rbind (schema_step d ts) (schema_run ds)"

section \<open>Operations on the rows\<close>

type_synonym db_row = "string \<rightharpoonup> sql_value"

record database =
  db_tables :: schema
  db_rows :: "string \<Rightarrow> db_row list"

text \<open>All these columns hold a value: only then do keys and foreign keys apply to a row.\<close>

definition all_present :: "string list \<Rightarrow> db_row \<Rightarrow> bool" where
  "all_present cs r \<longleftrightarrow> (\<forall>c \<in> set cs. r c \<noteq> None \<and> r c \<noteq> Some VNull)"

definition fk_holds :: "(string \<Rightarrow> db_row list) \<Rightarrow> foreign_key \<Rightarrow> db_row \<Rightarrow> bool" where
  "fk_holds rows f r \<longleftrightarrow> (all_present (fk_columns f) r \<longrightarrow>
     (\<exists>q \<in> set (rows (fk_table f)). map q (fk_targets f) = map r (fk_columns f)))"

text \<open>The checks that read rows: a column without a value for them, a foreign key that they do
  not meet.\<close>

fun row_check :: "ddl \<Rightarrow> (string \<Rightarrow> db_row list) \<Rightarrow> unit result" where
  "row_check (AddColumn n c) rows =
     require (col_nullable c \<or> col_default c \<noteq> None \<or> rows n = []) (External ''IntegrityError'')"
| "row_check (CreateForeignKey f n m cs ds act) rows =
     require (\<forall>r \<in> set (rows n). fk_holds rows \<lparr> fk_name = Some f, fk_columns = cs, fk_table = m,
       fk_targets = ds, fk_ondelete = act \<rparr> r) (External ''IntegrityError'')"
| "row_check _ rows = Inr ()"

fun row_step :: "ddl \<Rightarrow> (string \<Rightarrow> db_row list) \<Rightarrow> string \<Rightarrow> db_row list" where
  "row_step (CreateTable n _) rows = rows(n := [])"
| "row_step (DropTable n) rows = rows(n := [])"
| "row_step (AddColumn n c) rows = rows(n := map (\<lambda>r. r(col_name c \<mapsto> initial_value c)) (rows n))"
| "row_step (DropColumn n c) rows = rows(n := map (\<lambda>r. r(c := None)) (rows n))"
| "row_step _ rows = rows"

definition ddl_step :: "ddl \<Rightarrow> database \<Rightarrow> database result" where
  "ddl_step d db = rbind (schema_step d (db_tables db)) (\<lambda>ts.
     rbind (row_check d (db_rows db)) (\<lambda>_.
     Inr \<lparr> db_tables = ts, db_rows = row_step d (db_rows db) \<rparr>))"

fun ddl_run :: "ddl list \<Rightarrow> database \<Rightarrow> database result" where
  "ddl_run [] db = Inr db"
| "ddl_run (d # ds) db = rbind (ddl_step d db) (ddl_run ds)"

section \<open>Well-formed databases\<close>

definition schema_ok :: "schema \<Rightarrow> bool" where
  "schema_ok ts \<longleftrightarrow> distinct (relation_names ts) \<and>
     (\<forall>(n, t) \<in> set ts. table_ok t \<and> (\<forall>f \<in> set (t_fks t). fk_ok ts f))"

definition cell_ok :: "column \<Rightarrow> db_row \<Rightarrow> bool" where
  "cell_ok c r \<longleftrightarrow> (case r (col_name c) of None \<Rightarrow> False
     | Some v \<Rightarrow> if v = VNull then col_nullable c else fits (col_type c) v)"

definition row_ok :: "table_def \<Rightarrow> db_row \<Rightarrow> bool" where
  "row_ok t r \<longleftrightarrow> dom r = set (column_names t) \<and> (\<forall>c \<in> set (t_columns t). cell_ok c r)"

definition key_ok :: "db_row list \<Rightarrow> string list \<Rightarrow> bool" where
  "key_ok rs k \<longleftrightarrow> distinct (map (\<lambda>r. map r k) (filter (all_present k) rs))"

definition rows_ok :: "schema \<Rightarrow> (string \<Rightarrow> db_row list) \<Rightarrow> bool" where
  "rows_ok ts rows \<longleftrightarrow> (\<forall>n. case map_of ts n of
       None \<Rightarrow> rows n = []
     | Some t \<Rightarrow> (\<forall>r \<in> set (rows n). row_ok t r \<and> (\<forall>f \<in> set (t_fks t). fk_holds rows f r))
               \<and> (\<forall>k \<in> set (keys t). key_ok (rows n) k))"

definition database_ok :: "database \<Rightarrow> bool" where
  "database_ok db \<longleftrightarrow> schema_ok (db_tables db) \<and> rows_ok (db_tables db) (db_rows db)"

end
