(* ===== verification/Migrations.thy ===== *)
theory Migrations
  imports Schema
begin

text \<open>
  The migrations of \<open>migrations/versions\<close>, in the order of their revision links, and the
  runner of \<open>migrations/env.py\<close>.  Each \<open>upgrade()\<close> and \<open>downgrade()\<close> is the list of the
  operations it performs; a loop over column names is a list over these names.  \<open>downgrade()\<close>
  of revision 0007 performs none and raises.

  \<open>run_migrations_online\<close> runs one command of Alembic (\<open>upgrade head\<close>, as the API's container
  does when it starts, or a downgrade to a revision) inside one transaction: the revisions follow
  each other along their \<open>down_revision\<close> links, and an exception leaves the database as it was.

  The database engine is a parameter, \<open>exec\<close>: it performs one schema operation on its own states.
  What the migrations rely on is the hypothesis \<open>follows exec view\<close>: on the visible part of the
  database, the engine does what the theory Schema says, the documented meaning of the operation.
\<close>

definition not_null :: "string \<Rightarrow> sql_type \<Rightarrow> table_item" where
  "not_null n ty = Col (sa_column n ty False)"

definition nullable :: "string \<Rightarrow> sql_type \<Rightarrow> table_item" where
  "nullable n ty = Col (sa_column n ty True)"

text \<open>\<open>for column in cs: op.create_index(f"ix_{t}_{column}", t, [column])\<close>.\<close>

definition index_columns :: "string \<Rightarrow> string list \<Rightarrow> ddl list" where
  "index_columns t cs = map (\<lambda>c. CreateIndex (''ix_'' @ t @ ''_'' @ c) t [c]) cs"

section \<open>0001: Create immutable domain event store and transactional outbox\<close>

definition create_domain_events :: "ddl list" where
  "create_domain_events =
    [CreateTable ''domain_events'' [
       not_null ''event_id'' SqlUuid,
       not_null ''event_type'' (SqlString 120),
       not_null ''aggregate_type'' (SqlString 80),
       not_null ''aggregate_id'' SqlUuid,
       not_null ''occurred_at'' SqlTimestamptz,
       not_null ''available_at'' SqlTimestamptz,
       not_null ''source'' (SqlString 80),
       not_null ''schema_version'' SqlInteger,
       not_null ''correlation_id'' SqlUuid,
       nullable ''causation_id'' SqlUuid,
       not_null ''payload'' SqlJsonb,
       PrimaryKey None [''event_id'']],
     CreateIndex ''ix_domain_events_aggregate_id'' ''domain_events'' [''aggregate_id''],
     CreateIndex ''ix_domain_events_aggregate_type'' ''domain_events'' [''aggregate_type''],
     CreateIndex ''ix_domain_events_available_at'' ''domain_events'' [''available_at''],
     CreateIndex ''ix_domain_events_correlation_id'' ''domain_events'' [''correlation_id''],
     CreateIndex ''ix_domain_events_event_type'' ''domain_events'' [''event_type''],
     CreateIndex ''ix_domain_events_occurred_at'' ''domain_events'' [''occurred_at'']]"

definition create_outbox_events :: "ddl list" where
  "create_outbox_events =
    [CreateTable ''outbox_events'' [
       not_null ''outbox_id'' SqlUuid,
       not_null ''event_id'' SqlUuid,
       not_null ''subject'' (SqlString 160),
       not_null ''payload'' SqlJsonb,
       not_null ''created_at'' SqlTimestamptz,
       nullable ''published_at'' SqlTimestamptz,
       not_null ''attempts'' SqlInteger,
       ForeignKey [''event_id''] ''domain_events'' [''event_id''] OnCascade,
       PrimaryKey None [''outbox_id''],
       Unique (Some ''uq_outbox_event_id'') [''event_id'']],
     CreateIndex ''ix_outbox_events_created_at'' ''outbox_events'' [''created_at''],
     CreateIndex ''ix_outbox_events_published_at'' ''outbox_events'' [''published_at'']]"

definition upgrade_0001 :: "ddl list" where
  "upgrade_0001 = create_domain_events @
     create_outbox_events"

definition downgrade_0001 :: "ddl list" where
  "downgrade_0001 =
    [DropIndex ''ix_outbox_events_published_at'' ''outbox_events'',
     DropIndex ''ix_outbox_events_created_at'' ''outbox_events'',
     DropTable ''outbox_events'',
     DropIndex ''ix_domain_events_occurred_at'' ''domain_events'',
     DropIndex ''ix_domain_events_event_type'' ''domain_events'',
     DropIndex ''ix_domain_events_correlation_id'' ''domain_events'',
     DropIndex ''ix_domain_events_available_at'' ''domain_events'',
     DropIndex ''ix_domain_events_aggregate_type'' ''domain_events'',
     DropIndex ''ix_domain_events_aggregate_id'' ''domain_events'',
     DropTable ''domain_events'']"

section \<open>0002: Add disposable Alpaca broker-state projections\<close>

definition create_global_broker_sync_state :: "ddl list" where
  "create_global_broker_sync_state =
    [CreateTable ''broker_sync_state'' [
       not_null ''singleton_id'' SqlInteger,
       not_null ''state'' (SqlString 32),
       nullable ''last_reconciled_at'' SqlTimestamptz,
       nullable ''last_stream_event_at'' SqlTimestamptz,
       not_null ''stream_connected'' SqlBoolean,
       not_null ''generation'' SqlInteger,
       not_null ''divergence_count'' SqlInteger,
       nullable ''failure_reason'' SqlText,
       PrimaryKey None [''singleton_id'']],
     CreateIndex ''ix_broker_sync_state_state'' ''broker_sync_state'' [''state'']]"

definition create_global_broker_accounts :: "ddl list" where
  "create_global_broker_accounts =
    [CreateTable ''broker_accounts'' [
       not_null ''account_id'' (SqlString 64),
       not_null ''account_number'' (SqlString 64),
       not_null ''status'' (SqlString 32),
       not_null ''currency'' (SqlString 8),
       not_null ''equity'' (SqlNumeric 24 8),
       not_null ''cash'' (SqlNumeric 24 8),
       not_null ''buying_power'' (SqlNumeric 24 8),
       nullable ''options_buying_power'' (SqlNumeric 24 8),
       not_null ''last_equity'' (SqlNumeric 24 8),
       not_null ''trading_blocked'' SqlBoolean,
       not_null ''account_blocked'' SqlBoolean,
       not_null ''trade_suspended_by_user'' SqlBoolean,
       not_null ''as_of'' SqlTimestamptz,
       PrimaryKey None [''account_id''],
       Unique None [''account_number'']],
     CreateIndex ''ix_broker_accounts_as_of'' ''broker_accounts'' [''as_of'']]"

definition create_global_broker_positions :: "ddl list" where
  "create_global_broker_positions =
    [CreateTable ''broker_positions'' [
       not_null ''asset_id'' (SqlString 64),
       not_null ''symbol'' (SqlString 48),
       not_null ''asset_class'' (SqlString 32),
       not_null ''side'' (SqlString 16),
       not_null ''quantity'' (SqlNumeric 24 8),
       nullable ''quantity_available'' (SqlNumeric 24 8),
       not_null ''average_entry_price'' (SqlNumeric 24 8),
       nullable ''market_value'' (SqlNumeric 24 8),
       not_null ''cost_basis'' (SqlNumeric 24 8),
       not_null ''unrealized_pl'' (SqlNumeric 24 8),
       nullable ''current_price'' (SqlNumeric 24 8),
       not_null ''as_of'' SqlTimestamptz,
       PrimaryKey None [''asset_id'']],
     CreateIndex ''ix_broker_positions_symbol'' ''broker_positions'' [''symbol''],
     CreateIndex ''ix_broker_positions_asset_class'' ''broker_positions'' [''asset_class''],
     CreateIndex ''ix_broker_positions_as_of'' ''broker_positions'' [''as_of'']]"

definition create_global_broker_orders :: "ddl list" where
  "create_global_broker_orders =
    [CreateTable ''broker_orders'' [
       not_null ''broker_order_id'' (SqlString 64),
       not_null ''client_order_id'' (SqlString 64),
       not_null ''status'' (SqlString 32),
       not_null ''asset_class'' (SqlString 32),
       nullable ''symbol'' (SqlString 48),
       nullable ''side'' (SqlString 16),
       not_null ''order_type'' (SqlString 32),
       not_null ''order_class'' (SqlString 32),
       not_null ''time_in_force'' (SqlString 16),
       nullable ''quantity'' (SqlNumeric 24 8),
       not_null ''filled_quantity'' (SqlNumeric 24 8),
       nullable ''filled_average_price'' (SqlNumeric 24 8),
       nullable ''limit_price'' (SqlNumeric 24 8),
       nullable ''submitted_at'' SqlTimestamptz,
       not_null ''created_at'' SqlTimestamptz,
       nullable ''updated_at'' SqlTimestamptz,
       not_null ''legs'' SqlJsonb,
       PrimaryKey None [''broker_order_id''],
       Unique None [''client_order_id'']],
     CreateIndex ''ix_broker_orders_client_order_id'' ''broker_orders'' [''client_order_id''],
     CreateIndex ''ix_broker_orders_status'' ''broker_orders'' [''status''],
     CreateIndex ''ix_broker_orders_symbol'' ''broker_orders'' [''symbol''],
     CreateIndex ''ix_broker_orders_created_at'' ''broker_orders'' [''created_at''],
     CreateIndex ''ix_broker_orders_updated_at'' ''broker_orders'' [''updated_at'']]"

definition upgrade_0002 :: "ddl list" where
  "upgrade_0002 = create_global_broker_sync_state @
     create_global_broker_accounts @
     create_global_broker_positions @
     create_global_broker_orders"

definition downgrade_0002 :: "ddl list" where
  "downgrade_0002 =
    [DropTable ''broker_orders'',
     DropTable ''broker_positions'',
     DropTable ''broker_accounts'',
     DropTable ''broker_sync_state'']"

section \<open>0003: Add immutable order intents and atomic idempotency state\<close>

definition create_global_order_intents :: "ddl list" where
  "create_global_order_intents =
    [CreateTable ''order_intents'' [
       not_null ''order_intent_id'' SqlUuid,
       not_null ''client_order_id'' (SqlString 64),
       not_null ''risk_decision_id'' SqlUuid,
       not_null ''state'' (SqlString 32),
       not_null ''payload'' SqlJsonb,
       not_null ''created_at'' SqlTimestamptz,
       not_null ''updated_at'' SqlTimestamptz,
       PrimaryKey None [''order_intent_id''],
       Unique None [''client_order_id'']],
     CreateIndex ''ix_order_intents_client_order_id'' ''order_intents'' [''client_order_id''],
     CreateIndex ''ix_order_intents_risk_decision_id'' ''order_intents'' [''risk_decision_id''],
     CreateIndex ''ix_order_intents_state'' ''order_intents'' [''state''],
     CreateIndex ''ix_order_intents_created_at'' ''order_intents'' [''created_at''],
     CreateIndex ''ix_order_intents_updated_at'' ''order_intents'' [''updated_at'']]"

definition upgrade_0003 :: "ddl list" where
  "upgrade_0003 = create_global_order_intents"

definition downgrade_0003 :: "ddl list" where
  "downgrade_0003 =
    [DropTable ''order_intents'']"

section \<open>0004: Add versioned AI workflow audit storage\<close>

definition create_ai_workflow_runs :: "ddl list" where
  "create_ai_workflow_runs =
    [CreateTable ''ai_workflow_runs'' [
       not_null ''run_id'' SqlUuid,
       not_null ''correlation_id'' SqlUuid,
       not_null ''provider'' (SqlString 32),
       not_null ''model'' (SqlString 80),
       not_null ''prompt_versions'' SqlJsonb,
       not_null ''schema_version'' SqlInteger,
       not_null ''input_payload'' SqlJsonb,
       not_null ''output_payload'' SqlJsonb,
       not_null ''degraded'' SqlBoolean,
       nullable ''failure_reason'' (SqlString 120),
       not_null ''created_at'' SqlTimestamptz,
       PrimaryKey None [''run_id'']],
     CreateIndex ''ix_ai_workflow_runs_correlation_id'' ''ai_workflow_runs'' [''correlation_id''],
     CreateIndex ''ix_ai_workflow_runs_degraded'' ''ai_workflow_runs'' [''degraded''],
     CreateIndex ''ix_ai_workflow_runs_created_at'' ''ai_workflow_runs'' [''created_at'']]"

definition upgrade_0004 :: "ddl list" where
  "upgrade_0004 = create_ai_workflow_runs"

definition downgrade_0004 :: "ddl list" where
  "downgrade_0004 =
    [DropTable ''ai_workflow_runs'']"

section \<open>0005: Add immutable Guardian incidents\<close>

definition create_global_guardian_incidents :: "ddl list" where
  "create_global_guardian_incidents =
    [CreateTable ''guardian_incidents'' [
       not_null ''incident_id'' SqlUuid,
       not_null ''state'' (SqlString 32),
       not_null ''triggers'' SqlJsonb,
       not_null ''reason'' SqlText,
       not_null ''activated_at'' SqlTimestamptz,
       nullable ''cleared_at'' SqlTimestamptz,
       PrimaryKey None [''incident_id'']],
     CreateIndex ''ix_guardian_incidents_state'' ''guardian_incidents'' [''state''],
     CreateIndex ''ix_guardian_incidents_activated_at'' ''guardian_incidents'' [''activated_at''],
     CreateIndex ''ix_guardian_incidents_cleared_at'' ''guardian_incidents'' [''cleared_at'']]"

definition upgrade_0005 :: "ddl list" where
  "upgrade_0005 = create_global_guardian_incidents"

definition downgrade_0005 :: "ddl list" where
  "downgrade_0005 =
    [DropTable ''guardian_incidents'']"

section \<open>0006: Add bitemporal research observations and Strategy Passports\<close>

definition create_research_observations :: "ddl list" where
  "create_research_observations =
    [CreateTable ''research_observations'' [
       not_null ''observation_id'' SqlUuid,
       not_null ''series'' (SqlString 80),
       not_null ''symbol'' (SqlString 32),
       not_null ''observed_at'' SqlTimestamptz,
       not_null ''available_at'' SqlTimestamptz,
       not_null ''payload'' SqlJsonb,
       not_null ''source_version'' (SqlString 80),
       PrimaryKey None [''observation_id'']]]
    @ index_columns ''research_observations'' [''series'', ''symbol'', ''observed_at'',
      ''available_at'']"

definition create_strategy_passports :: "ddl list" where
  "create_strategy_passports =
    [CreateTable ''strategy_passports'' [
       not_null ''passport_id'' SqlUuid,
       not_null ''name'' (SqlString 120),
       not_null ''version'' (SqlString 40),
       not_null ''payload'' SqlJsonb,
       not_null ''data_fingerprint'' (SqlString 64),
       not_null ''created_at'' SqlTimestamptz,
       PrimaryKey None [''passport_id''],
       Unique (Some ''uq_strategy_passport_version'') [''name'', ''version'']],
     CreateIndex ''ix_strategy_passports_name'' ''strategy_passports'' [''name''],
     CreateIndex ''ix_strategy_passports_data_fingerprint'' ''strategy_passports''
       [''data_fingerprint''],
     CreateIndex ''ix_strategy_passports_created_at'' ''strategy_passports'' [''created_at'']]"

definition upgrade_0006 :: "ddl list" where
  "upgrade_0006 = create_research_observations @
     create_strategy_passports"

definition downgrade_0006 :: "ddl list" where
  "downgrade_0006 =
    [DropTable ''strategy_passports'',
     DropTable ''research_observations'']"

section \<open>0007: Add isolated demo sessions and connected paper workspaces\<close>

definition create_app_users :: "ddl list" where
  "create_app_users =
    [CreateTable ''app_users'' [
       not_null ''user_id'' SqlUuid,
       not_null ''auth_subject'' (SqlString 128),
       not_null ''email'' (SqlString 320),
       not_null ''is_admin'' SqlBoolean,
       not_null ''created_at'' SqlTimestamptz,
       not_null ''last_seen_at'' SqlTimestamptz,
       PrimaryKey None [''user_id''],
       Unique None [''auth_subject''],
       Unique None [''email'']]]
    @ index_columns ''app_users'' [''auth_subject'', ''email'', ''is_admin'', ''created_at'',
      ''last_seen_at'']"

definition create_workspaces :: "ddl list" where
  "create_workspaces =
    [CreateTable ''workspaces'' [
       not_null ''workspace_id'' SqlUuid,
       not_null ''owner_user_id'' SqlUuid,
       not_null ''name'' (SqlString 120),
       not_null ''workspace_type'' (SqlString 32),
       not_null ''status'' (SqlString 32),
       not_null ''scanner_enabled'' SqlBoolean,
       not_null ''created_at'' SqlTimestamptz,
       not_null ''updated_at'' SqlTimestamptz,
       ForeignKey [''owner_user_id''] ''app_users'' [''user_id''] OnCascade,
       PrimaryKey None [''workspace_id''],
       Unique None [''owner_user_id'']],
     CreateIndex ''ix_workspaces_owner_user_id'' ''workspaces'' [''owner_user_id''],
     CreateIndex ''ix_workspaces_status'' ''workspaces'' [''status''],
     CreateIndex ''ix_workspaces_created_at'' ''workspaces'' [''created_at''],
     CreateIndex ''ix_workspaces_updated_at'' ''workspaces'' [''updated_at'']]"

definition create_invitations :: "ddl list" where
  "create_invitations =
    [CreateTable ''invitations'' [
       not_null ''invitation_id'' SqlUuid,
       not_null ''token_hash'' (SqlString 64),
       not_null ''comment'' (SqlString 240),
       not_null ''max_uses'' SqlInteger,
       not_null ''use_count'' SqlInteger,
       nullable ''expires_at'' SqlTimestamptz,
       nullable ''disabled_at'' SqlTimestamptz,
       not_null ''created_by_user_id'' SqlUuid,
       not_null ''created_at'' SqlTimestamptz,
       ForeignKey [''created_by_user_id''] ''app_users'' [''user_id''] OnRestrict,
       PrimaryKey None [''invitation_id''],
       Unique None [''token_hash'']]]
    @ index_columns ''invitations'' [''token_hash'', ''expires_at'', ''disabled_at'',
      ''created_at'']"

definition create_invitation_redemptions :: "ddl list" where
  "create_invitation_redemptions =
    [CreateTable ''invitation_redemptions'' [
       not_null ''redemption_id'' SqlUuid,
       not_null ''invitation_id'' SqlUuid,
       not_null ''user_id'' SqlUuid,
       not_null ''redeemed_at'' SqlTimestamptz,
       ForeignKey [''invitation_id''] ''invitations'' [''invitation_id''] OnCascade,
       ForeignKey [''user_id''] ''app_users'' [''user_id''] OnCascade,
       PrimaryKey None [''redemption_id''],
       Unique (Some ''uq_invitation_redemption_user'') [''invitation_id'', ''user_id'']],
     CreateIndex ''ix_invitation_redemptions_redeemed_at'' ''invitation_redemptions''
       [''redeemed_at'']]"

definition create_workspace_credentials :: "ddl list" where
  "create_workspace_credentials =
    [CreateTable ''workspace_credentials'' [
       not_null ''credential_id'' SqlUuid,
       not_null ''workspace_id'' SqlUuid,
       not_null ''provider'' (SqlString 32),
       not_null ''key_version'' (SqlString 32),
       not_null ''nonce'' SqlBytes,
       not_null ''ciphertext'' SqlBytes,
       not_null ''fingerprint'' (SqlString 16),
       not_null ''configuration'' SqlJsonb,
       not_null ''validation_status'' (SqlString 32),
       not_null ''enabled'' SqlBoolean,
       nullable ''validated_at'' SqlTimestamptz,
       not_null ''created_at'' SqlTimestamptz,
       not_null ''updated_at'' SqlTimestamptz,
       ForeignKey [''workspace_id''] ''workspaces'' [''workspace_id''] OnCascade,
       PrimaryKey None [''credential_id''],
       Unique (Some ''uq_workspace_credential_provider'') [''workspace_id'', ''provider'']]]
    @ index_columns ''workspace_credentials'' [''workspace_id'', ''provider'',
      ''validation_status'', ''enabled'', ''updated_at'']"

definition create_demo_sessions :: "ddl list" where
  "create_demo_sessions =
    [CreateTable ''demo_sessions'' [
       not_null ''demo_session_id'' SqlUuid,
       not_null ''expires_at'' SqlTimestamptz,
       not_null ''guardian_halted'' SqlBoolean,
       nullable ''guardian_reason'' SqlText,
       not_null ''created_at'' SqlTimestamptz,
       not_null ''updated_at'' SqlTimestamptz,
       PrimaryKey None [''demo_session_id'']]]
    @ index_columns ''demo_sessions'' [''expires_at'', ''created_at'', ''updated_at'']"

definition create_watchlist_symbols :: "ddl list" where
  "create_watchlist_symbols =
    [CreateTable ''watchlist_symbols'' [
       not_null ''workspace_id'' SqlUuid,
       not_null ''symbol'' (SqlString 16),
       not_null ''created_at'' SqlTimestamptz,
       ForeignKey [''workspace_id''] ''workspaces'' [''workspace_id''] OnCascade,
       PrimaryKey (Some ''pk_watchlist_symbols'') [''workspace_id'', ''symbol'']]]"

definition create_connected_opportunities :: "ddl list" where
  "create_connected_opportunities =
    [CreateTable ''connected_opportunities'' [
       not_null ''opportunity_id'' SqlUuid,
       not_null ''workspace_id'' SqlUuid,
       not_null ''symbol'' (SqlString 16),
       not_null ''state'' (SqlString 32),
       not_null ''source'' (SqlString 32),
       not_null ''payload'' SqlJsonb,
       not_null ''observed_at'' SqlTimestamptz,
       not_null ''expires_at'' SqlTimestamptz,
       not_null ''created_at'' SqlTimestamptz,
       ForeignKey [''workspace_id''] ''workspaces'' [''workspace_id''] OnCascade,
       PrimaryKey None [''opportunity_id'']]]
    @ index_columns ''connected_opportunities'' [''workspace_id'', ''symbol'', ''state'',
      ''observed_at'', ''expires_at'', ''created_at'']"

definition create_audit_records :: "ddl list" where
  "create_audit_records =
    [CreateTable ''audit_records'' [
       not_null ''audit_id'' SqlUuid,
       nullable ''workspace_id'' SqlUuid,
       nullable ''actor_user_id'' SqlUuid,
       not_null ''action'' (SqlString 120),
       not_null ''detail'' SqlJsonb,
       not_null ''occurred_at'' SqlTimestamptz,
       ForeignKey [''workspace_id''] ''workspaces'' [''workspace_id''] OnCascade,
       ForeignKey [''actor_user_id''] ''app_users'' [''user_id''] OnSetNull,
       PrimaryKey None [''audit_id'']]]
    @ index_columns ''audit_records'' [''workspace_id'', ''actor_user_id'', ''action'',
      ''occurred_at'']"

definition discard_global :: "ddl list" where
  "discard_global =
    map DropTable [''broker_orders'', ''broker_positions'', ''broker_accounts'',
      ''broker_sync_state'', ''order_intents'', ''guardian_incidents'']"

definition create_broker_sync_state :: "ddl list" where
  "create_broker_sync_state =
    [CreateTable ''broker_sync_state'' [
       not_null ''workspace_id'' SqlUuid,
       not_null ''state'' (SqlString 32),
       nullable ''last_reconciled_at'' SqlTimestamptz,
       nullable ''last_stream_event_at'' SqlTimestamptz,
       not_null ''stream_connected'' SqlBoolean,
       not_null ''generation'' SqlInteger,
       not_null ''divergence_count'' SqlInteger,
       nullable ''failure_reason'' SqlText,
       ForeignKey [''workspace_id''] ''workspaces'' [''workspace_id''] OnCascade,
       PrimaryKey None [''workspace_id'']],
     CreateIndex ''ix_broker_sync_state_state'' ''broker_sync_state'' [''state'']]"

definition create_broker_accounts :: "ddl list" where
  "create_broker_accounts =
    [CreateTable ''broker_accounts'' [
       not_null ''workspace_id'' SqlUuid,
       not_null ''account_id'' (SqlString 64),
       not_null ''account_number'' (SqlString 64),
       not_null ''status'' (SqlString 32),
       not_null ''currency'' (SqlString 8),
       not_null ''equity'' (SqlNumeric 24 8),
       not_null ''cash'' (SqlNumeric 24 8),
       not_null ''buying_power'' (SqlNumeric 24 8),
       nullable ''options_buying_power'' (SqlNumeric 24 8),
       not_null ''last_equity'' (SqlNumeric 24 8),
       not_null ''trading_blocked'' SqlBoolean,
       not_null ''account_blocked'' SqlBoolean,
       not_null ''trade_suspended_by_user'' SqlBoolean,
       not_null ''as_of'' SqlTimestamptz,
       ForeignKey [''workspace_id''] ''workspaces'' [''workspace_id''] OnCascade,
       PrimaryKey None [''workspace_id'', ''account_id''],
       Unique (Some ''uq_broker_account_workspace_number'') [''workspace_id'',
         ''account_number'']],
     CreateIndex ''ix_broker_accounts_as_of'' ''broker_accounts'' [''as_of'']]"

definition create_broker_positions :: "ddl list" where
  "create_broker_positions =
    [CreateTable ''broker_positions'' [
       not_null ''workspace_id'' SqlUuid,
       not_null ''asset_id'' (SqlString 64),
       not_null ''symbol'' (SqlString 48),
       not_null ''asset_class'' (SqlString 32),
       not_null ''side'' (SqlString 16),
       not_null ''quantity'' (SqlNumeric 24 8),
       nullable ''quantity_available'' (SqlNumeric 24 8),
       not_null ''average_entry_price'' (SqlNumeric 24 8),
       nullable ''market_value'' (SqlNumeric 24 8),
       not_null ''cost_basis'' (SqlNumeric 24 8),
       not_null ''unrealized_pl'' (SqlNumeric 24 8),
       nullable ''current_price'' (SqlNumeric 24 8),
       not_null ''as_of'' SqlTimestamptz,
       ForeignKey [''workspace_id''] ''workspaces'' [''workspace_id''] OnCascade,
       PrimaryKey None [''workspace_id'', ''asset_id'']]]
    @ index_columns ''broker_positions'' [''symbol'', ''asset_class'', ''as_of'']"

definition create_broker_orders :: "ddl list" where
  "create_broker_orders =
    [CreateTable ''broker_orders'' [
       not_null ''workspace_id'' SqlUuid,
       not_null ''broker_order_id'' (SqlString 64),
       not_null ''client_order_id'' (SqlString 64),
       not_null ''status'' (SqlString 32),
       not_null ''asset_class'' (SqlString 32),
       nullable ''symbol'' (SqlString 48),
       nullable ''side'' (SqlString 16),
       not_null ''order_type'' (SqlString 32),
       not_null ''order_class'' (SqlString 32),
       not_null ''time_in_force'' (SqlString 16),
       nullable ''quantity'' (SqlNumeric 24 8),
       not_null ''filled_quantity'' (SqlNumeric 24 8),
       nullable ''filled_average_price'' (SqlNumeric 24 8),
       nullable ''limit_price'' (SqlNumeric 24 8),
       nullable ''submitted_at'' SqlTimestamptz,
       not_null ''created_at'' SqlTimestamptz,
       nullable ''updated_at'' SqlTimestamptz,
       not_null ''legs'' SqlJsonb,
       ForeignKey [''workspace_id''] ''workspaces'' [''workspace_id''] OnCascade,
       PrimaryKey None [''workspace_id'', ''broker_order_id''],
       Unique (Some ''uq_broker_order_workspace_client'') [''workspace_id'',
         ''client_order_id'']]]
    @ index_columns ''broker_orders'' [''client_order_id'', ''status'', ''symbol'',
      ''created_at'', ''updated_at'']"

definition create_order_intents :: "ddl list" where
  "create_order_intents =
    [CreateTable ''order_intents'' [
       not_null ''order_intent_id'' SqlUuid,
       not_null ''workspace_id'' SqlUuid,
       not_null ''client_order_id'' (SqlString 64),
       not_null ''risk_decision_id'' SqlUuid,
       not_null ''state'' (SqlString 32),
       not_null ''payload'' SqlJsonb,
       not_null ''created_at'' SqlTimestamptz,
       not_null ''updated_at'' SqlTimestamptz,
       ForeignKey [''workspace_id''] ''workspaces'' [''workspace_id''] OnCascade,
       PrimaryKey None [''order_intent_id''],
       Unique (Some ''uq_order_intent_workspace_client'') [''workspace_id'',
         ''client_order_id'']]]
    @ index_columns ''order_intents'' [''workspace_id'', ''client_order_id'',
      ''risk_decision_id'', ''state'', ''created_at'', ''updated_at'']"

definition create_guardian_incidents :: "ddl list" where
  "create_guardian_incidents =
    [CreateTable ''guardian_incidents'' [
       not_null ''incident_id'' SqlUuid,
       not_null ''workspace_id'' SqlUuid,
       not_null ''state'' (SqlString 32),
       not_null ''triggers'' SqlJsonb,
       not_null ''reason'' SqlText,
       not_null ''activated_at'' SqlTimestamptz,
       nullable ''cleared_at'' SqlTimestamptz,
       ForeignKey [''workspace_id''] ''workspaces'' [''workspace_id''] OnCascade,
       PrimaryKey None [''incident_id'']]]
    @ index_columns ''guardian_incidents'' [''workspace_id'', ''state'', ''activated_at'',
      ''cleared_at'']"

definition add_owners :: "ddl list" where
  "add_owners =
    [AddColumn ''domain_events'' (sa_column ''workspace_id'' SqlUuid True),
     CreateIndex ''ix_domain_events_workspace_id'' ''domain_events'' [''workspace_id''],
     AddColumn ''outbox_events'' (sa_column ''workspace_id'' SqlUuid True),
     CreateIndex ''ix_outbox_events_workspace_id'' ''outbox_events'' [''workspace_id''],
     AddColumn ''ai_workflow_runs'' (sa_column ''workspace_id'' SqlUuid True),
     CreateIndex ''ix_ai_workflow_runs_workspace_id'' ''ai_workflow_runs'' [''workspace_id''],
     AddColumn ''research_observations'' (sa_column ''workspace_id'' SqlUuid True),
     CreateIndex ''ix_research_observations_workspace_id'' ''research_observations''
       [''workspace_id'']]"

definition upgrade_0007 :: "ddl list" where
  "upgrade_0007 = create_app_users @
     create_workspaces @
     create_invitations @
     create_invitation_redemptions @
     create_workspace_credentials @
     create_demo_sessions @
     create_watchlist_symbols @
     create_connected_opportunities @
     create_audit_records @
     discard_global @
     create_broker_sync_state @
     create_broker_accounts @
     create_broker_positions @
     create_broker_orders @
     create_order_intents @
     create_guardian_incidents @
     add_owners"

definition downgrade_0007 :: "ddl list result" where
  "downgrade_0007 = Inl (RuntimeError (''The dual-workspace security migration is intentionally '' @
     ''irreversible because legacy global broker data has no safe tenant owner. '' @
     ''Restore a pre-migration backup instead.''))"

section \<open>0008: Version invitation codes for strict server-side registration\<close>

definition add_code_format :: "ddl list" where
  "add_code_format =
    [AddColumn ''invitations'' ((sa_column ''code_format'' (SqlString 32) False)\<lparr>
      col_default := Some ''legacy_urlsafe'' \<rparr>)]"

definition upgrade_0008 :: "ddl list" where
  "upgrade_0008 = add_code_format"

definition downgrade_0008 :: "ddl list" where
  "downgrade_0008 =
    [DropColumn ''invitations'' ''code_format'']"

section \<open>0009: Add tenant-scoped connected scan runs\<close>

definition create_connected_scan_runs :: "ddl list" where
  "create_connected_scan_runs =
    [CreateTable ''connected_scan_runs'' [
       not_null ''scan_run_id'' SqlUuid,
       not_null ''workspace_id'' SqlUuid,
       not_null ''trigger'' (SqlString 32),
       not_null ''source'' (SqlString 32),
       not_null ''started_at'' SqlTimestamptz,
       nullable ''completed_at'' SqlTimestamptz,
       not_null ''attempted_count'' SqlInteger,
       not_null ''completed_count'' SqlInteger,
       not_null ''failed_count'' SqlInteger,
       ForeignKey [''workspace_id''] ''workspaces'' [''workspace_id''] OnCascade,
       PrimaryKey None [''scan_run_id'']],
     CreateIndex ''ix_connected_scan_runs_workspace_id'' ''connected_scan_runs''
       [''workspace_id''],
     CreateIndex ''ix_connected_scan_runs_started_at'' ''connected_scan_runs'' [''started_at''],
     CreateIndex ''ix_connected_scan_runs_completed_at'' ''connected_scan_runs''
       [''completed_at'']]"

definition link_scan_runs :: "ddl list" where
  "link_scan_runs =
    [AddColumn ''connected_opportunities'' (sa_column ''scan_run_id'' SqlUuid True),
     CreateForeignKey ''fk_connected_opportunities_scan_run_id'' ''connected_opportunities''
       ''connected_scan_runs'' [''scan_run_id''] [''scan_run_id''] OnSetNull,
     CreateIndex ''ix_connected_opportunities_scan_run_id'' ''connected_opportunities''
       [''scan_run_id'']]"

definition upgrade_0009 :: "ddl list" where
  "upgrade_0009 = create_connected_scan_runs @
     link_scan_runs"

definition downgrade_0009 :: "ddl list" where
  "downgrade_0009 =
    [DropIndex ''ix_connected_opportunities_scan_run_id'' ''connected_opportunities'',
     DropForeignKey ''fk_connected_opportunities_scan_run_id'' ''connected_opportunities'',
     DropColumn ''connected_opportunities'' ''scan_run_id'',
     DropTable ''connected_scan_runs'']"

section \<open>The revisions and the runner\<close>

record script =
  revision :: string
  down_revision :: "string option"
  upgrade_ops :: "ddl list"
  downgrade_ops :: "ddl list result"

definition scripts :: "script list" where
  "scripts =
    [\<lparr> revision = ''20260901_0001'', down_revision = None,
       upgrade_ops = upgrade_0001, downgrade_ops = Inr downgrade_0001 \<rparr>,
     \<lparr> revision = ''20260901_0002'', down_revision = Some ''20260901_0001'',
       upgrade_ops = upgrade_0002, downgrade_ops = Inr downgrade_0002 \<rparr>,
     \<lparr> revision = ''20260901_0003'', down_revision = Some ''20260901_0002'',
       upgrade_ops = upgrade_0003, downgrade_ops = Inr downgrade_0003 \<rparr>,
     \<lparr> revision = ''20260901_0004'', down_revision = Some ''20260901_0003'',
       upgrade_ops = upgrade_0004, downgrade_ops = Inr downgrade_0004 \<rparr>,
     \<lparr> revision = ''20260901_0005'', down_revision = Some ''20260901_0004'',
       upgrade_ops = upgrade_0005, downgrade_ops = Inr downgrade_0005 \<rparr>,
     \<lparr> revision = ''20260901_0006'', down_revision = Some ''20260901_0005'',
       upgrade_ops = upgrade_0006, downgrade_ops = Inr downgrade_0006 \<rparr>,
     \<lparr> revision = ''20260902_0007'', down_revision = Some ''20260901_0006'',
       upgrade_ops = upgrade_0007, downgrade_ops = downgrade_0007 \<rparr>,
     \<lparr> revision = ''20260902_0008'', down_revision = Some ''20260902_0007'',
       upgrade_ops = upgrade_0008, downgrade_ops = Inr downgrade_0008 \<rparr>,
     \<lparr> revision = ''20260903_0009'', down_revision = Some ''20260902_0008'',
       upgrade_ops = upgrade_0009, downgrade_ops = Inr downgrade_0009 \<rparr>]"

text \<open>The database with the revision that Alembic has stored in it.\<close>

record 'db migrated_db =
  at_revision :: "string option"
  contents :: 'db

type_synonym 'db engine = "ddl \<Rightarrow> 'db \<Rightarrow> 'db result"

fun perform :: "'db engine \<Rightarrow> ddl list \<Rightarrow> 'db \<Rightarrow> 'db result" where
  "perform exec [] db = Inr db"
| "perform exec (d # ds) db = rbind (exec d db) (perform exec ds)"

definition apply_upgrade :: "'db engine \<Rightarrow> script \<Rightarrow> 'db migrated_db \<Rightarrow> 'db migrated_db result" where
  "apply_upgrade exec s st = rbind (perform exec (upgrade_ops s) (contents st)) (\<lambda>db.
     Inr \<lparr> at_revision = Some (revision s), contents = db \<rparr>)"

definition apply_downgrade :: "'db engine \<Rightarrow> script \<Rightarrow> 'db migrated_db \<Rightarrow> 'db migrated_db result" where
  "apply_downgrade exec s st = rbind (downgrade_ops s) (\<lambda>ds.
     rbind (perform exec ds (contents st)) (\<lambda>db.
     Inr \<lparr> at_revision = down_revision s, contents = db \<rparr>))"

text \<open>The scripts to run from a revision to the head, and down to a target.  One unit of fuel per
  script is enough, since every step takes another script.\<close>

fun upgrades_from :: "nat \<Rightarrow> string option \<Rightarrow> script list" where
  "upgrades_from 0 v = []"
| "upgrades_from (Suc k) v = (case List.find (\<lambda>s. down_revision s = v) scripts of
       None \<Rightarrow> []
     | Some s \<Rightarrow> s # upgrades_from k (Some (revision s)))"

fun downgrades_to :: "nat \<Rightarrow> string option \<Rightarrow> string option \<Rightarrow> script list" where
  "downgrades_to 0 target v = []"
| "downgrades_to (Suc k) target v = (if v = target then [] else
     case List.find (\<lambda>s. Some (revision s) = v) scripts of
       None \<Rightarrow> []
     | Some s \<Rightarrow> s # downgrades_to k target (down_revision s))"

datatype command = UpgradeHead | DowngradeTo "string option"

fun run_all :: "(script \<Rightarrow> 'db migrated_db \<Rightarrow> 'db migrated_db result) \<Rightarrow> script list
    \<Rightarrow> 'db migrated_db \<Rightarrow> 'db migrated_db result" where
  "run_all f [] st = Inr st"
| "run_all f (s # ss) st = rbind (f s st) (run_all f ss)"

fun run_migrations :: "'db engine \<Rightarrow> command \<Rightarrow> 'db migrated_db \<Rightarrow> 'db migrated_db result" where
  "run_migrations exec UpgradeHead st =
     run_all (apply_upgrade exec) (upgrades_from (length scripts) (at_revision st)) st"
| "run_migrations exec (DowngradeTo v) st =
     run_all (apply_downgrade exec) (downgrades_to (length scripts) v (at_revision st)) st"

text \<open>\<open>with context.begin_transaction(): context.run_migrations()\<close>: the new database, or the old
  one with the exception.\<close>

definition run_migrations_online ::
    "'db engine \<Rightarrow> command \<Rightarrow> 'db migrated_db \<Rightarrow> 'db migrated_db \<times> py_error option" where
  "run_migrations_online exec c st = (case run_migrations exec c st of
       Inl e \<Rightarrow> (st, Some e) | Inr st' \<Rightarrow> (st', None))"

section \<open>What is expected of the engine\<close>

text \<open>The engine's visible database changes as the theory Schema says, with the same exceptions.\<close>

definition follows :: "'db engine \<Rightarrow> ('db \<Rightarrow> database) \<Rightarrow> bool" where
  "follows exec view \<longleftrightarrow>
     (\<forall>d db. ddl_step d (view db) = (case exec d db of Inl e \<Rightarrow> Inl e | Inr db' \<Rightarrow> Inr (view db')))"

definition seen :: "('db \<Rightarrow> database) \<Rightarrow> 'db migrated_db \<Rightarrow> database migrated_db" where
  "seen view st = \<lparr> at_revision = at_revision st, contents = view (contents st) \<rparr>"

lemma seen_simps [simp]:
  "at_revision (seen view st) = at_revision st" "contents (seen view st) = view (contents st)"
  by (simp_all add: seen_def)

lemma seen_id [simp]: "seen id st = st"
  by (simp add: seen_def)

lemma follows_itself: "follows ddl_step id"
  by (simp add: follows_def split: sum.splits)

lemma perform_ddl [simp]: "perform ddl_step ds db = ddl_run ds db"
  by (induction ds arbitrary: db) (simp_all cong: rbind_cong)

text \<open>The result of a run, seen through the engine's view, is the result of the run on what is seen.\<close>

lemma perform_seen:
  assumes "follows exec view"
  shows "ddl_run ds (view db) =
    (case perform exec ds db of Inl e \<Rightarrow> Inl e | Inr db' \<Rightarrow> Inr (view db'))"
proof (induction ds arbitrary: db)
  case (Cons d ds)
  have "ddl_step d (view db) = (case exec d db of Inl e \<Rightarrow> Inl e | Inr db' \<Rightarrow> Inr (view db'))"
    using assms by (simp add: follows_def)
  then show ?case using Cons by (cases "exec d db") simp_all
qed simp

lemma apply_seen:
  assumes "follows exec view"
  shows "apply_upgrade ddl_step s (seen view st) =
      (case apply_upgrade exec s st of Inl e \<Rightarrow> Inl e | Inr st' \<Rightarrow> Inr (seen view st'))"
    and "apply_downgrade ddl_step s (seen view st) =
      (case apply_downgrade exec s st of Inl e \<Rightarrow> Inl e | Inr st' \<Rightarrow> Inr (seen view st'))"
proof -
  show "apply_upgrade ddl_step s (seen view st) =
      (case apply_upgrade exec s st of Inl e \<Rightarrow> Inl e | Inr st' \<Rightarrow> Inr (seen view st'))"
    using perform_seen [OF assms, of "upgrade_ops s" "contents st"]
    by (cases "perform exec (upgrade_ops s) (contents st)") (simp_all add: apply_upgrade_def seen_def)
  show "apply_downgrade ddl_step s (seen view st) =
      (case apply_downgrade exec s st of Inl e \<Rightarrow> Inl e | Inr st' \<Rightarrow> Inr (seen view st'))"
  proof (cases "downgrade_ops s")
    case (Inr ds)
    then show ?thesis
      using perform_seen [OF assms, of ds "contents st"]
      by (cases "perform exec ds (contents st)") (simp_all add: apply_downgrade_def seen_def)
  qed (simp add: apply_downgrade_def)
qed

lemma run_all_seen:
  assumes "\<And>s st. g s (seen view st) = (case f s st of Inl e \<Rightarrow> Inl e | Inr st' \<Rightarrow> Inr (seen view st'))"
  shows "run_all g ss (seen view st) =
    (case run_all f ss st of Inl e \<Rightarrow> Inl e | Inr st' \<Rightarrow> Inr (seen view st'))"
proof (induction ss arbitrary: st)
  case (Cons s ss)
  then show ?case using assms [of s st] by (cases "f s st") simp_all
qed simp

lemma run_migrations_seen:
  assumes "follows exec view"
  shows "run_migrations_online ddl_step c (seen view st) =
    map_prod (seen view) id (run_migrations_online exec c st)"
proof -
  have "run_migrations ddl_step c (seen view st) =
      (case run_migrations exec c st of Inl e \<Rightarrow> Inl e | Inr st' \<Rightarrow> Inr (seen view st'))"
    by (cases c) (simp_all add:
      run_all_seen [of "apply_upgrade ddl_step" view "apply_upgrade exec", OF apply_seen(1) [OF assms]]
      run_all_seen [of "apply_downgrade ddl_step" view "apply_downgrade exec", OF apply_seen(2) [OF assms]])
  then show ?thesis
    by (cases "run_migrations exec c st") (simp_all add: run_migrations_online_def)
qed

end
