(* ===== verification/Schema_Laws.thy ===== *)
theory Schema_Laws
  imports Schema
begin

text \<open>
  The laws of the schema operations: every operation that succeeds takes a well-formed database
  to a well-formed database, and so does every run of operations.  Well-formed means that names
  are unique, foreign keys refer to keys of existing tables, every row has exactly the columns of
  its table with values that fit them, and the rows satisfy all keys and foreign keys.
\<close>

section \<open>One table of a schema\<close>

lemma relation_names_append [simp]:
  "relation_names (xs @ ys) = relation_names xs @ relation_names ys"
  by (simp add: relation_names_def)

lemma relation_names_Cons [simp]:
  "relation_names ((n, t) # ys) = n # names_in t @ relation_names ys"
  by (simp add: relation_names_def)

lemma relation_names_Nil [simp]: "relation_names [] = []"
  by (simp add: relation_names_def)

lemma table_name_in_names: "n \<in> fst ` set ts \<Longrightarrow> n \<in> set (relation_names ts)"
  by (force simp: relation_names_def)

lemma distinct_names: "distinct (relation_names ts) \<Longrightarrow> distinct (map fst ts)"
proof (induction ts)
  case (Cons p ts)
  then show ?case using table_name_in_names [of "fst p" ts] by (cases p) auto
qed simp

text \<open>A table in its schema, and what updating and deleting it do to the list.\<close>

lemma table_split:
  assumes "map_of ts n = Some t" and "distinct (map fst ts)"
  obtains xs ys where "ts = xs @ (n, t) # ys" and "n \<notin> fst ` set xs" and "n \<notin> fst ` set ys"
    and "\<And>u. AList.update n u ts = xs @ (n, u) # ys" and "AList.delete n ts = xs @ ys"
proof -
  obtain xs ys where ts: "ts = xs @ (n, t) # ys"
    using map_of_SomeD [OF assms(1)] by (meson split_list)
  with assms(2) have fresh: "n \<notin> fst ` set xs" "n \<notin> fst ` set ys" by auto
  have upd: "AList.update n u (xs @ (n, t) # ys) = xs @ (n, u) # ys" for u
    using fresh(1) by (induction xs) auto
  have del: "AList.delete n (xs @ (n, t) # ys) = xs @ ys"
    using fresh by (force simp: AList.delete_eq intro!: filter_True arg_cong2 [of _ _ _ _ append])
  show thesis using that [OF ts fresh] upd del ts by simp
qed

lemma keys_columns: "table_ok t \<Longrightarrow> k \<in> set (keys t) \<Longrightarrow> c \<in> set k \<Longrightarrow> c \<in> set (column_names t)"
  by (auto simp: table_ok_def)

lemma schema_okI:
  assumes "distinct (relation_names ts)" and "\<And>m v. (m, v) \<in> set ts \<Longrightarrow> table_ok v"
    and "\<And>m v f. (m, v) \<in> set ts \<Longrightarrow> f \<in> set (t_fks v) \<Longrightarrow> fk_ok ts f"
  shows "schema_ok ts"
  using assms by (auto simp: schema_ok_def)

lemma schema_ok_in:
  assumes "schema_ok ts" and "(m, v) \<in> set ts"
  shows "table_ok v" and "\<And>f. f \<in> set (t_fks v) \<Longrightarrow> fk_ok ts f"
  using assms by (auto simp: schema_ok_def)

lemma schema_okD:
  assumes "schema_ok ts" and "map_of ts n = Some t"
  shows "table_ok t" and "\<And>f. f \<in> set (t_fks t) \<Longrightarrow> fk_ok ts f"
  using assms map_of_SomeD [OF assms(2)] by (auto simp: schema_ok_def)

lemma fk_okD:
  assumes "fk_ok ts f" and "map_of ts (fk_table f) = Some t"
  shows "fk_targets f \<in> set (keys t)"
  using assms by (simp add: fk_ok_def)

lemma fk_ok_update:
  assumes "fk_ok ts f" and "fk_table f = n \<Longrightarrow> fk_targets f \<in> set (keys u)"
  shows "fk_ok (AList.update n u ts) f"
  using assms by (auto simp: fk_ok_def update_conv' split: option.splits)

lemma schema_ok_update:
  assumes ok: "schema_ok ts" and t: "map_of ts n = Some t" and u: "table_ok u"
    and names: "distinct (names_in u)"
      "\<And>x. x \<in> set (names_in u) \<Longrightarrow> x \<in> set (names_in t) \<or> x \<notin> set (relation_names ts)"
    and fks: "\<And>f. f \<in> set (t_fks u) \<Longrightarrow> fk_ok ts f"
    and targets: "\<And>m v f. (m, v) \<in> set (AList.update n u ts) \<Longrightarrow> f \<in> set (t_fks v) \<Longrightarrow>
      fk_table f = n \<Longrightarrow> fk_targets f \<in> set (keys u)"
  shows "schema_ok (AList.update n u ts)"
proof -
  have d: "distinct (relation_names ts)" using ok by (simp add: schema_ok_def)
  obtain xs ys where ts: "ts = xs @ (n, t) # ys" and up: "\<And>w. AList.update n w ts = xs @ (n, w) # ys"
    using table_split [OF t distinct_names [OF d]] by metis
  have "x \<noteq> n \<and> x \<notin> set (relation_names xs) \<and> x \<notin> set (relation_names ys)"
    if "x \<in> set (names_in u)" for x
    using names(2) [OF that] d by (auto simp: ts)
  then have "distinct (relation_names (xs @ (n, u) # ys))"
    using d [unfolded ts] names(1) by auto
  then have names': "distinct (relation_names (AList.update n u ts))"
    by (simp only: up)
  have "table_ok v \<and> (\<forall>f \<in> set (t_fks v). fk_ok ts f)" if "(m, v) \<in> set (AList.update n u ts)" for m v
  proof -
    from that have "(m, v) \<in> set (xs @ (n, u) # ys)" by (simp only: up)
    then have "(m, v) \<in> set ts \<or> v = u" by (auto simp: ts)
    then show ?thesis using ok u fks by (auto simp: schema_ok_def)
  qed
  then show ?thesis using names' targets by (auto simp: schema_ok_def intro!: fk_ok_update)
qed

section \<open>The rows of one table\<close>

lemma all_present_cong: "(\<And>c. c \<in> set k \<Longrightarrow> r c = q c) \<Longrightarrow> all_present k r = all_present k q"
  by (simp add: all_present_def)

lemma key_ok_map:
  assumes "key_ok rs k" and "\<And>r c. c \<in> set k \<Longrightarrow> g r c = r c"
  shows "key_ok (map g rs) k"
proof -
  have "filter (all_present k) (map g rs) = map g (filter (all_present k) rs)"
    using all_present_cong [OF assms(2)] by (simp add: filter_map o_def)
  moreover have "map (\<lambda>r. map r k) (map g qs) = map (\<lambda>r. map r k) qs" for qs
    using assms(2) by simp
  ultimately show ?thesis using assms(1) by (simp only: key_ok_def)
qed

text \<open>A table is replaced and its rows rewritten without touching the columns of its keys, of its
  foreign keys, and of the foreign keys that refer to it.\<close>

lemma rows_ok_update:
  assumes ok: "rows_ok ts rows" and t: "map_of ts n = Some t"
    and good: "\<And>r. r \<in> set (rows n) \<Longrightarrow> row_ok u (g r)"
    and ks: "\<And>k. k \<in> set (keys u) \<Longrightarrow> k \<in> set (keys t)"
    and keep_keys: "\<And>k c r. k \<in> set (keys u) \<Longrightarrow> c \<in> set k \<Longrightarrow> g r c = r c"
    and fks: "\<And>f r. f \<in> set (t_fks u) \<Longrightarrow> r \<in> set (rows n) \<Longrightarrow> fk_holds rows f r"
    and keep_fks: "\<And>f c r. f \<in> set (t_fks u) \<Longrightarrow> c \<in> set (fk_columns f) \<Longrightarrow> g r c = r c"
    and keep_targets: "\<And>m v f c r. map_of (AList.update n u ts) m = Some v \<Longrightarrow> f \<in> set (t_fks v) \<Longrightarrow>
      fk_table f = n \<Longrightarrow> c \<in> set (fk_targets f) \<Longrightarrow> g r c = r c"
  shows "rows_ok (AList.update n u ts) (rows(n := map g (rows n)))"
proof -
  let ?rows = "rows(n := map g (rows n))"
  have holds: "fk_holds ?rows f q"
    if f: "map_of (AList.update n u ts) m = Some v" "f \<in> set (t_fks v)"
      and old: "fk_holds rows f r" and same: "\<And>c. c \<in> set (fk_columns f) \<Longrightarrow> q c = r c" for f m v q r
  proof -
    have cols: "map q (fk_columns f) = map r (fk_columns f)" using same by simp
    have "\<exists>p \<in> set (?rows (fk_table f)). map p (fk_targets f) = map q (fk_columns f)"
      if "all_present (fk_columns f) q"
    proof -
      have "all_present (fk_columns f) r" using that all_present_cong [OF same] by simp
      then obtain p where p: "p \<in> set (rows (fk_table f))"
          "map p (fk_targets f) = map r (fk_columns f)"
        using old unfolding fk_holds_def by blast
      show ?thesis
      proof (cases "fk_table f = n")
        case True
        have "map (g p) (fk_targets f) = map p (fk_targets f)"
          using keep_targets [OF f True] by simp
        then show ?thesis using p True cols by (intro bexI [of _ "g p"]) auto
      next
        case False
        then show ?thesis using p cols by (intro bexI [of _ p]) auto
      qed
    qed
    then show ?thesis by (simp add: fk_holds_def)
  qed
  show ?thesis unfolding rows_ok_def
  proof
    fix m
    show "case map_of (AList.update n u ts) m of None \<Rightarrow> ?rows m = []
      | Some v \<Rightarrow> (\<forall>r \<in> set (?rows m). row_ok v r \<and> (\<forall>f \<in> set (t_fks v). fk_holds ?rows f r))
          \<and> (\<forall>k \<in> set (keys v). key_ok (?rows m) k)"
    proof (cases "m = n")
      case True
      have at_n: "map_of (AList.update n u ts) n = Some u" by (simp add: update_conv')
      have "key_ok (map g (rows n)) k" if k: "k \<in> set (keys u)" for k
      proof (rule key_ok_map)
        show "key_ok (rows n) k" using ok t ks [OF k] by (auto simp: rows_ok_def dest: spec [of _ n])
        show "\<And>r c. c \<in> set k \<Longrightarrow> g r c = r c" using keep_keys [OF k] .
      qed
      moreover have "fk_holds ?rows f (g r)" if "f \<in> set (t_fks u)" "r \<in> set (rows n)" for f r
        by (rule holds [OF at_n that(1) fks [OF that]]) (rule keep_fks [OF that(1)])
      ultimately show ?thesis using True good at_n by auto
    next
      case False
      then have eq: "map_of (AList.update n u ts) m = map_of ts m" by (simp add: update_conv')
      show ?thesis
      proof (cases "map_of ts m")
        case None
        then show ?thesis using ok False eq by (auto simp: rows_ok_def dest: spec [of _ m])
      next
        case (Some v)
        then have old: "\<And>r. r \<in> set (rows m) \<Longrightarrow> row_ok v r \<and> (\<forall>f \<in> set (t_fks v). fk_holds rows f r)"
          "\<And>k. k \<in> set (keys v) \<Longrightarrow> key_ok (rows m) k"
          using ok by (auto simp: rows_ok_def dest: spec [of _ m])
        have at_m: "map_of (AList.update n u ts) m = Some v" using eq Some by simp
        have "fk_holds ?rows f r" if "f \<in> set (t_fks v)" "r \<in> set (rows m)" for f r
          by (rule holds [OF at_m that(1)]) (use old(1) that in auto)
        then show ?thesis using old False at_m by simp
      qed
    qed
  qed
qed

lemma rows_okD:
  assumes "rows_ok ts rows" and "map_of ts n = Some t"
  shows "\<And>r. r \<in> set (rows n) \<Longrightarrow> row_ok t r"
    and "\<And>r f. r \<in> set (rows n) \<Longrightarrow> f \<in> set (t_fks t) \<Longrightarrow> fk_holds rows f r"
    and "\<And>k. k \<in> set (keys t) \<Longrightarrow> key_ok (rows n) k"
  using assms by (auto simp: rows_ok_def dest: spec [of _ n])

text \<open>The same when the rows stay as they are.\<close>

lemma rows_ok_update_same:
  assumes ok: "rows_ok ts rows" and t: "map_of ts n = Some t"
    and cols: "t_columns u = t_columns t"
    and ks: "\<And>k. k \<in> set (keys u) \<Longrightarrow> k \<in> set (keys t)"
    and fks: "\<And>f r. f \<in> set (t_fks u) \<Longrightarrow> r \<in> set (rows n) \<Longrightarrow> fk_holds rows f r"
  shows "rows_ok (AList.update n u ts) rows"
proof -
  have "row_ok u r" if "r \<in> set (rows n)" for r
    using rows_okD(1) [OF ok t that] cols by (simp add: row_ok_def column_names_def)
  then show ?thesis
    using rows_ok_update [OF ok t, of u "\<lambda>r. r"] ks fks by simp
qed

section \<open>Every operation on the schema\<close>

lemma with_table_Inr:
  "with_table ts n f = Inr ts' \<longleftrightarrow> (\<exists>t. map_of ts n = Some t \<and> f t = Inr ts')"
  by (simp add: with_table_def split: option.splits)

lemma keys_simps [simp]:
  "constraint_keys (t\<lparr> t_indexes := js \<rparr>) = constraint_keys t"
  "keys (t\<lparr> t_columns := cs \<rparr>) = keys t" "keys (t\<lparr> t_fks := fs \<rparr>) = keys t"
  "names_in (t\<lparr> t_columns := cs \<rparr>) = names_in t" "names_in (t\<lparr> t_fks := fs \<rparr>) = names_in t"
  "primary_columns (t\<lparr> t_columns := cs \<rparr>) = primary_columns t"
  "primary_columns (t\<lparr> t_fks := fs \<rparr>) = primary_columns t"
  "primary_columns (t\<lparr> t_indexes := js \<rparr>) = primary_columns t"
  "column_names (t\<lparr> t_fks := fs \<rparr>) = column_names t"
  "column_names (t\<lparr> t_indexes := js \<rparr>) = column_names t"
  "column_names (t\<lparr> t_columns := cs \<rparr>) = map col_name cs"
  by (simp_all add: keys_def names_in_def constraint_keys_def primary_columns_def column_names_def)

lemma names_distinct:
  assumes "schema_ok ts" and "map_of ts n = Some t"
  shows "distinct (names_in t)" and "set (names_in t) \<subseteq> set (relation_names ts)"
proof -
  have d: "distinct (relation_names ts)" using assms(1) by (simp add: schema_ok_def)
  obtain xs ys where "ts = xs @ (n, t) # ys" using map_of_SomeD [OF assms(2)] by (meson split_list)
  then show "distinct (names_in t)" "set (names_in t) \<subseteq> set (relation_names ts)" using d by auto
qed

text \<open>A foreign key of the schema that refers to a table refers to one of its keys.\<close>

lemma targets_are_keys:
  assumes "schema_ok ts" and "map_of ts n = Some t" and "(m, v) \<in> set ts" and "f \<in> set (t_fks v)"
    and "fk_table f = n"
  shows "fk_targets f \<in> set (keys t)"
proof -
  have "fk_ok ts f" by (rule schema_ok_in(2) [OF assms(1,3,4)])
  then show ?thesis using assms(2,5) by (simp add: fk_okD)
qed

lemma in_update:
  assumes "schema_ok ts" and "map_of ts n = Some t" and "(m, v) \<in> set (AList.update n u ts)"
  shows "(m, v) \<in> set ts \<or> v = u"
proof -
  have "distinct (map fst ts)" using assms(1) distinct_names by (auto simp: schema_ok_def)
  then obtain xs ys where "ts = xs @ (n, t) # ys" "\<And>w. AList.update n w ts = xs @ (n, w) # ys"
    using table_split [OF assms(2)] by metis
  then show ?thesis using assms(3) by auto
qed

text \<open>An update that keeps all keys keeps the foreign keys that refer to the table.\<close>

lemma targets_update:
  assumes ok: "schema_ok ts" and t: "map_of ts n = Some t" and ks: "set (keys t) \<subseteq> set (keys u)"
    and fks: "\<And>f. f \<in> set (t_fks u) \<Longrightarrow> fk_ok ts f"
    and mv: "(m, v) \<in> set (AList.update n u ts)" "f \<in> set (t_fks v)" "fk_table f = n"
  shows "fk_targets f \<in> set (keys u)"
proof -
  have "fk_targets f \<in> set (keys t)"
    using in_update [OF ok t mv(1)]
  proof
    assume "(m, v) \<in> set ts"
    then show ?thesis using targets_are_keys [OF ok t _ mv(2,3)] by simp
  next
    assume "v = u"
    then show ?thesis using fks [of f] mv(2,3) t by (auto dest: fk_okD)
  qed
  then show ?thesis using ks by blast
qed

lemma constraint_keys_without:
  "constraint_keys (without_column c t) = filter (\<lambda>k. c \<notin> set (snd k)) (constraint_keys t)"
  by (simp add: without_column_def constraint_keys_def split: option.splits)

lemma indexes_without [simp]:
  "t_indexes (without_column c t) = filter (\<lambda>i. c \<notin> set (ix_columns i)) (t_indexes t)"
  by (simp add: without_column_def)

lemma without_column_simps:
  "column_names (without_column c t) = filter (\<lambda>d. d \<noteq> c) (column_names t)"
  "set (keys (without_column c t)) = {k \<in> set (keys t). c \<notin> set k}"
  "set (t_fks (without_column c t)) = {f \<in> set (t_fks t). c \<notin> set (fk_columns f)}"
  "set (names_in (without_column c t)) \<subseteq> set (names_in t)"
proof -
  show "column_names (without_column c t) = filter (\<lambda>d. d \<noteq> c) (column_names t)"
    by (simp add: without_column_def column_names_def filter_map o_def)
  show "set (keys (without_column c t)) = {k \<in> set (keys t). c \<notin> set k}"
    by (auto simp: keys_def constraint_keys_without)
  show "set (t_fks (without_column c t)) = {f \<in> set (t_fks t). c \<notin> set (fk_columns f)}"
    by (simp add: without_column_def)
  show "set (names_in (without_column c t)) \<subseteq> set (names_in t)"
    by (auto simp: names_in_def constraint_keys_without map_filter_def)
qed

lemma distinct_map_filter_filter:
  "distinct (List.map_filter f xs) \<Longrightarrow> distinct (List.map_filter f (filter P xs))"
proof (induction xs)
  case (Cons x xs)
  have "set (List.map_filter f (filter P xs)) \<subseteq> set (List.map_filter f xs)"
    by (auto simp: map_filter_def)
  then show ?case using Cons by (auto simp: map_filter_simps split: option.splits)
qed (simp add: map_filter_simps)

lemma without_column_names:
  assumes "distinct (names_in t)"
  shows "distinct (names_in (without_column c t))"
proof -
  have "set (List.map_filter fst (constraint_keys (without_column c t)))
      \<subseteq> set (List.map_filter fst (constraint_keys t))"
    by (auto simp: constraint_keys_without map_filter_def)
  then show ?thesis
    using assms by (auto simp: names_in_def constraint_keys_without distinct_map_filter_filter
        distinct_map_filter)
qed

lemma without_column_ok:
  assumes "table_ok t"
  shows "table_ok (without_column c t)"
  using assms without_column_simps [of c t]
  by (auto simp: table_ok_def without_column_def primary_columns_def split: option.splits if_splits)

lemma create_table_ok:
  assumes ok: "schema_ok ts" and st: "schema_step (CreateTable n items) ts = Inr ts'"
  shows "schema_ok ts'"
proof -
  define t where "t = build_table items"
  have g: "set (n # names_in t) \<inter> set (relation_names ts) = {}" "distinct (n # names_in t)"
      "table_ok t" "\<forall>f \<in> set (t_fks t). fk_ok (ts @ [(n, t)]) f" and ts': "ts' = ts @ [(n, t)]"
    using st by (auto simp: Let_def t_def split: if_splits)
  have "distinct (relation_names ts')" using ok g(1,2) by (auto simp: ts' schema_ok_def)
  moreover have "fk_ok ts' f" if "fk_ok ts f" for f
    using that by (auto simp: fk_ok_def ts' map_add_def split: option.splits)
  ultimately show ?thesis
    using g(3,4) schema_ok_in [OF ok] by (intro schema_okI) (auto simp: ts')
qed

lemma drop_table_ok:
  assumes ok: "schema_ok ts" and st: "schema_step (DropTable n) ts = Inr ts'"
  shows "schema_ok ts'"
proof -
  obtain t where t: "map_of ts n = Some t" and ts': "ts' = AList.delete n ts"
      and free: "\<not> referenced ts' n (\<lambda>_. True)"
    using st by (auto simp: with_table_Inr split: if_splits)
  have d: "distinct (relation_names ts)" using ok by (simp add: schema_ok_def)
  obtain xs ys where ts: "ts = xs @ (n, t) # ys" and del: "ts' = xs @ ys"
    using table_split [OF t distinct_names [OF d]] ts' by metis
  have "distinct (relation_names ts')" using d by (auto simp: ts del)
  moreover have "fk_ok ts' f" if "fk_ok ts f" "(m, v) \<in> set ts'" "f \<in> set (t_fks v)" for m v f
  proof -
    have "fk_table f \<noteq> n" using free that(2,3) by (auto simp: referenced_def)
    then show ?thesis using that(1) by (simp add: fk_ok_def ts' delete_conv')
  qed
  moreover have "set ts' \<subseteq> set ts" by (auto simp: ts del)
  ultimately show ?thesis using schema_ok_in [OF ok] by (intro schema_okI) blast+
qed

lemma create_index_ok:
  assumes ok: "schema_ok ts" and st: "schema_step (CreateIndex i n cs) ts = Inr ts'"
  shows "schema_ok ts'"
proof -
  obtain t where t: "map_of ts n = Some t" and g: "i \<notin> set (relation_names ts)"
      "set cs \<subseteq> set (column_names t)"
    and ts': "ts' = AList.update n (t\<lparr> t_indexes := t_indexes t @
            [\<lparr> ix_name = i, ix_columns = cs, ix_unique = False \<rparr>] \<rparr>) ts"
    using st by (auto simp: with_table_Inr split: if_splits)
  let ?u = "t\<lparr> t_indexes := t_indexes t @ [\<lparr> ix_name = i, ix_columns = cs, ix_unique = False \<rparr>] \<rparr>"
  have ku: "keys ?u = keys t" by (simp add: keys_def)
  have nu: "names_in ?u = names_in t @ [i]" by (simp add: names_in_def)
  have u: "table_ok ?u"
    using schema_okD(1) [OF ok t] g(2) unfolding table_ok_def ku by auto
  show ?thesis unfolding ts'
  proof (rule schema_ok_update [OF ok t u])
    show "distinct (names_in ?u)" using names_distinct [OF ok t] g(1) by (auto simp: nu)
    show "\<And>x. x \<in> set (names_in ?u) \<Longrightarrow> x \<in> set (names_in t) \<or> x \<notin> set (relation_names ts)"
      using g(1) by (auto simp: nu)
    show fks: "\<And>f. f \<in> set (t_fks ?u) \<Longrightarrow> fk_ok ts f" using schema_okD(2) [OF ok t] by simp
    show "\<And>m v f. (m, v) \<in> set (AList.update n ?u ts) \<Longrightarrow> f \<in> set (t_fks v) \<Longrightarrow>
        fk_table f = n \<Longrightarrow> fk_targets f \<in> set (keys ?u)"
      by (rule targets_update [OF ok t _ fks]) (simp add: ku)
  qed
qed

text \<open>An update that adds no foreign key.\<close>

lemma update_fks:
  assumes "schema_ok ts" and "map_of ts n = Some t" and "set (t_fks u) \<subseteq> set (t_fks t)"
    and "(m, v) \<in> set (AList.update n u ts)" and "f \<in> set (t_fks v)"
  shows "\<exists>l w. (l, w) \<in> set ts \<and> f \<in> set (t_fks w)"
  using in_update [OF assms(1,2,4)]
proof
  assume "v = u"
  then have "f \<in> set (t_fks t)" using assms(3,5) by blast
  then show ?thesis using map_of_SomeD [OF assms(2)] by blast
qed (use assms(5) in blast)

lemma drop_index_ok:
  assumes ok: "schema_ok ts" and st: "schema_step (DropIndex i n) ts = Inr ts'"
  shows "schema_ok ts'"
proof -
  let ?drop = "filter (\<lambda>x. ix_name x \<noteq> i)"
  obtain t x where t: "map_of ts n = Some t"
    and x: "List.find (\<lambda>x. ix_name x = i) (t_indexes t) = Some x"
    and g: "\<not> (ix_unique x \<and> referenced ts n (\<lambda>k. k = ix_columns x))"
    and ts': "ts' = AList.update n (t\<lparr> t_indexes := ?drop (t_indexes t) \<rparr>) ts"
    using st by (auto simp: with_table_Inr split: option.splits if_splits)
  let ?u = "t\<lparr> t_indexes := ?drop (t_indexes t) \<rparr>"
  have x': "x \<in> set (t_indexes t)" "ix_name x = i" using x by (auto simp: find_Some_iff)
  have "set (keys ?u) \<subseteq> set (keys t)" by (auto simp: keys_def)
  then have u: "table_ok ?u" using schema_okD(1) [OF ok t] unfolding table_ok_def by auto
  show ?thesis unfolding ts'
  proof (rule schema_ok_update [OF ok t u])
    show "distinct (names_in ?u)"
      using names_distinct(1) [OF ok t] by (auto simp: names_in_def distinct_map_filter)
    show "\<And>x. x \<in> set (names_in ?u) \<Longrightarrow> x \<in> set (names_in t) \<or> x \<notin> set (relation_names ts)"
      by (auto simp: names_in_def)
    show "\<And>f. f \<in> set (t_fks ?u) \<Longrightarrow> fk_ok ts f" using schema_okD(2) [OF ok t] by simp
    fix m v f
    assume mv: "(m, v) \<in> set (AList.update n ?u ts)" "f \<in> set (t_fks v)" "fk_table f = n"
    obtain l w where lw: "(l, w) \<in> set ts" "f \<in> set (t_fks w)"
      using update_fks [OF ok t _ mv(1,2)] by auto
    have key: "fk_targets f \<in> set (keys t)" by (rule targets_are_keys [OF ok t lw mv(3)])
    have "fk_targets f \<noteq> ix_columns x \<or> \<not> ix_unique x"
      using g lw mv(3) by (auto simp: referenced_def)
    moreover have "y = x" if "y \<in> set (t_indexes t)" "ix_name y = i" for y
      using names_distinct(1) [OF ok t] that x' by (auto simp: names_in_def distinct_map inj_on_def)
    ultimately show "fk_targets f \<in> set (keys ?u)" using key by (auto simp: keys_def)
  qed
qed

lemma add_column_table:
  assumes "table_ok t" and "col_name c \<notin> set (column_names t)"
  shows "table_ok (t\<lparr> t_columns := t_columns t @ [c] \<rparr>)"
proof -
  have "set (primary_columns t) \<subseteq> set (column_names t)"
  proof (cases "t_primary t")
    case (Some k)
    then have "snd k \<in> set (keys t)" by (simp add: keys_def constraint_keys_def)
    then show ?thesis using assms(1) Some by (simp add: table_ok_def primary_columns_def)
  qed (simp add: primary_columns_def)
  then show ?thesis using assms by (auto simp: table_ok_def column_names_def)
qed

lemma add_column_ok:
  assumes ok: "schema_ok ts" and st: "schema_step (AddColumn n c) ts = Inr ts'"
  shows "schema_ok ts'"
proof -
  obtain t where t: "map_of ts n = Some t" and c: "col_name c \<notin> set (column_names t)"
    and ts': "ts' = AList.update n (t\<lparr> t_columns := t_columns t @ [c] \<rparr>) ts"
    using st by (auto simp: with_table_Inr split: if_splits)
  let ?u = "t\<lparr> t_columns := t_columns t @ [c] \<rparr>"
  show ?thesis unfolding ts'
  proof (rule schema_ok_update [OF ok t add_column_table [OF schema_okD(1) [OF ok t] c]])
    show "distinct (names_in ?u)" using names_distinct(1) [OF ok t] by simp
    show fks: "\<And>f. f \<in> set (t_fks ?u) \<Longrightarrow> fk_ok ts f" using schema_okD(2) [OF ok t] by simp
    show "\<And>m v f. (m, v) \<in> set (AList.update n ?u ts) \<Longrightarrow> f \<in> set (t_fks v) \<Longrightarrow>
        fk_table f = n \<Longrightarrow> fk_targets f \<in> set (keys ?u)"
      by (rule targets_update [OF ok t _ fks]) simp
  qed simp
qed

lemma drop_column_ok:
  assumes ok: "schema_ok ts" and st: "schema_step (DropColumn n c) ts = Inr ts'"
  shows "schema_ok ts'"
proof -
  obtain t where t: "map_of ts n = Some t" and g: "\<not> referenced ts n (\<lambda>k. c \<in> set k)"
    and ts': "ts' = AList.update n (without_column c t) ts"
    using st by (auto simp: with_table_Inr split: if_splits)
  show ?thesis unfolding ts'
  proof (rule schema_ok_update [OF ok t without_column_ok [OF schema_okD(1) [OF ok t]]])
    show "distinct (names_in (without_column c t))"
      by (rule without_column_names [OF names_distinct(1) [OF ok t]])
    show "\<And>x. x \<in> set (names_in (without_column c t)) \<Longrightarrow>
        x \<in> set (names_in t) \<or> x \<notin> set (relation_names ts)"
      using without_column_simps(4) by blast
    show "\<And>f. f \<in> set (t_fks (without_column c t)) \<Longrightarrow> fk_ok ts f"
      using schema_okD(2) [OF ok t] by (simp add: without_column_simps)
    fix m v f
    assume mv: "(m, v) \<in> set (AList.update n (without_column c t) ts)" "f \<in> set (t_fks v)"
      "fk_table f = n"
    obtain l w where lw: "(l, w) \<in> set ts" "f \<in> set (t_fks w)"
      using update_fks [OF ok t _ mv(1,2)] by (auto simp: without_column_simps)
    have "fk_targets f \<in> set (keys t)" by (rule targets_are_keys [OF ok t lw mv(3)])
    moreover have "c \<notin> set (fk_targets f)" using g lw mv(3) by (auto simp: referenced_def)
    ultimately show "fk_targets f \<in> set (keys (without_column c t))"
      by (simp add: without_column_simps)
  qed
qed

lemma change_fks_ok:
  assumes ok: "schema_ok ts" and t: "map_of ts n = Some t"
    and fks: "\<And>f. f \<in> set fs \<Longrightarrow> fk_ok ts f \<and> set (fk_columns f) \<subseteq> set (column_names t)"
  shows "schema_ok (AList.update n (t\<lparr> t_fks := fs \<rparr>) ts)"
proof (rule schema_ok_update [OF ok t])
  show "table_ok (t\<lparr> t_fks := fs \<rparr>)"
    using schema_okD(1) [OF ok t] fks by (auto simp: table_ok_def)
  show "distinct (names_in (t\<lparr> t_fks := fs \<rparr>))" using names_distinct(1) [OF ok t] by simp
  show fs: "\<And>f. f \<in> set (t_fks (t\<lparr> t_fks := fs \<rparr>)) \<Longrightarrow> fk_ok ts f" using fks by simp
  show "\<And>m v f. (m, v) \<in> set (AList.update n (t\<lparr> t_fks := fs \<rparr>) ts) \<Longrightarrow> f \<in> set (t_fks v) \<Longrightarrow>
      fk_table f = n \<Longrightarrow> fk_targets f \<in> set (keys (t\<lparr> t_fks := fs \<rparr>))"
    by (rule targets_update [OF ok t _ fs]) simp
qed simp

lemma create_foreign_key_ok:
  assumes ok: "schema_ok ts" and st: "schema_step (CreateForeignKey f n m cs ds act) ts = Inr ts'"
  shows "schema_ok ts'"
proof -
  let ?fk = "\<lparr> fk_name = Some f, fk_columns = cs, fk_table = m, fk_targets = ds,
    fk_ondelete = act \<rparr>"
  obtain t where t: "map_of ts n = Some t" and g: "set cs \<subseteq> set (column_names t)" "fk_ok ts ?fk"
    and ts': "ts' = AList.update n (t\<lparr> t_fks := t_fks t @ [?fk] \<rparr>) ts"
    using st by (auto simp: with_table_Inr Let_def split: if_splits)
  have "fk_ok ts h \<and> set (fk_columns h) \<subseteq> set (column_names t)" if "h \<in> set (t_fks t @ [?fk])" for h
    using that schema_okD [OF ok t] g by (auto simp: table_ok_def)
  then show ?thesis unfolding ts' by (rule change_fks_ok [OF ok t])
qed

lemma drop_foreign_key_ok:
  assumes ok: "schema_ok ts" and st: "schema_step (DropForeignKey f n) ts = Inr ts'"
  shows "schema_ok ts'"
proof -
  let ?keep = "filter (\<lambda>g. fk_name g \<noteq> Some f)"
  obtain t where t: "map_of ts n = Some t"
    and ts': "ts' = AList.update n (t\<lparr> t_fks := ?keep (t_fks t) \<rparr>) ts"
    using st by (auto simp: with_table_Inr split: if_splits)
  have "fk_ok ts h \<and> set (fk_columns h) \<subseteq> set (column_names t)" if "h \<in> set (?keep (t_fks t))" for h
    using that schema_okD [OF ok t] by (auto simp: table_ok_def)
  then show ?thesis unfolding ts' by (rule change_fks_ok [OF ok t])
qed

theorem schema_step_ok: "schema_ok ts \<Longrightarrow> schema_step d ts = Inr ts' \<Longrightarrow> schema_ok ts'"
  by (cases d) (blast intro: create_table_ok drop_table_ok create_index_ok drop_index_ok
    add_column_ok drop_column_ok create_foreign_key_ok drop_foreign_key_ok)+

section \<open>Every operation on the rows\<close>

lemma fk_holds_elsewhere: "fk_table f \<noteq> n \<Longrightarrow> fk_holds (rows(n := rs)) f r = fk_holds rows f r"
  by (simp add: fk_holds_def)

lemma rows_okI:
  assumes "\<And>n. map_of ts n = None \<Longrightarrow> rows n = []"
    and "\<And>n t r. map_of ts n = Some t \<Longrightarrow> r \<in> set (rows n) \<Longrightarrow> row_ok t r"
    and "\<And>n t r f. map_of ts n = Some t \<Longrightarrow> r \<in> set (rows n) \<Longrightarrow> f \<in> set (t_fks t) \<Longrightarrow>
      fk_holds rows f r"
    and "\<And>n t k. map_of ts n = Some t \<Longrightarrow> k \<in> set (keys t) \<Longrightarrow> key_ok (rows n) k"
  shows "rows_ok ts rows"
  using assms by (auto simp: rows_ok_def split: option.splits)

lemma rows_ok_None: "rows_ok ts rows \<Longrightarrow> map_of ts n = None \<Longrightarrow> rows n = []"
  by (auto simp: rows_ok_def dest: spec [of _ n])

lemma create_table_rows:
  assumes ok: "schema_ok ts" "rows_ok ts rows"
    and st: "schema_step (CreateTable n items) ts = Inr ts'"
  shows "rows_ok ts' (rows(n := []))"
proof -
  define t where "t = build_table items"
  have ts': "ts' = ts @ [(n, t)]" and "n \<notin> set (relation_names ts)"
    using st by (auto simp: Let_def t_def split: if_splits)
  then have "map_of ts n = None" using table_name_in_names [of n ts] by (auto simp: map_of_eq_None_iff)
  then have same: "rows(n := []) = rows" using rows_ok_None [OF ok(2)] by auto
  have look: "map_of ts' m = (if m = n then Some t else map_of ts m)" for m
    using \<open>map_of ts n = None\<close> by (auto simp: ts' map_add_def split: option.splits)
  show ?thesis unfolding same
    by (rule rows_okI) (use rows_okD [OF ok(2)] rows_ok_None [OF ok(2)] same in
      \<open>auto simp: look key_ok_def split: if_splits dest: fun_cong [of _ _ n]\<close>)
qed

lemma drop_table_rows:
  assumes ok: "schema_ok ts" "rows_ok ts rows" and st: "schema_step (DropTable n) ts = Inr ts'"
  shows "rows_ok ts' (rows(n := []))"
proof -
  obtain t where ts': "ts' = AList.delete n ts" and free: "\<not> referenced ts' n (\<lambda>_. True)"
    using st by (auto simp: with_table_Inr split: if_splits)
  have look: "map_of ts' m = (if m = n then None else map_of ts m)" for m
    by (simp add: ts' delete_conv')
  have away: "fk_table f \<noteq> n" if "map_of ts' m = Some v" "f \<in> set (t_fks v)" for m v f
    using free map_of_SomeD [OF that(1)] that(2) by (auto simp: referenced_def)
  show ?thesis
  proof (rule rows_okI)
    fix m v r f
    assume m: "map_of ts' m = Some v" "r \<in> set ((rows(n := [])) m)" and f: "f \<in> set (t_fks v)"
    then show "fk_holds (rows(n := [])) f r"
      using away [OF m(1) f] rows_okD(2) [OF ok(2), of m v r f]
      by (auto simp: look fk_holds_elsewhere split: if_splits)
  qed (use rows_okD [OF ok(2)] rows_ok_None [OF ok(2)] in \<open>auto simp: look split: if_splits\<close>)
qed

lemma add_column_rows:
  assumes ok: "schema_ok ts" "rows_ok ts rows" and st: "schema_step (AddColumn n c) ts = Inr ts'"
    and ch: "row_check (AddColumn n c) rows = Inr ()"
  shows "rows_ok ts' (row_step (AddColumn n c) rows)"
proof -
  let ?g = "\<lambda>r. r(col_name c \<mapsto> initial_value c)"
  obtain t where t: "map_of ts n = Some t" and c: "col_name c \<notin> set (column_names t)"
    and dflt: "col_default c = None \<or> fits (col_type c) (initial_value c)"
    and ts': "ts' = AList.update n (t\<lparr> t_columns := t_columns t @ [c] \<rparr>) ts"
    using st by (auto simp: with_table_Inr split: if_splits)
  let ?u = "t\<lparr> t_columns := t_columns t @ [c] \<rparr>"
  have tok: "table_ok t" by (rule schema_okD(1) [OF ok(1) t])
  have uok: "schema_ok ts'" by (rule add_column_ok [OF ok(1) st])
  have u: "map_of ts' n = Some ?u" by (simp add: ts' update_conv')
  have "rows_ok ts' (rows(n := map ?g (rows n)))" unfolding ts'
  proof (rule rows_ok_update [OF ok(2) t])
    fix r assume r: "r \<in> set (rows n)"
    have old: "row_ok t r" by (rule rows_okD(1) [OF ok(2) t r])
    have "cell_ok d (?g r)" if "d \<in> set (t_columns t)" for d
    proof -
      have "col_name d \<noteq> col_name c" using that c by (metis column_names_def image_eqI list.set_map)
      then show ?thesis using old that by (simp add: row_ok_def cell_ok_def)
    qed
    moreover have "cell_ok c (?g r)"
      using ch r dflt by (auto simp: cell_ok_def initial_value_def split: option.splits)
    ultimately show "row_ok ?u (?g r)" using old by (auto simp: row_ok_def column_names_def)
  next
    show "\<And>k. k \<in> set (keys ?u) \<Longrightarrow> k \<in> set (keys t)" by simp
    show "\<And>k d r. k \<in> set (keys ?u) \<Longrightarrow> d \<in> set k \<Longrightarrow> ?g r d = r d"
      using keys_columns [OF tok] c by auto
    show "\<And>f r. f \<in> set (t_fks ?u) \<Longrightarrow> r \<in> set (rows n) \<Longrightarrow> fk_holds rows f r"
      using rows_okD(2) [OF ok(2) t] by simp
    show "\<And>f d r. f \<in> set (t_fks ?u) \<Longrightarrow> d \<in> set (fk_columns f) \<Longrightarrow> ?g r d = r d"
      using tok c by (auto simp: table_ok_def)
  next
    fix m v f d r
    assume "map_of (AList.update n ?u ts) m = Some v" "f \<in> set (t_fks v)" "fk_table f = n"
      and d: "d \<in> set (fk_targets f)"
    then have "fk_targets f \<in> set (keys ?u)"
      using schema_okD(2) [OF uok] fk_okD u by (metis ts')
    then have "d \<in> set (column_names t)" using keys_columns [OF tok _ d] by simp
    then show "?g r d = r d" using c by auto
  qed
  then show ?thesis by simp
qed

lemma drop_column_rows:
  assumes ok: "schema_ok ts" "rows_ok ts rows" and st: "schema_step (DropColumn n c) ts = Inr ts'"
  shows "rows_ok ts' (rows(n := map (\<lambda>r. r(c := None)) (rows n)))"
proof -
  let ?g = "\<lambda>r. r(c := None)" and ?u = "without_column c"
  obtain t where t: "map_of ts n = Some t" and g: "\<not> referenced ts n (\<lambda>k. c \<in> set k)"
    and ts': "ts' = AList.update n (?u t) ts"
    using st by (auto simp: with_table_Inr split: if_splits)
  show ?thesis unfolding ts'
  proof (rule rows_ok_update [OF ok(2) t])
    fix r assume "r \<in> set (rows n)"
    then have old: "row_ok t r" by (rule rows_okD(1) [OF ok(2) t])
    have cols: "set (t_columns (?u t)) \<subseteq> {d \<in> set (t_columns t). col_name d \<noteq> c}"
      by (auto simp: without_column_def)
    have "cell_ok d (?g r)" if "d \<in> set (t_columns (?u t))" for d
    proof -
      have "d \<in> set (t_columns t)" "col_name d \<noteq> c" using that cols by auto
      then show ?thesis using old by (simp add: row_ok_def cell_ok_def)
    qed
    then show "row_ok (?u t) (?g r)"
      using old by (auto simp: row_ok_def without_column_simps)
  next
    show "\<And>k. k \<in> set (keys (?u t)) \<Longrightarrow> k \<in> set (keys t)" by (simp add: without_column_simps)
    show "\<And>k d r. k \<in> set (keys (?u t)) \<Longrightarrow> d \<in> set k \<Longrightarrow> ?g r d = r d"
      by (auto simp: without_column_simps)
    show "\<And>f r. f \<in> set (t_fks (?u t)) \<Longrightarrow> r \<in> set (rows n) \<Longrightarrow> fk_holds rows f r"
      using rows_okD(2) [OF ok(2) t] by (simp add: without_column_simps)
    show "\<And>f d r. f \<in> set (t_fks (?u t)) \<Longrightarrow> d \<in> set (fk_columns f) \<Longrightarrow> ?g r d = r d"
      by (auto simp: without_column_simps)
  next
    fix m v f d r
    assume v: "map_of (AList.update n (?u t) ts) m = Some v" "f \<in> set (t_fks v)"
      and f: "fk_table f = n" "d \<in> set (fk_targets f)"
    obtain l w where "(l, w) \<in> set ts" "f \<in> set (t_fks w)"
      using update_fks [OF ok(1) t _ map_of_SomeD [OF v(1)] v(2)] by (auto simp: without_column_simps)
    then have "d \<noteq> c" using g f by (auto simp: referenced_def)
    then show "?g r d = r d" by simp
  qed
qed

lemma create_foreign_key_rows:
  assumes ok: "schema_ok ts" "rows_ok ts rows"
    and st: "schema_step (CreateForeignKey f n m cs ds act) ts = Inr ts'"
    and ch: "row_check (CreateForeignKey f n m cs ds act) rows = Inr ()"
  shows "rows_ok ts' rows"
proof -
  let ?fk = "\<lparr> fk_name = Some f, fk_columns = cs, fk_table = m, fk_targets = ds,
    fk_ondelete = act \<rparr>"
  obtain t where t: "map_of ts n = Some t"
    and ts': "ts' = AList.update n (t\<lparr> t_fks := t_fks t @ [?fk] \<rparr>) ts"
    using st by (auto simp: with_table_Inr Let_def split: if_splits)
  show ?thesis unfolding ts'
    by (rule rows_ok_update_same [OF ok(2) t]) (use ch rows_okD(2) [OF ok(2) t] in auto)
qed

lemma fewer_rules_rows:
  assumes ok: "rows_ok ts rows" and t: "map_of ts n = Some t"
    and u: "t_columns u = t_columns t" "set (keys u) \<subseteq> set (keys t)" "set (t_fks u) \<subseteq> set (t_fks t)"
  shows "rows_ok (AList.update n u ts) rows"
  by (rule rows_ok_update_same [OF ok t u(1)]) (use u(2,3) rows_okD(2) [OF ok t] in auto)

lemma unchanged_rows:
  assumes ok: "rows_ok ts rows" and st: "schema_step d ts = Inr ts'"
    and d: "(\<exists>i n cs. d = CreateIndex i n cs) \<or> (\<exists>i n. d = DropIndex i n) \<or> (\<exists>f n. d = DropForeignKey f n)"
  shows "rows_ok ts' rows"
  using d
proof (elim disjE exE)
  fix i n cs assume "d = CreateIndex i n cs"
  then show ?thesis using st ok
    by (auto simp: with_table_Inr keys_def split: if_splits intro!: fewer_rules_rows)
next
  fix i n assume "d = DropIndex i n"
  with st obtain t where t: "map_of ts n = Some t"
    and ts': "ts' = AList.update n
      (t\<lparr> t_indexes := filter (\<lambda>x. ix_name x \<noteq> i) (t_indexes t) \<rparr>) ts"
    by (auto simp: with_table_Inr split: option.split_asm if_split_asm)
  show ?thesis unfolding ts' by (rule fewer_rules_rows [OF ok t]) (auto simp: keys_def)
next
  fix f n assume "d = DropForeignKey f n"
  then show ?thesis using st ok
    by (auto simp: with_table_Inr split: if_splits intro!: fewer_rules_rows)
qed

lemma rows_step_ok:
  assumes ok: "schema_ok ts" "rows_ok ts rows" and st: "schema_step d ts = Inr ts'"
    and ch: "row_check d rows = Inr ()"
  shows "rows_ok ts' (row_step d rows)"
proof (cases d)
  case (CreateTable n items)
  then show ?thesis using create_table_rows [OF ok] st by simp
next
  case (DropTable n)
  then show ?thesis using drop_table_rows [OF ok] st by simp
next
  case (AddColumn n c)
  then show ?thesis using add_column_rows [OF ok] st ch by simp
next
  case (DropColumn n c)
  then show ?thesis using drop_column_rows [OF ok] st by simp
next
  case (CreateForeignKey f n m cs ds act)
  then show ?thesis using create_foreign_key_rows [OF ok] st ch by simp
qed (use unchanged_rows [OF ok(2) st] in auto)

section \<open>Runs of operations\<close>

text \<open>The interface that the runner of the migrations relies on: a step that keeps a property of
  the database.  A run of such steps, and a run of such runs, keeps it as well.\<close>

locale database_steps =
  fixes good :: "'db \<Rightarrow> bool" and step :: "'op \<Rightarrow> 'db \<Rightarrow> 'db result"
  assumes step_keeps: "good db \<Longrightarrow> step d db = Inr db' \<Longrightarrow> good db'"
begin

lemma run_keeps:
  assumes nil: "\<And>db. run [] db = Inr db"
    and cons: "\<And>d ds db. run (d # ds) db = rbind (step d db) (run ds)"
  shows "good db \<Longrightarrow> run ds db = Inr db' \<Longrightarrow> good db'"
proof (induction ds arbitrary: db)
  case (Cons d ds)
  then show ?case using step_keeps by (auto simp: cons guard_simps)
qed (simp add: nil)

end

interpretation ddl: database_steps database_ok ddl_step
proof
  fix db d db'
  assume "database_ok db" "ddl_step d db = Inr db'"
  then show "database_ok db'"
    using schema_step_ok rows_step_ok by (auto simp: database_ok_def ddl_step_def guard_simps)
qed

interpretation schema_ops: database_steps schema_ok schema_step
  by unfold_locales (rule schema_step_ok)

lemma ddl_run_ok: "database_ok db \<Longrightarrow> ddl_run ds db = Inr db' \<Longrightarrow> database_ok db'"
  by (rule ddl.run_keeps [of ddl_run]) simp_all

lemma schema_run_ok: "schema_ok ts \<Longrightarrow> schema_run ds ts = Inr ts' \<Longrightarrow> schema_ok ts'"
  by (rule schema_ops.run_keeps [of schema_run]) simp_all

lemma ddl_run_append: "ddl_run (ds @ es) db = rbind (ddl_run ds db) (ddl_run es)"
proof (induction ds arbitrary: db)
  case (Cons d ds)
  then show ?case by (cases "ddl_step d db") simp_all
qed simp

lemma schema_run_append: "schema_run (ds @ es) ts = rbind (schema_run ds ts) (schema_run es)"
proof (induction ds arbitrary: ts)
  case (Cons d ds)
  then show ?case by (cases "schema_step d ts") simp_all
qed simp

text \<open>A run changes the schema by its own operations on the schema, and the rows by theirs.\<close>

lemma ddl_run_schema: "ddl_run ds db = Inr db' \<Longrightarrow> schema_run ds (db_tables db) = Inr (db_tables db')"
proof (induction ds arbitrary: db)
  case (Cons d ds)
  then obtain db1 where "ddl_step d db = Inr db1" "ddl_run ds db1 = Inr db'"
    by (auto simp: guard_simps)
  then show ?case using Cons.IH [of db1] by (auto simp: ddl_step_def guard_simps)
qed simp

lemma ddl_run_rows: "ddl_run ds db = Inr db' \<Longrightarrow> db_rows db' = fold row_step ds (db_rows db)"
proof (induction ds arbitrary: db)
  case (Cons d ds)
  then obtain db1 where "ddl_step d db = Inr db1" "ddl_run ds db1 = Inr db'"
    by (auto simp: guard_simps)
  then show ?case using Cons.IH [of db1] by (auto simp: ddl_step_def guard_simps)
qed simp

text \<open>Operations whose checks do not read rows succeed on every database whose schema they fit.\<close>

fun reads_no_rows :: "ddl \<Rightarrow> bool" where
  "reads_no_rows (AddColumn n c) = (col_nullable c \<or> col_default c \<noteq> None)"
| "reads_no_rows (CreateForeignKey _ _ _ _ _ _) = False"
| "reads_no_rows _ = True"

lemma ddl_run_total:
  assumes "schema_run ds (db_tables db) = Inr ts" and "list_all reads_no_rows ds"
  shows "ddl_run ds db = Inr \<lparr> db_tables = ts, db_rows = fold row_step ds (db_rows db) \<rparr>"
  using assms
proof (induction ds arbitrary: db)
  case (Cons d ds)
  then have "row_check d (db_rows db) = Inr ()" by (cases d) auto
  then show ?case using Cons by (auto simp: ddl_step_def guard_simps)
qed simp

end
