(* ===== verification/Schema_Blocks.thy ===== *)
theory Schema_Blocks
  imports Schema_Laws
begin

text \<open>
  Reasoning about whole groups of schema operations without running them one by one: a block
  that creates a table with its indexes appends that table to the schema, blocks follow each
  other, tables nothing refers to can be dropped together, a column can be added with its index.
  The side conditions are about names, keys and foreign keys only, so that they evaluate fast.
\<close>

section \<open>A table with its indexes\<close>

fun add_index :: "ddl \<Rightarrow> table_def \<Rightarrow> table_def" where
  "add_index (CreateIndex i n cs) t =
     t\<lparr> t_indexes := t_indexes t @ [\<lparr> ix_name = i, ix_columns = cs, ix_unique = False \<rparr>] \<rparr>"
| "add_index _ t = t"

fun made :: "ddl list \<Rightarrow> string \<times> table_def" where
  "made (CreateTable n items # ds) = (n, fold add_index ds (build_table items))"
| "made _ = ('''', empty_table)"

fun index_for :: "string \<Rightarrow> table_def \<Rightarrow> ddl \<Rightarrow> bool" where
  "index_for n t (CreateIndex i m cs) = (m = n \<and> set cs \<subseteq> set (column_names t))"
| "index_for _ _ _ = False"

fun index_name :: "ddl \<Rightarrow> string" where
  "index_name (CreateIndex i m cs) = i"
| "index_name _ = ''''"

fun block_ok :: "ddl list \<Rightarrow> bool" where
  "block_ok (CreateTable n items # ds) =
     (let t = build_table items in table_ok t \<and> list_all (index_for n t) ds)"
| "block_ok _ = False"

lemma add_index_simps:
  assumes "index_for n t0 d"
  shows "keys (add_index d t) = keys t" "t_fks (add_index d t) = t_fks t"
    "t_columns (add_index d t) = t_columns t" "names_in (add_index d t) = names_in t @ [index_name d]"
  using assms by (cases d; simp add: keys_def names_in_def)+

lemma fold_add_index:
  assumes "list_all (index_for n t0) ds"
  shows "keys (fold add_index ds t) = keys t" "t_fks (fold add_index ds t) = t_fks t"
    "t_columns (fold add_index ds t) = t_columns t"
    "names_in (fold add_index ds t) = names_in t @ map index_name ds"
  using assms by (induction ds arbitrary: t) (auto simp: add_index_simps)

lemma update_at_end:
  "n \<notin> fst ` set ts \<Longrightarrow> AList.update n u (ts @ [(n, t)]) = ts @ [(n, u)]"
  by (induction ts) auto

lemma map_of_at_end: "n \<notin> fst ` set ts \<Longrightarrow> map_of (ts @ [(n, t)]) n = Some t"
  by (induction ts) auto

lemma add_indexes:
  assumes "list_all (index_for n t0) ds" and "column_names t = column_names t0"
    and "distinct (relation_names (ts @ [(n, fold add_index ds t)]))"
  shows "schema_run ds (ts @ [(n, t)]) = Inr (ts @ [(n, fold add_index ds t)])"
  using assms
proof (induction ds arbitrary: t)
  case (Cons d ds)
  then obtain i cs where d: "d = CreateIndex i n cs" "set cs \<subseteq> set (column_names t0)"
    and ds: "list_all (index_for n t0) ds" by (cases d) auto
  have names: "distinct (relation_names ts @ n # names_in t @ i # map index_name ds)"
    using Cons.prems(3) fold_add_index(4) [OF Cons.prems(1), of t] by (auto simp: d)
  then have n: "n \<notin> fst ` set ts" using table_name_in_names [of n ts] by auto
  have "schema_step d (ts @ [(n, t)]) = Inr (ts @ [(n, add_index d t)])"
    using names n d(2) Cons.prems(2) by (auto simp: d(1) with_table_def map_of_at_end update_at_end simp del: map_of_append)
  moreover have "schema_run ds (ts @ [(n, add_index d t)]) = Inr (ts @ [(n, fold add_index ds (add_index d t))])"
    using Cons.prems(2,3) by (intro Cons.IH [OF ds]) (auto simp: d(1) column_names_def)
  ultimately show ?case by simp
qed simp

text \<open>Only the names and the keys of the tables decide whether a foreign key resolves.\<close>

definition outline :: "string \<times> table_def \<Rightarrow> string \<times> string list list" where
  "outline p = (fst p, keys (snd p))"

definition resolves :: "(string \<times> string list list) list \<Rightarrow> foreign_key \<Rightarrow> bool" where
  "resolves os f = (case map_of os (fk_table f) of None \<Rightarrow> False
     | Some ks \<Rightarrow> fk_targets f \<in> set ks \<and> length (fk_columns f) = length (fk_targets f))"

lemma fk_ok_outline: "fk_ok ts f = resolves (map outline ts) f"
proof -
  have "map_of (map outline ts) n = map_option keys (map_of ts n)" for n
    by (induction ts) (auto simp: outline_def)
  then show ?thesis by (simp add: fk_ok_def resolves_def split: option.splits)
qed

fun all_resolve :: "(string \<times> string list list) list \<Rightarrow> ddl list list \<Rightarrow> bool" where
  "all_resolve os [] = True"
| "all_resolve os (b # bs) = (let p = made b; os' = os @ [outline p] in
     list_all (resolves os') (t_fks (snd p)) \<and> all_resolve os' bs)"

lemma create_block:
  assumes ok: "block_ok b" and names: "distinct (relation_names (ts @ [made b]))"
    and fks: "list_all (resolves (map outline ts @ [outline (made b)])) (t_fks (snd (made b)))"
  shows "schema_run b ts = Inr (ts @ [made b])"
proof -
  obtain n items ds where b: "b = CreateTable n items # ds"
    using ok by (cases b rule: block_ok.cases) auto
  let ?t = "build_table items"
  have t: "table_ok ?t" and ds: "list_all (index_for n ?t) ds" using ok by (simp_all add: b Let_def)
  have mb: "made b = (n, fold add_index ds ?t)" by (simp add: b)
  have nm: "distinct (relation_names ts @ n # names_in ?t @ map index_name ds)"
    using names fold_add_index(4) [OF ds, of ?t] by (simp add: mb)
  have "outline (made b) = outline (n, ?t)"
    using fold_add_index(1) [OF ds, of ?t] by (simp add: mb outline_def)
  then have "\<forall>f \<in> set (t_fks ?t). fk_ok (ts @ [(n, ?t)]) f"
    using fks fold_add_index(2) [OF ds, of ?t]
    by (auto simp: mb fk_ok_outline list_all_iff)
  then have "schema_step (CreateTable n items) ts = Inr (ts @ [(n, ?t)])"
    using nm t by (auto simp: Let_def)
  moreover have "schema_run ds (ts @ [(n, ?t)]) = Inr (ts @ [(n, fold add_index ds ?t)])"
    using names by (intro add_indexes [OF ds]) (simp_all add: mb)
  ultimately show ?thesis by (simp add: b)
qed

lemma create_blocks:
  assumes "list_all block_ok bs" and "distinct (relation_names (ts @ map made bs))"
    and "all_resolve (map outline ts) bs"
  shows "schema_run (concat bs) ts = Inr (ts @ map made bs)"
  using assms
proof (induction bs arbitrary: ts)
  case (Cons b bs)
  have "distinct (relation_names (ts @ [made b]))" using Cons.prems(2) by (cases "made b") auto
  then have "schema_run b ts = Inr (ts @ [made b])"
    using Cons.prems by (intro create_block) (simp_all add: Let_def)
  moreover have "schema_run (concat bs) (ts @ [made b]) = Inr ((ts @ [made b]) @ map made bs)"
    using Cons.prems by (intro Cons.IH) (simp_all add: Let_def)
  ultimately show ?case by (simp add: schema_run_append)
qed simp

section \<open>Dropping tables\<close>

definition no_references :: "string list \<Rightarrow> schema \<Rightarrow> bool" where
  "no_references ns ts = list_all (\<lambda>p. list_all (\<lambda>f. fk_table f \<notin> set ns) (t_fks (snd p))) ts"

lemma drop_tables:
  assumes "distinct (map fst ts)" and "set ns \<subseteq> fst ` set ts" and "distinct ns"
    and "no_references ns ts"
  shows "schema_run (map DropTable ns) ts = Inr (filter (\<lambda>p. fst p \<notin> set ns) ts)"
  using assms
proof (induction ns arbitrary: ts)
  case (Cons n ns)
  have del: "AList.delete n ts = filter (\<lambda>p. fst p \<noteq> n) ts"
    by (auto simp: AList.delete_eq intro!: filter_cong)
  obtain t where t: "map_of ts n = Some t"
    using Cons.prems(2) by (metis list.set_intros(1) map_of_eq_None_iff option.exhaust subsetD)
  have "\<not> referenced (AList.delete n ts) n (\<lambda>_. True)"
    using Cons.prems(4) by (auto simp: referenced_def no_references_def list_all_iff del)
  then have "schema_step (DropTable n) ts = Inr (AList.delete n ts)"
    using t by (simp add: with_table_def)
  moreover have "fst ` set (AList.delete n ts) = fst ` set ts - {n}" by (auto simp: del)
  then have "set ns \<subseteq> fst ` set (AList.delete n ts)" using Cons.prems(2,3) by auto
  then have "schema_run (map DropTable ns) (AList.delete n ts) =
      Inr (filter (\<lambda>p. fst p \<notin> set ns) (AList.delete n ts))"
    using Cons.prems by (intro Cons.IH)
      (auto simp: no_references_def list_all_iff del distinct_map_filter)
  ultimately show ?case by (simp add: del conj_commute)
qed simp

section \<open>A column with its index\<close>

definition gain_column :: "column \<Rightarrow> string \<Rightarrow> table_def \<Rightarrow> table_def" where
  "gain_column c i t = t\<lparr> t_columns := t_columns t @ [c], t_indexes := t_indexes t @
     [\<lparr> ix_name = i, ix_columns = [col_name c], ix_unique = False \<rparr>] \<rparr>"

lemma update_twice: "AList.update n v (AList.update n u ts) = AList.update n v ts"
  by (induction ts) auto

lemma update_same: "map_of ts n = Some t \<Longrightarrow> AList.update n t ts = ts"
  by (induction ts) (auto split: if_splits)

lemma relation_names_update:
  "map_of ts n = Some t \<Longrightarrow> names_in u = names_in t \<Longrightarrow>
     relation_names (AList.update n u ts) = relation_names ts"
  by (induction ts) (auto split: if_splits)

lemma add_column_run:
  assumes "map_of ts n = Some t" and "col_name c \<notin> set (column_names t)"
    and "col_default c = None \<or> fits (col_type c) (initial_value c)"
  shows "schema_step (AddColumn n c) ts =
    Inr (AList.update n (t\<lparr> t_columns := t_columns t @ [c] \<rparr>) ts)"
  using assms by (simp add: with_table_def)

lemma gain_column_run:
  assumes t: "map_of ts n = Some t" and c: "col_name c \<notin> set (column_names t)"
    and d: "col_default c = None" and i: "i \<notin> set (relation_names ts)"
  shows "schema_run [AddColumn n c, CreateIndex i n [col_name c]] ts =
    Inr (AList.update n (gain_column c i t) ts)"
proof -
  let ?u = "t\<lparr> t_columns := t_columns t @ [c] \<rparr>"
  have "relation_names (AList.update n ?u ts) = relation_names ts"
    by (rule relation_names_update [OF t]) simp
  then have "schema_step (CreateIndex i n [col_name c]) (AList.update n ?u ts) =
      Inr (AList.update n (gain_column c i t) (AList.update n ?u ts))"
    using i by (simp add: with_table_def update_conv' column_names_def gain_column_def)
  then show ?thesis using add_column_run [OF t c] d by (simp add: update_twice)
qed

section \<open>Undoing\<close>

text \<open>A column that no key, foreign key or index of the table mentions can be dropped again.\<close>

definition mentions :: "table_def \<Rightarrow> string \<Rightarrow> bool" where
  "mentions t c \<longleftrightarrow> c \<in> set (column_names t) \<or> (\<exists>k \<in> set (constraint_keys t). c \<in> set (snd k)) \<or>
     (\<exists>f \<in> set (t_fks t). c \<in> set (fk_columns f)) \<or> (\<exists>i \<in> set (t_indexes t). c \<in> set (ix_columns i))"

lemma table_ok_mentions: "table_ok t \<Longrightarrow> c \<notin> set (column_names t) \<Longrightarrow> \<not> mentions t c"
  by (auto simp: mentions_def table_ok_def keys_def)

lemma without_new_column:
  assumes "\<not> mentions t (col_name c)"
  shows "without_column (col_name c) (t\<lparr> t_columns := t_columns t @ [c] \<rparr>) = t"
proof -
  have "col_name d \<noteq> col_name c" if "d \<in> set (t_columns t)" for d
    using assms that unfolding mentions_def column_names_def set_map by (metis imageI)
  then have "filter (\<lambda>d. col_name d \<noteq> col_name c) (t_columns t) = t_columns t"
    by (auto intro!: filter_True)
  moreover have "filter (\<lambda>k. col_name c \<notin> set (snd k)) (t_uniques t) = t_uniques t"
    using assms by (force simp: mentions_def constraint_keys_def intro!: filter_True)
  moreover have "filter (\<lambda>f. col_name c \<notin> set (fk_columns f)) (t_fks t) = t_fks t"
    using assms by (auto simp: mentions_def intro!: filter_True)
  moreover have "filter (\<lambda>i. col_name c \<notin> set (ix_columns i)) (t_indexes t) = t_indexes t"
    using assms by (auto simp: mentions_def intro!: filter_True)
  moreover have "(case t_primary t of None \<Rightarrow> None
      | Some k \<Rightarrow> if col_name c \<in> set (snd k) then None else Some k) = t_primary t"
    using assms by (auto simp: mentions_def constraint_keys_def split: option.splits)
  ultimately show ?thesis by (simp add: without_column_def)
qed

text \<open>Adding and dropping a column restores the rows that did not have it.\<close>

lemma rows_without_new_column:
  assumes "\<And>r. r \<in> set rs \<Longrightarrow> r c = None"
  shows "map (\<lambda>r. r(c := None)) (map (\<lambda>r. r(c \<mapsto> v)) rs) = rs"
proof -
  have "(r(c \<mapsto> v))(c := None) = r" if "r \<in> set rs" for r
    using assms [OF that] by auto
  then show ?thesis by (simp add: map_idI)
qed

lemma rows_lack_column:
  assumes "database_ok db" and "map_of (db_tables db) n = Some t" and "c \<notin> set (column_names t)"
    and "r \<in> set (db_rows db n)"
  shows "r c = None"
proof -
  have "row_ok t r" 
    using assms rows_okD(1) [of "db_tables db" "db_rows db" n t r] by (simp add: database_ok_def)
  then show ?thesis using assms(3) by (auto simp: row_ok_def)
qed

lemma rows_of_absent_table:
  "database_ok db \<Longrightarrow> n \<notin> fst ` set (db_tables db) \<Longrightarrow> db_rows db n = []"
  using rows_ok_None [of "db_tables db" "db_rows db" n]
  by (auto simp: database_ok_def map_of_eq_None_iff)

end
