(* ===== verification/Migration_Schemas.thy ===== *)
theory Migration_Schemas
  imports Migrations Schema_Blocks
begin

text \<open>
  The schema after every revision, evaluated.  Each table is the result of the block that creates
  it; the names, keys and foreign keys that the operations check are evaluated here, one group at a
  time, and the schema after a revision is the list of the tables then in place.
\<close>

section \<open>The blocks\<close>

definition blocks_0006 :: "ddl list list" where
  "blocks_0006 =
     [create_domain_events, create_outbox_events, create_global_broker_sync_state,
     create_global_broker_accounts, create_global_broker_positions,
     create_global_broker_orders, create_global_order_intents, create_ai_workflow_runs,
     create_global_guardian_incidents, create_research_observations, create_strategy_passports]"

definition blocks_tenants :: "ddl list list" where
  "blocks_tenants =
     [create_app_users, create_workspaces, create_invitations, create_invitation_redemptions,
     create_workspace_credentials, create_demo_sessions, create_watchlist_symbols,
     create_connected_opportunities, create_audit_records]"

definition blocks_owned :: "ddl list list" where
  "blocks_owned =
     [create_broker_sync_state, create_broker_accounts, create_broker_positions,
     create_broker_orders, create_order_intents, create_guardian_incidents]"

definition blocks_kept :: "ddl list list" where
  "blocks_kept =
     [create_domain_events, create_outbox_events, create_ai_workflow_runs,
     create_research_observations, create_strategy_passports]"

lemmas block_lists = blocks_0006_def blocks_tenants_def blocks_owned_def blocks_kept_def

text \<open>The name of the table that a block makes.\<close>

lemma made_names [simp]:
  "fst (made create_domain_events) = ''domain_events''"
  "fst (made create_outbox_events) = ''outbox_events''"
  "fst (made create_global_broker_sync_state) = ''broker_sync_state''"
  "fst (made create_global_broker_accounts) = ''broker_accounts''"
  "fst (made create_global_broker_positions) = ''broker_positions''"
  "fst (made create_global_broker_orders) = ''broker_orders''"
  "fst (made create_global_order_intents) = ''order_intents''"
  "fst (made create_ai_workflow_runs) = ''ai_workflow_runs''"
  "fst (made create_global_guardian_incidents) = ''guardian_incidents''"
  "fst (made create_research_observations) = ''research_observations''"
  "fst (made create_strategy_passports) = ''strategy_passports''"
  "fst (made create_app_users) = ''app_users''"
  "fst (made create_workspaces) = ''workspaces''"
  "fst (made create_invitations) = ''invitations''"
  "fst (made create_invitation_redemptions) = ''invitation_redemptions''"
  "fst (made create_workspace_credentials) = ''workspace_credentials''"
  "fst (made create_demo_sessions) = ''demo_sessions''"
  "fst (made create_watchlist_symbols) = ''watchlist_symbols''"
  "fst (made create_connected_opportunities) = ''connected_opportunities''"
  "fst (made create_audit_records) = ''audit_records''"
  "fst (made create_broker_sync_state) = ''broker_sync_state''"
  "fst (made create_broker_accounts) = ''broker_accounts''"
  "fst (made create_broker_positions) = ''broker_positions''"
  "fst (made create_broker_orders) = ''broker_orders''"
  "fst (made create_order_intents) = ''order_intents''"
  "fst (made create_guardian_incidents) = ''guardian_incidents''"
  "fst (made create_connected_scan_runs) = ''connected_scan_runs''"
  by (simp_all add: index_columns_def
      create_domain_events_def create_outbox_events_def create_global_broker_sync_state_def
      create_global_broker_accounts_def create_global_broker_positions_def
      create_global_broker_orders_def create_global_order_intents_def
      create_ai_workflow_runs_def create_global_guardian_incidents_def
      create_research_observations_def create_strategy_passports_def create_app_users_def
      create_workspaces_def create_invitations_def create_invitation_redemptions_def
      create_workspace_credentials_def create_demo_sessions_def create_watchlist_symbols_def
      create_connected_opportunities_def create_audit_records_def create_broker_sync_state_def
      create_broker_accounts_def create_broker_positions_def create_broker_orders_def
      create_order_intents_def create_guardian_incidents_def create_connected_scan_runs_def)

section \<open>Evaluated side conditions\<close>

lemma blocks_ok_0006: "list_all block_ok blocks_0006"
  by code_simp

lemma blocks_ok_tenants: "list_all block_ok blocks_tenants"
  by code_simp

lemma blocks_ok_owned: "list_all block_ok (create_connected_scan_runs # blocks_owned)"
  by code_simp

lemma resolve_0006: "all_resolve [] (blocks_0006 @ blocks_tenants)"
  by code_simp

lemma resolve_owned:
  "all_resolve (map outline (map made (blocks_kept @ blocks_tenants))) (blocks_owned @ [create_connected_scan_runs])"
  by code_simp

lemma distinct_0006: "distinct (relation_names (map made blocks_0006))"
  by code_simp

lemma distinct_tenants: "distinct (relation_names (map made blocks_tenants))"
  by code_simp

lemma distinct_owned: "distinct (relation_names (map made (blocks_owned @ [create_connected_scan_runs])))"
  by code_simp

lemma disjoint_0006_tenants:
  "list_all (\<lambda>n. n \<notin> set (relation_names (map made blocks_tenants))) (relation_names (map made blocks_0006))"
  by code_simp

lemma disjoint_kept_owned:
  "list_all (\<lambda>n. n \<notin> set (relation_names (map made (blocks_owned @ [create_connected_scan_runs]))))
     (relation_names (map made blocks_kept))"
  by code_simp

lemma disjoint_tenants_owned:
  "list_all (\<lambda>n. n \<notin> set (relation_names (map made (blocks_owned @ [create_connected_scan_runs]))))
     (relation_names (map made blocks_tenants))"
  by code_simp

lemma unreferenced_global:
  "no_references [''broker_orders'', ''broker_positions'', ''broker_accounts'', ''broker_sync_state'',
     ''order_intents'', ''guardian_incidents''] (map made (blocks_0006 @ blocks_tenants))"
  by code_simp

lemma owner_indexes_new:
  "list_all (\<lambda>i. i \<notin> set (relation_names (map made (blocks_kept @ blocks_tenants @ blocks_owned @
       [create_connected_scan_runs]))))
     [''ix_domain_events_workspace_id'', ''ix_outbox_events_workspace_id'',
      ''ix_ai_workflow_runs_workspace_id'', ''ix_research_observations_workspace_id'',
      ''ix_connected_opportunities_scan_run_id'']"
  by code_simp

lemma new_columns:
  "''workspace_id'' \<notin> set (column_names (snd (made create_domain_events)))"
  "''workspace_id'' \<notin> set (column_names (snd (made create_outbox_events)))"
  "''workspace_id'' \<notin> set (column_names (snd (made create_ai_workflow_runs)))"
  "''workspace_id'' \<notin> set (column_names (snd (made create_research_observations)))"
  "''code_format'' \<notin> set (column_names (snd (made create_invitations)))"
  "''scan_run_id'' \<notin> set (column_names (snd (made create_connected_opportunities)))"
  by code_simp+

section \<open>The schema after revisions 0006 and 0007\<close>

lemma resolve_append:
  "all_resolve os (bs @ cs) \<longleftrightarrow> all_resolve os bs \<and> all_resolve (os @ map outline (map made bs)) cs"
  by (induction bs arbitrary: os) (simp_all add: Let_def)

lemma run_0006: "schema_run (concat blocks_0006) [] = Inr (map made blocks_0006)"
  using create_blocks [of blocks_0006 "[]"] blocks_ok_0006 distinct_0006 resolve_0006
  by (simp add: resolve_append)

lemma run_tenants:
  "schema_run (concat blocks_tenants) (map made blocks_0006) =
     Inr (map made (blocks_0006 @ blocks_tenants))"
  using create_blocks [of blocks_tenants "map made blocks_0006"] blocks_ok_tenants distinct_0006
    distinct_tenants disjoint_0006_tenants resolve_0006
  by (auto simp: resolve_append list_all_iff)

lemma run_discard:
  "schema_run discard_global (map made (blocks_0006 @ blocks_tenants)) =
     Inr (map made (blocks_kept @ blocks_tenants))"
proof -
  have "distinct (relation_names (map made (blocks_0006 @ blocks_tenants)))"
    using distinct_0006 distinct_tenants disjoint_0006_tenants by (auto simp: list_all_iff)
  then show ?thesis
    using drop_tables [OF distinct_names _ _ unreferenced_global]
    by (simp add: discard_global_def block_lists)
qed

lemma list_all_disjoint: "list_all (\<lambda>n. n \<notin> set ys) xs \<longleftrightarrow> set xs \<inter> set ys = {}"
  by (auto simp: list_all_iff)

lemma relation_names_filter:
  "set (relation_names (filter P ts)) \<subseteq> set (relation_names ts)"
  "distinct (relation_names ts) \<Longrightarrow> distinct (relation_names (filter P ts))"
proof -
  show sub: "set (relation_names (filter P ts)) \<subseteq> set (relation_names ts)" for ts
    by (induction ts) auto
  show "distinct (relation_names ts) \<Longrightarrow> distinct (relation_names (filter P ts))"
  proof (induction ts)
    case (Cons p ts)
    then show ?case using sub [of ts] by (cases p) auto
  qed simp
qed

lemma blocks_kept_filter:
  "map made blocks_kept = filter (\<lambda>p. fst p \<notin> set [''broker_orders'', ''broker_positions'',
     ''broker_accounts'', ''broker_sync_state'', ''order_intents'', ''guardian_incidents''])
     (map made blocks_0006)"
  by (simp add: block_lists)

lemma distinct_kept:
  "distinct (relation_names (map made blocks_kept))"
  "set (relation_names (map made blocks_kept)) \<inter> set (relation_names (map made blocks_tenants)) = {}"
proof -
  show "distinct (relation_names (map made blocks_kept))"
    unfolding blocks_kept_filter by (rule relation_names_filter(2) [OF distinct_0006])
  have "set (relation_names (map made blocks_kept)) \<subseteq> set (relation_names (map made blocks_0006))"
    unfolding blocks_kept_filter by (rule relation_names_filter(1))
  then show "set (relation_names (map made blocks_kept)) \<inter>
      set (relation_names (map made blocks_tenants)) = {}"
    using disjoint_0006_tenants unfolding list_all_disjoint by blast
qed

lemma distinct_0009:
  "distinct (relation_names (map made (blocks_kept @ blocks_tenants @ blocks_owned @
     [create_connected_scan_runs])))"
proof -
  let ?k = "relation_names (map made blocks_kept)" and ?t = "relation_names (map made blocks_tenants)"
  let ?o = "relation_names (map made (blocks_owned @ [create_connected_scan_runs]))"
  have "set ?k \<inter> set ?o = {}" "set ?t \<inter> set ?o = {}"
    using disjoint_kept_owned disjoint_tenants_owned by (simp_all only: list_all_disjoint)
  then have "distinct (?k @ ?t @ ?o)"
    using distinct_kept distinct_tenants distinct_owned
    by (simp only: distinct_append set_append Int_Un_distrib) simp
  then show ?thesis by (simp only: map_append relation_names_append)
qed

lemma run_owned:
  "schema_run (concat blocks_owned) (map made (blocks_kept @ blocks_tenants)) =
     Inr (map made (blocks_kept @ blocks_tenants @ blocks_owned))"
proof -
  have "distinct (relation_names (map made (blocks_kept @ blocks_tenants) @ map made blocks_owned))"
    using distinct_0009 unfolding map_append relation_names_append distinct_append by auto
  then show ?thesis
    using create_blocks [of blocks_owned "map made (blocks_kept @ blocks_tenants)"] blocks_ok_owned
      resolve_owned by (simp add: resolve_append)
qed

section \<open>Owner columns\<close>

definition owner :: column where
  "owner = sa_column ''workspace_id'' SqlUuid True"

definition scan_run :: column where
  "scan_run = sa_column ''scan_run_id'' SqlUuid True"

lemma new_column_simps [simp]:
  "col_name owner = ''workspace_id''" "col_default owner = None"
  "col_name scan_run = ''scan_run_id''" "col_default scan_run = None"
  by (simp_all add: owner_def scan_run_def sa_column_def)

text \<open>A table that gains a column with an index, at its place in the schema.\<close>

definition gains :: "column \<Rightarrow> string \<Rightarrow> string \<times> table_def \<Rightarrow> string \<times> table_def" where
  "gains c i p = (fst p, gain_column c i (snd p))"

lemma fst_gains [simp]: "fst (gains c i p) = fst p"
  by (simp add: gains_def)

lemma names_gains: "names_in (snd (gains c i p)) = names_in (snd p) @ [i]"
  by (simp add: gains_def gain_column_def names_in_def constraint_keys_def)

lemma gain_at:
  assumes "distinct (relation_names (xs @ p # ys))" and "col_name c \<notin> set (column_names (snd p))"
    and "col_default c = None" and "i \<notin> set (relation_names (xs @ p # ys))"
  shows "schema_run [AddColumn (fst p) c, CreateIndex i (fst p) [col_name c]] (xs @ p # ys) =
      Inr (xs @ gains c i p # ys)"
    and "distinct (relation_names (xs @ gains c i p # ys))"
    and "set (relation_names (xs @ gains c i p # ys)) = insert i (set (relation_names (xs @ p # ys)))"
proof -
  obtain n t where p: "p = (n, t)" by (cases p)
  have n: "n \<notin> fst ` set xs" using assms(1) table_name_in_names [of n xs] by (auto simp: p)
  then have "map_of (xs @ (n, t) # ys) n = Some t" by (induction xs) auto
  moreover have "AList.update n u (xs @ (n, t) # ys) = xs @ (n, u) # ys" for u
    using n by (induction xs) auto
  ultimately show "schema_run [AddColumn (fst p) c, CreateIndex i (fst p) [col_name c]] (xs @ p # ys) =
      Inr (xs @ gains c i p # ys)"
    using gain_column_run [of "xs @ (n, t) # ys" n t c i] assms(2-4) by (simp add: p gains_def)
  have g: "gains c i (n, t) = (n, gain_column c i t)" by (simp add: gains_def)
  have ng: "names_in (gain_column c i t) = names_in t @ [i]"
    by (simp add: gain_column_def names_in_def constraint_keys_def)
  show "distinct (relation_names (xs @ gains c i p # ys))"
    using assms(1,4) unfolding p g by (auto simp: ng)
  show "set (relation_names (xs @ gains c i p # ys)) = insert i (set (relation_names (xs @ p # ys)))"
    unfolding p g by (auto simp: ng)
qed

fun gain_ops :: "column \<Rightarrow> (string \<times> string \<times> table_def) list \<Rightarrow> ddl list" where
  "gain_ops c [] = []"
| "gain_ops c ((i, p) # gs) =
     AddColumn (fst p) c # CreateIndex i (fst p) [col_name c] # gain_ops c gs"

lemma gain_all:
  assumes "distinct (relation_names (xs @ map snd gs @ ys))" and "distinct (map fst gs)"
    and "\<And>i. i \<in> fst ` set gs \<Longrightarrow> i \<notin> set (relation_names (xs @ map snd gs @ ys))"
    and "\<And>p. p \<in> snd ` set gs \<Longrightarrow> col_name c \<notin> set (column_names (snd p))"
    and "col_default c = None"
  shows "schema_run (gain_ops c gs) (xs @ map snd gs @ ys) =
      Inr (xs @ map (\<lambda>(i, p). gains c i p) gs @ ys)"
  using assms
proof (induction gs arbitrary: xs)
  case (Cons g gs)
  obtain i p where g: "g = (i, p)" by (cases g)
  let ?ys = "map snd gs @ ys"
  have "distinct (relation_names (xs @ p # ?ys))" "i \<notin> set (relation_names (xs @ p # ?ys))"
    "col_name c \<notin> set (column_names (snd p))"
    using Cons.prems(1) Cons.prems(3) [of i] Cons.prems(4) [of p] by (simp_all add: g)
  note step = gain_at [OF this(1,3) Cons.prems(5) this(2)]
  have "schema_run (gain_ops c gs) ((xs @ [gains c i p]) @ map snd gs @ ys) =
      Inr ((xs @ [gains c i p]) @ map (\<lambda>(i, p). gains c i p) gs @ ys)"
  proof (rule Cons.IH)
    show "distinct (relation_names ((xs @ [gains c i p]) @ map snd gs @ ys))" using step(2) by simp
    fix j assume j: "j \<in> fst ` set gs"
    have "j \<noteq> i" using Cons.prems(2) j by (auto simp: g)
    moreover have "j \<notin> set (relation_names (xs @ p # ?ys))"
      using Cons.prems(3) [of j] j by (simp add: g)
    ultimately show "j \<notin> set (relation_names ((xs @ [gains c i p]) @ map snd gs @ ys))"
      using step(3) by simp
  qed (use Cons.prems in \<open>auto simp: g\<close>)
  moreover have "gain_ops c (g # gs) = [AddColumn (fst p) c, CreateIndex i (fst p) [col_name c]] @ gain_ops c gs"
    by (simp add: g)
  ultimately show ?case using step(1) by (simp only: schema_run_append) (simp add: g)
qed simp

text \<open>The tables that gain an owner, with the names of their new indexes.\<close>

definition owner_gains :: "(string \<times> string \<times> table_def) list" where
  "owner_gains =
    [(''ix_domain_events_workspace_id'', made create_domain_events),
     (''ix_outbox_events_workspace_id'', made create_outbox_events),
     (''ix_ai_workflow_runs_workspace_id'', made create_ai_workflow_runs),
     (''ix_research_observations_workspace_id'', made create_research_observations)]"

definition schema_0007 :: schema where
  "schema_0007 = map (\<lambda>(i, p). gains owner i p) owner_gains @
     map made (create_strategy_passports # blocks_tenants @ blocks_owned)"

lemma kept_owners:
  "map made (blocks_kept @ bs) = map snd owner_gains @ map made (create_strategy_passports # bs)"
  by (simp add: blocks_kept_def owner_gains_def)

lemma run_owners:
  "schema_run add_owners (map made (blocks_kept @ blocks_tenants @ blocks_owned)) = Inr schema_0007"
proof -
  have "add_owners = gain_ops owner owner_gains"
    by (simp add: add_owners_def owner_gains_def owner_def sa_column_def)
  moreover have "schema_run (gain_ops owner owner_gains) ([] @ map snd owner_gains @
      map made (create_strategy_passports # blocks_tenants @ blocks_owned)) =
      Inr ([] @ map (\<lambda>(i, p). gains owner i p) owner_gains @
        map made (create_strategy_passports # blocks_tenants @ blocks_owned))"
  proof (rule gain_all)
    have names: "map snd owner_gains @ map made (create_strategy_passports # blocks_tenants @ blocks_owned)
        = map made (blocks_kept @ blocks_tenants @ blocks_owned)"
      by (simp add: blocks_kept_def owner_gains_def)
    show "distinct (relation_names ([] @ map snd owner_gains @
        map made (create_strategy_passports # blocks_tenants @ blocks_owned)))"
      unfolding append.simps names using distinct_0009
      unfolding map_append relation_names_append distinct_append by auto
    show "distinct (map fst owner_gains)" by (simp add: owner_gains_def)
    show "i \<notin> set (relation_names ([] @ map snd owner_gains @
        map made (create_strategy_passports # blocks_tenants @ blocks_owned)))"
      if "i \<in> fst ` set owner_gains" for i
      unfolding append.simps names using that owner_indexes_new
      unfolding map_append relation_names_append by (auto simp: owner_gains_def)
    show "\<And>p. p \<in> snd ` set owner_gains \<Longrightarrow> col_name owner \<notin> set (column_names (snd p))"
      using new_columns by (auto simp: owner_gains_def)
  qed simp
  ultimately show ?thesis by (simp only: kept_owners schema_0007_def append.simps)
qed

lemma upgrade_0007_blocks:
  "upgrade_0007 = concat blocks_tenants @ discard_global @ concat blocks_owned @ add_owners"
  by (simp add: upgrade_0007_def block_lists)

lemma run_0007: "schema_run upgrade_0007 (map made blocks_0006) = Inr schema_0007"
  by (simp only: upgrade_0007_blocks schema_run_append run_tenants rbind_Inr run_discard run_owned
      run_owners)

section \<open>Invitation codes and scan runs\<close>

definition code_format :: column where
  "code_format = (sa_column ''code_format'' (SqlString 32) False)\<lparr> col_default := Some ''legacy_urlsafe'' \<rparr>"

definition invitations_0008 :: table_def where
  "invitations_0008 = (let t = snd (made create_invitations) in
     t\<lparr> t_columns := t_columns t @ [code_format] \<rparr>)"

definition schema_0008 :: schema where
  "schema_0008 = AList.update ''invitations'' invitations_0008 schema_0007"

lemma code_format_simps [simp]:
  "col_name code_format = ''code_format''" "col_nullable code_format = False"
  "col_default code_format = Some ''legacy_urlsafe''"
  "initial_value code_format = VText ''legacy_urlsafe''"
  by (simp_all add: code_format_def sa_column_def initial_value_def)

lemma lookup_0007:
  "map_of schema_0007 ''invitations'' = Some (snd (made create_invitations))"
  "map_of schema_0007 ''connected_opportunities'' = Some (snd (made create_connected_opportunities))"
  by (simp_all add: schema_0007_def owner_gains_def block_lists map_add_def)

lemma run_0008: "schema_run upgrade_0008 schema_0007 = Inr schema_0008"
proof -
  have ops: "upgrade_0008 = [AddColumn ''invitations'' code_format]"
    by (simp add: upgrade_0008_def add_code_format_def code_format_def)
  have "fits (col_type code_format) (initial_value code_format)"
    by (simp add: code_format_def sa_column_def initial_value_def)
  then have step: "schema_step (AddColumn ''invitations'' code_format) schema_0007 = Inr schema_0008"
    unfolding schema_0008_def invitations_0008_def Let_def using new_columns
    by (intro add_column_run [OF lookup_0007(1)]) simp_all
  show ?thesis unfolding ops by (simp add: step del: schema_step.simps)
qed

lemma relation_names_gains:
  "set (relation_names (map (\<lambda>(i, p). gains c i p) gs)) = fst ` set gs \<union> set (relation_names (map snd gs))"
proof (induction gs)
  case (Cons g gs)
  obtain i n t where g: "g = (i, n, t)" by (cases g) auto
  have "gains c i (n, t) = (n, gain_column c i t)" "names_in (gain_column c i t) = names_in t @ [i]"
    by (simp_all add: gains_def gain_column_def names_in_def constraint_keys_def)
  then show ?case using Cons by (auto simp: g)
qed simp

lemma names_0007:
  "set (relation_names schema_0007) = set [''ix_domain_events_workspace_id'',
     ''ix_outbox_events_workspace_id'', ''ix_ai_workflow_runs_workspace_id'',
     ''ix_research_observations_workspace_id''] \<union>
     set (relation_names (map made (blocks_kept @ blocks_tenants @ blocks_owned)))"
proof -
  have "set (relation_names schema_0007) = fst ` set owner_gains \<union>
      set (relation_names (map made (blocks_kept @ blocks_tenants @ blocks_owned)))"
    unfolding schema_0007_def kept_owners relation_names_append set_append relation_names_gains
    by (rule Un_assoc)
  then show ?thesis by (simp add: owner_gains_def)
qed

lemma names_0008: "relation_names schema_0008 = relation_names schema_0007"
  unfolding schema_0008_def
  by (rule relation_names_update [OF lookup_0007(1)]) (simp add: invitations_0008_def Let_def)

lemma schema_0008_ok: "schema_ok schema_0008"
proof -
  have "schema_ok []" by (simp add: schema_ok_def)
  then show ?thesis using schema_run_ok run_0006 run_0007 run_0008 by blast
qed

definition opportunities_0009 :: table_def where
  "opportunities_0009 = (let t = snd (made create_connected_opportunities) in
     t\<lparr> t_columns := t_columns t @ [scan_run],
        t_fks := t_fks t @ [\<lparr> fk_name = Some ''fk_connected_opportunities_scan_run_id'',
          fk_columns = [''scan_run_id''], fk_table = ''connected_scan_runs'',
          fk_targets = [''scan_run_id''], fk_ondelete = OnSetNull \<rparr>],
        t_indexes := t_indexes t @ [\<lparr> ix_name = ''ix_connected_opportunities_scan_run_id'',
          ix_columns = [''scan_run_id''], ix_unique = False \<rparr>] \<rparr>)"

definition schema_0009 :: schema where
  "schema_0009 = AList.update ''connected_opportunities'' opportunities_0009
     (schema_0008 @ [made create_connected_scan_runs])"

lemma scan_run_key: "keys (snd (made create_connected_scan_runs)) = [[''scan_run_id'']]"
  by code_simp

lemma opportunities_unnamed_fks:
  "list_all (\<lambda>g. fk_name g \<noteq> Some ''fk_connected_opportunities_scan_run_id'')
     (t_fks (snd (made create_connected_opportunities)))"
  by code_simp

lemma block_scan_runs:
  "block_ok create_connected_scan_runs"
  "list_all (resolves (map outline schema_0008 @ [outline (made create_connected_scan_runs)]))
     (t_fks (snd (made create_connected_scan_runs)))"
proof -
  show "block_ok create_connected_scan_runs" using blocks_ok_owned by simp
  have "t_fks (snd (made create_connected_scan_runs)) = [\<lparr> fk_name = None,
      fk_columns = [''workspace_id''], fk_table = ''workspaces'', fk_targets = [''workspace_id''],
      fk_ondelete = OnCascade \<rparr>]" by code_simp
  moreover have "map_of schema_0008 ''workspaces'' = Some (snd (made create_workspaces))"
    by (simp add: schema_0008_def update_conv' schema_0007_def owner_gains_def block_lists map_add_def)
  then have "fk_ok schema_0008 \<lparr> fk_name = None,
      fk_columns = [''workspace_id''], fk_table = ''workspaces'', fk_targets = [''workspace_id''],
      fk_ondelete = OnCascade \<rparr>"
    using resolve_owned by (simp add: fk_ok_def) code_simp
  ultimately show "list_all (resolves (map outline schema_0008 @ [outline (made create_connected_scan_runs)]))
     (t_fks (snd (made create_connected_scan_runs)))"
    by (auto simp: fk_ok_outline resolves_def map_add_def split: option.splits)
qed

lemma names_fresh_0009:
  "distinct (relation_names (schema_0008 @ [made create_connected_scan_runs]))"
  "''ix_connected_opportunities_scan_run_id'' \<notin>
     set (relation_names (schema_0008 @ [made create_connected_scan_runs]))"
proof -
  let ?s = "relation_names [made create_connected_scan_runs]"
  let ?all = "relation_names (map made (blocks_kept @ blocks_tenants @ blocks_owned))"
  have split: "relation_names (map made (blocks_kept @ blocks_tenants @ blocks_owned @
      [create_connected_scan_runs])) = ?all @ ?s"
    by (simp only: map_append relation_names_append append_assoc list.map)
  have d: "distinct (relation_names schema_0008)" using schema_0008_ok by (simp add: schema_ok_def)
  have s: "distinct ?s" "set ?all \<inter> set ?s = {}"
    using distinct_0009 unfolding split distinct_append by blast+
  have new: "i \<notin> set ?all \<and> i \<notin> set ?s" if "i \<in> set [''ix_domain_events_workspace_id'',
      ''ix_outbox_events_workspace_id'', ''ix_ai_workflow_runs_workspace_id'',
      ''ix_research_observations_workspace_id'', ''ix_connected_opportunities_scan_run_id'']" for i
    using owner_indexes_new that unfolding split list_all_iff set_append by blast
  have "set (relation_names schema_0008) \<inter> set ?s = {}"
    unfolding names_0008 names_0007 using s(2) new by auto
  then show "distinct (relation_names (schema_0008 @ [made create_connected_scan_runs]))"
    using d s(1) by (simp only: relation_names_append distinct_append)
  show "''ix_connected_opportunities_scan_run_id'' \<notin>
      set (relation_names (schema_0008 @ [made create_connected_scan_runs]))"
    unfolding relation_names_append set_append names_0008 names_0007 using new by auto
qed

lemma run_0009: "schema_run upgrade_0009 schema_0008 = Inr schema_0009"
proof -
  let ?co = "''connected_opportunities''" and ?t = "snd (made create_connected_opportunities)"
  let ?ts = "schema_0008 @ [made create_connected_scan_runs]"
  let ?fk = "\<lparr> fk_name = Some ''fk_connected_opportunities_scan_run_id'',
      fk_columns = [''scan_run_id''], fk_table = ''connected_scan_runs'',
      fk_targets = [''scan_run_id''], fk_ondelete = OnSetNull \<rparr>"
  let ?u = "?t\<lparr> t_columns := t_columns ?t @ [scan_run] \<rparr>"
  let ?v = "?u\<lparr> t_fks := t_fks ?u @ [?fk] \<rparr>"
  have t: "map_of ?ts ?co = Some ?t"
    by (simp add: schema_0008_def update_conv' map_add_def lookup_0007 split: option.splits)
  have s: "map_of ?ts ''connected_scan_runs'' = Some (snd (made create_connected_scan_runs))"
    by (simp add: schema_0008_def update_conv' map_add_def schema_0007_def owner_gains_def block_lists)
  have block: "schema_run create_connected_scan_runs schema_0008 = Inr ?ts"
    by (rule create_block [OF block_scan_runs(1) names_fresh_0009(1) block_scan_runs(2)])
  have col: "schema_step (AddColumn ?co scan_run) ?ts = Inr (AList.update ?co ?u ?ts)"
    by (rule add_column_run [OF t]) (use new_columns in simp_all)
  have fk: "schema_step (CreateForeignKey ''fk_connected_opportunities_scan_run_id'' ?co
      ''connected_scan_runs'' [''scan_run_id''] [''scan_run_id''] OnSetNull) (AList.update ?co ?u ?ts)
      = Inr (AList.update ?co ?v ?ts)"
    using opportunities_unnamed_fks s
    by (simp add: with_table_def update_conv' Let_def fk_ok_def scan_run_key update_twice list_all_iff)
  have "relation_names (AList.update ?co ?v ?ts) = relation_names ?ts"
    by (rule relation_names_update [OF t]) simp
  then have idx: "schema_step (CreateIndex ''ix_connected_opportunities_scan_run_id'' ?co [''scan_run_id''])
      (AList.update ?co ?v ?ts) = Inr schema_0009"
    using names_fresh_0009(2)
    by (simp add: with_table_def update_conv' update_twice schema_0009_def opportunities_0009_def Let_def)
  have ops: "upgrade_0009 = create_connected_scan_runs @ [AddColumn ?co scan_run,
      CreateForeignKey ''fk_connected_opportunities_scan_run_id'' ?co ''connected_scan_runs''
        [''scan_run_id''] [''scan_run_id''] OnSetNull,
      CreateIndex ''ix_connected_opportunities_scan_run_id'' ?co [''scan_run_id'']]"
    by (simp add: upgrade_0009_def link_scan_runs_def scan_run_def)
  show ?thesis unfolding ops
    by (simp only: schema_run_append block schema_run.simps rbind_Inr col fk idx)
qed

section \<open>The schema after every revision\<close>

definition schema_after :: "nat \<Rightarrow> schema" where
  "schema_after k = (case schema_run (concat (map upgrade_ops (take k scripts))) [] of
     Inl _ \<Rightarrow> [] | Inr ts \<Rightarrow> ts)"

lemma run_scripts: "schema_run (concat (map upgrade_ops scripts)) [] = Inr schema_0009"
proof -
  have "concat (map upgrade_ops scripts) = concat blocks_0006 @ upgrade_0007 @ upgrade_0008 @ upgrade_0009"
    by (simp add: scripts_def block_lists upgrade_0001_def upgrade_0002_def upgrade_0003_def
        upgrade_0004_def upgrade_0005_def upgrade_0006_def)
  then show ?thesis
    by (simp only: schema_run_append run_0006 run_0007 run_0008 run_0009 rbind_Inr)
qed

lemma run_to: "schema_run (concat (map upgrade_ops (take k scripts))) [] = Inr (schema_after k)"
proof -
  have "concat (map upgrade_ops scripts) =
      concat (map upgrade_ops (take k scripts)) @ concat (map upgrade_ops (drop k scripts))"
    by (metis append_take_drop_id concat_append map_append)
  then obtain ts where "schema_run (concat (map upgrade_ops (take k scripts))) [] = Inr ts"
    using run_scripts by (auto simp: schema_run_append guard_simps)
  then show ?thesis by (simp add: schema_after_def)
qed

text \<open>Every revision upgrades the schema of the one before it.\<close>

lemma upgrade_schema:
  assumes "k < length scripts"
  shows "schema_run (upgrade_ops (scripts ! k)) (schema_after k) = Inr (schema_after (Suc k))"
  using run_to [of "Suc k"] run_to [of k]
  by (simp add: take_Suc_conv_app_nth [OF assms] schema_run_append)

lemma schema_after_ok: "schema_ok (schema_after k)"
  by (rule schema_run_ok [OF _ run_to]) (simp add: schema_ok_def)

lemma schema_after_0006: "schema_after 6 = map made blocks_0006"
proof -
  have "concat (map upgrade_ops (take 6 scripts)) = concat blocks_0006"
    by (simp add: scripts_def block_lists upgrade_0001_def upgrade_0002_def upgrade_0003_def
        upgrade_0004_def upgrade_0005_def upgrade_0006_def)
  then show ?thesis using run_to [of 6] run_0006 by simp
qed

lemma schema_after_late:
  "schema_after 7 = schema_0007" "schema_after 8 = schema_0008" "schema_after 9 = schema_0009"
proof -
  have l: "length scripts = 9" "scripts ! 6 = scripts ! 6" by (simp_all add: scripts_def)
  show 7: "schema_after 7 = schema_0007"
    using upgrade_schema [of 6] run_0007 schema_after_0006 by (simp add: scripts_def)
  show 8: "schema_after 8 = schema_0008"
    using upgrade_schema [of 7] run_0008 7 by (simp add: scripts_def)
  show "schema_after 9 = schema_0009"
    using upgrade_schema [of 8] run_0009 8 by (simp add: scripts_def)
qed

end
