(* ===== verification/Database_Models.thy ===== *)
theory Database_Models
  imports Schema
begin

text \<open>
  The declarations of \<open>packages/database/models.py\<close> and the tables that they describe.  A mapped
  column has a name, a type, whether its annotation is optional, its part in the primary key, its
  \<open>unique\<close>, \<open>index\<close>, \<open>default\<close> and foreign key; \<open>table_of\<close> is the table that SQLAlchemy makes of a class:
  an indexed column has an index of its own, which is a unique index when the column is unique,
  and a column that is only unique has a uniqueness constraint.
\<close>

record mapped_column =
  mc_name :: string
  mc_type :: sql_type
  mc_optional :: bool
  mc_primary :: bool
  mc_unique :: bool
  mc_index :: bool
  mc_default :: "sql_value option"
  mc_fk :: "(string \<times> string \<times> ondelete) option"

definition mapped :: "string \<Rightarrow> sql_type \<Rightarrow> mapped_column" where
  "mapped n ty = \<lparr> mc_name = n, mc_type = ty, mc_optional = False, mc_primary = False,
     mc_unique = False, mc_index = False, mc_default = None, mc_fk = None \<rparr>"

definition optional :: "mapped_column \<Rightarrow> mapped_column" where
  "optional c = c\<lparr> mc_optional := True \<rparr>"

definition key_col :: "mapped_column \<Rightarrow> mapped_column" where
  "key_col c = c\<lparr> mc_primary := True \<rparr>"

definition unique_col :: "mapped_column \<Rightarrow> mapped_column" where
  "unique_col c = c\<lparr> mc_unique := True \<rparr>"

definition indexed :: "mapped_column \<Rightarrow> mapped_column" where
  "indexed c = c\<lparr> mc_index := True \<rparr>"

definition with_default :: "sql_value \<Rightarrow> mapped_column \<Rightarrow> mapped_column" where
  "with_default v c = c\<lparr> mc_default := Some v \<rparr>"

definition references :: "string \<Rightarrow> string \<Rightarrow> ondelete \<Rightarrow> mapped_column \<Rightarrow> mapped_column" where
  "references t d act c = c\<lparr> mc_fk := Some (t, d, act) \<rparr>"

text \<open>\<open>__tablename__\<close>, \<open>__table_args__\<close> and the columns of a class.\<close>

datatype orm_class = orm_class string "table_item list" "mapped_column list"

definition mapped_items :: "mapped_column \<Rightarrow> table_item list" where
  "mapped_items c = Col (sa_column (mc_name c) (mc_type c) (mc_optional c))
     # (case mc_fk c of None \<Rightarrow> [] | Some (t, d, act) \<Rightarrow> [ForeignKey [mc_name c] t [d] act])
     @ (if mc_unique c \<and> \<not> mc_index c then [Unique None [mc_name c]] else [])"

fun table_of :: "orm_class \<Rightarrow> string \<times> table_def" where
  "table_of (orm_class n args cs) =
     (let pk = map mc_name (filter mc_primary cs);
          t = build_table (concat (map mapped_items cs)
                @ (if pk = [] then [] else [PrimaryKey None pk]) @ args) in
      (n, t\<lparr> t_indexes := map (\<lambda>c. \<lparr> ix_name = ''ix_'' @ n @ ''_'' @ mc_name c,
               ix_columns = [mc_name c], ix_unique = mc_unique c \<rparr>) (filter mc_index cs) \<rparr>))"

section \<open>The classes\<close>

definition app_user_model :: orm_class where
  "app_user_model = orm_class ''app_users'' [] [
     key_col (mapped ''user_id'' SqlUuid),
     indexed (unique_col (mapped ''auth_subject'' (SqlString 128))),
     indexed (unique_col (mapped ''email'' (SqlString 320))),
     indexed (with_default (VBool False) (mapped ''is_admin'' SqlBoolean)),
     indexed (mapped ''created_at'' SqlTimestamptz),
     indexed (mapped ''last_seen_at'' SqlTimestamptz)]"

definition workspace_model :: orm_class where
  "workspace_model = orm_class ''workspaces'' [] [
     key_col (mapped ''workspace_id'' SqlUuid),
     indexed (unique_col (references ''app_users'' ''user_id'' OnCascade (mapped
       ''owner_user_id'' SqlUuid))),
     mapped ''name'' (SqlString 120),
     with_default (VText ''CONNECTED_PAPER'') (mapped ''workspace_type'' (SqlString 32)),
     indexed (with_default (VText ''ONBOARDING'') (mapped ''status'' (SqlString 32))),
     with_default (VBool False) (mapped ''scanner_enabled'' SqlBoolean),
     indexed (mapped ''created_at'' SqlTimestamptz),
     indexed (mapped ''updated_at'' SqlTimestamptz)]"

definition invitation_model :: orm_class where
  "invitation_model = orm_class ''invitations'' [] [
     key_col (mapped ''invitation_id'' SqlUuid),
     indexed (unique_col (mapped ''token_hash'' (SqlString 64))),
     with_default (VText ''legacy_urlsafe'') (mapped ''code_format'' (SqlString 32)),
     with_default (VText '''') (mapped ''comment'' (SqlString 240)),
     with_default (VInt 1) (mapped ''max_uses'' SqlInteger),
     with_default (VInt 0) (mapped ''use_count'' SqlInteger),
     indexed (optional (mapped ''expires_at'' SqlTimestamptz)),
     indexed (optional (mapped ''disabled_at'' SqlTimestamptz)),
     references ''app_users'' ''user_id'' OnRestrict (mapped ''created_by_user_id'' SqlUuid),
     indexed (mapped ''created_at'' SqlTimestamptz)]"

definition invitation_redemption_model :: orm_class where
  "invitation_redemption_model = orm_class ''invitation_redemptions'' [Unique (Some
    ''uq_invitation_redemption_user'') [''invitation_id'', ''user_id'']] [
     key_col (mapped ''redemption_id'' SqlUuid),
     references ''invitations'' ''invitation_id'' OnCascade (mapped ''invitation_id'' SqlUuid),
     references ''app_users'' ''user_id'' OnCascade (mapped ''user_id'' SqlUuid),
     indexed (mapped ''redeemed_at'' SqlTimestamptz)]"

definition workspace_credential_model :: orm_class where
  "workspace_credential_model = orm_class ''workspace_credentials'' [Unique (Some
    ''uq_workspace_credential_provider'') [''workspace_id'', ''provider'']] [
     key_col (mapped ''credential_id'' SqlUuid),
     indexed (references ''workspaces'' ''workspace_id'' OnCascade (mapped ''workspace_id''
       SqlUuid)),
     indexed (mapped ''provider'' (SqlString 32)),
     mapped ''key_version'' (SqlString 32),
     mapped ''nonce'' SqlBytes,
     mapped ''ciphertext'' SqlBytes,
     mapped ''fingerprint'' (SqlString 16),
     with_default (VJson ''{}'') (mapped ''configuration'' SqlJsonb),
     indexed (mapped ''validation_status'' (SqlString 32)),
     indexed (with_default (VBool False) (mapped ''enabled'' SqlBoolean)),
     optional (mapped ''validated_at'' SqlTimestamptz),
     mapped ''created_at'' SqlTimestamptz,
     indexed (mapped ''updated_at'' SqlTimestamptz)]"

definition demo_session_model :: orm_class where
  "demo_session_model = orm_class ''demo_sessions'' [] [
     key_col (mapped ''demo_session_id'' SqlUuid),
     indexed (mapped ''expires_at'' SqlTimestamptz),
     with_default (VBool False) (mapped ''guardian_halted'' SqlBoolean),
     optional (mapped ''guardian_reason'' SqlText),
     indexed (mapped ''created_at'' SqlTimestamptz),
     indexed (mapped ''updated_at'' SqlTimestamptz)]"

definition watchlist_symbol_model :: orm_class where
  "watchlist_symbol_model = orm_class ''watchlist_symbols'' [PrimaryKey (Some
    ''pk_watchlist_symbols'') [''workspace_id'', ''symbol'']] [
     references ''workspaces'' ''workspace_id'' OnCascade (mapped ''workspace_id'' SqlUuid),
     mapped ''symbol'' (SqlString 16),
     mapped ''created_at'' SqlTimestamptz]"

definition connected_scan_run_model :: orm_class where
  "connected_scan_run_model = orm_class ''connected_scan_runs'' [] [
     key_col (mapped ''scan_run_id'' SqlUuid),
     indexed (references ''workspaces'' ''workspace_id'' OnCascade (mapped ''workspace_id''
       SqlUuid)),
     mapped ''trigger'' (SqlString 32),
     with_default (VText ''ALPACA_REAL'') (mapped ''source'' (SqlString 32)),
     indexed (mapped ''started_at'' SqlTimestamptz),
     indexed (optional (mapped ''completed_at'' SqlTimestamptz)),
     with_default (VInt 0) (mapped ''attempted_count'' SqlInteger),
     with_default (VInt 0) (mapped ''completed_count'' SqlInteger),
     with_default (VInt 0) (mapped ''failed_count'' SqlInteger)]"

definition connected_opportunity_model :: orm_class where
  "connected_opportunity_model = orm_class ''connected_opportunities'' [] [
     key_col (mapped ''opportunity_id'' SqlUuid),
     indexed (references ''workspaces'' ''workspace_id'' OnCascade (mapped ''workspace_id''
       SqlUuid)),
     indexed (optional (references ''connected_scan_runs'' ''scan_run_id'' OnSetNull (mapped
       ''scan_run_id'' SqlUuid))),
     indexed (mapped ''symbol'' (SqlString 16)),
     indexed (mapped ''state'' (SqlString 32)),
     with_default (VText ''ALPACA_REAL'') (mapped ''source'' (SqlString 32)),
     mapped ''payload'' SqlJsonb,
     indexed (mapped ''observed_at'' SqlTimestamptz),
     indexed (mapped ''expires_at'' SqlTimestamptz),
     indexed (mapped ''created_at'' SqlTimestamptz)]"

definition audit_record_model :: orm_class where
  "audit_record_model = orm_class ''audit_records'' [] [
     key_col (mapped ''audit_id'' SqlUuid),
     indexed (optional (references ''workspaces'' ''workspace_id'' OnCascade (mapped
       ''workspace_id'' SqlUuid))),
     indexed (optional (references ''app_users'' ''user_id'' OnSetNull (mapped ''actor_user_id''
       SqlUuid))),
     indexed (mapped ''action'' (SqlString 120)),
     with_default (VJson ''{}'') (mapped ''detail'' SqlJsonb),
     indexed (mapped ''occurred_at'' SqlTimestamptz)]"

definition domain_event_model :: orm_class where
  "domain_event_model = orm_class ''domain_events'' [] [
     key_col (mapped ''event_id'' SqlUuid),
     indexed (optional (mapped ''workspace_id'' SqlUuid)),
     indexed (mapped ''event_type'' (SqlString 120)),
     indexed (mapped ''aggregate_type'' (SqlString 80)),
     indexed (mapped ''aggregate_id'' SqlUuid),
     indexed (mapped ''occurred_at'' SqlTimestamptz),
     indexed (mapped ''available_at'' SqlTimestamptz),
     mapped ''source'' (SqlString 80),
     with_default (VInt 1) (mapped ''schema_version'' SqlInteger),
     indexed (mapped ''correlation_id'' SqlUuid),
     optional (mapped ''causation_id'' SqlUuid),
     mapped ''payload'' SqlJsonb]"

definition outbox_event_model :: orm_class where
  "outbox_event_model = orm_class ''outbox_events'' [Unique (Some ''uq_outbox_event_id'')
    [''event_id'']] [
     key_col (mapped ''outbox_id'' SqlUuid),
     indexed (optional (mapped ''workspace_id'' SqlUuid)),
     references ''domain_events'' ''event_id'' OnCascade (mapped ''event_id'' SqlUuid),
     mapped ''subject'' (SqlString 160),
     mapped ''payload'' SqlJsonb,
     indexed (mapped ''created_at'' SqlTimestamptz),
     indexed (optional (mapped ''published_at'' SqlTimestamptz)),
     with_default (VInt 0) (mapped ''attempts'' SqlInteger)]"

definition broker_sync_state_model :: orm_class where
  "broker_sync_state_model = orm_class ''broker_sync_state'' [] [
     key_col (references ''workspaces'' ''workspace_id'' OnCascade (mapped ''workspace_id''
       SqlUuid)),
     indexed (mapped ''state'' (SqlString 32)),
     optional (mapped ''last_reconciled_at'' SqlTimestamptz),
     optional (mapped ''last_stream_event_at'' SqlTimestamptz),
     with_default (VBool False) (mapped ''stream_connected'' SqlBoolean),
     with_default (VInt 0) (mapped ''generation'' SqlInteger),
     with_default (VInt 0) (mapped ''divergence_count'' SqlInteger),
     optional (mapped ''failure_reason'' SqlText)]"

definition broker_account_model :: orm_class where
  "broker_account_model = orm_class ''broker_accounts'' [Unique (Some
    ''uq_broker_account_workspace_number'') [''workspace_id'', ''account_number'']] [
     key_col (references ''workspaces'' ''workspace_id'' OnCascade (mapped ''workspace_id''
       SqlUuid)),
     key_col (mapped ''account_id'' (SqlString 64)),
     mapped ''account_number'' (SqlString 64),
     mapped ''status'' (SqlString 32),
     mapped ''currency'' (SqlString 8),
     mapped ''equity'' (SqlNumeric 24 8),
     mapped ''cash'' (SqlNumeric 24 8),
     mapped ''buying_power'' (SqlNumeric 24 8),
     optional (mapped ''options_buying_power'' (SqlNumeric 24 8)),
     mapped ''last_equity'' (SqlNumeric 24 8),
     mapped ''trading_blocked'' SqlBoolean,
     mapped ''account_blocked'' SqlBoolean,
     mapped ''trade_suspended_by_user'' SqlBoolean,
     indexed (mapped ''as_of'' SqlTimestamptz)]"

definition broker_position_model :: orm_class where
  "broker_position_model = orm_class ''broker_positions'' [] [
     key_col (references ''workspaces'' ''workspace_id'' OnCascade (mapped ''workspace_id''
       SqlUuid)),
     key_col (mapped ''asset_id'' (SqlString 64)),
     indexed (mapped ''symbol'' (SqlString 48)),
     indexed (mapped ''asset_class'' (SqlString 32)),
     mapped ''side'' (SqlString 16),
     mapped ''quantity'' (SqlNumeric 24 8),
     optional (mapped ''quantity_available'' (SqlNumeric 24 8)),
     mapped ''average_entry_price'' (SqlNumeric 24 8),
     optional (mapped ''market_value'' (SqlNumeric 24 8)),
     mapped ''cost_basis'' (SqlNumeric 24 8),
     mapped ''unrealized_pl'' (SqlNumeric 24 8),
     optional (mapped ''current_price'' (SqlNumeric 24 8)),
     indexed (mapped ''as_of'' SqlTimestamptz)]"

definition broker_order_model :: orm_class where
  "broker_order_model = orm_class ''broker_orders'' [Unique (Some
    ''uq_broker_order_workspace_client'') [''workspace_id'', ''client_order_id'']] [
     key_col (references ''workspaces'' ''workspace_id'' OnCascade (mapped ''workspace_id''
       SqlUuid)),
     key_col (mapped ''broker_order_id'' (SqlString 64)),
     indexed (mapped ''client_order_id'' (SqlString 64)),
     indexed (mapped ''status'' (SqlString 32)),
     mapped ''asset_class'' (SqlString 32),
     indexed (optional (mapped ''symbol'' (SqlString 48))),
     optional (mapped ''side'' (SqlString 16)),
     mapped ''order_type'' (SqlString 32),
     mapped ''order_class'' (SqlString 32),
     mapped ''time_in_force'' (SqlString 16),
     optional (mapped ''quantity'' (SqlNumeric 24 8)),
     mapped ''filled_quantity'' (SqlNumeric 24 8),
     optional (mapped ''filled_average_price'' (SqlNumeric 24 8)),
     optional (mapped ''limit_price'' (SqlNumeric 24 8)),
     optional (mapped ''submitted_at'' SqlTimestamptz),
     indexed (mapped ''created_at'' SqlTimestamptz),
     indexed (optional (mapped ''updated_at'' SqlTimestamptz)),
     with_default (VJson ''[]'') (mapped ''legs'' SqlJsonb)]"

definition order_intent_model :: orm_class where
  "order_intent_model = orm_class ''order_intents'' [Unique (Some
    ''uq_order_intent_workspace_client'') [''workspace_id'', ''client_order_id'']] [
     key_col (mapped ''order_intent_id'' SqlUuid),
     indexed (references ''workspaces'' ''workspace_id'' OnCascade (mapped ''workspace_id''
       SqlUuid)),
     indexed (mapped ''client_order_id'' (SqlString 64)),
     indexed (mapped ''risk_decision_id'' SqlUuid),
     indexed (mapped ''state'' (SqlString 32)),
     mapped ''payload'' SqlJsonb,
     indexed (mapped ''created_at'' SqlTimestamptz),
     indexed (mapped ''updated_at'' SqlTimestamptz)]"

definition ai_workflow_run_model :: orm_class where
  "ai_workflow_run_model = orm_class ''ai_workflow_runs'' [] [
     key_col (mapped ''run_id'' SqlUuid),
     indexed (optional (mapped ''workspace_id'' SqlUuid)),
     indexed (mapped ''correlation_id'' SqlUuid),
     mapped ''provider'' (SqlString 32),
     mapped ''model'' (SqlString 80),
     mapped ''prompt_versions'' SqlJsonb,
     mapped ''schema_version'' SqlInteger,
     mapped ''input_payload'' SqlJsonb,
     mapped ''output_payload'' SqlJsonb,
     indexed (mapped ''degraded'' SqlBoolean),
     optional (mapped ''failure_reason'' (SqlString 120)),
     indexed (mapped ''created_at'' SqlTimestamptz)]"

definition guardian_incident_model :: orm_class where
  "guardian_incident_model = orm_class ''guardian_incidents'' [] [
     key_col (mapped ''incident_id'' SqlUuid),
     indexed (references ''workspaces'' ''workspace_id'' OnCascade (mapped ''workspace_id''
       SqlUuid)),
     indexed (mapped ''state'' (SqlString 32)),
     mapped ''triggers'' SqlJsonb,
     mapped ''reason'' SqlText,
     indexed (mapped ''activated_at'' SqlTimestamptz),
     indexed (optional (mapped ''cleared_at'' SqlTimestamptz))]"

definition research_observation_model :: orm_class where
  "research_observation_model = orm_class ''research_observations'' [] [
     key_col (mapped ''observation_id'' SqlUuid),
     indexed (optional (mapped ''workspace_id'' SqlUuid)),
     indexed (mapped ''series'' (SqlString 80)),
     indexed (mapped ''symbol'' (SqlString 32)),
     indexed (mapped ''observed_at'' SqlTimestamptz),
     indexed (mapped ''available_at'' SqlTimestamptz),
     mapped ''payload'' SqlJsonb,
     mapped ''source_version'' (SqlString 80)]"

definition strategy_passport_model :: orm_class where
  "strategy_passport_model = orm_class ''strategy_passports'' [Unique (Some
    ''uq_strategy_passport_version'') [''name'', ''version'']] [
     key_col (mapped ''passport_id'' SqlUuid),
     indexed (mapped ''name'' (SqlString 120)),
     mapped ''version'' (SqlString 40),
     mapped ''payload'' SqlJsonb,
     indexed (mapped ''data_fingerprint'' (SqlString 64)),
     indexed (mapped ''created_at'' SqlTimestamptz)]"

definition orm_classes :: "orm_class list" where
  "orm_classes = [app_user_model, workspace_model, invitation_model, invitation_redemption_model,
    workspace_credential_model, demo_session_model, watchlist_symbol_model,
      connected_scan_run_model, connected_opportunity_model, audit_record_model,
        domain_event_model, outbox_event_model, broker_sync_state_model, broker_account_model,
          broker_position_model, broker_order_model, order_intent_model, ai_workflow_run_model,
            guardian_incident_model, research_observation_model, strategy_passport_model]"

text \<open>\<open>Base.metadata\<close>, the \<open>target_metadata\<close> of the migrations.\<close>

definition metadata :: schema where
  "metadata = map table_of orm_classes"

section \<open>Comparing two schemas\<close>

text \<open>
  Two tables agree when they have the same columns (name, type and nullability), the same primary
  key, the same foreign keys with their actions, the same sets of columns on which rows must
  differ, and indexes on the same columns.  The order of columns, the names of constraints and
  server defaults do not count.
\<close>

definition column_shapes :: "table_def \<Rightarrow> (string \<times> sql_type \<times> bool) set" where
  "column_shapes t = set (map (\<lambda>c. (col_name c, col_type c, col_nullable c)) (t_columns t))"

definition fk_shapes :: "table_def \<Rightarrow> (string list \<times> string \<times> string list \<times> ondelete) set" where
  "fk_shapes t =
     set (map (\<lambda>f. (fk_columns f, fk_table f, fk_targets f, fk_ondelete f)) (t_fks t))"

definition tables_agree :: "table_def \<Rightarrow> table_def \<Rightarrow> bool" where
  "tables_agree t u \<longleftrightarrow>
     column_shapes t = column_shapes u \<and>
     primary_columns t = primary_columns u \<and>
     fk_shapes t = fk_shapes u \<and>
     set (keys t) = set (keys u) \<and>
     set (map ix_columns (t_indexes t)) = set (map ix_columns (t_indexes u))"

definition schemas_agree :: "schema \<Rightarrow> schema \<Rightarrow> bool" where
  "schemas_agree ts us \<longleftrightarrow> set (map fst ts) = set (map fst us) \<and>
     list_all (\<lambda>(n, t). case map_of us n of None \<Rightarrow> False | Some u \<Rightarrow> tables_agree t u) ts"

end
