(* ===== verification/Migration_Properties.thy ===== *)
theory Migration_Properties
  imports Migration_Schemas Database_Models
begin

text \<open>
  What the migrations do to a database, whatever rows it holds: the upgrade reaches the head from
  every revision, its schema is the one the models declare, downgrades undo their upgrades where
  the code allows it and change nothing where it does not, rows without an owner are discarded or
  marked, and every row of a tenant belongs to a workspace of a user.
\<close>

section \<open>The chain of revisions\<close>

definition revision_at :: "nat \<Rightarrow> string option" where
  "revision_at k = (if k = 0 then None else Some (revision (scripts ! (k - 1))))"

lemma length_scripts [simp]: "length scripts = 9"
  by (simp add: scripts_def)

lemma less_9: "(k::nat) < 9 \<longleftrightarrow> k = 0 \<or> k = 1 \<or> k = 2 \<or> k = 3 \<or> k = 4 \<or> k = 5 \<or> k = 6 \<or> k = 7 \<or> k = 8"
  by arith

lemma upgrades_from_step:
  assumes "k < 9"
  shows "upgrades_from (Suc n) (revision_at k) = scripts ! k # upgrades_from n (revision_at (Suc k))"
  using assms unfolding less_9
  by (elim disjE) (simp_all add: revision_at_def scripts_def)

lemma upgrades_from_head: "upgrades_from n (revision_at 9) = []"
  by (cases n) (simp_all add: revision_at_def scripts_def)

lemma down_revision_at: "k < 9 \<Longrightarrow> down_revision (scripts ! k) = revision_at k"
  unfolding less_9 by (elim disjE) (simp_all add: revision_at_def scripts_def)

section \<open>One revision\<close>

lemma upgrades_read_no_rows: "list_all (\<lambda>s. list_all reads_no_rows (upgrade_ops s)) (take 8 scripts)"
  by code_simp

text \<open>The rows of a new column are NULL, so that a foreign key on it holds.\<close>

lemma upgrade_0009_split:
  "upgrade_0009 = create_connected_scan_runs @ [AddColumn ''connected_opportunities'' scan_run] @
     [CreateForeignKey ''fk_connected_opportunities_scan_run_id'' ''connected_opportunities''
        ''connected_scan_runs'' [''scan_run_id''] [''scan_run_id''] OnSetNull] @
     [CreateIndex ''ix_connected_opportunities_scan_run_id'' ''connected_opportunities''
        [''scan_run_id'']]"
  by (simp add: upgrade_0009_def link_scan_runs_def scan_run_def)

lemma initial_scan_run [simp]: "initial_value scan_run = VNull"
  by (simp add: initial_value_def)

lemma block_reads_no_rows: "block_ok b \<Longrightarrow> list_all reads_no_rows b"
proof (cases b rule: block_ok.cases)
  case (1 n items ds)
  assume "block_ok b"
  then have "list_all (index_for n (build_table items)) ds" using 1 by (simp add: Let_def)
  moreover have "index_for n t d \<Longrightarrow> reads_no_rows d" for t d by (cases d) auto
  ultimately show ?thesis using 1 by (auto simp: list_all_iff)
qed simp_all

text \<open>A run succeeds when its schema part does and its checks of rows pass on the way.\<close>

lemma ddl_run_then:
  assumes "ddl_run ds db = Inr db1" and "schema_run es (db_tables db1) = Inr ts"
    and "list_all reads_no_rows es"
  shows "\<exists>db'. ddl_run (ds @ es) db = Inr db' \<and> db_tables db' = ts"
  using ddl_run_total [OF assms(2,3)] assms(1) by (simp add: ddl_run_append)

lemma upgrade_0009_rows:
  assumes "db_tables db = schema_0008"
  shows "\<exists>db'. ddl_run upgrade_0009 db = Inr db' \<and> db_tables db' = schema_0009"
proof -
  let ?pre = "create_connected_scan_runs @ [AddColumn ''connected_opportunities'' scan_run]"
  let ?fk = "CreateForeignKey ''fk_connected_opportunities_scan_run_id'' ''connected_opportunities''
        ''connected_scan_runs'' [''scan_run_id''] [''scan_run_id''] OnSetNull"
  let ?idx = "[CreateIndex ''ix_connected_opportunities_scan_run_id'' ''connected_opportunities''
        [''scan_run_id'']]"
  have split: "upgrade_0009 = (?pre @ [?fk]) @ ?idx" by (simp add: upgrade_0009_split)
  obtain ts1 ts2 where ts: "schema_run ?pre schema_0008 = Inr ts1" "schema_step ?fk ts1 = Inr ts2"
      "schema_run ?idx ts2 = Inr schema_0009"
    using run_0009 unfolding split schema_run_append
    by (auto simp: guard_simps simp del: schema_step.simps)
  let ?rows = "fold row_step ?pre (db_rows db)"
  have "col_nullable scan_run" by (simp add: scan_run_def sa_column_def)
  then have "list_all reads_no_rows ?pre" using block_reads_no_rows [OF block_scan_runs(1)] by simp
  then have pre: "ddl_run ?pre db = Inr \<lparr> db_tables = ts1, db_rows = ?rows \<rparr>"
    using ddl_run_total [of ?pre db ts1] ts(1) assms by simp
  have check: "row_check ?fk ?rows = Inr ()"
    by (auto simp: fk_holds_def all_present_def)
  have "ddl_run (?pre @ [?fk]) db = ddl_run [?fk] \<lparr> db_tables = ts1, db_rows = ?rows \<rparr>"
    by (simp only: ddl_run_append [of ?pre] pre rbind_Inr)
  also have "\<dots> = Inr \<lparr> db_tables = ts2, db_rows = ?rows \<rparr>"
    by (simp only: ddl_run.simps ddl_step_def database.simps ts(2) check rbind_Inr row_step.simps)
  finally have "ddl_run (?pre @ [?fk]) db = Inr \<lparr> db_tables = ts2, db_rows = ?rows \<rparr>" .
  moreover have "schema_run ?idx (db_tables \<lparr> db_tables = ts2, db_rows = ?rows \<rparr>) = Inr schema_0009"
    by (simp only: database.simps ts(3))
  moreover have "list_all reads_no_rows ?idx" by simp
  ultimately show ?thesis unfolding split by (rule ddl_run_then)
qed

lemma upgrade_step:
  assumes "k < 9" and "db_tables db = schema_after k"
  shows "\<exists>db'. ddl_run (upgrade_ops (scripts ! k)) db = Inr db' \<and> db_tables db' = schema_after (Suc k)"
proof (cases "k = 8")
  case True
  then have "upgrade_ops (scripts ! k) = upgrade_0009" by (simp add: scripts_def)
  then show ?thesis
    using upgrade_0009_rows [of db] assms(2) True schema_after_late by simp
next
  case False
  then have "list_all reads_no_rows (upgrade_ops (scripts ! k))"
    using upgrades_read_no_rows assms(1) by (auto simp: list_all_length)
  then show ?thesis
    using ddl_run_total [of "upgrade_ops (scripts ! k)" db "schema_after (Suc k)"]
      upgrade_schema [of k] assms by simp
qed

lemma run_upgrades:
  assumes "db_tables db = schema_after (9 - n)" and "n \<le> 9"
  shows "\<exists>db'. run_all (apply_upgrade ddl_step) (upgrades_from n (revision_at (9 - n)))
      \<lparr> at_revision = revision_at (9 - n), contents = db \<rparr> = Inr \<lparr> at_revision = revision_at 9, contents = db' \<rparr>
    \<and> db_tables db' = schema_after 9"
  using assms
proof (induction n arbitrary: db)
  case (Suc n)
  let ?k = "9 - Suc n"
  have k: "?k < 9" "Suc ?k = 9 - n" using Suc.prems(2) by auto
  obtain db1 where db1: "ddl_run (upgrade_ops (scripts ! ?k)) db = Inr db1"
      "db_tables db1 = schema_after (9 - n)"
    using upgrade_step [OF k(1) Suc.prems(1)] k(2) by auto
  have "Some (revision (scripts ! ?k)) = revision_at (9 - n)"
    using k by (simp add: revision_at_def)
  then have "apply_upgrade ddl_step (scripts ! ?k) \<lparr> at_revision = revision_at ?k, contents = db \<rparr> =
      Inr \<lparr> at_revision = revision_at (9 - n), contents = db1 \<rparr>"
    using db1(1) by (simp add: apply_upgrade_def)
  then show ?case
    using Suc.IH [OF db1(2)] Suc.prems(2) upgrades_from_step [OF k(1), of n] k(2) by simp
qed (simp add: upgrades_from_head)

lemma run_all_ok:
  assumes "\<And>s st st'. f s st = Inr st' \<Longrightarrow> database_ok (contents st) \<Longrightarrow> database_ok (contents st')"
  shows "run_all f ss st = Inr st' \<Longrightarrow> database_ok (contents st) \<Longrightarrow> database_ok (contents st')"
  by (induction ss arbitrary: st) (auto simp: guard_simps intro: assms)

section \<open>Upgrades from any revision\<close>

lemma empty_rows_ok: "schema_ok ts \<Longrightarrow> database_ok \<lparr> db_tables = ts, db_rows = (\<lambda>_. []) \<rparr>"
  by (simp add: database_ok_def rows_ok_def key_ok_def split: option.splits)

lemma upgrade_to_head:
  assumes "k \<le> 9" and "at_revision st = revision_at k" and "db_tables (contents st) = schema_after k"
    and "database_ok (contents st)"
  shows "\<exists>db. run_migrations_online ddl_step UpgradeHead st =
      (\<lparr> at_revision = Some ''20260903_0009'', contents = db \<rparr>, None) \<and>
    db_tables db = schema_after 9 \<and> database_ok db"
proof -
  have st: "st = \<lparr> at_revision = revision_at k, contents = contents st \<rparr>" using assms(2) by simp
  have fuel: "upgrades_from 9 (revision_at k) = upgrades_from (9 - k) (revision_at k)"
  proof -
    have "upgrades_from (n + m) (revision_at (9 - n)) = upgrades_from n (revision_at (9 - n))"
      if "n \<le> 9" for n m using that
    proof (induction n)
      case 0
      then show ?case using upgrades_from_head [of m] by simp
    next
      case (Suc n)
      then have "9 - Suc n < 9" "Suc (9 - Suc n) = 9 - n" by auto
      then show ?case
        using Suc upgrades_from_step [of "9 - Suc n" "n + m"] upgrades_from_step [of "9 - Suc n" n]
        by simp
    qed
    from this [of "9 - k" k] show ?thesis using assms(1) by simp
  qed
  obtain db where db: "run_all (apply_upgrade ddl_step) (upgrades_from (9 - k) (revision_at k)) st =
      Inr \<lparr> at_revision = revision_at 9, contents = db \<rparr>" "db_tables db = schema_after 9"
    using run_upgrades [of "contents st" "9 - k"] assms(1,3) st by auto
  have "database_ok (contents st2)" if "apply_upgrade ddl_step s st1 = Inr st2" "database_ok (contents st1)"
    for s st1 st2 using that by (auto simp: apply_upgrade_def guard_simps intro: ddl_run_ok)
  then have "database_ok db" using run_all_ok [OF _ db(1) assms(4)] by auto
  moreover have "revision_at 9 = Some ''20260903_0009''" by (simp add: revision_at_def scripts_def)
  ultimately show ?thesis
    using db assms(2) fuel by (simp add: run_migrations_online_def)
qed

text \<open>A run that succeeds on what is seen succeeds on the engine's database.\<close>

lemma run_seen:
  assumes "follows exec view"
    and "run_migrations_online ddl_step c (seen view st) = (\<lparr> at_revision = v, contents = db \<rparr>, None)"
  shows "\<exists>db'. run_migrations_online exec c st = (\<lparr> at_revision = v, contents = db' \<rparr>, None) \<and>
    view db' = db"
proof (cases "run_migrations_online exec c st")
  case (Pair st' e)
  then have "seen view st' = \<lparr> at_revision = v, contents = db \<rparr>" "e = None"
    using run_migrations_seen [OF assms(1), of c st] assms(2) by simp_all
  then show ?thesis
    using Pair by (intro exI [of _ "contents st'"]) (auto simp: seen_def)
qed

text \<open>C35. From every revision, and with any rows that fit it, \<open>alembic upgrade head\<close> (which the API's
  container runs when it starts) succeeds: the database ends at revision 20260903_0009 with the
  tables of that revision, and it is well-formed again, so no row breaks a column, key or foreign
  key of the new schema.\<close>

theorem upgrade_reaches_the_head:
  assumes "follows exec view" and "k \<le> 9" and "at_revision st = revision_at k"
    and "db_tables (view (contents st)) = schema_after k" and "database_ok (view (contents st))"
  shows "\<exists>db. run_migrations_online exec UpgradeHead st =
      (\<lparr> at_revision = Some ''20260903_0009'', contents = db \<rparr>, None) \<and>
    db_tables (view db) = schema_after 9 \<and> database_ok (view db)"
proof -
  obtain db where "run_migrations_online ddl_step UpgradeHead (seen view st) =
      (\<lparr> at_revision = Some ''20260903_0009'', contents = db \<rparr>, None)"
      "db_tables db = schema_after 9" "database_ok db"
    using upgrade_to_head [of k "seen view st"] assms by auto
  then show ?thesis using run_seen [OF assms(1)] by metis
qed

theorem upgrade_reaches_the_head_witness:
  "\<exists>db. run_migrations_online ddl_step UpgradeHead
      \<lparr> at_revision = Some ''20260901_0006'', contents = \<lparr> db_tables = schema_after 6, db_rows = (\<lambda>_. []) \<rparr> \<rparr> =
      (\<lparr> at_revision = Some ''20260903_0009'', contents = db \<rparr>, None) \<and>
    db_tables (id db) = schema_after 9 \<and> database_ok (id db)"
  by (rule upgrade_reaches_the_head [OF follows_itself, of 6])
    (simp_all add: revision_at_def scripts_def empty_rows_ok schema_after_ok)

section \<open>The models\<close>

text \<open>Each table at the head agrees with the one its model declares.\<close>

lemma tables_agree_kept:
  "tables_agree (snd (gains owner ''ix_domain_events_workspace_id'' (made create_domain_events)))
     (snd (table_of domain_event_model))"
  "tables_agree (snd (gains owner ''ix_outbox_events_workspace_id'' (made create_outbox_events)))
     (snd (table_of outbox_event_model))"
  "tables_agree (snd (gains owner ''ix_ai_workflow_runs_workspace_id'' (made create_ai_workflow_runs)))
     (snd (table_of ai_workflow_run_model))"
  "tables_agree (snd (gains owner ''ix_research_observations_workspace_id'' (made create_research_observations)))
     (snd (table_of research_observation_model))"
  "tables_agree (snd (made create_strategy_passports)) (snd (table_of strategy_passport_model))"
  by code_simp+

lemma tables_agree_tenants:
  "tables_agree (snd (made create_app_users)) (snd (table_of app_user_model))"
  "tables_agree (snd (made create_workspaces)) (snd (table_of workspace_model))"
  "tables_agree invitations_0008 (snd (table_of invitation_model))"
  "tables_agree (snd (made create_invitation_redemptions)) (snd (table_of invitation_redemption_model))"
  "tables_agree (snd (made create_workspace_credentials)) (snd (table_of workspace_credential_model))"
  by code_simp+

lemma tables_agree_workspace_data:
  "tables_agree (snd (made create_demo_sessions)) (snd (table_of demo_session_model))"
  "tables_agree (snd (made create_watchlist_symbols)) (snd (table_of watchlist_symbol_model))"
  "tables_agree opportunities_0009 (snd (table_of connected_opportunity_model))"
  "tables_agree (snd (made create_connected_scan_runs)) (snd (table_of connected_scan_run_model))"
  "tables_agree (snd (made create_audit_records)) (snd (table_of audit_record_model))"
  by code_simp+

lemma tables_agree_owned:
  "tables_agree (snd (made create_broker_sync_state)) (snd (table_of broker_sync_state_model))"
  "tables_agree (snd (made create_broker_accounts)) (snd (table_of broker_account_model))"
  "tables_agree (snd (made create_broker_positions)) (snd (table_of broker_position_model))"
  "tables_agree (snd (made create_broker_orders)) (snd (table_of broker_order_model))"
  "tables_agree (snd (made create_order_intents)) (snd (table_of order_intent_model))"
  "tables_agree (snd (made create_guardian_incidents)) (snd (table_of guardian_incident_model))"
  by code_simp+

lemma model_names [simp]:
  "fst (table_of app_user_model) = ''app_users''"
  "fst (table_of workspace_model) = ''workspaces''"
  "fst (table_of invitation_model) = ''invitations''"
  "fst (table_of invitation_redemption_model) = ''invitation_redemptions''"
  "fst (table_of workspace_credential_model) = ''workspace_credentials''"
  "fst (table_of demo_session_model) = ''demo_sessions''"
  "fst (table_of watchlist_symbol_model) = ''watchlist_symbols''"
  "fst (table_of connected_scan_run_model) = ''connected_scan_runs''"
  "fst (table_of connected_opportunity_model) = ''connected_opportunities''"
  "fst (table_of audit_record_model) = ''audit_records''"
  "fst (table_of domain_event_model) = ''domain_events''"
  "fst (table_of outbox_event_model) = ''outbox_events''"
  "fst (table_of broker_sync_state_model) = ''broker_sync_state''"
  "fst (table_of broker_account_model) = ''broker_accounts''"
  "fst (table_of broker_position_model) = ''broker_positions''"
  "fst (table_of broker_order_model) = ''broker_orders''"
  "fst (table_of order_intent_model) = ''order_intents''"
  "fst (table_of ai_workflow_run_model) = ''ai_workflow_runs''"
  "fst (table_of guardian_incident_model) = ''guardian_incidents''"
  "fst (table_of research_observation_model) = ''research_observations''"
  "fst (table_of strategy_passport_model) = ''strategy_passports''"
  by (simp_all add: Let_def app_user_model_def workspace_model_def invitation_model_def
      invitation_redemption_model_def workspace_credential_model_def demo_session_model_def
      watchlist_symbol_model_def connected_scan_run_model_def connected_opportunity_model_def
      audit_record_model_def domain_event_model_def outbox_event_model_def
      broker_sync_state_model_def broker_account_model_def broker_position_model_def
      broker_order_model_def order_intent_model_def ai_workflow_run_model_def
      guardian_incident_model_def research_observation_model_def strategy_passport_model_def)

lemma models_declare_the_head: "schemas_agree schema_0009 metadata"
proof -
  have tables: "schema_0009 = (map (\<lambda>(i, p). gains owner i p) owner_gains @
      [made create_strategy_passports, made create_app_users, made create_workspaces,
       (''invitations'', invitations_0008), made create_invitation_redemptions,
       made create_workspace_credentials, made create_demo_sessions, made create_watchlist_symbols,
       (''connected_opportunities'', opportunities_0009), made create_audit_records] @
      map made blocks_owned @ [made create_connected_scan_runs])"
    by (simp add: schema_0009_def schema_0008_def schema_0007_def owner_gains_def block_lists)
  show ?thesis
    unfolding schemas_agree_def tables metadata_def orm_classes_def
    using tables_agree_kept tables_agree_tenants tables_agree_workspace_data tables_agree_owned
    by (simp add: owner_gains_def blocks_owned_def case_prod_beta insert_commute)
qed

text \<open>C36. The migrations, run on an empty database, end with the tables that
  \<open>packages/database/models.py\<close> declares: the same tables, each with the same columns, types and
  nullability, the same primary key, the same sets of columns on which rows must differ, the same
  foreign keys with their actions, and indexes on the same columns.\<close>

theorem upgraded_schema_is_the_models:
  assumes "follows exec view" and "at_revision st = None"
    and "view (contents st) = \<lparr> db_tables = [], db_rows = (\<lambda>_. []) \<rparr>"
  shows "\<exists>db. run_migrations_online exec UpgradeHead st =
      (\<lparr> at_revision = Some ''20260903_0009'', contents = db \<rparr>, None) \<and>
    schemas_agree (db_tables (view db)) metadata"
proof -
  have "schema_after 0 = []" by (simp add: schema_after_def)
  then obtain db where "run_migrations_online ddl_step UpgradeHead (seen view st) =
      (\<lparr> at_revision = Some ''20260903_0009'', contents = db \<rparr>, None)" "db_tables db = schema_after 9"
    using upgrade_to_head [of 0 "seen view st"] empty_rows_ok [OF schema_after_ok, of 0] assms(2,3)
    by (auto simp: revision_at_def)
  then show ?thesis using run_seen [OF assms(1)] models_declare_the_head schema_after_late by metis
qed

theorem upgraded_schema_is_the_models_witness:
  "\<exists>db. run_migrations_online ddl_step UpgradeHead
      \<lparr> at_revision = None, contents = \<lparr> db_tables = [], db_rows = (\<lambda>_. []) \<rparr> \<rparr> =
      (\<lparr> at_revision = Some ''20260903_0009'', contents = db \<rparr>, None) \<and>
    schemas_agree (db_tables (id db)) metadata"
  by (rule upgraded_schema_is_the_models [OF follows_itself]) simp_all

section \<open>Rows without an owner\<close>

lemma block_rows: "block_ok b \<Longrightarrow> fold row_step b rows = rows(fst (made b) := [])"
proof (cases b rule: block_ok.cases)
  case (1 n items ds)
  assume "block_ok b"
  then have ds: "list_all (index_for n (build_table items)) ds" using 1 by (simp add: Let_def)
  have "fold row_step ds q = q" for q using ds
  proof (induction ds)
    case (Cons d ds)
    then show ?case by (cases d) simp_all
  qed simp
  then show ?thesis using 1 by simp
qed simp_all

lemma blocks_rows:
  "list_all block_ok bs \<Longrightarrow>
     fold row_step (concat bs) rows n = (if n \<in> set (map (fst \<circ> made) bs) then [] else rows n)"
  by (induction bs arbitrary: rows) (auto simp: block_rows)

lemma drops_rows: "fold row_step (map DropTable ns) rows n = (if n \<in> set ns then [] else rows n)"
  by (induction ns arbitrary: rows) auto

lemma block_names:
  "map (fst \<circ> made) blocks_tenants = [''app_users'', ''workspaces'', ''invitations'',
     ''invitation_redemptions'', ''workspace_credentials'', ''demo_sessions'', ''watchlist_symbols'',
     ''connected_opportunities'', ''audit_records'']"
  "map (fst \<circ> made) blocks_owned = [''broker_sync_state'', ''broker_accounts'', ''broker_positions'',
     ''broker_orders'', ''order_intents'', ''guardian_incidents'']"
  by (simp_all add: block_lists)

lemma rows_0007:
  assumes "db_tables db = schema_after 6" and "ddl_run upgrade_0007 db = Inr db'"
  shows "db_rows db' = fold row_step add_owners (fold row_step (concat blocks_owned)
    (fold row_step discard_global (fold row_step (concat blocks_tenants) (db_rows db))))"
  using ddl_run_rows [OF assms(2)] by (simp add: upgrade_0007_blocks)

lemma discard_0007:
  assumes "db_tables db = schema_after 6"
  shows "\<exists>db'. ddl_run upgrade_0007 db = Inr db' \<and> db_tables db' = schema_after 7 \<and>
    (\<forall>n \<in> set [''broker_orders'', ''broker_positions'', ''broker_accounts'', ''broker_sync_state'',
        ''order_intents'', ''guardian_incidents'']. db_rows db' n = []) \<and>
    (\<forall>n \<in> set [''domain_events'', ''outbox_events'', ''ai_workflow_runs'', ''research_observations''].
        db_rows db' n = map (\<lambda>r. r(''workspace_id'' \<mapsto> VNull)) (db_rows db n)) \<and>
    db_rows db' ''strategy_passports'' = db_rows db ''strategy_passports''"
proof -
  have up: "upgrade_ops (scripts ! 6) = upgrade_0007" by (simp add: scripts_def)
  obtain db' where db': "ddl_run upgrade_0007 db = Inr db'" "db_tables db' = schema_after 7"
    using upgrade_step [of 6 db] assms up by auto
  have owned: "list_all block_ok blocks_owned" using blocks_ok_owned by simp
  let ?q = "fold row_step (concat blocks_owned) (fold row_step discard_global
    (fold row_step (concat blocks_tenants) (db_rows db)))"
  have q: "?q n = (if n \<in> set (map (fst \<circ> made) blocks_owned) \<or> n \<in> set [''broker_orders'',
      ''broker_positions'', ''broker_accounts'', ''broker_sync_state'', ''order_intents'',
      ''guardian_incidents''] \<or> n \<in> set (map (fst \<circ> made) blocks_tenants) then [] else db_rows db n)" for n
    by (simp only: blocks_rows [OF owned] blocks_rows [OF blocks_ok_tenants] discard_global_def
        drops_rows) simp
  have rows: "db_rows db' = fold row_step add_owners ?q" by (rule rows_0007 [OF assms db'(1)])
  have "initial_value (sa_column ''workspace_id'' SqlUuid True) = VNull"
    "col_name (sa_column ''workspace_id'' SqlUuid True) = ''workspace_id''"
    by (simp_all add: initial_value_def sa_column_def)
  then have last: "fold row_step add_owners p n = (if n \<in> set [''domain_events'', ''outbox_events'',
      ''ai_workflow_runs'', ''research_observations'']
    then map (\<lambda>r. r(''workspace_id'' \<mapsto> VNull)) (p n) else p n)" for p n
    by (simp add: add_owners_def)
  show ?thesis
    using db' by (intro exI [of _ db'] conjI) (simp_all only: rows last q block_names, simp_all)
qed

text \<open>C39. Revision 0007 applies to every database at revision 0006: afterwards no row of the global
  broker projections, order intents and Guardian incidents is left, every domain event, outbox
  event, AI run and research observation is kept with no owner (NULL), and the strategy passports are
  unchanged.\<close>

theorem dual_workspace_discards_global_rows:
  assumes "follows exec view" and "db_tables (view db) = schema_after 6"
  shows "\<exists>db'. perform exec upgrade_0007 db = Inr db' \<and> db_tables (view db') = schema_after 7 \<and>
    (\<forall>n \<in> set [''broker_orders'', ''broker_positions'', ''broker_accounts'', ''broker_sync_state'',
        ''order_intents'', ''guardian_incidents'']. db_rows (view db') n = []) \<and>
    (\<forall>n \<in> set [''domain_events'', ''outbox_events'', ''ai_workflow_runs'', ''research_observations''].
        db_rows (view db') n = map (\<lambda>r. r(''workspace_id'' \<mapsto> VNull)) (db_rows (view db) n)) \<and>
    db_rows (view db') ''strategy_passports'' = db_rows (view db) ''strategy_passports''"
  using discard_0007 [OF assms(2)] perform_seen [OF assms(1), of upgrade_0007 db]
  by (cases "perform exec upgrade_0007 db") auto

theorem dual_workspace_discards_global_rows_witness:
  "\<exists>db'. perform ddl_step upgrade_0007 \<lparr> db_tables = schema_after 6, db_rows = (\<lambda>_. [])(''broker_orders'' :=
      [[''broker_order_id'' \<mapsto> VText ''o-1'']]) \<rparr> = Inr db' \<and> db_rows db' ''broker_orders'' = []"
  using dual_workspace_discards_global_rows [OF follows_itself, of "\<lparr> db_tables = schema_after 6,
    db_rows = (\<lambda>_. [])(''broker_orders'' := [[''broker_order_id'' \<mapsto> VText ''o-1'']]) \<rparr>"] by auto

section \<open>Downgrades\<close>

lemma run_all_blocked:
  assumes "\<And>st. \<exists>e. f s st = Inl e"
  shows "\<exists>e. run_all f (ss @ s # rest) st = Inl e"
proof (induction ss arbitrary: st)
  case Nil
  then show ?case using assms [of st] by auto
next
  case (Cons s' ss)
  then show ?case by (cases "f s' st") auto
qed

lemma downgrades_pass_0007:
  assumes "v \<in> set [Some ''20260902_0007'', Some ''20260902_0008'', Some ''20260903_0009'']"
    and "target \<in> set (map revision_at [0..<7])"
  shows "\<exists>ss rest. downgrades_to 9 target v = ss @ scripts ! 6 # rest"
proof -
  have target: "target \<noteq> Some ''20260902_0007'' \<and> target \<noteq> Some ''20260902_0008'' \<and>
      target \<noteq> Some ''20260903_0009''"
    using assms(2) by (auto simp: revision_at_def scripts_def upt_rec)
  have find: "List.find (\<lambda>s. revision s = ''20260902_0007'') scripts = Some (scripts ! 6)"
    "List.find (\<lambda>s. revision s = ''20260902_0008'') scripts = Some (scripts ! 7)"
    "List.find (\<lambda>s. revision s = ''20260903_0009'') scripts = Some (scripts ! 8)"
    "down_revision (scripts ! 7) = Some ''20260902_0007''"
    "down_revision (scripts ! 8) = Some ''20260902_0008''"
    by (simp_all add: scripts_def)
  have seven: "\<exists>rest. downgrades_to (Suc n) target (Some ''20260902_0007'') = scripts ! 6 # rest" for n
    using target by (auto simp add: find(1))
  have eight: "downgrades_to (Suc n) target (Some ''20260902_0008'') =
      scripts ! 7 # downgrades_to n target (Some ''20260902_0007'')" for n
    using target by (auto simp add: find(2,4))
  have nine: "downgrades_to (Suc n) target (Some ''20260903_0009'') =
      scripts ! 8 # downgrades_to n target (Some ''20260902_0008'')" for n
    using target by (auto simp add: find(3,5))
  have n: "Suc 8 = 9" "Suc 7 = 8" "Suc 6 = (7::nat)" by simp_all
  obtain r7 r8 r9 where r: "downgrades_to 9 target (Some ''20260902_0007'') = scripts ! 6 # r7"
      "downgrades_to 8 target (Some ''20260902_0007'') = scripts ! 6 # r8"
      "downgrades_to 7 target (Some ''20260902_0007'') = scripts ! 6 # r9"
    using seven [of 8] seven [of 7] seven [of 6] unfolding n by blast
  have "downgrades_to 9 target (Some ''20260902_0008'') = [scripts ! 7] @ scripts ! 6 # r8"
    using eight [of 8] unfolding n r by simp
  moreover have "downgrades_to 9 target (Some ''20260903_0009'') = [scripts ! 8, scripts ! 7] @ scripts ! 6 # r9"
    using nine [of 8] eight [of 7] unfolding n r by simp
  moreover have "downgrades_to 9 target (Some ''20260902_0007'') = [] @ scripts ! 6 # r7"
    using r(1) by simp
  ultimately show ?thesis using assms(1) unfolding list.set by blast
qed

text \<open>C37. No downgrade goes below revision 0007: from 0007 or a later revision, whatever the database
  holds, a downgrade to an earlier revision fails, and as the command is one transaction the database
  is left as it was, also when later revisions had been downgraded before the failure.\<close>

theorem no_downgrade_below_0007:
  assumes "at_revision st \<in> set [Some ''20260902_0007'', Some ''20260902_0008'', Some ''20260903_0009'']"
    and "target \<in> set (map revision_at [0..<7])"
  shows "\<exists>e. run_migrations_online exec (DowngradeTo target) st = (st, Some e)"
proof -
  obtain ss rest where path: "downgrades_to 9 target (at_revision st) = ss @ scripts ! 6 # rest"
    using downgrades_pass_0007 [OF assms] by auto
  have "downgrade_ops (scripts ! 6) = downgrade_0007" by (simp add: scripts_def)
  then have "\<exists>e. apply_downgrade exec (scripts ! 6) st' = Inl e" for st'
    by (simp add: apply_downgrade_def downgrade_0007_def)
  then obtain e where "run_all (apply_downgrade exec) (ss @ scripts ! 6 # rest) st = Inl e"
    using run_all_blocked [of "apply_downgrade exec" "scripts ! 6" ss rest st] by auto
  then show ?thesis by (simp add: run_migrations_online_def path)
qed

theorem no_downgrade_below_0007_witness:
  "\<exists>e. run_migrations_online ddl_step (DowngradeTo (Some ''20260901_0001''))
      \<lparr> at_revision = Some ''20260903_0009'', contents = \<lparr> db_tables = schema_after 9, db_rows = (\<lambda>_. []) \<rparr> \<rparr> =
    (\<lparr> at_revision = Some ''20260903_0009'', contents = \<lparr> db_tables = schema_after 9, db_rows = (\<lambda>_. []) \<rparr> \<rparr>,
     Some e)"
  by (rule no_downgrade_below_0007) (simp_all add: revision_at_def scripts_def upt_rec)

section \<open>Undoing a revision\<close>

text \<open>Creating and dropping tables that the database does not have leaves the other rows alone.\<close>

fun undisturbed :: "(string \<Rightarrow> db_row list) \<Rightarrow> ddl \<Rightarrow> bool" where
  "undisturbed rows (CreateTable n _) = (rows n = [])"
| "undisturbed rows (DropTable n) = (rows n = [])"
| "undisturbed rows (AddColumn _ _) = False"
| "undisturbed rows (DropColumn _ _) = False"
| "undisturbed rows _ = True"

lemma undisturbed_rows: "list_all (undisturbed rows) ds \<Longrightarrow> fold row_step ds rows = rows"
proof (induction ds)
  case (Cons d ds)
  then have "row_step d rows = rows" by (cases d) auto
  then show ?case using Cons by simp
qed simp

lemma undisturbed_block: "block_ok b \<Longrightarrow> rows (fst (made b)) = [] \<Longrightarrow> list_all (undisturbed rows) b"
proof (cases b rule: block_ok.cases)
  case (1 n items ds)
  assume "block_ok b" "rows (fst (made b)) = []"
  moreover have "index_for n t d \<Longrightarrow> undisturbed rows d" for t d by (cases d) auto
  ultimately show ?thesis using 1 by (auto simp: Let_def list_all_iff)
qed simp_all

lemma undo:
  assumes db: "ddl_run ups db = Inr db1" and down: "schema_run downs (db_tables db1) = Inr (db_tables db)"
    and free: "list_all reads_no_rows downs" and rows: "fold row_step (ups @ downs) (db_rows db) = db_rows db"
  shows "ddl_run downs db1 = Inr db"
  using ddl_run_total [OF down free] ddl_run_rows [OF db] rows by simp

text \<open>The blocks of the first six revisions, which only create tables.\<close>

definition new_blocks :: "ddl list list list" where
  "new_blocks =
    [[create_domain_events, create_outbox_events],
     [create_global_broker_sync_state, create_global_broker_accounts, create_global_broker_positions,
      create_global_broker_orders],
     [create_global_order_intents], [create_ai_workflow_runs], [create_global_guardian_incidents],
     [create_research_observations, create_strategy_passports]]"

definition dropped :: "string list list" where
  "dropped =
    [[''outbox_events'', ''domain_events''],
     [''broker_orders'', ''broker_positions'', ''broker_accounts'', ''broker_sync_state''],
     [''order_intents''], [''ai_workflow_runs''], [''guardian_incidents''],
     [''strategy_passports'', ''research_observations'']]"

lemma concat_new_blocks: "concat new_blocks = blocks_0006"
  by (simp add: new_blocks_def blocks_0006_def)

lemma early_upgrades: "map upgrade_ops (take 6 scripts) = map concat new_blocks"
  by (simp add: scripts_def new_blocks_def upgrade_0001_def upgrade_0002_def upgrade_0003_def
      upgrade_0004_def upgrade_0005_def upgrade_0006_def)

lemma less_6: "(k::nat) < 6 \<longleftrightarrow> k = 0 \<or> k = 1 \<or> k = 2 \<or> k = 3 \<or> k = 4 \<or> k = 5"
  by arith

lemma early_downgrades:
  "k < 6 \<Longrightarrow> k \<noteq> 0 \<Longrightarrow> downgrade_ops (scripts ! k) = Inr (map DropTable (dropped ! k))"
  unfolding less_6 by (elim disjE) (simp_all add: scripts_def dropped_def downgrade_0002_def
    downgrade_0003_def downgrade_0004_def downgrade_0005_def downgrade_0006_def)

lemma schema_after_early:
  assumes "k \<le> 6"
  shows "schema_after k = map made (concat (take k new_blocks))"
proof -
  let ?bs = "concat (take k new_blocks)"
  have split: "blocks_0006 = ?bs @ concat (drop k new_blocks)"
    by (metis append_take_drop_id concat_append concat_new_blocks)
  have "concat (map upgrade_ops (take k scripts)) = concat (map concat (take k new_blocks))"
    using arg_cong [OF early_upgrades, of "take k"] assms by (simp add: take_map min_def)
  also have "\<dots> = concat ?bs"
  proof -
    have "concat (map concat xss) = concat (concat xss)" for xss :: "ddl list list list"
      by (induction xss) simp_all
    then show ?thesis .
  qed
  finally have ops: "concat (map upgrade_ops (take k scripts)) = concat ?bs" .
  have "schema_run (concat ?bs) [] = Inr ([] @ map made ?bs)"
  proof (rule create_blocks)
    show "list_all block_ok ?bs" using blocks_ok_0006 by (simp add: split)
    show "distinct (relation_names ([] @ map made ?bs))" using distinct_0006 by (simp add: split)
    show "all_resolve (map outline []) ?bs" using resolve_0006 by (simp add: split resolve_append)
  qed
  then show ?thesis using run_to [of k] ops by simp
qed

lemma unreferenced_early:
  "list_all (\<lambda>ns. no_references ns (map made blocks_0006)) (tl dropped)"
  by code_simp

lemma dropped_blocks:
  "k < 6 \<Longrightarrow> set (dropped ! k) = (fst \<circ> made) ` set (new_blocks ! k) \<and> distinct (dropped ! k)"
  unfolding less_6 by (elim disjE) (simp_all add: dropped_def new_blocks_def insert_commute)

lemma schema_after_Suc_early:
  assumes "k < 6"
  shows "schema_after (Suc k) = schema_after k @ map made (new_blocks ! k)"
proof -
  have "k < length new_blocks" using assms by (simp add: new_blocks_def)
  then show ?thesis
    using assms by (simp add: schema_after_early take_Suc_conv_app_nth)
qed

lemma names_apart:
  assumes "k < 6" and "n \<in> set (dropped ! k)"
  shows "n \<notin> fst ` set (schema_after k)"
proof -
  have "distinct (relation_names (schema_after (Suc k)))"
    using schema_after_ok by (simp add: schema_ok_def)
  then have "distinct (map fst (schema_after k @ map made (new_blocks ! k)))"
    unfolding schema_after_Suc_early [OF assms(1), symmetric] by (rule distinct_names)
  moreover have "n \<in> (fst \<circ> made) ` set (new_blocks ! k)" using dropped_blocks [OF assms(1)] assms(2) by simp
  ultimately show ?thesis by (auto simp: image_comp)
qed

lemma undo_schema_early:
  assumes "k < 6" and "k \<noteq> 0"
  shows "schema_run (map DropTable (dropped ! k)) (schema_after (Suc k)) = Inr (schema_after k)"
proof -
  let ?ns = "dropped ! k" and ?new = "map made (new_blocks ! k)"
  have eq: "schema_after (Suc k) = schema_after k @ ?new" by (rule schema_after_Suc_early [OF assms(1)])
  have "distinct (map fst (schema_after (Suc k)))"
    using schema_after_ok [of "Suc k"] by (intro distinct_names) (simp add: schema_ok_def)
  moreover have "set ?ns \<subseteq> fst ` set (schema_after (Suc k))"
    using dropped_blocks [OF assms(1)] by (auto simp: eq)
  moreover have "no_references ?ns (schema_after (Suc k))"
  proof -
    have l: "length dropped = 6" by (simp add: dropped_def)
    then have "dropped ! k = tl dropped ! (k - 1)" "k - 1 < length (tl dropped)"
      using assms by (auto simp: nth_tl)
    then have "no_references ?ns (map made blocks_0006)"
      using unreferenced_early by (simp add: list_all_length)
    moreover have "map made blocks_0006 = schema_after (Suc k) @ map made (concat (drop (Suc k) new_blocks))"
      using schema_after_early [of "Suc k"] assms(1)
      by (metis Suc_leI append_take_drop_id concat_append concat_new_blocks map_append)
    ultimately show ?thesis by (simp add: no_references_def)
  qed
  moreover have "filter (\<lambda>p. fst p \<notin> set ?ns) (schema_after k @ ?new) = schema_after k"
  proof -
    have "filter (\<lambda>p. fst p \<notin> set ?ns) (schema_after k) = schema_after k"
      using names_apart [OF assms(1)] by (intro filter_True) (metis imageI)
    moreover have "filter (\<lambda>p. fst p \<notin> set ?ns) ?new = []"
      using dropped_blocks [OF assms(1)] by (auto intro!: filter_False)
    ultimately show ?thesis by simp
  qed
  ultimately show ?thesis
    using drop_tables [of "schema_after (Suc k)" ?ns] dropped_blocks [OF assms(1)] by (simp add: eq)
qed

lemma undo_schema_0001: "schema_run downgrade_0001 (schema_after 1) = Inr (schema_after 0)"
proof -
  have "schema_run downgrade_0001 (map made [create_domain_events, create_outbox_events]) = Inr []"
    by code_simp
  then show ?thesis
    using schema_after_early [of 1] schema_after_early [of 0] by (simp add: new_blocks_def)
qed

text \<open>What undoing the revision at position \<open>k\<close> means.\<close>

definition undoes :: "nat \<Rightarrow> database \<Rightarrow> bool" where
  "undoes k db \<longleftrightarrow> (\<exists>db' ds. ddl_run (upgrade_ops (scripts ! k)) db = Inr db' \<and>
     db_tables db' = schema_after (Suc k) \<and> downgrade_ops (scripts ! k) = Inr ds \<and> ddl_run ds db' = Inr db)"

lemma undo_early:
  assumes k: "k < 6" and ok: "database_ok db" and db: "db_tables db = schema_after k"
  shows "undoes k db"
proof -
  let ?ups = "upgrade_ops (scripts ! k)"
  obtain db' where up: "ddl_run ?ups db = Inr db'" and db': "db_tables db' = schema_after (Suc k)"
    using upgrade_step [of k db] k db by auto
  have absent: "db_rows db n = []" if "n \<in> set (dropped ! k)" for n
    using rows_of_absent_table [OF ok] names_apart [OF k that] db by simp
  have len: "length new_blocks = 6" by (simp add: new_blocks_def)
  have "map upgrade_ops (take 6 scripts) ! k = map concat new_blocks ! k" by (simp only: early_upgrades)
  then have ups: "?ups = concat (new_blocks ! k)" using k len by simp
  have blocks: "block_ok b \<and> fst (made b) \<in> set (dropped ! k)" if "b \<in> set (new_blocks ! k)" for b
  proof -
    have "b \<in> set blocks_0006"
      using that k len by (auto simp flip: concat_new_blocks intro!: bexI [of _ "new_blocks ! k"])
    then show ?thesis using blocks_ok_0006 dropped_blocks [OF k] that by (simp add: list_all_iff)
  qed
  have "list_all (undisturbed (db_rows db)) b" if "b \<in> set (new_blocks ! k)" for b
    using blocks [OF that] absent by (intro undisturbed_block) auto
  then have quiet_up: "list_all (undisturbed (db_rows db)) ?ups" by (auto simp: ups list_all_iff)
  obtain ds where ds: "downgrade_ops (scripts ! k) = Inr ds" "list_all reads_no_rows ds"
      "list_all (undisturbed (db_rows db)) ds" "schema_run ds (schema_after (Suc k)) = Inr (schema_after k)"
  proof (cases "k = 0")
    case True
    have "list_all (undisturbed (db_rows db)) downgrade_0001" "list_all reads_no_rows downgrade_0001"
      using absent True by (simp_all add: downgrade_0001_def dropped_def)
    then show thesis
      using that [of downgrade_0001] undo_schema_0001 True by (simp add: scripts_def)
  next
    case False
    have "list_all (undisturbed (db_rows db)) (map DropTable (dropped ! k))"
      using absent by (simp add: list_all_iff)
    moreover have "list_all reads_no_rows (map DropTable (dropped ! k))" by (simp add: list_all_iff)
    ultimately show thesis
      using that early_downgrades [OF k False] undo_schema_early [OF k False] by blast
  qed
  have "fold row_step (?ups @ ds) (db_rows db) = db_rows db"
    using quiet_up ds(3) by (intro undisturbed_rows) simp
  then have "ddl_run ds db' = Inr db"
    using undo [OF up _ ds(2)] ds(4) db db' by simp
  then show ?thesis using up db' ds(1) by (auto simp: undoes_def)
qed

text \<open>A column outside every key can be dropped: no foreign key refers to it.\<close>

lemma unreferenced_column:
  assumes "schema_ok ts" and "map_of ts n = Some t" and "\<And>k. k \<in> set (keys t) \<Longrightarrow> c \<notin> set k"
  shows "\<not> referenced ts n (\<lambda>k. c \<in> set k)"
  using assms(3) targets_are_keys [OF assms(1,2)] by (auto simp: referenced_def)

lemma unreferenced_new_table:
  assumes "schema_ok ts" and "n \<notin> fst ` set ts"
  shows "\<not> referenced ts n P"
proof
  assume "referenced ts n P"
  then obtain m t f where f: "(m, t) \<in> set ts" "f \<in> set (t_fks t)" "fk_table f = n"
    by (auto simp: referenced_def)
  have "fk_ok ts f" by (rule schema_ok_in(2) [OF assms(1) f(1,2)])
  then have "map_of ts n \<noteq> None" using f(3) by (auto simp: fk_ok_def split: option.splits)
  then show False using assms(2) by (simp add: map_of_eq_None_iff)
qed

lemma created_keys:
  "list_all (\<lambda>k. ''code_format'' \<notin> set k) (keys (snd (made create_invitations)))"
  "list_all (\<lambda>k. ''scan_run_id'' \<notin> set k) (keys (snd (made create_connected_opportunities)))"
  "table_ok (snd (made create_invitations))" "table_ok (snd (made create_connected_opportunities))"
  by code_simp+

lemma undo_schema_0008: "schema_run downgrade_0008 schema_0008 = Inr schema_0007"
proof -
  let ?t = "snd (made create_invitations)"
  have t: "map_of schema_0008 ''invitations'' = Some invitations_0008"
    by (simp add: schema_0008_def update_conv')
  have keys: "keys invitations_0008 = keys ?t" by (simp add: invitations_0008_def Let_def)
  have "\<not> referenced schema_0008 ''invitations'' (\<lambda>k. ''code_format'' \<in> set k)"
    using created_keys(1) by (intro unreferenced_column [OF schema_0008_ok t]) (simp add: keys list_all_iff)
  moreover have "without_column ''code_format'' invitations_0008 = ?t"
    using without_new_column [of ?t code_format] table_ok_mentions [OF created_keys(3)] new_columns
    by (simp add: invitations_0008_def Let_def)
  moreover have "''code_format'' \<in> set (column_names invitations_0008)"
    by (simp add: invitations_0008_def Let_def)
  ultimately have "schema_step (DropColumn ''invitations'' ''code_format'') schema_0008 =
      Inr (AList.update ''invitations'' ?t schema_0008)"
    by (simp add: with_table_def t)
  also have "AList.update ''invitations'' ?t schema_0008 = schema_0007"
    by (simp add: schema_0008_def update_twice update_same lookup_0007)
  finally show ?thesis by (simp add: downgrade_0008_def del: schema_step.simps)
qed

lemma undo_0008:
  assumes ok: "database_ok db" and db: "db_tables db = schema_0007"
  shows "undoes 7 db"
proof -
  have ops: "upgrade_ops (scripts ! 7) = [AddColumn ''invitations'' code_format]"
    "downgrade_ops (scripts ! 7) = Inr downgrade_0008"
    by (simp_all add: scripts_def upgrade_0008_def add_code_format_def code_format_def)
  obtain db' where up: "ddl_run [AddColumn ''invitations'' code_format] db = Inr db'"
      and db': "db_tables db' = schema_0008"
    using upgrade_step [of 7 db] db ops schema_after_late by auto
  have lack: "r ''code_format'' = None" if "r \<in> set (db_rows db ''invitations'')" for r
    using rows_lack_column [OF ok _ _ that] new_columns lookup_0007 db by simp
  have "fold row_step ([AddColumn ''invitations'' code_format] @ downgrade_0008) (db_rows db) = db_rows db"
    using rows_without_new_column [of "db_rows db ''invitations''" "''code_format''"] lack
    by (simp add: downgrade_0008_def)
  moreover have "list_all reads_no_rows downgrade_0008" by (simp add: downgrade_0008_def)
  ultimately have "ddl_run downgrade_0008 db' = Inr db"
    using undo [OF up, of downgrade_0008] undo_schema_0008 db db' by simp
  then show ?thesis using up db' ops schema_after_late by (auto simp: undoes_def)
qed

lemma opportunities_indexes:
  "list_all (\<lambda>x. ix_name x \<noteq> ''ix_connected_opportunities_scan_run_id'')
     (t_indexes (snd (made create_connected_opportunities)))"
  by code_simp

lemma undo_schema_0009: "schema_run downgrade_0009 schema_0009 = Inr schema_0008"
proof -
  let ?co = "''connected_opportunities''" and ?t = "snd (made create_connected_opportunities)"
  let ?ix = "''ix_connected_opportunities_scan_run_id''"
  let ?fk = "''fk_connected_opportunities_scan_run_id''"
  let ?ts = "schema_0008 @ [made create_connected_scan_runs]"
  let ?u = "?t\<lparr> t_columns := t_columns ?t @ [scan_run] \<rparr>"
  let ?f = "\<lparr> fk_name = Some ?fk, fk_columns = [''scan_run_id''], fk_table = ''connected_scan_runs'',
      fk_targets = [''scan_run_id''], fk_ondelete = OnSetNull \<rparr>"
  let ?v = "?u\<lparr> t_fks := t_fks ?t @ [?f] \<rparr>"
  let ?x = "\<lparr> ix_name = ?ix, ix_columns = [''scan_run_id''], ix_unique = False \<rparr>"
  have w: "opportunities_0009 = ?v\<lparr> t_indexes := t_indexes ?t @ [?x] \<rparr>"
    by (simp add: opportunities_0009_def Let_def)
  have "List.find (\<lambda>x. ix_name x = ?ix) (t_indexes ?t) = None"
    using opportunities_indexes by (auto simp: find_None_iff list_all_iff)
  then have "List.find (\<lambda>x. ix_name x = ?ix) (t_indexes ?t @ [?x]) = Some ?x"
    by (simp add: find_append)
  moreover have "filter (\<lambda>x. ix_name x \<noteq> ?ix) (t_indexes ?t) = t_indexes ?t"
    using opportunities_indexes by (simp add: list_all_iff)
  ultimately have idx: "schema_step (DropIndex ?ix ?co) schema_0009 = Inr (AList.update ?co ?v ?ts)"
    by (simp add: with_table_def schema_0009_def update_conv' update_twice w)
  have "filter (\<lambda>g. fk_name g \<noteq> Some ?fk) (t_fks ?t) = t_fks ?t"
    using opportunities_unnamed_fks by (simp add: list_all_iff)
  then have fk: "schema_step (DropForeignKey ?fk ?co) (AList.update ?co ?v ?ts) = Inr (AList.update ?co ?u ?ts)"
    by (simp add: with_table_def update_conv' update_twice)
  have t: "map_of ?ts ?co = Some ?t"
    by (simp add: schema_0008_def update_conv' map_add_def lookup_0007 split: option.splits)
  have add: "schema_step (AddColumn ?co scan_run) ?ts = Inr (AList.update ?co ?u ?ts)"
    by (rule add_column_run [OF t]) (use new_columns in simp_all)
  have "schema_run create_connected_scan_runs schema_0008 = Inr ?ts"
    by (rule create_block [OF block_scan_runs(1) names_fresh_0009(1) block_scan_runs(2)])
  then have "schema_ok (AList.update ?co ?u ?ts)"
    using schema_step_ok [OF _ add] schema_run_ok [OF schema_0008_ok] by blast
  moreover have "map_of (AList.update ?co ?u ?ts) ?co = Some ?u" by (simp add: update_conv')
  ultimately have "\<not> referenced (AList.update ?co ?u ?ts) ?co (\<lambda>k. ''scan_run_id'' \<in> set k)"
    using created_keys(2) by (intro unreferenced_column) (auto simp: list_all_iff)
  moreover have "without_column ''scan_run_id'' ?u = ?t"
    using without_new_column [of ?t scan_run] table_ok_mentions [OF created_keys(4)] new_columns by simp
  ultimately have col: "schema_step (DropColumn ?co ''scan_run_id'') (AList.update ?co ?u ?ts) = Inr ?ts"
    by (simp add: with_table_def update_conv' update_twice update_same [OF t])
  have "fst ` set schema_0008 \<subseteq> set (relation_names schema_0008)"
    using table_name_in_names by blast
  moreover have "''connected_scan_runs'' \<notin> set (relation_names schema_0008)"
    using names_fresh_0009(1) table_name_in_names [of "''connected_scan_runs''"
      "[made create_connected_scan_runs]"] by auto
  ultimately have new: "''connected_scan_runs'' \<notin> fst ` set schema_0008" by blast
  have "filter (\<lambda>(m, _). ''connected_scan_runs'' \<noteq> m) schema_0008 = schema_0008"
    using new by (intro filter_True) force
  then have "AList.delete ''connected_scan_runs'' ?ts = schema_0008"
    by (simp add: AList.delete_eq case_prod_unfold)
  moreover have m: "made create_connected_scan_runs =
      (''connected_scan_runs'', snd (made create_connected_scan_runs))" by (simp add: prod_eq_iff)
  have "map_of ?ts ''connected_scan_runs'' = Some (snd (made create_connected_scan_runs))"
    using map_of_at_end [OF new, of "snd (made create_connected_scan_runs)"]
    by (simp only: m [symmetric])
  ultimately have tab: "schema_step (DropTable ''connected_scan_runs'') ?ts = Inr schema_0008"
    using unreferenced_new_table [OF schema_0008_ok new] by (simp add: with_table_def del: map_of_append)
  show ?thesis unfolding downgrade_0009_def
    by (simp only: schema_run.simps rbind_Inr idx fk col tab)
qed

lemma undo_0009:
  assumes ok: "database_ok db" and db: "db_tables db = schema_0008"
  shows "undoes 8 db"
proof -
  let ?co = "''connected_opportunities''"
  have ops: "upgrade_ops (scripts ! 8) = upgrade_0009" "downgrade_ops (scripts ! 8) = Inr downgrade_0009"
    by (simp_all add: scripts_def)
  obtain db' where up: "ddl_run upgrade_0009 db = Inr db'" and db': "db_tables db' = schema_0009"
    using upgrade_0009_rows [OF db] by auto
  have "map_of schema_0008 ?co = Some (snd (made create_connected_opportunities))"
    by (simp add: schema_0008_def update_conv' lookup_0007)
  then have lack: "r ''scan_run_id'' = None" if "r \<in> set (db_rows db ?co)" for r
    using rows_lack_column [OF ok _ _ that] new_columns db by simp
  have "''connected_scan_runs'' \<notin> fst ` set schema_0008"
    using names_fresh_0009(1) table_name_in_names [of "''connected_scan_runs''" schema_0008]
      table_name_in_names [of "''connected_scan_runs''" "[made create_connected_scan_runs]"] by auto
  then have new: "db_rows db ''connected_scan_runs'' = []"
    using rows_of_absent_table [OF ok] db by simp
  have "fold row_step create_connected_scan_runs (db_rows db) = (db_rows db)(''connected_scan_runs'' := [])"
    using block_rows [OF block_scan_runs(1)] by simp
  also have "\<dots> = db_rows db" using new by (auto simp: fun_eq_iff)
  finally have "fold row_step (upgrade_0009 @ downgrade_0009) (db_rows db) = db_rows db"
    using rows_without_new_column [of "db_rows db ?co" "''scan_run_id''"] lack new
    by (simp add: upgrade_0009_split downgrade_0009_def fun_upd_idem)
  moreover have "list_all reads_no_rows downgrade_0009" by (simp add: downgrade_0009_def)
  ultimately have "ddl_run downgrade_0009 db' = Inr db"
    using undo [OF up, of downgrade_0009] undo_schema_0009 db db' by simp
  then show ?thesis using up db' ops schema_after_late by (auto simp: undoes_def)
qed

lemma undo_upgrade:
  assumes "k < 9" and "k \<noteq> 6" and "at_revision st = revision_at k"
    and "db_tables (contents st) = schema_after k" and "database_ok (contents st)"
  shows "\<exists>st'. apply_upgrade ddl_step (scripts ! k) st = Inr st' \<and> db_tables (contents st') = schema_after (Suc k) \<and>
    apply_downgrade ddl_step (scripts ! k) st' = Inr st"
proof -
  have "undoes k (contents st)"
  proof (cases "k < 6")
    case True
    then show ?thesis using undo_early assms by simp
  next
    case False
    then have "k = 7 \<or> k = 8" using assms(1,2) by auto
    then show ?thesis using undo_0008 undo_0009 assms(4,5) schema_after_late by auto
  qed
  then obtain db ds where "ddl_run (upgrade_ops (scripts ! k)) (contents st) = Inr db"
      "db_tables db = schema_after (Suc k)" "downgrade_ops (scripts ! k) = Inr ds"
      "ddl_run ds db = Inr (contents st)"
    by (auto simp: undoes_def)
  then show ?thesis
    using assms(3) down_revision_at [OF assms(1)]
    by (cases st) (simp add: apply_upgrade_def apply_downgrade_def)
qed

text \<open>C38. Except for revision 0007, every revision can be undone: on every well-formed database at the
  revision before it, its upgrade succeeds and its downgrade then restores exactly the tables and the
  rows (and the stored revision) from before the upgrade.\<close>

theorem downgrade_undoes_upgrade:
  assumes "follows exec view" and "k < 9" and "k \<noteq> 6" and "at_revision st = revision_at k"
    and "db_tables (view (contents st)) = schema_after k" and "database_ok (view (contents st))"
  shows "\<exists>st1 st2. apply_upgrade exec (scripts ! k) st = Inr st1 \<and>
    db_tables (view (contents st1)) = schema_after (Suc k) \<and>
    apply_downgrade exec (scripts ! k) st1 = Inr st2 \<and> seen view st2 = seen view st"
proof -
  obtain st' where "apply_upgrade ddl_step (scripts ! k) (seen view st) = Inr st'"
      "db_tables (contents st') = schema_after (Suc k)"
      "apply_downgrade ddl_step (scripts ! k) st' = Inr (seen view st)"
    using undo_upgrade [of k "seen view st"] assms by auto
  then show ?thesis
    using apply_seen(1) [OF assms(1), of "scripts ! k" st] apply_seen(2) [OF assms(1), of "scripts ! k"]
    by (auto split: sum.splits)
qed

theorem downgrade_undoes_upgrade_witness:
  "\<exists>st1 st2. apply_upgrade ddl_step (scripts ! 8) \<lparr> at_revision = Some ''20260902_0008'',
      contents = \<lparr> db_tables = schema_after 8, db_rows = (\<lambda>_. []) \<rparr> \<rparr> = Inr st1 \<and>
    db_tables (id (contents st1)) = schema_after (Suc 8) \<and>
    apply_downgrade ddl_step (scripts ! 8) st1 = Inr st2 \<and>
    seen id st2 = seen id \<lparr> at_revision = Some ''20260902_0008'',
      contents = \<lparr> db_tables = schema_after 8, db_rows = (\<lambda>_. []) \<rparr> \<rparr>"
  by (rule downgrade_undoes_upgrade [OF follows_itself])
    (simp_all add: revision_at_def scripts_def empty_rows_ok schema_after_ok)

section \<open>Tenants\<close>

definition tenant_tables :: "string list" where
  "tenant_tables =
    [''workspace_credentials'', ''watchlist_symbols'', ''connected_scan_runs'',
     ''connected_opportunities'', ''broker_sync_state'', ''broker_accounts'', ''broker_positions'',
     ''broker_orders'', ''order_intents'', ''guardian_incidents'']"

text \<open>A column that always holds a value which a foreign key looks up.\<close>

definition belongs :: "string \<Rightarrow> string \<Rightarrow> string \<Rightarrow> ondelete \<Rightarrow> table_def \<Rightarrow> bool" where
  "belongs c n d act t \<longleftrightarrow>
     list_ex (\<lambda>f. fk_columns f = [c] \<and> fk_table f = n \<and> fk_targets f = [d] \<and> fk_ondelete f = act) (t_fks t) \<and>
     list_ex (\<lambda>x. col_name x = c \<and> \<not> col_nullable x) (t_columns t)"

lemma tenants_belong:
  "list_all (belongs ''workspace_id'' ''workspaces'' ''workspace_id'' OnCascade)
     (map (snd \<circ> made) (create_workspace_credentials # create_watchlist_symbols #
        create_connected_scan_runs # blocks_owned))"
  "belongs ''workspace_id'' ''workspaces'' ''workspace_id'' OnCascade opportunities_0009"
  "belongs ''owner_user_id'' ''app_users'' ''user_id'' OnCascade (snd (made create_workspaces))"
  by code_simp+

lemma tenant_tables_belong:
  assumes "n \<in> set tenant_tables"
  shows "\<exists>t. map_of schema_0009 n = Some t \<and>
    belongs ''workspace_id'' ''workspaces'' ''workspace_id'' OnCascade t"
  using assms tenants_belong
  by (simp add: tenant_tables_def schema_0009_def schema_0008_def update_conv' map_add_def
      schema_0007_def owner_gains_def block_lists) (elim disjE; simp)

lemma belongs_row:
  assumes ok: "database_ok db" and t: "map_of (db_tables db) m = Some t" and b: "belongs c n d act t"
    and r: "r \<in> set (db_rows db m)"
  shows "\<exists>q \<in> set (db_rows db n). q d = r c"
proof -
  obtain f x where f: "f \<in> set (t_fks t)" "fk_columns f = [c]" "fk_table f = n" "fk_targets f = [d]"
      and x: "x \<in> set (t_columns t)" "col_name x = c" "\<not> col_nullable x"
    using b by (auto simp: belongs_def list_ex_iff)
  have rows: "rows_ok (db_tables db) (db_rows db)" using ok by (simp add: database_ok_def)
  have "cell_ok x r" using rows_okD(1) [OF rows t r] x(1) by (simp add: row_ok_def)
  then have "all_present (fk_columns f) r"
    using x(2,3) f(2) by (auto simp: cell_ok_def all_present_def split: option.splits)
  then show ?thesis
    using rows_okD(2) [OF rows t r f(1)] f(2-4) by (simp add: fk_holds_def)
qed

text \<open>In every well-formed database at the head, every row of the ten tenant tables (credentials,
  watchlists, scan runs, opportunities, broker projections, order intents, Guardian incidents) belongs
  to an existing workspace, and this workspace to an existing user: no row is without an owner.\<close>

theorem tenant_rows_have_an_owner:
  assumes "database_ok db" and "db_tables db = schema_after 9" and "n \<in> set tenant_tables"
    and "r \<in> set (db_rows db n)"
  shows "\<exists>w \<in> set (db_rows db ''workspaces''). w ''workspace_id'' = r ''workspace_id'' \<and>
    (\<exists>u \<in> set (db_rows db ''app_users''). u ''user_id'' = w ''owner_user_id'')"
proof -
  have tables: "db_tables db = schema_0009" using assms(2) schema_after_late by simp
  obtain t where t: "map_of (db_tables db) n = Some t"
      "belongs ''workspace_id'' ''workspaces'' ''workspace_id'' OnCascade t"
    using tenant_tables_belong [OF assms(3)] tables by auto
  obtain w where w: "w \<in> set (db_rows db ''workspaces'')" "w ''workspace_id'' = r ''workspace_id''"
    using belongs_row [OF assms(1) t assms(4)] by auto
  have "map_of (db_tables db) ''workspaces'' = Some (snd (made create_workspaces))"
    by (simp add: tables schema_0009_def schema_0008_def update_conv' map_add_def schema_0007_def
        owner_gains_def block_lists)
  from belongs_row [OF assms(1) this tenants_belong(3) w(1)] show ?thesis using w by auto
qed

text \<open>A user with a workspace and one watched symbol, for a database at the head.\<close>

definition sample_app_user :: db_row where
  "sample_app_user = [''user_id'' \<mapsto> VUuid ''u-1'', ''auth_subject'' \<mapsto> VText ''subject'',
     ''email'' \<mapsto> VText ''a@b.c'', ''is_admin'' \<mapsto> VBool False, ''created_at'' \<mapsto> VTime 0,
     ''last_seen_at'' \<mapsto> VTime 0]"

definition sample_workspace :: db_row where
  "sample_workspace = [''workspace_id'' \<mapsto> VUuid ''w-1'', ''owner_user_id'' \<mapsto> VUuid ''u-1'',
     ''name'' \<mapsto> VText ''Desk'', ''workspace_type'' \<mapsto> VText ''CONNECTED_PAPER'',
     ''status'' \<mapsto> VText ''ONBOARDING'', ''scanner_enabled'' \<mapsto> VBool False,
     ''created_at'' \<mapsto> VTime 0, ''updated_at'' \<mapsto> VTime 0]"

definition sample_symbol :: db_row where
  "sample_symbol = [''workspace_id'' \<mapsto> VUuid ''w-1'', ''symbol'' \<mapsto> VText ''SPY'',
     ''created_at'' \<mapsto> VTime 0]"

definition sample_db :: database where
  "sample_db = \<lparr> db_tables = schema_after 9, db_rows = (\<lambda>_. [])(
     ''app_users'' := [sample_app_user], ''workspaces'' := [sample_workspace],
     ''watchlist_symbols'' := [sample_symbol]) \<rparr>"

lemma sample_tables:
  "map_of (schema_after 9) ''app_users'' = Some (snd (made create_app_users))"
  "map_of (schema_after 9) ''workspaces'' = Some (snd (made create_workspaces))"
  "map_of (schema_after 9) ''watchlist_symbols'' = Some (snd (made create_watchlist_symbols))"
  by (simp_all add: schema_after_late schema_0009_def schema_0008_def update_conv' map_add_def
      schema_0007_def owner_gains_def block_lists)

lemma sample_columns:
  "t_columns (snd (made create_app_users)) = [sa_column ''user_id'' SqlUuid False,
     sa_column ''auth_subject'' (SqlString 128) False, sa_column ''email'' (SqlString 320) False,
     sa_column ''is_admin'' SqlBoolean False, sa_column ''created_at'' SqlTimestamptz False,
     sa_column ''last_seen_at'' SqlTimestamptz False]"
  "t_columns (snd (made create_workspaces)) = [sa_column ''workspace_id'' SqlUuid False,
     sa_column ''owner_user_id'' SqlUuid False, sa_column ''name'' (SqlString 120) False,
     sa_column ''workspace_type'' (SqlString 32) False, sa_column ''status'' (SqlString 32) False,
     sa_column ''scanner_enabled'' SqlBoolean False, sa_column ''created_at'' SqlTimestamptz False,
     sa_column ''updated_at'' SqlTimestamptz False]"
  "t_columns (snd (made create_watchlist_symbols)) = [sa_column ''workspace_id'' SqlUuid False,
     sa_column ''symbol'' (SqlString 16) False, sa_column ''created_at'' SqlTimestamptz False]"
  by code_simp+

lemma sample_fks:
  "map (\<lambda>f. (fk_columns f, fk_table f, fk_targets f)) (t_fks (snd (made create_app_users))) = []"
  "map (\<lambda>f. (fk_columns f, fk_table f, fk_targets f)) (t_fks (snd (made create_workspaces))) =
     [([''owner_user_id''], ''app_users'', [''user_id''])]"
  "map (\<lambda>f. (fk_columns f, fk_table f, fk_targets f)) (t_fks (snd (made create_watchlist_symbols))) =
     [([''workspace_id''], ''workspaces'', [''workspace_id''])]"
  by code_simp+

lemma sample_rows_ok:
  "row_ok (snd (made create_app_users)) sample_app_user"
  "row_ok (snd (made create_workspaces)) sample_workspace"
  "row_ok (snd (made create_watchlist_symbols)) sample_symbol"
  by (simp_all add: row_ok_def column_names_def sample_columns sample_app_user_def sample_workspace_def
      sample_symbol_def sa_column_def cell_ok_def insert_commute)

lemma in_mapped: "map g fs = ys \<Longrightarrow> f \<in> set fs \<Longrightarrow> g f \<in> set ys"
  by auto

lemma sample_fks_hold:
  "f \<in> set (t_fks (snd (made create_app_users))) \<Longrightarrow> fk_holds (db_rows sample_db) f sample_app_user"
  "f \<in> set (t_fks (snd (made create_workspaces))) \<Longrightarrow> fk_holds (db_rows sample_db) f sample_workspace"
  "f \<in> set (t_fks (snd (made create_watchlist_symbols))) \<Longrightarrow> fk_holds (db_rows sample_db) f sample_symbol"
proof -
  show "f \<in> set (t_fks (snd (made create_app_users))) \<Longrightarrow> fk_holds (db_rows sample_db) f sample_app_user"
    using in_mapped [OF sample_fks(1), of f] by simp
  show "f \<in> set (t_fks (snd (made create_workspaces))) \<Longrightarrow> fk_holds (db_rows sample_db) f sample_workspace"
    using in_mapped [OF sample_fks(2), of f]
    by (simp add: fk_holds_def sample_db_def sample_app_user_def sample_workspace_def)
  show "f \<in> set (t_fks (snd (made create_watchlist_symbols))) \<Longrightarrow> fk_holds (db_rows sample_db) f sample_symbol"
    using in_mapped [OF sample_fks(3), of f]
    by (simp add: fk_holds_def sample_db_def sample_workspace_def sample_symbol_def)
qed

lemma sample_lookup:
  "r \<in> set (db_rows sample_db n) \<Longrightarrow> (n = ''app_users'' \<and> r = sample_app_user) \<or>
     (n = ''workspaces'' \<and> r = sample_workspace) \<or> (n = ''watchlist_symbols'' \<and> r = sample_symbol)"
  by (simp add: sample_db_def split: if_split_asm)

lemma sample_ok: "database_ok sample_db"
proof -
  have "rows_ok (schema_after 9) (db_rows sample_db)"
  proof (rule rows_okI)
    fix n assume "map_of (schema_after 9) n = None"
    then have "n \<noteq> ''app_users'' \<and> n \<noteq> ''workspaces'' \<and> n \<noteq> ''watchlist_symbols''"
      using sample_tables by (metis option.distinct(1))
    then show "db_rows sample_db n = []" by (simp add: sample_db_def)
  next
    fix n t r
    assume t: "map_of (schema_after 9) n = Some t" and r: "r \<in> set (db_rows sample_db n)"
    from sample_lookup [OF r] have t_r: "(t = snd (made create_app_users) \<and> r = sample_app_user) \<or>
        (t = snd (made create_workspaces) \<and> r = sample_workspace) \<or>
        (t = snd (made create_watchlist_symbols) \<and> r = sample_symbol)"
      by (elim disjE conjE) (use t sample_tables in simp_all)
    then show "row_ok t r" using sample_rows_ok by blast
    show "fk_holds (db_rows sample_db) f r" if "f \<in> set (t_fks t)" for f
      using t_r that sample_fks_hold by blast
  next
    fix n k
    have single: "key_ok [] k" "key_ok [q] k" for q by (simp_all add: key_ok_def)
    have "db_rows sample_db n = [] \<or> (\<exists>q. db_rows sample_db n = [q])"
      by (simp add: sample_db_def)
    then show "key_ok (db_rows sample_db n) k" using single by metis
  qed
  then show ?thesis by (simp add: database_ok_def sample_db_def schema_after_ok)
qed

theorem tenant_rows_have_an_owner_witness:
  "\<exists>w \<in> set (db_rows sample_db ''workspaces'').
     w ''workspace_id'' = hd (db_rows sample_db ''watchlist_symbols'') ''workspace_id'' \<and>
     (\<exists>u \<in> set (db_rows sample_db ''app_users''). u ''user_id'' = w ''owner_user_id'')"
  by (rule tenant_rows_have_an_owner [OF sample_ok, of "''watchlist_symbols''"])
    (simp_all add: sample_db_def tenant_tables_def)

section \<open>Commands on well-formed databases\<close>

lemma commands_keep_databases_ok:
  assumes "database_ok (contents st)"
  shows "database_ok (contents (fst (run_migrations_online ddl_step c st)))"
proof -
  have up: "database_ok (contents st2)" if "apply_upgrade ddl_step s st1 = Inr st2" "database_ok (contents st1)"
    for s st1 st2 using that by (auto simp: apply_upgrade_def guard_simps intro: ddl_run_ok)
  have down: "database_ok (contents st2)" if "apply_downgrade ddl_step s st1 = Inr st2" "database_ok (contents st1)"
    for s st1 st2 using that by (auto simp: apply_downgrade_def guard_simps intro: ddl_run_ok)
  have "database_ok (contents st')" if r: "run_migrations ddl_step c st = Inr st'" for st'
  proof (cases c)
    case UpgradeHead
    then show ?thesis
      using r run_all_ok [of "apply_upgrade ddl_step" _ st st', OF up] assms by simp
  next
    case (DowngradeTo v)
    then show ?thesis
      using r run_all_ok [of "apply_downgrade ddl_step" _ st st', OF down] assms by simp
  qed
  then show ?thesis using assms by (auto simp: run_migrations_online_def split: sum.splits)
qed

section \<open>What is left to the rows of revisions 0008 and 0009\<close>

text \<open>Invitations from before revision 0008 carry the format of the old codes; opportunities from
  before revision 0009 belong to no scan run, and no scan run is made up for them.\<close>

lemma older_invitations_are_legacy:
  assumes "ddl_run upgrade_0008 db = Inr db'"
  shows "db_rows db' ''invitations'' =
    map (\<lambda>r. r(''code_format'' \<mapsto> VText ''legacy_urlsafe'')) (db_rows db ''invitations'')"
proof -
  have ops: "upgrade_0008 = [AddColumn ''invitations'' code_format]"
    by (simp add: upgrade_0008_def add_code_format_def code_format_def)
  show ?thesis using ddl_run_rows [OF assms] unfolding ops by simp
qed

lemma older_opportunities_have_no_scan_run:
  assumes "ddl_run upgrade_0009 db = Inr db'"
  shows "db_rows db' ''connected_scan_runs'' = []"
    and "db_rows db' ''connected_opportunities'' =
      map (\<lambda>r. r(''scan_run_id'' \<mapsto> VNull)) (db_rows db ''connected_opportunities'')"
  using ddl_run_rows [OF assms] block_rows [OF block_scan_runs(1)]
  by (simp_all add: upgrade_0009_split)

section \<open>Defaults and unique indexes of the models\<close>

text \<open>Every default that a model gives a column fits the column.\<close>

fun default_fits :: "mapped_column \<Rightarrow> bool" where
  "default_fits c = (case mc_default c of None \<Rightarrow> True | Some v \<Rightarrow> fits (mc_type c) v)"

fun defaults_fit :: "orm_class \<Rightarrow> bool" where
  "defaults_fit (orm_class n args cs) = list_all default_fits cs"

lemma model_defaults_fit: "list_all defaults_fit orm_classes"
  by code_simp

text \<open>A column that is \<open>unique=True, index=True\<close> has a unique index in the metadata, but a uniqueness
  constraint and an index that is not unique after the migrations: the two agree on which rows are
  allowed, but a comparison of the schemas by Alembic reports the indexes as changed.\<close>

lemma unique_indexes_differ:
  "List.find (\<lambda>i. ix_name i = ''ix_app_users_email'') (t_indexes (snd (made create_app_users))) =
     Some \<lparr> ix_name = ''ix_app_users_email'', ix_columns = [''email''], ix_unique = False \<rparr>"
  "List.find (\<lambda>i. ix_name i = ''ix_app_users_email'') (t_indexes (snd (table_of app_user_model))) =
     Some \<lparr> ix_name = ''ix_app_users_email'', ix_columns = [''email''], ix_unique = True \<rparr>"
  by code_simp+

end
