(* ===== verification/Worker_Life.thy ===== *)
theory Worker_Life
  imports Worker_Properties Platform
begin

text \<open>
  The whole life of the worker (\<open>apps/worker/__main__.py\<close>): the loop of the connection supervisor with the runtimes it
  starts and stops, the loop of the scanner, and \<open>run\<close> with its end.

  A loop takes the list of its rounds, with what the database holds in each of them.  It ends with the list, when the
  worker is asked to stop, or when reading the database raises; a cancellation while the supervisor reads or waits is
  such an error.
\<close>

section \<open>The supervisor's loop\<close>

text \<open>A runtime is its workspace and the number of its task.\<close>

datatype runtime_event = Runtime_started "uuid \<times> nat" | Runtime_stopped "uuid \<times> nat"

definition runtime_key :: "uuid \<times> active_runtime \<Rightarrow> uuid \<times> nat" where
  "runtime_key entry = (fst entry, ar_task (snd entry))"

text \<open>\<open>while not stop.is_set()\<close>, and \<open>finally\<close>: every runtime that is left is stopped, whether the loop ends or
  reading the credentials raises.\<close>

fun connection_supervisor ::
  "nat \<Rightarrow> nat \<Rightarrow> (uuid \<times> active_runtime) list \<Rightarrow> desk_db result list \<Rightarrow> runtime_event list \<times> unit result"
where
  "connection_supervisor limit task runtimes [] =
     (map (Runtime_stopped \<circ> runtime_key) runtimes, Inr ())"
| "connection_supervisor limit task runtimes (Inl e # rounds) =
     (map (Runtime_stopped \<circ> runtime_key) runtimes, Inl e)"
| "connection_supervisor limit task runtimes (Inr db # rounds) =
     (let wanted = wanted_credentials limit db;
          kept = filter (keeps_runtime wanted) runtimes;
          gone = filter (\<lambda>entry. \<not> keeps_runtime wanted entry) runtimes;
          runtimes' = fst (connection_tick limit task runtimes db);
          new = drop (length kept) runtimes';
          (events, outcome) = connection_supervisor limit (task + length new) runtimes' rounds
      in (map (Runtime_stopped \<circ> runtime_key) gone @ map (Runtime_started \<circ> runtime_key) new @ events, outcome))"

section \<open>The scanner's loop\<close>

text \<open>A round has the time, the inputs of the scans, and what everybody else has done to the tables before it.\<close>

fun scanner_supervisor ::
  "(string \<Rightarrow> string \<Rightarrow> string \<Rightarrow> string \<Rightarrow> string option) \<Rightarrow> credential_cipher \<Rightarrow> (string \<Rightarrow> string) \<Rightarrow>
   (instant \<Rightarrow> int \<times> int \<times> int) \<Rightarrow> (instant \<times> (uuid \<Rightarrow> scan_inputs) \<times> (desk_db \<Rightarrow> desk_db)) list \<Rightarrow>
   (uuid \<rightharpoonup> instant) \<Rightarrow> desk_db \<Rightarrow> unit result \<times> (uuid \<rightharpoonup> instant) \<times> desk_db"
where
  "scanner_supervisor unseal cipher sha eastern [] scans db = (Inr (), scans, db)"
| "scanner_supervisor unseal cipher sha eastern ((now, inputs, others) # rounds) scans db =
     (case scanner_tick unseal cipher sha eastern now inputs scans (others db) of
       (Inl e, scans1, db1) \<Rightarrow> (Inl e, scans1, db1)
     | (Inr _, scans1, db1) \<Rightarrow> scanner_supervisor unseal cipher sha eastern rounds scans1 db1)"

section \<open>The run of the worker\<close>

datatype worker_event = Ping | Connect_bus | Ensure_stream | Read_keys | Wait_for_stop | Supervise
  | Close_bus | Close_database

text \<open>What the outside answers to each step; \<open>wo_loops\<close> is how the two loops end together.\<close>

record worker_outside =
  wo_ping :: "unit result"
  wo_connect :: "unit result"
  wo_ensure_stream :: "unit result"
  wo_loops :: "unit result"
  wo_close_bus :: "unit result"
  wo_close_database :: "unit result"

text \<open>Steps in order; the first that raises is the last.\<close>

fun in_order :: "('e \<times> unit result) list \<Rightarrow> 'e list \<times> unit result" where
  "in_order [] = ([], Inr ())"
| "in_order ((e, r) # steps) = (case r of
      Inl x \<Rightarrow> ([e], Inl x)
    | Inr _ \<Rightarrow> (case in_order steps of (es, outcome) \<Rightarrow> (e # es, outcome)))"

definition worker_steps :: "settings \<Rightarrow> worker_outside \<Rightarrow> (worker_event \<times> unit result) list" where
  "worker_steps s wo =
     (if cfg_infrastructure_checks s
      then [(Ping, wo_ping wo), (Connect_bus, wo_connect wo), (Ensure_stream, wo_ensure_stream wo)] else []) @
     (case worker_start (cfg_credential_master_keys s) of
        Inl e \<Rightarrow> [(Read_keys, Inl e)]
      | Inr (Connected_disabled reason) \<Rightarrow> [(Wait_for_stop, Inr ())]
      | Inr (Connected_enabled cipher) \<Rightarrow> [(Supervise, wo_loops wo)])"

text \<open>\<open>run\<close>: an exception while closing takes the place of the one before it.\<close>

definition worker_run :: "settings \<Rightarrow> worker_outside \<Rightarrow> worker_event list \<times> unit result" where
  "worker_run s wo =
     (case in_order (worker_steps s wo) of (events, outcome) \<Rightarrow>
      case in_order [(Close_bus, wo_close_bus wo), (Close_database, wo_close_database wo)] of (closing, closed_all) \<Rightarrow>
        (events @ closing, case closed_all of Inl e \<Rightarrow> Inl e | Inr _ \<Rightarrow> outcome))"

section \<open>No runtime outlives the supervisor\<close>

text \<open>A trace of starts and stops, from the runtimes that are live before it: a runtime starts only when its
  workspace has none and the limit allows it, stops only while it is live, and none is live in the end.\<close>

fun disciplined :: "nat \<Rightarrow> (uuid \<times> nat) list \<Rightarrow> runtime_event list \<Rightarrow> bool" where
  "disciplined limit live [] = (live = [])"
| "disciplined limit live (Runtime_started k # events) =
     (fst k \<notin> set (map fst live) \<and> length live < limit \<and> disciplined limit (live @ [k]) events)"
| "disciplined limit live (Runtime_stopped k # events) =
     (k \<in> set live \<and> disciplined limit (removeAll k live) events)"

lemma disciplined_stops:
  assumes "distinct (map fst live)" and "set (map runtime_key gone) \<subseteq> set live" and "distinct (map runtime_key gone)"
    and "disciplined limit (filter (\<lambda>k. k \<notin> set (map runtime_key gone)) live) events"
  shows "disciplined limit live (map (Runtime_stopped \<circ> runtime_key) gone @ events)"
  using assms
proof (induction gone arbitrary: live)
  case (Cons g gone)
  let ?live = "removeAll (runtime_key g) live"
  have "disciplined limit ?live (map (Runtime_stopped \<circ> runtime_key) gone @ events)"
  proof (rule Cons.IH)
    show "distinct (map fst ?live)"
      using Cons.prems(1) by (simp add: removeAll_filter_not_eq distinct_map_filter)
    show "set (map runtime_key gone) \<subseteq> set ?live" using Cons.prems(2,3) by auto
    show "distinct (map runtime_key gone)" using Cons.prems(3) by simp
    have "filter (\<lambda>k. k \<notin> set (map runtime_key (g # gone))) live =
        filter (\<lambda>k. k \<notin> set (map runtime_key gone)) ?live"
      by (auto simp: removeAll_filter_not_eq intro!: filter_cong)
    then show "disciplined limit (filter (\<lambda>k. k \<notin> set (map runtime_key gone)) ?live) events"
      using Cons.prems(4) by simp
  qed
  then show ?case using Cons.prems(2) by (simp add: comp_def)
qed simp

lemma disciplined_starts:
  assumes "distinct (map fst (live @ map runtime_key new))" and "length live + length new \<le> limit"
    and "disciplined limit (live @ map runtime_key new) events"
  shows "disciplined limit live (map (Runtime_started \<circ> runtime_key) new @ events)"
  using assms
proof (induction new arbitrary: live)
  case (Cons n new)
  have "disciplined limit (live @ [runtime_key n]) (map (Runtime_started \<circ> runtime_key) new @ events)"
    by (rule Cons.IH) (use Cons.prems in simp_all)
  then show ?case using Cons.prems(1,2) by (auto simp: comp_def)
qed simp

lemma map_fst_keys: "map fst (map runtime_key xs) = map fst xs"
  by (simp add: runtime_key_def)

lemma keys_distinct: "distinct (map fst runtimes) \<Longrightarrow> distinct (map runtime_key (filter P runtimes))"
  by (rule distinct_map [THEN iffD1, THEN conjunct1, of fst]) (simp add: map_fst_keys distinct_map_filter del: map_map)

lemma keys_among: "set (map runtime_key (filter P runtimes)) \<subseteq> set (map runtime_key runtimes)"
  by auto

lemma keys_without:
  assumes "distinct (map fst runtimes)"
  shows "filter (\<lambda>k. k \<notin> set (map runtime_key (filter (\<lambda>e. \<not> P e) runtimes))) (map runtime_key runtimes) =
    map runtime_key (filter P runtimes)"
proof -
  have "runtime_key e \<in> runtime_key ` {x \<in> set runtimes. \<not> P x} \<longleftrightarrow> \<not> P e" if "e \<in> set runtimes" for e
    using assms that by (auto simp: runtime_key_def distinct_map dest: inj_onD)
  then show ?thesis by (simp add: filter_map comp_def cong: filter_cong)
qed

lemma supervisor_disciplined:
  assumes "distinct (map fst runtimes)" and "length runtimes \<le> limit"
  shows "disciplined limit (map runtime_key runtimes) (fst (connection_supervisor limit task runtimes rounds))"
  using assms
proof (induction limit task runtimes rounds rule: connection_supervisor.induct)
  case (1 limit task runtimes)
  have "disciplined limit (map runtime_key runtimes) (map (Runtime_stopped \<circ> runtime_key) runtimes @ [])"
    using 1(1) keys_distinct [of runtimes "\<lambda>_. True"]
    by (intro disciplined_stops) (simp_all add: map_fst_keys del: map_map set_map)
  then show ?case by simp
next
  case (2 limit task runtimes e rounds)
  have "disciplined limit (map runtime_key runtimes) (map (Runtime_stopped \<circ> runtime_key) runtimes @ [])"
    using 2(1) keys_distinct [of runtimes "\<lambda>_. True"]
    by (intro disciplined_stops) (simp_all add: map_fst_keys del: map_map set_map)
  then show ?case by simp
next
  case (3 limit task runtimes db rounds)
  let ?keeps = "keeps_runtime (wanted_credentials limit db)"
  let ?gone = "filter (\<lambda>entry. \<not> ?keeps entry) runtimes"
  obtain runtimes' stopped started where t: "connection_tick limit task runtimes db = (runtimes', stopped, started)"
    by (metis prod_cases3)
  obtain new where new: "runtimes' = filter ?keeps runtimes @ new" and d: "distinct (map fst runtimes')"
    and len: "length runtimes' \<le> limit"
    using connection_tick_keys [OF 3(2) t] .
  have drop: "drop (length (filter ?keeps runtimes)) runtimes' = new" by (simp add: new)
  define events where "events = fst (connection_supervisor limit (task + length new) runtimes' rounds)"
  have "disciplined limit (map runtime_key runtimes') events"
    unfolding events_def using 3(1) [OF refl refl refl refl refl] d len by (simp add: t drop)
  then have "disciplined limit (map runtime_key (filter ?keeps runtimes)) (map (Runtime_started \<circ> runtime_key) new @ events)"
    using d len by (intro disciplined_starts) (simp_all add: new map_fst_keys del: map_map flip: map_append)
  then have "disciplined limit (map runtime_key runtimes)
      (map (Runtime_stopped \<circ> runtime_key) ?gone @ map (Runtime_started \<circ> runtime_key) new @ events)"
    using 3(2) by (intro disciplined_stops) (simp_all add: map_fst_keys keys_without keys_distinct keys_among del: map_map set_map)
  then show ?case by (simp add: Let_def t drop events_def split_def del: length_drop)
qed

text \<open>C28. No runtime outlives the supervisor, and none runs twice: whatever the database holds in the rounds, and whether
  the supervisor ends because the worker stops or because reading the credentials raises, a runtime is started only
  for a workspace that has none and only below the connection limit, only live runtimes are stopped, and every
  runtime that was started has been stopped in the end.\<close>

theorem no_runtime_outlives_the_supervisor:
  "disciplined limit [] (fst (connection_supervisor limit 0 [] rounds))"
  using supervisor_disciplined [of "[]" limit 0 rounds] by simp

section \<open>The end of the worker\<close>

text \<open>The loops run exactly with usable keys and, where the checks are on, after every check; the bus is closed in
  every run, the database in every run in which closing the bus does not raise.\<close>

lemma worker_run_order:
  "\<exists>before. fst (worker_run s wo) = before @ Close_bus # (if is_ok (wo_close_bus wo) then [Close_database] else []) \<and>
     (Supervise \<in> set before \<longleftrightarrow> (\<exists>cipher. worker_start (cfg_credential_master_keys s) = Inr (Connected_enabled cipher)) \<and>
       (cfg_infrastructure_checks s \<longrightarrow>
         is_ok (wo_ping wo) \<and> is_ok (wo_connect wo) \<and> is_ok (wo_ensure_stream wo)))"
proof -
  have "Supervise \<in> set (fst (in_order (worker_steps s wo))) \<longleftrightarrow>
      (\<exists>cipher. worker_start (cfg_credential_master_keys s) = Inr (Connected_enabled cipher)) \<and>
      (cfg_infrastructure_checks s \<longrightarrow>
        is_ok (wo_ping wo) \<and> is_ok (wo_connect wo) \<and> is_ok (wo_ensure_stream wo))"
    by (auto simp: worker_steps_def split: sum.splits worker_mode.splits if_splits)
  moreover have "fst (worker_run s wo) = fst (in_order (worker_steps s wo)) @
      Close_bus # (if is_ok (wo_close_bus wo) then [Close_database] else [])"
    by (auto simp: worker_run_def split: sum.splits prod.splits)
  ultimately show ?thesis by blast
qed

text \<open>A workspace that was scanned less than five minutes ago gets no further run from a tick of the scanner.\<close>

lemma recent_scans_are_not_repeated:
  assumes "scanner_tick unseal cipher sha eastern now inputs scans db = (answer, scans', db')"
    and "distinct (map ws_workspace_id (dd_workspaces db))"
    and "scans ws = Some t" and "now - t < seconds 300"
  shows "filter (\<lambda>run. sr_workspace_id run = ws) (dd_scan_runs db') = filter (\<lambda>run. sr_workspace_id run = ws) (dd_scan_runs db)"
proof (cases "market_is_open eastern now")
  case True
  have "distinct (map ws_workspace_id (filter (\<lambda>w. ws_scanner_enabled w \<and> ws_status w = ACTIVE) (dd_workspaces db)))"
    using assms(2) by (rule distinct_map_filter)
  moreover have "scan_workspaces unseal cipher sha now inputs
      (filter (\<lambda>w. ws_scanner_enabled w \<and> ws_status w = ACTIVE) (dd_workspaces db)) scans db = (answer, scans', db')"
    using assms(1) True by (simp add: scanner_tick_def)
  ultimately obtain handled runs where runs: "dd_scan_runs db' = dd_scan_runs db @ runs"
    "map sr_workspace_id runs = map ws_workspace_id (filter (due unseal cipher now scans db) handled)"
    by (blast dest: scan_workspaces_effect)
  have "ws \<notin> set (map sr_workspace_id runs)"
    unfolding runs(2) using assms(3,4) by (auto simp: due_def scanned_lately_def)
  then show ?thesis by (auto simp: runs(1) filter_empty_conv)
qed (use assms(1) in \<open>auto simp: scanner_tick_def\<close>)

end
