(* ===== verification/Application.thy ===== *)
theory Application
  imports Platform Desk
begin

text \<open>
  The API as a whole: \<open>create_app\<close> of \<open>apps/api/app.py\<close> with its routers, the access that each route asks for, the
  setting for other origins, and the request bodies of the credential routes of \<open>apps/api/routes/desk.py\<close>.

  Which of several matching routes answers is up to FastAPI; the facts below hold of every route that matches.
\<close>

section \<open>Routes\<close>

datatype http_method = GET | POST | PUT | DELETE

fun method_text :: "http_method \<Rightarrow> string" where
  "method_text GET = ''GET''"
| "method_text POST = ''POST''"
| "method_text PUT = ''PUT''"
| "method_text DELETE = ''DELETE''"

text \<open>The dependency in the signature of an endpoint; the demonstration routes read a cookie themselves.\<close>

datatype access = Anyone | Principal_needed | Admin_needed | Workspace_needed

text \<open>A segment of a path: a fixed text or a parameter, which takes any text but the empty one.\<close>

datatype segment = Fixed string | Parameter string

record route =
  rt_method :: http_method
  rt_path :: "segment list"
  rt_access :: access

definition fixed_route :: "http_method \<Rightarrow> string list \<Rightarrow> access \<Rightarrow> route" where
  "fixed_route m path a = \<lparr> rt_method = m, rt_path = map Fixed path, rt_access = a \<rparr>"

definition health_router :: "route list" where
  "health_router = [fixed_route GET [''health'', ''live''] Anyone, fixed_route GET [''health'', ''ready''] Anyone]"

definition system_router :: "route list" where
  "system_router = [fixed_route GET [''system'', ''status''] Anyone]"

definition identity_router :: "route list" where
  "identity_router = [fixed_route GET [''identity'', ''me''] Principal_needed]"

definition auth_router :: "route list" where
  "auth_router = [fixed_route GET [''auth'', ''registration-status''] Anyone, fixed_route POST [''auth'', ''register''] Anyone]"

definition demo_router :: "route list" where
  "demo_router =
     [fixed_route POST [''demo'', ''session''] Anyone,
      fixed_route GET [''demo'', ''session''] Anyone,
      \<lparr> rt_method = GET, rt_path = [Fixed ''demo'', Fixed ''workflow'', Fixed ''replays'', Parameter ''scenario''],
        rt_access = Anyone \<rparr>,
      fixed_route POST [''demo'', ''guardian'', ''halt''] Anyone,
      fixed_route POST [''demo'', ''guardian'', ''recover''] Anyone]"

definition admin_router :: "route list" where
  "admin_router =
     [fixed_route POST [''admin'', ''workspace''] Admin_needed,
      fixed_route POST [''admin'', ''invitations''] Admin_needed,
      fixed_route GET [''admin'', ''invitations''] Admin_needed,
      \<lparr> rt_method = DELETE, rt_path = [Fixed ''admin'', Fixed ''invitations'', Parameter ''invitation_id''],
        rt_access = Admin_needed \<rparr>]"

definition desk_route :: "http_method \<Rightarrow> segment list \<Rightarrow> route" where
  "desk_route m path = \<lparr> rt_method = m, rt_path = Fixed ''desk'' # path, rt_access = Workspace_needed \<rparr>"

definition desk_router :: "route list" where
  "desk_router =
     [desk_route GET [Fixed ''workspace''],
      desk_route GET [Fixed ''credentials''],
      desk_route POST [Fixed ''credentials'', Fixed ''alpaca'', Fixed ''test''],
      desk_route PUT [Fixed ''credentials'', Fixed ''alpaca''],
      desk_route POST [Fixed ''credentials'', Fixed ''openrouter'', Fixed ''test''],
      desk_route PUT [Fixed ''credentials'', Fixed ''openrouter''],
      desk_route DELETE [Fixed ''credentials'', Parameter ''provider''],
      desk_route GET [Fixed ''watchlist''],
      desk_route PUT [Fixed ''watchlist''],
      desk_route PUT [Fixed ''scanner''],
      desk_route GET [Fixed ''market-clock''],
      desk_route POST [Fixed ''opportunities'', Fixed ''analyze'', Parameter ''symbol''],
      desk_route POST [Fixed ''scanner'', Fixed ''scan''],
      desk_route GET [Fixed ''scanner'', Fixed ''runs''],
      desk_route GET [Fixed ''scanner'', Fixed ''runs'', Parameter ''scan_run_id''],
      desk_route GET [Fixed ''opportunities''],
      desk_route GET [Fixed ''opportunities'', Parameter ''opportunity_id''],
      desk_route POST [Fixed ''opportunities'', Parameter ''opportunity_id'', Fixed ''ai''],
      desk_route POST [Fixed ''opportunities'', Parameter ''opportunity_id'', Fixed ''confirm''],
      desk_route GET [Fixed ''broker'', Fixed ''status''],
      desk_route GET [Fixed ''broker'', Fixed ''account''],
      desk_route GET [Fixed ''broker'', Fixed ''positions''],
      desk_route POST [Fixed ''broker'', Fixed ''positions'', Parameter ''symbol_or_asset_id'', Fixed ''close''],
      desk_route GET [Fixed ''broker'', Fixed ''orders''],
      desk_route GET [Fixed ''guardian'', Fixed ''status''],
      desk_route POST [Fixed ''guardian'', Fixed ''halt''],
      desk_route POST [Fixed ''guardian'', Fixed ''recover'']]"

section \<open>The application\<close>

definition include_router :: "string list \<Rightarrow> route list \<Rightarrow> route list" where
  "include_router prefix router = map (\<lambda>r. r\<lparr>rt_path := map Fixed prefix @ rt_path r\<rparr>) router"

record cors_settings =
  co_allow_origins :: "string list"
  co_allow_methods :: "string list"
  co_allow_headers :: "string list"
  co_allow_credentials :: bool

text \<open>Before the lifespan has begun \<open>app.state\<close> has no database and no event bus.\<close>

record application =
  aa_title :: string
  aa_version :: string
  aa_cors :: cors_settings
  aa_settings :: settings
  aa_state :: app_state
  aa_routes :: "route list"

definition app_cors :: cors_settings where
  "app_cors = \<lparr> co_allow_origins = [''http://localhost:3000'', ''http://127.0.0.1:3000''],
     co_allow_methods = [''DELETE'', ''GET'', ''POST'', ''PUT''],
     co_allow_headers = [''Accept'', ''Authorization'', ''Content-Type''], co_allow_credentials = True \<rparr>"

definition api_prefix :: "string list" where
  "api_prefix = [''api'', ''v1'']"

definition app_routes :: "route list" where
  "app_routes = include_router [] health_router @ include_router api_prefix system_router @
     include_router api_prefix auth_router @ include_router api_prefix demo_router @
     include_router api_prefix identity_router @ include_router api_prefix admin_router @
     include_router api_prefix desk_router"

definition create_app :: "settings \<Rightarrow> application" where
  "create_app s = \<lparr> aa_title = ''AlphaDesk API'', aa_version = ''0.1.0'', aa_cors = app_cors, aa_settings = s,
     aa_state = \<lparr> ap_database = False, ap_event_bus = False, ap_auth_verifier = None, ap_supabase_admin = None,
       ap_credential_cipher = None, ap_demo_sessions = None, ap_readiness = [(''configuration'', ''healthy'')] \<rparr>,
     aa_routes = app_routes \<rparr>"

section \<open>Request bodies of the credential routes\<close>

record alpaca_credential_input =
  ai_api_key_id :: string
  ai_secret_key :: string

definition alpaca_credential_input_valid :: "alpaca_credential_input \<Rightarrow> bool" where
  "alpaca_credential_input_valid p \<longleftrightarrow> 8 \<le> length (ai_api_key_id p) \<and> 8 \<le> length (ai_secret_key p)"

record openrouter_credential_input =
  oc_api_key :: string
  oc_model :: string

definition openrouter_credential_input_valid :: "openrouter_credential_input \<Rightarrow> bool" where
  "openrouter_credential_input_valid p \<longleftrightarrow> 8 \<le> length (oc_api_key p) \<and> 2 \<le> length (oc_model p) \<and> length (oc_model p) \<le> 160"

definition test_alpaca_credentials ::
  "alpaca_credential_input \<Rightarrow> reconciliation_snapshot result \<Rightarrow> provider_test_result result" where
  "test_alpaca_credentials p reconciled =
     rbind (require (alpaca_credential_input_valid p) (HTTPException 422 ''AlpacaCredentialInput'')) (\<lambda>_.
     test_alpaca (ai_api_key_id p, ai_secret_key p) reconciled)"

text \<open>The constructors of the providers in \<open>packages/ai/provider.py\<close>, which the endpoint calls outside its \<open>try\<close>.\<close>

definition new_openai_provider :: "string \<Rightarrow> unit result" where
  "new_openai_provider api_key =
     require (api_key \<noteq> []) (ValueError ''OpenAI API key is required for the OpenAI provider'')"

definition new_openrouter_provider :: "string \<Rightarrow> string \<Rightarrow> unit result" where
  "new_openrouter_provider api_key model =
     require (api_key \<noteq> [] \<and> model \<noteq> []) (ValueError ''OpenRouter API key and model are required'')"

definition test_openrouter_credentials ::
  "openrouter_credential_input \<Rightarrow> unit result \<Rightarrow> provider_test_result result" where
  "test_openrouter_credentials p probe =
     rbind (require (openrouter_credential_input_valid p) (HTTPException 422 ''OpenRouterCredentialInput'')) (\<lambda>_.
     rbind (new_openrouter_provider (oc_api_key p) (oc_model p)) (\<lambda>_.
     test_openrouter (oc_model p) probe))"

section \<open>Facts\<close>

fun segments_match :: "segment list \<Rightarrow> string list \<Rightarrow> bool" where
  "segments_match [] [] = True"
| "segments_match (Fixed s # path) (t # texts) = (s = t \<and> segments_match path texts)"
| "segments_match (Parameter _ # path) (t # texts) = (t \<noteq> [] \<and> segments_match path texts)"
| "segments_match _ _ = False"

definition route_matches :: "route \<Rightarrow> http_method \<Rightarrow> string list \<Rightarrow> bool" where
  "route_matches r m texts \<longleftrightarrow> rt_method r = m \<and> segments_match (rt_path r) texts"

lemma segments_match_fixed: "segments_match (map Fixed path @ rest) texts \<longleftrightarrow>
    take (length path) texts = path \<and> segments_match rest (drop (length path) texts)"
proof (induction path arbitrary: texts)
  case (Cons s path)
  then show ?case by (cases texts) auto
qed simp

text \<open>What a route asks for follows from where its path lies.\<close>

definition area_access :: "string list \<Rightarrow> access" where
  "area_access texts = (if take 3 texts = api_prefix @ [''desk''] then Workspace_needed
     else if take 3 texts = api_prefix @ [''admin''] then Admin_needed
     else if take 3 texts = api_prefix @ [''identity''] then Principal_needed else Anyone)"

definition lies_in :: "string list \<Rightarrow> access \<Rightarrow> route \<Rightarrow> bool" where
  "lies_in prefix a r \<longleftrightarrow> rt_access r = a \<and> take (length prefix) (rt_path r) = map Fixed prefix"

lemma lies_in_matches:
  assumes "lies_in prefix a r" and "route_matches r m texts"
  shows "take (length prefix) texts = prefix \<and> rt_access r = a"
proof -
  have "rt_path r = map Fixed prefix @ drop (length prefix) (rt_path r)"
    using assms(1) by (metis append_take_drop_id lies_in_def)
  then show ?thesis using assms segments_match_fixed
    by (metis lies_in_def route_matches_def)
qed

lemma routes_lie_in_their_area:
  "list_all (lies_in [''health''] Anyone) health_router"
  "list_all (lies_in [''api'', ''v1'', ''system''] Anyone) (include_router api_prefix system_router)"
  "list_all (lies_in [''api'', ''v1'', ''auth''] Anyone) (include_router api_prefix auth_router)"
  "list_all (lies_in [''api'', ''v1'', ''demo''] Anyone) (include_router api_prefix demo_router)"
  "list_all (lies_in [''api'', ''v1'', ''identity''] Principal_needed) (include_router api_prefix identity_router)"
  "list_all (lies_in [''api'', ''v1'', ''admin''] Admin_needed) (include_router api_prefix admin_router)"
  "list_all (lies_in [''api'', ''v1'', ''desk''] Workspace_needed) (include_router api_prefix desk_router)"
  by (simp_all add: lies_in_def include_router_def api_prefix_def fixed_route_def desk_route_def health_router_def
      system_router_def auth_router_def demo_router_def identity_router_def admin_router_def desk_router_def)

lemma area_of_match:
  assumes "lies_in prefix a r" and "route_matches r m texts"
    and "prefix = [''health''] \<and> a = Anyone \<or>
      (\<exists>area. prefix = api_prefix @ [area] \<and> a = area_access (api_prefix @ [area]))"
  shows "area_access texts = rt_access r"
proof -
  note t = lies_in_matches [OF assms(1,2)]
  show ?thesis using assms(3)
  proof (elim disjE conjE exE)
    assume "prefix = [''health'']" "a = Anyone"
    with t have "texts = ''health'' # tl texts" "rt_access r = Anyone" by (cases texts; simp)+
    moreover have "area_access (''health'' # rest) = Anyone" for rest
      by (simp add: area_access_def api_prefix_def)
    ultimately show ?thesis by metis
  next
    fix area assume p: "prefix = api_prefix @ [area]" "a = area_access (api_prefix @ [area])"
    then have "take 3 texts = take 3 (api_prefix @ [area])" using t by (simp add: api_prefix_def eval_nat_numeral)
    then have "area_access texts = area_access (api_prefix @ [area])" by (simp add: area_access_def)
    then show ?thesis using p t by simp
  qed
qed

text \<open>Whatever route of the API matches a request asks for the access of its area: nothing under \<open>/api/v1/desk\<close> is
  reached without a workspace, nothing under \<open>/api/v1/admin\<close> without an administrator.\<close>

lemma routes_guard_their_area:
  assumes "r \<in> set (aa_routes (create_app s))" and "route_matches r m texts"
  shows "rt_access r = area_access texts"
proof -
  have "area_access (api_prefix @ [''system'']) = Anyone" "area_access (api_prefix @ [''auth'']) = Anyone"
    "area_access (api_prefix @ [''demo'']) = Anyone" "area_access (api_prefix @ [''identity'']) = Principal_needed"
    "area_access (api_prefix @ [''admin'']) = Admin_needed" "area_access (api_prefix @ [''desk'']) = Workspace_needed"
    by (simp_all add: area_access_def api_prefix_def)
  note area = this
  have "include_router [] health_router = health_router" by (simp add: include_router_def)
  then have "\<exists>prefix a. lies_in prefix a r \<and> (prefix = [''health''] \<and> a = Anyone \<or>
      (\<exists>area. prefix = api_prefix @ [area] \<and> a = area_access (api_prefix @ [area])))"
    using assms(1) routes_lie_in_their_area area
    by (simp add: create_app_def app_routes_def list_all_iff api_prefix_def) metis
  then show ?thesis using area_of_match [OF _ assms(2)] by metis
qed

text \<open>The dependencies of a route, run on a request.\<close>

definition admit ::
  "(string \<Rightarrow> verified_identity result) option \<Rightarrow> bool \<Rightarrow> string list \<Rightarrow> uuid \<Rightarrow> instant \<Rightarrow> (string \<times> string) option \<Rightarrow>
   access \<Rightarrow> account_db \<Rightarrow> unit result \<times> account_db"
where
  "admit verifier database_configured admins fresh now credentials a db =
     (if a = Anyone then (Inr (), db)
      else case require_principal verifier database_configured admins fresh now credentials db of
        Inl e \<Rightarrow> (Inl e, db)
      | Inr (who, db1) \<Rightarrow>
        ((case a of
            Admin_needed \<Rightarrow> rbind (require_admin who) (\<lambda>_. Inr ())
          | Workspace_needed \<Rightarrow> rbind (require_workspace who db1) (\<lambda>_. Inr ())
          | _ \<Rightarrow> Inr ()), db1))"

text \<open>A request to the desk comes in only for a verified identity that owns a workspace that is not suspended, a
  request to the administration only for an administrator.\<close>

lemma admitted_to_an_area:
  assumes "r \<in> set (aa_routes (create_app s))" and "route_matches r m texts"
    and "fst (admit verifier database_configured admins fresh now credentials (rt_access r) db) = Inr ()"
    and "area_access texts \<noteq> Anyone"
  obtains who db1 where
    "require_principal verifier database_configured admins fresh now credentials db = Inr (who, db1)"
    "area_access texts = Admin_needed \<longrightarrow> pr_is_admin who"
    "area_access texts = Workspace_needed \<longrightarrow>
      (\<exists>w. workspace_of_owner (pr_user_id who) db1 = Some w \<and> ws_status w \<noteq> SUSPENDED)"
  using assms(3,4) unfolding routes_guard_their_area [OF assms(1,2)]
  by (auto simp: admit_def require_admin_def require_workspace_def guard_simps
      split: sum.splits option.splits if_splits access.splits)

text \<open>The browser may call every route with its method from the desk's own origins, and from no other one.\<close>

lemma cors_allows_every_route:
  "list_all (\<lambda>r. method_text (rt_method r) \<in> set (co_allow_methods (aa_cors (create_app s)))) (aa_routes (create_app s))"
  "''*'' \<notin> set (co_allow_origins (aa_cors (create_app s)))"
proof -
  have "method_text m \<in> set (co_allow_methods app_cors)" for m by (cases m) (simp_all add: app_cors_def)
  then show "list_all (\<lambda>r. method_text (rt_method r) \<in> set (co_allow_methods (aa_cors (create_app s)))) (aa_routes (create_app s))"
    by (simp add: create_app_def list_all_iff)
  show "''*'' \<notin> set (co_allow_origins (aa_cors (create_app s)))" by (simp add: create_app_def app_cors_def)
qed

text \<open>Keys that pass the bounds of the body never meet the adapter's refusal of empty keys.\<close>

lemma test_alpaca_credentials_outcomes:
  "test_alpaca_credentials p reconciled =
     (if \<not> alpaca_credential_input_valid p then Inl (HTTPException 422 ''AlpacaCredentialInput'')
      else case reconciled of
        Inl e \<Rightarrow> Inl (HTTPException 422 (''Alpaca paper validation failed ('' @ error_name e @ '')''))
      | Inr snapshot \<Rightarrow> Inr \<lparr> pt_provider = ''ALPACA'', pt_status = ''VERIFIED'',
          pt_detail = ''Paper endpoint authenticated; account, positions, and orders reconciled.'',
          pt_account_status = Some (ba_status (rs_account snapshot)), pt_model = None \<rparr>)"
  by (auto simp: test_alpaca_credentials_def test_alpaca_def alpaca_adapter_def alpaca_credential_input_valid_def
      require_def split: sum.splits)

lemma test_openrouter_credentials_outcomes:
  "test_openrouter_credentials p probe =
     (if \<not> openrouter_credential_input_valid p then Inl (HTTPException 422 ''OpenRouterCredentialInput'')
      else test_openrouter (oc_model p) probe)"
proof (cases "openrouter_credential_input_valid p")
  case True
  then have "oc_api_key p \<noteq> []" "oc_model p \<noteq> []" by (auto simp: openrouter_credential_input_valid_def)
  with True show ?thesis by (simp add: test_openrouter_credentials_def new_openrouter_provider_def)
qed (simp add: test_openrouter_credentials_def)

end
