(* ===== verification/Observability.thy ===== *)
theory Observability
  imports Lab_Fingerprint
begin

text \<open>
  \<open>packages/observability/logging.py\<close>: a log record as one line of JSON.  The values of the record are those of
  \<open>json.dumps\<close> with \<open>default=str\<close> (\<open>row_value\<close> of \<open>Lab_Fingerprint\<close>); handlers and levels belong to Python's
  \<open>logging\<close>.
\<close>

section \<open>The line of a record\<close>

text \<open>\<open>lr_message\<close> is \<open>getMessage()\<close>, \<open>lr_fields\<close> the dictionary of the record in its order, with the standard
  attributes and what the caller gave as \<open>extra\<close>, \<open>lr_exception\<close> the formatted exception.\<close>

record log_record =
  lr_levelname :: string
  lr_name :: string
  lr_message :: string
  lr_fields :: "(string \<times> row_value) list"
  lr_exception :: "string option"

text \<open>The attributes of an empty record.\<close>

definition reserved :: "string list" where
  "reserved = [''name'', ''msg'', ''args'', ''levelname'', ''levelno'', ''pathname'', ''filename'', ''module'', ''exc_info'',
     ''exc_text'', ''stack_info'', ''lineno'', ''funcName'', ''created'', ''msecs'', ''relativeCreated'', ''thread'',
     ''threadName'', ''processName'', ''process'', ''taskName'']"

definition extra_fields :: "log_record \<Rightarrow> (string \<times> row_value) list" where
  "extra_fields r = filter (\<lambda>(key, _). key \<notin> set reserved \<and> key \<notin> {''message'', ''asctime''}) (lr_fields r)"

definition own_fields :: "string \<Rightarrow> log_record \<Rightarrow> (string \<times> row_value) list" where
  "own_fields timestamp r = [(''timestamp'', Row_text timestamp), (''level'', Row_text (lr_levelname r)),
     (''logger'', Row_text (lr_name r)), (''message'', Row_text (lr_message r))]"

definition log_document :: "string \<Rightarrow> log_record \<Rightarrow> (string \<times> row_value) list" where
  "log_document timestamp r =
     (let document = fold (\<lambda>(key, value). AList.update key value) (extra_fields r)
        (own_fields timestamp r)
      in case lr_exception r of None \<Rightarrow> document | Some e \<Rightarrow> AList.update ''exception'' (Row_text e) document)"

text \<open>\<open>json.dumps(v, default=str, separators=(",", ":"))\<close>: the members in their order.\<close>

fun dump_ordered :: "row_value \<Rightarrow> string"
  and dump_ordered_items :: "row_value list \<Rightarrow> string list"
  and dump_ordered_members :: "(string \<times> row_value) list \<Rightarrow> string list"
where
  "dump_ordered Row_null = ''null''"
| "dump_ordered (Row_bool b) = (if b then ''true'' else ''false'')"
| "dump_ordered (Row_int n) = int_text n"
| "dump_ordered (Row_float r) = r"
| "dump_ordered (Row_text s) = json_text s"
| "dump_ordered (Row_other s) = json_text s"
| "dump_ordered (Row_list vs) = CHR ''['' # join_comma (dump_ordered_items vs) @ '']''"
| "dump_ordered (Row_dict ps) = CHR 0x7B # join_comma (dump_ordered_members ps) @ [CHR 0x7D]"
| "dump_ordered_items [] = []"
| "dump_ordered_items (v # vs) = dump_ordered v # dump_ordered_items vs"
| "dump_ordered_members [] = []"
| "dump_ordered_members ((k, v) # ps) = (json_text k @ CHR '':'' # dump_ordered v) # dump_ordered_members ps"

definition format_record :: "string \<Rightarrow> log_record \<Rightarrow> string" where
  "format_record timestamp r = dump_ordered (Row_dict (log_document timestamp r))"

section \<open>A record is one line\<close>

definition printable :: "char \<Rightarrow> bool" where
  "printable ch \<longleftrightarrow> 32 \<le> code_of ch \<and> code_of ch \<le> 126"

text \<open>What Python writes for a float is printable.\<close>

fun printable_floats :: "row_value \<Rightarrow> bool" where
  "printable_floats (Row_float r) = list_all printable r"
| "printable_floats (Row_list vs) = list_all printable_floats vs"
| "printable_floats (Row_dict ps) = list_all (\<lambda>p. printable_floats (snd p)) ps"
| "printable_floats _ = True"

lemma hex_digit_printable: "0 \<le> n \<Longrightarrow> n < 16 \<Longrightarrow> printable (hex_digit n)"
proof -
  assume n: "0 \<le> n" "n < 16"
  have "list_all (\<lambda>k. printable (hex_digit k)) [0..15]" by code_simp
  with n show ?thesis by (auto simp: list_all_iff)
qed

lemma escape_char_printable: "list_all printable (escape_char ch)"
proof (cases "List.find (\<lambda>e. snd e = ch) escapes")
  case None
  have "printable (hex_digit (code_of ch div 16))" "printable (hex_digit (code_of ch mod 16))"
    using code_bounds [of ch] by (auto intro!: hex_digit_printable)
  moreover have "list_all printable [CHR 0x5C, CHR ''u'', CHR ''0'']" by code_simp
  ultimately show ?thesis using None by (simp add: escape_char_def printable_def)
next
  case (Some e)
  have "list_all (\<lambda>e. printable (fst e)) escapes" "printable (CHR 0x5C)" by code_simp+
  moreover have "e \<in> set escapes" using Some by (auto simp: find_Some_iff)
  ultimately show ?thesis using Some by (auto simp: escape_char_def list_all_iff)
qed

lemma json_text_printable: "list_all printable (json_text s)"
proof -
  have "list_all printable (concat (map escape_char s))"
    by (induction s) (simp_all add: escape_char_printable)
  moreover have "printable (CHR 0x22)" by code_simp
  ultimately show ?thesis by (simp add: json_text_def)
qed

lemma join_comma_printable: "list_all (list_all printable) xs \<Longrightarrow> list_all printable (join_comma xs)"
proof (induction xs rule: join_comma.induct)
  case (3 x y xs)
  have "printable (CHR '','')" by code_simp
  with 3 show ?case by simp
qed simp_all

lemma int_text_printable: "list_all printable (int_text n)"
proof -
  have "list_all printable ''-0123456789''" by code_simp
  moreover have "set (int_text n) \<subseteq> set ''-0123456789''"
    using digits_of_chars [of n] digits_of_chars [of "- n"] by (auto simp: int_text_def)
  ultimately show ?thesis by (auto simp: list_all_iff)
qed

lemma dump_ordered_printable:
  "printable_floats v \<Longrightarrow> list_all printable (dump_ordered v)"
  "list_all printable_floats vs \<Longrightarrow> list_all (list_all printable) (dump_ordered_items vs)"
  "list_all (\<lambda>p. printable_floats (snd p)) ps \<Longrightarrow> list_all (list_all printable) (dump_ordered_members ps)"
proof (induction v and vs and ps rule: dump_ordered_dump_ordered_items_dump_ordered_members.induct)
  case (2 b)
  have "list_all printable ''true''" "list_all printable ''false''" by code_simp+
  then show ?case by simp
next
  case (7 vs)
  have "printable (CHR ''['')" "printable (CHR '']'')" by code_simp+
  with 7 show ?case by (simp add: join_comma_printable)
next
  case (8 ps)
  have "printable (CHR 0x7B)" "printable (CHR 0x7D)" by code_simp+
  with 8 show ?case by (simp add: join_comma_printable)
next
  case (12 k v ps)
  have "printable (CHR '':'')" by code_simp
  with 12 show ?case by (simp add: json_text_printable)
next
  case 1
  show ?case by code_simp
qed (simp_all add: json_text_printable int_text_printable)

lemma update_snd: "list_all (\<lambda>p. P (snd p)) d \<Longrightarrow> P v \<Longrightarrow> list_all (\<lambda>p. P (snd p)) (AList.update k v d)"
  by (induction d) auto

lemma updates_snd:
  "list_all (\<lambda>p. P (snd p)) ps \<Longrightarrow> list_all (\<lambda>p. P (snd p)) d \<Longrightarrow>
   list_all (\<lambda>p. P (snd p)) (fold (\<lambda>(k, v). AList.update k v) ps d)"
  by (induction ps arbitrary: d) (auto simp: update_snd)

lemma log_document_snd:
  assumes "list_all (\<lambda>p. P (snd p)) (lr_fields r)" and "\<And>s. P (Row_text s)"
  shows "list_all (\<lambda>p. P (snd p)) (log_document timestamp r)"
proof -
  have "list_all (\<lambda>p. P (snd p)) (extra_fields r)" using assms(1) by (auto simp: extra_fields_def list_all_iff)
  then show ?thesis using assms(2)
    by (auto simp: log_document_def own_fields_def Let_def intro!: update_snd updates_snd split: option.split)
qed

text \<open>Nothing that a caller logs, a message with line breaks and quotes for instance, can begin a second line.\<close>

lemma log_line_is_one_line:
  assumes "list_all (\<lambda>p. printable_floats (snd p)) (lr_fields r)"
  shows "list_all printable (format_record timestamp r) \<and> CHR 0x0A \<notin> set (format_record timestamp r)"
proof -
  have "printable_floats (Row_dict (log_document timestamp r))"
    using log_document_snd [of printable_floats r timestamp] assms by simp
  then have "list_all printable (format_record timestamp r)"
    unfolding format_record_def by (rule dump_ordered_printable)
  moreover have "\<not> printable (CHR 0x0A)" by code_simp
  ultimately show ?thesis by (auto simp: list_all_iff)
qed

section \<open>What a line says\<close>

lemma log_document_distinct: "distinct (map fst (log_document timestamp r))"
proof -
  have "distinct (map fst (fold (\<lambda>(k, v). AList.update k v) ps d))" if "distinct (map fst d)"
    for ps and d :: "(string \<times> row_value) list"
    using that by (induction ps arbitrary: d) (auto simp: distinct_update)
  then show ?thesis by (simp add: log_document_def own_fields_def Let_def distinct_update split: option.split)
qed

text \<open>An extra field cannot replace the message; one that is called \<open>timestamp\<close>, \<open>level\<close> or \<open>logger\<close> does replace the
  record's own.\<close>

lemma log_document_fields:
  "map_of (log_document timestamp r) ''message'' = Some (Row_text (lr_message r))"
  "''level'' \<notin> fst ` set (lr_fields r) \<Longrightarrow> map_of (log_document timestamp r) ''level'' = Some (Row_text (lr_levelname r))"
  "lr_fields r = [(''level'', v)] \<Longrightarrow> map_of (log_document timestamp r) ''level'' = Some v"
proof -
  have doc: "map_of (log_document timestamp r) k = (map_of (own_fields timestamp r) ++ map_of (rev (extra_fields r))) k"
    if "k \<noteq> ''exception''" for k
    using that by (simp add: log_document_def Let_def map_of_updates update_conv' split: option.split)
  have own: "map_of (log_document timestamp r) k = map_of (own_fields timestamp r) k"
    if "k \<notin> fst ` set (extra_fields r)" "k \<noteq> ''exception''" for k
  proof -
    have "map_of (rev (extra_fields r)) k = None" using that by (simp add: map_of_eq_None_iff)
    then show ?thesis using doc [OF that(2)] by (simp add: map_add_def)
  qed
  have "''message'' \<notin> fst ` set (extra_fields r)" by (auto simp: extra_fields_def)
  with own [of "''message''"] show "map_of (log_document timestamp r) ''message'' = Some (Row_text (lr_message r))"
    by (simp add: own_fields_def)
  show "map_of (log_document timestamp r) ''level'' = Some (Row_text (lr_levelname r))" if "''level'' \<notin> fst ` set (lr_fields r)"
  proof -
    have "''level'' \<notin> fst ` set (extra_fields r)" using that by (auto simp: extra_fields_def)
    with own [of "''level''"] show ?thesis by (simp add: own_fields_def)
  qed
  show "map_of (log_document timestamp r) ''level'' = Some v" if "lr_fields r = [(''level'', v)]"
  proof -
    have "extra_fields r = [(''level'', v)]" using that by (simp add: extra_fields_def reserved_def)
    with doc [of "''level''"] show ?thesis by simp
  qed
qed

text \<open>A record whose fields are texts reads back as its document.\<close>

fun row_text :: "row_value \<Rightarrow> string option" where
  "row_text (Row_text s) = Some s"
| "row_text (Row_other s) = Some s"
| "row_text _ = None"

lemma dump_ordered_texts:
  "list_all (\<lambda>p. row_text (snd p) \<noteq> None) ps \<Longrightarrow>
   join_comma (dump_ordered_members ps) = json_members (map (\<lambda>(k, v). (k, the (row_text v))) ps)"
proof (induction ps rule: induct_list012)
  case (2 p)
  then show ?case by (cases p; cases "snd p") auto
next
  case (3 p q ps)
  have "dump_ordered v = json_text (the (row_text v))" if "row_text v \<noteq> None" for v
    using that by (cases v) auto
  with 3 show ?case by (cases p; cases q) auto
qed simp

lemma log_line_reads_back:
  assumes "list_all (\<lambda>p. row_text (snd p) \<noteq> None) (lr_fields r)"
  shows "\<exists>p. json_loads (format_record timestamp r) = Some p \<and>
    map_of p = (\<lambda>k. Option.bind (map_of (log_document timestamp r) k) row_text) \<and>
    map_of p ''message'' = Some (lr_message r)"
proof -
  let ?d = "log_document timestamp r" and ?t = "\<lambda>(k, v). (k, the (row_text v))"
  have texts: "list_all (\<lambda>p. row_text (snd p) \<noteq> None) ?d"
    using log_document_snd [of "\<lambda>v. row_text v \<noteq> None" r timestamp] assms by simp
  have keys: "map fst (map ?t ps) = map fst ps" for ps :: "(string \<times> row_value) list"
    by (induction ps) auto
  have line: "format_record timestamp r = CHR 0x7B # json_members (map ?t ?d) @ [CHR 0x7D]"
    by (simp add: format_record_def dump_ordered_texts [OF texts])
  have "distinct (map fst (map ?t ?d))" unfolding keys by (rule log_document_distinct)
  then obtain p where p: "json_loads (format_record timestamp r) = Some p" "map_of p = map_of (map ?t ?d)"
    using json_object_reads unfolding line by blast
  have "map_of (map ?t ps) k = Option.bind (map_of ps k) row_text"
    if "list_all (\<lambda>p. row_text (snd p) \<noteq> None) ps" for ps k
    using that by (induction ps) auto
  then have "map_of p = (\<lambda>k. Option.bind (map_of ?d k) row_text)" using texts unfolding p(2) by (intro ext)
  with p(1) show ?thesis by (simp add: log_document_fields(1))
qed

end
