(* ===== verification/Broker_Rows.thy ===== *)
theory Broker_Rows
  imports Broker_Projections Json Py_Numbers
begin

text \<open>
  The rows of the table \<open>broker_orders\<close> (\<open>packages/broker/projections.py\<close>): what is written for an order, with its legs
  as a JSON document, and how an order is read from its row.  \<open>Broker_Projections\<close> keeps orders where the table has
  rows; the lemmas show that this is the same.  The order that is written is the one that its columns keep
  (\<open>order_columns\<close> of \<open>Broker_Columns\<close>).

  \<open>str_decimal\<close> is \<open>str\<close> of a decimal; the lemmas ask that it can be read back.
\<close>

section \<open>Rows\<close>

record order_row =
  ow_workspace_id :: uuid
  ow_broker_order_id :: string
  ow_client_order_id :: string
  ow_status :: string
  ow_asset_class :: string
  ow_symbol :: "string option"
  ow_side :: "string option"
  ow_order_type :: string
  ow_order_class :: string
  ow_time_in_force :: string
  ow_quantity :: "decimal option"
  ow_filled_quantity :: decimal
  ow_filled_average_price :: "decimal option"
  ow_limit_price :: "decimal option"
  ow_submitted_at :: "instant option"
  ow_created_at :: instant
  ow_updated_at :: "instant option"
  ow_legs :: "json list"

text \<open>\<open>leg.model_dump(mode="json")\<close>: a decimal becomes its text.\<close>

definition leg_json :: "(decimal \<Rightarrow> string) \<Rightarrow> broker_order_leg \<Rightarrow> json" where
  "leg_json str_decimal l = JObject [(''broker_order_id'', JString (bl_broker_order_id l)),
     (''symbol'', JString (bl_symbol l)), (''side'', JString (bl_side l)),
     (''quantity'', case bl_quantity l of None \<Rightarrow> JNull | Some q \<Rightarrow> JString (str_decimal q)),
     (''filled_quantity'', JString (str_decimal (bl_filled_quantity l))), (''status'', JString (bl_status l))]"

definition order_values :: "(decimal \<Rightarrow> string) \<Rightarrow> uuid \<Rightarrow> broker_order \<Rightarrow> order_row" where
  "order_values str_decimal ws o' = \<lparr> ow_workspace_id = ws, ow_broker_order_id = bo_broker_order_id o',
     ow_client_order_id = bo_client_order_id o', ow_status = bo_status o', ow_asset_class = bo_asset_class o',
     ow_symbol = bo_symbol o', ow_side = bo_side o', ow_order_type = bo_order_type o',
     ow_order_class = bo_order_class o', ow_time_in_force = bo_time_in_force o', ow_quantity = bo_quantity o',
     ow_filled_quantity = bo_filled_quantity o', ow_filled_average_price = bo_filled_average_price o',
     ow_limit_price = bo_limit_price o', ow_submitted_at = bo_submitted_at o', ow_created_at = bo_created_at o',
     ow_updated_at = bo_updated_at o', ow_legs = map (leg_json str_decimal) (bo_legs o') \<rparr>"

section \<open>Reading a row\<close>

text \<open>The fields of a leg as pydantic reads them from a dictionary: a text, and a finite decimal from a text or a
  number; \<open>quantity\<close> may be null or missing.\<close>

definition leg_invalid :: py_error where
  "leg_invalid = ValidationError ''BrokerOrder''"

definition text_field :: "(string \<times> json) list \<Rightarrow> string \<Rightarrow> string result" where
  "text_field ps k = (case map_of ps k of Some (JString s) \<Rightarrow> Inr s | _ \<Rightarrow> Inl leg_invalid)"

definition decimal_json :: "json \<Rightarrow> decimal result" where
  "decimal_json v = (case v of
      JNumber n \<Rightarrow> Inr n
    | JString s \<Rightarrow> (case parse_decimal s of Inr (Finite n) \<Rightarrow> Inr n | _ \<Rightarrow> Inl leg_invalid)
    | _ \<Rightarrow> Inl leg_invalid)"

definition leg_of_json :: "json \<Rightarrow> broker_order_leg result" where
  "leg_of_json v = (case v of
      JObject ps \<Rightarrow>
        rbind (text_field ps ''broker_order_id'') (\<lambda>i.
        rbind (text_field ps ''symbol'') (\<lambda>symbol.
        rbind (text_field ps ''side'') (\<lambda>side.
        rbind (case or_else (map_of ps ''quantity'') JNull of JNull \<Rightarrow> Inr None
            | q \<Rightarrow> rbind (decimal_json q) (\<lambda>n. Inr (Some n))) (\<lambda>quantity.
        rbind (decimal_json (or_else (map_of ps ''filled_quantity'') JNull)) (\<lambda>filled.
        rbind (text_field ps ''status'') (\<lambda>status.
          Inr \<lparr> bl_broker_order_id = i, bl_symbol = symbol, bl_side = side, bl_quantity = quantity,
            bl_filled_quantity = filled, bl_status = status \<rparr>))))))
    | _ \<Rightarrow> Inl leg_invalid)"

definition record_to_order :: "order_row \<Rightarrow> broker_order result" where
  "record_to_order item = rbind (rmap leg_of_json (ow_legs item)) (\<lambda>legs.
     Inr \<lparr> bo_broker_order_id = ow_broker_order_id item, bo_client_order_id = ow_client_order_id item,
       bo_status = ow_status item, bo_asset_class = ow_asset_class item, bo_symbol = ow_symbol item,
       bo_side = ow_side item, bo_order_type = ow_order_type item, bo_order_class = ow_order_class item,
       bo_time_in_force = ow_time_in_force item, bo_quantity = ow_quantity item,
       bo_filled_quantity = ow_filled_quantity item, bo_filled_average_price = ow_filled_average_price item,
       bo_limit_price = ow_limit_price item, bo_submitted_at = ow_submitted_at item,
       bo_created_at = ow_created_at item, bo_updated_at = ow_updated_at item, bo_legs = legs \<rparr>)"

definition row_list_orders :: "uuid \<Rightarrow> order_row list \<Rightarrow> broker_order list result" where
  "row_list_orders ws rows =
     rmap record_to_order (sort_key (\<lambda>r. - ow_created_at r) (filter (\<lambda>r. ow_workspace_id r = ws) rows))"

section \<open>Orders come back\<close>

definition readable :: "(decimal \<Rightarrow> string) \<Rightarrow> broker_order \<Rightarrow> bool" where
  "readable str_decimal o' \<longleftrightarrow> list_all (\<lambda>l. list_all (\<lambda>d. parse_decimal (str_decimal d) = Inr (Finite d))
     (bl_filled_quantity l # (case bl_quantity l of None \<Rightarrow> [] | Some q \<Rightarrow> [q]))) (bo_legs o')"

lemma leg_roundtrip:
  assumes "parse_decimal (str_decimal (bl_filled_quantity l)) = Inr (Finite (bl_filled_quantity l))"
    and "\<And>q. bl_quantity l = Some q \<Longrightarrow> parse_decimal (str_decimal q) = Inr (Finite q)"
  shows "leg_of_json (leg_json str_decimal l) = Inr l"
  using assms by (cases "bl_quantity l") (simp_all add: leg_of_json_def leg_json_def text_field_def decimal_json_def)

lemma order_roundtrip:
  assumes "readable str_decimal o'"
  shows "record_to_order (order_values str_decimal ws o') = Inr o'"
proof -
  have "leg_of_json (leg_json str_decimal l) = Inr l" if "l \<in> set (bo_legs o')" for l
    using assms that by (intro leg_roundtrip) (auto simp: readable_def list_all_iff)
  then have "rmap leg_of_json (map (leg_json str_decimal) (bo_legs o')) = Inr (bo_legs o')"
    by (simp add: rmap_Inr_iff list_all2_map1 list_all2_same)
  then show ?thesis by (simp add: record_to_order_def order_values_def)
qed

text \<open>The table with its rows, and the orders of \<open>Broker_Projections\<close>: both list the same orders.\<close>

definition row_of_order :: "(decimal \<Rightarrow> string) \<Rightarrow> uuid \<times> broker_order \<Rightarrow> order_row" where
  "row_of_order str_decimal r = order_values str_decimal (fst r) (snd r)"

lemma rows_list_the_orders:
  assumes "list_all (\<lambda>r. readable str_decimal (snd r)) (bd_orders db)"
  shows "row_list_orders ws (map (row_of_order str_decimal) (bd_orders db)) = Inr (pg_list_orders ws db)"
proof -
  have "filter (\<lambda>r. ow_workspace_id r = ws) (map (row_of_order str_decimal) rows) =
      map (order_values str_decimal ws) (rows_of ws rows)" for rows
    by (induction rows) (auto simp: rows_of_def row_of_order_def order_values_def)
  moreover have "sort_key (\<lambda>r. - ow_created_at r) (map (order_values str_decimal ws) os) =
      map (order_values str_decimal ws) (sort_key (\<lambda>r. - bo_created_at r) os)" for os
    by (rule map_sort_key [symmetric]) (simp add: order_values_def)
  ultimately have "row_list_orders ws (map (row_of_order str_decimal) (bd_orders db)) =
      rmap record_to_order (map (order_values str_decimal ws) (pg_list_orders ws db))"
    by (simp add: row_list_orders_def pg_list_orders_def)
  moreover have "readable str_decimal o'" if "o' \<in> set (pg_list_orders ws db)" for o'
    using assms that by (auto simp: pg_list_orders_def rows_of_def list_all_iff)
  ultimately show ?thesis
    by (auto simp: rmap_Inr_iff list_all2_map1 list_all2_same order_roundtrip)
qed

end
