(* ===== verification/Spec2Isabelle.thy ===== *)
theory Spec2Isabelle
  imports Guardian_Properties Connected_Decisions Desk_Properties Desk_Lists Desk_Steps Accounts_Properties
    Options_Chain_Properties Broker_Adapter_Properties Lab_Properties Lab_Fingerprint Demo_Properties Replay_Properties Platform
    Migration_Properties Worker_Life Application Observability Broker_Rows
begin

text \<open>
  A verification development of AlphaDesk, a desk that researches option trades and executes them on a paper
  brokerage account.  A signal about a stock (\<open>packages/connected\<close>) becomes a trade idea (\<open>packages/strategy\<close>),
  the idea a ranked structure of option legs (\<open>packages/options\<close>), the structure a risk decision
  (\<open>packages/risk\<close>), and an approved decision an immutable order intent (\<open>packages/execution/intents.py\<close>).  A
  person confirms the intent (\<open>apps/api/routes/desk.py\<close>); the execution engine (\<open>packages/execution\<close>) submits it
  once, after asking two gates: the guardian's kill switch (\<open>packages/guardian\<close>) and the broker gate, which
  reads the local projection of the broker's state (\<open>packages/broker\<close>).  The worker (\<open>apps/worker\<close>) keeps that
  projection up to date for every connected workspace and scans the watchlists; accounts, workspaces and
  encrypted credentials (\<open>packages/auth\<close>, \<open>packages/security\<close>) say who may do what.

  \<^bold>\<open>How the code is represented.\<close> A pydantic model is a record with a predicate for its field bounds and
  validators, and constructing it is \<open>validated\<close>.  A function that may raise returns \<open>py_error + 'a\<close>; every
  exception and early return of the code is a branch.  A table is the list of its rows, with the unique keys
  that an insert can violate; a transaction that raises leaves the tables as they were.  What a column cannot
  hold exactly is converted or refused in the broker's tables (\<open>Broker_Columns\<close>), and texts that are too long in
  those of users and workspaces.  Fresh UUIDs and clock readings are arguments, in the order in which the code
  draws them.  A \<open>Decimal\<close> is a rational, rounded after every operation to 28 digits as Python's default context
  does (\<open>Decimal_Arith\<close>).  Python's integers are unbounded and are \<open>int\<close>. Third-party code is an argument: the
  Alpaca SDK, the language model, SHA-256, HMAC, AES-GCM, JWT decoding, HTTP, and the database engine under the
  migrations, which is assumed to do what \<open>Schema\<close> says (the hypothesis \<open>follows\<close>).

  \<^bold>\<open>Theories, in the order of the pipeline.\<close>

  \<^item> Shared: \<open>Prelude\<close> (errors, guards, stable sorting, rewrite collections), \<open>Decimal_Arith\<close> (the locales
    \<open>rounding\<close> and \<open>relative_rounding\<close>, interpreted on \<open>ctx\<close> and \<open>round_places\<close>), \<open>Decimal_Sqrt\<close>, \<open>Py_Text\<close>,
    \<open>Text_Codecs\<close> (JSON, base64, splitting), \<open>Py_Numbers\<close> (reading integers, decimals, UUIDs and time stamps),
    \<open>Json\<close>.
  \<^item> Options: \<open>Options_Domain\<close> (\<open>packages/domain/options.py\<close>), \<open>Options_Engine\<close> (\<open>build_structure\<close>,
    \<open>aggregate_greeks\<close>, \<open>expiration_payoff\<close>), \<open>Liquidity\<close>, and \<open>Options_Chain\<close> (the adapter that reads chains
    page by page).  \<open>Options_Payoff\<close> has the abstract specification \<open>exact_payoff\<close> and its refinement by the
    decimal code; \<open>Options_Bounds\<close> shows that the reported bounds and break-evens are those of the payoff.
  \<^item> Pipeline: \<open>Workflow_Domain\<close>, \<open>Strategy\<close> (all three strategies), \<open>Risk_Engine\<close>, \<open>Order_Intents\<close>.
  \<^item> Execution: \<open>Execution\<close> (the engine over a store; the locale \<open>intent_store\<close> is what it relies on, interpreted on
    the in-memory store and on the table), \<open>Execution_Steps\<close> (tasks interleaved at every \<open>await\<close>, and cancelled
    anywhere), \<open>Execution_Properties\<close>.
  \<^item> Safety: \<open>Guardian\<close> (locale \<open>guardian_store\<close>, both stores), \<open>Broker_Domain\<close>, \<open>Broker_Columns\<close> (what
    \<open>NUMERIC(24, 8)\<close> and \<open>VARCHAR\<close> columns keep of a value), \<open>Broker_Projections\<close> (locale \<open>projection_store\<close>,
    both stores; reconciliation and gate), \<open>Broker_Rows\<close> (the rows of its orders), \<open>Broker_Adapter\<close> (the SDK
    boundary: mapping, orders, look-ups, the stream of trade updates).
  \<^item> Desk: \<open>Connected\<close> (the analysis of a symbol), \<open>Credentials\<close>, \<open>AI_Workflow\<close>, \<open>Desk_State\<close> (the tables and the
    view of one workspace), \<open>Desk\<close>, \<open>Desk_Scans\<close> and \<open>Desk_Orders\<close> (every route of \<open>desk.py\<close>).
  \<^item> Accounts: \<open>Identity\<close> (tokens, the Supabase client), \<open>Accounts\<close> (invitations, registration, workspaces, the
    caller of a request), \<open>Accounts_Api\<close> (the routes).
  \<^item> Worker: \<open>Worker\<close> (start, the loop bodies, the supervisor, the scanner), \<open>Worker_Steps\<close> (the tasks of one
    running workspace, the API and other workspaces interleaved on the projection, as a step relation),
    \<open>Desk_System\<close> (all requests of all users and all actions of the worker in any order on the shared tables,
    each request in one piece), \<open>Desk_Steps\<close> (confirmations in flight, one step per \<open>await\<close>, interleaved with
    each other and with all these actions; a confirmation that nothing interrupts is the endpoint, lemma
    \<open>confirmation_alone\<close>), \<open>Worker_Life\<close> (both loops, and \<open>run\<close> from the checks of the infrastructure to closing
    the bus and the database).
  \<^item> Around it: \<open>Demo\<close> (signed demonstration sessions), \<open>Replay\<close> (the six demonstration scenarios, run
    through the real pipeline), \<open>Lab\<close> and \<open>Lab_Fingerprint\<close> (research metrics), \<open>Platform\<close> (settings, start and end
    of the API, probes, event bus), \<open>Application\<close> (\<open>create_app\<close>: every route with the access it asks for),
    \<open>Observability\<close> (log lines).
  \<^item> Database: \<open>Schema\<close> (what a schema operation does to the tables and to their rows, and when a database is
    well-formed), \<open>Schema_Laws\<close> (every operation keeps it so; the locale \<open>database_steps\<close>), \<open>Migrations\<close> (every
    \<open>upgrade\<close> and \<open>downgrade\<close> of \<open>migrations/versions\<close>, the chain of revisions and the transaction of
    \<open>migrations/env.py\<close>), \<open>Database_Models\<close> (the classes of \<open>packages/database/models.py\<close> and their tables),
    \<open>Schema_Blocks\<close> and \<open>Migration_Schemas\<close> (the schema after each revision), \<open>Migration_Properties\<close>.

  \<^bold>\<open>What the theorems show.\<close> An approval of the risk engine means nine exact inequalities, with the rounding
  error of the percentages written out; for realistic prices the maximum loss that the desk shows is the true
  worst case of the payoff and is reached, and the break-evens are its zeros (\<open>Risk_Properties\<close>,
  \<open>Options_Bounds\<close>).  A client order id reaches the broker at most once under every interleaving and
  cancellation, and the outcome of a call and of a recovery is known on every branch (\<open>Execution_Properties\<close>);
  the same holds of the whole desk (\<open>Desk_System\<close>).  After a halt the engine sends for the workspace only the
  orders that had passed the guardian's check before, whatever is in flight and whatever everybody else does
  (\<open>Desk_Steps\<close>, where it is also shown that such an order does go out, and that closing a position asks no
  gate).  The broker gate of a running workspace is open only while its stream is being read (\<open>Worker_Steps\<close>).
  A halt lasts until a recovery, and a call of the engine that finds it submits nothing
  (\<open>Guardian_Properties\<close>).  The gate opens exactly on a fresh reconciliation with a connected stream, and the
  projection then holds what the SDK reported, up to the eight decimal places of its columns
  (\<open>Broker_Properties\<close>, \<open>Broker_Adapter_Properties\<close>).  A proposed trade is backed by eligible contracts and an
  approving decision; a confirmation passes every gate; one workspace's requests change nothing of another's
  view (\<open>Connected_Decisions\<close>, \<open>Desk_Properties\<close>, \<open>Desk_Tenancy\<close>).  Accounts keep their invariant, and
  registration happens completely or not at all (\<open>Accounts_Properties\<close>).  Secrets, client order ids, invitation
  codes, session tokens and watchlists come back (\<open>Credential_Properties\<close>, \<open>Order_Intents\<close>,
  \<open>Accounts_Properties\<close>, \<open>Demo_Properties\<close>, \<open>Desk_Lists\<close>).  Reading a chain ends exactly when some page is the
  last and then has every page (\<open>Options_Chain_Properties\<close>); a simulation sees nothing of its future and the
  metrics of an equity curve are the stated ones (\<open>Lab_Properties\<close>); the supervisor of the worker runs exactly
  what it should (\<open>Worker_Properties\<close>), and nothing outlives it (\<open>Worker_Life\<close>).  No route under \<open>/api/v1/desk\<close>
  is open without a workspace (\<open>Application\<close>), no logged text can begin a second line (\<open>Observability\<close>).  The
  migrations reach the head from every revision and with whatever rows, where the schema is the one that the
  models declare; a downgrade restores the database exactly, except below revision 0007, where it changes
  nothing; rows of a tenant always belong to a workspace (\<open>Migration_Properties\<close>).  Some theorems show where the
  code falls short of its intention; each says so in its text.

  \<^bold>\<open>Bounds.\<close> The only loop that need not end is the one over the pages of an option chain: it is a partial
  function into options, and \<open>pagination_reads_every_page\<close> says when it returns.  All other definitions are
  total. The walk along the revisions has one unit of fuel per script, and \<open>upgrade_reaches_the_head\<close> shows that
  this is enough.  The payoff is exact for prices of at most four decimal places below the bound in
  \<open>market_price\<close>, which leaves every product within 28 digits; \<open>priced\<close> says the same of legs and quantities.
  \<open>int\<close> refuses more than 4300 digits, as Python does.  Exponents of decimals are not bounded after arithmetic,
  only when a decimal is read; special values (NaN, infinities) are read but do not enter the arithmetic. Twelve
  steps take a confirmation to its end.

  \<^bold>\<open>Not modelled.\<close> The SQL that Alembic writes offline and the connection pool; pydantic's conversions of JSON
  to fields; the lengths of text columns outside the tables named above; how FastAPI dispatches a request to a
  route; waiting, signals and the moment at which a cancellation reaches the worker's loops, which belong to
  asyncio; the interleaving of the requests other than confirmations with themselves.  Texts are taken to be
  ASCII where Python's methods depend on the character.
\<close>

end
